(* ===== verification/Prelude.thy ===== *)
theory Prelude
  imports Main "HOL-Library.Word" "HOL-Library.Multiset"
begin

text \<open>
  Shared vocabulary of the ParaEGOX development: machine integers and byte strings, the
  Rust result type and its combinators, checked arithmetic, big-endian encodings, and
  ordered maps. The collections \<open>checked\<close> and \<open>res_simps\<close> gather the facts that turn
  checked arithmetic into statements about natural numbers and results into statements
  about their successful and failing cases.
\<close>

named_theorems checked \<open>checked machine arithmetic as facts about natural numbers\<close>
named_theorems res_simps \<open>results: when a combinator succeeds and when it fails\<close>

section \<open>Machine types\<close>

type_synonym u8 = "8 word"
type_synonym u16 = "16 word"
type_synonym u32 = "32 word"
type_synonym u64 = "64 word"
type_synonym usize = "64 word"
type_synonym bytes = "u8 list"

text \<open>
  A fixed array \<open>[u8; 16]\<close> or \<open>[u8; 32]\<close> is the word of its big-endian bytes. The
  correspondence is one to one, and the lexicographic order Rust derives for the array is
  the numeric order of the word.
\<close>

type_synonym bytes16 = "128 word"
type_synonym bytes32 = "256 word"

section \<open>Results\<close>

type_synonym ('e, 'a) result = "'e + 'a"

fun and_then :: "'e + 'a \<Rightarrow> ('a \<Rightarrow> 'e + 'b) \<Rightarrow> 'e + 'b" where
  "and_then (Inl e) f = Inl e"
| "and_then (Inr a) f = f a"

fun map_err :: "('e \<Rightarrow> 'f) \<Rightarrow> 'e + 'a \<Rightarrow> 'f + 'a" where
  "map_err g (Inl e) = Inl (g e)"
| "map_err g (Inr a) = Inr a"

fun ok_or :: "'a option \<Rightarrow> 'e \<Rightarrow> 'e + 'a" where
  "ok_or None e = Inl e"
| "ok_or (Some a) e = Inr a"

definition is_ok :: "'e + 'a \<Rightarrow> bool" where
  "is_ok r = (case r of Inl _ \<Rightarrow> False | Inr _ \<Rightarrow> True)"

text \<open>Rust's \<open>?\<close> in a function that owns mutable state: an error keeps the current state.\<close>

fun and_then_st :: "'e + 'a \<Rightarrow> 's \<Rightarrow> ('a \<Rightarrow> ('e + 'b) \<times> 's) \<Rightarrow> ('e + 'b) \<times> 's" where
  "and_then_st (Inl e) s f = (Inl e, s)"
| "and_then_st (Inr a) s f = f a"

text \<open>A call of another method that may change the state before it fails.\<close>

fun bind_st :: "('e + 'a) \<times> 's \<Rightarrow> ('a \<Rightarrow> 's \<Rightarrow> ('e + 'b) \<times> 's) \<Rightarrow> ('e + 'b) \<times> 's" where
  "bind_st (Inl e, s) f = (Inl e, s)"
| "bind_st (Inr a, s) f = f a s"

section \<open>Checked arithmetic\<close>

definition checked_add :: "'w::len word \<Rightarrow> 'w word \<Rightarrow> 'w word option" where
  "checked_add a b = (if unat a + unat b < 2 ^ LENGTH('w) then Some (a + b) else None)"

definition checked_sub :: "'w::len word \<Rightarrow> 'w word \<Rightarrow> 'w word option" where
  "checked_sub a b = (if b \<le> a then Some (a - b) else None)"

definition checked_mul :: "'w::len word \<Rightarrow> 'w word \<Rightarrow> 'w word option" where
  "checked_mul a b = (if unat a * unat b < 2 ^ LENGTH('w) then Some (a * b) else None)"

definition saturating_add :: "'w::len word \<Rightarrow> 'w word \<Rightarrow> 'w word" where
  "saturating_add a b = (if unat a + unat b < 2 ^ LENGTH('w) then a + b else - 1)"

definition saturating_sub :: "'w::len word \<Rightarrow> 'w word \<Rightarrow> 'w word" where
  "saturating_sub a b = (if b \<le> a then a - b else 0)"

text \<open>\<open>u32::try_from\<close> and \<open>u64::try_from\<close> of a collection's length.\<close>

definition try_of_nat :: "nat \<Rightarrow> 'w::len word option" where
  "try_of_nat n = (if n < 2 ^ LENGTH('w) then Some (of_nat n) else None)"

text \<open>\<open>values().try_fold(0, |total, value| total.checked_add(value))\<close>.\<close>

fun try_sum :: "'w::len word \<Rightarrow> 'w word list \<Rightarrow> 'w word option" where
  "try_sum acc [] = Some acc"
| "try_sum acc (x # xs) =
     (case checked_add acc x of None \<Rightarrow> None | Some acc' \<Rightarrow> try_sum acc' xs)"

section \<open>Big-endian encodings\<close>

primrec be_bytes :: "nat \<Rightarrow> 'w::len word \<Rightarrow> bytes" where
  "be_bytes 0 w = []"
| "be_bytes (Suc n) w = be_bytes n (drop_bit 8 w) @ [ucast w]"

definition be_nat :: "bytes \<Rightarrow> nat" where
  "be_nat bs = foldl (\<lambda>acc b. acc * 256 + unat b) 0 bs"

text \<open>\<open>from_be_bytes\<close> of an array.\<close>

definition from_be :: "bytes \<Rightarrow> 'w::len word" where
  "from_be bs = of_nat (be_nat bs)"

abbreviation be_u16 :: "u16 \<Rightarrow> bytes" where "be_u16 \<equiv> be_bytes 2"
abbreviation be_u32 :: "u32 \<Rightarrow> bytes" where "be_u32 \<equiv> be_bytes 4"
abbreviation be_u64 :: "u64 \<Rightarrow> bytes" where "be_u64 \<equiv> be_bytes 8"
abbreviation arr16 :: "bytes16 \<Rightarrow> bytes" where "arr16 \<equiv> be_bytes 16"
abbreviation arr32 :: "bytes32 \<Rightarrow> bytes" where "arr32 \<equiv> be_bytes 32"

definition ascii :: "string \<Rightarrow> bytes" where
  "ascii s = map (of_char :: char \<Rightarrow> u8) s"

section \<open>Ordered maps\<close>

text \<open>
  \<open>BTreeMap\<close> and \<open>BTreeSet\<close> are the ascending list of their entries, which is the order
  their iterators produce.
\<close>

type_synonym ('k, 'v) btree_map = "('k \<times> 'v) list"

definition btree_get :: "('k, 'v) btree_map \<Rightarrow> 'k \<Rightarrow> 'v option" where
  "btree_get m k = map_of m k"

fun btree_insert :: "'k::linorder \<Rightarrow> 'v \<Rightarrow> ('k, 'v) btree_map \<Rightarrow> ('k, 'v) btree_map" where
  "btree_insert k v [] = [(k, v)]"
| "btree_insert k v (e # m) =
     (if fst e < k then e # btree_insert k v m
      else if fst e = k then (k, v) # m
      else (k, v) # e # m)"

definition btree_remove :: "'k \<Rightarrow> ('k, 'v) btree_map \<Rightarrow> ('k, 'v) btree_map" where
  "btree_remove k m = filter (\<lambda>e. fst e \<noteq> k) m"

definition btree_ok :: "('k::linorder, 'v) btree_map \<Rightarrow> bool" where
  "btree_ok m = sorted_wrt (<) (map fst m)"

abbreviation btree_has :: "('k, 'v) btree_map \<Rightarrow> 'k \<Rightarrow> bool" where
  "btree_has m k \<equiv> btree_get m k \<noteq> None"

abbreviation btree_values :: "('k, 'v) btree_map \<Rightarrow> 'v list" where
  "btree_values m \<equiv> map snd m"

text \<open>The accounting view of a map: the sum of a weight over its values.\<close>

definition weight_sum :: "('v \<Rightarrow> nat) \<Rightarrow> ('k \<times> 'v) list \<Rightarrow> nat" where
  "weight_sum w es = sum_list (map (\<lambda>e. w (snd e)) es)"

section \<open>Lemmas on results\<close>

lemma and_then_eq_Inr [res_simps]:
  "and_then m f = Inr b \<longleftrightarrow> (\<exists>a. m = Inr a \<and> f a = Inr b)"
  by (cases m) auto

lemma and_then_eq_Inl [res_simps]:
  "and_then m f = Inl e \<longleftrightarrow> m = Inl e \<or> (\<exists>a. m = Inr a \<and> f a = Inl e)"
  by (cases m) auto

lemma map_err_eq_Inr [res_simps]: "map_err g m = Inr a \<longleftrightarrow> m = Inr a"
  by (cases m) auto

lemma map_err_eq_Inl [res_simps]: "map_err g m = Inl e \<longleftrightarrow> (\<exists>d. m = Inl d \<and> e = g d)"
  by (cases m) auto

lemma ok_or_eq_Inr [res_simps]: "ok_or p e = Inr a \<longleftrightarrow> p = Some a"
  by (cases p) auto

lemma ok_or_eq_Inl [res_simps]: "ok_or p e = Inl d \<longleftrightarrow> p = None \<and> d = e"
  by (cases p) auto

lemma and_then_st_eq_Inr [res_simps]:
  "and_then_st m s f = (Inr b, t) \<longleftrightarrow> (\<exists>a. m = Inr a \<and> f a = (Inr b, t))"
  by (cases m) auto

lemma and_then_st_eq_Inl [res_simps]:
  "and_then_st m s f = (Inl e, t) \<longleftrightarrow>
     (m = Inl e \<and> t = s) \<or> (\<exists>a. m = Inr a \<and> f a = (Inl e, t))"
  by (cases m) auto

lemma bind_st_eq_Inr [res_simps]:
  "bind_st m f = (Inr b, t) \<longleftrightarrow> (\<exists>a s. m = (Inr a, s) \<and> f a s = (Inr b, t))"
  by (cases "(m, f)" rule: bind_st.cases) auto

lemma guard_eq_Inr: "(if c then Inl e else m) = Inr b \<longleftrightarrow> \<not> c \<and> m = Inr b"
  by simp

lemma is_ok_simps [simp]: "is_ok (Inr a)" "\<not> is_ok (Inl e)"
  by (simp_all add: is_ok_def)

lemma is_ok_iff [res_simps]: "is_ok r \<longleftrightarrow> (\<exists>a. r = Inr a)"
  by (cases r) auto

lemma is_ok_unit [res_simps]: "is_ok (r :: 'e + unit) \<longleftrightarrow> r = Inr ()"
  by (cases r) auto

lemma option_eq_by_Some: "(\<And>u. p = Some u \<longleftrightarrow> q = Some u) \<Longrightarrow> p = q"
  by (cases p; cases q) auto

section \<open>Lemmas on checked arithmetic\<close>

lemma unat_bound: "unat (w :: 'w::len word) < 2 ^ LENGTH('w)"
  by (rule unsigned_less)

lemma unat_u64_bound: "unat (w :: u64) < 18446744073709551616"
  using unat_bound [of w] by simp

lemma unat_u32_bound: "unat (w :: u32) < 4294967296"
  using unat_bound [of w] by simp

lemma checked_add_eq_Some [checked]:
  "checked_add a b = Some (c :: 'w::len word) \<longleftrightarrow> unat c = unat a + unat b"
proof
  assume "checked_add a b = Some c"
  then show "unat c = unat a + unat b"
    by (auto simp: checked_add_def unat_word_ariths split: if_splits)
next
  assume eq: "unat c = unat a + unat b"
  then have "unat a + unat b < 2 ^ LENGTH('w)"
    using unat_bound [of c] by simp
  moreover have "c = a + b"
    using eq word_arith_nat_add [of a b] by (simp flip: eq)
  ultimately show "checked_add a b = Some c"
    by (simp add: checked_add_def)
qed

lemma checked_add_eq_None [checked]:
  "checked_add a b = None \<longleftrightarrow> 2 ^ LENGTH('w) \<le> unat (a :: 'w::len word) + unat b"
  by (auto simp: checked_add_def)

lemma checked_sub_eq_Some [checked]:
  "checked_sub a b = Some (c :: 'w::len word) \<longleftrightarrow> unat a = unat b + unat c"
proof
  assume "checked_sub a b = Some c"
  then have "b \<le> a" and "c = a - b"
    by (auto simp: checked_sub_def split: if_splits)
  then show "unat a = unat b + unat c"
    by (simp add: unat_sub word_le_nat_alt)
next
  assume eq: "unat a = unat b + unat c"
  then have "b \<le> a" by (simp add: word_le_nat_alt)
  moreover have "c = a - b"
    using eq \<open>b \<le> a\<close> by (metis add_diff_cancel_left' unat_sub unsigned_word_eqI word_le_nat_alt)
  ultimately show "checked_sub a b = Some c"
    by (simp add: checked_sub_def)
qed

lemma checked_sub_eq_None [checked]:
  "checked_sub a b = None \<longleftrightarrow> unat (a :: 'w::len word) < unat b"
  by (auto simp: checked_sub_def word_le_nat_alt)

lemma unat_saturating_sub [checked]: "unat (saturating_sub a b) = unat a - unat b"
  by (auto simp: saturating_sub_def unat_sub word_le_nat_alt)

lemma checked_mul_fits [checked]:
  "unat a * unat b < 2 ^ LENGTH('w) \<Longrightarrow> checked_mul a b = Some c \<longleftrightarrow> unat (c :: 'w::len word) = unat a * unat b"
  by (auto simp: checked_mul_def unat_word_ariths word_eq_iff_unsigned [where ?'a = nat])

lemma unat_saturating_add [checked]:
  "unat (saturating_add a (b :: 'w::len word)) = min (unat a + unat b) (2 ^ LENGTH('w) - 1)"
  using unat_bound [of "a + b"]
  by (auto simp: saturating_add_def unat_word_ariths unsigned_minus_1_eq_mask mask_eq_exp_minus_1)

lemma try_of_nat_eq_Some [checked]:
  "try_of_nat n = Some (w :: 'w::len word) \<longleftrightarrow> unat w = n"
  using unat_bound [of w] by (auto simp: try_of_nat_def unat_of_nat)

lemma try_of_nat_eq_None [checked]:
  "(try_of_nat n :: 'w::len word option) = None \<longleftrightarrow> 2 ^ LENGTH('w) \<le> n"
  by (auto simp: try_of_nat_def)

lemmas word_nat [checked] = word_le_nat_alt word_less_nat_alt

lemma unat_eq_iff: "(a :: 'w::len word) = b \<longleftrightarrow> unat a = unat b"
  by (simp add: word_eq_iff_unsigned [where ?'a = nat])

lemma unat_max: "unat (- 1 :: 'w::len word) = 2 ^ LENGTH('w) - 1"
  by (simp add: unsigned_minus_1_eq_mask mask_eq_exp_minus_1)

text \<open>The successor of a counter, which fails only at the largest value.\<close>

lemma checked_succ: "checked_add (w :: 'w::len word) 1 = (if w = - 1 then None else Some (w + 1))"
proof -
  have "w = - 1 \<longleftrightarrow> unat w = 2 ^ LENGTH('w) - 1"
    by (metis unat_eq_iff unat_max)
  moreover have "unat w < 2 ^ LENGTH('w)" by (rule unat_bound)
  ultimately have "unat w + 1 < 2 ^ LENGTH('w) \<longleftrightarrow> w \<noteq> - 1" by linarith
  then show ?thesis by (simp add: checked_add_def)
qed

lemma succ_greater: "w \<noteq> - 1 \<Longrightarrow> (w :: 'w::len word) < w + 1"
  using checked_succ [of w] by (auto simp: checked_add_eq_Some word_less_nat_alt)

lemma unat_succ: "w \<noteq> - 1 \<Longrightarrow> unat ((w :: 'w::len word) + 1) = unat w + 1"
  using checked_succ [of w] by (simp add: checked_add_eq_Some)

lemma unat_of_nat_u32: "n < 2 ^ 32 \<Longrightarrow> unat (word_of_nat n :: u32) = n"
  by (simp add: unat_of_nat)

lemma checked_add_fits:
  "unat a + unat c < 2 ^ LENGTH('w) \<Longrightarrow> checked_add a (c :: 'w::len word) = Some (a + c)"
  by (simp add: checked_add_def)

lemma try_sum_eq_Some [checked]:
  "try_sum acc xs = Some t \<longleftrightarrow> unat t = unat acc + sum_list (map unat xs)"
proof (induction xs arbitrary: acc)
  case Nil
  then show ?case by (auto simp: unat_eq_iff)
next
  case (Cons x xs)
  show ?case
  proof (cases "checked_add acc x")
    case None
    then have "2 ^ LENGTH('a) \<le> unat acc + unat x" by (simp add: checked)
    then have "unat t \<noteq> unat acc + (unat x + sum_list (map unat xs))"
      using unat_bound [of t] by linarith
    with None show ?thesis by simp
  next
    case (Some acc')
    then have "unat acc' = unat acc + unat x" by (simp add: checked)
    with Some Cons.IH [of acc'] show ?thesis by (simp add: add.assoc)
  qed
qed

section \<open>Lemmas on encodings\<close>

lemma length_be_bytes [simp]: "length (be_bytes n w) = n"
  by (induction n arbitrary: w) auto

lemma be_nat_snoc [simp]: "be_nat (bs @ [b]) = be_nat bs * 256 + unat b"
  by (simp add: be_nat_def)

lemma be_nat_be_bytes: "be_nat (be_bytes n w) = unat w mod 256 ^ n"
proof (induction n arbitrary: w)
  case 0
  then show ?case by (simp add: be_nat_def)
next
  case (Suc n)
  have low: "unat (ucast w :: u8) = unat w mod 256"
    by (simp add: unsigned_ucast_eq unsigned_take_bit_eq take_bit_eq_mod)
  have high: "unat (drop_bit 8 w) = unat w div 256"
    unfolding unat_drop_bit_eq by (simp add: drop_bit_eq_div)
  have "unat w mod (256 * 256 ^ n) = 256 * (unat w div 256 mod 256 ^ n) + unat w mod 256"
    by (rule mod_mult2_eq)
  then show ?case
    by (simp add: Suc.IH low high)
qed

lemma be_bytes_inject:
  assumes "LENGTH('w) \<le> 8 * n" and "be_bytes n (v :: 'w::len word) = be_bytes n w"
  shows "v = w"
proof -
  have bound: "unat x < 256 ^ n" for x :: "'w word"
  proof -
    have "(2::nat) ^ LENGTH('w) \<le> 2 ^ (8 * n)"
      using assms(1) by (simp add: power_increasing)
    also have "(2::nat) ^ (8 * n) = 256 ^ n"
      by (simp add: power_mult)
    finally show ?thesis using unat_bound [of x] by linarith
  qed
  have "unat v mod 256 ^ n = unat w mod 256 ^ n"
    using assms(2) be_nat_be_bytes by metis
  then show ?thesis
    using bound by (simp add: unat_eq_iff)
qed

lemma be_u16_inject [simp]: "be_u16 v = be_u16 w \<longleftrightarrow> v = w"
  using be_bytes_inject [of 2 v w] by auto

lemma be_u32_inject [simp]: "be_u32 v = be_u32 w \<longleftrightarrow> v = w"
  using be_bytes_inject [of 4 v w] by auto

lemma be_u64_inject [simp]: "be_u64 v = be_u64 w \<longleftrightarrow> v = w"
  using be_bytes_inject [of 8 v w] by auto

lemma arr16_inject [simp]: "arr16 v = arr16 w \<longleftrightarrow> v = w"
  using be_bytes_inject [of 16 v w] by auto

lemma arr32_inject [simp]: "arr32 v = arr32 w \<longleftrightarrow> v = w"
  using be_bytes_inject [of 32 v w] by auto

lemma from_be_be_bytes:
  assumes "LENGTH('w) \<le> 8 * n"
  shows "from_be (be_bytes n (w :: 'w::len word)) = w"
proof -
  have "(2::nat) ^ LENGTH('w) \<le> 2 ^ (8 * n)" using assms by (simp add: power_increasing)
  then have "(2::nat) ^ LENGTH('w) \<le> 256 ^ n" by (simp add: power_mult)
  with unat_bound [of w] have "unat w < 256 ^ n" by linarith
  then show ?thesis by (simp add: from_be_def be_nat_be_bytes)
qed

lemma from_be_read [simp]:
  "from_be (be_u16 a) = a" "from_be (be_u32 b) = b" "from_be (be_u64 c) = c"
  "from_be (arr16 d) = d" "from_be (arr32 e) = e"
  by (simp_all add: from_be_be_bytes)

lemma be_nat_less: "be_nat bs < 256 ^ length bs"
proof (induction bs rule: rev_induct)
  case (snoc b bs)
  have "unat b < 256" using unat_bound [of b] by simp
  with snoc show ?case by simp
qed (simp add: be_nat_def)

lemma be_nat_inject: "length bs = length cs \<Longrightarrow> be_nat bs = be_nat cs \<Longrightarrow> bs = cs"
proof (induction bs arbitrary: cs rule: rev_induct)
  case (snoc b bs)
  then obtain c cs' where cs: "cs = cs' @ [c]" by (cases cs rule: rev_exhaust) auto
  have "unat b < 256" "unat c < 256" using unat_bound [of b] unat_bound [of c] by simp_all
  moreover have eq: "be_nat bs * 256 + unat b = be_nat cs' * 256 + unat c" using snoc.prems cs by simp
  moreover have "(be_nat bs * 256 + unat b) div 256 = (be_nat cs' * 256 + unat c) div 256" by (simp only: eq)
  ultimately have *: "be_nat bs = be_nat cs'" by simp
  with eq have "unat b = unat c" by simp
  with * snoc cs show ?case by (simp add: unat_eq_iff)
qed simp

text \<open>Reading an array back gives the bytes it was read from.\<close>

lemma be_bytes_from_be:
  assumes "LENGTH('w) = 8 * length bs"
  shows "be_bytes (length bs) (from_be bs :: 'w::len word) = bs"
proof (rule be_nat_inject)
  have "(2::nat) ^ LENGTH('w) = 256 ^ length bs" by (simp add: assms power_mult)
  with be_nat_less [of bs] show "be_nat (be_bytes (length bs) (from_be bs :: 'w word)) = be_nat bs"
    by (simp add: be_nat_be_bytes from_be_def unat_of_nat)
qed simp

lemma from_be_iff:
  "length a = 2 \<Longrightarrow> from_be a = v \<longleftrightarrow> a = be_u16 v" "length b = 4 \<Longrightarrow> from_be b = w \<longleftrightarrow> b = be_u32 w"
  using be_bytes_from_be [of a, where 'w = 16] be_bytes_from_be [of b, where 'w = 32] by auto

lemma be_nat_zero: "list_all (\<lambda>b. b = 0) bs \<Longrightarrow> be_nat bs = 0"
  by (induction bs rule: rev_induct) (simp_all add: be_nat_def)

lemma be_bytes_zero [simp]: "list_all (\<lambda>b. b = 0) (be_bytes n (0 :: 'w::len word))"
  by (induction n) simp_all

lemma be_bytes_all_zero:
  assumes "LENGTH('w) \<le> 8 * n"
  shows "list_all (\<lambda>b. b = 0) (be_bytes n (w :: 'w::len word)) \<longleftrightarrow> w = 0"
proof
  assume "list_all (\<lambda>b. b = 0) (be_bytes n w)"
  then have "from_be (be_bytes n w) = (0 :: 'w word)" by (simp add: from_be_def be_nat_zero)
  then show "w = 0" using from_be_be_bytes [OF assms, of w] by simp
qed simp

lemma array_all_zero [simp]:
  "list_all (\<lambda>b. b = 0) (arr16 d) \<longleftrightarrow> d = 0" "list_all (\<lambda>b. b = 0) (arr32 e) \<longleftrightarrow> e = 0"
  by (simp_all add: be_bytes_all_zero)

declare be_bytes.simps [simp del]

section \<open>Ordered maps: the interface and its clients\<close>

locale ordered_map =
  fixes get :: "'m \<Rightarrow> 'k::linorder \<Rightarrow> 'v option"
    and insert_entry :: "'k \<Rightarrow> 'v \<Rightarrow> 'm \<Rightarrow> 'm"
    and remove_entry :: "'k \<Rightarrow> 'm \<Rightarrow> 'm"
    and entries :: "'m \<Rightarrow> ('k \<times> 'v) list"
    and ok :: "'m \<Rightarrow> bool"
  assumes get_entries: "ok m \<Longrightarrow> get m k = map_of (entries m) k"
    and distinct_keys: "ok m \<Longrightarrow> distinct (map fst (entries m))"
    and ok_insert: "ok m \<Longrightarrow> ok (insert_entry k v m)"
    and ok_remove: "ok m \<Longrightarrow> ok (remove_entry k m)"
    and insert_fresh: "ok m \<Longrightarrow> get m k = None \<Longrightarrow>
          mset (entries (insert_entry k v m)) = add_mset (k, v) (mset (entries m))"
    and remove_present: "ok m \<Longrightarrow> get m k = Some v \<Longrightarrow>
          mset (entries m) = add_mset (k, v) (mset (entries (remove_entry k m)))"
begin

lemma set_insert_fresh:
  "ok m \<Longrightarrow> get m k = None \<Longrightarrow>
     set (entries (insert_entry k v m)) = insert (k, v) (set (entries m))"
  by (drule (1) insert_fresh [of _ _ v], drule arg_cong [where f = set_mset], simp)

lemma set_remove_present:
  "ok m \<Longrightarrow> get m k = Some v \<Longrightarrow>
     set (entries m) = insert (k, v) (set (entries (remove_entry k m)))"
  by (drule (1) remove_present, drule arg_cong [where f = set_mset], simp)

lemma weight_insert:
  assumes "ok m" and "get m k = None"
  shows "weight_sum w (entries (insert_entry k v m)) = weight_sum w (entries m) + w v"
  using arg_cong [OF insert_fresh [OF assms], of "\<lambda>M. \<Sum>e\<in>#M. w (snd e)"]
  by (simp add: weight_sum_def sum_mset_sum_list flip: mset_map)

lemma weight_remove:
  assumes "ok m" and "get m k = Some v"
  shows "weight_sum w (entries m) = weight_sum w (entries (remove_entry k m)) + w v"
  using arg_cong [OF remove_present [OF assms], of "\<lambda>M. \<Sum>e\<in>#M. w (snd e)"]
  by (simp add: weight_sum_def sum_mset_sum_list flip: mset_map)

lemma length_insert:
  assumes "ok m" and "get m k = None"
  shows "length (entries (insert_entry k v m)) = Suc (length (entries m))"
  using arg_cong [OF insert_fresh [OF assms], of size] by simp

lemma length_remove:
  assumes "ok m" and "get m k = Some v"
  shows "length (entries m) = Suc (length (entries (remove_entry k m)))"
  using arg_cong [OF remove_present [OF assms], of size] by simp

lemma get_iff: "ok m \<Longrightarrow> get m k = Some v \<longleftrightarrow> (k, v) \<in> set (entries m)"
  by (simp add: get_entries distinct_keys)

lemma get_insert_fresh:
  assumes "ok m" and "get m k = None"
  shows "get (insert_entry k v m) = (get m)(k \<mapsto> v)"
proof (intro ext option_eq_by_Some)
  fix j u
  have "get (insert_entry k v m) j = Some u \<longleftrightarrow> (j, u) = (k, v) \<or> get m j = Some u"
    by (simp add: get_iff assms ok_insert set_insert_fresh)
  then show "get (insert_entry k v m) j = Some u \<longleftrightarrow> ((get m)(k \<mapsto> v)) j = Some u"
    using assms(2) by auto
qed

lemma get_remove_present:
  assumes "ok m" and "get m k = Some v"
  shows "get (remove_entry k m) = (get m)(k := None)"
proof (intro ext option_eq_by_Some)
  fix j u
  let ?r = "remove_entry k m"
  have "mset (map fst (entries m)) = add_mset k (mset (map fst (entries ?r)))"
    using arg_cong [OF remove_present [OF assms], of "image_mset fst"] by simp
  then have "distinct (map fst (entries m)) = distinct (k # map fst (entries ?r))"
    by (intro mset_eq_imp_distinct_iff) simp
  then have "k \<notin> fst ` set (entries ?r)"
    using distinct_keys [OF assms(1)] by simp
  then have gone: "(k, u) \<notin> set (entries ?r)" for u
    by force
  show "get ?r j = Some u \<longleftrightarrow> ((get m)(k := None)) j = Some u"
    using gone by (auto simp: get_iff assms(1) ok_remove set_remove_present [OF assms])
qed

end

section \<open>Ordered maps: the entry list is an ordered map\<close>

lemma set_btree_insert:
  "set (map fst (btree_insert k v m)) = insert k (set (map fst m))"
  by (induction m) auto

lemma btree_ok_insert: "btree_ok m \<Longrightarrow> btree_ok (btree_insert k v m)"
proof (induction m)
  case (Cons e m)
  then show ?case
    using set_btree_insert [of k v m] by (fastforce simp: btree_ok_def)
qed (simp add: btree_ok_def)

lemma btree_ok_remove: "btree_ok m \<Longrightarrow> btree_ok (btree_remove k m)"
  by (induction m) (auto simp: btree_ok_def btree_remove_def)

lemma btree_ok_distinct: "btree_ok m \<Longrightarrow> distinct (map fst m)"
  by (induction m) (auto simp: btree_ok_def)

lemma mset_btree_insert:
  "btree_get m k = None \<Longrightarrow> mset (btree_insert k v m) = add_mset (k, v) (mset m)"
  by (induction m) (auto simp: btree_get_def split: if_splits)

lemma mset_btree_remove:
  "distinct (map fst m) \<Longrightarrow> btree_get m k = Some v \<Longrightarrow>
     mset m = add_mset (k, v) (mset (btree_remove k m))"
proof (induction m)
  case (Cons e m)
  show ?case
  proof (cases "fst e = k")
    case True
    then have "k \<notin> fst ` set m"
      using Cons.prems(1) by simp
    then have "filter (\<lambda>e. fst e \<noteq> k) m = m"
      by (intro filter_True) auto
    with True Cons.prems(2) show ?thesis
      by (cases e) (auto simp: btree_get_def btree_remove_def)
  next
    case False
    with Cons show ?thesis
      by (cases e) (auto simp: btree_get_def btree_remove_def)
  qed
qed (simp add: btree_get_def)

interpretation btree: ordered_map btree_get btree_insert btree_remove "\<lambda>m. m" btree_ok
proof unfold_locales
  show "btree_ok m \<Longrightarrow> btree_get m k = map_of m k" for m :: "('a \<times> 'b) list" and k
    by (simp add: btree_get_def)
  show "btree_ok m \<Longrightarrow> distinct (map fst m)" for m :: "('a \<times> 'b) list"
    by (rule btree_ok_distinct)
  show "btree_ok m \<Longrightarrow> btree_ok (btree_insert k v m)" for m :: "('a \<times> 'b) list" and k v
    by (rule btree_ok_insert)
  show "btree_ok m \<Longrightarrow> btree_ok (btree_remove k m)" for m :: "('a \<times> 'b) list" and k
    by (rule btree_ok_remove)
  show "btree_get m k = None \<Longrightarrow> mset (btree_insert k v m) = add_mset (k, v) (mset m)"
    for m :: "('a \<times> 'b) list" and k v
    by (rule mset_btree_insert)
  show "btree_ok m \<Longrightarrow> btree_get m k = Some v \<Longrightarrow>
      mset m = add_mset (k, v) (mset (btree_remove k m))"
    for m :: "('a \<times> 'b) list" and k v
    by (intro mset_btree_remove btree_ok_distinct)
qed

lemma btree_ok_Nil [simp]: "btree_ok []"
  by (simp add: btree_ok_def)

lemma btree_get_Nil [simp]: "btree_get [] k = None"
  by (simp add: btree_get_def)

lemma weight_sum_Nil [simp]: "weight_sum w [] = 0"
  by (simp add: weight_sum_def)

lemma weight_sum_values: "sum_list (map unat (map f (btree_values m))) = weight_sum (\<lambda>v. unat (f v)) m"
  by (simp add: weight_sum_def comp_def)

lemma btree_get_key: "btree_get m k = Some v \<Longrightarrow> k \<in> fst ` set m"
  by (force simp: btree_get_def dest: map_of_SomeD)

lemma btree_get_None_iff: "btree_get m k = None \<longleftrightarrow> k \<notin> fst ` set m"
  by (simp add: btree_get_def map_of_eq_None_iff)

lemma btree_get_insert: "btree_ok m \<Longrightarrow> btree_get (btree_insert k v m) = (btree_get m)(k \<mapsto> v)"
proof (induction m)
  case (Cons e m)
  then show ?case by (cases e) (auto simp: btree_get_def btree_ok_def fun_eq_iff)
qed (auto simp: btree_get_def)

lemma btree_insert_same: "btree_ok m \<Longrightarrow> btree_get m k = Some v \<Longrightarrow> btree_insert k v m = m"
proof (induction m)
  case (Cons e m)
  have "\<not> fst e < k \<Longrightarrow> fst e = k"
    using Cons.prems by (cases e) (auto simp: btree_get_def btree_ok_def split: if_splits dest!: map_of_SomeD)
  with Cons show ?case
    by (cases e) (auto simp: btree_get_def btree_ok_def split: if_splits)
qed simp

lemma length_btree_insert:
  "btree_ok m \<Longrightarrow> length (btree_insert k v m) = (if btree_has m k then length m else Suc (length m))"
proof (induction m)
  case (Cons e m)
  have "k \<notin> fst ` set m" if "k \<le> fst e"
    using that Cons.prems by (auto simp: btree_ok_def)
  with Cons show ?case
    by (cases e) (auto simp: btree_get_None_iff [unfolded btree_get_def] btree_get_def btree_ok_def not_less split: if_splits)
qed simp

end
