(* ===== verification/Kernel_Digest.thy ===== *)
theory Kernel_Digest
  imports Prelude
begin

text \<open>
  Canonical, domain-separated digests, \<open>crates/paraegox-kernel/src/digest.rs\<close>. The
  incremental SHA-256 state of the builder is the byte string absorbed so far, and the
  compression of a whole byte string is the parameter \<open>sha256\<close>, since the \<open>sha2\<close> crate
  is not part of the repository. \<open>field_all\<close> is a run of \<open>field_*\<close> calls joined with
  \<open>?\<close>, the shape every caller of the builder has.
\<close>

section \<open>The builder\<close>

type_synonym Digest32 = bytes32

definition FORMAT_MAGIC :: bytes where
  "FORMAT_MAGIC = ascii ''ParaEGOX'' @ [0] @ ascii ''canonical-digest''"

definition FORMAT_VERSION :: u16 where "FORMAT_VERSION = 1"
definition FIELD_MARKER :: u8 where "FIELD_MARKER = 1"
definition END_MARKER :: u8 where "END_MARKER = 255"

datatype DigestBuildError = EmptyDomain | DomainTooLong | TooManyFields | FieldTooLong

record Digest32Builder =
  hasher :: bytes
  field_count :: u32

definition digest_try_new :: "bytes \<Rightarrow> DigestBuildError + Digest32Builder" where
  "digest_try_new domain =
     (if domain = [] then Inl EmptyDomain
      else and_then (ok_or (try_of_nat (length domain)) DomainTooLong) (\<lambda>domain_length.
        Inr \<lparr>hasher = FORMAT_MAGIC @ be_u16 FORMAT_VERSION @ be_u32 domain_length @ domain,
             field_count = 0\<rparr>))"

definition field_bytes :: "bytes \<Rightarrow> Digest32Builder \<Rightarrow> DigestBuildError + Digest32Builder" where
  "field_bytes bs self =
     and_then (ok_or (checked_add (field_count self) 1) TooManyFields) (\<lambda>ordinal.
     and_then (ok_or (try_of_nat (length bs)) FieldTooLong) (\<lambda>len :: u64.
       Inr \<lparr>hasher = hasher self @ [FIELD_MARKER] @ be_u32 ordinal @ be_u64 len @ bs,
            field_count = ordinal\<rparr>))"

definition field_u16 :: "u16 \<Rightarrow> Digest32Builder \<Rightarrow> DigestBuildError + Digest32Builder" where
  "field_u16 value = field_bytes (be_u16 value)"

definition field_u64 :: "u64 \<Rightarrow> Digest32Builder \<Rightarrow> DigestBuildError + Digest32Builder" where
  "field_u64 value = field_bytes (be_u64 value)"

definition field_digest :: "Digest32 \<Rightarrow> Digest32Builder \<Rightarrow> DigestBuildError + Digest32Builder" where
  "field_digest value = field_bytes (arr32 value)"

text \<open>The bytes hashed by \<open>finish\<close>, and \<open>finish\<close> itself.\<close>

definition transcript :: "Digest32Builder \<Rightarrow> bytes" where
  "transcript self = hasher self @ [END_MARKER] @ be_u32 (field_count self)"

definition finish :: "(bytes \<Rightarrow> Digest32) \<Rightarrow> Digest32Builder \<Rightarrow> Digest32" where
  "finish sha256 self = sha256 (transcript self)"

fun field_all ::
  "(Digest32Builder \<Rightarrow> DigestBuildError + Digest32Builder) list \<Rightarrow> Digest32Builder
     \<Rightarrow> DigestBuildError + Digest32Builder" where
  "field_all [] self = Inr self"
| "field_all (f # fs) self = and_then (f self) (field_all fs)"

definition build_digest ::
  "(bytes \<Rightarrow> Digest32) \<Rightarrow> bytes \<Rightarrow>
   (Digest32Builder \<Rightarrow> DigestBuildError + Digest32Builder) list \<Rightarrow> DigestBuildError + Digest32" where
  "build_digest sha256 domain calls =
     and_then (digest_try_new domain) (\<lambda>builder.
     and_then (field_all calls builder) (\<lambda>builder. Inr (finish sha256 builder)))"

section \<open>The byte stream of a field sequence\<close>

fun field_stream :: "u32 \<Rightarrow> bytes list \<Rightarrow> bytes" where
  "field_stream k [] = []"
| "field_stream k (f # fs) =
     [FIELD_MARKER] @ be_u32 (k + 1) @ be_u64 (of_nat (length f)) @ f @ field_stream (k + 1) fs"

definition digest_stream :: "bytes \<Rightarrow> bytes list \<Rightarrow> bytes" where
  "digest_stream domain fs =
     FORMAT_MAGIC @ be_u16 FORMAT_VERSION @ be_u32 (of_nat (length domain)) @ domain @
     field_stream 0 fs @ [END_MARKER] @ be_u32 (of_nat (length fs))"

definition digestible :: "bytes \<Rightarrow> bytes list \<Rightarrow> bool" where
  "digestible domain fs \<longleftrightarrow>
     domain \<noteq> [] \<and> length domain < 2 ^ 32 \<and> length fs < 2 ^ 32 \<and> (\<forall>f \<in> set fs. length f < 2 ^ 64)"

lemma field_bytes_within:
  "unat (field_count b) + 1 < 2 ^ 32 \<Longrightarrow> length bs < 2 ^ 64 \<Longrightarrow>
     field_bytes bs b = Inr \<lparr>hasher = hasher b @ [FIELD_MARKER] @ be_u32 (field_count b + 1)
                                @ be_u64 (of_nat (length bs)) @ bs,
                             field_count = field_count b + 1\<rparr>"
  by (simp add: field_bytes_def checked_add_def try_of_nat_def)

lemma field_all_within:
  assumes "unat (field_count b) + length fs < 2 ^ 32" and "\<forall>f \<in> set fs. length f < 2 ^ 64"
  shows "field_all (map field_bytes fs) b =
           Inr \<lparr>hasher = hasher b @ field_stream (field_count b) fs,
                field_count = field_count b + of_nat (length fs)\<rparr>"
  using assms
proof (induction fs arbitrary: b)
  case Nil
  then show ?case by simp
next
  case (Cons f fs)
  let ?b = "\<lparr>hasher = hasher b @ [FIELD_MARKER] @ be_u32 (field_count b + 1)
               @ be_u64 (of_nat (length f)) @ f, field_count = field_count b + 1\<rparr>"
  have step: "field_bytes f b = Inr ?b"
    using Cons.prems by (intro field_bytes_within) simp_all
  have "unat (field_count b + 1) = unat (field_count b) + 1"
    using Cons.prems(1) by (simp add: unat_word_ariths)
  then have "field_all (map field_bytes fs) ?b =
      Inr \<lparr>hasher = hasher ?b @ field_stream (field_count ?b) fs,
           field_count = field_count ?b + of_nat (length fs)\<rparr>"
    using Cons.prems by (intro Cons.IH) simp_all
  with step show ?case by (simp add: add.assoc)
qed

lemma build_digest_within:
  assumes "digestible domain fs"
  shows "build_digest sha256 domain (map field_bytes fs) = Inr (sha256 (digest_stream domain fs))"
proof -
  let ?b = "\<lparr>hasher = FORMAT_MAGIC @ be_u16 FORMAT_VERSION @ be_u32 (of_nat (length domain)) @ domain,
             field_count = 0\<rparr>"
  have "digest_try_new domain = Inr ?b"
    using assms by (simp add: digestible_def digest_try_new_def try_of_nat_def)
  moreover have "field_all (map field_bytes fs) ?b =
      Inr \<lparr>hasher = hasher ?b @ field_stream 0 fs, field_count = of_nat (length fs)\<rparr>"
    using field_all_within [of ?b fs] assms by (simp add: digestible_def)
  ultimately show ?thesis
    by (simp add: build_digest_def finish_def transcript_def digest_stream_def)
qed

lemma field_stream_inject:
  assumes "field_stream k fs @ [END_MARKER] @ t = field_stream k gs @ [END_MARKER] @ t'"
    and "\<forall>f \<in> set fs. length f < 2 ^ 64" and "\<forall>g \<in> set gs. length g < 2 ^ 64"
  shows "fs = gs"
  using assms
proof (induction fs arbitrary: k gs)
  case Nil
  then show ?case by (cases gs) (simp_all add: END_MARKER_def FIELD_MARKER_def)
next
  case (Cons f fs)
  then obtain g gs' where gs: "gs = g # gs'"
    by (cases gs) (simp_all add: END_MARKER_def FIELD_MARKER_def)
  have eq: "be_u64 (of_nat (length f)) @ f @ field_stream (k + 1) fs @ [END_MARKER] @ t =
            be_u64 (of_nat (length g)) @ g @ field_stream (k + 1) gs' @ [END_MARKER] @ t'"
    using Cons.prems(1) gs by simp
  then have "be_u64 (of_nat (length f)) = be_u64 (of_nat (length g))"
    and rest: "f @ field_stream (k + 1) fs @ [END_MARKER] @ t =
               g @ field_stream (k + 1) gs' @ [END_MARKER] @ t'"
    by (simp_all only: append_eq_append_conv length_be_bytes disj_not1 simp_thms)
  then have "(of_nat (length f) :: u64) = of_nat (length g)" by simp
  then have "unat (of_nat (length f) :: u64) = unat (of_nat (length g) :: u64)" by simp
  then have "length f = length g"
    using Cons.prems(2,3) gs by (simp add: unat_of_nat)
  with rest have "f = g" and "field_stream (k + 1) fs @ [END_MARKER] @ t =
               field_stream (k + 1) gs' @ [END_MARKER] @ t'"
    by simp_all
  with Cons gs show ?case by simp
qed

lemma digest_stream_inject:
  assumes "digestible d fs" and "digestible d' fs'"
    and eq: "digest_stream d fs = digest_stream d' fs'"
  shows "d = d' \<and> fs = fs'"
proof -
  have "be_u32 (of_nat (length d)) = be_u32 (of_nat (length d'))"
    and rest: "d @ field_stream 0 fs @ [END_MARKER] @ be_u32 (of_nat (length fs)) =
               d' @ field_stream 0 fs' @ [END_MARKER] @ be_u32 (of_nat (length fs'))"
    using eq by (simp_all add: digest_stream_def)
  then have "unat (of_nat (length d) :: u32) = unat (of_nat (length d') :: u32)" by simp
  then have "length d = length d'"
    using assms(1,2) by (simp add: digestible_def unat_of_nat)
  with rest have "d = d'" and "field_stream 0 fs @ [END_MARKER] @ be_u32 (of_nat (length fs)) =
               field_stream 0 fs' @ [END_MARKER] @ be_u32 (of_nat (length fs'))"
    by simp_all
  with assms(1,2) field_stream_inject show ?thesis
    by (meson digestible_def)
qed

lemma field_all_limits:
  assumes "field_all (map field_bytes fs) b = Inr b'"
  shows "unat (field_count b) + length fs < 2 ^ 32 \<and> (\<forall>f \<in> set fs. length f < 2 ^ 64)"
  using assms
proof (induction fs arbitrary: b)
  case Nil
  then show ?case using unat_u32_bound [of "field_count b"] by simp
next
  case (Cons f fs)
  then obtain c where c: "field_bytes f b = Inr c" and rest: "field_all (map field_bytes fs) c = Inr b'"
    by (auto simp: res_simps)
  from c have "unat (field_count c) = unat (field_count b) + 1" and "length f < 2 ^ 64"
    by (auto simp: field_bytes_def res_simps checked_add_eq_Some try_of_nat_def split: if_splits)
  with Cons.IH [OF rest] show ?case by simp
qed

section \<open>Properties\<close>

text \<open>
  The canonical format is unambiguous: two digests built over different domains or
  different field sequences (each within the format's length limits) come from different
  hashed byte strings, so if the digests agree the two transcripts are a collision of the
  hash. Field boundaries, field order, field count and the domain are all committed.
\<close>

lemma canonical_digest_binds:
  assumes "digestible d fs" and "digestible d' fs'" and "(d, fs) \<noteq> (d', fs')"
    and "build_digest sha256 d (map field_bytes fs) = build_digest sha256 d' (map field_bytes fs')"
  shows "digest_stream d fs \<noteq> digest_stream d' fs' \<and>
         sha256 (digest_stream d fs) = sha256 (digest_stream d' fs')"
  using assms digest_stream_inject [of d fs d' fs'] by (auto simp: build_digest_within)

text \<open>
  The builder succeeds exactly within the format's limits and fails closed outside
  them: an empty domain, a domain of \<open>2^32\<close> bytes or more, \<open>2^32\<close> fields or more, or a
  field of \<open>2^64\<close> bytes or more is an error, and never a truncated length or a wrapped
  ordinal.
\<close>

theorem build_digest_limits:
  "is_ok (build_digest sha256 domain (map field_bytes fs)) \<longleftrightarrow> digestible domain fs"
proof
  assume "is_ok (build_digest sha256 domain (map field_bytes fs))"
  then obtain b b' where b: "digest_try_new domain = Inr b"
    and fs: "field_all (map field_bytes fs) b = Inr b'"
    by (auto simp: is_ok_iff build_digest_def res_simps)
  from b have "domain \<noteq> []" and "length domain < 2 ^ 32" and "field_count b = 0"
    by (auto simp: digest_try_new_def res_simps try_of_nat_def split: if_splits)
  with field_all_limits [OF fs] show "digestible domain fs"
    by (simp add: digestible_def)
qed (simp add: build_digest_within)

end
