(* ===== verification/Contracts_Provenance.thy ===== *)
theory Contracts_Provenance
  imports Kernel_Digest
begin

text \<open>
  Source-plan provenance and the commitment to one target's slice,
  \<open>crates/paraegox-runtime-contracts/src/provenance.rs\<close>. Typed digests and opaque
  references are the arrays they wrap.
\<close>

section \<open>Data\<close>

type_synonym RuntimeHostId = bytes16
type_synonym SourceScopeRef = bytes16
type_synonym SourcePlanRef = bytes16
type_synonym SourcePlanRevision = u64
type_synonym SourcePlanDigest = Digest32
type_synonym TargetAssignmentDigest = Digest32
type_synonym TargetSliceDigest = Digest32

definition RUNTIME_SLICE_HEADER_VERSION :: u16 where
  "RUNTIME_SLICE_HEADER_VERSION = 1"

definition TARGET_SLICE_DIGEST_DOMAIN :: bytes where
  "TARGET_SLICE_DIGEST_DOMAIN = ascii ''paraegox.runtime.target-slice.sha256.v1''"

record PlanProvenance =
  pp_source_scope :: SourceScopeRef
  pp_source_plan :: SourcePlanRef
  pp_source_revision :: SourcePlanRevision
  pp_source_plan_digest :: SourcePlanDigest

record RuntimeSliceHeader =
  sh_contract_version :: u16
  sh_target :: RuntimeHostId
  sh_provenance :: PlanProvenance
  sh_assignment_digest :: TargetAssignmentDigest

record RuntimeSliceCommitment =
  sc_header :: RuntimeSliceHeader
  sc_target_slice_digest :: TargetSliceDigest

datatype ProvenanceContractError = ProvDigest DigestBuildError | TargetSliceDigestMismatch

section \<open>Operations\<close>

definition slice_header_new ::
  "RuntimeHostId \<Rightarrow> PlanProvenance \<Rightarrow> TargetAssignmentDigest \<Rightarrow> RuntimeSliceHeader" where
  "slice_header_new target provenance assignment_digest =
     \<lparr>sh_contract_version = RUNTIME_SLICE_HEADER_VERSION, sh_target = target,
      sh_provenance = provenance, sh_assignment_digest = assignment_digest\<rparr>"

definition slice_commitment_try_new ::
  "(bytes \<Rightarrow> Digest32) \<Rightarrow> RuntimeSliceHeader \<Rightarrow> ProvenanceContractError + RuntimeSliceCommitment" where
  "slice_commitment_try_new sha256 header =
     and_then (map_err ProvDigest (build_digest sha256 TARGET_SLICE_DIGEST_DOMAIN
        [field_u16 (sh_contract_version header),
         field_bytes (arr16 (sh_target header)),
         field_bytes (arr16 (pp_source_scope (sh_provenance header))),
         field_bytes (arr16 (pp_source_plan (sh_provenance header))),
         field_u64 (pp_source_revision (sh_provenance header)),
         field_digest (pp_source_plan_digest (sh_provenance header)),
         field_digest (sh_assignment_digest header)]))
       (\<lambda>digest. Inr \<lparr>sc_header = header, sc_target_slice_digest = digest\<rparr>)"

definition slice_commitment_validate ::
  "(bytes \<Rightarrow> Digest32) \<Rightarrow> RuntimeSliceCommitment \<Rightarrow> ProvenanceContractError + unit" where
  "slice_commitment_validate sha256 self =
     and_then (slice_commitment_try_new sha256 (sc_header self)) (\<lambda>recomputed.
       if sc_target_slice_digest recomputed \<noteq> sc_target_slice_digest self
       then Inl TargetSliceDigestMismatch else Inr ())"

section \<open>The committed byte stream\<close>

definition slice_fields :: "RuntimeSliceHeader \<Rightarrow> bytes list" where
  "slice_fields h =
     [be_u16 (sh_contract_version h), arr16 (sh_target h),
      arr16 (pp_source_scope (sh_provenance h)), arr16 (pp_source_plan (sh_provenance h)),
      be_u64 (pp_source_revision (sh_provenance h)),
      arr32 (pp_source_plan_digest (sh_provenance h)), arr32 (sh_assignment_digest h)]"

definition slice_stream :: "RuntimeSliceHeader \<Rightarrow> bytes" where
  "slice_stream h = digest_stream TARGET_SLICE_DIGEST_DOMAIN (slice_fields h)"

lemma length_ascii [simp]: "length (ascii s) = length s"
  by (simp add: ascii_def)

lemma ascii_Nil_iff [simp]: "ascii s = [] \<longleftrightarrow> s = []"
  by (simp add: ascii_def)

lemma digestible_slice: "digestible TARGET_SLICE_DIGEST_DOMAIN (slice_fields h)"
  by (simp add: digestible_def slice_fields_def TARGET_SLICE_DIGEST_DOMAIN_def)

lemma slice_commitment_try_new_eq:
  "slice_commitment_try_new sha256 h =
     Inr \<lparr>sc_header = h, sc_target_slice_digest = sha256 (slice_stream h)\<rparr>"
  using build_digest_within [OF digestible_slice, of sha256 h]
  by (simp add: slice_commitment_try_new_def slice_stream_def slice_fields_def
      field_u16_def field_u64_def field_digest_def)

lemma slice_commitment_validate_iff [res_simps]:
  "slice_commitment_validate sha256 c = Inr u \<longleftrightarrow>
     sc_target_slice_digest c = sha256 (slice_stream (sc_header c))"
  by (auto simp: slice_commitment_validate_def slice_commitment_try_new_eq)

lemma slice_commitment_validate_err:
  "slice_commitment_validate sha256 c = Inl e \<Longrightarrow> e = TargetSliceDigestMismatch"
  by (auto simp: slice_commitment_validate_def slice_commitment_try_new_eq split: if_splits)

lemma slice_fields_inject: "slice_fields h = slice_fields h' \<Longrightarrow> h = h'"
  by (cases h; cases h'; cases "sh_provenance h"; cases "sh_provenance h'")
     (simp add: slice_fields_def)

lemma slice_stream_inject: "slice_stream h = slice_stream h' \<Longrightarrow> h = h'"
  using digest_stream_inject [OF digestible_slice digestible_slice] slice_fields_inject
  unfolding slice_stream_def by blast

section \<open>Properties\<close>

text \<open>
  Committing a header always succeeds and the result passes \<open>validate\<close>; and the
  commitment binds the whole header: two stored commitments that pass \<open>validate\<close> with one
  digest carry the same header, or their byte streams are a collision of the hash.
\<close>

lemma slice_commitment_binds_header:
  "(\<exists>c. slice_commitment_try_new sha256 h = Inr c \<and> sc_header c = h \<and>
        slice_commitment_validate sha256 c = Inr ()) \<and>
   (slice_commitment_validate sha256 c1 = Inr () \<and> slice_commitment_validate sha256 c2 = Inr () \<and>
    sc_target_slice_digest c1 = sc_target_slice_digest c2 \<longrightarrow>
      c1 = c2 \<or>
      slice_stream (sc_header c1) \<noteq> slice_stream (sc_header c2) \<and>
      sha256 (slice_stream (sc_header c1)) = sha256 (slice_stream (sc_header c2)))"
proof (intro conjI impI)
  show "\<exists>c. slice_commitment_try_new sha256 h = Inr c \<and> sc_header c = h \<and>
        slice_commitment_validate sha256 c = Inr ()"
    by (simp add: slice_commitment_try_new_eq res_simps)
next
  assume a: "slice_commitment_validate sha256 c1 = Inr () \<and>
    slice_commitment_validate sha256 c2 = Inr () \<and>
    sc_target_slice_digest c1 = sc_target_slice_digest c2"
  then have "sha256 (slice_stream (sc_header c1)) = sha256 (slice_stream (sc_header c2))"
    unfolding slice_commitment_validate_iff by metis
  moreover have "c1 = c2" if "slice_stream (sc_header c1) = slice_stream (sc_header c2)"
    using a slice_stream_inject [OF that] by (cases c1; cases c2) simp
  ultimately show "c1 = c2 \<or>
      slice_stream (sc_header c1) \<noteq> slice_stream (sc_header c2) \<and>
      sha256 (slice_stream (sc_header c1)) = sha256 (slice_stream (sc_header c2))"
    by blast
qed

end
