(* ===== verification/Contracts_Apply.thy ===== *)
theory Contracts_Apply
  imports Contracts_Provenance
begin

text \<open>
  Writer tenure, apply controls and their canonical commitments,
  \<open>crates/paraegox-runtime-contracts/src/apply.rs\<close>: the bounded tenure proof and the exact
  bytes its authority signs, the fingerprint of the whole proof, and the commitment over a
  target slice and the non-temporal controls.
\<close>

section \<open>Data\<close>

type_synonym PlanWriterRef = bytes16
type_synonym ApplyOperationId = bytes16
type_synonym TenureAuthorityRef = bytes16
type_synonym TenureKeyRef = bytes16
type_synonym PlanWriterEpoch = u64
type_synonym TenureProofAlgorithm = u16

definition WRITER_TENURE_PROOF_ENVELOPE_DIGEST_DOMAIN :: bytes where
  "WRITER_TENURE_PROOF_ENVELOPE_DIGEST_DOMAIN = ascii ''paraegox.runtime.writer-tenure-proof.sha256.v1''"

definition APPLY_CONTROL_COMMITMENT_DIGEST_DOMAIN :: bytes where
  "APPLY_CONTROL_COMMITMENT_DIGEST_DOMAIN = ascii ''paraegox.runtime.apply-control.sha256.v1''"

definition SIGNING_TRANSCRIPT_MAGIC :: bytes where
  "SIGNING_TRANSCRIPT_MAGIC = ascii ''ParaEGOX'' @ [0] @ ascii ''canonical-signing-transcript''"

definition WRITER_TENURE_SIGNING_DOMAIN :: bytes where
  "WRITER_TENURE_SIGNING_DOMAIN = ascii ''paraegox.runtime.writer-tenure.signing.v1''"

definition WRITER_TENURE_SIGNING_FIELD_COUNT :: u16 where
  "WRITER_TENURE_SIGNING_FIELD_COUNT = 9"

definition TRANSCRIPT_TLV_HEADER_BYTES :: nat where
  "TRANSCRIPT_TLV_HEADER_BYTES = 6"

definition WRITER_TENURE_SIGNING_TRANSCRIPT_VERSION :: u16 where
  "WRITER_TENURE_SIGNING_TRANSCRIPT_VERSION = 1"

definition MAX_TENURE_NONCE_BYTES :: nat where "MAX_TENURE_NONCE_BYTES = 64"
definition MAX_TENURE_SIGNATURE_BYTES :: nat where "MAX_TENURE_SIGNATURE_BYTES = 512"

definition MAX_TENURE_SIGNING_TRANSCRIPT_BYTES :: nat where
  "MAX_TENURE_SIGNING_TRANSCRIPT_BYTES =
     length SIGNING_TRANSCRIPT_MAGIC + 2 + 2 + length WRITER_TENURE_SIGNING_DOMAIN + 2
     + unat WRITER_TENURE_SIGNING_FIELD_COUNT * TRANSCRIPT_TLV_HEADER_BYTES
     + (16 + 16 + 2 + 2 + 16 + 16 + 8 + 8 + MAX_TENURE_NONCE_BYTES)"

datatype TenureProofError =
    InvalidAlgorithm
  | InvalidAlgorithmVersion
  | InvalidEpoch
  | InvalidSupersedesEpoch
  | EmptyNonce
  | NonceTooLong
  | EmptySignature
  | SignatureTooLong

datatype ApplyContractError =
    ApplyDigest DigestBuildError
  | Provenance ProvenanceContractError
  | WriterRefMismatch
  | WriterEpochMismatch
  | WriterScopeMismatch
  | ControlCommitmentDigestMismatch

record TenureProofAuthority =
  pa_authority :: TenureAuthorityRef
  pa_key :: TenureKeyRef
  pa_algorithm :: TenureProofAlgorithm
  pa_algorithm_version :: u16

record WriterTenureClaim =
  wt_source_scope :: SourceScopeRef
  wt_writer :: PlanWriterRef
  wt_epoch :: PlanWriterEpoch
  wt_supersedes_through_epoch :: PlanWriterEpoch

record WriterTenureProof =
  tp_authority :: TenureProofAuthority
  tp_claim :: WriterTenureClaim
  tp_nonce :: bytes
  tp_signature :: bytes

record PlanWriterContext =
  wc_writer :: PlanWriterRef
  wc_epoch :: PlanWriterEpoch
  wc_proof :: WriterTenureProof

datatype ExpectedActive = ExpectNone | ExpectExact TargetSliceDigest

record RuntimeApplyControl =
  ac_writer_context :: PlanWriterContext
  ac_expected_active :: ExpectedActive
  ac_operation_id :: ApplyOperationId

record RuntimeApplyControlCommitment =
  cc_slice :: RuntimeSliceCommitment
  cc_control :: RuntimeApplyControl
  cc_commitment_digest :: Digest32

section \<open>Constructors\<close>

definition tenure_algorithm_try_new :: "u16 \<Rightarrow> TenureProofError + TenureProofAlgorithm" where
  "tenure_algorithm_try_new value = (if value = 0 then Inl InvalidAlgorithm else Inr value)"

definition tenure_authority_try_new ::
  "TenureAuthorityRef \<Rightarrow> TenureKeyRef \<Rightarrow> TenureProofAlgorithm \<Rightarrow> u16 \<Rightarrow>
   TenureProofError + TenureProofAuthority" where
  "tenure_authority_try_new authority key algorithm algorithm_version =
     (if algorithm_version = 0 then Inl InvalidAlgorithmVersion
      else Inr \<lparr>pa_authority = authority, pa_key = key, pa_algorithm = algorithm,
                pa_algorithm_version = algorithm_version\<rparr>)"

definition tenure_claim_try_new ::
  "SourceScopeRef \<Rightarrow> PlanWriterRef \<Rightarrow> PlanWriterEpoch \<Rightarrow> PlanWriterEpoch \<Rightarrow>
   TenureProofError + WriterTenureClaim" where
  "tenure_claim_try_new source_scope writer epoch supersedes_through_epoch =
     (if epoch = 0 then Inl InvalidEpoch
      else if supersedes_through_epoch \<ge> epoch then Inl InvalidSupersedesEpoch
      else Inr \<lparr>wt_source_scope = source_scope, wt_writer = writer, wt_epoch = epoch,
                wt_supersedes_through_epoch = supersedes_through_epoch\<rparr>)"

definition validate_tenure_nonce :: "bytes \<Rightarrow> TenureProofError + unit" where
  "validate_tenure_nonce nonce =
     (if nonce = [] then Inl EmptyNonce
      else if length nonce > MAX_TENURE_NONCE_BYTES then Inl NonceTooLong
      else Inr ())"

definition append_transcript_tlv :: "u16 \<Rightarrow> bytes \<Rightarrow> bytes \<Rightarrow> bytes" where
  "append_transcript_tlv tag value encoded =
     encoded @ be_u16 tag @ be_u32 (of_nat (length value)) @ value"

definition signing_transcript_try_new ::
  "TenureProofAuthority \<Rightarrow> WriterTenureClaim \<Rightarrow> bytes \<Rightarrow> TenureProofError + bytes" where
  "signing_transcript_try_new authority claim nonce =
     and_then (validate_tenure_nonce nonce) (\<lambda>_.
       let encoded = SIGNING_TRANSCRIPT_MAGIC @ be_u16 WRITER_TENURE_SIGNING_TRANSCRIPT_VERSION
             @ be_u16 (of_nat (length WRITER_TENURE_SIGNING_DOMAIN)) @ WRITER_TENURE_SIGNING_DOMAIN
             @ be_u16 WRITER_TENURE_SIGNING_FIELD_COUNT;
           encoded = append_transcript_tlv 1 (arr16 (pa_authority authority)) encoded;
           encoded = append_transcript_tlv 2 (arr16 (pa_key authority)) encoded;
           encoded = append_transcript_tlv 3 (be_u16 (pa_algorithm authority)) encoded;
           encoded = append_transcript_tlv 4 (be_u16 (pa_algorithm_version authority)) encoded;
           encoded = append_transcript_tlv 5 (arr16 (wt_source_scope claim)) encoded;
           encoded = append_transcript_tlv 6 (arr16 (wt_writer claim)) encoded;
           encoded = append_transcript_tlv 7 (be_u64 (wt_epoch claim)) encoded;
           encoded = append_transcript_tlv 8 (be_u64 (wt_supersedes_through_epoch claim)) encoded;
           encoded = append_transcript_tlv 9 nonce encoded
       in Inr encoded)"

definition tenure_proof_try_new ::
  "TenureProofAuthority \<Rightarrow> WriterTenureClaim \<Rightarrow> bytes \<Rightarrow> bytes \<Rightarrow> TenureProofError + WriterTenureProof" where
  "tenure_proof_try_new authority claim nonce signature =
     and_then (validate_tenure_nonce nonce) (\<lambda>_.
       if signature = [] then Inl EmptySignature
       else if length signature > MAX_TENURE_SIGNATURE_BYTES then Inl SignatureTooLong
       else Inr \<lparr>tp_authority = authority, tp_claim = claim, tp_nonce = nonce,
                 tp_signature = signature\<rparr>)"

definition signing_transcript :: "WriterTenureProof \<Rightarrow> TenureProofError + bytes" where
  "signing_transcript self =
     signing_transcript_try_new (tp_authority self) (tp_claim self) (tp_nonce self)"

definition envelope_digest ::
  "(bytes \<Rightarrow> Digest32) \<Rightarrow> WriterTenureProof \<Rightarrow> DigestBuildError + Digest32" where
  "envelope_digest sha256 self =
     build_digest sha256 WRITER_TENURE_PROOF_ENVELOPE_DIGEST_DOMAIN
       [field_bytes (arr16 (pa_authority (tp_authority self))),
        field_bytes (arr16 (pa_key (tp_authority self))),
        field_u16 (pa_algorithm (tp_authority self)),
        field_u16 (pa_algorithm_version (tp_authority self)),
        field_bytes (arr16 (wt_source_scope (tp_claim self))),
        field_bytes (arr16 (wt_writer (tp_claim self))),
        field_u64 (wt_epoch (tp_claim self)),
        field_u64 (wt_supersedes_through_epoch (tp_claim self)),
        field_bytes (tp_nonce self),
        field_bytes (tp_signature self)]"

definition writer_context_try_new ::
  "PlanWriterRef \<Rightarrow> PlanWriterEpoch \<Rightarrow> WriterTenureProof \<Rightarrow> ApplyContractError + PlanWriterContext" where
  "writer_context_try_new writer epoch tenure_proof =
     (if wt_writer (tp_claim tenure_proof) \<noteq> writer then Inl WriterRefMismatch
      else if wt_epoch (tp_claim tenure_proof) \<noteq> epoch then Inl WriterEpochMismatch
      else Inr \<lparr>wc_writer = writer, wc_epoch = epoch, wc_proof = tenure_proof\<rparr>)"

section \<open>The control commitment\<close>

definition ensure_writer_scope_matches ::
  "RuntimeSliceCommitment \<Rightarrow> RuntimeApplyControl \<Rightarrow> ApplyContractError + unit" where
  "ensure_writer_scope_matches slc control =
     (let slice_scope = pp_source_scope (sh_provenance (sc_header slc));
          proof_scope = wt_source_scope (tp_claim (wc_proof (ac_writer_context control)))
      in if proof_scope \<noteq> slice_scope then Inl WriterScopeMismatch else Inr ())"

fun expected_fields :: "ExpectedActive \<Rightarrow> u16 \<times> Digest32" where
  "expected_fields ExpectNone = (0, 0)"
| "expected_fields (ExpectExact digest) = (1, digest)"

definition control_commitment_digest ::
  "(bytes \<Rightarrow> Digest32) \<Rightarrow> RuntimeSliceCommitment \<Rightarrow> RuntimeApplyControl \<Rightarrow> ApplyContractError + Digest32" where
  "control_commitment_digest sha256 slc control =
     (let header = sc_header slc; provenance = sh_provenance header;
          writer = ac_writer_context control
      in and_then (map_err ApplyDigest (envelope_digest sha256 (wc_proof writer))) (\<lambda>proof_envelope_digest.
         let (expected_tag, expected_slice_digest) = expected_fields (ac_expected_active control)
         in map_err ApplyDigest (build_digest sha256 APPLY_CONTROL_COMMITMENT_DIGEST_DOMAIN
              [field_digest (sc_target_slice_digest slc),
               field_u16 (sh_contract_version header),
               field_bytes (arr16 (sh_target header)),
               field_bytes (arr16 (pp_source_scope provenance)),
               field_bytes (arr16 (pp_source_plan provenance)),
               field_u64 (pp_source_revision provenance),
               field_digest (pp_source_plan_digest provenance),
               field_digest (sh_assignment_digest header),
               field_bytes (arr16 (wc_writer writer)),
               field_u64 (wc_epoch writer),
               field_digest proof_envelope_digest,
               field_u16 expected_tag,
               field_digest expected_slice_digest,
               field_bytes (arr16 (ac_operation_id control))])))"

definition control_commitment_try_new ::
  "(bytes \<Rightarrow> Digest32) \<Rightarrow> RuntimeSliceCommitment \<Rightarrow> RuntimeApplyControl \<Rightarrow>
   ApplyContractError + RuntimeApplyControlCommitment" where
  "control_commitment_try_new sha256 slc control =
     and_then (map_err Provenance (slice_commitment_validate sha256 slc)) (\<lambda>_.
     and_then (ensure_writer_scope_matches slc control) (\<lambda>_.
     and_then (control_commitment_digest sha256 slc control) (\<lambda>commitment_digest.
       Inr \<lparr>cc_slice = slc, cc_control = control, cc_commitment_digest = commitment_digest\<rparr>)))"

definition control_commitment_validate ::
  "(bytes \<Rightarrow> Digest32) \<Rightarrow> RuntimeApplyControlCommitment \<Rightarrow> ApplyContractError + unit" where
  "control_commitment_validate sha256 self =
     and_then (map_err Provenance (slice_commitment_validate sha256 (cc_slice self))) (\<lambda>_.
     and_then (ensure_writer_scope_matches (cc_slice self) (cc_control self)) (\<lambda>_.
     and_then (control_commitment_digest sha256 (cc_slice self) (cc_control self)) (\<lambda>digest.
       if digest \<noteq> cc_commitment_digest self then Inl ControlCommitmentDigestMismatch else Inr ())))"

section \<open>Well-formed proofs and the committed byte streams\<close>

definition tenure_proof_wf :: "WriterTenureProof \<Rightarrow> bool" where
  "tenure_proof_wf p \<longleftrightarrow>
     tp_nonce p \<noteq> [] \<and> length (tp_nonce p) \<le> MAX_TENURE_NONCE_BYTES \<and>
     tp_signature p \<noteq> [] \<and> length (tp_signature p) \<le> MAX_TENURE_SIGNATURE_BYTES"

text \<open>A proof that passes every check of its constructors.\<close>

definition proof_ok :: "WriterTenureProof \<Rightarrow> bool" where
  "proof_ok p \<longleftrightarrow> tenure_proof_wf p \<and> pa_algorithm (tp_authority p) \<noteq> 0 \<and>
     pa_algorithm_version (tp_authority p) \<noteq> 0 \<and> wt_epoch (tp_claim p) \<noteq> 0 \<and>
     wt_supersedes_through_epoch (tp_claim p) < wt_epoch (tp_claim p)"

definition envelope_fields :: "WriterTenureProof \<Rightarrow> bytes list" where
  "envelope_fields p =
     [arr16 (pa_authority (tp_authority p)), arr16 (pa_key (tp_authority p)),
      be_u16 (pa_algorithm (tp_authority p)), be_u16 (pa_algorithm_version (tp_authority p)),
      arr16 (wt_source_scope (tp_claim p)), arr16 (wt_writer (tp_claim p)),
      be_u64 (wt_epoch (tp_claim p)), be_u64 (wt_supersedes_through_epoch (tp_claim p)),
      tp_nonce p, tp_signature p]"

definition envelope_stream :: "WriterTenureProof \<Rightarrow> bytes" where
  "envelope_stream p = digest_stream WRITER_TENURE_PROOF_ENVELOPE_DIGEST_DOMAIN (envelope_fields p)"

definition control_fields ::
  "(bytes \<Rightarrow> Digest32) \<Rightarrow> RuntimeSliceCommitment \<Rightarrow> RuntimeApplyControl \<Rightarrow> bytes list" where
  "control_fields sha256 s c =
     arr32 (sc_target_slice_digest s) # slice_fields (sc_header s) @
     [arr16 (wc_writer (ac_writer_context c)), be_u64 (wc_epoch (ac_writer_context c)),
      arr32 (sha256 (envelope_stream (wc_proof (ac_writer_context c)))),
      be_u16 (fst (expected_fields (ac_expected_active c))),
      arr32 (snd (expected_fields (ac_expected_active c))), arr16 (ac_operation_id c)]"

definition control_stream ::
  "(bytes \<Rightarrow> Digest32) \<Rightarrow> RuntimeSliceCommitment \<Rightarrow> RuntimeApplyControl \<Rightarrow> bytes" where
  "control_stream sha256 s c =
     digest_stream APPLY_CONTROL_COMMITMENT_DIGEST_DOMAIN (control_fields sha256 s c)"

lemmas tenure_limits = MAX_TENURE_NONCE_BYTES_def MAX_TENURE_SIGNATURE_BYTES_def

lemma tenure_proof_try_new_wf [res_simps]:
  "tenure_proof_try_new a c n s = Inr p \<longleftrightarrow>
     p = \<lparr>tp_authority = a, tp_claim = c, tp_nonce = n, tp_signature = s\<rparr> \<and> tenure_proof_wf p"
  by (auto simp: tenure_proof_try_new_def validate_tenure_nonce_def tenure_proof_wf_def res_simps
      not_le split: if_splits)

lemma digestible_envelope:
  "tenure_proof_wf p \<Longrightarrow> digestible WRITER_TENURE_PROOF_ENVELOPE_DIGEST_DOMAIN (envelope_fields p)"
  by (simp add: digestible_def envelope_fields_def tenure_proof_wf_def tenure_limits
      WRITER_TENURE_PROOF_ENVELOPE_DIGEST_DOMAIN_def)

lemma envelope_digest_eq:
  "tenure_proof_wf p \<Longrightarrow> envelope_digest sha256 p = Inr (sha256 (envelope_stream p))"
  using build_digest_within [OF digestible_envelope, of p sha256]
  by (simp add: envelope_digest_def envelope_fields_def envelope_stream_def
      field_u16_def field_u64_def field_digest_def)

lemma envelope_fields_inject: "envelope_fields p = envelope_fields q \<Longrightarrow> p = q"
  by (cases p; cases q; cases "tp_authority p"; cases "tp_authority q";
      cases "tp_claim p"; cases "tp_claim q") (simp add: envelope_fields_def)

lemma envelope_stream_inject:
  "tenure_proof_wf p \<Longrightarrow> tenure_proof_wf q \<Longrightarrow> envelope_stream p = envelope_stream q \<Longrightarrow> p = q"
  using digest_stream_inject [OF digestible_envelope digestible_envelope] envelope_fields_inject
  unfolding envelope_stream_def by blast

lemma digestible_control: "digestible APPLY_CONTROL_COMMITMENT_DIGEST_DOMAIN (control_fields sha256 s c)"
  by (simp add: digestible_def control_fields_def slice_fields_def
      APPLY_CONTROL_COMMITMENT_DIGEST_DOMAIN_def)

lemma control_commitment_digest_eq:
  assumes "tenure_proof_wf (wc_proof (ac_writer_context c))"
  shows "control_commitment_digest sha256 s c = Inr (sha256 (control_stream sha256 s c))"
proof -
  have "build_digest sha256 APPLY_CONTROL_COMMITMENT_DIGEST_DOMAIN
          (map field_bytes (control_fields sha256 s c)) = Inr (sha256 (control_stream sha256 s c))"
    unfolding control_stream_def by (rule build_digest_within [OF digestible_control])
  then show ?thesis
    using envelope_digest_eq [OF assms, of sha256]
    by (simp add: control_commitment_digest_def control_fields_def slice_fields_def Let_def
        case_prod_beta field_u16_def field_u64_def field_digest_def)
qed

lemma expected_fields_inject: "expected_fields a = expected_fields b \<Longrightarrow> a = b"
  by (cases a; cases b) simp_all

lemma control_commitment_validate_iff [res_simps]:
  assumes "tenure_proof_wf (wc_proof (ac_writer_context (cc_control k)))"
  shows "control_commitment_validate sha256 k = Inr u \<longleftrightarrow>
     slice_commitment_validate sha256 (cc_slice k) = Inr () \<and>
     ensure_writer_scope_matches (cc_slice k) (cc_control k) = Inr () \<and>
     cc_commitment_digest k = sha256 (control_stream sha256 (cc_slice k) (cc_control k))"
  by (auto simp: control_commitment_validate_def control_commitment_digest_eq [OF assms]
      and_then_eq_Inr map_err_eq_Inr)

lemma control_stream_inject:
  assumes eq: "control_stream sha256 s c = control_stream sha256 s' c'"
  shows "s = s' \<and> ac_expected_active c = ac_expected_active c' \<and>
         ac_operation_id c = ac_operation_id c' \<and>
         wc_writer (ac_writer_context c) = wc_writer (ac_writer_context c') \<and>
         wc_epoch (ac_writer_context c) = wc_epoch (ac_writer_context c') \<and>
         sha256 (envelope_stream (wc_proof (ac_writer_context c))) =
         sha256 (envelope_stream (wc_proof (ac_writer_context c')))"
proof -
  have fields_eq: "control_fields sha256 s c = control_fields sha256 s' c'"
    using digest_stream_inject [OF digestible_control digestible_control] eq
    unfolding control_stream_def by blast
  have len: "length (slice_fields h) = 7" for h
    by (simp add: slice_fields_def)
  have "slice_fields (sc_header s) = slice_fields (sc_header s')"
    and digest: "sc_target_slice_digest s = sc_target_slice_digest s'"
    and rest: "ac_operation_id c = ac_operation_id c'"
      "wc_writer (ac_writer_context c) = wc_writer (ac_writer_context c')"
      "wc_epoch (ac_writer_context c) = wc_epoch (ac_writer_context c')"
      "sha256 (envelope_stream (wc_proof (ac_writer_context c))) =
       sha256 (envelope_stream (wc_proof (ac_writer_context c')))"
      "expected_fields (ac_expected_active c) = expected_fields (ac_expected_active c')"
    using fields_eq by (auto simp: control_fields_def len prod_eq_iff)
  then have "sc_header s = sc_header s'"
    by (intro slice_fields_inject)
  with digest have "s = s'" by (cases s; cases s') simp
  with rest expected_fields_inject show ?thesis by blast
qed

section \<open>Properties\<close>

text \<open>
  The bytes an authority signs are canonical and bounded: they determine the authority
  selector, the whole claim and the nonce, so one signature never speaks for two different
  claims, and their length never exceeds \<open>MAX_TENURE_SIGNING_TRANSCRIPT_BYTES\<close>.
\<close>

lemma tenure_signing_transcript_canonical:
  assumes "signing_transcript_try_new a c n = Inr t"
    and "signing_transcript_try_new a' c' n' = Inr t"
  shows "a = a' \<and> c = c' \<and> n = n' \<and> length t \<le> MAX_TENURE_SIGNING_TRANSCRIPT_BYTES"
proof -
  have nonce: "length n \<le> 64"
    using assms(1) by (auto simp: signing_transcript_try_new_def validate_tenure_nonce_def
        tenure_limits res_simps split: if_splits)
  show ?thesis
    using assms nonce
    by (cases a; cases a'; cases c; cases c')
       (auto simp: signing_transcript_try_new_def append_transcript_tlv_def Let_def res_simps
         MAX_TENURE_SIGNING_TRANSCRIPT_BYTES_def TRANSCRIPT_TLV_HEADER_BYTES_def
         WRITER_TENURE_SIGNING_FIELD_COUNT_def tenure_limits)
qed

text \<open>
  C8. The control commitment binds everything an apply request decides: two requests with
  bounded proofs that pass \<open>validate\<close> under one commitment digest have the same slice and
  the same controls (writer, epoch, proof, expected active slice and operation identity),
  or one of two specific pairs of byte strings is a collision of the hash. In particular
  the encoding of \<open>ExpectedActive\<close> never confuses \<open>None\<close> with an exact zero digest.
\<close>

theorem control_commitment_binds_request:
  assumes "tenure_proof_wf (wc_proof (ac_writer_context (cc_control k)))"
    and "tenure_proof_wf (wc_proof (ac_writer_context (cc_control k')))"
    and "control_commitment_validate sha256 k = Inr ()"
    and "control_commitment_validate sha256 k' = Inr ()"
    and "cc_commitment_digest k = cc_commitment_digest k'"
    and "k \<noteq> k'"
  shows "(control_stream sha256 (cc_slice k) (cc_control k) \<noteq>
            control_stream sha256 (cc_slice k') (cc_control k') \<and>
          sha256 (control_stream sha256 (cc_slice k) (cc_control k)) =
            sha256 (control_stream sha256 (cc_slice k') (cc_control k'))) \<or>
         (envelope_stream (wc_proof (ac_writer_context (cc_control k))) \<noteq>
            envelope_stream (wc_proof (ac_writer_context (cc_control k'))) \<and>
          sha256 (envelope_stream (wc_proof (ac_writer_context (cc_control k)))) =
            sha256 (envelope_stream (wc_proof (ac_writer_context (cc_control k')))))"
proof (cases "control_stream sha256 (cc_slice k) (cc_control k) =
              control_stream sha256 (cc_slice k') (cc_control k')")
  case False
  with assms show ?thesis by (simp add: res_simps)
next
  case True
  note same = control_stream_inject [OF True]
  have "wc_proof (ac_writer_context (cc_control k)) \<noteq> wc_proof (ac_writer_context (cc_control k'))"
  proof
    assume "wc_proof (ac_writer_context (cc_control k)) = wc_proof (ac_writer_context (cc_control k'))"
    with same assms(5) have "k = k'"
      by (cases k; cases k'; cases "cc_control k"; cases "cc_control k'";
          cases "ac_writer_context (cc_control k)"; cases "ac_writer_context (cc_control k')") simp
    with assms(6) show False ..
  qed
  with envelope_stream_inject [OF assms(1,2)] same show ?thesis by blast
qed

definition demo_slice :: RuntimeSliceCommitment where
  "demo_slice = \<lparr>sc_header = slice_header_new 1 (PlanProvenance.make 2 3 4 5) 6,
                 sc_target_slice_digest = 0\<rparr>"

definition demo_control :: "ExpectedActive \<Rightarrow> RuntimeApplyControl" where
  "demo_control e =
     \<lparr>ac_writer_context =
        \<lparr>wc_writer = 4, wc_epoch = 2,
         wc_proof = \<lparr>tp_authority = TenureProofAuthority.make 1 2 1 1,
                     tp_claim = WriterTenureClaim.make 2 4 2 1, tp_nonce = [9], tp_signature = [8]\<rparr>\<rparr>,
      ac_expected_active = e, ac_operation_id = 7\<rparr>"

definition demo_commitment :: "ExpectedActive \<Rightarrow> RuntimeApplyControlCommitment" where
  "demo_commitment e =
     \<lparr>cc_slice = demo_slice, cc_control = demo_control e, cc_commitment_digest = 0\<rparr>"

theorem control_commitment_binds_request_witness:
  "(control_stream (\<lambda>_. 0) demo_slice (demo_control ExpectNone) \<noteq>
      control_stream (\<lambda>_. 0) demo_slice (demo_control (ExpectExact 0)) \<and>
    (0 :: bytes32) = 0) \<or> False"
proof -
  have wf: "tenure_proof_wf (wc_proof (ac_writer_context (cc_control (demo_commitment e))))" for e
    by (simp add: demo_commitment_def demo_control_def tenure_proof_wf_def tenure_limits)
  have valid: "control_commitment_validate (\<lambda>_. 0) (demo_commitment e) = Inr ()" for e
    unfolding control_commitment_validate_iff [OF wf]
    by (simp add: res_simps ensure_writer_scope_matches_def demo_commitment_def demo_control_def
        demo_slice_def slice_header_new_def PlanProvenance.defs WriterTenureClaim.defs)
  have "cc_commitment_digest (demo_commitment ExpectNone) =
        cc_commitment_digest (demo_commitment (ExpectExact 0))"
    and "demo_commitment ExpectNone \<noteq> demo_commitment (ExpectExact 0)"
    by (simp_all add: demo_commitment_def demo_control_def)
  from control_commitment_binds_request [OF wf wf valid valid this] show ?thesis
    by (simp add: demo_commitment_def demo_control_def)
qed

end
