(* ===== verification/Kernel_Time.thy ===== *)
theory Kernel_Time
  imports Prelude
begin

text \<open>
  Owner-local monotonic deadlines, \<open>crates/paraegox-kernel/src/time.rs\<close>: a clock reading
  and a deadline carry the clock domain and generation they belong to; a deadline is
  installed by a checked addition and compared only with readings of the same clock. The
  newtypes around \<open>u64\<close> are their values; \<open>ClockGeneration\<close> is nonzero by construction
  through \<open>clock_generation_try_new\<close>.
\<close>

section \<open>Values\<close>

type_synonym ClockDomainRef = bytes16
type_synonym ClockGeneration = u64
type_synonym BoundedDuration = u64
type_synonym MonotonicInstant = u64

datatype TimeError =
    InvalidClockGeneration
  | DeadlineOverflow
  | ClockDomainMismatch
  | ClockGenerationMismatch

record ClockReading =
  rd_domain :: ClockDomainRef
  rd_generation :: ClockGeneration
  rd_now :: MonotonicInstant

record MonotonicDeadline =
  dl_domain :: ClockDomainRef
  dl_generation :: ClockGeneration
  dl_deadline :: MonotonicInstant

section \<open>Operations\<close>

definition clock_generation_try_new :: "u64 \<Rightarrow> TimeError + ClockGeneration" where
  "clock_generation_try_new value =
     (if value \<noteq> 0 then Inr value else Inl InvalidClockGeneration)"

definition try_deadline_after ::
  "ClockReading \<Rightarrow> BoundedDuration \<Rightarrow> TimeError + MonotonicDeadline" where
  "try_deadline_after self duration =
     (case checked_add (rd_now self) duration of
        None \<Rightarrow> Inl DeadlineOverflow
      | Some deadline \<Rightarrow>
          Inr \<lparr>dl_domain = rd_domain self, dl_generation = rd_generation self,
               dl_deadline = deadline\<rparr>)"

definition ensure_compatible :: "MonotonicDeadline \<Rightarrow> ClockReading \<Rightarrow> TimeError + unit" where
  "ensure_compatible self reading =
     (if rd_domain reading \<noteq> dl_domain self then Inl ClockDomainMismatch
      else if rd_generation reading \<noteq> dl_generation self then Inl ClockGenerationMismatch
      else Inr ())"

definition remaining_at ::
  "MonotonicDeadline \<Rightarrow> ClockReading \<Rightarrow> TimeError + BoundedDuration" where
  "remaining_at self reading =
     and_then (ensure_compatible self reading)
       (\<lambda>_. Inr (saturating_sub (dl_deadline self) (rd_now reading)))"

definition is_expired_at :: "MonotonicDeadline \<Rightarrow> ClockReading \<Rightarrow> TimeError + bool" where
  "is_expired_at self reading =
     and_then (ensure_compatible self reading)
       (\<lambda>_. Inr (rd_now reading \<ge> dl_deadline self))"

section \<open>Facts\<close>

text \<open>A reading and a deadline of the same clock, as \<open>ensure_compatible\<close> demands.\<close>

definition same_clock :: "MonotonicDeadline \<Rightarrow> ClockReading \<Rightarrow> bool" where
  "same_clock dl r \<longleftrightarrow> rd_domain r = dl_domain dl \<and> rd_generation r = dl_generation dl"

lemma ensure_compatible_ok [res_simps]:
  "ensure_compatible dl r = Inr u \<longleftrightarrow> same_clock dl r"
  by (auto simp: ensure_compatible_def same_clock_def)

lemma is_expired_at_ok [res_simps]:
  "is_expired_at dl r = Inr b \<longleftrightarrow> same_clock dl r \<and> b = (dl_deadline dl \<le> rd_now r)"
  by (auto simp: is_expired_at_def res_simps)

lemma is_expired_at_err:
  "is_expired_at dl r = Inl e \<Longrightarrow>
     \<not> same_clock dl r \<and> (e = ClockDomainMismatch \<or> e = ClockGenerationMismatch)"
  by (auto simp: is_expired_at_def ensure_compatible_def same_clock_def res_simps split: if_splits)

lemma is_expired_at_same_clock:
  "same_clock dl r \<Longrightarrow> is_expired_at dl r = Inr (dl_deadline dl \<le> rd_now r)"
  by (simp add: res_simps)

lemma remaining_at_ok [res_simps]:
  "remaining_at dl r = Inr d \<longleftrightarrow>
     same_clock dl r \<and> d = saturating_sub (dl_deadline dl) (rd_now r)"
  by (auto simp: remaining_at_def res_simps)

lemma try_deadline_after_ok [res_simps]:
  "try_deadline_after r d = Inr dl \<longleftrightarrow>
     same_clock dl r \<and> unat (dl_deadline dl) = unat (rd_now r) + unat d"
proof (cases "checked_add (rd_now r) d")
  case None
  then have "unat (dl_deadline dl) \<noteq> unat (rd_now r) + unat d"
    using unat_u64_bound [of "dl_deadline dl"] by (simp add: checked)
  with None show ?thesis by (simp add: try_deadline_after_def)
next
  case (Some at)
  then have "unat at = unat (rd_now r) + unat d" by (simp add: checked)
  with Some show ?thesis
    by (cases dl) (auto simp: try_deadline_after_def same_clock_def unat_eq_iff)
qed

lemma try_deadline_after_err [res_simps]:
  "try_deadline_after r d = Inl e \<longleftrightarrow>
     e = DeadlineOverflow \<and> 2 ^ 64 \<le> unat (rd_now r) + unat d"
proof (cases "checked_add (rd_now r) d")
  case (Some at)
  then have "unat (rd_now r) + unat d < 2 ^ 64"
    using unat_u64_bound [of at] by (simp add: checked)
  with Some show ?thesis by (simp add: try_deadline_after_def)
next
  case None
  then have "2 ^ 64 \<le> unat (rd_now r) + unat d" by (simp add: checked)
  with None show ?thesis by (auto simp: try_deadline_after_def)
qed

section \<open>Properties\<close>

text \<open>
  A deadline installed from a reading never wraps: installation either reports
  \<open>DeadlineOverflow\<close>, exactly when the sum exceeds the 64-bit range, or yields a deadline of
  the same clock whose remaining duration at that reading is the whole duration, and which
  every later reading of that clock sees as expired exactly when the duration has elapsed,
  that is, exactly when nothing remains.
\<close>

lemma deadline_installation:
  "case try_deadline_after r d of
     Inl e \<Rightarrow> e = DeadlineOverflow \<and> 2 ^ 64 \<le> unat (rd_now r) + unat d
   | Inr dl \<Rightarrow>
       unat (rd_now r) + unat d < 2 ^ 64 \<and>
       remaining_at dl r = Inr d \<and>
       is_expired_at dl (r\<lparr>rd_now := later\<rparr>) = Inr (unat (rd_now r) + unat d \<le> unat later) \<and>
       (remaining_at dl (r\<lparr>rd_now := later\<rparr>) = Inr 0 \<longleftrightarrow>
          is_expired_at dl (r\<lparr>rd_now := later\<rparr>) = Inr True)"
proof (cases "try_deadline_after r d")
  case (Inl e)
  then have "e = DeadlineOverflow \<and> 2 ^ 64 \<le> unat (rd_now r) + unat d"
    by (simp add: res_simps)
  with Inl show ?thesis by simp
next
  case (Inr dl)
  then have clock: "same_clock dl r" and at: "unat (dl_deadline dl) = unat (rd_now r) + unat d"
    by (simp_all add: res_simps)
  have later: "same_clock dl (r\<lparr>rd_now := later\<rparr>)"
    using clock by (simp add: same_clock_def)
  have "remaining_at dl r = Inr d"
    using clock at by (simp add: res_simps checked unat_eq_iff)
  moreover have "unat (rd_now r) + unat d < 2 ^ 64"
    using unat_bound [of "dl_deadline dl"] at by simp
  moreover have "is_expired_at dl (r\<lparr>rd_now := later\<rparr>) = Inr (unat (rd_now r) + unat d \<le> unat later)"
    using later at by (simp add: is_expired_at_same_clock word_le_nat_alt)
  moreover have "remaining_at dl (r\<lparr>rd_now := later\<rparr>) = Inr 0 \<longleftrightarrow>
      unat (rd_now r) + unat d \<le> unat later"
    using later at by (auto simp: res_simps unat_eq_iff checked)
  ultimately show ?thesis
    using Inr by simp
qed

text \<open>
  Readings of another clock domain or generation are rejected before any numeric
  comparison: both queries of a deadline return the same mismatch error, whatever the
  numbers are, and the domain is checked first.
\<close>

lemma foreign_reading_rejected:
  assumes "rd_domain r \<noteq> dl_domain dl \<or> rd_generation r \<noteq> dl_generation dl"
  shows "is_expired_at dl r = Inl (if rd_domain r \<noteq> dl_domain dl then ClockDomainMismatch
                                   else ClockGenerationMismatch) \<and>
         remaining_at dl r = Inl (if rd_domain r \<noteq> dl_domain dl then ClockDomainMismatch
                                  else ClockGenerationMismatch)"
  using assms by (auto simp: is_expired_at_def remaining_at_def ensure_compatible_def)

end
