(* ===== verification/Contracts_Temporal.thy ===== *)
theory Contracts_Temporal
  imports Kernel_Time
begin

text \<open>
  Temporal constraints of an apply envelope,
  \<open>crates/paraegox-runtime-contracts/src/temporal.rs\<close>: a budget that is issued positive,
  never exceeds its origin, and can only shrink while it is forwarded.
\<close>

type_synonym TemporalConstraintId = bytes16

definition APPLY_TEMPORAL_CONSTRAINT_VERSION :: u16 where
  "APPLY_TEMPORAL_CONSTRAINT_VERSION = 1"

datatype TemporalContractError =
    UnsupportedVersion
  | ZeroOriginalBudget
  | RemainingBudgetExceedsOriginal
  | RemainingBudgetExtended

record ApplyTemporalConstraint =
  tc_version :: u16
  tc_constraint_id :: TemporalConstraintId
  tc_target_clock_domain :: ClockDomainRef
  tc_target_clock_generation :: ClockGeneration
  tc_original_budget :: BoundedDuration
  tc_remaining_budget :: BoundedDuration

definition temporal_try_from_parts ::
  "u16 \<Rightarrow> TemporalConstraintId \<Rightarrow> ClockDomainRef \<Rightarrow> ClockGeneration \<Rightarrow> BoundedDuration \<Rightarrow>
   BoundedDuration \<Rightarrow> TemporalContractError + ApplyTemporalConstraint" where
  "temporal_try_from_parts version constraint_id domain generation original remaining =
     (if version \<noteq> APPLY_TEMPORAL_CONSTRAINT_VERSION then Inl UnsupportedVersion
      else if original = 0 then Inl ZeroOriginalBudget
      else if remaining > original then Inl RemainingBudgetExceedsOriginal
      else Inr \<lparr>tc_version = version, tc_constraint_id = constraint_id,
                tc_target_clock_domain = domain, tc_target_clock_generation = generation,
                tc_original_budget = original, tc_remaining_budget = remaining\<rparr>)"

definition temporal_try_new ::
  "TemporalConstraintId \<Rightarrow> ClockDomainRef \<Rightarrow> ClockGeneration \<Rightarrow> BoundedDuration \<Rightarrow>
   BoundedDuration \<Rightarrow> TemporalContractError + ApplyTemporalConstraint" where
  "temporal_try_new = temporal_try_from_parts APPLY_TEMPORAL_CONSTRAINT_VERSION"

definition try_reduce_remaining ::
  "BoundedDuration \<Rightarrow> ApplyTemporalConstraint \<Rightarrow> TemporalContractError + ApplyTemporalConstraint" where
  "try_reduce_remaining remaining self =
     (if remaining > tc_remaining_budget self then Inl RemainingBudgetExtended
      else temporal_try_from_parts (tc_version self) (tc_constraint_id self)
             (tc_target_clock_domain self) (tc_target_clock_generation self)
             (tc_original_budget self) remaining)"

text \<open>A forwarding path: every hop reduces the budget or the whole path fails.\<close>

fun forward_all ::
  "BoundedDuration list \<Rightarrow> ApplyTemporalConstraint \<Rightarrow> TemporalContractError + ApplyTemporalConstraint" where
  "forward_all [] self = Inr self"
| "forward_all (d # ds) self = and_then (try_reduce_remaining d self) (forward_all ds)"

definition temporal_wf :: "ApplyTemporalConstraint \<Rightarrow> bool" where
  "temporal_wf c \<longleftrightarrow>
     tc_version c = APPLY_TEMPORAL_CONSTRAINT_VERSION \<and> tc_original_budget c \<noteq> 0 \<and>
     tc_remaining_budget c \<le> tc_original_budget c"

lemma temporal_try_new_wf: "temporal_try_new i d g b r = Inr c \<Longrightarrow> temporal_wf c"
  by (auto simp: temporal_try_new_def temporal_try_from_parts_def temporal_wf_def split: if_splits)

lemma try_reduce_remaining_wf [res_simps]:
  assumes "temporal_wf c"
  shows "try_reduce_remaining d c = Inr c' \<longleftrightarrow>
           d \<le> tc_remaining_budget c \<and> c' = c\<lparr>tc_remaining_budget := d\<rparr>"
  using assms
  by (cases c) (auto simp: try_reduce_remaining_def temporal_try_from_parts_def temporal_wf_def not_less)

text \<open>
  Forwarding a constraint along any path succeeds exactly when the offered budgets never
  increase; the result is again well formed, has the identity, clock and origin of the first
  constraint, and carries the last offered budget, which no hop can have extended.
\<close>

lemma forwarding_never_extends_budget:
  assumes "temporal_wf c"
  shows "(\<forall>c'. forward_all ds c = Inr c' \<longrightarrow>
            temporal_wf c' \<and>
            c' = c\<lparr>tc_remaining_budget := last (tc_remaining_budget c # ds)\<rparr> \<and>
            tc_remaining_budget c' \<le> tc_remaining_budget c) \<and>
         (is_ok (forward_all ds c) \<longleftrightarrow> sorted_wrt (\<ge>) (tc_remaining_budget c # ds))"
  using assms
proof (induction ds arbitrary: c)
  case Nil
  then show ?case by simp
next
  case (Cons d ds)
  show ?case
  proof (cases "d \<le> tc_remaining_budget c")
    case True
    let ?c = "c\<lparr>tc_remaining_budget := d\<rparr>"
    have hop: "try_reduce_remaining d c = Inr ?c"
      using True Cons.prems by (simp add: res_simps)
    have "temporal_wf ?c"
      using True Cons.prems by (auto simp: temporal_wf_def)
    from Cons.IH [OF this] True hop show ?thesis
      by (fastforce simp: sorted_wrt2)
  next
    case False
    then have "try_reduce_remaining d c = Inl RemainingBudgetExtended"
      by (simp add: try_reduce_remaining_def not_le)
    with False show ?thesis by simp
  qed
qed

end
