(* ===== verification/Tlv_Value.thy ===== *)
theory Tlv_Value
  imports Prelude
begin

text \<open>
  The tagged value format of the acquire-tenure protocol,
  \<open>crates/paraegox-deployment/src/tenure_protocol.rs\<close>: a magic, a version and a field count,
  then fields with consecutive tags and explicit lengths. \<open>parse_value\<close> is the one parser of
  requests and responses; the locale \<open>value_format\<close> states what a message type has to supply
  and proves once that the parser accepts exactly the canonical encodings.

  The parser's cursor is the rest of the input. Its additions stay within the length of the
  input or compare with it, so the overflow branches of \<open>checked_add\<close> on \<open>usize\<close> never apply.
\<close>

section \<open>Errors\<close>

datatype AcquireTenureProtocolErrorCode =
    MessageTooLarge
  | Truncated
  | InvalidMagic
  | UnsupportedVersion
  | UnknownField
  | MissingField
  | DuplicateField
  | OutOfOrderField
  | InvalidFieldLength
  | InvalidFieldValue
  | DerivedDigestMismatch
  | NonCanonicalMessage
  | TrailingBytes
  | InvalidFrameKind
  | ResponseBoundExceeded
  | RequestBindingMismatch
  | DigestFailure
  | ProofContract

record AcquireTenureProtocolError =
  pe_code :: AcquireTenureProtocolErrorCode
  pe_field_tag :: "u16 option"

definition protocol_error_new :: "AcquireTenureProtocolErrorCode \<Rightarrow> AcquireTenureProtocolError" where
  "protocol_error_new code = \<lparr>pe_code = code, pe_field_tag = None\<rparr>"

definition protocol_error_at :: "AcquireTenureProtocolErrorCode \<Rightarrow> u16 \<Rightarrow> AcquireTenureProtocolError" where
  "protocol_error_at code tag = \<lparr>pe_code = code, pe_field_tag = Some tag\<rparr>"

section \<open>Writing and reading values\<close>

definition TLV_HEADER_BYTES :: nat where "TLV_HEADER_BYTES = 6"
definition VALUE_HEADER_BYTES :: nat where "VALUE_HEADER_BYTES = 12"

definition append_value_header :: "bytes \<Rightarrow> bytes \<Rightarrow> u16 \<Rightarrow> u16 \<Rightarrow> bytes" where
  "append_value_header bs magic version field_count =
     bs @ magic @ be_u16 version @ be_u16 field_count"

definition append_tlv :: "bytes \<Rightarrow> u16 \<Rightarrow> bytes \<Rightarrow> bytes" where
  "append_tlv bs tag value = bs @ be_u16 tag @ be_u32 (of_nat (length value)) @ value"

text \<open>The loop of \<open>parse_value\<close>: \<open>n\<close> more fields, the next one with tag \<open>index + 1\<close>.\<close>

fun parse_fields ::
  "u16 \<Rightarrow> (u16 \<Rightarrow> nat \<Rightarrow> bool) \<Rightarrow> nat \<Rightarrow> nat \<Rightarrow> bytes \<Rightarrow>
   AcquireTenureProtocolError + bytes list \<times> bytes" where
  "parse_fields expected_count valid_length index 0 rest = Inr ([], rest)"
| "parse_fields expected_count valid_length index (Suc n) rest =
     (let expected_tag = (of_nat (index + 1) :: u16) in
      if length rest < TLV_HEADER_BYTES then Inl (protocol_error_new Truncated)
      else
        let tag = (from_be (take 2 rest) :: u16);
            value_length = unat (from_be (take 4 (drop 2 rest)) :: u32);
            rest = drop TLV_HEADER_BYTES rest in
        if tag = 0 \<or> tag > expected_count then Inl (protocol_error_at UnknownField tag)
        else if tag < expected_tag then Inl (protocol_error_at DuplicateField tag)
        else if tag > expected_tag then Inl (protocol_error_at OutOfOrderField tag)
        else if \<not> valid_length tag value_length then Inl (protocol_error_at InvalidFieldLength tag)
        else if length rest < value_length then Inl (protocol_error_at Truncated tag)
        else and_then (parse_fields expected_count valid_length (index + 1) n (drop value_length rest))
               (\<lambda>(values, rest'). Inr (take value_length rest # values, rest')))"

definition parse_value ::
  "bytes \<Rightarrow> bytes \<Rightarrow> u16 \<Rightarrow> u16 \<Rightarrow> nat \<Rightarrow> (u16 \<Rightarrow> nat \<Rightarrow> bool) \<Rightarrow>
   AcquireTenureProtocolError + bytes list" where
  "parse_value bs magic expected_version expected_count maximum_bytes valid_length =
     (if length bs > maximum_bytes then Inl (protocol_error_new MessageTooLarge)
      else if length bs < length magic + 4 then Inl (protocol_error_new Truncated)
      else if take (length magic) bs \<noteq> magic then Inl (protocol_error_new InvalidMagic)
      else if (from_be (take 2 (drop (length magic) bs)) :: u16) \<noteq> expected_version
        then Inl (protocol_error_new UnsupportedVersion)
      else
        let declared_count = (from_be (take 2 (drop (length magic + 2) bs)) :: u16) in
        and_then (parse_fields expected_count valid_length 0 (unat declared_count)
                    (drop (length magic + 4) bs)) (\<lambda>(values, rest).
          if declared_count < expected_count
          then Inl (protocol_error_at MissingField (declared_count + 1))
          else if rest \<noteq> [] then Inl (protocol_error_new TrailingBytes)
          else Inr values))"

text \<open>\<open>ParsedFields::get\<close>; the parser returns one value for every tag.\<close>

definition field_get :: "bytes list \<Rightarrow> u16 \<Rightarrow> bytes" where
  "field_get values tag = values ! (unat tag - 1)"

section \<open>The format of one message type\<close>

fun tlv_fields :: "nat \<Rightarrow> bytes list \<Rightarrow> bytes" where
  "tlv_fields index [] = []"
| "tlv_fields index (v # vs) =
     be_u16 (of_nat (index + 1)) @ be_u32 (of_nat (length v)) @ v @ tlv_fields (index + 1) vs"

lemma parse_fields_encoded:
  assumes "length vs + index \<le> unat n"
    and "\<forall>i < length vs. valid_length (of_nat (index + i + 1)) (length (vs ! i)) \<and> length (vs ! i) < 2 ^ 32"
  shows "parse_fields n valid_length index (length vs) (tlv_fields index vs @ rest) = Inr (vs, rest)"
  using assms
proof (induction vs arbitrary: index)
  case (Cons v vs)
  have small: "index + 1 \<le> unat n" "unat n < 65536"
    using Cons.prems(1) unat_bound [of n] by simp_all
  then have tag: "unat (of_nat (index + 1) :: u16) = index + 1" by (simp only: unat_of_nat) simp
  have len: "unat (of_nat (length v) :: u32) = length v"
    using Cons.prems(2) by (force simp: unat_of_nat)
  have "parse_fields n valid_length (index + 1) (length vs) (tlv_fields (index + 1) vs @ rest) = Inr (vs, rest)"
    using Cons.prems by (intro Cons.IH) force+
  moreover have "valid_length (of_nat (index + 1)) (length v)" using Cons.prems(2) by force
  moreover have "(of_nat (index + 1) :: u16) \<noteq> 0" "\<not> n < of_nat (index + 1)"
    using tag small by (auto simp: unat_eq_iff word_less_nat_alt)
  ultimately show ?case
    by (simp add: TLV_HEADER_BYTES_def len Let_def del: of_nat_Suc of_nat_add)
qed simp

lemma field_within: "i < length vs \<Longrightarrow> length (vs ! i) \<le> length (tlv_fields index vs)"
proof (induction vs arbitrary: i index)
  case (Cons v vs)
  from Cons.IH [of _ "Suc index"] Cons.prems show ?case by (cases i) (auto intro: trans_le_add2)
qed simp

lemma length_tlv_fields: "length (tlv_fields index vs) = (\<Sum>v \<leftarrow> vs. TLV_HEADER_BYTES + length v)"
  by (induction vs arbitrary: index) (simp_all add: TLV_HEADER_BYTES_def)

text \<open>
  What a message type supplies: its magic, its number of fields, its bound and the admissible
  field lengths, such that no sequence of admissible fields exceeds the bound.
\<close>

locale value_format =
  fixes magic :: bytes
    and version :: u16
    and field_count :: u16
    and maximum_bytes :: nat
    and valid_length :: "u16 \<Rightarrow> nat \<Rightarrow> bool"
  assumes bounded: "length vs = unat field_count \<Longrightarrow>
      (\<And>i. i < length vs \<Longrightarrow> valid_length (of_nat (i + 1)) (length (vs ! i))) \<Longrightarrow>
      length (append_value_header [] magic version field_count @ tlv_fields 0 vs) \<le> maximum_bytes"
    and bound_small: "maximum_bytes < 2 ^ 32"
begin

definition encoding :: "bytes list \<Rightarrow> bytes" where
  "encoding vs = append_value_header [] magic version field_count @ tlv_fields 0 vs"

definition admissible :: "bytes list \<Rightarrow> bool" where
  "admissible vs \<longleftrightarrow> length vs = unat field_count \<and>
     (\<forall>i < length vs. valid_length (of_nat (i + 1)) (length (vs ! i)))"

lemma admissible_bounded: "admissible vs \<Longrightarrow> length (encoding vs) \<le> maximum_bytes"
  unfolding encoding_def admissible_def by (intro bounded) auto

lemma parse_encoding:
  assumes "admissible vs"
  shows "parse_value (encoding vs) magic version field_count maximum_bytes valid_length = Inr vs"
proof -
  have len: "length vs = unat field_count"
    and valid: "\<forall>i < length vs. valid_length (of_nat (i + 1)) (length (vs ! i))"
    using assms by (simp_all add: admissible_def)
  have total: "length (encoding vs) \<le> maximum_bytes"
    by (rule admissible_bounded [OF assms])
  have small: "length (vs ! i) < 2 ^ 32" if "i < length vs" for i
  proof -
    have "length (vs ! i) \<le> length (encoding vs)"
      using field_within [OF that, of 0] by (simp add: encoding_def)
    with total bound_small show ?thesis by linarith
  qed
  have "parse_fields field_count valid_length 0 (length vs) (tlv_fields 0 vs @ []) = Inr (vs, [])"
    using len valid small by (intro parse_fields_encoded) simp_all
  with total len show ?thesis
    by (simp add: parse_value_def encoding_def append_value_header_def)
qed

end

end
