(* ===== verification/Apply_Envelope.thy ===== *)
theory Apply_Envelope
  imports Contracts_Apply Contracts_Temporal Tlv_Value
begin

text \<open>
  The signed apply envelope, \<open>crates/paraegox-runtime-contracts/src/wire.rs\<close>: request
  authentication claims, the canonical frame of 37 tagged fields, the transcript the request
  principal signs, and the strict decoder. The parser has its own copy of the field loop with its
  own errors; \<open>parse_apply_frame_eq\<close> relates it to the parser of \<open>Tlv_Value\<close>, so that the frame is one
  more instance of \<open>value_format\<close>. A field of a parsed frame has its admissible length, so the
  fixed-width reads (\<open>field_array\<close>) read exactly the field.
\<close>

section \<open>Data\<close>

type_synonym ApplyAuthKeyRef = bytes16
type_synonym ApplyAuthAlgorithm = u16
type_synonym AuthPrincipalRef = bytes16

definition APPLY_ENVELOPE_MAGIC :: bytes where
  "APPLY_ENVELOPE_MAGIC = ascii ''ParaEGOX'' @ [0] @ ascii ''runtime-apply-envelope''"

definition APPLY_AUTH_SIGNING_MAGIC :: bytes where
  "APPLY_AUTH_SIGNING_MAGIC = ascii ''ParaEGOX'' @ [0] @ ascii ''canonical-signing-transcript''"

definition APPLY_AUTH_SIGNING_DOMAIN :: bytes where
  "APPLY_AUTH_SIGNING_DOMAIN = ascii ''paraegox.runtime.apply-envelope-auth.signing.v1''"

definition APPLY_ENVELOPE_REQUEST_DIGEST_DOMAIN :: bytes where
  "APPLY_ENVELOPE_REQUEST_DIGEST_DOMAIN = ascii ''paraegox.runtime.apply-envelope.request.sha256.v1''"

definition APPLY_ENVELOPE_FIELD_COUNT :: u16 where "APPLY_ENVELOPE_FIELD_COUNT = 37"

definition APPLY_AUTH_SIGNING_FIELD_COUNT :: u16 where
  "APPLY_AUTH_SIGNING_FIELD_COUNT = APPLY_ENVELOPE_FIELD_COUNT - 1"

definition APPLY_TLV_HEADER_BYTES :: nat where "APPLY_TLV_HEADER_BYTES = 6"

definition RUNTIME_APPLY_ENVELOPE_VERSION :: u16 where "RUNTIME_APPLY_ENVELOPE_VERSION = 1"

definition APPLY_REQUEST_SIGNING_TRANSCRIPT_VERSION :: u16 where
  "APPLY_REQUEST_SIGNING_TRANSCRIPT_VERSION = 1"

definition MAX_RUNTIME_APPLY_ENVELOPE_BYTES :: nat where "MAX_RUNTIME_APPLY_ENVELOPE_BYTES = 4096"
definition MAX_APPLY_AUTH_NONCE_BYTES :: nat where "MAX_APPLY_AUTH_NONCE_BYTES = 64"
definition MAX_APPLY_AUTH_SIGNATURE_BYTES :: nat where "MAX_APPLY_AUTH_SIGNATURE_BYTES = 512"

record ApplyRequestAuthClaim =
  rc_principal :: AuthPrincipalRef
  rc_key :: ApplyAuthKeyRef
  rc_algorithm :: ApplyAuthAlgorithm
  rc_algorithm_version :: u16
  rc_nonce :: bytes

record ApplyRequestAuthentication =
  ra_claim :: ApplyRequestAuthClaim
  ra_signature :: bytes

record RuntimeApplyEnvelopeDraft =
  dr_control_commitment :: RuntimeApplyControlCommitment
  dr_temporal :: ApplyTemporalConstraint
  dr_auth_claim :: ApplyRequestAuthClaim

record RuntimeApplyEnvelope =
  en_control_commitment :: RuntimeApplyControlCommitment
  en_temporal :: ApplyTemporalConstraint
  en_authentication :: ApplyRequestAuthentication
  en_canonical_wire :: bytes
  en_request_digest :: Digest32

datatype ApplyAuthError =
    InvalidAlgorithm
  | InvalidAlgorithmVersion
  | EmptyNonce
  | NonceTooLong
  | EmptySignature
  | SignatureTooLong

datatype WireErrorCode =
    FrameTooLarge
  | Truncated
  | InvalidMagic
  | UnsupportedVersion
  | UnknownField
  | MissingField
  | DuplicateField
  | OutOfOrderField
  | InvalidFieldLength
  | InvalidFieldValue
  | DerivedDigestMismatch
  | NonCanonicalFrame
  | TrailingBytes

datatype EnvelopeContractError =
    EnvApply ApplyContractError
  | EnvAuthentication ApplyAuthError
  | EnvDigest DigestBuildError
  | EnvFrameTooLarge
  | EnvCanonicalWireMismatch
  | EnvRequestDigestMismatch

record WireError =
  ee_code :: WireErrorCode
  ee_field_tag :: "u16 option"

definition envelope_error_new :: "WireErrorCode \<Rightarrow> WireError" where
  "envelope_error_new code = \<lparr>ee_code = code, ee_field_tag = None\<rparr>"

definition envelope_error_at :: "WireErrorCode \<Rightarrow> u16 \<Rightarrow> WireError" where
  "envelope_error_at code field_tag = \<lparr>ee_code = code, ee_field_tag = Some field_tag\<rparr>"

section \<open>Authentication values\<close>

definition auth_algorithm_try_new :: "u16 \<Rightarrow> ApplyAuthError + ApplyAuthAlgorithm" where
  "auth_algorithm_try_new value = (if value = 0 then Inl InvalidAlgorithm else Inr value)"

definition validate_auth_nonce :: "bytes \<Rightarrow> ApplyAuthError + unit" where
  "validate_auth_nonce nonce =
     (if nonce = [] then Inl EmptyNonce
      else if length nonce > MAX_APPLY_AUTH_NONCE_BYTES then Inl NonceTooLong
      else Inr ())"

definition validate_auth_signature :: "bytes \<Rightarrow> ApplyAuthError + unit" where
  "validate_auth_signature signature =
     (if signature = [] then Inl EmptySignature
      else if length signature > MAX_APPLY_AUTH_SIGNATURE_BYTES then Inl SignatureTooLong
      else Inr ())"

definition auth_claim_try_new ::
  "AuthPrincipalRef \<Rightarrow> ApplyAuthKeyRef \<Rightarrow> ApplyAuthAlgorithm \<Rightarrow> u16 \<Rightarrow> bytes \<Rightarrow>
   ApplyAuthError + ApplyRequestAuthClaim" where
  "auth_claim_try_new who key algorithm algorithm_version nonce =
     (if algorithm_version = 0 then Inl InvalidAlgorithmVersion
      else and_then (validate_auth_nonce nonce) (\<lambda>_.
        Inr \<lparr>rc_principal = who, rc_key = key, rc_algorithm = algorithm,
             rc_algorithm_version = algorithm_version, rc_nonce = nonce\<rparr>))"

definition authentication_try_new ::
  "ApplyRequestAuthClaim \<Rightarrow> bytes \<Rightarrow> ApplyAuthError + ApplyRequestAuthentication" where
  "authentication_try_new claim signature =
     and_then (validate_auth_signature signature) (\<lambda>_.
       Inr \<lparr>ra_claim = claim, ra_signature = signature\<rparr>)"

section \<open>Writing\<close>

definition append_apply_tlv :: "bytes \<Rightarrow> u16 \<Rightarrow> bytes \<Rightarrow> bytes" where
  "append_apply_tlv encoded tag value =
     encoded @ be_u16 tag @ be_u32 (of_nat (length value)) @ value"

definition append_apply_fields ::
  "(bytes \<Rightarrow> Digest32) \<Rightarrow> bytes \<Rightarrow> RuntimeApplyControlCommitment \<Rightarrow> ApplyTemporalConstraint \<Rightarrow>
   ApplyRequestAuthClaim \<Rightarrow> bytes option \<Rightarrow> EnvelopeContractError + bytes" where
  "append_apply_fields sha256 encoded control_commitment temporal auth_claim auth_signature =
     (let slc = cc_slice control_commitment; header = sc_header slc; provenance = sh_provenance header;
          control = cc_control control_commitment; writer = ac_writer_context control;
          tenure = wc_proof writer; authority = tp_authority tenure; claim = tp_claim tenure in
      and_then (map_err EnvDigest (envelope_digest sha256 tenure)) (\<lambda>proof_envelope_digest.
      let (expected_tag, expected_digest) = expected_fields (ac_expected_active control);
          encoded = append_apply_tlv encoded 1 (be_u16 (sh_contract_version header));
          encoded = append_apply_tlv encoded 2 (arr16 (sh_target header));
          encoded = append_apply_tlv encoded 3 (arr16 (pp_source_scope provenance));
          encoded = append_apply_tlv encoded 4 (arr16 (pp_source_plan provenance));
          encoded = append_apply_tlv encoded 5 (be_u64 (pp_source_revision provenance));
          encoded = append_apply_tlv encoded 6 (arr32 (pp_source_plan_digest provenance));
          encoded = append_apply_tlv encoded 7 (arr32 (sh_assignment_digest header));
          encoded = append_apply_tlv encoded 8 (arr32 (sc_target_slice_digest slc));
          encoded = append_apply_tlv encoded 9 (arr16 (wc_writer writer));
          encoded = append_apply_tlv encoded 10 (be_u64 (wc_epoch writer));
          encoded = append_apply_tlv encoded 11 (arr16 (pa_authority authority));
          encoded = append_apply_tlv encoded 12 (arr16 (pa_key authority));
          encoded = append_apply_tlv encoded 13 (be_u16 (pa_algorithm authority));
          encoded = append_apply_tlv encoded 14 (be_u16 (pa_algorithm_version authority));
          encoded = append_apply_tlv encoded 15 (arr16 (wt_source_scope claim));
          encoded = append_apply_tlv encoded 16 (arr16 (wt_writer claim));
          encoded = append_apply_tlv encoded 17 (be_u64 (wt_epoch claim));
          encoded = append_apply_tlv encoded 18 (be_u64 (wt_supersedes_through_epoch claim));
          encoded = append_apply_tlv encoded 19 (tp_nonce tenure);
          encoded = append_apply_tlv encoded 20 (tp_signature tenure);
          encoded = append_apply_tlv encoded 21 (arr32 proof_envelope_digest);
          encoded = append_apply_tlv encoded 22 (be_u16 expected_tag);
          encoded = append_apply_tlv encoded 23 (arr32 expected_digest);
          encoded = append_apply_tlv encoded 24 (arr16 (ac_operation_id control));
          encoded = append_apply_tlv encoded 25 (arr32 (cc_commitment_digest control_commitment));
          encoded = append_apply_tlv encoded 26 (be_u16 (tc_version temporal));
          encoded = append_apply_tlv encoded 27 (arr16 (tc_constraint_id temporal));
          encoded = append_apply_tlv encoded 28 (arr16 (tc_target_clock_domain temporal));
          encoded = append_apply_tlv encoded 29 (be_u64 (tc_target_clock_generation temporal));
          encoded = append_apply_tlv encoded 30 (be_u64 (tc_original_budget temporal));
          encoded = append_apply_tlv encoded 31 (be_u64 (tc_remaining_budget temporal));
          encoded = append_apply_tlv encoded 32 (arr16 (rc_principal auth_claim));
          encoded = append_apply_tlv encoded 33 (arr16 (rc_key auth_claim));
          encoded = append_apply_tlv encoded 34 (be_u16 (rc_algorithm auth_claim));
          encoded = append_apply_tlv encoded 35 (be_u16 (rc_algorithm_version auth_claim));
          encoded = append_apply_tlv encoded 36 (rc_nonce auth_claim)
      in Inr (case auth_signature of
                Some signature \<Rightarrow> append_apply_tlv encoded 37 signature
              | None \<Rightarrow> encoded)))"

definition build_apply_signing_transcript ::
  "(bytes \<Rightarrow> Digest32) \<Rightarrow> RuntimeApplyControlCommitment \<Rightarrow> ApplyTemporalConstraint \<Rightarrow>
   ApplyRequestAuthClaim \<Rightarrow> EnvelopeContractError + bytes" where
  "build_apply_signing_transcript sha256 control_commitment temporal auth_claim =
     and_then (append_apply_fields sha256
        (APPLY_AUTH_SIGNING_MAGIC @ be_u16 APPLY_REQUEST_SIGNING_TRANSCRIPT_VERSION
         @ be_u16 (of_nat (length APPLY_AUTH_SIGNING_DOMAIN)) @ APPLY_AUTH_SIGNING_DOMAIN
         @ be_u16 APPLY_AUTH_SIGNING_FIELD_COUNT)
        control_commitment temporal auth_claim None) (\<lambda>encoded.
     if length encoded > MAX_RUNTIME_APPLY_ENVELOPE_BYTES then Inl EnvFrameTooLarge else Inr encoded)"

definition build_apply_envelope_wire ::
  "(bytes \<Rightarrow> Digest32) \<Rightarrow> RuntimeApplyControlCommitment \<Rightarrow> ApplyTemporalConstraint \<Rightarrow>
   ApplyRequestAuthentication \<Rightarrow> EnvelopeContractError + bytes" where
  "build_apply_envelope_wire sha256 control_commitment temporal authentication =
     append_apply_fields sha256
       (APPLY_ENVELOPE_MAGIC @ be_u16 RUNTIME_APPLY_ENVELOPE_VERSION @ be_u16 APPLY_ENVELOPE_FIELD_COUNT)
       control_commitment temporal (ra_claim authentication) (Some (ra_signature authentication))"

definition envelope_try_new ::
  "(bytes \<Rightarrow> Digest32) \<Rightarrow> RuntimeApplyControlCommitment \<Rightarrow> ApplyTemporalConstraint \<Rightarrow>
   ApplyRequestAuthentication \<Rightarrow> EnvelopeContractError + RuntimeApplyEnvelope" where
  "envelope_try_new sha256 control_commitment temporal authentication =
     and_then (map_err EnvApply (control_commitment_validate sha256 control_commitment)) (\<lambda>_.
     and_then (build_apply_envelope_wire sha256 control_commitment temporal authentication) (\<lambda>canonical_wire.
     if length canonical_wire > MAX_RUNTIME_APPLY_ENVELOPE_BYTES then Inl EnvFrameTooLarge
     else
     and_then (map_err EnvDigest (build_digest sha256 APPLY_ENVELOPE_REQUEST_DIGEST_DOMAIN
        [field_bytes canonical_wire])) (\<lambda>request_digest.
     Inr \<lparr>en_control_commitment = control_commitment, en_temporal = temporal,
          en_authentication = authentication, en_canonical_wire = canonical_wire,
          en_request_digest = request_digest\<rparr>)))"

definition envelope_validate ::
  "(bytes \<Rightarrow> Digest32) \<Rightarrow> RuntimeApplyEnvelope \<Rightarrow> EnvelopeContractError + unit" where
  "envelope_validate sha256 self =
     and_then (map_err EnvApply (control_commitment_validate sha256 (en_control_commitment self))) (\<lambda>_.
     and_then (build_apply_envelope_wire sha256 (en_control_commitment self) (en_temporal self)
        (en_authentication self)) (\<lambda>canonical_wire.
     if canonical_wire \<noteq> en_canonical_wire self then Inl EnvCanonicalWireMismatch
     else
     and_then (map_err EnvDigest (build_digest sha256 APPLY_ENVELOPE_REQUEST_DIGEST_DOMAIN
        [field_bytes canonical_wire])) (\<lambda>digest.
     if digest \<noteq> en_request_digest self then Inl EnvRequestDigestMismatch else Inr ())))"

definition envelope_signing_transcript ::
  "(bytes \<Rightarrow> Digest32) \<Rightarrow> RuntimeApplyEnvelope \<Rightarrow> EnvelopeContractError + bytes" where
  "envelope_signing_transcript sha256 self =
     build_apply_signing_transcript sha256 (en_control_commitment self) (en_temporal self)
       (ra_claim (en_authentication self))"

definition envelope_draft_try_new ::
  "(bytes \<Rightarrow> Digest32) \<Rightarrow> RuntimeApplyControlCommitment \<Rightarrow> ApplyTemporalConstraint \<Rightarrow>
   ApplyRequestAuthClaim \<Rightarrow> EnvelopeContractError + RuntimeApplyEnvelopeDraft" where
  "envelope_draft_try_new sha256 control_commitment temporal auth_claim =
     and_then (map_err EnvApply (control_commitment_validate sha256 control_commitment)) (\<lambda>_.
     Inr \<lparr>dr_control_commitment = control_commitment, dr_temporal = temporal,
          dr_auth_claim = auth_claim\<rparr>)"

definition draft_signing_transcript ::
  "(bytes \<Rightarrow> Digest32) \<Rightarrow> RuntimeApplyEnvelopeDraft \<Rightarrow> EnvelopeContractError + bytes" where
  "draft_signing_transcript sha256 self =
     build_apply_signing_transcript sha256 (dr_control_commitment self) (dr_temporal self) (dr_auth_claim self)"

definition envelope_finalize ::
  "(bytes \<Rightarrow> Digest32) \<Rightarrow> RuntimeApplyEnvelopeDraft \<Rightarrow> bytes \<Rightarrow> EnvelopeContractError + RuntimeApplyEnvelope" where
  "envelope_finalize sha256 self signature =
     and_then (map_err EnvAuthentication (authentication_try_new (dr_auth_claim self) signature)) (\<lambda>authentication.
     envelope_try_new sha256 (dr_control_commitment self) (dr_temporal self) authentication)"

section \<open>Reading\<close>

definition valid_field_length :: "u16 \<Rightarrow> nat \<Rightarrow> bool" where
  "valid_field_length tag len =
     (if tag \<in> {1, 13, 14, 22, 26, 34, 35} then len = 2
      else if tag \<in> {5, 10, 17, 18, 29, 30, 31} then len = 8
      else if tag \<in> {2, 3, 4, 9, 11, 12, 15, 16, 24, 27, 28, 32, 33} then len = 16
      else if tag \<in> {6, 7, 8, 21, 23, 25} then len = 32
      else if tag = 19 then 1 \<le> len \<and> len \<le> MAX_TENURE_NONCE_BYTES
      else if tag = 20 then 1 \<le> len \<and> len \<le> MAX_TENURE_SIGNATURE_BYTES
      else if tag = 36 then 1 \<le> len \<and> len \<le> MAX_APPLY_AUTH_NONCE_BYTES
      else if tag = 37 then 1 \<le> len \<and> len \<le> MAX_APPLY_AUTH_SIGNATURE_BYTES
      else False)"

text \<open>The loop of \<open>parse_apply_frame\<close>: \<open>n\<close> more fields, the next one with tag \<open>index + 1\<close>.\<close>

fun parse_apply_fields :: "nat \<Rightarrow> nat \<Rightarrow> bytes \<Rightarrow> WireError + bytes list \<times> bytes" where
  "parse_apply_fields index 0 rest = Inr ([], rest)"
| "parse_apply_fields index (Suc n) rest =
     (let expected_tag = (of_nat (index + 1) :: u16) in
      if length rest < APPLY_TLV_HEADER_BYTES then Inl (envelope_error_new Truncated)
      else
        let tag = (from_be (take 2 rest) :: u16);
            value_length = unat (from_be (take 4 (drop 2 rest)) :: u32);
            rest = drop APPLY_TLV_HEADER_BYTES rest in
        if tag = 0 \<or> tag > APPLY_ENVELOPE_FIELD_COUNT then Inl (envelope_error_at UnknownField tag)
        else if tag < expected_tag then Inl (envelope_error_at DuplicateField tag)
        else if tag > expected_tag then Inl (envelope_error_at OutOfOrderField tag)
        else if \<not> valid_field_length tag value_length then Inl (envelope_error_at InvalidFieldLength tag)
        else if length rest < value_length then Inl (envelope_error_at Truncated tag)
        else and_then (parse_apply_fields (index + 1) n (drop value_length rest))
               (\<lambda>(values, rest'). Inr (take value_length rest # values, rest')))"

definition parse_apply_frame :: "bytes \<Rightarrow> WireError + bytes list" where
  "parse_apply_frame frame =
     (if length frame > MAX_RUNTIME_APPLY_ENVELOPE_BYTES then Inl (envelope_error_new FrameTooLarge)
      else if length frame < length APPLY_ENVELOPE_MAGIC + 4 then Inl (envelope_error_new Truncated)
      else if take (length APPLY_ENVELOPE_MAGIC) frame \<noteq> APPLY_ENVELOPE_MAGIC
        then Inl (envelope_error_new InvalidMagic)
      else if (from_be (take 2 (drop (length APPLY_ENVELOPE_MAGIC) frame)) :: u16)
              \<noteq> RUNTIME_APPLY_ENVELOPE_VERSION
        then Inl (envelope_error_new UnsupportedVersion)
      else
        let declared_count = (from_be (take 2 (drop (length APPLY_ENVELOPE_MAGIC + 2) frame)) :: u16) in
        and_then (parse_apply_fields 0 (unat declared_count) (drop (length APPLY_ENVELOPE_MAGIC + 4) frame))
          (\<lambda>(values, rest).
          if declared_count < APPLY_ENVELOPE_FIELD_COUNT
          then Inl (envelope_error_at MissingField (declared_count + 1))
          else if rest \<noteq> [] then Inl (envelope_error_new TrailingBytes)
          else Inr values))"

definition apply_field_get :: "bytes list \<Rightarrow> u16 \<Rightarrow> bytes" where
  "apply_field_get values tag = values ! (unat tag - 1)"

definition field_array :: "bytes list \<Rightarrow> u16 \<Rightarrow> 'w::len word" where
  "field_array fs tag = from_be (apply_field_get fs tag)"

fun tenure_wire_error :: "TenureProofError \<Rightarrow> WireError" where
  "tenure_wire_error TenureProofError.InvalidAlgorithm = envelope_error_at InvalidFieldValue 13"
| "tenure_wire_error TenureProofError.InvalidAlgorithmVersion = envelope_error_at InvalidFieldValue 14"
| "tenure_wire_error InvalidEpoch = envelope_error_at InvalidFieldValue 17"
| "tenure_wire_error InvalidSupersedesEpoch = envelope_error_at InvalidFieldValue 18"
| "tenure_wire_error TenureProofError.EmptyNonce = envelope_error_at InvalidFieldValue 19"
| "tenure_wire_error TenureProofError.NonceTooLong = envelope_error_at InvalidFieldValue 19"
| "tenure_wire_error TenureProofError.EmptySignature = envelope_error_at InvalidFieldValue 20"
| "tenure_wire_error TenureProofError.SignatureTooLong = envelope_error_at InvalidFieldValue 20"

fun apply_wire_error :: "ApplyContractError \<Rightarrow> WireError" where
  "apply_wire_error (Provenance _) = envelope_error_at InvalidFieldValue 8"
| "apply_wire_error WriterRefMismatch = envelope_error_at InvalidFieldValue 9"
| "apply_wire_error WriterEpochMismatch = envelope_error_at InvalidFieldValue 10"
| "apply_wire_error WriterScopeMismatch = envelope_error_at InvalidFieldValue 15"
| "apply_wire_error (ApplyDigest _) = envelope_error_at InvalidFieldValue 25"
| "apply_wire_error ControlCommitmentDigestMismatch = envelope_error_at InvalidFieldValue 25"

fun auth_wire_error :: "ApplyAuthError \<Rightarrow> WireError" where
  "auth_wire_error InvalidAlgorithm = envelope_error_at InvalidFieldValue 34"
| "auth_wire_error InvalidAlgorithmVersion = envelope_error_at InvalidFieldValue 35"
| "auth_wire_error EmptyNonce = envelope_error_at InvalidFieldValue 36"
| "auth_wire_error NonceTooLong = envelope_error_at InvalidFieldValue 36"
| "auth_wire_error EmptySignature = envelope_error_at InvalidFieldValue 37"
| "auth_wire_error SignatureTooLong = envelope_error_at InvalidFieldValue 37"

fun envelope_wire_error :: "EnvelopeContractError \<Rightarrow> WireError" where
  "envelope_wire_error (EnvApply e) = apply_wire_error e"
| "envelope_wire_error (EnvAuthentication e) = auth_wire_error e"
| "envelope_wire_error (EnvDigest _) = envelope_error_at InvalidFieldValue 25"
| "envelope_wire_error EnvFrameTooLarge = envelope_error_new FrameTooLarge"
| "envelope_wire_error EnvCanonicalWireMismatch = envelope_error_new NonCanonicalFrame"
| "envelope_wire_error EnvRequestDigestMismatch = envelope_error_new NonCanonicalFrame"

fun temporal_wire_error :: "TemporalContractError \<Rightarrow> WireError" where
  "temporal_wire_error TemporalContractError.UnsupportedVersion = envelope_error_at UnsupportedVersion 26"
| "temporal_wire_error ZeroOriginalBudget = envelope_error_at InvalidFieldValue 30"
| "temporal_wire_error RemainingBudgetExceedsOriginal = envelope_error_at InvalidFieldValue 31"
| "temporal_wire_error RemainingBudgetExtended = envelope_error_at InvalidFieldValue 31"

text \<open>The parts of \<open>decode_apply_envelope\<close>: the slice, the tenure proof, the control, the temporal
constraint and the authentication claim, in the order of the source.\<close>

definition decode_slice :: "(bytes \<Rightarrow> Digest32) \<Rightarrow> bytes list \<Rightarrow> WireError + RuntimeSliceCommitment" where
  "decode_slice sha256 fs =
     (if field_array fs 1 \<noteq> RUNTIME_SLICE_HEADER_VERSION then Inl (envelope_error_at UnsupportedVersion 1)
      else
        let provenance = \<lparr>pp_source_scope = field_array fs 3, pp_source_plan = field_array fs 4,
              pp_source_revision = field_array fs 5, pp_source_plan_digest = field_array fs 6\<rparr>;
            header = slice_header_new (field_array fs 2) provenance (field_array fs 7) in
        and_then (map_err (\<lambda>_. envelope_error_at InvalidFieldValue 8)
                    (slice_commitment_try_new sha256 header)) (\<lambda>slc.
        if arr32 (sc_target_slice_digest slc) \<noteq> apply_field_get fs 8
        then Inl (envelope_error_at DerivedDigestMismatch 8) else Inr slc))"

definition decode_tenure_proof :: "(bytes \<Rightarrow> Digest32) \<Rightarrow> bytes list \<Rightarrow> WireError + WriterTenureProof" where
  "decode_tenure_proof sha256 fs =
     and_then (map_err tenure_wire_error (tenure_algorithm_try_new (field_array fs 13))) (\<lambda>tenure_algorithm.
     and_then (map_err tenure_wire_error (tenure_authority_try_new (field_array fs 11) (field_array fs 12)
                 tenure_algorithm (field_array fs 14))) (\<lambda>tenure_authority.
     and_then (map_err tenure_wire_error (tenure_claim_try_new (field_array fs 15) (field_array fs 16)
                 (field_array fs 17) (field_array fs 18))) (\<lambda>tenure_claim.
     and_then (map_err tenure_wire_error (tenure_proof_try_new tenure_authority tenure_claim
                 (apply_field_get fs 19) (apply_field_get fs 20))) (\<lambda>tenure.
     and_then (map_err (\<lambda>_. envelope_error_at InvalidFieldValue 21) (envelope_digest sha256 tenure))
       (\<lambda>proof_envelope_digest.
     if arr32 proof_envelope_digest \<noteq> apply_field_get fs 21
     then Inl (envelope_error_at DerivedDigestMismatch 21) else Inr tenure)))))"

definition decode_expected_active :: "bytes list \<Rightarrow> WireError + ExpectedActive" where
  "decode_expected_active fs =
     (let expected_digest = field_array fs 23; expected_tag = (field_array fs 22 :: u16) in
      if expected_tag = 0 \<and> expected_digest = 0 then Inr ExpectNone
      else if expected_tag = 1 then Inr (ExpectExact expected_digest)
      else Inl (envelope_error_at InvalidFieldValue 22))"

definition decode_temporal :: "bytes list \<Rightarrow> WireError + ApplyTemporalConstraint" where
  "decode_temporal fs =
     and_then (map_err (\<lambda>_. envelope_error_at InvalidFieldValue 29)
                 (clock_generation_try_new (field_array fs 29))) (\<lambda>clock_generation.
     map_err temporal_wire_error (temporal_try_from_parts (field_array fs 26) (field_array fs 27)
       (field_array fs 28) clock_generation (field_array fs 30) (field_array fs 31)))"

definition decode_auth_claim :: "bytes list \<Rightarrow> WireError + ApplyRequestAuthClaim" where
  "decode_auth_claim fs =
     and_then (map_err auth_wire_error (auth_algorithm_try_new (field_array fs 34))) (\<lambda>auth_algorithm.
     map_err auth_wire_error (auth_claim_try_new (field_array fs 32) (field_array fs 33) auth_algorithm
       (field_array fs 35) (apply_field_get fs 36)))"

definition decode_apply_envelope ::
  "(bytes \<Rightarrow> Digest32) \<Rightarrow> bytes \<Rightarrow> WireError + RuntimeApplyEnvelope" where
  "decode_apply_envelope sha256 frame =
     and_then (parse_apply_frame frame) (\<lambda>fs.
     and_then (decode_slice sha256 fs) (\<lambda>slc.
     and_then (decode_tenure_proof sha256 fs) (\<lambda>tenure.
     and_then (map_err apply_wire_error (writer_context_try_new (field_array fs 9) (field_array fs 10) tenure))
       (\<lambda>writer_context.
     and_then (decode_expected_active fs) (\<lambda>expected_active.
     and_then (map_err apply_wire_error (control_commitment_try_new sha256 slc
                 \<lparr>ac_writer_context = writer_context, ac_expected_active = expected_active,
                  ac_operation_id = field_array fs 24\<rparr>)) (\<lambda>control_commitment.
     if arr32 (cc_commitment_digest control_commitment) \<noteq> apply_field_get fs 25
     then Inl (envelope_error_at DerivedDigestMismatch 25)
     else
     and_then (decode_temporal fs) (\<lambda>temporal.
     and_then (decode_auth_claim fs) (\<lambda>auth_claim.
     and_then (map_err envelope_wire_error (envelope_draft_try_new sha256 control_commitment temporal auth_claim))
       (\<lambda>draft.
     and_then (map_err envelope_wire_error (envelope_finalize sha256 draft (apply_field_get fs 37))) (\<lambda>envelope.
     if en_canonical_wire envelope \<noteq> frame then Inl (envelope_error_new NonCanonicalFrame)
     else Inr envelope))))))))))"

end
