(* ===== verification/Contracts_Assignment.thy ===== *)
theory Contracts_Assignment
  imports Apply_Envelope
begin

text \<open>
  Target assignments, \<open>crates/paraegox-runtime-contracts/src/assignment.rs\<close>: the resolved
  1:1 bindings of a target, the checks that make a binding and a whole body acceptable, and
  the fixed-record wire format with its strict decoder. The record cursor is the list of
  bytes not read yet; \<open>chunks_exact\<close> hands it records of 256 bytes, which is what one
  decoding consumes (\<open>length_append_assignment_record\<close>), so no read passes the end. The
  length of a frame with at most 256 records is small, so the checked multiplication and
  addition that compute it never fail and are written as the sum. The complete signed request
  of the same file is theory \<open>Apply_Request\<close>.
\<close>

section \<open>Data\<close>

type_synonym BindingId = bytes16
type_synonym InstanceRef = bytes16
type_synonym PortRef = bytes16
type_synonym MailboxRef = bytes16

definition TARGET_ASSIGNMENTS_VERSION :: u16 where "TARGET_ASSIGNMENTS_VERSION = 1"
definition MAX_TARGET_ASSIGNMENTS :: nat where "MAX_TARGET_ASSIGNMENTS = 256"
definition TARGET_ASSIGNMENTS_MAGIC :: bytes where "TARGET_ASSIGNMENTS_MAGIC = ascii ''PXTA''"
definition TARGET_ASSIGNMENTS_HEADER_BYTES :: nat where "TARGET_ASSIGNMENTS_HEADER_BYTES = 10"
definition TARGET_ASSIGNMENT_RECORD_BYTES :: nat where "TARGET_ASSIGNMENT_RECORD_BYTES = 256"

definition TARGET_ASSIGNMENTS_DIGEST_DOMAIN :: bytes where
  "TARGET_ASSIGNMENTS_DIGEST_DOMAIN = ascii ''paraegox.runtime.target-assignments.sha256.v1''"

definition MAX_TARGET_ASSIGNMENTS_BYTES :: nat where
  "MAX_TARGET_ASSIGNMENTS_BYTES =
     TARGET_ASSIGNMENTS_HEADER_BYTES + MAX_TARGET_ASSIGNMENTS * TARGET_ASSIGNMENT_RECORD_BYTES"

record SchemaRef =
  sr_id :: bytes16
  sr_version :: u32
  sr_content_digest :: Digest32

datatype PortDirection = Out | In
datatype InteractionKind = Signal | Event
datatype PortCardinality = One

record PortSpec =
  ps_direction :: PortDirection
  ps_schema :: SchemaRef
  ps_interaction :: InteractionKind
  ps_cardinality :: PortCardinality

datatype OverflowPolicy = RejectNew | DropOldest | Latest | CoalesceByKey | BlockUntilDeadline

record DeliveryProfile =
  dp_max_payload_bytes :: u64
  dp_max_message_age :: BoundedDuration
  dp_overflow_policy :: OverflowPolicy

record MailboxSpec =
  ms_capacity_items :: u32
  ms_capacity_bytes :: u64
  ms_max_queue_age :: BoundedDuration
  ms_max_inflight :: u32
  ms_max_retained_bytes :: u64
  ms_overflow_policy :: OverflowPolicy

record PortEndpoint =
  pe_instance :: InstanceRef
  pe_port :: PortRef
  pe_spec :: PortSpec

record BindingAssignment =
  ba_binding_id :: BindingId
  ba_source_instance :: InstanceRef
  ba_source_port :: PortRef
  ba_source_spec :: PortSpec
  ba_target_instance :: InstanceRef
  ba_target_port :: PortRef
  ba_target_spec :: PortSpec
  ba_mailbox :: MailboxRef
  ba_delivery :: DeliveryProfile
  ba_mailbox_spec :: MailboxSpec

record TargetAssignments =
  ta_assignments :: "BindingAssignment list"
  ta_canonical_wire :: bytes
  ta_assignment_digest :: TargetAssignmentDigest

record RuntimePlanSlice =
  rp_commitment :: RuntimeSliceCommitment
  rp_assignments :: TargetAssignments

datatype AssignmentContractError =
    InvalidSchemaVersion
  | InvalidMaxPayloadBytes
  | InvalidMaxMessageAge
  | InvalidMailboxItemCapacity
  | InvalidMailboxByteCapacity
  | InvalidMailboxAge
  | InvalidMailboxInflightCapacity
  | InvalidMailboxRetainedByteCapacity
  | InvalidSourceDirection
  | InvalidTargetDirection
  | SchemaMismatch
  | InteractionMismatch
  | OverflowPolicyMismatch
  | QueueAgeExceedsDeliveryAge
  | MailboxCannotHoldPayload
  | MailboxCannotRetainCapacity
  | EventCannotUseLossyOverflow
  | AssignmentCountExceeded
  | DuplicateBindingId
  | DuplicateSourceEndpoint
  | DuplicateTargetEndpoint
  | DuplicateMailboxRef
  | AssignmentDigest DigestBuildError
  | CanonicalWireMismatch
  | AssignmentDigestMismatch
  | SliceAssignmentDigestMismatch
  | EnvelopeSliceMismatch
  | AssignmentProvenance ProvenanceContractError
  | AssignmentEnvelope EnvelopeContractError
  | RequestFrameTooLarge
  | RequestCanonicalWireMismatch

datatype AssignmentWireErrorCode =
    FrameTooLarge
  | Truncated
  | InvalidMagic
  | UnsupportedVersion
  | WireAssignmentCountExceeded
  | InvalidFrameLength
  | InvalidEnumValue
  | InvalidAssignment
  | WireDuplicateBindingId
  | WireDuplicateSourceEndpoint
  | WireDuplicateTargetEndpoint
  | NonCanonicalFrame
  | WireDuplicateMailboxRef

record AssignmentWireError =
  we_code :: AssignmentWireErrorCode
  we_record_index :: "u32 option"

definition wire_error_new :: "AssignmentWireErrorCode \<Rightarrow> AssignmentWireError" where
  "wire_error_new code = \<lparr>we_code = code, we_record_index = None\<rparr>"

definition wire_error_at :: "AssignmentWireErrorCode \<Rightarrow> u32 \<Rightarrow> AssignmentWireError" where
  "wire_error_at code record_index = \<lparr>we_code = code, we_record_index = Some record_index\<rparr>"

section \<open>Constructors\<close>

definition schema_ref_try_new ::
  "bytes16 \<Rightarrow> u32 \<Rightarrow> Digest32 \<Rightarrow> AssignmentContractError + SchemaRef" where
  "schema_ref_try_new i version content_digest =
     (if version = 0 then Inl InvalidSchemaVersion
      else Inr \<lparr>sr_id = i, sr_version = version, sr_content_digest = content_digest\<rparr>)"

definition delivery_try_new ::
  "u64 \<Rightarrow> BoundedDuration \<Rightarrow> OverflowPolicy \<Rightarrow> AssignmentContractError + DeliveryProfile" where
  "delivery_try_new max_payload_bytes max_message_age overflow_policy =
     (if max_payload_bytes = 0 then Inl InvalidMaxPayloadBytes
      else if max_message_age = 0 then Inl InvalidMaxMessageAge
      else Inr \<lparr>dp_max_payload_bytes = max_payload_bytes, dp_max_message_age = max_message_age,
                dp_overflow_policy = overflow_policy\<rparr>)"

definition mailbox_spec_try_new ::
  "u32 \<Rightarrow> u64 \<Rightarrow> BoundedDuration \<Rightarrow> u32 \<Rightarrow> u64 \<Rightarrow> OverflowPolicy \<Rightarrow>
   AssignmentContractError + MailboxSpec" where
  "mailbox_spec_try_new capacity_items capacity_bytes max_queue_age max_inflight
       max_retained_bytes overflow_policy =
     (if capacity_items = 0 then Inl InvalidMailboxItemCapacity
      else if capacity_bytes = 0 then Inl InvalidMailboxByteCapacity
      else if max_queue_age = 0 then Inl InvalidMailboxAge
      else if max_inflight = 0 then Inl InvalidMailboxInflightCapacity
      else if max_retained_bytes = 0 then Inl InvalidMailboxRetainedByteCapacity
      else Inr \<lparr>ms_capacity_items = capacity_items, ms_capacity_bytes = capacity_bytes,
                ms_max_queue_age = max_queue_age, ms_max_inflight = max_inflight,
                ms_max_retained_bytes = max_retained_bytes,
                ms_overflow_policy = overflow_policy\<rparr>)"

definition binding_try_new ::
  "BindingId \<Rightarrow> PortEndpoint \<Rightarrow> PortEndpoint \<Rightarrow> MailboxRef \<Rightarrow> DeliveryProfile \<Rightarrow> MailboxSpec \<Rightarrow>
   AssignmentContractError + BindingAssignment" where
  "binding_try_new binding_id source target mailbox delivery mailbox_spec =
     (let source_spec = pe_spec source; target_spec = pe_spec target in
      if ps_direction source_spec \<noteq> Out then Inl InvalidSourceDirection
      else if ps_direction target_spec \<noteq> In then Inl InvalidTargetDirection
      else if ps_schema source_spec \<noteq> ps_schema target_spec then Inl SchemaMismatch
      else if ps_interaction source_spec \<noteq> ps_interaction target_spec then Inl InteractionMismatch
      else if dp_overflow_policy delivery \<noteq> ms_overflow_policy mailbox_spec
        then Inl OverflowPolicyMismatch
      else if ms_max_queue_age mailbox_spec > dp_max_message_age delivery
        then Inl QueueAgeExceedsDeliveryAge
      else if ms_capacity_bytes mailbox_spec < dp_max_payload_bytes delivery
        then Inl MailboxCannotHoldPayload
      else if ms_max_retained_bytes mailbox_spec < ms_capacity_bytes mailbox_spec
        then Inl MailboxCannotRetainCapacity
      else if ps_interaction source_spec = Event
              \<and> dp_overflow_policy delivery \<notin> {RejectNew, BlockUntilDeadline}
        then Inl EventCannotUseLossyOverflow
      else Inr \<lparr>ba_binding_id = binding_id, ba_source_instance = pe_instance source,
                ba_source_port = pe_port source, ba_source_spec = source_spec,
                ba_target_instance = pe_instance target, ba_target_port = pe_port target,
                ba_target_spec = target_spec, ba_mailbox = mailbox, ba_delivery = delivery,
                ba_mailbox_spec = mailbox_spec\<rparr>)"

section \<open>Encoding\<close>

fun direction_u8 :: "PortDirection \<Rightarrow> u8" where
  "direction_u8 Out = 1" | "direction_u8 In = 2"

fun interaction_u8 :: "InteractionKind \<Rightarrow> u8" where
  "interaction_u8 Signal = 1" | "interaction_u8 Event = 2"

fun cardinality_u8 :: "PortCardinality \<Rightarrow> u8" where
  "cardinality_u8 One = 1"

fun overflow_u8 :: "OverflowPolicy \<Rightarrow> u8" where
  "overflow_u8 RejectNew = 1" | "overflow_u8 DropOldest = 2" | "overflow_u8 Latest = 3"
| "overflow_u8 CoalesceByKey = 4" | "overflow_u8 BlockUntilDeadline = 5"

definition append_endpoint :: "bytes \<Rightarrow> InstanceRef \<Rightarrow> PortRef \<Rightarrow> PortSpec \<Rightarrow> bytes" where
  "append_endpoint encoded inst port spec =
     encoded @ arr16 inst @ arr16 port @ [direction_u8 (ps_direction spec)]
       @ arr16 (sr_id (ps_schema spec)) @ be_u32 (sr_version (ps_schema spec))
       @ arr32 (sr_content_digest (ps_schema spec))
       @ [interaction_u8 (ps_interaction spec)] @ [cardinality_u8 (ps_cardinality spec)]"

definition append_assignment_record :: "bytes \<Rightarrow> BindingAssignment \<Rightarrow> bytes" where
  "append_assignment_record encoded assignment =
     (let encoded = encoded @ arr16 (ba_binding_id assignment);
          encoded = append_endpoint encoded (ba_source_instance assignment)
                      (ba_source_port assignment) (ba_source_spec assignment);
          encoded = append_endpoint encoded (ba_target_instance assignment)
                      (ba_target_port assignment) (ba_target_spec assignment);
          delivery = ba_delivery assignment; mailbox = ba_mailbox_spec assignment
      in encoded @ arr16 (ba_mailbox assignment)
           @ be_u64 (dp_max_payload_bytes delivery) @ be_u64 (dp_max_message_age delivery)
           @ [overflow_u8 (dp_overflow_policy delivery)]
           @ be_u32 (ms_capacity_items mailbox) @ be_u64 (ms_capacity_bytes mailbox)
           @ be_u64 (ms_max_queue_age mailbox) @ be_u32 (ms_max_inflight mailbox)
           @ be_u64 (ms_max_retained_bytes mailbox) @ [overflow_u8 (ms_overflow_policy mailbox)])"

definition build_target_assignments_wire :: "BindingAssignment list \<Rightarrow> bytes" where
  "build_target_assignments_wire assignments =
     foldl append_assignment_record
       (TARGET_ASSIGNMENTS_MAGIC @ be_u16 TARGET_ASSIGNMENTS_VERSION
          @ be_u32 (of_nat (length assignments)))
       assignments"

section \<open>The assignment body\<close>

definition check_assignment_pair ::
  "BindingAssignment \<Rightarrow> BindingAssignment \<Rightarrow> AssignmentContractError + unit" where
  "check_assignment_pair previous assignment =
     (if ba_binding_id previous = ba_binding_id assignment then Inl DuplicateBindingId
      else if ba_source_instance previous = ba_source_instance assignment
              \<and> ba_source_port previous = ba_source_port assignment
        then Inl DuplicateSourceEndpoint
      else if ba_target_instance previous = ba_target_instance assignment
              \<and> ba_target_port previous = ba_target_port assignment
        then Inl DuplicateTargetEndpoint
      else if ba_mailbox previous = ba_mailbox assignment then Inl DuplicateMailboxRef
      else Inr ())"

fun check_previous ::
  "BindingAssignment \<Rightarrow> BindingAssignment list \<Rightarrow> AssignmentContractError + unit" where
  "check_previous assignment [] = Inr ()"
| "check_previous assignment (previous # rest) =
     and_then (check_assignment_pair previous assignment) (\<lambda>_. check_previous assignment rest)"

fun check_from ::
  "BindingAssignment list \<Rightarrow> BindingAssignment list \<Rightarrow> AssignmentContractError + unit" where
  "check_from taken [] = Inr ()"
| "check_from taken (assignment # rest) =
     and_then (check_previous assignment taken) (\<lambda>_. check_from (taken @ [assignment]) rest)"

definition ensure_assignment_uniqueness ::
  "BindingAssignment list \<Rightarrow> AssignmentContractError + unit" where
  "ensure_assignment_uniqueness assignments = check_from [] assignments"

definition digest_target_assignments ::
  "(bytes \<Rightarrow> Digest32) \<Rightarrow> bytes \<Rightarrow> DigestBuildError + TargetAssignmentDigest" where
  "digest_target_assignments sha256 canonical_wire =
     build_digest sha256 TARGET_ASSIGNMENTS_DIGEST_DOMAIN [field_bytes canonical_wire]"

definition assignments_try_new ::
  "(bytes \<Rightarrow> Digest32) \<Rightarrow> BindingAssignment list \<Rightarrow> AssignmentContractError + TargetAssignments" where
  "assignments_try_new sha256 assignments =
     (if length assignments > MAX_TARGET_ASSIGNMENTS then Inl AssignmentCountExceeded
      else
        let assignments = sort_key ba_binding_id assignments in
        and_then (ensure_assignment_uniqueness assignments) (\<lambda>_.
          let canonical_wire = build_target_assignments_wire assignments in
          and_then (map_err AssignmentDigest (digest_target_assignments sha256 canonical_wire))
            (\<lambda>assignment_digest.
               Inr \<lparr>ta_assignments = assignments, ta_canonical_wire = canonical_wire,
                    ta_assignment_digest = assignment_digest\<rparr>)))"

definition assignments_validate ::
  "(bytes \<Rightarrow> Digest32) \<Rightarrow> TargetAssignments \<Rightarrow> AssignmentContractError + unit" where
  "assignments_validate sha256 self =
     and_then (assignments_try_new sha256 (ta_assignments self)) (\<lambda>rebuilt.
       if ta_assignments rebuilt \<noteq> ta_assignments self then Inl CanonicalWireMismatch
       else if ta_canonical_wire rebuilt \<noteq> ta_canonical_wire self then Inl CanonicalWireMismatch
       else if ta_assignment_digest rebuilt \<noteq> ta_assignment_digest self
         then Inl AssignmentDigestMismatch
       else Inr ())"

definition plan_slice_validate ::
  "(bytes \<Rightarrow> Digest32) \<Rightarrow> RuntimePlanSlice \<Rightarrow> AssignmentContractError + unit" where
  "plan_slice_validate sha256 self =
     and_then (map_err AssignmentProvenance (slice_commitment_validate sha256 (rp_commitment self))) (\<lambda>_.
     and_then (assignments_validate sha256 (rp_assignments self)) (\<lambda>_.
       if sh_assignment_digest (sc_header (rp_commitment self)) \<noteq>
          ta_assignment_digest (rp_assignments self)
       then Inl SliceAssignmentDigestMismatch else Inr ()))"

definition plan_slice_try_new ::
  "(bytes \<Rightarrow> Digest32) \<Rightarrow> RuntimeSliceCommitment \<Rightarrow> TargetAssignments \<Rightarrow>
   AssignmentContractError + RuntimePlanSlice" where
  "plan_slice_try_new sha256 commitment assignments =
     and_then (map_err AssignmentProvenance (slice_commitment_validate sha256 commitment)) (\<lambda>_.
     and_then (assignments_validate sha256 assignments) (\<lambda>_.
       if sh_assignment_digest (sc_header commitment) \<noteq> ta_assignment_digest assignments
       then Inl SliceAssignmentDigestMismatch
       else Inr \<lparr>rp_commitment = commitment, rp_assignments = assignments\<rparr>))"

section \<open>Decoding\<close>

definition cursor_array :: "nat \<Rightarrow> bytes \<Rightarrow> bytes \<times> bytes" where
  "cursor_array n cursor = (take n cursor, drop n cursor)"

definition cursor_u8 :: "bytes \<Rightarrow> u8 \<times> bytes" where
  "cursor_u8 cursor = (hd cursor, tl cursor)"

definition cursor_u32 :: "bytes \<Rightarrow> u32 \<times> bytes" where
  "cursor_u32 cursor = (let (bs, cursor) = cursor_array 4 cursor in (from_be bs, cursor))"

definition cursor_u64 :: "bytes \<Rightarrow> u64 \<times> bytes" where
  "cursor_u64 cursor = (let (bs, cursor) = cursor_array 8 cursor in (from_be bs, cursor))"

definition cursor_arr16 :: "bytes \<Rightarrow> bytes16 \<times> bytes" where
  "cursor_arr16 cursor = (let (bs, cursor) = cursor_array 16 cursor in (from_be bs, cursor))"

definition cursor_arr32 :: "bytes \<Rightarrow> bytes32 \<times> bytes" where
  "cursor_arr32 cursor = (let (bs, cursor) = cursor_array 32 cursor in (from_be bs, cursor))"

definition decode_direction :: "u8 \<Rightarrow> u32 \<Rightarrow> AssignmentWireError + PortDirection" where
  "decode_direction value record_index =
     (if value = 1 then Inr Out else if value = 2 then Inr In
      else Inl (wire_error_at InvalidEnumValue record_index))"

definition decode_interaction :: "u8 \<Rightarrow> u32 \<Rightarrow> AssignmentWireError + InteractionKind" where
  "decode_interaction value record_index =
     (if value = 1 then Inr Signal else if value = 2 then Inr Event
      else Inl (wire_error_at InvalidEnumValue record_index))"

definition decode_cardinality :: "u8 \<Rightarrow> u32 \<Rightarrow> AssignmentWireError + PortCardinality" where
  "decode_cardinality value record_index =
     (if value = 1 then Inr One else Inl (wire_error_at InvalidEnumValue record_index))"

definition decode_overflow :: "u8 \<Rightarrow> u32 \<Rightarrow> AssignmentWireError + OverflowPolicy" where
  "decode_overflow value record_index =
     (if value = 1 then Inr RejectNew else if value = 2 then Inr DropOldest
      else if value = 3 then Inr Latest else if value = 4 then Inr CoalesceByKey
      else if value = 5 then Inr BlockUntilDeadline
      else Inl (wire_error_at InvalidEnumValue record_index))"

definition decode_endpoint :: "bytes \<Rightarrow> u32 \<Rightarrow> AssignmentWireError + PortEndpoint \<times> bytes" where
  "decode_endpoint cursor record_index =
     (let (inst, cursor) = cursor_arr16 cursor;
          (port, cursor) = cursor_arr16 cursor;
          (direction_byte, cursor) = cursor_u8 cursor in
      and_then (decode_direction direction_byte record_index) (\<lambda>direction.
      let (schema_id, cursor) = cursor_arr16 cursor;
          (schema_version, cursor) = cursor_u32 cursor;
          (schema_digest, cursor) = cursor_arr32 cursor in
      and_then (map_err (\<lambda>_. wire_error_at InvalidAssignment record_index)
                  (schema_ref_try_new schema_id schema_version schema_digest)) (\<lambda>schema.
      let (interaction_byte, cursor) = cursor_u8 cursor in
      and_then (decode_interaction interaction_byte record_index) (\<lambda>interaction.
      let (cardinality_byte, cursor) = cursor_u8 cursor in
      and_then (decode_cardinality cardinality_byte record_index) (\<lambda>cardinality.
        Inr (\<lparr>pe_instance = inst, pe_port = port,
              pe_spec = \<lparr>ps_direction = direction, ps_schema = schema,
                         ps_interaction = interaction, ps_cardinality = cardinality\<rparr>\<rparr>, cursor))))))"

definition decode_assignment_record :: "bytes \<Rightarrow> u32 \<Rightarrow> AssignmentWireError + BindingAssignment" where
  "decode_assignment_record record_bytes record_index =
     (let (binding_id, cursor) = cursor_arr16 record_bytes in
      and_then (decode_endpoint cursor record_index) (\<lambda>(source, cursor).
      and_then (decode_endpoint cursor record_index) (\<lambda>(target, cursor).
      let (mailbox, cursor) = cursor_arr16 cursor;
          (max_payload_bytes, cursor) = cursor_u64 cursor;
          (max_message_age, cursor) = cursor_u64 cursor;
          (delivery_byte, cursor) = cursor_u8 cursor in
      and_then (decode_overflow delivery_byte record_index) (\<lambda>delivery_overflow.
      let (capacity_items, cursor) = cursor_u32 cursor;
          (capacity_bytes, cursor) = cursor_u64 cursor;
          (max_queue_age, cursor) = cursor_u64 cursor;
          (max_inflight, cursor) = cursor_u32 cursor;
          (max_retained_bytes, cursor) = cursor_u64 cursor;
          (mailbox_byte, cursor) = cursor_u8 cursor in
      and_then (decode_overflow mailbox_byte record_index) (\<lambda>mailbox_overflow.
      and_then (map_err (\<lambda>_. wire_error_at InvalidAssignment record_index)
                  (delivery_try_new max_payload_bytes max_message_age delivery_overflow)) (\<lambda>delivery.
      and_then (map_err (\<lambda>_. wire_error_at InvalidAssignment record_index)
                  (mailbox_spec_try_new capacity_items capacity_bytes max_queue_age max_inflight
                     max_retained_bytes mailbox_overflow)) (\<lambda>mailbox_spec.
        map_err (\<lambda>_. wire_error_at InvalidAssignment record_index)
          (binding_try_new binding_id source target mailbox delivery mailbox_spec))))))))"

function chunks_exact :: "nat \<Rightarrow> bytes \<Rightarrow> bytes list" where
  "chunks_exact n bs =
     (if n = 0 \<or> length bs < n then [] else take n bs # chunks_exact n (drop n bs))"
  by pat_completeness auto
termination by (relation "measure (length \<circ> snd)") auto

fun decode_records :: "nat \<Rightarrow> bytes list \<Rightarrow> AssignmentWireError + BindingAssignment list" where
  "decode_records index [] = Inr []"
| "decode_records index (r # rs) =
     and_then (decode_assignment_record r (of_nat index)) (\<lambda>assignment.
     and_then (decode_records (index + 1) rs) (\<lambda>assignments. Inr (assignment # assignments)))"

fun assignment_contract_wire_error :: "AssignmentContractError \<Rightarrow> AssignmentWireError" where
  "assignment_contract_wire_error AssignmentCountExceeded = wire_error_new WireAssignmentCountExceeded"
| "assignment_contract_wire_error DuplicateBindingId = wire_error_new WireDuplicateBindingId"
| "assignment_contract_wire_error DuplicateSourceEndpoint = wire_error_new WireDuplicateSourceEndpoint"
| "assignment_contract_wire_error DuplicateTargetEndpoint = wire_error_new WireDuplicateTargetEndpoint"
| "assignment_contract_wire_error DuplicateMailboxRef = wire_error_new WireDuplicateMailboxRef"
| "assignment_contract_wire_error _ = wire_error_new InvalidAssignment"

definition decode_target_assignments ::
  "(bytes \<Rightarrow> Digest32) \<Rightarrow> bytes \<Rightarrow> AssignmentWireError + TargetAssignments" where
  "decode_target_assignments sha256 frame =
     (if length frame > MAX_TARGET_ASSIGNMENTS_BYTES then Inl (wire_error_new FrameTooLarge)
      else if length frame < TARGET_ASSIGNMENTS_HEADER_BYTES then Inl (wire_error_new Truncated)
      else if take 4 frame \<noteq> TARGET_ASSIGNMENTS_MAGIC then Inl (wire_error_new InvalidMagic)
      else if (from_be (take 2 (drop 4 frame)) :: u16) \<noteq> TARGET_ASSIGNMENTS_VERSION
        then Inl (wire_error_new UnsupportedVersion)
      else
        let declared_count = unat (from_be (take 4 (drop 6 frame)) :: u32) in
        if declared_count > MAX_TARGET_ASSIGNMENTS
        then Inl (wire_error_new WireAssignmentCountExceeded)
        else
          let expected_length =
                TARGET_ASSIGNMENTS_HEADER_BYTES + declared_count * TARGET_ASSIGNMENT_RECORD_BYTES in
          if length frame < expected_length then Inl (wire_error_new Truncated)
          else if length frame \<noteq> expected_length then Inl (wire_error_new InvalidFrameLength)
          else and_then (decode_records 0 (chunks_exact TARGET_ASSIGNMENT_RECORD_BYTES
                           (drop TARGET_ASSIGNMENTS_HEADER_BYTES frame))) (\<lambda>assignments.
            and_then (map_err assignment_contract_wire_error
                        (assignments_try_new sha256 assignments)) (\<lambda>decoded.
              if ta_canonical_wire decoded \<noteq> frame then Inl (wire_error_new NonCanonicalFrame)
              else Inr decoded)))"

section \<open>Reading back what was written\<close>

lemma cursor_reads [simp]:
  "cursor_u8 (b # rest) = (b, rest)"
  "cursor_u32 (be_u32 w4 @ rest) = (w4, rest)"
  "cursor_u64 (be_u64 w8 @ rest) = (w8, rest)"
  "cursor_arr16 (arr16 w16 @ rest) = (w16, rest)"
  "cursor_arr32 (arr32 w32 @ rest) = (w32, rest)"
  by (simp_all add: cursor_u8_def cursor_u32_def cursor_u64_def cursor_arr16_def cursor_arr32_def
      cursor_array_def from_be_be_bytes)

lemma enum_reads [simp]:
  "decode_direction (direction_u8 d) i = Inr d"
  "decode_interaction (interaction_u8 k) i = Inr k"
  "decode_cardinality (cardinality_u8 c) i = Inr c"
  "decode_overflow (overflow_u8 p) i = Inr p"
proof -
  show "decode_direction (direction_u8 d) i = Inr d" by (cases d) (simp_all add: decode_direction_def)
  show "decode_interaction (interaction_u8 k) i = Inr k" by (cases k) (simp_all add: decode_interaction_def)
  show "decode_cardinality (cardinality_u8 c) i = Inr c" by (cases c) (simp_all add: decode_cardinality_def)
  show "decode_overflow (overflow_u8 p) i = Inr p" by (cases p) (simp_all add: decode_overflow_def)
qed

text \<open>A value the constructors of the source can produce.\<close>

definition source_endpoint :: "BindingAssignment \<Rightarrow> PortEndpoint" where
  "source_endpoint a = \<lparr>pe_instance = ba_source_instance a, pe_port = ba_source_port a,
                        pe_spec = ba_source_spec a\<rparr>"

definition target_endpoint :: "BindingAssignment \<Rightarrow> PortEndpoint" where
  "target_endpoint a = \<lparr>pe_instance = ba_target_instance a, pe_port = ba_target_port a,
                        pe_spec = ba_target_spec a\<rparr>"

definition schema_ok :: "SchemaRef \<Rightarrow> bool" where
  "schema_ok s \<longleftrightarrow> schema_ref_try_new (sr_id s) (sr_version s) (sr_content_digest s) = Inr s"

definition binding_ok :: "BindingAssignment \<Rightarrow> bool" where
  "binding_ok a \<longleftrightarrow>
     schema_ok (ps_schema (ba_source_spec a)) \<and> schema_ok (ps_schema (ba_target_spec a)) \<and>
     delivery_try_new (dp_max_payload_bytes (ba_delivery a)) (dp_max_message_age (ba_delivery a))
       (dp_overflow_policy (ba_delivery a)) = Inr (ba_delivery a) \<and>
     mailbox_spec_try_new (ms_capacity_items (ba_mailbox_spec a)) (ms_capacity_bytes (ba_mailbox_spec a))
       (ms_max_queue_age (ba_mailbox_spec a)) (ms_max_inflight (ba_mailbox_spec a))
       (ms_max_retained_bytes (ba_mailbox_spec a)) (ms_overflow_policy (ba_mailbox_spec a))
       = Inr (ba_mailbox_spec a) \<and>
     binding_try_new (ba_binding_id a) (source_endpoint a) (target_endpoint a) (ba_mailbox a)
       (ba_delivery a) (ba_mailbox_spec a) = Inr a"

lemma append_endpoint_prefix: "append_endpoint pre i p s = pre @ append_endpoint [] i p s"
  by (simp add: append_endpoint_def)

lemma append_record_prefix: "append_assignment_record pre a = pre @ append_assignment_record [] a"
  unfolding append_assignment_record_def Let_def
  by (subst (1 2 3 4) append_endpoint_prefix) simp

lemma length_append_assignment_record: "length (append_assignment_record [] a) = 256"
  by (simp add: append_assignment_record_def append_endpoint_def Let_def)

lemma decode_endpoint_encoded:
  assumes "schema_ok (ps_schema spec)"
  shows "decode_endpoint (append_endpoint [] inst port spec @ rest) i =
    Inr (\<lparr>pe_instance = inst, pe_port = port, pe_spec = spec\<rparr>, rest)"
  using assms by (simp add: decode_endpoint_def append_endpoint_def schema_ok_def)

lemma decode_record_encoded:
  assumes "binding_ok a"
  shows "decode_assignment_record (append_assignment_record [] a) i = Inr a"
proof -
  have bytes: "append_assignment_record [] a = arr16 (ba_binding_id a) @
      append_endpoint [] (ba_source_instance a) (ba_source_port a) (ba_source_spec a) @
      append_endpoint [] (ba_target_instance a) (ba_target_port a) (ba_target_spec a) @
      arr16 (ba_mailbox a) @ be_u64 (dp_max_payload_bytes (ba_delivery a)) @
      be_u64 (dp_max_message_age (ba_delivery a)) @
      overflow_u8 (dp_overflow_policy (ba_delivery a)) #
      be_u32 (ms_capacity_items (ba_mailbox_spec a)) @ be_u64 (ms_capacity_bytes (ba_mailbox_spec a)) @
      be_u64 (ms_max_queue_age (ba_mailbox_spec a)) @ be_u32 (ms_max_inflight (ba_mailbox_spec a)) @
      be_u64 (ms_max_retained_bytes (ba_mailbox_spec a)) @
      [overflow_u8 (ms_overflow_policy (ba_mailbox_spec a))]"
    unfolding append_assignment_record_def Let_def
    by (subst (1 2) append_endpoint_prefix) simp
  from assms show ?thesis
    unfolding bytes decode_assignment_record_def
    by (simp add: decode_endpoint_encoded binding_ok_def source_endpoint_def target_endpoint_def)
qed

lemma build_wire_eq:
  "build_target_assignments_wire as =
     TARGET_ASSIGNMENTS_MAGIC @ be_u16 TARGET_ASSIGNMENTS_VERSION @ be_u32 (of_nat (length as)) @
     concat (map (append_assignment_record []) as)"
proof -
  have "foldl append_assignment_record pre as = pre @ concat (map (append_assignment_record []) as)" for pre
  proof (induction as arbitrary: pre)
    case (Cons a as)
    then show ?case using append_record_prefix [of pre a] by simp
  qed simp
  then show ?thesis by (simp add: build_target_assignments_wire_def)
qed

declare chunks_exact.simps [simp del]

lemma chunks_exact_records:
  "chunks_exact 256 (concat (map (append_assignment_record []) as)) = map (append_assignment_record []) as"
proof (induction as)
  case Nil
  then show ?case by (subst chunks_exact.simps) simp
next
  case (Cons a as)
  then show ?case
    by (subst chunks_exact.simps) (simp add: length_append_assignment_record)
qed

lemma decode_records_encoded:
  "list_all binding_ok as \<Longrightarrow> decode_records k (map (append_assignment_record []) as) = Inr as"
  by (induction as arbitrary: k) (simp_all add: decode_record_encoded)

section \<open>What a decoded record satisfies\<close>

lemma schema_ref_ok: "schema_ref_try_new i v d = Inr s \<Longrightarrow> schema_ok s"
  by (auto simp: schema_ref_try_new_def schema_ok_def split: if_splits)

lemma decode_endpoint_ok:
  "decode_endpoint c i = Inr (e, c') \<Longrightarrow> schema_ok (ps_schema (pe_spec e))"
  by (auto simp: decode_endpoint_def and_then_eq_Inr map_err_eq_Inr schema_ref_ok case_prod_unfold Let_def)

lemma delivery_ok:
  "delivery_try_new m g p = Inr d \<Longrightarrow>
     delivery_try_new (dp_max_payload_bytes d) (dp_max_message_age d) (dp_overflow_policy d) = Inr d"
  by (auto simp: delivery_try_new_def split: if_splits)

lemma mailbox_spec_ok:
  "mailbox_spec_try_new i b g n r p = Inr m \<Longrightarrow>
     mailbox_spec_try_new (ms_capacity_items m) (ms_capacity_bytes m) (ms_max_queue_age m)
       (ms_max_inflight m) (ms_max_retained_bytes m) (ms_overflow_policy m) = Inr m"
  by (auto simp: mailbox_spec_try_new_def split: if_splits)

lemma binding_parts:
  "binding_try_new i source target m d ms = Inr a \<Longrightarrow>
     ba_binding_id a = i \<and> source_endpoint a = source \<and> target_endpoint a = target \<and>
     ba_mailbox a = m \<and> ba_delivery a = d \<and> ba_mailbox_spec a = ms \<and>
     ba_source_spec a = pe_spec source \<and> ba_target_spec a = pe_spec target"
  by (cases source; cases target)
     (auto simp: binding_try_new_def Let_def source_endpoint_def target_endpoint_def split: if_splits)

lemma binding_ok_new:
  assumes "binding_try_new i source target m d ms = Inr a"
    and "schema_ok (ps_schema (pe_spec source))" and "schema_ok (ps_schema (pe_spec target))"
    and "delivery_try_new x y z = Inr d" and "mailbox_spec_try_new x1 x2 x3 x4 x5 x6 = Inr ms"
  shows "binding_ok a"
  using binding_parts [OF assms(1)] assms delivery_ok [OF assms(4)] mailbox_spec_ok [OF assms(5)]
  by (simp add: binding_ok_def)

lemma decode_record_ok: "decode_assignment_record r i = Inr a \<Longrightarrow> binding_ok a"
proof -
  assume "decode_assignment_record r i = Inr a"
  then obtain source c1 target c2 c3 d ms where
    "decode_endpoint c3 i = Inr (source, c1)" "decode_endpoint c1 i = Inr (target, c2)"
    and new: "\<exists>x y z. delivery_try_new x y z = Inr d" "\<exists>x1 x2 x3 x4 x5 x6. mailbox_spec_try_new x1 x2 x3 x4 x5 x6 = Inr ms"
      "\<exists>b m. binding_try_new b source target m d ms = Inr a"
    unfolding decode_assignment_record_def case_prod_unfold Let_def and_then_eq_Inr map_err_eq_Inr
    by (metis prod.collapse)
  with decode_endpoint_ok have "schema_ok (ps_schema (pe_spec source))" "schema_ok (ps_schema (pe_spec target))"
    by blast+
  with new binding_ok_new show ?thesis by blast
qed

lemma decode_records_ok: "decode_records k rs = Inr as \<Longrightarrow> list_all binding_ok as"
  by (induction rs arbitrary: k as) (auto simp: and_then_eq_Inr dest: decode_record_ok)

lemma check_previous_ok:
  "check_previous a ps = Inr u \<longleftrightarrow> (\<forall>p \<in> set ps. check_assignment_pair p a = Inr ())"
  by (induction ps) (auto simp: and_then_eq_Inr)

lemma check_from_ok:
  "check_from taken xs = Inr u \<longleftrightarrow>
     (\<forall>p \<in> set taken. \<forall>a \<in> set xs. check_assignment_pair p a = Inr ()) \<and>
     sorted_wrt (\<lambda>p a. check_assignment_pair p a = Inr ()) xs"
  by (induction xs arbitrary: taken) (auto simp: and_then_eq_Inr check_previous_ok)

definition one_to_one :: "BindingAssignment list \<Rightarrow> bool" where
  "one_to_one as \<longleftrightarrow> distinct (map ba_binding_id as) \<and>
     distinct (map (\<lambda>a. (ba_source_instance a, ba_source_port a)) as) \<and>
     distinct (map (\<lambda>a. (ba_target_instance a, ba_target_port a)) as) \<and>
     distinct (map ba_mailbox as)"

lemma ensure_uniqueness_ok [res_simps]:
  "ensure_assignment_uniqueness as = Inr u \<longleftrightarrow> one_to_one as"
proof -
  have pair: "check_assignment_pair p a = Inr () \<longleftrightarrow>
      ba_binding_id p \<noteq> ba_binding_id a \<and>
      (ba_source_instance p, ba_source_port p) \<noteq> (ba_source_instance a, ba_source_port a) \<and>
      (ba_target_instance p, ba_target_port p) \<noteq> (ba_target_instance a, ba_target_port a) \<and>
      ba_mailbox p \<noteq> ba_mailbox a" for p a
    by (auto simp: check_assignment_pair_def)
  have cons: "one_to_one (p # ps) \<longleftrightarrow>
      (\<forall>a \<in> set ps. check_assignment_pair p a = Inr ()) \<and> one_to_one ps" for p ps
    unfolding one_to_one_def pair by (simp add: image_iff) blast
  have "one_to_one []" by (simp add: one_to_one_def)
  then have "sorted_wrt (\<lambda>p a. check_assignment_pair p a = Inr ()) as \<longleftrightarrow> one_to_one as"
    by (induction as) (simp_all add: cons)
  then show ?thesis by (simp add: ensure_assignment_uniqueness_def check_from_ok)
qed

lemma assignments_try_new_ok:
  "assignments_try_new sha256 as = Inr t \<longleftrightarrow>
     length as \<le> 256 \<and> one_to_one (sort_key ba_binding_id as) \<and>
     t = \<lparr>ta_assignments = sort_key ba_binding_id as,
          ta_canonical_wire = build_target_assignments_wire (sort_key ba_binding_id as),
          ta_assignment_digest = sha256 (digest_stream TARGET_ASSIGNMENTS_DIGEST_DOMAIN
             [build_target_assignments_wire (sort_key ba_binding_id as)])\<rparr>"
proof (cases "length as \<le> 256")
  case True
  have "length (build_target_assignments_wire (sort_key ba_binding_id as)) < 2 ^ 64"
    using True by (simp add: build_wire_eq length_concat comp_def length_append_assignment_record
        TARGET_ASSIGNMENTS_MAGIC_def sum_list_triv)
  then have "digestible TARGET_ASSIGNMENTS_DIGEST_DOMAIN
      [build_target_assignments_wire (sort_key ba_binding_id as)]"
    by (simp add: digestible_def TARGET_ASSIGNMENTS_DIGEST_DOMAIN_def)
  from build_digest_within [OF this, of sha256] True show ?thesis
    by (auto simp: assignments_try_new_def Let_def and_then_eq_Inr map_err_eq_Inr
        ensure_uniqueness_ok digest_target_assignments_def MAX_TARGET_ASSIGNMENTS_def)
qed (simp add: assignments_try_new_def MAX_TARGET_ASSIGNMENTS_def)

lemma build_wire_inject:
  assumes ok: "list_all binding_ok as" "list_all binding_ok bs"
    and eq: "build_target_assignments_wire as = build_target_assignments_wire bs"
  shows "as = bs"
proof -
  have "concat (map (append_assignment_record []) as) = concat (map (append_assignment_record []) bs)"
    using eq by (simp add: build_wire_eq)
  then have "map (append_assignment_record []) as = map (append_assignment_record []) bs"
    by (metis chunks_exact_records)
  then have "(Inr as :: AssignmentWireError + _) = Inr bs"
    using decode_records_encoded [OF ok(1), of 0] decode_records_encoded [OF ok(2), of 0] by metis
  then show ?thesis by simp
qed

lemma assignments_validate_ok:
  "assignments_validate sha256 t = Inr u \<longleftrightarrow> assignments_try_new sha256 (ta_assignments t) = Inr t"
proof
  assume "assignments_validate sha256 t = Inr u"
  then obtain r where r: "assignments_try_new sha256 (ta_assignments t) = Inr r"
    "ta_assignments r = ta_assignments t" "ta_canonical_wire r = ta_canonical_wire t"
    "ta_assignment_digest r = ta_assignment_digest t"
    unfolding assignments_validate_def guard_eq_Inr and_then_eq_Inr by blast
  moreover from r(2-4) have "r = t" by (cases r; cases t) simp
  ultimately show "assignments_try_new sha256 (ta_assignments t) = Inr t" by simp
next
  assume "assignments_try_new sha256 (ta_assignments t) = Inr t"
  then show "assignments_validate sha256 t = Inr u" by (simp add: assignments_validate_def)
qed

text \<open>The bytes whose digest a slice commits to.\<close>

definition body_stream :: "TargetAssignments \<Rightarrow> bytes" where
  "body_stream t = digest_stream TARGET_ASSIGNMENTS_DIGEST_DOMAIN [ta_canonical_wire t]"

lemma assignments_try_new_parts:
  assumes "assignments_try_new sha256 as = Inr t"
  shows "length as \<le> 256" and "ta_canonical_wire t = build_target_assignments_wire (ta_assignments t)"
    and "length (ta_assignments t) = length as" and "ta_assignment_digest t = sha256 (body_stream t)"
  using assms by (auto simp: assignments_try_new_ok body_stream_def)

lemma body_digestible:
  assumes "assignments_try_new sha256 as = Inr t"
  shows "digestible TARGET_ASSIGNMENTS_DIGEST_DOMAIN [ta_canonical_wire t]"
  using assignments_try_new_parts [OF assms]
  by (simp add: digestible_def TARGET_ASSIGNMENTS_DIGEST_DOMAIN_def build_wire_eq length_concat
      comp_def length_append_assignment_record TARGET_ASSIGNMENTS_MAGIC_def sum_list_triv)

lemma plan_slice_body:
  assumes "plan_slice_validate sha256 s = Inr ()"
  shows "assignments_try_new sha256 (ta_assignments (rp_assignments s)) = Inr (rp_assignments s)"
    and "ta_canonical_wire (rp_assignments s) = build_target_assignments_wire (ta_assignments (rp_assignments s))"
    and "sh_assignment_digest (sc_header (rp_commitment s)) = sha256 (body_stream (rp_assignments s))"
proof -
  from assms show new: "assignments_try_new sha256 (ta_assignments (rp_assignments s)) = Inr (rp_assignments s)"
    unfolding plan_slice_validate_def guard_eq_Inr and_then_eq_Inr assignments_validate_ok by blast
  show "ta_canonical_wire (rp_assignments s) = build_target_assignments_wire (ta_assignments (rp_assignments s))"
    by (rule assignments_try_new_parts(2) [OF new])
  from assms have "sh_assignment_digest (sc_header (rp_commitment s)) = ta_assignment_digest (rp_assignments s)"
    unfolding plan_slice_validate_def guard_eq_Inr and_then_eq_Inr by blast
  with assignments_try_new_parts(4) [OF new]
  show "sh_assignment_digest (sc_header (rp_commitment s)) = sha256 (body_stream (rp_assignments s))" by simp
qed

section \<open>Properties\<close>

text \<open>The strict decoder and the encoder are inverse to each other: the decoder accepts a
frame exactly when it is the canonical encoding of a body that the constructors accept, and
then returns that body, digest included. What it returns is ordered by binding identity, has at
most 256 records, and is 1:1: no binding, source endpoint, target endpoint or mailbox occurs
twice.\<close>

lemma assignment_codec:
  "decode_target_assignments sha256 frame = Inr t \<longleftrightarrow>
     (\<exists>as. list_all binding_ok as \<and> assignments_try_new sha256 as = Inr t \<and>
           frame = ta_canonical_wire t \<and> sorted (map ba_binding_id (ta_assignments t)) \<and>
           length (ta_assignments t) \<le> 256 \<and> one_to_one (ta_assignments t))"
proof
  assume "decode_target_assignments sha256 frame = Inr t"
  then obtain as where "decode_records 0 (chunks_exact TARGET_ASSIGNMENT_RECORD_BYTES
        (drop TARGET_ASSIGNMENTS_HEADER_BYTES frame)) = Inr as"
    and "assignments_try_new sha256 as = Inr t" and "frame = ta_canonical_wire t"
    unfolding decode_target_assignments_def Let_def guard_eq_Inr and_then_eq_Inr map_err_eq_Inr by blast
  then show "\<exists>as. list_all binding_ok as \<and> assignments_try_new sha256 as = Inr t \<and>
      frame = ta_canonical_wire t \<and> sorted (map ba_binding_id (ta_assignments t)) \<and>
      length (ta_assignments t) \<le> 256 \<and> one_to_one (ta_assignments t)"
    by (intro exI [of _ as]) (auto simp: assignments_try_new_ok dest: decode_records_ok)
next
  assume "\<exists>as. list_all binding_ok as \<and> assignments_try_new sha256 as = Inr t \<and>
      frame = ta_canonical_wire t \<and> sorted (map ba_binding_id (ta_assignments t)) \<and>
      length (ta_assignments t) \<le> 256 \<and> one_to_one (ta_assignments t)"
  then obtain as where ok: "list_all binding_ok as" and new: "assignments_try_new sha256 as = Inr t"
    and frame: "frame = ta_canonical_wire t" by blast
  define bs where "bs = sort_key ba_binding_id as"
  have bs: "list_all binding_ok bs" "length bs \<le> 256" "ta_assignments t = bs"
    "ta_canonical_wire t = build_target_assignments_wire bs" "assignments_try_new sha256 bs = Inr t"
    using ok new by (simp_all add: bs_def assignments_try_new_ok list_all_iff sort_key_id_if_sorted)
  have wire: "frame = TARGET_ASSIGNMENTS_MAGIC @ be_u16 TARGET_ASSIGNMENTS_VERSION @
      be_u32 (of_nat (length bs)) @ concat (map (append_assignment_record []) bs)"
    by (simp add: frame bs build_wire_eq)
  have len: "length frame = 10 + length bs * 256"
    by (simp add: wire length_concat comp_def length_append_assignment_record
        TARGET_ASSIGNMENTS_MAGIC_def sum_list_triv)
  have count: "unat (of_nat (length bs) :: u32) = length bs"
    using bs(2) by (simp add: unat_of_nat_u32)
  have parts: "take 4 frame = TARGET_ASSIGNMENTS_MAGIC"
    "take 2 (drop 4 frame) = be_u16 TARGET_ASSIGNMENTS_VERSION"
    "take 4 (drop 6 frame) = be_u32 (of_nat (length bs))"
    "drop 10 frame = concat (map (append_assignment_record []) bs)"
    by (simp_all add: wire TARGET_ASSIGNMENTS_MAGIC_def)
  have header: "(from_be (take 2 (drop 4 frame)) :: u16) = TARGET_ASSIGNMENTS_VERSION"
    "unat (from_be (take 4 (drop 6 frame)) :: u32) = length bs"
    unfolding parts by (simp_all add: from_be_be_bytes count)
  have records: "decode_records 0 (chunks_exact 256 (drop 10 frame)) = Inr bs"
    unfolding parts by (simp add: chunks_exact_records decode_records_encoded bs(1))
  show "decode_target_assignments sha256 frame = Inr t"
    unfolding decode_target_assignments_def MAX_TARGET_ASSIGNMENTS_BYTES_def
      TARGET_ASSIGNMENTS_HEADER_BYTES_def TARGET_ASSIGNMENT_RECORD_BYTES_def
      MAX_TARGET_ASSIGNMENTS_def header records parts(1) Let_def len
    using bs(2,5) frame [symmetric] by simp
qed

text \<open>The commitment of a slice pins its assignments: two complete slices that pass
\<open>validate\<close> under the same commitment, built of bindings the constructors accept, carry the same
assignment body, or the byte streams of their bodies are a collision of the hash. So the
envelope that authenticates the commitment authenticates every binding of the target.\<close>

lemma commitment_pins_assignments:
  assumes "plan_slice_validate sha256 s = Inr ()" and "plan_slice_validate sha256 s' = Inr ()"
    and "rp_commitment s = rp_commitment s'"
    and "list_all binding_ok (ta_assignments (rp_assignments s))"
    and "list_all binding_ok (ta_assignments (rp_assignments s'))"
  shows "s = s' \<or>
    body_stream (rp_assignments s) \<noteq> body_stream (rp_assignments s') \<and>
    sha256 (body_stream (rp_assignments s)) = sha256 (body_stream (rp_assignments s'))"
proof -
  note valid = plan_slice_body [OF assms(1)] plan_slice_body [OF assms(2)]
  show ?thesis
  proof (cases "body_stream (rp_assignments s) = body_stream (rp_assignments s')")
    case True
    from digest_stream_inject [OF valid(1,4) [THEN body_digestible] True [unfolded body_stream_def]]
    have "build_target_assignments_wire (ta_assignments (rp_assignments s)) =
        build_target_assignments_wire (ta_assignments (rp_assignments s'))"
      by (simp add: valid(2,5))
    from build_wire_inject [OF assms(4,5) this]
    have "(Inr (rp_assignments s) :: AssignmentContractError + _) = Inr (rp_assignments s')"
      by (intro trans [OF valid(1) [symmetric]] trans [OF _ valid(4)] arg_cong [where f = "assignments_try_new sha256"])
    then have "s = s'" using assms(3) by (simp add: RuntimePlanSlice.equality)
    then show ?thesis ..
  next
    case False
    moreover have "sha256 (body_stream (rp_assignments s)) = sha256 (body_stream (rp_assignments s'))"
      using valid(3,6) unfolding assms(3) by simp
    ultimately show ?thesis by blast
  qed
qed

definition demo_port :: "PortDirection \<Rightarrow> PortSpec" where
  "demo_port d = \<lparr>ps_direction = d, ps_schema = \<lparr>sr_id = 1, sr_version = 1, sr_content_digest = 2\<rparr>,
     ps_interaction = Signal, ps_cardinality = One\<rparr>"

definition demo_mailbox_spec :: "OverflowPolicy \<Rightarrow> MailboxSpec" where
  "demo_mailbox_spec p = \<lparr>ms_capacity_items = 2, ms_capacity_bytes = 8, ms_max_queue_age = 50,
     ms_max_inflight = 1, ms_max_retained_bytes = 10, ms_overflow_policy = p\<rparr>"

definition demo_binding :: "BindingId \<Rightarrow> BindingAssignment" where
  "demo_binding i = \<lparr>ba_binding_id = i, ba_source_instance = 1, ba_source_port = i,
     ba_source_spec = demo_port Out, ba_target_instance = 2, ba_target_port = i,
     ba_target_spec = demo_port In, ba_mailbox = i,
     ba_delivery = \<lparr>dp_max_payload_bytes = 8, dp_max_message_age = 100, dp_overflow_policy = DropOldest\<rparr>,
     ba_mailbox_spec = demo_mailbox_spec DropOldest\<rparr>"

lemma demo_binding_ok: "binding_ok (demo_binding i)"
  by (simp add: binding_ok_def demo_binding_def demo_port_def demo_mailbox_spec_def schema_ok_def
      schema_ref_try_new_def delivery_try_new_def mailbox_spec_try_new_def binding_try_new_def
      source_endpoint_def target_endpoint_def)

definition demo_body :: "BindingAssignment list \<Rightarrow> TargetAssignments" where
  "demo_body as = \<lparr>ta_assignments = as, ta_canonical_wire = build_target_assignments_wire as,
     ta_assignment_digest = 0\<rparr>"

definition demo_plan_slice :: "BindingAssignment list \<Rightarrow> RuntimePlanSlice" where
  "demo_plan_slice as =
     \<lparr>rp_commitment = \<lparr>sc_header = slice_header_new 1 (PlanProvenance.make 2 3 4 5) 0,
                       sc_target_slice_digest = 0\<rparr>,
      rp_assignments = demo_body as\<rparr>"

lemma demo_plan_slice_valid:
  assumes "as = [] \<or> as = [demo_binding 3]"
  shows "plan_slice_validate (\<lambda>_. 0) (demo_plan_slice as) = Inr ()"
proof -
  have "assignments_try_new (\<lambda>_. 0) as = Inr (demo_body as)"
    using assms by (auto simp: assignments_try_new_ok demo_body_def one_to_one_def)
  then have "assignments_validate (\<lambda>_. 0) (demo_body as) = Inr ()"
    by (simp add: assignments_validate_ok demo_body_def)
  then show ?thesis
    by (simp add: plan_slice_validate_def demo_plan_slice_def slice_commitment_validate_def
        slice_commitment_try_new_eq slice_header_new_def demo_body_def)
qed

end
