(* ===== verification/Envelope_Codec.thy ===== *)
theory Envelope_Codec
  imports Apply_Envelope
begin

text \<open>
  The decoder of the apply envelope is strict: it accepts exactly the canonical frames of
  well-formed envelopes and returns the envelope that was encoded.
\<close>

section \<open>The parser\<close>

fun wire_code :: "AcquireTenureProtocolErrorCode \<Rightarrow> WireErrorCode" where
  "wire_code AcquireTenureProtocolErrorCode.MessageTooLarge = FrameTooLarge"
| "wire_code AcquireTenureProtocolErrorCode.Truncated = Truncated"
| "wire_code AcquireTenureProtocolErrorCode.InvalidMagic = InvalidMagic"
| "wire_code AcquireTenureProtocolErrorCode.UnsupportedVersion = UnsupportedVersion"
| "wire_code AcquireTenureProtocolErrorCode.UnknownField = UnknownField"
| "wire_code AcquireTenureProtocolErrorCode.MissingField = MissingField"
| "wire_code AcquireTenureProtocolErrorCode.DuplicateField = DuplicateField"
| "wire_code AcquireTenureProtocolErrorCode.OutOfOrderField = OutOfOrderField"
| "wire_code AcquireTenureProtocolErrorCode.InvalidFieldLength = InvalidFieldLength"
| "wire_code AcquireTenureProtocolErrorCode.TrailingBytes = TrailingBytes"
| "wire_code _ = InvalidFieldValue"

definition wire_error :: "AcquireTenureProtocolError \<Rightarrow> WireError" where
  "wire_error e = \<lparr>ee_code = wire_code (pe_code e), ee_field_tag = pe_field_tag e\<rparr>"

lemma wire_error_simps [simp]:
  "wire_error (protocol_error_new c) = envelope_error_new (wire_code c)"
  "wire_error (protocol_error_at c t) = envelope_error_at (wire_code c) t"
  by (simp_all add: wire_error_def protocol_error_new_def protocol_error_at_def
      envelope_error_new_def envelope_error_at_def)

lemma map_err_and_then:
  "map_err f (and_then r (\<lambda>(x, y). g x y)) = and_then (map_err f r) (\<lambda>(x, y). map_err f (g x y))"
  by (cases r) (simp_all add: case_prod_beta)

lemma map_err_if: "map_err f (if c then a else b) = (if c then map_err f a else map_err f b)"
  by simp

lemma parse_apply_fields_eq:
  "parse_apply_fields index n rest =
     map_err wire_error (parse_fields APPLY_ENVELOPE_FIELD_COUNT valid_field_length index n rest)"
proof (induction n arbitrary: index rest)
  case (Suc n)
  show ?case
    unfolding parse_apply_fields.simps parse_fields.simps Let_def Suc.IH APPLY_TLV_HEADER_BYTES_def
      TLV_HEADER_BYTES_def map_err_if map_err_and_then
    by simp
qed simp

lemma parse_apply_frame_eq:
  "parse_apply_frame frame = map_err wire_error
     (parse_value frame APPLY_ENVELOPE_MAGIC RUNTIME_APPLY_ENVELOPE_VERSION APPLY_ENVELOPE_FIELD_COUNT
        MAX_RUNTIME_APPLY_ENVELOPE_BYTES valid_field_length)"
  unfolding parse_apply_frame_def parse_value_def parse_apply_fields_eq Let_def map_err_if map_err_and_then
    map_err.simps wire_error_simps wire_code.simps
  by (rule refl)

lemmas envelope_limits = tenure_limits MAX_APPLY_AUTH_NONCE_BYTES_def MAX_APPLY_AUTH_SIGNATURE_BYTES_def

lemma valid_length_bound:
  assumes "valid_field_length tag len"
  shows "len \<le> (if tag = 20 \<or> tag = 37 then 512 else 64)"
proof -
  consider "len \<le> 64" | "tag = 20" "len \<le> 512" | "tag = 37" "len \<le> 512"
    using assms unfolding valid_field_length_def envelope_limits
    by (simp only: split: if_split_asm)
  then show ?thesis by cases simp_all
qed

lemma field_length_bound:
  assumes "valid_field_length (of_nat (i + 1)) len" "i < 37"
  shows "len \<le> (if i = 19 \<or> i = 36 then 512 else 64)"
proof -
  have "unat (of_nat (i + 1) :: u16) = i + 1" using assms(2) by (simp only: unat_of_nat) simp
  then have "(of_nat (i + 1) :: u16) = 20 \<Longrightarrow> i = 19" "(of_nat (i + 1) :: u16) = 37 \<Longrightarrow> i = 36" by auto
  with valid_length_bound [OF assms(1)] show ?thesis by (auto split: if_splits)
qed

interpretation envelope_format: value_format APPLY_ENVELOPE_MAGIC RUNTIME_APPLY_ENVELOPE_VERSION
  APPLY_ENVELOPE_FIELD_COUNT MAX_RUNTIME_APPLY_ENVELOPE_BYTES valid_field_length
proof unfold_locales
  fix vs :: "bytes list"
  assume "length vs = unat APPLY_ENVELOPE_FIELD_COUNT"
    and valid: "\<And>i. i < length vs \<Longrightarrow> valid_field_length (of_nat (i + 1)) (length (vs ! i))"
  then have len: "length vs = 37" by (simp add: APPLY_ENVELOPE_FIELD_COUNT_def)
  let ?f = "\<lambda>i::nat. if i = 19 \<or> i = 36 then 512 else 64 :: nat"
  have "(\<Sum>v \<leftarrow> vs. TLV_HEADER_BYTES + length v) = (\<Sum>i = 0..<37. 6 + length (vs ! i))"
    by (simp add: sum_list_sum_nth len TLV_HEADER_BYTES_def)
  also have "\<dots> \<le> (\<Sum>i = 0..<37. 6 + ?f i)"
    using valid field_length_bound len by (intro sum_mono) (metis add_le_cancel_left atLeastLessThan_iff)
  also have "\<dots> = 3486" by (simp add: numeral_eq_Suc)
  finally show "length (append_value_header [] APPLY_ENVELOPE_MAGIC RUNTIME_APPLY_ENVELOPE_VERSION
      APPLY_ENVELOPE_FIELD_COUNT @ tlv_fields 0 vs) \<le> MAX_RUNTIME_APPLY_ENVELOPE_BYTES"
    by (simp add: length_tlv_fields append_value_header_def APPLY_ENVELOPE_MAGIC_def
        MAX_RUNTIME_APPLY_ENVELOPE_BYTES_def)
qed (simp add: MAX_RUNTIME_APPLY_ENVELOPE_BYTES_def)

section \<open>Envelopes as field lists\<close>

definition apply_fields ::
  "Digest32 \<Rightarrow> RuntimeApplyControlCommitment \<Rightarrow> ApplyTemporalConstraint \<Rightarrow> ApplyRequestAuthClaim \<Rightarrow> bytes list" where
  "apply_fields proof_digest k t a =
     (let h = sc_header (cc_slice k); w = ac_writer_context (cc_control k); p = wc_proof w in
     [be_u16 (sh_contract_version h), arr16 (sh_target h), arr16 (pp_source_scope (sh_provenance h)),
      arr16 (pp_source_plan (sh_provenance h)), be_u64 (pp_source_revision (sh_provenance h)),
      arr32 (pp_source_plan_digest (sh_provenance h)), arr32 (sh_assignment_digest h),
      arr32 (sc_target_slice_digest (cc_slice k)), arr16 (wc_writer w), be_u64 (wc_epoch w),
      arr16 (pa_authority (tp_authority p)), arr16 (pa_key (tp_authority p)),
      be_u16 (pa_algorithm (tp_authority p)), be_u16 (pa_algorithm_version (tp_authority p)),
      arr16 (wt_source_scope (tp_claim p)), arr16 (wt_writer (tp_claim p)), be_u64 (wt_epoch (tp_claim p)),
      be_u64 (wt_supersedes_through_epoch (tp_claim p)), tp_nonce p, tp_signature p, arr32 proof_digest,
      be_u16 (fst (expected_fields (ac_expected_active (cc_control k)))),
      arr32 (snd (expected_fields (ac_expected_active (cc_control k)))),
      arr16 (ac_operation_id (cc_control k)), arr32 (cc_commitment_digest k), be_u16 (tc_version t),
      arr16 (tc_constraint_id t), arr16 (tc_target_clock_domain t), be_u64 (tc_target_clock_generation t),
      be_u64 (tc_original_budget t), be_u64 (tc_remaining_budget t), arr16 (rc_principal a), arr16 (rc_key a),
      be_u16 (rc_algorithm a), be_u16 (rc_algorithm_version a), rc_nonce a])"

lemma append_apply_fields_eq:
  assumes "envelope_digest sha256 (wc_proof (ac_writer_context (cc_control k))) = Inr d"
  shows "append_apply_fields sha256 pre k t a signature =
    Inr (pre @ tlv_fields 0 (apply_fields d k t a @ (case signature of Some s \<Rightarrow> [s] | None \<Rightarrow> [])))"
  unfolding append_apply_fields_def assms Let_def apply_fields_def append_apply_tlv_def
  by (simp add: case_prod_beta split: option.splits)

abbreviation envelope_tenure :: "RuntimeApplyEnvelope \<Rightarrow> WriterTenureProof" where
  "envelope_tenure e \<equiv> wc_proof (ac_writer_context (cc_control (en_control_commitment e)))"

definition envelope_field_list :: "Digest32 \<Rightarrow> RuntimeApplyEnvelope \<Rightarrow> bytes list" where
  "envelope_field_list d e = apply_fields d (en_control_commitment e) (en_temporal e)
     (ra_claim (en_authentication e)) @ [ra_signature (en_authentication e)]"

lemma build_wire_encoding:
  assumes "envelope_digest sha256 (envelope_tenure e) = Inr d"
  shows "build_apply_envelope_wire sha256 (en_control_commitment e) (en_temporal e) (en_authentication e)
    = Inr (envelope_format.encoding (envelope_field_list d e))"
  by (simp add: build_apply_envelope_wire_def append_apply_fields_eq [OF assms] envelope_format.encoding_def
      append_value_header_def envelope_field_list_def)

section \<open>Well-formed envelopes\<close>

definition auth_claim_ok :: "ApplyRequestAuthClaim \<Rightarrow> bool" where
  "auth_claim_ok a \<longleftrightarrow> rc_algorithm a \<noteq> 0 \<and> rc_algorithm_version a \<noteq> 0 \<and> rc_nonce a \<noteq> [] \<and>
     length (rc_nonce a) \<le> MAX_APPLY_AUTH_NONCE_BYTES"

definition envelope_ok :: "(bytes \<Rightarrow> Digest32) \<Rightarrow> RuntimeApplyEnvelope \<Rightarrow> bool" where
  "envelope_ok sha256 e \<longleftrightarrow>
     sh_contract_version (sc_header (cc_slice (en_control_commitment e))) = RUNTIME_SLICE_HEADER_VERSION \<and>
     proof_ok (envelope_tenure e) \<and>
     wc_writer (ac_writer_context (cc_control (en_control_commitment e))) = wt_writer (tp_claim (envelope_tenure e)) \<and>
     wc_epoch (ac_writer_context (cc_control (en_control_commitment e))) = wt_epoch (tp_claim (envelope_tenure e)) \<and>
     temporal_wf (en_temporal e) \<and> tc_target_clock_generation (en_temporal e) \<noteq> 0 \<and>
     auth_claim_ok (ra_claim (en_authentication e)) \<and>
     ra_signature (en_authentication e) \<noteq> [] \<and>
     length (ra_signature (en_authentication e)) \<le> MAX_APPLY_AUTH_SIGNATURE_BYTES \<and>
     envelope_validate sha256 e = Inr ()"

lemma envelope_admissible:
  assumes "envelope_ok sha256 e"
  shows "envelope_format.admissible (envelope_field_list d e)"
proof -
  have len: "length (envelope_field_list d e) = 37" by (simp add: envelope_field_list_def apply_fields_def Let_def)
  have split: "(\<forall>i < (37::nat). P i) \<longleftrightarrow> list_all P [0..<37]" for P by (auto simp: list_all_iff)
  have n: "[0..<37] = [0,1,2,3,4,5,6,7,8,9,10,11,12,13,14,15,16,17,18,19,20,21,22,23,24,25,26,27,28,29,30,31,32,33,34,35,36::nat]"
    by (simp add: upt_rec)
  show ?thesis
    using assms unfolding envelope_format.admissible_def len split n
    by (simp add: APPLY_ENVELOPE_FIELD_COUNT_def envelope_ok_def proof_ok_def tenure_proof_wf_def auth_claim_ok_def
        envelope_field_list_def apply_fields_def Let_def valid_field_length_def Suc_le_eq)
qed

lemma envelope_ok_wire:
  assumes "envelope_ok sha256 e"
  obtains d where "envelope_digest sha256 (envelope_tenure e) = Inr d"
    "en_canonical_wire e = envelope_format.encoding (envelope_field_list d e)"
    "build_digest sha256 APPLY_ENVELOPE_REQUEST_DIGEST_DOMAIN [field_bytes (en_canonical_wire e)] = Inr (en_request_digest e)"
    "control_commitment_validate sha256 (en_control_commitment e) = Inr ()"
proof -
  have wf: "tenure_proof_wf (envelope_tenure e)" using assms by (simp add: envelope_ok_def proof_ok_def)
  note d = envelope_digest_eq [OF wf, of sha256]
  have "envelope_validate sha256 e = Inr ()" using assms by (simp add: envelope_ok_def)
  then have "control_commitment_validate sha256 (en_control_commitment e) = Inr ()"
    "en_canonical_wire e = envelope_format.encoding (envelope_field_list (sha256 (envelope_stream (envelope_tenure e))) e)"
    "build_digest sha256 APPLY_ENVELOPE_REQUEST_DIGEST_DOMAIN [field_bytes (en_canonical_wire e)] = Inr (en_request_digest e)"
    unfolding envelope_validate_def build_wire_encoding [OF d] and_then_eq_Inr map_err_eq_Inr guard_eq_Inr
    by auto
  with d that show thesis by blast
qed

section \<open>Reading back what was written\<close>

lemmas envelope_reads = apply_field_get_def envelope_field_list_def apply_fields_def Let_def field_array_def

lemma decode_slice_complete:
  assumes "envelope_ok sha256 e"
  shows "decode_slice sha256 (envelope_field_list d e) = Inr (cc_slice (en_control_commitment e))"
proof -
  let ?s = "cc_slice (en_control_commitment e)"
  have "control_commitment_validate sha256 (en_control_commitment e) = Inr ()"
    by (rule envelope_ok_wire [OF assms])
  then have valid: "slice_commitment_validate sha256 ?s = Inr ()" "sh_contract_version (sc_header ?s) = RUNTIME_SLICE_HEADER_VERSION"
    using assms by (auto simp: control_commitment_validate_def and_then_eq_Inr map_err_eq_Inr envelope_ok_def)
  then have header: "slice_header_new (sh_target (sc_header ?s))
      \<lparr>pp_source_scope = pp_source_scope (sh_provenance (sc_header ?s)), pp_source_plan = pp_source_plan (sh_provenance (sc_header ?s)),
       pp_source_revision = pp_source_revision (sh_provenance (sc_header ?s)),
       pp_source_plan_digest = pp_source_plan_digest (sh_provenance (sc_header ?s))\<rparr> (sh_assignment_digest (sc_header ?s)) = sc_header ?s"
    by (simp add: slice_header_new_def)
  have "\<lparr>sc_header = sc_header ?s, sc_target_slice_digest = sha256 (slice_stream (sc_header ?s))\<rparr> = ?s"
    using valid(1) by (simp add: slice_commitment_validate_iff)
  then show ?thesis
    by (simp add: decode_slice_def envelope_reads valid(2) header slice_commitment_try_new_eq)
      (metis RuntimeSliceCommitment.select_convs(2))
qed

lemma decode_tenure_complete:
  assumes "envelope_ok sha256 e" "envelope_digest sha256 (envelope_tenure e) = Inr d"
  shows "decode_tenure_proof sha256 (envelope_field_list d e) = Inr (envelope_tenure e)"
proof -
  let ?p = "envelope_tenure e"
  have ok: "proof_ok ?p" using assms(1) by (simp add: envelope_ok_def)
  have parts: "tenure_algorithm_try_new (pa_algorithm (tp_authority ?p)) = Inr (pa_algorithm (tp_authority ?p))"
    "tenure_authority_try_new (pa_authority (tp_authority ?p)) (pa_key (tp_authority ?p)) (pa_algorithm (tp_authority ?p))
       (pa_algorithm_version (tp_authority ?p)) = Inr (tp_authority ?p)"
    "tenure_claim_try_new (wt_source_scope (tp_claim ?p)) (wt_writer (tp_claim ?p)) (wt_epoch (tp_claim ?p))
       (wt_supersedes_through_epoch (tp_claim ?p)) = Inr (tp_claim ?p)"
    "tenure_proof_try_new (tp_authority ?p) (tp_claim ?p) (tp_nonce ?p) (tp_signature ?p) = Inr ?p"
    using ok by (auto simp: proof_ok_def tenure_algorithm_try_new_def tenure_authority_try_new_def
        tenure_claim_try_new_def tenure_proof_try_new_wf)
  show ?thesis
    by (simp add: decode_tenure_proof_def envelope_reads parts assms(2))
qed

lemma decode_expected_complete:
  "decode_expected_active (envelope_field_list d e) = Inr (ac_expected_active (cc_control (en_control_commitment e)))"
  by (cases "ac_expected_active (cc_control (en_control_commitment e))")
     (simp_all add: decode_expected_active_def envelope_reads)

lemma decode_temporal_complete:
  assumes "envelope_ok sha256 e"
  shows "decode_temporal (envelope_field_list d e) = Inr (en_temporal e)"
proof -
  let ?t = "en_temporal e"
  have "temporal_wf ?t" "tc_target_clock_generation ?t \<noteq> 0" using assms by (simp_all add: envelope_ok_def)
  then have "clock_generation_try_new (tc_target_clock_generation ?t) = Inr (tc_target_clock_generation ?t)"
    "temporal_try_from_parts (tc_version ?t) (tc_constraint_id ?t) (tc_target_clock_domain ?t)
       (tc_target_clock_generation ?t) (tc_original_budget ?t) (tc_remaining_budget ?t) = Inr ?t"
    by (auto simp: clock_generation_try_new_def temporal_try_from_parts_def temporal_wf_def)
  then show ?thesis by (simp add: decode_temporal_def envelope_reads)
qed

lemma decode_claim_complete:
  assumes "envelope_ok sha256 e"
  shows "decode_auth_claim (envelope_field_list d e) = Inr (ra_claim (en_authentication e))"
proof -
  let ?a = "ra_claim (en_authentication e)"
  have "auth_claim_ok ?a" using assms by (simp add: envelope_ok_def)
  then have "auth_algorithm_try_new (rc_algorithm ?a) = Inr (rc_algorithm ?a)"
    "auth_claim_try_new (rc_principal ?a) (rc_key ?a) (rc_algorithm ?a) (rc_algorithm_version ?a) (rc_nonce ?a) = Inr ?a"
    by (auto simp: auth_claim_ok_def auth_algorithm_try_new_def auth_claim_try_new_def validate_auth_nonce_def)
  then show ?thesis by (simp add: decode_auth_claim_def envelope_reads)
qed

lemma envelope_rebuilds:
  assumes "envelope_ok sha256 e"
  shows "envelope_try_new sha256 (en_control_commitment e) (en_temporal e) (en_authentication e) = Inr e"
proof -
  obtain d where d: "envelope_digest sha256 (envelope_tenure e) = Inr d"
    "en_canonical_wire e = envelope_format.encoding (envelope_field_list d e)"
    "build_digest sha256 APPLY_ENVELOPE_REQUEST_DIGEST_DOMAIN [field_bytes (en_canonical_wire e)] = Inr (en_request_digest e)"
    "control_commitment_validate sha256 (en_control_commitment e) = Inr ()"
    by (rule envelope_ok_wire [OF assms])
  have "length (en_canonical_wire e) \<le> MAX_RUNTIME_APPLY_ENVELOPE_BYTES"
    unfolding d(2) by (rule envelope_format.admissible_bounded [OF envelope_admissible [OF assms]])
  then show ?thesis
    by (simp add: envelope_try_new_def d(4) build_wire_encoding [OF d(1)] d(2) [symmetric] d(3))
qed

lemma decode_envelope_complete:
  assumes ok: "envelope_ok sha256 e"
  shows "decode_apply_envelope sha256 (en_canonical_wire e) = Inr e"
proof -
  let ?k = "en_control_commitment e" and ?w = "ac_writer_context (cc_control (en_control_commitment e))"
  obtain d where d: "envelope_digest sha256 (envelope_tenure e) = Inr d"
    "en_canonical_wire e = envelope_format.encoding (envelope_field_list d e)"
    "control_commitment_validate sha256 ?k = Inr ()"
    by (rule envelope_ok_wire [OF ok])
  let ?fs = "envelope_field_list d e"
  have parse: "parse_apply_frame (en_canonical_wire e) = Inr ?fs"
    unfolding parse_apply_frame_eq d(2) envelope_format.parse_encoding [OF envelope_admissible [OF ok]] by simp
  have writer: "writer_context_try_new (wc_writer ?w) (wc_epoch ?w) (envelope_tenure e) = Inr ?w"
    using ok by (simp add: writer_context_try_new_def envelope_ok_def)
  have fields: "field_array ?fs 9 = wc_writer ?w" "field_array ?fs 10 = wc_epoch ?w"
    "field_array ?fs 24 = ac_operation_id (cc_control ?k)" "apply_field_get ?fs 25 = arr32 (cc_commitment_digest ?k)"
    "apply_field_get ?fs 37 = ra_signature (en_authentication e)"
    by (simp_all add: envelope_reads)
  have control: "control_commitment_try_new sha256 (cc_slice ?k) (cc_control ?k) = Inr ?k"
    using d(3) by (auto simp: control_commitment_try_new_def control_commitment_validate_def and_then_eq_Inr
        guard_eq_Inr map_err_eq_Inr)
  have eta: "\<lparr>ac_writer_context = ?w, ac_expected_active = ac_expected_active (cc_control ?k),
      ac_operation_id = ac_operation_id (cc_control ?k)\<rparr> = cc_control ?k" by simp
  have finalize: "authentication_try_new (ra_claim (en_authentication e)) (ra_signature (en_authentication e))
      = Inr (en_authentication e)"
    using ok by (simp add: authentication_try_new_def validate_auth_signature_def envelope_ok_def)
  show ?thesis
    unfolding decode_apply_envelope_def parse and_then.simps decode_slice_complete [OF ok]
      decode_tenure_complete [OF ok d(1)] decode_expected_complete decode_temporal_complete [OF ok]
      decode_claim_complete [OF ok] fields
    by (simp add: writer eta control envelope_draft_try_new_def d(3) envelope_finalize_def finalize
        envelope_rebuilds [OF ok])
qed

lemma decode_envelope_sound:
  assumes "decode_apply_envelope sha256 frame = Inr e"
  shows "envelope_ok sha256 e" "en_canonical_wire e = frame"
proof -
  from assms obtain fs slc tenure w x k t a draft where
    slc: "decode_slice sha256 fs = Inr slc" and
    tenure: "decode_tenure_proof sha256 fs = Inr tenure" and
    w: "writer_context_try_new (field_array fs 9) (field_array fs 10) tenure = Inr w" and
    k: "control_commitment_try_new sha256 slc \<lparr>ac_writer_context = w, ac_expected_active = x, ac_operation_id = field_array fs 24\<rparr> = Inr k" and
    t: "decode_temporal fs = Inr t" and a: "decode_auth_claim fs = Inr a" and
    draft: "envelope_draft_try_new sha256 k t a = Inr draft" and
    fin: "envelope_finalize sha256 draft (apply_field_get fs 37) = Inr e" and frame: "en_canonical_wire e = frame"
    unfolding decode_apply_envelope_def and_then_eq_Inr guard_eq_Inr map_err_eq_Inr by blast
  from draft fin obtain auth where auth: "authentication_try_new a (apply_field_get fs 37) = Inr auth"
    and new: "envelope_try_new sha256 k t auth = Inr e"
    by (auto simp: envelope_draft_try_new_def envelope_finalize_def and_then_eq_Inr map_err_eq_Inr)
  have e: "en_control_commitment e = k" "en_temporal e = t" "en_authentication e = auth" "envelope_validate sha256 e = Inr ()"
    using new by (auto simp: envelope_try_new_def envelope_validate_def and_then_eq_Inr map_err_eq_Inr guard_eq_Inr)
  have "sh_contract_version (sc_header slc) = RUNTIME_SLICE_HEADER_VERSION"
    using slc by (auto simp: decode_slice_def slice_header_new_def slice_commitment_try_new_eq Let_def split: if_splits)
  moreover have "proof_ok tenure"
    using tenure by (auto simp: decode_tenure_proof_def and_then_eq_Inr map_err_eq_Inr guard_eq_Inr proof_ok_def
        tenure_algorithm_try_new_def tenure_authority_try_new_def tenure_claim_try_new_def tenure_proof_try_new_wf)
  moreover have "wc_proof w = tenure" "wc_writer w = wt_writer (tp_claim tenure)" "wc_epoch w = wt_epoch (tp_claim tenure)"
    using w by (auto simp: writer_context_try_new_def split: if_splits)
  moreover have "cc_slice k = slc" "ac_writer_context (cc_control k) = w"
    using k by (auto simp: control_commitment_try_new_def and_then_eq_Inr)
  moreover have "temporal_wf t" "tc_target_clock_generation t \<noteq> 0"
    using t by (auto simp: decode_temporal_def and_then_eq_Inr map_err_eq_Inr clock_generation_try_new_def
        temporal_try_from_parts_def temporal_wf_def split: if_splits)
  moreover have "auth_claim_ok a"
    using a by (auto simp: decode_auth_claim_def and_then_eq_Inr map_err_eq_Inr guard_eq_Inr auth_algorithm_try_new_def
        auth_claim_try_new_def validate_auth_nonce_def auth_claim_ok_def)
  moreover have "ra_claim auth = a" "ra_signature auth \<noteq> []" "length (ra_signature auth) \<le> MAX_APPLY_AUTH_SIGNATURE_BYTES"
    using auth by (auto simp: authentication_try_new_def validate_auth_signature_def and_then_eq_Inr guard_eq_Inr)
  ultimately show "envelope_ok sha256 e" unfolding envelope_ok_def e by simp
  show "en_canonical_wire e = frame" by (rule frame)
qed

section \<open>The codec\<close>

text \<open>C4. The codec of the apply envelope is strict and lossless: a frame decodes to an envelope
exactly when the envelope is well formed, with every part within the checks of its constructor and
with the commitments, the proof fingerprint and the request digest recomputed from the parts, and
the frame is its canonical encoding. A signed request has one wire form.\<close>

theorem envelope_codec_strict:
  "decode_apply_envelope sha256 frame = Inr e \<longleftrightarrow> envelope_ok sha256 e \<and> frame = en_canonical_wire e"
  using decode_envelope_sound decode_envelope_complete by blast

end
