(* ===== verification/Apply_Request.thy ===== *)
theory Apply_Request
  imports Contracts_Assignment Envelope_Codec
begin

text \<open>
  The complete apply request, \<open>crates/paraegox-runtime-contracts/src/assignment.rs\<close>: a frame with
  the signed envelope and the assignment body it commits to. The two lengths of the frame are
  32-bit numbers, so the checked additions on \<open>usize\<close> never fail and are written as sums.
\<close>

section \<open>Data\<close>

definition RUNTIME_APPLY_REQUEST_VERSION :: u16 where "RUNTIME_APPLY_REQUEST_VERSION = 1"
definition RUNTIME_APPLY_REQUEST_MAGIC :: bytes where "RUNTIME_APPLY_REQUEST_MAGIC = ascii ''PXAR''"
definition APPLY_REQUEST_HEADER_BYTES :: nat where "APPLY_REQUEST_HEADER_BYTES = 14"

definition MAX_RUNTIME_APPLY_REQUEST_BYTES :: nat where
  "MAX_RUNTIME_APPLY_REQUEST_BYTES =
     APPLY_REQUEST_HEADER_BYTES + MAX_RUNTIME_APPLY_ENVELOPE_BYTES + MAX_TARGET_ASSIGNMENTS_BYTES"

record RuntimeApplyRequest =
  rr_envelope :: RuntimeApplyEnvelope
  rr_slice :: RuntimePlanSlice
  rr_canonical_wire :: bytes

datatype RequestWireErrorCode =
    FrameTooLarge
  | Truncated
  | InvalidMagic
  | UnsupportedVersion
  | InvalidFrameLength
  | EnvelopeRejected
  | AssignmentsRejected
  | CommitmentMismatch

record RequestWireError =
  re_code :: RequestWireErrorCode
  re_detail_code :: "u16 option"

definition request_error_new :: "RequestWireErrorCode \<Rightarrow> RequestWireError" where
  "request_error_new code = \<lparr>re_code = code, re_detail_code = None\<rparr>"

definition request_error_with_detail :: "RequestWireErrorCode \<Rightarrow> u16 \<Rightarrow> RequestWireError" where
  "request_error_with_detail code detail_code = \<lparr>re_code = code, re_detail_code = Some detail_code\<rparr>"

fun wire_code_u16 :: "WireErrorCode \<Rightarrow> u16" where
  "wire_code_u16 WireErrorCode.FrameTooLarge = 1"
| "wire_code_u16 WireErrorCode.Truncated = 2"
| "wire_code_u16 WireErrorCode.InvalidMagic = 3"
| "wire_code_u16 WireErrorCode.UnsupportedVersion = 4"
| "wire_code_u16 WireErrorCode.UnknownField = 5"
| "wire_code_u16 WireErrorCode.MissingField = 6"
| "wire_code_u16 WireErrorCode.DuplicateField = 7"
| "wire_code_u16 WireErrorCode.OutOfOrderField = 8"
| "wire_code_u16 WireErrorCode.InvalidFieldLength = 9"
| "wire_code_u16 WireErrorCode.InvalidFieldValue = 10"
| "wire_code_u16 WireErrorCode.DerivedDigestMismatch = 11"
| "wire_code_u16 WireErrorCode.NonCanonicalFrame = 12"
| "wire_code_u16 WireErrorCode.TrailingBytes = 13"

fun assignment_code_u16 :: "AssignmentWireErrorCode \<Rightarrow> u16" where
  "assignment_code_u16 AssignmentWireErrorCode.FrameTooLarge = 1"
| "assignment_code_u16 AssignmentWireErrorCode.Truncated = 2"
| "assignment_code_u16 AssignmentWireErrorCode.InvalidMagic = 3"
| "assignment_code_u16 AssignmentWireErrorCode.UnsupportedVersion = 4"
| "assignment_code_u16 WireAssignmentCountExceeded = 5"
| "assignment_code_u16 AssignmentWireErrorCode.InvalidFrameLength = 6"
| "assignment_code_u16 InvalidEnumValue = 7"
| "assignment_code_u16 InvalidAssignment = 8"
| "assignment_code_u16 WireDuplicateBindingId = 9"
| "assignment_code_u16 WireDuplicateSourceEndpoint = 10"
| "assignment_code_u16 WireDuplicateTargetEndpoint = 11"
| "assignment_code_u16 AssignmentWireErrorCode.NonCanonicalFrame = 12"
| "assignment_code_u16 WireDuplicateMailboxRef = 13"

definition request_envelope_wire_error :: "WireError \<Rightarrow> RequestWireError" where
  "request_envelope_wire_error e = request_error_with_detail EnvelopeRejected (wire_code_u16 (ee_code e))"

definition request_assignment_wire_error :: "AssignmentWireError \<Rightarrow> RequestWireError" where
  "request_assignment_wire_error e =
     request_error_with_detail AssignmentsRejected (assignment_code_u16 (we_code e))"

section \<open>Operations\<close>

definition build_runtime_apply_request_wire :: "RuntimeApplyEnvelope \<Rightarrow> RuntimePlanSlice \<Rightarrow> bytes" where
  "build_runtime_apply_request_wire envelope slc =
     (let assignment_wire = ta_canonical_wire (rp_assignments slc) in
      RUNTIME_APPLY_REQUEST_MAGIC @ be_u16 RUNTIME_APPLY_REQUEST_VERSION
      @ be_u32 (of_nat (length (en_canonical_wire envelope))) @ be_u32 (of_nat (length assignment_wire))
      @ en_canonical_wire envelope @ assignment_wire)"

definition apply_request_try_new ::
  "(bytes \<Rightarrow> Digest32) \<Rightarrow> RuntimeApplyEnvelope \<Rightarrow> RuntimePlanSlice \<Rightarrow>
   AssignmentContractError + RuntimeApplyRequest" where
  "apply_request_try_new sha256 envelope slc =
     and_then (map_err AssignmentEnvelope (envelope_validate sha256 envelope)) (\<lambda>_.
     and_then (plan_slice_validate sha256 slc) (\<lambda>_.
     if cc_slice (en_control_commitment envelope) \<noteq> rp_commitment slc then Inl EnvelopeSliceMismatch
     else
       let canonical_wire = build_runtime_apply_request_wire envelope slc in
       if length canonical_wire > MAX_RUNTIME_APPLY_REQUEST_BYTES then Inl RequestFrameTooLarge
       else Inr \<lparr>rr_envelope = envelope, rr_slice = slc, rr_canonical_wire = canonical_wire\<rparr>))"

definition apply_request_validate ::
  "(bytes \<Rightarrow> Digest32) \<Rightarrow> RuntimeApplyRequest \<Rightarrow> AssignmentContractError + unit" where
  "apply_request_validate sha256 self =
     and_then (map_err AssignmentEnvelope (envelope_validate sha256 (rr_envelope self))) (\<lambda>_.
     and_then (plan_slice_validate sha256 (rr_slice self)) (\<lambda>_.
     if cc_slice (en_control_commitment (rr_envelope self)) \<noteq> rp_commitment (rr_slice self)
     then Inl EnvelopeSliceMismatch
     else if build_runtime_apply_request_wire (rr_envelope self) (rr_slice self) \<noteq> rr_canonical_wire self
     then Inl RequestCanonicalWireMismatch else Inr ()))"

definition decode_runtime_apply_request ::
  "(bytes \<Rightarrow> Digest32) \<Rightarrow> bytes \<Rightarrow> RequestWireError + RuntimeApplyRequest" where
  "decode_runtime_apply_request sha256 frame =
     (if length frame > MAX_RUNTIME_APPLY_REQUEST_BYTES then Inl (request_error_new FrameTooLarge)
      else if length frame < APPLY_REQUEST_HEADER_BYTES then Inl (request_error_new Truncated)
      else if take 4 frame \<noteq> RUNTIME_APPLY_REQUEST_MAGIC then Inl (request_error_new InvalidMagic)
      else if (from_be (take 2 (drop 4 frame)) :: u16) \<noteq> RUNTIME_APPLY_REQUEST_VERSION
        then Inl (request_error_new UnsupportedVersion)
      else
        let envelope_length = unat (from_be (take 4 (drop 6 frame)) :: u32);
            assignments_length = unat (from_be (take 4 (drop 10 frame)) :: u32);
            expected_length = APPLY_REQUEST_HEADER_BYTES + (envelope_length + assignments_length) in
        if length frame < expected_length then Inl (request_error_new Truncated)
        else if length frame \<noteq> expected_length then Inl (request_error_new InvalidFrameLength)
        else
        and_then (map_err request_envelope_wire_error
            (decode_apply_envelope sha256 (take envelope_length (drop APPLY_REQUEST_HEADER_BYTES frame)))) (\<lambda>envelope.
        and_then (map_err request_assignment_wire_error
            (decode_target_assignments sha256 (drop (APPLY_REQUEST_HEADER_BYTES + envelope_length) frame)))
          (\<lambda>assignments.
        and_then (map_err (\<lambda>_. request_error_new CommitmentMismatch)
            (plan_slice_try_new sha256 (cc_slice (en_control_commitment envelope)) assignments)) (\<lambda>slc.
        map_err (\<lambda>_. request_error_new CommitmentMismatch) (apply_request_try_new sha256 envelope slc)))))"

section \<open>The codec\<close>

definition apply_request_ok :: "(bytes \<Rightarrow> Digest32) \<Rightarrow> RuntimeApplyRequest \<Rightarrow> bool" where
  "apply_request_ok sha256 r \<longleftrightarrow> envelope_ok sha256 (rr_envelope r) \<and>
     list_all binding_ok (ta_assignments (rp_assignments (rr_slice r))) \<and>
     apply_request_validate sha256 r = Inr ()"

lemma request_frame_parts:
  assumes "length ev < 2 ^ 32" "length body < 2 ^ 32"
    and "frame = RUNTIME_APPLY_REQUEST_MAGIC @ be_u16 RUNTIME_APPLY_REQUEST_VERSION
      @ be_u32 (of_nat (length ev)) @ be_u32 (of_nat (length body)) @ ev @ body"
  shows "take 4 frame = RUNTIME_APPLY_REQUEST_MAGIC"
    "from_be (take 2 (drop 4 frame)) = RUNTIME_APPLY_REQUEST_VERSION"
    "unat (from_be (take 4 (drop 6 frame)) :: u32) = length ev"
    "unat (from_be (take 4 (drop 10 frame)) :: u32) = length body"
    "take (length ev) (drop 14 frame) = ev" "drop (14 + length ev) frame = body"
    "length frame = 14 + (length ev + length body)"
  using assms(1,2) unfolding assms(3)
  by (simp_all add: RUNTIME_APPLY_REQUEST_MAGIC_def unat_of_nat)

lemma length_of_heads:
  "14 \<le> length frame \<Longrightarrow> length (take 2 (drop 4 frame)) = 2 \<and> length (take 4 (drop 6 frame)) = 4
     \<and> length (take 4 (drop 10 frame)) = 4"
  by auto

lemma be_read: "length a = 2 \<Longrightarrow> be_u16 (from_be a) = a" "length b = 4 \<Longrightarrow> be_u32 (from_be b) = b"
  using from_be_iff(1) [of a "from_be a"] from_be_iff(2) [of b "from_be b"] by simp_all

lemma slice_body_decodes:
  assumes "plan_slice_validate sha256 s = Inr ()" "list_all binding_ok (ta_assignments (rp_assignments s))"
  shows "decode_target_assignments sha256 (ta_canonical_wire (rp_assignments s)) = Inr (rp_assignments s)"
    and "length (ta_canonical_wire (rp_assignments s)) \<le> MAX_TARGET_ASSIGNMENTS_BYTES"
proof -
  note new = plan_slice_body(1) [OF assms(1)]
  let ?t = "rp_assignments s"
  from new have len: "length (ta_assignments ?t) \<le> 256"
    and t: "?t = \<lparr>ta_assignments = sort_key ba_binding_id (ta_assignments ?t),
          ta_canonical_wire = build_target_assignments_wire (sort_key ba_binding_id (ta_assignments ?t)),
          ta_assignment_digest = sha256 (digest_stream TARGET_ASSIGNMENTS_DIGEST_DOMAIN
             [build_target_assignments_wire (sort_key ba_binding_id (ta_assignments ?t))])\<rparr>"
    and one: "one_to_one (sort_key ba_binding_id (ta_assignments ?t))"
    unfolding assignments_try_new_ok by blast+
  have sorted: "sort_key ba_binding_id (ta_assignments ?t) = ta_assignments ?t"
    using arg_cong [OF t, of ta_assignments] by simp
  have "sorted (map ba_binding_id (ta_assignments ?t))"
    using sorted_sort_key [of ba_binding_id "ta_assignments ?t"] unfolding sorted .
  with new assms(2) len one show "decode_target_assignments sha256 (ta_canonical_wire ?t) = Inr ?t"
    unfolding assignment_codec sorted by blast
  show "length (ta_canonical_wire ?t) \<le> MAX_TARGET_ASSIGNMENTS_BYTES"
    using len unfolding plan_slice_body(2) [OF assms(1)]
    by (simp add: build_wire_eq length_concat comp_def length_append_assignment_record sum_list_triv
        TARGET_ASSIGNMENTS_MAGIC_def MAX_TARGET_ASSIGNMENTS_BYTES_def MAX_TARGET_ASSIGNMENTS_def
        TARGET_ASSIGNMENTS_HEADER_BYTES_def TARGET_ASSIGNMENT_RECORD_BYTES_def)
qed

lemma request_ok_parts:
  assumes "apply_request_ok sha256 r"
  shows "envelope_ok sha256 (rr_envelope r)" "list_all binding_ok (ta_assignments (rp_assignments (rr_slice r)))"
    "envelope_validate sha256 (rr_envelope r) = Inr ()" "plan_slice_validate sha256 (rr_slice r) = Inr ()"
    "cc_slice (en_control_commitment (rr_envelope r)) = rp_commitment (rr_slice r)"
    "rr_canonical_wire r = build_runtime_apply_request_wire (rr_envelope r) (rr_slice r)"
  using assms by (auto simp: apply_request_ok_def apply_request_validate_def and_then_eq_Inr map_err_eq_Inr guard_eq_Inr)

lemma plan_slice_rebuilds:
  "plan_slice_validate sha256 s = Inr () \<Longrightarrow> plan_slice_try_new sha256 (rp_commitment s) (rp_assignments s) = Inr s"
  by (auto simp: plan_slice_validate_def plan_slice_try_new_def and_then_eq_Inr map_err_eq_Inr guard_eq_Inr)

lemma decode_request_frame_complete:
  assumes "apply_request_ok sha256 r"
  shows "decode_runtime_apply_request sha256 (rr_canonical_wire r) = Inr r"
proof -
  note ok = request_ok_parts [OF assms]
  let ?ev = "en_canonical_wire (rr_envelope r)" and ?body = "ta_canonical_wire (rp_assignments (rr_slice r))"
  note body = slice_body_decodes [OF ok(4,2)]
  obtain d where "?ev = envelope_format.encoding (envelope_field_list d (rr_envelope r))"
    by (rule envelope_ok_wire [OF ok(1)])
  with envelope_format.admissible_bounded [OF envelope_admissible [OF ok(1)], of d]
  have ev: "length ?ev \<le> 4096" by (simp add: MAX_RUNTIME_APPLY_ENVELOPE_BYTES_def)
  have body_small: "length ?body \<le> 65546"
    using body(2) by (simp add: MAX_TARGET_ASSIGNMENTS_BYTES_def MAX_TARGET_ASSIGNMENTS_def
        TARGET_ASSIGNMENTS_HEADER_BYTES_def TARGET_ASSIGNMENT_RECORD_BYTES_def)
  have frame: "rr_canonical_wire r = RUNTIME_APPLY_REQUEST_MAGIC @ be_u16 RUNTIME_APPLY_REQUEST_VERSION
      @ be_u32 (of_nat (length ?ev)) @ be_u32 (of_nat (length ?body)) @ ?ev @ ?body"
    by (simp add: ok(6) build_runtime_apply_request_wire_def Let_def)
  have small: "length ?ev < 2 ^ 32" "length ?body < 2 ^ 32" using ev body_small by simp_all
  note parts = request_frame_parts [OF small frame]
  have total: "length (rr_canonical_wire r) \<le> MAX_RUNTIME_APPLY_REQUEST_BYTES"
    using ev body(2) unfolding parts(7) by (simp add: MAX_RUNTIME_APPLY_REQUEST_BYTES_def
        APPLY_REQUEST_HEADER_BYTES_def MAX_RUNTIME_APPLY_ENVELOPE_BYTES_def)
  have new: "apply_request_try_new sha256 (rr_envelope r) (rr_slice r) = Inr r"
    using total by (simp add: apply_request_try_new_def ok(3-5) Let_def ok(6) [symmetric])
  show ?thesis
    using total unfolding decode_runtime_apply_request_def Let_def APPLY_REQUEST_HEADER_BYTES_def parts
    by (simp add: decode_envelope_complete [OF ok(1)] body(1) ok(5) plan_slice_rebuilds [OF ok(4)] new)
qed

lemma decode_request_frame_sound:
  assumes "decode_runtime_apply_request sha256 frame = Inr r"
  shows "apply_request_ok sha256 r" "rr_canonical_wire r = frame"
proof -
  let ?n = "unat (from_be (take 4 (drop 6 frame)) :: u32)" and ?m = "unat (from_be (take 4 (drop 10 frame)) :: u32)"
  let ?ev = "take ?n (drop APPLY_REQUEST_HEADER_BYTES frame)" and ?body = "drop (APPLY_REQUEST_HEADER_BYTES + ?n) frame"
  from assms obtain e t s where magic: "take 4 frame = RUNTIME_APPLY_REQUEST_MAGIC"
    and version: "(from_be (take 2 (drop 4 frame)) :: u16) = RUNTIME_APPLY_REQUEST_VERSION"
    and len: "length frame = APPLY_REQUEST_HEADER_BYTES + (?n + ?m)"
    and e: "decode_apply_envelope sha256 ?ev = Inr e" and t: "decode_target_assignments sha256 ?body = Inr t"
    and s: "plan_slice_try_new sha256 (cc_slice (en_control_commitment e)) t = Inr s"
    and r: "apply_request_try_new sha256 e s = Inr r"
    unfolding decode_runtime_apply_request_def Let_def and_then_eq_Inr map_err_eq_Inr guard_eq_Inr by blast
  have rr: "rr_envelope r = e" "rr_slice r = s" "rr_canonical_wire r = build_runtime_apply_request_wire e s"
    and valid: "apply_request_validate sha256 r = Inr ()"
    using r by (auto simp: apply_request_try_new_def apply_request_validate_def and_then_eq_Inr map_err_eq_Inr
        guard_eq_Inr Let_def)
  have st: "rp_assignments s = t" using s by (auto simp: plan_slice_try_new_def and_then_eq_Inr guard_eq_Inr)
  from t obtain as where as: "list_all binding_ok as" "assignments_try_new sha256 as = Inr t" "?body = ta_canonical_wire t"
    unfolding assignment_codec by blast
  then have "list_all binding_ok (ta_assignments t)" by (simp add: assignments_try_new_ok list_all_iff)
  with decode_envelope_sound(1) [OF e] valid show "apply_request_ok sha256 r"
    by (simp add: apply_request_ok_def rr st)
  have ev: "en_canonical_wire e = ?ev" by (rule decode_envelope_sound(2) [OF e])
  have lens: "length ?ev = ?n" "length ?body = ?m" "14 \<le> length frame"
    unfolding length_take length_drop len APPLY_REQUEST_HEADER_BYTES_def by linarith+
  have heads: "be_u16 RUNTIME_APPLY_REQUEST_VERSION = take 2 (drop 4 frame)"
    "be_u32 (of_nat ?n) = take 4 (drop 6 frame)" "be_u32 (of_nat ?m) = take 4 (drop 10 frame)"
    using be_read length_of_heads [OF lens(3)] version by (simp_all only: of_nat_unat ucast_id) metis
  have "rr_canonical_wire r = take 4 frame @ take 2 (drop 4 frame) @ take 4 (drop 6 frame) @
      take 4 (drop 10 frame) @ ?ev @ ?body"
    unfolding rr(3) build_runtime_apply_request_wire_def Let_def st ev as(3) [symmetric] lens(1,2) magic heads ..
  also have "\<dots> = frame"
  proof -
    have "take 14 frame = take 4 frame @ take 2 (drop 4 frame) @ take 4 (drop 6 frame) @ take 4 (drop 10 frame)"
      using take_add [of 4 2 frame] take_add [of 6 4 frame] take_add [of 10 4 frame] by simp
    moreover have "?ev @ ?body = drop 14 frame"
      unfolding APPLY_REQUEST_HEADER_BYTES_def add.commute [of 14] drop_drop [symmetric] by (rule append_take_drop_id)
    ultimately show ?thesis using append_take_drop_id [of 14 frame] by simp
  qed
  finally show "rr_canonical_wire r = frame" .
qed

text \<open>C19. The codec of the complete apply request is strict and lossless: a frame decodes to a
request exactly when the frame is its canonical encoding, the signed envelope is well formed, the
bindings of the body pass the checks of their constructors, body and envelope validate, and the
signed slice commits to exactly this body.\<close>

theorem apply_request_codec_strict:
  "decode_runtime_apply_request sha256 frame = Inr r \<longleftrightarrow> apply_request_ok sha256 r \<and> frame = rr_canonical_wire r"
  using decode_request_frame_sound decode_request_frame_complete by blast

end
