(* ===== verification/State_Machine.thy ===== *)
theory State_Machine
  imports Main
begin

text \<open>
  The interface between a component's operations and the facts about its whole executions.
  A component supplies its initial states, its step relation and the invariant its
  operations keep; every fact about runs is proved here once, and each component obtains it
  by interpreting these locales on its own definitions.
\<close>

locale state_machine =
  fixes init :: "'s \<Rightarrow> bool"
    and step :: "'s \<Rightarrow> 's \<Rightarrow> bool"
    and inv :: "'s \<Rightarrow> bool"
  assumes init_inv: "init s \<Longrightarrow> inv s"
    and step_inv: "inv s \<Longrightarrow> step s t \<Longrightarrow> inv t"
begin

lemma run_inv: "step\<^sup>*\<^sup>* s t \<Longrightarrow> inv s \<Longrightarrow> inv t"
  by (induction rule: rtranclp_induct) (auto intro: step_inv)

lemma reachable_inv: "init s \<Longrightarrow> step\<^sup>*\<^sup>* s t \<Longrightarrow> inv t"
  by (blast intro: run_inv init_inv)

lemma run_stable:
  assumes "step\<^sup>*\<^sup>* s t" and "inv s" and "P s"
    and keep: "\<And>s t. inv s \<Longrightarrow> P s \<Longrightarrow> step s t \<Longrightarrow> P t"
  shows "P t"
  using assms(1-3)
proof (induction rule: rtranclp_induct)
  case base
  then show ?case by simp
next
  case (step t u)
  then show ?case using keep [of t u] run_inv [of s t] by blast
qed

end

text \<open>A machine with a measure that no step decreases.\<close>

locale monotone_machine = state_machine +
  fixes rank :: "'s \<Rightarrow> 'r::preorder"
  assumes step_rank: "inv s \<Longrightarrow> step s t \<Longrightarrow> rank s \<le> rank t"
begin

lemma run_rank: "step\<^sup>*\<^sup>* s t \<Longrightarrow> inv s \<Longrightarrow> rank s \<le> rank t"
proof (induction rule: rtranclp_induct)
  case base
  then show ?case by simp
next
  case (step t u)
  then have "rank t \<le> rank u" by (blast intro: step_rank run_inv)
  with step show ?case by (blast intro: order_trans)
qed

end

end
