(* ===== verification/Apply_State.thy ===== *)
theory Apply_State
  imports Contracts_Apply Kernel_Time State_Machine "HOL-Library.Product_Order"
begin

text \<open>
  Writer fence, prepare and activate, \<open>crates/paraegox-runtime/src/apply_state.rs\<close>: the
  three pure transitions of the apply-control state, and the machine they make together
  with the operation journal whose atomic updates the source prescribes. The hash of the
  canonical digests is the parameter \<open>sha256\<close>.
\<close>

section \<open>Data\<close>

type_synonym PrincipalRef = bytes16

record WriterFence =
  wf_writer :: PlanWriterRef
  wf_epoch :: PlanWriterEpoch
  wf_proof_envelope_digest :: Digest32
  wf_principal :: PrincipalRef

datatype PrepareStage = ControlAccepted

record PreparedControl =
  pc_operation_id :: ApplyOperationId
  pc_request_digest :: Digest32
  pc_incoming :: RuntimeSliceCommitment
  pc_expected_active :: ExpectedActive
  pc_writer_fence :: WriterFence
  pc_deadline :: MonotonicDeadline
  pc_stage :: PrepareStage

record ActiveControl =
  act_slice :: RuntimeSliceCommitment

record ApplyControlState =
  st_source_scope :: SourceScopeRef
  st_target :: RuntimeHostId
  st_writer_fence :: "WriterFence option"
  st_prepared :: "PreparedControl option"
  st_active :: "ActiveControl option"

record VerifiedWriterTenure =
  vt_source_scope :: SourceScopeRef
  vt_writer :: PlanWriterRef
  vt_epoch :: PlanWriterEpoch
  vt_supersedes_through_epoch :: PlanWriterEpoch
  vt_proof_envelope_digest :: Digest32
  vt_principal :: PrincipalRef

record AdmittedApply =
  ad_payload :: RuntimeApplyControlCommitment
  ad_tenure :: VerifiedWriterTenure
  ad_request_digest :: Digest32
  ad_deadline :: MonotonicDeadline
  ad_exact_replay :: bool

datatype OperationPhase = PhasePrepared | PhaseActive | PhaseSuperseded

record OperationRecord =
  op_source_scope :: SourceScopeRef
  op_target :: RuntimeHostId
  op_operation_id :: ApplyOperationId
  op_request_digest :: Digest32
  op_phase :: OperationPhase

datatype FenceDisposition = Kept | Advanced

record FenceTransition =
  ft_next_state :: ApplyControlState
  ft_disposition :: FenceDisposition
  ft_superseded_operation :: "OperationRecord option"

datatype PrepareDisposition = NewlyPrepared | PrepareReplayed OperationPhase

record PrepareTransition =
  pt_next_state :: ApplyControlState
  pt_operation :: OperationRecord
  pt_disposition :: PrepareDisposition

record PreparationReadyFact =
  rf_operation_id :: ApplyOperationId
  rf_request_digest :: Digest32

datatype ActivateDisposition = Activated | ActivateReplayed

record ActivateTransition =
  at_next_state :: ApplyControlState
  at_operation :: OperationRecord
  at_disposition :: ActivateDisposition

datatype ApplyRejection =
    RejContract ApplyContractError
  | RejDigest DigestBuildError
  | RejTime TimeError
  | DeadlineExpired
  | TargetMismatch
  | SourceScopeMismatch
  | StaleWriterEpoch
  | WriterFenceConflict
  | TenureDoesNotSupersedeFence
  | WriterFenceNotDurable
  | OperationLookupMismatch
  | OperationConflict
  | OperationStateMismatch
  | OperationSuperseded
  | ExpectedActiveMismatch
  | NonMonotonicRevision
  | PrepareInProgress
  | ReadinessMismatch

section \<open>Checks\<close>

abbreviation slice_target :: "RuntimeSliceCommitment \<Rightarrow> RuntimeHostId" where
  "slice_target s \<equiv> sh_target (sc_header s)"

abbreviation slice_scope :: "RuntimeSliceCommitment \<Rightarrow> SourceScopeRef" where
  "slice_scope s \<equiv> pp_source_scope (sh_provenance (sc_header s))"

abbreviation slice_revision :: "RuntimeSliceCommitment \<Rightarrow> SourcePlanRevision" where
  "slice_revision s \<equiv> pp_source_revision (sh_provenance (sc_header s))"

definition control_state_new :: "SourceScopeRef \<Rightarrow> RuntimeHostId \<Rightarrow> ApplyControlState" where
  "control_state_new source_scope target =
     \<lparr>st_source_scope = source_scope, st_target = target, st_writer_fence = None,
      st_prepared = None, st_active = None\<rparr>"

definition ensure_deadline_live :: "MonotonicDeadline \<Rightarrow> ClockReading \<Rightarrow> ApplyRejection + unit" where
  "ensure_deadline_live deadline reading =
     and_then (map_err RejTime (is_expired_at deadline reading)) (\<lambda>expired.
       if expired then Inl DeadlineExpired else Inr ())"

definition fence_of :: "VerifiedWriterTenure \<Rightarrow> WriterFence" where
  "fence_of v = \<lparr>wf_writer = vt_writer v, wf_epoch = vt_epoch v,
                 wf_proof_envelope_digest = vt_proof_envelope_digest v,
                 wf_principal = vt_principal v\<rparr>"

definition matching_writer_fence ::
  "ApplyControlState \<Rightarrow> VerifiedWriterTenure \<Rightarrow> ApplyRejection + WriterFence" where
  "matching_writer_fence state verified =
     (let expected = fence_of verified in
      if st_writer_fence state \<noteq> Some expected then Inl WriterFenceNotDurable else Inr expected)"

definition expected_active_matches :: "ApplyControlState \<Rightarrow> ExpectedActive \<Rightarrow> bool" where
  "expected_active_matches state expected =
     (case (expected, st_active state) of
        (ExpectNone, None) \<Rightarrow> True
      | (ExpectExact digest, Some active) \<Rightarrow> sc_target_slice_digest (act_slice active) = digest
      | _ \<Rightarrow> False)"

definition ensure_expected_active ::
  "ApplyControlState \<Rightarrow> ExpectedActive \<Rightarrow> ApplyRejection + unit" where
  "ensure_expected_active state expected =
     (if \<not> expected_active_matches state expected then Inl ExpectedActiveMismatch else Inr ())"

definition ensure_revision_advances ::
  "ApplyControlState \<Rightarrow> RuntimeSliceCommitment \<Rightarrow> ApplyRejection + unit" where
  "ensure_revision_advances state incoming =
     (case st_active state of
        Some active \<Rightarrow>
          if slice_revision incoming \<le> slice_revision (act_slice active)
          then Inl NonMonotonicRevision else Inr ()
      | None \<Rightarrow> Inr ())"

definition validate_stored_slice ::
  "(bytes \<Rightarrow> Digest32) \<Rightarrow> RuntimeSliceCommitment \<Rightarrow> ApplyRejection + unit" where
  "validate_stored_slice sha256 s =
     map_err (\<lambda>e. RejContract (Provenance e)) (slice_commitment_validate sha256 s)"

definition ensure_active_consistent ::
  "(bytes \<Rightarrow> Digest32) \<Rightarrow> ApplyControlState \<Rightarrow> ApplyRejection + unit" where
  "ensure_active_consistent sha256 state =
     (case st_active state of
        None \<Rightarrow> Inr ()
      | Some active \<Rightarrow>
          and_then (validate_stored_slice sha256 (act_slice active)) (\<lambda>_.
            if slice_target (act_slice active) \<noteq> st_target state
               \<or> slice_scope (act_slice active) \<noteq> st_source_scope state
            then Inl OperationStateMismatch else Inr ()))"

definition ensure_prepared_consistent ::
  "(bytes \<Rightarrow> Digest32) \<Rightarrow> ApplyControlState \<Rightarrow> ApplyRejection + unit" where
  "ensure_prepared_consistent sha256 state =
     (case st_prepared state of
        None \<Rightarrow> Inr ()
      | Some prepared \<Rightarrow>
          and_then (validate_stored_slice sha256 (pc_incoming prepared)) (\<lambda>_.
            if slice_target (pc_incoming prepared) \<noteq> st_target state
               \<or> slice_scope (pc_incoming prepared) \<noteq> st_source_scope state
               \<or> st_writer_fence state \<noteq> Some (pc_writer_fence prepared)
               \<or> \<not> expected_active_matches state (pc_expected_active prepared)
            then Inl OperationStateMismatch
            else case st_active state of
                   Some active \<Rightarrow>
                     if slice_revision (pc_incoming prepared) \<le> slice_revision (act_slice active)
                     then Inl OperationStateMismatch else Inr ()
                 | None \<Rightarrow> Inr ()))"

definition ensure_control_state_consistent ::
  "(bytes \<Rightarrow> Digest32) \<Rightarrow> ApplyControlState \<Rightarrow> ApplyRejection + unit" where
  "ensure_control_state_consistent sha256 state =
     (if st_active state \<noteq> None \<and> st_writer_fence state = None then Inl OperationStateMismatch
      else and_then (ensure_active_consistent sha256 state) (\<lambda>_.
             ensure_prepared_consistent sha256 state))"

definition ensure_operation_belongs_to_state ::
  "ApplyControlState \<Rightarrow> OperationRecord \<Rightarrow> ApplyRejection + unit" where
  "ensure_operation_belongs_to_state state operation =
     (if op_source_scope operation \<noteq> st_source_scope state then Inl SourceScopeMismatch
      else if op_target operation \<noteq> st_target state then Inl TargetMismatch
      else Inr ())"

definition ensure_replayed_operation_consistent ::
  "ApplyControlState \<Rightarrow> OperationRecord \<Rightarrow> ApplyRejection + unit" where
  "ensure_replayed_operation_consistent state operation =
     (case op_phase operation of
        PhasePrepared \<Rightarrow>
          (case st_prepared state of
             None \<Rightarrow> Inl OperationStateMismatch
           | Some prepared \<Rightarrow>
               if pc_operation_id prepared \<noteq> op_operation_id operation
                  \<or> pc_request_digest prepared \<noteq> op_request_digest operation
                  \<or> st_writer_fence state \<noteq> Some (pc_writer_fence prepared)
               then Inl OperationStateMismatch else Inr ())
      | _ \<Rightarrow>
          (case st_prepared state of
             None \<Rightarrow> Inr ()
           | Some prepared \<Rightarrow>
               if pc_operation_id prepared = op_operation_id operation
                  \<or> pc_request_digest prepared = op_request_digest operation
               then Inl OperationStateMismatch else Inr ()))"

section \<open>Transitions\<close>

definition evaluate_writer_fence ::
  "(bytes \<Rightarrow> Digest32) \<Rightarrow> ApplyControlState \<Rightarrow> AdmittedApply \<Rightarrow> ClockReading \<Rightarrow>
   ApplyRejection + FenceTransition" where
  "evaluate_writer_fence sha256 state admitted reading =
     (let verified = ad_tenure admitted in
      if vt_source_scope verified \<noteq> st_source_scope state then Inl SourceScopeMismatch
      else and_then (ensure_control_state_consistent sha256 state) (\<lambda>_.
        let next_fence = fence_of verified in
        case st_writer_fence state of
          None \<Rightarrow>
            and_then (ensure_deadline_live (ad_deadline admitted) reading) (\<lambda>_.
              Inr \<lparr>ft_next_state = state\<lparr>st_writer_fence := Some next_fence\<rparr>,
                   ft_disposition = Advanced, ft_superseded_operation = None\<rparr>)
        | Some current \<Rightarrow>
            if vt_epoch verified < wf_epoch current then Inl StaleWriterEpoch
            else if vt_epoch verified = wf_epoch current then
              (if current \<noteq> next_fence then Inl WriterFenceConflict
               else and_then (if \<not> ad_exact_replay admitted
                              then ensure_deadline_live (ad_deadline admitted) reading
                              else Inr ()) (\<lambda>_.
                 Inr \<lparr>ft_next_state = state, ft_disposition = Kept,
                      ft_superseded_operation = None\<rparr>))
            else if vt_supersedes_through_epoch verified < wf_epoch current
              then Inl TenureDoesNotSupersedeFence
            else and_then (ensure_deadline_live (ad_deadline admitted) reading) (\<lambda>_.
              Inr \<lparr>ft_next_state = state\<lparr>st_writer_fence := Some next_fence, st_prepared := None\<rparr>,
                   ft_disposition = Advanced,
                   ft_superseded_operation =
                     map_option (\<lambda>prepared.
                       \<lparr>op_source_scope = st_source_scope state, op_target = st_target state,
                        op_operation_id = pc_operation_id prepared,
                        op_request_digest = pc_request_digest prepared,
                        op_phase = PhaseSuperseded\<rparr>) (st_prepared state)\<rparr>)))"

definition prepare_new ::
  "ApplyControlState \<Rightarrow> AdmittedApply \<Rightarrow> ClockReading \<Rightarrow> ApplyRejection + PrepareTransition" where
  "prepare_new state admitted reading =
     (let slc = cc_slice (ad_payload admitted); control = cc_control (ad_payload admitted) in
      and_then (ensure_deadline_live (ad_deadline admitted) reading) (\<lambda>_.
      and_then (matching_writer_fence state (ad_tenure admitted)) (\<lambda>writer_fence.
      and_then (ensure_expected_active state (ac_expected_active control)) (\<lambda>_.
      and_then (ensure_revision_advances state slc) (\<lambda>_.
        if st_prepared state \<noteq> None then Inl PrepareInProgress
        else
          let prepared =
                \<lparr>pc_operation_id = ac_operation_id control,
                 pc_request_digest = ad_request_digest admitted, pc_incoming = slc,
                 pc_expected_active = ac_expected_active control,
                 pc_writer_fence = writer_fence, pc_deadline = ad_deadline admitted,
                 pc_stage = ControlAccepted\<rparr>
          in Inr \<lparr>pt_next_state = state\<lparr>st_prepared := Some prepared\<rparr>,
                  pt_operation =
                    \<lparr>op_source_scope = st_source_scope state, op_target = st_target state,
                     op_operation_id = pc_operation_id prepared,
                     op_request_digest = pc_request_digest prepared, op_phase = PhasePrepared\<rparr>,
                  pt_disposition = NewlyPrepared\<rparr>)))))"

definition evaluate_prepare ::
  "(bytes \<Rightarrow> Digest32) \<Rightarrow> ApplyControlState \<Rightarrow> AdmittedApply \<Rightarrow> OperationRecord option \<Rightarrow>
   ClockReading \<Rightarrow> ApplyRejection + PrepareTransition" where
  "evaluate_prepare sha256 state admitted prior_operation reading =
     and_then (map_err RejContract (control_commitment_validate sha256 (ad_payload admitted))) (\<lambda>_.
       let slc = cc_slice (ad_payload admitted); control = cc_control (ad_payload admitted) in
       if slice_target slc \<noteq> st_target state then Inl TargetMismatch
       else if slice_scope slc \<noteq> st_source_scope state then Inl SourceScopeMismatch
       else and_then (ensure_control_state_consistent sha256 state) (\<lambda>_.
         case prior_operation of
           Some existing \<Rightarrow>
             and_then (ensure_operation_belongs_to_state state existing) (\<lambda>_.
               if op_operation_id existing \<noteq> ac_operation_id control then Inl OperationLookupMismatch
               else if op_request_digest existing \<noteq> ad_request_digest admitted
                 then Inl OperationConflict
               else and_then (ensure_replayed_operation_consistent state existing) (\<lambda>_.
                 Inr \<lparr>pt_next_state = state, pt_operation = existing,
                      pt_disposition = PrepareReplayed (op_phase existing)\<rparr>))
         | None \<Rightarrow> prepare_new state admitted reading))"

definition activate_prepared ::
  "ApplyControlState \<Rightarrow> OperationRecord \<Rightarrow> PreparationReadyFact \<Rightarrow> ClockReading \<Rightarrow>
   ApplyRejection + ActivateTransition" where
  "activate_prepared state operation ready reading =
     (case st_prepared state of
        None \<Rightarrow> Inl OperationStateMismatch
      | Some prepared \<Rightarrow>
          and_then (ensure_deadline_live (pc_deadline prepared) reading) (\<lambda>_.
            if pc_operation_id prepared \<noteq> op_operation_id operation
               \<or> pc_request_digest prepared \<noteq> op_request_digest operation
            then Inl OperationStateMismatch
            else if rf_operation_id ready \<noteq> op_operation_id operation
               \<or> rf_request_digest ready \<noteq> op_request_digest operation
            then Inl ReadinessMismatch
            else Inr \<lparr>at_next_state = state\<lparr>st_active := Some \<lparr>act_slice = pc_incoming prepared\<rparr>,
                                            st_prepared := None\<rparr>,
                      at_operation =
                        \<lparr>op_source_scope = st_source_scope state, op_target = st_target state,
                         op_operation_id = op_operation_id operation,
                         op_request_digest = op_request_digest operation, op_phase = PhaseActive\<rparr>,
                      at_disposition = Activated\<rparr>))"

definition evaluate_activate ::
  "(bytes \<Rightarrow> Digest32) \<Rightarrow> ApplyControlState \<Rightarrow> OperationRecord \<Rightarrow> PreparationReadyFact \<Rightarrow>
   ClockReading \<Rightarrow> ApplyRejection + ActivateTransition" where
  "evaluate_activate sha256 state operation ready reading =
     and_then (ensure_operation_belongs_to_state state operation) (\<lambda>_.
     and_then (ensure_control_state_consistent sha256 state) (\<lambda>_.
     and_then (ensure_replayed_operation_consistent state operation) (\<lambda>_.
       case op_phase operation of
         PhaseSuperseded \<Rightarrow> Inl OperationSuperseded
       | PhaseActive \<Rightarrow>
           Inr \<lparr>at_next_state = state, at_operation = operation,
                at_disposition = ActivateReplayed\<rparr>
       | PhasePrepared \<Rightarrow> activate_prepared state operation ready reading)))"

section \<open>The journal and the machine\<close>

text \<open>
  The source returns, with each new control state, the operation row that the journal must
  store in the same transaction: a new \<open>Prepared\<close> row, the change of that row to
  \<open>Active\<close>, or its conditional change to \<open>Superseded\<close>, which must find the exact prior
  row or persist nothing. \<open>prior_operation\<close> is the journal's row for the operation of the
  request.
\<close>

record apply_sys =
  sy_control :: ApplyControlState
  sy_journal :: "ApplyOperationId \<Rightarrow> OperationRecord option"

definition journal_put ::
  "OperationRecord \<Rightarrow> (ApplyOperationId \<Rightarrow> OperationRecord option) \<Rightarrow>
   (ApplyOperationId \<Rightarrow> OperationRecord option)" where
  "journal_put op j = j(op_operation_id op \<mapsto> op)"

definition apply_init :: "apply_sys \<Rightarrow> bool" where
  "apply_init s \<longleftrightarrow>
     (\<exists>scope target. sy_control s = control_state_new scope target) \<and> sy_journal s = Map.empty"

inductive apply_step :: "(bytes \<Rightarrow> Digest32) \<Rightarrow> apply_sys \<Rightarrow> apply_sys \<Rightarrow> bool"
  for sha256 :: "bytes \<Rightarrow> Digest32" where
  step_fence:
    "evaluate_writer_fence sha256 (sy_control s) adm r = Inr t \<Longrightarrow>
     (\<And>op. ft_superseded_operation t = Some op \<Longrightarrow>
        sy_journal s (op_operation_id op) = Some (op\<lparr>op_phase := PhasePrepared\<rparr>)) \<Longrightarrow>
     apply_step sha256 s
       \<lparr>sy_control = ft_next_state t,
        sy_journal = (case ft_superseded_operation t of
                        None \<Rightarrow> sy_journal s
                      | Some op \<Rightarrow> journal_put op (sy_journal s))\<rparr>"
| step_prepare:
    "evaluate_prepare sha256 (sy_control s) adm
       (sy_journal s (ac_operation_id (cc_control (ad_payload adm)))) r = Inr t \<Longrightarrow>
     apply_step sha256 s
       \<lparr>sy_control = pt_next_state t, sy_journal = journal_put (pt_operation t) (sy_journal s)\<rparr>"
| step_activate:
    "sy_journal s i = Some op \<Longrightarrow>
     evaluate_activate sha256 (sy_control s) op ready r = Inr t \<Longrightarrow>
     apply_step sha256 s
       \<lparr>sy_control = at_next_state t, sy_journal = journal_put (at_operation t) (sy_journal s)\<rparr>"

section \<open>The invariant\<close>

definition slice_held :: "(bytes \<Rightarrow> Digest32) \<Rightarrow> ApplyControlState \<Rightarrow> RuntimeSliceCommitment \<Rightarrow> bool" where
  "slice_held sha256 st s \<longleftrightarrow>
     slice_commitment_validate sha256 s = Inr () \<and>
     slice_target s = st_target st \<and> slice_scope s = st_source_scope st"

definition control_consistent :: "(bytes \<Rightarrow> Digest32) \<Rightarrow> ApplyControlState \<Rightarrow> bool" where
  "control_consistent sha256 st \<longleftrightarrow>
     (st_active st \<noteq> None \<longrightarrow> st_writer_fence st \<noteq> None) \<and>
     (\<forall>a. st_active st = Some a \<longrightarrow> slice_held sha256 st (act_slice a)) \<and>
     (\<forall>p. st_prepared st = Some p \<longrightarrow>
        slice_held sha256 st (pc_incoming p) \<and>
        st_writer_fence st = Some (pc_writer_fence p) \<and>
        expected_active_matches st (pc_expected_active p) \<and>
        (\<forall>a. st_active st = Some a \<longrightarrow>
           slice_revision (act_slice a) < slice_revision (pc_incoming p)))"

definition journal_consistent :: "apply_sys \<Rightarrow> bool" where
  "journal_consistent s \<longleftrightarrow>
     (\<forall>i op. sy_journal s i = Some op \<longrightarrow>
        op_operation_id op = i \<and>
        op_source_scope op = st_source_scope (sy_control s) \<and>
        op_target op = st_target (sy_control s) \<and>
        (op_phase op = PhasePrepared \<longrightarrow>
           (\<exists>p. st_prepared (sy_control s) = Some p \<and> pc_operation_id p = i \<and>
                pc_request_digest p = op_request_digest op))) \<and>
     (\<forall>p. st_prepared (sy_control s) = Some p \<longrightarrow>
        (\<exists>op. sy_journal s (pc_operation_id p) = Some op \<and> op_phase op = PhasePrepared))"

definition apply_inv :: "(bytes \<Rightarrow> Digest32) \<Rightarrow> apply_sys \<Rightarrow> bool" where
  "apply_inv sha256 s \<longleftrightarrow> control_consistent sha256 (sy_control s) \<and> journal_consistent s"

text \<open>Writer epoch and active revision, with 0 for "none yet".\<close>

definition apply_rank :: "apply_sys \<Rightarrow> nat \<times> nat" where
  "apply_rank s =
     (case st_writer_fence (sy_control s) of None \<Rightarrow> 0 | Some f \<Rightarrow> Suc (unat (wf_epoch f)),
      case st_active (sy_control s) of None \<Rightarrow> 0 | Some a \<Rightarrow> Suc (unat (slice_revision (act_slice a))))"

lemma ensure_deadline_live_ok [res_simps]:
  "ensure_deadline_live dl r = Inr u \<longleftrightarrow> same_clock dl r \<and> rd_now r < dl_deadline dl"
  by (auto simp: ensure_deadline_live_def res_simps not_le split: if_splits)

lemma ensure_control_state_consistent_ok [res_simps]:
  "ensure_control_state_consistent sha256 st = Inr u \<longleftrightarrow> control_consistent sha256 st"
  by (auto simp: ensure_control_state_consistent_def ensure_active_consistent_def
      ensure_prepared_consistent_def validate_stored_slice_def control_consistent_def slice_held_def
      res_simps not_le split: option.splits if_splits)

lemma ensure_operation_belongs_to_state_ok [res_simps]:
  "ensure_operation_belongs_to_state st op = Inr u \<longleftrightarrow>
     op_source_scope op = st_source_scope st \<and> op_target op = st_target st"
  by (auto simp: ensure_operation_belongs_to_state_def)

lemma ensure_expected_active_ok [res_simps]:
  "ensure_expected_active st e = Inr u \<longleftrightarrow> expected_active_matches st e"
  by (auto simp: ensure_expected_active_def)

lemma ensure_revision_advances_ok [res_simps]:
  "ensure_revision_advances st s = Inr u \<longleftrightarrow>
     (\<forall>a. st_active st = Some a \<longrightarrow> slice_revision (act_slice a) < slice_revision s)"
  by (auto simp: ensure_revision_advances_def not_le split: option.splits if_splits)

lemma matching_writer_fence_ok [res_simps]:
  "matching_writer_fence st v = Inr f \<longleftrightarrow> st_writer_fence st = Some f \<and> f = fence_of v"
  by (auto simp: matching_writer_fence_def Let_def)

section \<open>What each transition does\<close>

lemma writer_fence_cases:
  assumes "evaluate_writer_fence sha256 st adm r = Inr t"
  obtains
    (first) "control_consistent sha256 st" "vt_source_scope (ad_tenure adm) = st_source_scope st"
      "st_writer_fence st = None" "same_clock (ad_deadline adm) r" "rd_now r < dl_deadline (ad_deadline adm)"
      "t = \<lparr>ft_next_state = st\<lparr>st_writer_fence := Some (fence_of (ad_tenure adm))\<rparr>,
            ft_disposition = Advanced, ft_superseded_operation = None\<rparr>"
  | (kept) "control_consistent sha256 st" "vt_source_scope (ad_tenure adm) = st_source_scope st"
      "st_writer_fence st = Some (fence_of (ad_tenure adm))"
      "ad_exact_replay adm \<or> same_clock (ad_deadline adm) r \<and> rd_now r < dl_deadline (ad_deadline adm)"
      "t = \<lparr>ft_next_state = st, ft_disposition = Kept, ft_superseded_operation = None\<rparr>"
  | (takeover) current where
      "control_consistent sha256 st" "vt_source_scope (ad_tenure adm) = st_source_scope st"
      "st_writer_fence st = Some current" "wf_epoch current < vt_epoch (ad_tenure adm)"
      "wf_epoch current \<le> vt_supersedes_through_epoch (ad_tenure adm)"
      "same_clock (ad_deadline adm) r" "rd_now r < dl_deadline (ad_deadline adm)"
      "ft_next_state t = st\<lparr>st_writer_fence := Some (fence_of (ad_tenure adm)), st_prepared := None\<rparr>"
      "ft_disposition t = Advanced"
      "ft_superseded_operation t = map_option (\<lambda>p.
         \<lparr>op_source_scope = st_source_scope st, op_target = st_target st,
          op_operation_id = pc_operation_id p, op_request_digest = pc_request_digest p,
          op_phase = PhaseSuperseded\<rparr>) (st_prepared st)"
proof -
  from assms have scope: "vt_source_scope (ad_tenure adm) = st_source_scope st"
    and cons: "control_consistent sha256 st"
    by (auto simp: evaluate_writer_fence_def Let_def and_then_eq_Inr
        ensure_control_state_consistent_ok split: if_splits)
  show thesis
  proof (cases "st_writer_fence st")
    case None
    with assms scope cons show thesis
      by (intro first) (auto simp: evaluate_writer_fence_def Let_def res_simps)
  next
    case (Some current)
    show thesis
    proof (cases "vt_epoch (ad_tenure adm) = wf_epoch current")
      case True
      with assms scope cons Some show thesis
        by (intro kept) (auto simp: evaluate_writer_fence_def Let_def res_simps split: if_splits)
    next
      case False
      with assms scope cons Some show thesis
        by (intro takeover [of current])
           (auto simp: evaluate_writer_fence_def Let_def res_simps not_less split: if_splits)
    qed
  qed
qed

lemma prepare_new_ok [res_simps]:
  "prepare_new st adm r = Inr t \<longleftrightarrow>
     same_clock (ad_deadline adm) r \<and> rd_now r < dl_deadline (ad_deadline adm) \<and>
     st_writer_fence st = Some (fence_of (ad_tenure adm)) \<and>
     expected_active_matches st (ac_expected_active (cc_control (ad_payload adm))) \<and>
     (\<forall>a. st_active st = Some a \<longrightarrow>
        slice_revision (act_slice a) < slice_revision (cc_slice (ad_payload adm))) \<and>
     st_prepared st = None \<and>
     t = \<lparr>pt_next_state = st\<lparr>st_prepared := Some
             \<lparr>pc_operation_id = ac_operation_id (cc_control (ad_payload adm)),
              pc_request_digest = ad_request_digest adm, pc_incoming = cc_slice (ad_payload adm),
              pc_expected_active = ac_expected_active (cc_control (ad_payload adm)),
              pc_writer_fence = fence_of (ad_tenure adm), pc_deadline = ad_deadline adm,
              pc_stage = ControlAccepted\<rparr>\<rparr>,
          pt_operation = \<lparr>op_source_scope = st_source_scope st, op_target = st_target st,
              op_operation_id = ac_operation_id (cc_control (ad_payload adm)),
              op_request_digest = ad_request_digest adm, op_phase = PhasePrepared\<rparr>,
          pt_disposition = NewlyPrepared\<rparr>"
  by (auto simp: prepare_new_def Let_def res_simps)

lemma prepare_cases:
  assumes "evaluate_prepare sha256 st adm prior r = Inr t"
  obtains
    (fresh) "control_consistent sha256 st" "slice_held sha256 st (cc_slice (ad_payload adm))"
      "prior = None" "prepare_new st adm r = Inr t"
  | (replay) op where "control_consistent sha256 st" "prior = Some op"
      "op_source_scope op = st_source_scope st" "op_target op = st_target st"
      "op_operation_id op = ac_operation_id (cc_control (ad_payload adm))"
      "op_request_digest op = ad_request_digest adm"
      "ensure_replayed_operation_consistent st op = Inr ()"
      "t = \<lparr>pt_next_state = st, pt_operation = op, pt_disposition = PrepareReplayed (op_phase op)\<rparr>"
proof -
  from assms have cons: "control_consistent sha256 st"
    and held: "slice_held sha256 st (cc_slice (ad_payload adm))"
    by (auto simp: evaluate_prepare_def control_commitment_validate_def Let_def slice_held_def
        and_then_eq_Inr map_err_eq_Inr ensure_control_state_consistent_ok split: if_splits)
  show thesis
  proof (cases prior)
    case None
    with assms cons held show thesis
      by (intro fresh) (auto simp: evaluate_prepare_def Let_def and_then_eq_Inr split: if_splits)
  next
    case (Some op)
    with assms cons show thesis
      by (intro replay [of op])
         (auto simp: evaluate_prepare_def Let_def and_then_eq_Inr
           ensure_operation_belongs_to_state_ok split: if_splits)
  qed
qed

lemma activate_cases:
  assumes "evaluate_activate sha256 st op ready r = Inr t"
  obtains
    (activated) p where "control_consistent sha256 st" "op_phase op = PhasePrepared"
      "op_source_scope op = st_source_scope st" "op_target op = st_target st"
      "st_prepared st = Some p" "same_clock (pc_deadline p) r" "rd_now r < dl_deadline (pc_deadline p)"
      "pc_operation_id p = op_operation_id op" "pc_request_digest p = op_request_digest op"
      "rf_operation_id ready = op_operation_id op" "rf_request_digest ready = op_request_digest op"
      "t = \<lparr>at_next_state = st\<lparr>st_active := Some \<lparr>act_slice = pc_incoming p\<rparr>, st_prepared := None\<rparr>,
            at_operation = op\<lparr>op_phase := PhaseActive\<rparr>, at_disposition = Activated\<rparr>"
  | (replayed) "control_consistent sha256 st" "op_phase op = PhaseActive"
      "t = \<lparr>at_next_state = st, at_operation = op, at_disposition = ActivateReplayed\<rparr>"
proof -
  from assms have cons: "control_consistent sha256 st"
    and mine: "op_source_scope op = st_source_scope st" "op_target op = st_target st"
    by (auto simp: evaluate_activate_def and_then_eq_Inr ensure_control_state_consistent_ok
        ensure_operation_belongs_to_state_ok)
  show thesis
  proof (cases "op_phase op")
    case PhasePrepared
    with assms obtain p where p: "st_prepared st = Some p"
      and act: "activate_prepared st op ready r = Inr t"
      by (auto simp: evaluate_activate_def activate_prepared_def and_then_eq_Inr split: option.splits)
    have "op\<lparr>op_phase := PhaseActive\<rparr> =
        \<lparr>op_source_scope = st_source_scope st, op_target = st_target st,
         op_operation_id = op_operation_id op, op_request_digest = op_request_digest op,
         op_phase = PhaseActive\<rparr>"
      using mine by (cases op) simp
    with PhasePrepared cons mine p act show thesis
      by (intro activated [of p]) (auto simp: activate_prepared_def res_simps split: if_splits)
  next
    case PhaseActive
    with assms cons show thesis
      by (intro replayed) (auto simp: evaluate_activate_def and_then_eq_Inr)
  next
    case PhaseSuperseded
    with assms show thesis by (auto simp: evaluate_activate_def and_then_eq_Inr)
  qed
qed

section \<open>Every transition keeps the invariant\<close>

lemmas consistency_defs = control_consistent_def slice_held_def expected_active_matches_def

lemma fence_keeps_consistent:
  assumes "evaluate_writer_fence sha256 st adm r = Inr t"
  shows "control_consistent sha256 (ft_next_state t)"
  using assms by (cases rule: writer_fence_cases) (auto simp: consistency_defs)

lemma prepare_keeps_consistent:
  assumes "evaluate_prepare sha256 st adm prior r = Inr t"
  shows "control_consistent sha256 (pt_next_state t)"
  using assms
proof (cases rule: prepare_cases)
  case fresh
  then show ?thesis by (auto simp: consistency_defs res_simps)
next
  case (replay op)
  then show ?thesis by simp
qed

lemma activate_keeps_consistent:
  assumes "evaluate_activate sha256 st op ready r = Inr t"
  shows "control_consistent sha256 (at_next_state t)"
  using assms by (cases rule: activate_cases) (auto simp: consistency_defs)

lemma apply_init_inv: "apply_init s \<Longrightarrow> apply_inv sha256 s"
  by (auto simp: apply_init_def apply_inv_def journal_consistent_def control_consistent_def
      control_state_new_def)

lemma journal_row:
  assumes "journal_consistent s" and "sy_journal s i = Some op"
  shows "op_operation_id op = i" and "op_source_scope op = st_source_scope (sy_control s)"
    and "op_target op = st_target (sy_control s)"
    and "op_phase op = PhasePrepared \<Longrightarrow>
      \<exists>p. st_prepared (sy_control s) = Some p \<and> pc_operation_id p = i \<and>
          pc_request_digest p = op_request_digest op"
  using assms by (simp_all add: journal_consistent_def)

lemma journal_prepared:
  assumes j: "journal_consistent s" and p: "st_prepared (sy_control s) = Some p"
  shows "sy_journal s (pc_operation_id p) =
    Some \<lparr>op_source_scope = st_source_scope (sy_control s), op_target = st_target (sy_control s),
          op_operation_id = pc_operation_id p, op_request_digest = pc_request_digest p,
          op_phase = PhasePrepared\<rparr>"
proof -
  obtain op where op: "sy_journal s (pc_operation_id p) = Some op" "op_phase op = PhasePrepared"
    using assms unfolding journal_consistent_def by blast
  from journal_row [OF j op(1)] op(2) p
  have "op = \<lparr>op_source_scope = st_source_scope (sy_control s), op_target = st_target (sy_control s),
          op_operation_id = pc_operation_id p, op_request_digest = pc_request_digest p,
          op_phase = PhasePrepared\<rparr>"
    by (cases op) auto
  with op show ?thesis by simp
qed

text \<open>Settling the prepared operation, by activation or by a takeover, keeps the journal in step.\<close>

lemma journal_settle:
  assumes j: "journal_consistent s" and p: "st_prepared (sy_control s) = Some p"
    and op: "op_operation_id op = pc_operation_id p" "op_phase op \<noteq> PhasePrepared"
      "op_source_scope op = st_source_scope (sy_control s)" "op_target op = st_target (sy_control s)"
    and c: "st_prepared c = None" "st_source_scope c = st_source_scope (sy_control s)"
      "st_target c = st_target (sy_control s)"
  shows "journal_consistent \<lparr>sy_control = c, sy_journal = journal_put op (sy_journal s)\<rparr>"
proof -
  have "op_phase op' \<noteq> PhasePrepared"
    if "sy_journal s k = Some op'" and "k \<noteq> pc_operation_id p" for k op'
    using journal_row(4) [OF j that(1)] that(2) p by auto
  with journal_row(1-3) [OF j] op c show ?thesis
    by (simp add: journal_consistent_def journal_put_def)
qed

lemma journal_frame:
  "journal_consistent s \<Longrightarrow> st_prepared c = st_prepared (sy_control s) \<Longrightarrow>
   st_source_scope c = st_source_scope (sy_control s) \<Longrightarrow> st_target c = st_target (sy_control s) \<Longrightarrow>
   journal_consistent \<lparr>sy_control = c, sy_journal = sy_journal s\<rparr>"
  by (simp add: journal_consistent_def)

lemma fence_keeps_journal:
  assumes j: "journal_consistent s"
    and t: "evaluate_writer_fence sha256 (sy_control s) adm r = Inr t"
  shows "journal_consistent
      \<lparr>sy_control = ft_next_state t,
       sy_journal = (case ft_superseded_operation t of
                       None \<Rightarrow> sy_journal s
                     | Some op \<Rightarrow> journal_put op (sy_journal s))\<rparr>"
  using t
proof (cases rule: writer_fence_cases)
  case (takeover current)
  show ?thesis
  proof (cases "st_prepared (sy_control s)")
    case None
    with takeover j show ?thesis by (simp add: journal_frame)
  next
    case (Some p)
    with takeover show ?thesis by (simp add: journal_settle [OF j Some])
  qed
qed (simp_all add: journal_frame j)

lemma prepare_keeps_journal:
  assumes j: "journal_consistent s"
    and t: "evaluate_prepare sha256 (sy_control s) adm
       (sy_journal s (ac_operation_id (cc_control (ad_payload adm)))) r = Inr t"
  shows "journal_consistent
      \<lparr>sy_control = pt_next_state t, sy_journal = journal_put (pt_operation t) (sy_journal s)\<rparr>"
  using t
proof (cases rule: prepare_cases)
  case fresh
  then have none: "st_prepared (sy_control s) = None" by (simp add: res_simps)
  then have "sy_journal s i = Some op \<Longrightarrow> op_phase op \<noteq> PhasePrepared" for i op
    using j unfolding journal_consistent_def by fastforce
  with fresh j show ?thesis
    by (auto simp: journal_consistent_def journal_put_def res_simps)
next
  case (replay op)
  then have "journal_put (pt_operation t) (sy_journal s) = sy_journal s"
    by (auto simp: journal_put_def)
  with replay j show ?thesis by (simp add: journal_frame)
qed

lemma activate_keeps_journal:
  assumes j: "journal_consistent s" and op: "sy_journal s i = Some op"
    and t: "evaluate_activate sha256 (sy_control s) op ready r = Inr t"
  shows "journal_consistent
      \<lparr>sy_control = at_next_state t, sy_journal = journal_put (at_operation t) (sy_journal s)\<rparr>"
  using t
proof (cases rule: activate_cases)
  case (activated p)
  then show ?thesis by (simp add: journal_settle [OF j activated(5)])
next
  case replayed
  then have "journal_put (at_operation t) (sy_journal s) = sy_journal s"
    using op journal_row(1) [OF j op] by (auto simp: journal_put_def)
  with replayed j show ?thesis by (simp add: journal_frame)
qed

lemma apply_step_inv: "apply_inv sha256 s \<Longrightarrow> apply_step sha256 s t \<Longrightarrow> apply_inv sha256 t"
  by (erule apply_step.cases)
     (auto simp: apply_inv_def intro: fence_keeps_consistent prepare_keeps_consistent
       activate_keeps_consistent fence_keeps_journal prepare_keeps_journal activate_keeps_journal)

lemma rank_fence:
  "evaluate_writer_fence sha256 (sy_control s) adm r = Inr t \<Longrightarrow>
     apply_rank s \<le> apply_rank \<lparr>sy_control = ft_next_state t, sy_journal = j\<rparr>"
  by (erule writer_fence_cases)
     (auto simp: apply_rank_def fence_of_def word_less_nat_alt split: option.splits)

lemma rank_prepare:
  "evaluate_prepare sha256 (sy_control s) adm prior r = Inr t \<Longrightarrow>
     apply_rank s \<le> apply_rank \<lparr>sy_control = pt_next_state t, sy_journal = j\<rparr>"
  by (erule prepare_cases) (auto simp: apply_rank_def res_simps)

lemma rank_activate:
  "evaluate_activate sha256 (sy_control s) op ready r = Inr t \<Longrightarrow>
     apply_rank s \<le> apply_rank \<lparr>sy_control = at_next_state t, sy_journal = j\<rparr>"
proof (erule activate_cases)
  fix p
  assume "control_consistent sha256 (sy_control s)" "st_prepared (sy_control s) = Some p"
    "t = \<lparr>at_next_state = (sy_control s)\<lparr>st_active := Some \<lparr>act_slice = pc_incoming p\<rparr>,
            st_prepared := None\<rparr>, at_operation = op\<lparr>op_phase := PhaseActive\<rparr>,
          at_disposition = Activated\<rparr>"
  then show ?thesis
    by (auto simp: apply_rank_def control_consistent_def word_less_nat_alt split: option.splits)
qed (auto simp: apply_rank_def)

lemma apply_step_rank: "apply_step sha256 s t \<Longrightarrow> apply_rank s \<le> apply_rank t"
  by (erule apply_step.cases) (simp_all add: rank_fence rank_prepare rank_activate)

interpretation apply_machine: monotone_machine apply_init "apply_step sha256" "apply_inv sha256" apply_rank
  for sha256
  by unfold_locales (auto intro: apply_init_inv apply_step_inv apply_step_rank)

lemma journal_terminal_step:
  assumes "apply_inv sha256 s" and "sy_journal s i = Some op" and "op_phase op \<noteq> PhasePrepared"
    and "apply_step sha256 s t"
  shows "sy_journal t i = Some op"
proof -
  have j: "journal_consistent s" using assms(1) by (simp add: apply_inv_def)
  have idx: "op_operation_id op' = k" if "sy_journal s k = Some op'" for k op'
    using j that by (simp add: journal_consistent_def)
  from assms(4) show ?thesis
  proof cases
    case (step_fence adm r tr)
    then show ?thesis
      using assms(2,3) by (auto simp: journal_put_def split: option.splits)
  next
    case (step_prepare adm r tr)
    from step_prepare(2) show ?thesis
    proof (cases rule: prepare_cases)
      case fresh
      then show ?thesis using step_prepare assms(2) by (auto simp: journal_put_def res_simps)
    next
      case (replay op')
      then show ?thesis using step_prepare assms(2) by (auto simp: journal_put_def)
    qed
  next
    case (step_activate k op' ready r tr)
    from step_activate(3) show ?thesis
    proof (cases rule: activate_cases)
      case (activated p)
      then show ?thesis
        using step_activate assms(2,3) idx by (auto simp: journal_put_def)
    next
      case replayed
      then show ?thesis using step_activate assms(2) idx by (auto simp: journal_put_def)
    qed
  qed
qed

lemma fence_step:
  assumes "apply_step sha256 s t" and "st_writer_fence (sy_control s) = Some f"
  shows "st_writer_fence (sy_control t) = Some f \<or>
         (\<exists>g. st_writer_fence (sy_control t) = Some g \<and> wf_epoch f < wf_epoch g)"
  using assms(1)
proof cases
  case (step_fence adm r tr)
  from step_fence(2) show ?thesis
    by (cases rule: writer_fence_cases) (use step_fence(1) assms(2) in \<open>auto simp: fence_of_def\<close>)
next
  case (step_prepare adm r tr)
  from step_prepare(2) show ?thesis
    by (cases rule: prepare_cases) (use step_prepare(1) assms(2) in \<open>auto simp: res_simps\<close>)
next
  case (step_activate i op ready r tr)
  from step_activate(3) show ?thesis
    by (cases rule: activate_cases) (use step_activate(1) assms(2) in auto)
qed

section \<open>A concrete run\<close>

definition demo_reading :: "u64 \<Rightarrow> ClockReading" where
  "demo_reading now = \<lparr>rd_domain = 0, rd_generation = 1, rd_now = now\<rparr>"

definition demo_admitted :: "u64 \<Rightarrow> AdmittedApply" where
  "demo_admitted epoch =
     \<lparr>ad_payload = demo_commitment ExpectNone,
      ad_tenure = VerifiedWriterTenure.make 2 4 epoch (epoch - 1) 0 9,
      ad_request_digest = 3,
      ad_deadline = \<lparr>dl_domain = 0, dl_generation = 1, dl_deadline = 100\<rparr>,
      ad_exact_replay = False\<rparr>"

definition demo_state :: "u64 \<Rightarrow> bool \<Rightarrow> bool \<Rightarrow> ApplyControlState" where
  "demo_state epoch is_prepared is_active =
     \<lparr>st_source_scope = 2, st_target = 1,
      st_writer_fence = (if epoch = 0 then None else Some (WriterFence.make 4 epoch 0 9)),
      st_prepared =
        (if is_prepared then
           Some \<lparr>pc_operation_id = 7, pc_request_digest = 3, pc_incoming = demo_slice,
                 pc_expected_active = ExpectNone,
                 pc_writer_fence = WriterFence.make 4 epoch 0 9,
                 pc_deadline = \<lparr>dl_domain = 0, dl_generation = 1, dl_deadline = 100\<rparr>,
                 pc_stage = ControlAccepted\<rparr>
         else None),
      st_active = (if is_active then Some \<lparr>act_slice = demo_slice\<rparr> else None)\<rparr>"

definition demo_op :: "OperationPhase \<Rightarrow> OperationRecord" where
  "demo_op phase = OperationRecord.make 2 1 7 3 phase"

lemmas demo_defs = demo_reading_def demo_admitted_def demo_state_def demo_op_def demo_slice_def
  demo_commitment_def demo_control_def slice_header_new_def fence_of_def same_clock_def
  VerifiedWriterTenure.defs WriterFence.defs OperationRecord.defs PlanProvenance.defs
  WriterTenureClaim.defs

lemma demo_slice_held: "epoch \<noteq> 0 \<Longrightarrow> slice_held (\<lambda>_. 0) (demo_state epoch p a) demo_slice"
  by (simp add: slice_held_def res_simps demo_defs)

lemma demo_consistent:
  "\<not> (p \<and> a) \<Longrightarrow> (a \<longrightarrow> epoch \<noteq> 0) \<Longrightarrow> (p \<longrightarrow> epoch \<noteq> 0) \<Longrightarrow>
     control_consistent (\<lambda>_. 0) (demo_state epoch p a)"
  using demo_slice_held [of epoch p a]
  by (auto simp: control_consistent_def slice_held_def expected_active_matches_def demo_state_def)

lemma ensure_consistent [simp]:
  "control_consistent sha256 st \<Longrightarrow> ensure_control_state_consistent sha256 st = Inr ()"
  by (simp add: res_simps)

lemma demo_fence_first:
  "evaluate_writer_fence (\<lambda>_. 0) (demo_state 0 False False) (demo_admitted 2) (demo_reading 10)
     = Inr \<lparr>ft_next_state = demo_state 2 False False, ft_disposition = Advanced,
            ft_superseded_operation = None\<rparr>"
  using demo_consistent [of False False 0]
  by (simp add: evaluate_writer_fence_def)
     (simp add: demo_defs ensure_deadline_live_def is_expired_at_def ensure_compatible_def)

lemma demo_fence_takeover:
  "evaluate_writer_fence (\<lambda>_. 0) (demo_state 2 True False) (demo_admitted 3) (demo_reading 10)
     = Inr \<lparr>ft_next_state = demo_state 3 False False, ft_disposition = Advanced,
            ft_superseded_operation = Some (demo_op PhaseSuperseded)\<rparr>"
  using demo_consistent [of True False 2]
  by (simp add: evaluate_writer_fence_def)
     (simp add: demo_defs ensure_deadline_live_def is_expired_at_def ensure_compatible_def)

lemma demo_payload_valid: "control_commitment_validate (\<lambda>_. 0) (demo_commitment e) = Inr ()"
proof -
  have wf: "tenure_proof_wf (wc_proof (ac_writer_context (cc_control (demo_commitment e))))"
    by (simp add: demo_commitment_def demo_control_def tenure_proof_wf_def tenure_limits)
  show ?thesis
    unfolding control_commitment_validate_iff [OF wf]
    by (simp add: res_simps ensure_writer_scope_matches_def demo_defs)
qed

lemma demo_prepare:
  "evaluate_prepare (\<lambda>_. 0) (demo_state 2 False False) (demo_admitted 2) None (demo_reading 10)
     = Inr \<lparr>pt_next_state = demo_state 2 True False, pt_operation = demo_op PhasePrepared,
            pt_disposition = NewlyPrepared\<rparr>"
  using demo_consistent [of False False 2] demo_payload_valid [of ExpectNone]
  by (simp add: evaluate_prepare_def demo_admitted_def)
     (simp add: demo_defs prepare_new_def ensure_deadline_live_def is_expired_at_def
       ensure_compatible_def matching_writer_fence_def ensure_expected_active_def
       expected_active_matches_def ensure_revision_advances_def)

lemma demo_activate:
  "evaluate_activate (\<lambda>_. 0) (demo_state 2 True False) (demo_op PhasePrepared)
     \<lparr>rf_operation_id = 7, rf_request_digest = 3\<rparr> (demo_reading 20)
     = Inr \<lparr>at_next_state = demo_state 2 False True, at_operation = demo_op PhaseActive,
            at_disposition = Activated\<rparr>"
  using demo_consistent [of True False 2]
  by (simp add: evaluate_activate_def)
     (simp add: demo_defs ensure_operation_belongs_to_state_def ensure_replayed_operation_consistent_def
       activate_prepared_def ensure_deadline_live_def is_expired_at_def ensure_compatible_def)

definition demo_sys :: "u64 \<Rightarrow> bool \<Rightarrow> bool \<Rightarrow> OperationPhase option \<Rightarrow> apply_sys" where
  "demo_sys epoch p a row =
     \<lparr>sy_control = demo_state epoch p a,
      sy_journal = (\<lambda>i. if i = 7 then map_option demo_op row else None)\<rparr>"

lemma demo_init: "apply_init (demo_sys 0 False False None)"
  by (auto simp: apply_init_def demo_sys_def demo_state_def control_state_new_def)

lemma demo_step_fence:
  "apply_step (\<lambda>_. 0) (demo_sys 0 False False None) (demo_sys 2 False False None)"
  using apply_step.step_fence [of "\<lambda>_. 0" "demo_sys 0 False False None" "demo_admitted 2" "demo_reading 10"]
    demo_fence_first by (simp add: demo_sys_def)

lemma demo_operation_id: "ac_operation_id (cc_control (ad_payload (demo_admitted e))) = 7"
  by (simp add: demo_defs)

lemma demo_step_prepare:
  "apply_step (\<lambda>_. 0) (demo_sys 2 False False None) (demo_sys 2 True False (Some PhasePrepared))"
proof -
  have "apply_step (\<lambda>_. 0) (demo_sys 2 False False None)
    \<lparr>sy_control = demo_state 2 True False,
     sy_journal = journal_put (demo_op PhasePrepared) (sy_journal (demo_sys 2 False False None))\<rparr>"
    using apply_step.step_prepare [of "\<lambda>_. 0" "demo_sys 2 False False None" "demo_admitted 2" "demo_reading 10"]
      demo_prepare by (simp add: demo_sys_def demo_operation_id)
  moreover have "journal_put (demo_op PhasePrepared) (sy_journal (demo_sys 2 False False None)) =
      sy_journal (demo_sys 2 True False (Some PhasePrepared))"
    by (auto simp: demo_sys_def journal_put_def demo_op_def OperationRecord.defs)
  ultimately show ?thesis by (simp add: demo_sys_def)
qed

lemma demo_step_activate:
  "apply_step (\<lambda>_. 0) (demo_sys 2 True False (Some PhasePrepared)) (demo_sys 2 False True (Some PhaseActive))"
proof -
  have "apply_step (\<lambda>_. 0) (demo_sys 2 True False (Some PhasePrepared))
    \<lparr>sy_control = demo_state 2 False True,
     sy_journal = journal_put (demo_op PhaseActive) (sy_journal (demo_sys 2 True False (Some PhasePrepared)))\<rparr>"
    using apply_step.step_activate [of "demo_sys 2 True False (Some PhasePrepared)" 7 "demo_op PhasePrepared"
      "\<lambda>_. 0" "\<lparr>rf_operation_id = 7, rf_request_digest = 3\<rparr>" "demo_reading 20"] demo_activate
    by (simp add: demo_sys_def)
  moreover have "journal_put (demo_op PhaseActive) (sy_journal (demo_sys 2 True False (Some PhasePrepared))) =
      sy_journal (demo_sys 2 False True (Some PhaseActive))"
    by (auto simp: demo_sys_def journal_put_def demo_op_def OperationRecord.defs)
  ultimately show ?thesis by (simp add: demo_sys_def)
qed

lemma demo_run: "(apply_step (\<lambda>_. 0))\<^sup>*\<^sup>* (demo_sys 0 False False None) (demo_sys 2 True False (Some PhasePrepared))"
  using demo_step_fence demo_step_prepare
  by (blast intro: converse_rtranclp_into_rtranclp r_into_rtranclp)

lemma demo_run_active:
  "(apply_step (\<lambda>_. 0))\<^sup>*\<^sup>* (demo_sys 2 True False (Some PhasePrepared)) (demo_sys 2 False True (Some PhaseActive))"
  using demo_step_activate by blast

lemma demo_sys_inv: "apply_inv (\<lambda>_. 0) (demo_sys 2 True False (Some PhasePrepared))"
  by (rule apply_machine.reachable_inv [OF demo_init demo_run])

section \<open>Properties\<close>

text \<open>C9. Activation is a guarded compare-and-swap. When an activate request newly activates,
the state held a prepared operation with exactly the identity and digest of the journal row
and of the readiness fact, its deadline was live on its own clock, it was still fenced by the
current writer, the active slice was the one the request expected and of a strictly smaller
revision; the new state differs from the old one only in that the prepared slice has become
the active one.\<close>

theorem activation_is_guarded_cas:
  assumes "evaluate_activate sha256 st op ready r = Inr t" and "at_disposition t = Activated"
  shows "\<exists>p. st_prepared st = Some p \<and> op_phase op = PhasePrepared \<and>
    pc_operation_id p = op_operation_id op \<and> pc_request_digest p = op_request_digest op \<and>
    ready = \<lparr>rf_operation_id = op_operation_id op, rf_request_digest = op_request_digest op\<rparr> \<and>
    same_clock (pc_deadline p) r \<and> rd_now r < dl_deadline (pc_deadline p) \<and>
    st_writer_fence st = Some (pc_writer_fence p) \<and>
    expected_active_matches st (pc_expected_active p) \<and>
    (\<forall>a. st_active st = Some a \<longrightarrow>
       slice_revision (act_slice a) < slice_revision (pc_incoming p)) \<and>
    at_next_state t = st\<lparr>st_active := Some \<lparr>act_slice = pc_incoming p\<rparr>, st_prepared := None\<rparr> \<and>
    at_operation t = op\<lparr>op_phase := PhaseActive\<rparr>"
  using assms(1)
proof (cases rule: activate_cases)
  case (activated p)
  then show ?thesis by (cases ready) (simp add: control_consistent_def)
next
  case replayed
  with assms(2) show ?thesis by simp
qed

theorem activation_is_guarded_cas_witness:
  "\<exists>p. st_prepared (demo_state 2 True False) = Some p \<and>
     expected_active_matches (demo_state 2 True False) (pc_expected_active p) \<and>
     demo_state 2 False True =
       (demo_state 2 True False)\<lparr>st_active := Some \<lparr>act_slice = pc_incoming p\<rparr>, st_prepared := None\<rparr>"
  using activation_is_guarded_cas [OF demo_activate] by auto

text \<open>C10. In every state reachable through fence, prepare and activate transitions, the
consistency check that guards each transition succeeds, and the journal agrees with the
control state: every row lies under its own operation and in the scope and target of the state,
and the operation prepared in the state, if any, is the only one the journal records as
prepared, with the same request digest. So the conditional update of a takeover always finds
the row it replaces.\<close>

theorem apply_machine_invariant:
  assumes "apply_init s" and "(apply_step sha256)\<^sup>*\<^sup>* s t"
  shows "ensure_control_state_consistent sha256 (sy_control t) = Inr () \<and>
    (\<forall>i. (\<exists>op. sy_journal t i = Some op \<and> op_phase op = PhasePrepared) \<longleftrightarrow>
         (\<exists>p. st_prepared (sy_control t) = Some p \<and> pc_operation_id p = i)) \<and>
    (\<forall>adm r tr op. evaluate_writer_fence sha256 (sy_control t) adm r = Inr tr \<longrightarrow>
       ft_superseded_operation tr = Some op \<longrightarrow>
       sy_journal t (op_operation_id op) = Some (op\<lparr>op_phase := PhasePrepared\<rparr>))"
proof -
  have inv: "apply_inv sha256 t" by (rule apply_machine.reachable_inv [OF assms])
  then have j: "journal_consistent t" by (simp add: apply_inv_def)
  have "sy_journal t (op_operation_id op) = Some (op\<lparr>op_phase := PhasePrepared\<rparr>)"
    if "evaluate_writer_fence sha256 (sy_control t) adm r = Inr tr"
      and "ft_superseded_operation tr = Some op" for adm r tr op
    using that(1)
  proof (cases rule: writer_fence_cases)
    case (takeover current)
    with that(2) show ?thesis
      by (cases "st_prepared (sy_control t)") (auto simp: journal_prepared [OF j])
  qed (use that(2) in simp_all)
  moreover have "(\<exists>op. sy_journal t i = Some op \<and> op_phase op = PhasePrepared) \<longleftrightarrow>
         (\<exists>p. st_prepared (sy_control t) = Some p \<and> pc_operation_id p = i)" for i
    using journal_row(4) [OF j, of i] journal_prepared [OF j] by (auto simp: journal_prepared [OF j])
  ultimately show ?thesis using inv by (simp add: apply_inv_def)
qed

theorem apply_machine_invariant_witness:
  "ensure_control_state_consistent (\<lambda>_. 0) (demo_state 2 True False) = Inr ()"
  using apply_machine_invariant [OF demo_init demo_run] by (simp add: demo_sys_def)

text \<open>C11. Along every run of the machine the writer fence only moves forward: a fence once
set is never cleared, its epoch never decreases, and within one epoch the writer, its tenure
proof and its principal never change, so two writers are never fenced in at the same epoch.\<close>

theorem one_writer_per_epoch:
  assumes "apply_init s\<^sub>0" and "(apply_step sha256)\<^sup>*\<^sup>* s\<^sub>0 s" and "(apply_step sha256)\<^sup>*\<^sup>* s t"
    and "st_writer_fence (sy_control s) = Some f"
  shows "\<exists>g. st_writer_fence (sy_control t) = Some g \<and> wf_epoch f \<le> wf_epoch g \<and>
             (wf_epoch f = wf_epoch g \<longrightarrow> f = g)"
proof (rule apply_machine.run_stable [where P = "\<lambda>t. \<exists>g. st_writer_fence (sy_control t) = Some g \<and>
    wf_epoch f \<le> wf_epoch g \<and> (wf_epoch f = wf_epoch g \<longrightarrow> f = g)", OF assms(3)])
  show "apply_inv sha256 s" by (rule apply_machine.reachable_inv [OF assms(1,2)])
  show "\<exists>g. st_writer_fence (sy_control s) = Some g \<and> wf_epoch f \<le> wf_epoch g \<and>
             (wf_epoch f = wf_epoch g \<longrightarrow> f = g)" using assms(4) by simp
next
  fix u v
  assume "\<exists>g. st_writer_fence (sy_control u) = Some g \<and> wf_epoch f \<le> wf_epoch g \<and>
             (wf_epoch f = wf_epoch g \<longrightarrow> f = g)" and step: "apply_step sha256 u v"
  then obtain g where g: "st_writer_fence (sy_control u) = Some g" "wf_epoch f \<le> wf_epoch g"
    "wf_epoch f = wf_epoch g \<longrightarrow> f = g" by blast
  from fence_step [OF step g(1)] show "\<exists>g. st_writer_fence (sy_control v) = Some g \<and>
      wf_epoch f \<le> wf_epoch g \<and> (wf_epoch f = wf_epoch g \<longrightarrow> f = g)"
  proof
    assume "\<exists>h. st_writer_fence (sy_control v) = Some h \<and> wf_epoch g < wf_epoch h"
    then obtain h where "st_writer_fence (sy_control v) = Some h" "wf_epoch g < wf_epoch h" by blast
    with g(2) show ?thesis by (intro exI [of _ h]) (auto dest: leD)
  qed (use g in simp)
qed

theorem one_writer_per_epoch_witness:
  "st_writer_fence (demo_state 2 False True) = Some (WriterFence.make 4 2 0 9)"
  using one_writer_per_epoch [OF demo_init demo_run demo_run_active, of "WriterFence.make 4 2 0 9"]
  by (auto simp: demo_sys_def demo_state_def WriterFence.defs)

text \<open>C12. Along every run the revision of the active slice never decreases and an active
slice is never cleared: neither a late activation nor a takeover by another writer puts an
older plan back.\<close>

theorem active_revision_never_regresses:
  assumes "apply_init s\<^sub>0" and "(apply_step sha256)\<^sup>*\<^sup>* s\<^sub>0 s" and "(apply_step sha256)\<^sup>*\<^sup>* s t"
    and "st_active (sy_control s) = Some a"
  shows "\<exists>b. st_active (sy_control t) = Some b \<and>
             slice_revision (act_slice a) \<le> slice_revision (act_slice b)"
proof -
  have "apply_rank s \<le> apply_rank t"
    by (rule apply_machine.run_rank [OF assms(3) apply_machine.reachable_inv [OF assms(1,2)]])
  with assms(4) show ?thesis
    by (auto simp: apply_rank_def word_le_nat_alt split: option.splits)
qed

theorem active_revision_never_regresses_witness:
  "\<exists>b. st_active (demo_state 2 False True) = Some b \<and>
       slice_revision demo_slice \<le> slice_revision (act_slice b)"
  using active_revision_never_regresses
    [OF demo_init rtranclp_trans [OF demo_run demo_run_active] rtranclp.rtrancl_refl, of "\<lparr>act_slice = demo_slice\<rparr>"]
  by (simp add: demo_sys_def demo_state_def)

text \<open>A takeover by a newer writer fences out the operation the old writer had prepared:
in the state the takeover leaves, activating from the superseded row is refused as superseded
and activating from a stale copy of the prepared row is refused as inconsistent, whatever the
readiness fact and the clock.\<close>

lemma takeover_fences_out_prepared:
  assumes t: "evaluate_writer_fence sha256 st adm r = Inr t"
    and op: "ft_superseded_operation t = Some op"
  shows "evaluate_activate sha256 (ft_next_state t) op ready r' = Inl OperationSuperseded \<and>
    evaluate_activate sha256 (ft_next_state t) (op\<lparr>op_phase := PhasePrepared\<rparr>) ready r' =
      Inl OperationStateMismatch \<and> st_prepared (ft_next_state t) = None"
  using t
proof (cases rule: writer_fence_cases)
  case (takeover current)
  have c: "control_consistent sha256 (ft_next_state t)" by (rule fence_keeps_consistent [OF t])
  from op takeover obtain p where "st_prepared st = Some p" by auto
  with c takeover op show ?thesis
    by (auto simp: evaluate_activate_def ensure_operation_belongs_to_state_def
        ensure_replayed_operation_consistent_def)
qed (use op in simp_all)

text \<open>A settled operation stays settled: once the journal records an operation of a
reachable state as active or superseded, no run from there changes that row, and in
particular an operation that was superseded never becomes active.\<close>

lemma settled_operation_is_final:
  assumes "apply_init s\<^sub>0" and "(apply_step sha256)\<^sup>*\<^sup>* s\<^sub>0 s" and "(apply_step sha256)\<^sup>*\<^sup>* s t"
    and "sy_journal s i = Some op" and "op_phase op \<noteq> PhasePrepared"
  shows "sy_journal t i = Some op"
  by (rule apply_machine.run_stable [where P = "\<lambda>s. sy_journal s i = Some op", OF assms(3)
        apply_machine.reachable_inv [OF assms(1,2)] assms(4)])
     (rule journal_terminal_step [OF _ _ assms(5)])

text \<open>A lost answer to a prepare request is safe to retry: after a request has been
newly prepared, repeating it with the journal row it produced returns that row, reports it as a
replay in the prepared phase and leaves the state unchanged, even after its deadline.\<close>

lemma prepare_replay_idempotent:
  assumes t: "evaluate_prepare sha256 st adm None r = Inr t"
  shows "evaluate_prepare sha256 (pt_next_state t) adm (Some (pt_operation t)) r' =
    Inr \<lparr>pt_next_state = pt_next_state t, pt_operation = pt_operation t,
         pt_disposition = PrepareReplayed PhasePrepared\<rparr>"
proof -
  have c: "control_consistent sha256 (pt_next_state t)" by (rule prepare_keeps_consistent [OF t])
  have v: "control_commitment_validate sha256 (ad_payload adm) = Inr ()"
    using t by (simp add: evaluate_prepare_def and_then_eq_Inr map_err_eq_Inr)
  from t have n: "slice_held sha256 st (cc_slice (ad_payload adm))" "prepare_new st adm r = Inr t"
    by (cases rule: prepare_cases; simp)+
  with c v show ?thesis
    by (auto simp: evaluate_prepare_def prepare_new_ok slice_held_def
        ensure_operation_belongs_to_state_def ensure_replayed_operation_consistent_def)
qed

end
