(* ===== verification/Crypto.thy ===== *)
theory Crypto
  imports Kernel_Digest
begin

text \<open>
  The code outside the repository that the tenure authority and the admission of requests call,
  as one record of functions: SHA-256 (crate \<open>sha2\<close>), Ed25519 as crate \<open>ed25519-dalek\<close> offers it, and
  the number of hardware threads the platform reports. A verifying key is the 32 bytes it was
  decoded from: \<open>ex_key_valid\<close> says whether \<open>VerifyingKey::from_bytes\<close> accepts them, \<open>ex_key_weak\<close>
  is \<open>is_weak\<close>. A signature \<open>[u8; 64]\<close> is the word of its big-endian bytes, like the shorter arrays.
\<close>

type_synonym bytes64 = "512 word"

abbreviation arr64 :: "bytes64 \<Rightarrow> bytes" where "arr64 \<equiv> be_bytes 64"

record Externals =
  ex_sha256 :: "bytes \<Rightarrow> Digest32"
  ex_key_valid :: "bytes32 \<Rightarrow> bool"
  ex_key_weak :: "bytes32 \<Rightarrow> bool"
  ex_verify_strict :: "bytes32 \<Rightarrow> bytes \<Rightarrow> bytes64 \<Rightarrow> bool"
  ex_verifying_key :: "bytes32 \<Rightarrow> bytes32"
  ex_sign :: "bytes32 \<Rightarrow> bytes \<Rightarrow> bytes64"
  ex_parallelism :: nat

end
