(* ===== verification/Admission.thy ===== *)
theory Admission
  imports Apply_Request Apply_State Crypto "HOL-Library.List_Lexorder"
begin

text \<open>
  Admission of apply requests, \<open>crates/paraegox-runtime/src/admission.rs\<close> and \<open>request.rs\<close>: the
  trust policy, the replay and temporal ledgers, and the pure transition \<open>admit_envelope\<close> that
  authenticates an envelope, decides whether it is fresh or an exact replay, and installs its local
  deadline. SHA-256 and Ed25519 are the functions of \<open>Externals\<close>. Of the request versions only
  the first is modelled, and the policy's reference profile is not, so the errors of the other
  versions and of the reference contract do not occur here. The selectors and nonce keys are
  datatypes of their own because they are the keys of ordered maps; their order is the one the
  source derives, field by field.
\<close>

section \<open>Trust selectors\<close>

datatype TenureTrustSelector = TenureTrustSelector
  (ts_source_scope: SourceScopeRef) (ts_authority: TenureAuthorityRef) (ts_key: TenureKeyRef)
  (ts_algorithm: TenureProofAlgorithm) (ts_algorithm_version: u16)

datatype ApplyTrustSelector = ApplyTrustSelector
  (as_source_scope: SourceScopeRef) (as_target: RuntimeHostId) (as_principal: PrincipalRef)
  (as_writer: PlanWriterRef) (as_key: ApplyAuthKeyRef) (as_algorithm: ApplyAuthAlgorithm)
  (as_algorithm_version: u16)

datatype TenureNonceKey = TenureNonceKey
  (tn_source_scope: SourceScopeRef) (tn_authority: TenureAuthorityRef) (tn_key: TenureKeyRef)
  (tn_algorithm: TenureProofAlgorithm) (tn_algorithm_version: u16) (tn_nonce: bytes)

datatype RequestNonceKey = RequestNonceKey
  (rn_source_scope: SourceScopeRef) (rn_target: RuntimeHostId) (rn_principal: PrincipalRef)
  (rn_writer: PlanWriterRef) (rn_key: ApplyAuthKeyRef) (rn_algorithm: ApplyAuthAlgorithm)
  (rn_algorithm_version: u16) (rn_nonce: bytes)

text \<open>The derived order compares the fields in turn: the lexicographic order of their values.\<close>

fun tenure_selector_rank :: "TenureTrustSelector \<Rightarrow> nat list" where
  "tenure_selector_rank (TenureTrustSelector s a k g v) = [unat s, unat a, unat k, unat g, unat v]"

fun apply_selector_rank :: "ApplyTrustSelector \<Rightarrow> nat list" where
  "apply_selector_rank (ApplyTrustSelector s t p w k g v) =
     [unat s, unat t, unat p, unat w, unat k, unat g, unat v]"

fun tenure_nonce_rank :: "TenureNonceKey \<Rightarrow> nat list" where
  "tenure_nonce_rank (TenureNonceKey s a k g v n) =
     [unat s, unat a, unat k, unat g, unat v] @ map unat n"

fun request_nonce_rank :: "RequestNonceKey \<Rightarrow> nat list" where
  "request_nonce_rank (RequestNonceKey s t p w k g v n) =
     [unat s, unat t, unat p, unat w, unat k, unat g, unat v] @ map unat n"

lemma map_unat_inject: "map unat (a :: bytes) = map unat b \<longleftrightarrow> a = b"
  by (rule inj_map_eq_map) (auto intro: injI simp: unat_eq_iff)

lemma tenure_selector_rank_inject [simp]: "tenure_selector_rank a = tenure_selector_rank b \<longleftrightarrow> a = b"
  by (cases a; cases b) (auto simp: unat_eq_iff)

lemma apply_selector_rank_inject [simp]: "apply_selector_rank a = apply_selector_rank b \<longleftrightarrow> a = b"
  by (cases a; cases b) (auto simp: unat_eq_iff)

lemma tenure_nonce_rank_inject [simp]: "tenure_nonce_rank a = tenure_nonce_rank b \<longleftrightarrow> a = b"
  by (cases a; cases b) (auto simp: unat_eq_iff map_unat_inject)

lemma request_nonce_rank_inject [simp]: "request_nonce_rank a = request_nonce_rank b \<longleftrightarrow> a = b"
  by (cases a; cases b) (auto simp: unat_eq_iff map_unat_inject)

instantiation TenureTrustSelector :: linorder
begin

definition less_eq_TenureTrustSelector :: "TenureTrustSelector \<Rightarrow> TenureTrustSelector \<Rightarrow> bool" where
  "less_eq_TenureTrustSelector a b \<longleftrightarrow> tenure_selector_rank a \<le> tenure_selector_rank b"

definition less_TenureTrustSelector :: "TenureTrustSelector \<Rightarrow> TenureTrustSelector \<Rightarrow> bool" where
  "less_TenureTrustSelector a b \<longleftrightarrow> tenure_selector_rank a < tenure_selector_rank b"

instance
  by standard (auto simp: less_eq_TenureTrustSelector_def less_TenureTrustSelector_def dest: antisym)

end

instantiation ApplyTrustSelector :: linorder
begin

definition less_eq_ApplyTrustSelector :: "ApplyTrustSelector \<Rightarrow> ApplyTrustSelector \<Rightarrow> bool" where
  "less_eq_ApplyTrustSelector a b \<longleftrightarrow> apply_selector_rank a \<le> apply_selector_rank b"

definition less_ApplyTrustSelector :: "ApplyTrustSelector \<Rightarrow> ApplyTrustSelector \<Rightarrow> bool" where
  "less_ApplyTrustSelector a b \<longleftrightarrow> apply_selector_rank a < apply_selector_rank b"

instance
  by standard (auto simp: less_eq_ApplyTrustSelector_def less_ApplyTrustSelector_def dest: antisym)

end

instantiation TenureNonceKey :: linorder
begin

definition less_eq_TenureNonceKey :: "TenureNonceKey \<Rightarrow> TenureNonceKey \<Rightarrow> bool" where
  "less_eq_TenureNonceKey a b \<longleftrightarrow> tenure_nonce_rank a \<le> tenure_nonce_rank b"

definition less_TenureNonceKey :: "TenureNonceKey \<Rightarrow> TenureNonceKey \<Rightarrow> bool" where
  "less_TenureNonceKey a b \<longleftrightarrow> tenure_nonce_rank a < tenure_nonce_rank b"

instance
  by standard (auto simp: less_eq_TenureNonceKey_def less_TenureNonceKey_def dest: antisym)

end

instantiation RequestNonceKey :: linorder
begin

definition less_eq_RequestNonceKey :: "RequestNonceKey \<Rightarrow> RequestNonceKey \<Rightarrow> bool" where
  "less_eq_RequestNonceKey a b \<longleftrightarrow> request_nonce_rank a \<le> request_nonce_rank b"

definition less_RequestNonceKey :: "RequestNonceKey \<Rightarrow> RequestNonceKey \<Rightarrow> bool" where
  "less_RequestNonceKey a b \<longleftrightarrow> request_nonce_rank a < request_nonce_rank b"

instance
  by standard (auto simp: less_eq_RequestNonceKey_def less_RequestNonceKey_def dest: antisym)

end

section \<open>Policy\<close>

definition ED25519_ALGORITHM :: u16 where "ED25519_ALGORITHM = 1"
definition ED25519_ALGORITHM_VERSION :: u16 where "ED25519_ALGORITHM_VERSION = 1"
definition ED25519_SIGNATURE_BYTES :: nat where "ED25519_SIGNATURE_BYTES = 64"

type_synonym VerifyingKey = bytes32

record TrustedTenureKey =
  tk_selector :: TenureTrustSelector
  tk_authority_principal :: PrincipalRef
  tk_authority_uid :: u32
  tk_authority_gid :: u32
  tk_verifying_key :: VerifyingKey

record TrustedTenureIdentity =
  ti_source_scope :: SourceScopeRef
  ti_authority_principal :: PrincipalRef
  ti_authority_uid :: u32
  ti_authority_gid :: u32
  ti_authority :: TenureAuthorityRef

record TrustedApplyKey =
  ak_selector :: ApplyTrustSelector
  ak_verifying_key :: VerifyingKey

record TrustedApplyIdentity =
  ai_source_scope :: SourceScopeRef
  ai_target :: RuntimeHostId
  ai_principal :: PrincipalRef
  ai_writer :: PlanWriterRef

record TrustedTenureBinding =
  tb_authority_principal :: PrincipalRef
  tb_authority_uid :: u32
  tb_authority_gid :: u32
  tb_verifying_key :: VerifyingKey

record AdmissionStateLimits =
  al_tenure_nonce_capacity :: usize
  al_request_nonce_capacity :: usize
  al_temporal_lineage_capacity :: usize

record ApplyAdmissionPolicy =
  po_maximum_budget :: BoundedDuration
  po_state_limits :: AdmissionStateLimits
  po_tenure_keys :: "(TenureTrustSelector, TrustedTenureBinding) btree_map"
  po_apply_keys :: "(ApplyTrustSelector, VerifyingKey) btree_map"

datatype AdmissionConfigurationError =
    UnsupportedSignatureProfile
  | InvalidVerifyingKey
  | WeakVerifyingKey
  | EmptyTenureTrust
  | EmptyApplyTrust
  | DuplicateTenureTrust
  | DuplicateApplyTrust
  | ZeroMaximumBudget
  | ZeroTenureNonceCapacity
  | ZeroRequestNonceCapacity
  | ZeroTemporalLineageCapacity

definition ensure_ed25519_profile :: "u16 \<Rightarrow> u16 \<Rightarrow> AdmissionConfigurationError + unit" where
  "ensure_ed25519_profile algorithm algorithm_version =
     (if algorithm \<noteq> ED25519_ALGORITHM \<or> algorithm_version \<noteq> ED25519_ALGORITHM_VERSION
      then Inl UnsupportedSignatureProfile else Inr ())"

definition parse_trusted_key :: "Externals \<Rightarrow> bytes32 \<Rightarrow> AdmissionConfigurationError + VerifyingKey" where
  "parse_trusted_key X bs =
     (if \<not> ex_key_valid X bs then Inl InvalidVerifyingKey
      else if ex_key_weak X bs then Inl WeakVerifyingKey
      else Inr bs)"

definition trusted_tenure_key_try_new ::
  "Externals \<Rightarrow> TrustedTenureIdentity \<Rightarrow> TenureKeyRef \<Rightarrow> TenureProofAlgorithm \<Rightarrow> u16 \<Rightarrow> bytes32 \<Rightarrow>
   AdmissionConfigurationError + TrustedTenureKey" where
  "trusted_tenure_key_try_new X identity key algorithm algorithm_version verifying_key =
     and_then (ensure_ed25519_profile algorithm algorithm_version) (\<lambda>_.
     and_then (parse_trusted_key X verifying_key) (\<lambda>verifying_key.
     Inr \<lparr>tk_selector = TenureTrustSelector (ti_source_scope identity) (ti_authority identity) key
            algorithm algorithm_version,
          tk_authority_principal = ti_authority_principal identity,
          tk_authority_uid = ti_authority_uid identity, tk_authority_gid = ti_authority_gid identity,
          tk_verifying_key = verifying_key\<rparr>))"

definition trusted_apply_key_try_new ::
  "Externals \<Rightarrow> TrustedApplyIdentity \<Rightarrow> ApplyAuthKeyRef \<Rightarrow> ApplyAuthAlgorithm \<Rightarrow> u16 \<Rightarrow> bytes32 \<Rightarrow>
   AdmissionConfigurationError + TrustedApplyKey" where
  "trusted_apply_key_try_new X identity key algorithm algorithm_version verifying_key =
     and_then (ensure_ed25519_profile algorithm algorithm_version) (\<lambda>_.
     and_then (parse_trusted_key X verifying_key) (\<lambda>verifying_key.
     Inr \<lparr>ak_selector = ApplyTrustSelector (ai_source_scope identity) (ai_target identity)
            (ai_principal identity) (ai_writer identity) key algorithm algorithm_version,
          ak_verifying_key = verifying_key\<rparr>))"

definition state_limits_try_new ::
  "usize \<Rightarrow> usize \<Rightarrow> usize \<Rightarrow> AdmissionConfigurationError + AdmissionStateLimits" where
  "state_limits_try_new tenure_nonce_capacity request_nonce_capacity temporal_lineage_capacity =
     (if tenure_nonce_capacity = 0 then Inl ZeroTenureNonceCapacity
      else if request_nonce_capacity = 0 then Inl ZeroRequestNonceCapacity
      else if temporal_lineage_capacity = 0 then Inl ZeroTemporalLineageCapacity
      else Inr \<lparr>al_tenure_nonce_capacity = tenure_nonce_capacity,
                al_request_nonce_capacity = request_nonce_capacity,
                al_temporal_lineage_capacity = temporal_lineage_capacity\<rparr>)"

text \<open>The two loops of \<open>try_new\<close>: a selector inserted twice is an error.\<close>

fun collect_trust ::
  "('k::linorder \<times> 'v) list \<Rightarrow> ('k, 'v) btree_map \<Rightarrow> AdmissionConfigurationError \<Rightarrow>
   AdmissionConfigurationError + ('k, 'v) btree_map" where
  "collect_trust [] m duplicate = Inr m"
| "collect_trust ((k, v) # rest) m duplicate =
     (if btree_has m k then Inl duplicate else collect_trust rest (btree_insert k v m) duplicate)"

definition tenure_entry :: "TrustedTenureKey \<Rightarrow> TenureTrustSelector \<times> TrustedTenureBinding" where
  "tenure_entry trusted =
     (tk_selector trusted,
      \<lparr>tb_authority_principal = tk_authority_principal trusted,
       tb_authority_uid = tk_authority_uid trusted, tb_authority_gid = tk_authority_gid trusted,
       tb_verifying_key = tk_verifying_key trusted\<rparr>)"

definition admission_policy_try_new ::
  "BoundedDuration \<Rightarrow> AdmissionStateLimits \<Rightarrow> TrustedTenureKey list \<Rightarrow> TrustedApplyKey list \<Rightarrow>
   AdmissionConfigurationError + ApplyAdmissionPolicy" where
  "admission_policy_try_new maximum_budget state_limits tenure_keys apply_keys =
     (if maximum_budget = 0 then Inl ZeroMaximumBudget
      else
      and_then (collect_trust (map tenure_entry tenure_keys) [] DuplicateTenureTrust) (\<lambda>trusted_tenure.
      if trusted_tenure = [] then Inl EmptyTenureTrust
      else
      and_then (collect_trust (map (\<lambda>trusted. (ak_selector trusted, ak_verifying_key trusted)) apply_keys)
                  [] DuplicateApplyTrust) (\<lambda>trusted_apply.
      if trusted_apply = [] then Inl EmptyApplyTrust
      else Inr \<lparr>po_maximum_budget = maximum_budget, po_state_limits = state_limits,
                po_tenure_keys = trusted_tenure, po_apply_keys = trusted_apply\<rparr>)))"

section \<open>State and outcomes\<close>

record TemporalLedgerEntry =
  le_source_scope :: SourceScopeRef
  le_target :: RuntimeHostId
  le_original_budget :: BoundedDuration
  le_remaining_budget :: BoundedDuration
  le_deadline :: MonotonicDeadline

record AdmissionState =
  ss_tenure_nonces :: "(TenureNonceKey, Digest32) btree_map"
  ss_request_nonces :: "(RequestNonceKey, Digest32) btree_map"
  ss_temporal :: "(TemporalConstraintId, TemporalLedgerEntry) btree_map"

definition for_new_boundary :: AdmissionState where
  "for_new_boundary = \<lparr>ss_tenure_nonces = [], ss_request_nonces = [], ss_temporal = []\<rparr>"

datatype AdmissionDisposition = Fresh | Replayed

record AdmissionTransition =
  xt_next_state :: AdmissionState
  xt_admitted :: AdmittedApply
  xt_disposition :: AdmissionDisposition

datatype AdmissionError =
    AdmWire WireError
  | AdmContract ApplyContractError
  | AdmEnvelope EnvelopeContractError
  | AdmDigest DigestBuildError
  | AdmTenureProof TenureProofError
  | UntrustedTenureKey
  | UntrustedApplyKey
  | InvalidTenureSignatureLength
  | InvalidRequestSignatureLength
  | InvalidTenureSignature
  | InvalidRequestSignature
  | TenureNonceConflict
  | RequestNonceConflict
  | AdmissionStateInconsistent
  | TenureNonceCapacityExceeded
  | RequestNonceCapacityExceeded
  | TemporalLineageCapacityExceeded
  | TemporalLineageConflict
  | AdmClockDomainMismatch
  | AdmClockGenerationMismatch
  | BudgetExceedsPolicy
  | BudgetExpired
  | BudgetExtended
  | AdmDeadlineOverflow

section \<open>Checks\<close>

definition parse_signature :: "bytes \<Rightarrow> AdmissionError \<Rightarrow> AdmissionError + bytes64" where
  "parse_signature signature invalid_length =
     (if length signature \<noteq> ED25519_SIGNATURE_BYTES then Inl invalid_length else Inr (from_be signature))"

definition ensure_nonce_consistent ::
  "('k, Digest32) btree_map \<Rightarrow> 'k \<Rightarrow> Digest32 \<Rightarrow> AdmissionError \<Rightarrow> AdmissionError + unit" where
  "ensure_nonce_consistent ledger key digest conflict =
     (case btree_get ledger key of
        Some existing \<Rightarrow> if existing \<noteq> digest then Inl conflict else Inr ()
      | None \<Rightarrow> Inr ())"

definition ensure_ledger_capacity ::
  "('k, 'v) btree_map \<Rightarrow> 'k \<Rightarrow> usize \<Rightarrow> AdmissionError \<Rightarrow> AdmissionError + unit" where
  "ensure_ledger_capacity ledger key capacity capacity_exceeded =
     (if \<not> btree_has ledger key \<and> length ledger \<ge> unat capacity then Inl capacity_exceeded else Inr ())"

definition earlier_deadline :: "MonotonicDeadline \<Rightarrow> MonotonicDeadline \<Rightarrow> MonotonicDeadline" where
  "earlier_deadline first second =
     (if dl_deadline first \<le> dl_deadline second then first else second)"

fun map_deadline_error :: "TimeError \<Rightarrow> AdmissionError" where
  "map_deadline_error ClockDomainMismatch = AdmClockDomainMismatch"
| "map_deadline_error ClockGenerationMismatch = AdmClockGenerationMismatch"
| "map_deadline_error DeadlineOverflow = AdmDeadlineOverflow"
| "map_deadline_error InvalidClockGeneration = AdmClockGenerationMismatch"

definition install_temporal ::
  "ApplyTemporalConstraint \<Rightarrow> SourceScopeRef \<Rightarrow> RuntimeHostId \<Rightarrow> TemporalLedgerEntry option \<Rightarrow>
   ClockReading \<Rightarrow> BoundedDuration \<Rightarrow> bool \<Rightarrow> AdmissionError + TemporalLedgerEntry" where
  "install_temporal temporal source_scope target existing reading maximum_budget exact_replay =
     (let install = (\<lambda>previous_deadline.
        and_then (map_err map_deadline_error (try_deadline_after reading (tc_remaining_budget temporal)))
          (\<lambda>candidate_deadline.
        let deadline = (case previous_deadline of
              Some previous \<Rightarrow> earlier_deadline previous candidate_deadline
            | None \<Rightarrow> candidate_deadline)
        in Inr \<lparr>le_source_scope = source_scope, le_target = target,
                le_original_budget = tc_original_budget temporal,
                le_remaining_budget = tc_remaining_budget temporal, le_deadline = deadline\<rparr>))
      in
      if tc_target_clock_domain temporal \<noteq> rd_domain reading then Inl AdmClockDomainMismatch
      else if tc_target_clock_generation temporal \<noteq> rd_generation reading then Inl AdmClockGenerationMismatch
      else if tc_original_budget temporal > maximum_budget then Inl BudgetExceedsPolicy
      else if tc_remaining_budget temporal = 0 then Inl BudgetExpired
      else case existing of
        Some previous \<Rightarrow>
          if le_source_scope previous \<noteq> source_scope \<or> le_target previous \<noteq> target
             \<or> le_original_budget previous \<noteq> tc_original_budget temporal
             \<or> dl_domain (le_deadline previous) \<noteq> tc_target_clock_domain temporal
             \<or> dl_generation (le_deadline previous) \<noteq> tc_target_clock_generation temporal
          then Inl TemporalLineageConflict
          else if exact_replay \<and> le_remaining_budget previous > tc_remaining_budget temporal
          then Inl AdmissionStateInconsistent
          else if exact_replay then Inr previous
          else if tc_remaining_budget temporal > le_remaining_budget previous then Inl BudgetExtended
          else and_then (map_err map_deadline_error (is_expired_at (le_deadline previous) reading))
                 (\<lambda>expired. if expired then Inl BudgetExpired else install (Some (le_deadline previous)))
      | None \<Rightarrow> if exact_replay then Inl AdmissionStateInconsistent else install None)"

section \<open>The transition\<close>

text \<open>The selectors and keys the transition builds from an envelope.\<close>

definition tenure_selector_of :: "RuntimeApplyEnvelope \<Rightarrow> TenureTrustSelector" where
  "tenure_selector_of e =
     (let payload = en_control_commitment e;
          authority = tp_authority (wc_proof (ac_writer_context (cc_control payload)))
      in TenureTrustSelector (slice_scope (cc_slice payload)) (pa_authority authority) (pa_key authority)
           (pa_algorithm authority) (pa_algorithm_version authority))"

definition apply_selector_of :: "RuntimeApplyEnvelope \<Rightarrow> ApplyTrustSelector" where
  "apply_selector_of e =
     (let payload = en_control_commitment e; auth_claim = ra_claim (en_authentication e)
      in ApplyTrustSelector (slice_scope (cc_slice payload)) (slice_target (cc_slice payload))
           (rc_principal auth_claim) (wc_writer (ac_writer_context (cc_control payload))) (rc_key auth_claim)
           (rc_algorithm auth_claim) (rc_algorithm_version auth_claim))"

definition tenure_nonce_key_of :: "RuntimeApplyEnvelope \<Rightarrow> TenureNonceKey" where
  "tenure_nonce_key_of e =
     (let payload = en_control_commitment e;
          tenure = wc_proof (ac_writer_context (cc_control payload)); authority = tp_authority tenure
      in TenureNonceKey (slice_scope (cc_slice payload)) (pa_authority authority) (pa_key authority)
           (pa_algorithm authority) (pa_algorithm_version authority) (tp_nonce tenure))"

definition request_nonce_key_of :: "RuntimeApplyEnvelope \<Rightarrow> RequestNonceKey" where
  "request_nonce_key_of e =
     (let payload = en_control_commitment e; auth_claim = ra_claim (en_authentication e)
      in RequestNonceKey (slice_scope (cc_slice payload)) (slice_target (cc_slice payload))
           (rc_principal auth_claim) (wc_writer (ac_writer_context (cc_control payload))) (rc_key auth_claim)
           (rc_algorithm auth_claim) (rc_algorithm_version auth_claim) (rc_nonce auth_claim))"

definition verified_tenure :: "RuntimeApplyEnvelope \<Rightarrow> Digest32 \<Rightarrow> VerifiedWriterTenure" where
  "verified_tenure e proof_envelope_digest =
     (let writer_context = ac_writer_context (cc_control (en_control_commitment e));
          proof_claim = tp_claim (wc_proof writer_context)
      in \<lparr>vt_source_scope = wt_source_scope proof_claim, vt_writer = wc_writer writer_context,
          vt_epoch = wc_epoch writer_context,
          vt_supersedes_through_epoch = wt_supersedes_through_epoch proof_claim,
          vt_proof_envelope_digest = proof_envelope_digest,
          vt_principal = rc_principal (ra_claim (en_authentication e))\<rparr>)"

text \<open>The first half of \<open>admit_envelope\<close>: trust and both signatures.\<close>

definition authenticate_envelope ::
  "Externals \<Rightarrow> ApplyAdmissionPolicy \<Rightarrow> RuntimeApplyEnvelope \<Rightarrow> AdmissionError + unit" where
  "authenticate_envelope X policy envelope =
     (let tenure = wc_proof (ac_writer_context (cc_control (en_control_commitment envelope))) in
      and_then (ok_or (btree_get (po_tenure_keys policy) (tenure_selector_of envelope)) UntrustedTenureKey)
        (\<lambda>tenure_key.
      and_then (ok_or (btree_get (po_apply_keys policy) (apply_selector_of envelope)) UntrustedApplyKey)
        (\<lambda>apply_key.
      and_then (parse_signature (tp_signature tenure) InvalidTenureSignatureLength) (\<lambda>tenure_signature.
      and_then (map_err AdmTenureProof (signing_transcript tenure)) (\<lambda>tenure_transcript.
      if \<not> ex_verify_strict X (tb_verifying_key tenure_key) tenure_transcript tenure_signature
      then Inl InvalidTenureSignature
      else
      and_then (parse_signature (ra_signature (en_authentication envelope)) InvalidRequestSignatureLength)
        (\<lambda>request_signature.
      and_then (map_err AdmEnvelope (envelope_signing_transcript (ex_sha256 X) envelope))
        (\<lambda>request_transcript.
      if \<not> ex_verify_strict X apply_key request_transcript request_signature
      then Inl InvalidRequestSignature else Inr ())))))))"

definition disposition_of ::
  "(RequestNonceKey, Digest32) btree_map \<Rightarrow> RequestNonceKey \<Rightarrow> Digest32 \<Rightarrow> AdmissionError + AdmissionDisposition" where
  "disposition_of ledger key digest =
     (case btree_get ledger key of
        None \<Rightarrow> Inr Fresh
      | Some existing \<Rightarrow> if existing = digest then Inr Replayed else Inl RequestNonceConflict)"

definition admit_envelope ::
  "Externals \<Rightarrow> ApplyAdmissionPolicy \<Rightarrow> RuntimeApplyEnvelope \<Rightarrow> AdmissionState \<Rightarrow> ClockReading \<Rightarrow>
   AdmissionError + AdmissionTransition" where
  "admit_envelope X policy envelope state reading =
     (let payload = en_control_commitment envelope; slc = cc_slice payload;
          tenure = wc_proof (ac_writer_context (cc_control payload));
          tenure_nonce_key = tenure_nonce_key_of envelope;
          request_nonce_key = request_nonce_key_of envelope;
          request_digest = en_request_digest envelope;
          temporal_id = tc_constraint_id (en_temporal envelope);
          limits = po_state_limits policy
      in
      and_then (map_err AdmContract (control_commitment_validate (ex_sha256 X) payload)) (\<lambda>_.
      and_then (authenticate_envelope X policy envelope) (\<lambda>_.
      and_then (map_err AdmDigest (envelope_digest (ex_sha256 X) tenure)) (\<lambda>proof_envelope_digest.
      and_then (ensure_nonce_consistent (ss_tenure_nonces state) tenure_nonce_key proof_envelope_digest
                  TenureNonceConflict) (\<lambda>_.
      and_then (disposition_of (ss_request_nonces state) request_nonce_key request_digest) (\<lambda>disposition.
      if disposition = Replayed \<and> (\<not> btree_has (ss_tenure_nonces state) tenure_nonce_key
           \<or> \<not> btree_has (ss_temporal state) temporal_id)
      then Inl AdmissionStateInconsistent
      else
      and_then (install_temporal (en_temporal envelope) (slice_scope slc) (slice_target slc)
                  (btree_get (ss_temporal state) temporal_id) reading (po_maximum_budget policy)
                  (disposition = Replayed)) (\<lambda>temporal_entry.
      and_then (ensure_ledger_capacity (ss_tenure_nonces state) tenure_nonce_key
                  (al_tenure_nonce_capacity limits) TenureNonceCapacityExceeded) (\<lambda>_.
      and_then (ensure_ledger_capacity (ss_request_nonces state) request_nonce_key
                  (al_request_nonce_capacity limits) RequestNonceCapacityExceeded) (\<lambda>_.
      and_then (ensure_ledger_capacity (ss_temporal state) temporal_id
                  (al_temporal_lineage_capacity limits) TemporalLineageCapacityExceeded) (\<lambda>_.
      Inr \<lparr>xt_next_state =
             \<lparr>ss_tenure_nonces = btree_insert tenure_nonce_key proof_envelope_digest (ss_tenure_nonces state),
              ss_request_nonces = btree_insert request_nonce_key request_digest (ss_request_nonces state),
              ss_temporal = btree_insert temporal_id temporal_entry (ss_temporal state)\<rparr>,
           xt_admitted =
             \<lparr>ad_payload = payload, ad_tenure = verified_tenure envelope proof_envelope_digest,
              ad_request_digest = request_digest, ad_deadline = le_deadline temporal_entry,
              ad_exact_replay = (disposition = Replayed)\<rparr>,
           xt_disposition = disposition\<rparr>))))))))))"

section \<open>Complete requests\<close>

record RuntimeRequestAdmissionTransition =
  rq_admission :: AdmissionTransition
  rq_slice :: RuntimePlanSlice

datatype RuntimeRequestAdmissionError =
    ReqRequestWire RequestWireError
  | ReqAdmission AdmissionError

definition admit_request ::
  "Externals \<Rightarrow> ApplyAdmissionPolicy \<Rightarrow> bytes \<Rightarrow> AdmissionState \<Rightarrow> ClockReading \<Rightarrow>
   RuntimeRequestAdmissionError + RuntimeRequestAdmissionTransition" where
  "admit_request X policy frame state reading =
     and_then (map_err ReqRequestWire (decode_runtime_apply_request (ex_sha256 X) frame)) (\<lambda>request.
     and_then (map_err ReqAdmission (admit_envelope X policy (rr_envelope request) state reading)) (\<lambda>admission.
     Inr \<lparr>rq_admission = admission, rq_slice = rr_slice request\<rparr>))"

end
