(* ===== verification/Admission_Ledger.thy ===== *)
theory Admission_Ledger
  imports Admission State_Machine
begin

text \<open>
  The ledgers of admission along whole runs: what the checks establish, the invariant that relates
  the three maps to the requests that were admitted, and that every admission keeps it.
\<close>

section \<open>What a successful admission establishes\<close>

lemmas outcome_simps = and_then_eq_Inr guard_eq_Inr map_err_eq_Inr ok_or_eq_Inr

lemma ensure_nonce_consistent_ok:
  "ensure_nonce_consistent m k d err = Inr u \<longleftrightarrow> btree_get m k \<in> {None, Some d}"
  by (auto simp: ensure_nonce_consistent_def split: option.splits)

lemma ensure_ledger_capacity_ok:
  "ensure_ledger_capacity m k c err = Inr u \<longleftrightarrow> (btree_has m k \<or> length m < unat c)"
  by (auto simp: ensure_ledger_capacity_def)

lemma disposition_of_ok:
  "disposition_of m k d = Inr disp \<longleftrightarrow>
     (btree_get m k = None \<and> disp = Fresh) \<or> (btree_get m k = Some d \<and> disp = Replayed)"
  by (auto simp: disposition_of_def split: option.splits)

lemma capacity_kept:
  assumes "btree_ok m" "length m \<le> unat c" "ensure_ledger_capacity m k c err = Inr ()"
  shows "length (btree_insert k v m) \<le> unat c"
  using assms by (auto simp: ensure_ledger_capacity_ok length_btree_insert)

abbreviation proof_digest_of :: "Externals \<Rightarrow> RuntimeApplyEnvelope \<Rightarrow> Digest32" where
  "proof_digest_of X e \<equiv> ex_sha256 X (envelope_stream (envelope_tenure e))"

abbreviation lineage_of :: "RuntimeApplyEnvelope \<Rightarrow> TemporalConstraintId" where
  "lineage_of e \<equiv> tc_constraint_id (en_temporal e)"

abbreviation envelope_scope :: "RuntimeApplyEnvelope \<Rightarrow> SourceScopeRef" where
  "envelope_scope e \<equiv> slice_scope (cc_slice (en_control_commitment e))"

abbreviation envelope_target :: "RuntimeApplyEnvelope \<Rightarrow> RuntimeHostId" where
  "envelope_target e \<equiv> slice_target (cc_slice (en_control_commitment e))"

lemma envelope_ok_digest:
  "envelope_ok sha256 e \<Longrightarrow> envelope_digest sha256 (envelope_tenure e) = Inr (sha256 (envelope_stream (envelope_tenure e)))"
  by (rule envelope_digest_eq) (simp add: envelope_ok_def proof_ok_def)

lemma envelope_ok_validates:
  "envelope_ok sha256 e \<Longrightarrow> control_commitment_validate sha256 (en_control_commitment e) = Inr ()"
  by (rule envelope_ok_wire)

text \<open>The entry a lineage holds after an envelope of that lineage was admitted.\<close>

definition entry_covers :: "TemporalLedgerEntry \<Rightarrow> RuntimeApplyEnvelope \<Rightarrow> bool" where
  "entry_covers entry e \<longleftrightarrow>
     le_source_scope entry = envelope_scope e \<and> le_target entry = envelope_target e \<and>
     le_original_budget entry = tc_original_budget (en_temporal e) \<and>
     dl_domain (le_deadline entry) = tc_target_clock_domain (en_temporal e) \<and>
     dl_generation (le_deadline entry) = tc_target_clock_generation (en_temporal e) \<and>
     le_remaining_budget entry \<le> tc_remaining_budget (en_temporal e)"

lemma earlier_deadline_le:
  "dl_deadline (earlier_deadline a b) \<le> dl_deadline a" "dl_deadline (earlier_deadline a b) \<le> dl_deadline b"
  by (auto simp: earlier_deadline_def)

lemma install_temporal_cases:
  assumes "install_temporal temporal scope target existing reading maximum replay = Inr entry"
  obtains (replay) "replay" "existing = Some entry"
      "le_source_scope entry = scope" "le_target entry = target"
      "le_original_budget entry = tc_original_budget temporal"
      "dl_domain (le_deadline entry) = tc_target_clock_domain temporal"
      "dl_generation (le_deadline entry) = tc_target_clock_generation temporal"
      "le_remaining_budget entry \<le> tc_remaining_budget temporal"
  | (fresh) candidate where "\<not> replay" "existing = None"
      "try_deadline_after reading (tc_remaining_budget temporal) = Inr candidate"
      "entry = \<lparr>le_source_scope = scope, le_target = target, le_original_budget = tc_original_budget temporal,
         le_remaining_budget = tc_remaining_budget temporal, le_deadline = candidate\<rparr>"
  | (attenuated) candidate previous where "\<not> replay" "existing = Some previous"
      "try_deadline_after reading (tc_remaining_budget temporal) = Inr candidate"
      "le_source_scope previous = scope" "le_target previous = target"
      "le_original_budget previous = tc_original_budget temporal"
      "dl_domain (le_deadline previous) = tc_target_clock_domain temporal"
      "dl_generation (le_deadline previous) = tc_target_clock_generation temporal"
      "tc_remaining_budget temporal \<le> le_remaining_budget previous"
      "rd_now reading < dl_deadline (le_deadline previous)"
      "entry = \<lparr>le_source_scope = scope, le_target = target, le_original_budget = tc_original_budget temporal,
         le_remaining_budget = tc_remaining_budget temporal, le_deadline = earlier_deadline (le_deadline previous) candidate\<rparr>"
proof (cases existing)
  case None
  then show thesis
    using assms fresh by (auto simp: install_temporal_def Let_def outcome_simps split: if_splits)
next
  case (Some previous)
  then show thesis
    using assms replay attenuated
    by (cases replay) (auto simp: install_temporal_def Let_def outcome_simps is_expired_at_ok not_less not_le split: if_splits)
qed

lemma install_temporal_checks:
  assumes "install_temporal temporal scope target existing reading maximum replay = Inr entry"
  shows "rd_domain reading = tc_target_clock_domain temporal"
    "rd_generation reading = tc_target_clock_generation temporal"
    "tc_original_budget temporal \<le> maximum" "tc_remaining_budget temporal \<noteq> 0"
  using assms by (simp_all add: install_temporal_def Let_def split: if_splits)

text \<open>A lineage keeps its route, its clock and its original budget; its remaining budget and its
deadline only shrink.\<close>

definition entry_extends :: "TemporalLedgerEntry \<Rightarrow> TemporalLedgerEntry \<Rightarrow> bool" where
  "entry_extends previous entry \<longleftrightarrow>
     le_source_scope entry = le_source_scope previous \<and> le_target entry = le_target previous \<and>
     le_original_budget entry = le_original_budget previous \<and>
     dl_domain (le_deadline entry) = dl_domain (le_deadline previous) \<and>
     dl_generation (le_deadline entry) = dl_generation (le_deadline previous) \<and>
     le_remaining_budget entry \<le> le_remaining_budget previous \<and>
     dl_deadline (le_deadline entry) \<le> dl_deadline (le_deadline previous)"

lemma entry_covers_extends: "entry_covers previous e \<Longrightarrow> entry_extends previous entry \<Longrightarrow> entry_covers entry e"
  by (auto simp: entry_covers_def entry_extends_def)

lemma install_temporal_entry:
  assumes "install_temporal (en_temporal e) (envelope_scope e) (envelope_target e) existing reading maximum replay = Inr entry"
  shows "entry_covers entry e" "existing = Some previous \<Longrightarrow> entry_extends previous entry"
    "\<not> replay \<Longrightarrow> unat (dl_deadline (le_deadline entry)) \<le> unat (rd_now reading) + unat (tc_remaining_budget (en_temporal e))"
    "\<not> replay \<Longrightarrow> le_remaining_budget entry = tc_remaining_budget (en_temporal e)"
proof -
  note clock = install_temporal_checks(1,2) [OF assms]
  have "entry_covers entry e \<and> (\<forall>previous. existing = Some previous \<longrightarrow> entry_extends previous entry) \<and>
    (\<not> replay \<longrightarrow> unat (dl_deadline (le_deadline entry)) \<le> unat (rd_now reading) + unat (tc_remaining_budget (en_temporal e)) \<and>
      le_remaining_budget entry = tc_remaining_budget (en_temporal e))"
    using assms
  proof (cases rule: install_temporal_cases)
    case replay
    then show ?thesis by (simp add: entry_covers_def entry_extends_def)
  next
    case (fresh candidate)
    then show ?thesis using clock by (simp add: entry_covers_def try_deadline_after_ok same_clock_def)
  next
    case (attenuated candidate previous)
    let ?d = "earlier_deadline (le_deadline previous) candidate"
    have at: "unat (dl_deadline candidate) = unat (rd_now reading) + unat (tc_remaining_budget (en_temporal e))"
      and same: "dl_domain candidate = dl_domain (le_deadline previous)" "dl_generation candidate = dl_generation (le_deadline previous)"
      using attenuated(3,7,8) clock by (auto simp: try_deadline_after_ok same_clock_def)
    have d: "dl_domain ?d = dl_domain (le_deadline previous)" "dl_generation ?d = dl_generation (le_deadline previous)"
      using same by (auto simp: earlier_deadline_def)
    have "unat (dl_deadline ?d) \<le> unat (rd_now reading) + unat (tc_remaining_budget (en_temporal e))"
      using earlier_deadline_le(2) [of "le_deadline previous" candidate] at by (simp add: word_le_nat_alt)
    with attenuated d show ?thesis
      by (simp add: entry_covers_def entry_extends_def earlier_deadline_le)
  qed
  then show "entry_covers entry e" "existing = Some previous \<Longrightarrow> entry_extends previous entry"
    "\<not> replay \<Longrightarrow> unat (dl_deadline (le_deadline entry)) \<le> unat (rd_now reading) + unat (tc_remaining_budget (en_temporal e))"
    "\<not> replay \<Longrightarrow> le_remaining_budget entry = tc_remaining_budget (en_temporal e)"
    by simp_all
qed

lemma install_temporal_replay:
  assumes "entry_covers entry e" "rd_domain reading = tc_target_clock_domain (en_temporal e)"
    "rd_generation reading = tc_target_clock_generation (en_temporal e)"
    "tc_original_budget (en_temporal e) \<le> maximum" "tc_remaining_budget (en_temporal e) \<noteq> 0"
  shows "install_temporal (en_temporal e) (envelope_scope e) (envelope_target e) (Some entry) reading maximum True = Inr entry"
  using assms by (auto simp: install_temporal_def entry_covers_def not_less)

text \<open>A well-formed envelope is admitted exactly as follows.\<close>

definition admission_outcome ::
  "Externals \<Rightarrow> RuntimeApplyEnvelope \<Rightarrow> AdmissionState \<Rightarrow> AdmissionDisposition \<Rightarrow> TemporalLedgerEntry \<Rightarrow> AdmissionTransition" where
  "admission_outcome X e s disp entry =
     \<lparr>xt_next_state =
        \<lparr>ss_tenure_nonces = btree_insert (tenure_nonce_key_of e) (proof_digest_of X e) (ss_tenure_nonces s),
         ss_request_nonces = btree_insert (request_nonce_key_of e) (en_request_digest e) (ss_request_nonces s),
         ss_temporal = btree_insert (lineage_of e) entry (ss_temporal s)\<rparr>,
      xt_admitted =
        \<lparr>ad_payload = en_control_commitment e, ad_tenure = verified_tenure e (proof_digest_of X e),
         ad_request_digest = en_request_digest e, ad_deadline = le_deadline entry,
         ad_exact_replay = (disp = Replayed)\<rparr>,
      xt_disposition = disp\<rparr>"

lemma admit_envelope_ok:
  assumes "envelope_ok (ex_sha256 X) e" "admit_envelope X policy e s reading = Inr t"
  obtains disp entry where
    "authenticate_envelope X policy e = Inr ()"
    "btree_get (ss_tenure_nonces s) (tenure_nonce_key_of e) \<in> {None, Some (proof_digest_of X e)}"
    "disposition_of (ss_request_nonces s) (request_nonce_key_of e) (en_request_digest e) = Inr disp"
    "disp = Replayed \<longrightarrow> btree_has (ss_tenure_nonces s) (tenure_nonce_key_of e)"
    "install_temporal (en_temporal e) (envelope_scope e) (envelope_target e)
       (btree_get (ss_temporal s) (lineage_of e)) reading (po_maximum_budget policy) (disp = Replayed) = Inr entry"
    "ensure_ledger_capacity (ss_tenure_nonces s) (tenure_nonce_key_of e)
       (al_tenure_nonce_capacity (po_state_limits policy)) TenureNonceCapacityExceeded = Inr ()"
    "ensure_ledger_capacity (ss_request_nonces s) (request_nonce_key_of e)
       (al_request_nonce_capacity (po_state_limits policy)) RequestNonceCapacityExceeded = Inr ()"
    "ensure_ledger_capacity (ss_temporal s) (lineage_of e)
       (al_temporal_lineage_capacity (po_state_limits policy)) TemporalLineageCapacityExceeded = Inr ()"
    "t = admission_outcome X e s disp entry"
  using assms(2) that
  unfolding admit_envelope_def Let_def envelope_ok_digest [OF assms(1)] outcome_simps ensure_nonce_consistent_ok
  by (auto simp: outcome_simps admission_outcome_def)

section \<open>Runs\<close>

text \<open>A run admits decoded envelopes one after the other, at any readings; a refused envelope, or
one whose candidate state the caller drops, leaves the state as it is. The log records what was
admitted, the latest first.\<close>

record admission_sys =
  ay_state :: AdmissionState
  ay_log :: "(RuntimeApplyEnvelope \<times> AdmissionTransition) list"

definition admission_init :: "admission_sys \<Rightarrow> bool" where
  "admission_init y \<longleftrightarrow> y = \<lparr>ay_state = for_new_boundary, ay_log = []\<rparr>"

inductive admission_step :: "Externals \<Rightarrow> ApplyAdmissionPolicy \<Rightarrow> admission_sys \<Rightarrow> admission_sys \<Rightarrow> bool"
  for X policy where
  admit: "envelope_ok (ex_sha256 X) e \<Longrightarrow> admit_envelope X policy e (ay_state y) reading = Inr t \<Longrightarrow>
     admission_step X policy y \<lparr>ay_state = xt_next_state t, ay_log = (e, t) # ay_log y\<rparr>"

inductive_cases admission_stepE: "admission_step X policy y z"

section \<open>The invariant\<close>

definition remembered :: "Externals \<Rightarrow> AdmissionState \<Rightarrow> RuntimeApplyEnvelope \<Rightarrow> AdmissionTransition \<Rightarrow> bool" where
  "remembered X s e t \<longleftrightarrow>
     btree_get (ss_request_nonces s) (request_nonce_key_of e) = Some (en_request_digest e) \<and>
     btree_get (ss_tenure_nonces s) (tenure_nonce_key_of e) = Some (proof_digest_of X e) \<and>
     (\<exists>entry. btree_get (ss_temporal s) (lineage_of e) = Some entry \<and> entry_covers entry e \<and>
        dl_deadline (le_deadline entry) \<le> dl_deadline (ad_deadline (xt_admitted t)))"

definition admissible_under :: "Externals \<Rightarrow> ApplyAdmissionPolicy \<Rightarrow> RuntimeApplyEnvelope \<Rightarrow> AdmissionTransition \<Rightarrow> bool" where
  "admissible_under X policy e t \<longleftrightarrow>
     envelope_ok (ex_sha256 X) e \<and> authenticate_envelope X policy e = Inr () \<and>
     tc_original_budget (en_temporal e) \<le> po_maximum_budget policy \<and> tc_remaining_budget (en_temporal e) \<noteq> 0 \<and>
     ad_payload (xt_admitted t) = en_control_commitment e \<and>
     ad_tenure (xt_admitted t) = verified_tenure e (proof_digest_of X e) \<and>
     ad_request_digest (xt_admitted t) = en_request_digest e"

definition ledgers_ok :: "AdmissionStateLimits \<Rightarrow> AdmissionState \<Rightarrow> bool" where
  "ledgers_ok limits s \<longleftrightarrow>
     btree_ok (ss_tenure_nonces s) \<and> length (ss_tenure_nonces s) \<le> unat (al_tenure_nonce_capacity limits) \<and>
     btree_ok (ss_request_nonces s) \<and> length (ss_request_nonces s) \<le> unat (al_request_nonce_capacity limits) \<and>
     btree_ok (ss_temporal s) \<and> length (ss_temporal s) \<le> unat (al_temporal_lineage_capacity limits)"

definition ledgers_sound :: "Externals \<Rightarrow> admission_sys \<Rightarrow> bool" where
  "ledgers_sound X y \<longleftrightarrow>
     (\<forall>k d. btree_get (ss_request_nonces (ay_state y)) k = Some d \<longrightarrow>
        (\<exists>(e, t) \<in> set (ay_log y). k = request_nonce_key_of e \<and> d = en_request_digest e)) \<and>
     (\<forall>k d. btree_get (ss_tenure_nonces (ay_state y)) k = Some d \<longrightarrow>
        (\<exists>(e, t) \<in> set (ay_log y). k = tenure_nonce_key_of e \<and> d = proof_digest_of X e)) \<and>
     (\<forall>k entry. btree_get (ss_temporal (ay_state y)) k = Some entry \<longrightarrow>
        (\<exists>(e, t) \<in> set (ay_log y). k = lineage_of e))"

definition admission_inv :: "Externals \<Rightarrow> ApplyAdmissionPolicy \<Rightarrow> admission_sys \<Rightarrow> bool" where
  "admission_inv X policy y \<longleftrightarrow>
     ledgers_ok (po_state_limits policy) (ay_state y) \<and> ledgers_sound X y \<and>
     (\<forall>(e, t) \<in> set (ay_log y). admissible_under X policy e t \<and> remembered X (ay_state y) e t)"

lemma admit_keeps_ledgers:
  assumes "ledgers_ok (po_state_limits policy) s" "envelope_ok (ex_sha256 X) e"
    "admit_envelope X policy e s reading = Inr t"
  shows "ledgers_ok (po_state_limits policy) (xt_next_state t)"
  using assms(2,3)
proof (rule admit_envelope_ok)
qed (use assms(1) in \<open>auto simp: admission_outcome_def ledgers_ok_def btree_ok_insert intro: capacity_kept\<close>)

lemma admit_remembers:
  assumes "ledgers_ok (po_state_limits policy) s" "envelope_ok (ex_sha256 X) e"
    "admit_envelope X policy e s reading = Inr t"
  shows "remembered X (xt_next_state t) e t \<and> admissible_under X policy e t"
  using assms(2,3)
proof (rule admit_envelope_ok)
  fix disp entry
  assume a: "authenticate_envelope X policy e = Inr ()"
    and i: "install_temporal (en_temporal e) (envelope_scope e) (envelope_target e)
       (btree_get (ss_temporal s) (lineage_of e)) reading (po_maximum_budget policy) (disp = Replayed) = Inr entry"
    and t: "t = admission_outcome X e s disp entry"
  show ?thesis
    using assms(1,2) a install_temporal_entry(1) [OF i] install_temporal_checks [OF i] unfolding t
    by (simp add: admission_outcome_def remembered_def admissible_under_def ledgers_ok_def btree_get_insert)
qed

lemma admit_keeps_remembered:
  assumes "ledgers_ok (po_state_limits policy) s" "envelope_ok (ex_sha256 X) e"
    "admit_envelope X policy e s reading = Inr t" "remembered X s e' t'"
  shows "remembered X (xt_next_state t) e' t'"
  using assms(2,3)
proof (rule admit_envelope_ok)
  fix disp entry
  assume tn: "btree_get (ss_tenure_nonces s) (tenure_nonce_key_of e) \<in> {None, Some (proof_digest_of X e)}"
    and rn: "disposition_of (ss_request_nonces s) (request_nonce_key_of e) (en_request_digest e) = Inr disp"
    and i: "install_temporal (en_temporal e) (envelope_scope e) (envelope_target e)
       (btree_get (ss_temporal s) (lineage_of e)) reading (po_maximum_budget policy) (disp = Replayed) = Inr entry"
    and t: "t = admission_outcome X e s disp entry"
  obtain previous where p: "btree_get (ss_temporal s) (lineage_of e') = Some previous" "entry_covers previous e'"
    "dl_deadline (le_deadline previous) \<le> dl_deadline (ad_deadline (xt_admitted t'))"
    using assms(4) by (auto simp: remembered_def)
  have "entry_extends previous entry" if "lineage_of e' = lineage_of e"
    using install_temporal_entry(2) [OF i, of previous] p(1) that by simp
  then have "entry_covers entry e' \<and> dl_deadline (le_deadline entry) \<le> dl_deadline (ad_deadline (xt_admitted t'))"
    if "lineage_of e' = lineage_of e"
    using that p(2,3) entry_covers_extends by (auto simp: entry_extends_def)
  moreover have "btree_get (ss_request_nonces s) (request_nonce_key_of e) \<in> {None, Some (en_request_digest e)}"
    using rn by (auto simp: disposition_of_ok)
  ultimately show ?thesis
    using assms(1,4) tn p unfolding t
    by (auto simp: admission_outcome_def remembered_def ledgers_ok_def btree_get_insert)
qed

lemma admit_keeps_sound:
  assumes "ledgers_ok (po_state_limits policy) (ay_state y)" "ledgers_sound X y" "envelope_ok (ex_sha256 X) e"
    "admit_envelope X policy e (ay_state y) reading = Inr t"
  shows "ledgers_sound X \<lparr>ay_state = xt_next_state t, ay_log = (e, t) # ay_log y\<rparr>"
  using assms(3,4)
proof (rule admit_envelope_ok)
qed (use assms(1,2) in \<open>simp add: admission_outcome_def ledgers_sound_def ledgers_ok_def btree_get_insert\<close>)

lemma replay_keeps_state:
  assumes "ledgers_ok (po_state_limits policy) s" "envelope_ok (ex_sha256 X) e"
    "admit_envelope X policy e s reading = Inr t" "xt_disposition t = Replayed"
  shows "xt_next_state t = s"
  using assms(2,3)
proof (rule admit_envelope_ok)
  fix disp entry
  assume tn: "btree_get (ss_tenure_nonces s) (tenure_nonce_key_of e) \<in> {None, Some (proof_digest_of X e)}"
      "disp = Replayed \<longrightarrow> btree_has (ss_tenure_nonces s) (tenure_nonce_key_of e)"
    and rn: "disposition_of (ss_request_nonces s) (request_nonce_key_of e) (en_request_digest e) = Inr disp"
    and i: "install_temporal (en_temporal e) (envelope_scope e) (envelope_target e)
       (btree_get (ss_temporal s) (lineage_of e)) reading (po_maximum_budget policy) (disp = Replayed) = Inr entry"
    and t: "t = admission_outcome X e s disp entry"
  have replay: "disp = Replayed" using assms(4) by (simp add: t admission_outcome_def)
  have "btree_get (ss_temporal s) (lineage_of e) = Some entry"
    using i by (cases rule: install_temporal_cases) (simp_all add: replay)
  moreover have "btree_get (ss_tenure_nonces s) (tenure_nonce_key_of e) = Some (proof_digest_of X e)"
    using tn replay by auto
  moreover have "btree_get (ss_request_nonces s) (request_nonce_key_of e) = Some (en_request_digest e)"
    using rn replay by (simp add: disposition_of_ok)
  ultimately show ?thesis
    using assms(1) by (simp add: t admission_outcome_def ledgers_ok_def btree_insert_same)
qed

text \<open>The error for a torn ledger needs a known request whose other records are missing or newer.\<close>

lemma authenticate_not_inconsistent: "authenticate_envelope X policy e \<noteq> Inl AdmissionStateInconsistent"
  by (auto simp: authenticate_envelope_def Let_def and_then_eq_Inl map_err_eq_Inl ok_or_eq_Inl parse_signature_def
      split: if_splits)

lemma map_deadline_error_not_inconsistent [simp]:
  "map_deadline_error err \<noteq> AdmissionStateInconsistent" "AdmissionStateInconsistent \<noteq> map_deadline_error err"
  by (cases err; simp)+

lemma install_inconsistent:
  assumes "install_temporal temporal scope target existing reading maximum replay = Inl AdmissionStateInconsistent"
  shows "replay \<and> (case existing of None \<Rightarrow> True
    | Some entry \<Rightarrow> tc_remaining_budget temporal < le_remaining_budget entry)"
  using assms
  by (auto simp: install_temporal_def Let_def and_then_eq_Inl map_err_eq_Inl split: if_splits option.splits)

lemma inconsistent_cases:
  assumes "envelope_ok (ex_sha256 X) e" "admit_envelope X policy e s reading = Inl AdmissionStateInconsistent"
  shows "btree_get (ss_request_nonces s) (request_nonce_key_of e) = Some (en_request_digest e) \<and>
    (\<not> btree_has (ss_tenure_nonces s) (tenure_nonce_key_of e) \<or>
     (case btree_get (ss_temporal s) (lineage_of e) of None \<Rightarrow> True
      | Some entry \<Rightarrow> tc_remaining_budget (en_temporal e) < le_remaining_budget entry))"
proof -
  have "\<exists>disp. disposition_of (ss_request_nonces s) (request_nonce_key_of e) (en_request_digest e) = Inr disp \<and>
    (disp = Replayed \<and> (\<not> btree_has (ss_tenure_nonces s) (tenure_nonce_key_of e) \<or> \<not> btree_has (ss_temporal s) (lineage_of e)) \<or>
     install_temporal (en_temporal e) (envelope_scope e) (envelope_target e)
       (btree_get (ss_temporal s) (lineage_of e)) reading (po_maximum_budget policy) (disp = Replayed) = Inl AdmissionStateInconsistent)"
    using assms(2) authenticate_not_inconsistent [of X policy e]
    unfolding admit_envelope_def Let_def envelope_ok_validates [OF assms(1)] envelope_ok_digest [OF assms(1)]
    by (auto simp: and_then_eq_Inl map_err_eq_Inl ensure_nonce_consistent_def ensure_ledger_capacity_def disposition_of_def
        split: if_splits option.splits)
  then show ?thesis by (auto simp: disposition_of_ok dest: install_inconsistent split: option.splits)
qed

lemma admission_step_inv:
  assumes "admission_inv X policy y" "admission_step X policy y z"
  shows "admission_inv X policy z"
  using assms(2)
proof (rule admission_stepE)
  fix e reading t
  assume z: "z = \<lparr>ay_state = xt_next_state t, ay_log = (e, t) # ay_log y\<rparr>"
    and ok: "envelope_ok (ex_sha256 X) e" and t: "admit_envelope X policy e (ay_state y) reading = Inr t"
  have led: "ledgers_ok (po_state_limits policy) (ay_state y)" using assms(1) by (simp add: admission_inv_def)
  show ?thesis
    using assms(1) admit_keeps_ledgers [OF led ok t] admit_remembers [OF led ok t] admit_keeps_remembered [OF led ok t]
      admit_keeps_sound [OF led _ ok t]
    unfolding admission_inv_def z by auto
qed

lemma admission_init_inv: "admission_init y \<Longrightarrow> admission_inv X policy y"
  by (simp add: admission_init_def admission_inv_def ledgers_ok_def ledgers_sound_def for_new_boundary_def)

interpretation admission: state_machine admission_init "admission_step X policy" "admission_inv X policy" for X policy
  by unfold_locales (auto intro: admission_init_inv admission_step_inv)

end
