(* ===== verification/Admission_Properties.thy ===== *)
theory Admission_Properties
  imports Admission_Ledger
begin

text \<open>
  The properties of admission: exact replays are answered and change nothing, a nonce names one
  request, the deadline of a lineage is never extended, and what is admitted was signed.
\<close>

section \<open>Digests name envelopes\<close>

definition request_stream :: "RuntimeApplyEnvelope \<Rightarrow> bytes" where
  "request_stream e = digest_stream APPLY_ENVELOPE_REQUEST_DIGEST_DOMAIN [en_canonical_wire e]"

lemma envelope_wire_bounded:
  assumes "envelope_ok sha256 e"
  shows "length (en_canonical_wire e) \<le> 4096"
proof -
  obtain d where "en_canonical_wire e = envelope_format.encoding (envelope_field_list d e)"
    by (rule envelope_ok_wire [OF assms])
  with envelope_format.admissible_bounded [OF envelope_admissible [OF assms], of d] show ?thesis
    by (simp add: MAX_RUNTIME_APPLY_ENVELOPE_BYTES_def)
qed

lemma request_digestible:
  "length w \<le> 4096 \<Longrightarrow> digestible APPLY_ENVELOPE_REQUEST_DIGEST_DOMAIN [w]"
  by (simp add: digestible_def APPLY_ENVELOPE_REQUEST_DIGEST_DOMAIN_def)

lemma request_digest_eq:
  assumes "envelope_ok sha256 e"
  shows "en_request_digest e = sha256 (request_stream e)"
proof -
  have "build_digest sha256 APPLY_ENVELOPE_REQUEST_DIGEST_DOMAIN [field_bytes (en_canonical_wire e)] = Inr (en_request_digest e)"
    by (rule envelope_ok_wire [OF assms])
  with build_digest_within [OF request_digestible [OF envelope_wire_bounded [OF assms]], of sha256] show ?thesis
    by (simp add: request_stream_def)
qed

lemma request_stream_inject:
  assumes "envelope_ok sha256 e" "envelope_ok sha256 e'" "request_stream e = request_stream e'"
  shows "e = e'"
proof -
  have "[en_canonical_wire e] = [en_canonical_wire e']"
    using digest_stream_inject [OF request_digestible [OF envelope_wire_bounded [OF assms(1)]]
      request_digestible [OF envelope_wire_bounded [OF assms(2)]]] assms(3) unfolding request_stream_def by blast
  then have wire: "en_canonical_wire e = en_canonical_wire e'" by simp
  show ?thesis
    using decode_envelope_complete [OF assms(1)] unfolding wire decode_envelope_complete [OF assms(2)] by simp
qed

section \<open>Transcripts name what was signed\<close>

lemma tlv_fields_inject:
  assumes "tlv_fields index vs = tlv_fields index ws" "length vs = length ws"
    "\<forall>v \<in> set vs. length v < 2 ^ 32" "\<forall>w \<in> set ws. length w < 2 ^ 32"
  shows "vs = ws"
  using assms
proof (induction vs arbitrary: index ws)
  case (Cons v vs)
  obtain w ws' where ws: "ws = w # ws'" using Cons.prems(2) by (cases ws) auto
  have "(of_nat (length v) :: u32) = of_nat (length w)" and rest: "v @ tlv_fields (index + 1) vs = w @ tlv_fields (index + 1) ws'"
    using Cons.prems(1) by (auto simp: ws)
  then have "unat (of_nat (length v) :: u32) = unat (of_nat (length w) :: u32)" by simp
  then have "length v = length w" using Cons.prems(3,4) by (simp add: ws unat_of_nat)
  with rest have "v = w" "tlv_fields (index + 1) vs = tlv_fields (index + 1) ws'" by simp_all
  with Cons ws show ?case by simp
qed simp

text \<open>What a signing key was used for: a tenure statement or a request draft.\<close>

datatype Statement =
    TenureStatement TenureProofAuthority WriterTenureClaim bytes
  | RequestStatement RuntimeApplyEnvelopeDraft

fun statement_transcript :: "(bytes \<Rightarrow> Digest32) \<Rightarrow> Statement \<Rightarrow> bytes option" where
  "statement_transcript sha256 (TenureStatement authority claim nonce) =
     (case signing_transcript_try_new authority claim nonce of Inr t \<Rightarrow> Some t | Inl _ \<Rightarrow> None)"
| "statement_transcript sha256 (RequestStatement draft) =
     (case draft_signing_transcript sha256 draft of Inr t \<Rightarrow> Some t | Inl _ \<Rightarrow> None)"

fun statement_ok :: "Statement \<Rightarrow> bool" where
  "statement_ok (TenureStatement authority claim nonce) \<longleftrightarrow> True"
| "statement_ok (RequestStatement draft) \<longleftrightarrow>
     tenure_proof_wf (wc_proof (ac_writer_context (cc_control (dr_control_commitment draft)))) \<and>
     auth_claim_ok (dr_auth_claim draft)"

abbreviation envelope_draft :: "RuntimeApplyEnvelope \<Rightarrow> RuntimeApplyEnvelopeDraft" where
  "envelope_draft e \<equiv> \<lparr>dr_control_commitment = en_control_commitment e, dr_temporal = en_temporal e,
     dr_auth_claim = ra_claim (en_authentication e)\<rparr>"

lemma apply_fields_small:
  assumes "tenure_proof_wf (wc_proof (ac_writer_context (cc_control k)))" "auth_claim_ok a"
  shows "\<forall>v \<in> set (apply_fields d k t a). length v < 2 ^ 32"
  using assms by (simp add: apply_fields_def Let_def tenure_proof_wf_def auth_claim_ok_def envelope_limits)

lemma apply_fields_inject:
  assumes "apply_fields d k t a = apply_fields d' k' t' a'"
  shows "k = k' \<and> t = t' \<and> a = a'"
proof -
  obtain x where x: "expected_fields (ac_expected_active (cc_control k)) = x" "expected_fields (ac_expected_active (cc_control k')) = x"
    using assms by (auto simp: apply_fields_def Let_def prod_eq_iff)
  then have act: "ac_expected_active (cc_control k) = ac_expected_active (cc_control k')"
    using expected_fields_inject by metis
  have "cc_slice k = cc_slice k'"
    using assms by (cases "cc_slice k"; cases "cc_slice k'"; cases "sc_header (cc_slice k)"; cases "sc_header (cc_slice k')";
        cases "sh_provenance (sc_header (cc_slice k))"; cases "sh_provenance (sc_header (cc_slice k'))")
      (simp add: apply_fields_def Let_def)
  moreover have "ac_writer_context (cc_control k) = ac_writer_context (cc_control k')"
  proof -
    let ?w = "ac_writer_context (cc_control k)" and ?v = "ac_writer_context (cc_control k')"
    show ?thesis using assms
      by (cases ?w; cases ?v; cases "wc_proof ?w"; cases "wc_proof ?v"; cases "tp_authority (wc_proof ?w)"; cases "tp_authority (wc_proof ?v)";
          cases "tp_claim (wc_proof ?w)"; cases "tp_claim (wc_proof ?v)") (simp add: apply_fields_def Let_def)
  qed
  moreover have "ac_operation_id (cc_control k) = ac_operation_id (cc_control k')" "cc_commitment_digest k = cc_commitment_digest k'"
    using assms by (simp_all add: apply_fields_def Let_def)
  ultimately have "k = k'" using act by (cases k; cases k'; cases "cc_control k"; cases "cc_control k'") simp
  moreover have "t = t'" using assms by (cases t; cases t') (simp add: apply_fields_def Let_def)
  moreover have "a = a'" using assms by (cases a; cases a') (simp add: apply_fields_def Let_def)
  ultimately show ?thesis by simp
qed

lemma request_transcript_eq:
  assumes "build_apply_signing_transcript sha256 k t a = Inr m" "tenure_proof_wf (wc_proof (ac_writer_context (cc_control k)))"
  shows "\<exists>d. m = APPLY_AUTH_SIGNING_MAGIC @ be_u16 APPLY_REQUEST_SIGNING_TRANSCRIPT_VERSION
         @ be_u16 (of_nat (length APPLY_AUTH_SIGNING_DOMAIN)) @ APPLY_AUTH_SIGNING_DOMAIN
         @ be_u16 APPLY_AUTH_SIGNING_FIELD_COUNT @ tlv_fields 0 (apply_fields d k t a)"
  using assms unfolding build_apply_signing_transcript_def append_apply_fields_eq [OF envelope_digest_eq [OF assms(2)]] outcome_simps
  by (auto simp: outcome_simps)

lemma request_transcript_inject:
  assumes "build_apply_signing_transcript sha256 k t a = Inr m" "build_apply_signing_transcript sha256 k' t' a' = Inr m"
    "tenure_proof_wf (wc_proof (ac_writer_context (cc_control k)))" "tenure_proof_wf (wc_proof (ac_writer_context (cc_control k')))"
    "auth_claim_ok a" "auth_claim_ok a'"
  shows "k = k' \<and> t = t' \<and> a = a'"
proof -
  obtain d d' where "tlv_fields 0 (apply_fields d k t a) = tlv_fields 0 (apply_fields d' k' t' a')"
    using request_transcript_eq [OF assms(1,3)] request_transcript_eq [OF assms(2,4)] by auto
  moreover have "length (apply_fields d k t a) = length (apply_fields d' k' t' a')" by (simp add: apply_fields_def Let_def)
  ultimately have "apply_fields d k t a = apply_fields d' k' t' a'"
    using apply_fields_small [OF assms(3,5)] apply_fields_small [OF assms(4,6)] by (intro tlv_fields_inject)
  then show ?thesis by (rule apply_fields_inject)
qed

text \<open>A tenure transcript and a request transcript share the magic but not the domain.\<close>

lemma transcripts_separate:
  assumes "signing_transcript_try_new authority claim nonce = Inr m" "build_apply_signing_transcript sha256 k t a = Inr m"
    "tenure_proof_wf (wc_proof (ac_writer_context (cc_control k)))"
  shows False
proof -
  obtain rest where "m = SIGNING_TRANSCRIPT_MAGIC @ be_u16 WRITER_TENURE_SIGNING_TRANSCRIPT_VERSION
      @ be_u16 (of_nat (length WRITER_TENURE_SIGNING_DOMAIN)) @ rest"
    using assms(1) by (auto simp: signing_transcript_try_new_def append_transcript_tlv_def Let_def outcome_simps)
  moreover obtain rest' where "m = APPLY_AUTH_SIGNING_MAGIC @ be_u16 APPLY_REQUEST_SIGNING_TRANSCRIPT_VERSION
      @ be_u16 (of_nat (length APPLY_AUTH_SIGNING_DOMAIN)) @ rest'"
    using request_transcript_eq [OF assms(2,3)] by auto
  moreover have "SIGNING_TRANSCRIPT_MAGIC = APPLY_AUTH_SIGNING_MAGIC"
    "WRITER_TENURE_SIGNING_TRANSCRIPT_VERSION = APPLY_REQUEST_SIGNING_TRANSCRIPT_VERSION"
    by (simp_all add: SIGNING_TRANSCRIPT_MAGIC_def APPLY_AUTH_SIGNING_MAGIC_def
        WRITER_TENURE_SIGNING_TRANSCRIPT_VERSION_def APPLY_REQUEST_SIGNING_TRANSCRIPT_VERSION_def)
  ultimately have "(of_nat (length WRITER_TENURE_SIGNING_DOMAIN) :: u16) = of_nat (length APPLY_AUTH_SIGNING_DOMAIN)"
    by simp
  then show False by (simp add: WRITER_TENURE_SIGNING_DOMAIN_def APPLY_AUTH_SIGNING_DOMAIN_def)
qed

lemma authenticated_signatures:
  assumes "authenticate_envelope X policy e = Inr ()"
  obtains tk ak tm ts rm rs where "btree_get (po_tenure_keys policy) (tenure_selector_of e) = Some tk"
    "btree_get (po_apply_keys policy) (apply_selector_of e) = Some ak"
    "signing_transcript (envelope_tenure e) = Inr tm" "ex_verify_strict X (tb_verifying_key tk) tm ts"
    "envelope_signing_transcript (ex_sha256 X) e = Inr rm" "ex_verify_strict X ak rm rs"
  using assms that unfolding authenticate_envelope_def Let_def outcome_simps by (auto simp: outcome_simps)

section \<open>Concrete admissions\<close>

text \<open>An envelope for any tenure proof with an Ed25519 signature, a policy that trusts its keys, and a
verifier that accepts from each key the transcript it signed.\<close>

definition demo_apply :: "WriterTenureProof \<Rightarrow> RuntimeApplyControlCommitment" where
  "demo_apply p = \<lparr>cc_slice =
       \<lparr>sc_header = slice_header_new 1 (PlanProvenance.make (wt_source_scope (tp_claim p)) 3 4 5) 6,
        sc_target_slice_digest = 0\<rparr>,
     cc_control = \<lparr>ac_writer_context =
         \<lparr>wc_writer = wt_writer (tp_claim p), wc_epoch = wt_epoch (tp_claim p), wc_proof = p\<rparr>,
       ac_expected_active = ExpectNone, ac_operation_id = 7\<rparr>,
     cc_commitment_digest = 0\<rparr>"

definition demo_temporal :: ApplyTemporalConstraint where
  "demo_temporal = ApplyTemporalConstraint.make 1 7 3 1 100 90"

definition demo_authentication :: ApplyRequestAuthentication where
  "demo_authentication = \<lparr>ra_claim = ApplyRequestAuthClaim.make 9 5 1 1 [6], ra_signature = replicate 64 0\<rparr>"

definition demo_envelope :: "WriterTenureProof \<Rightarrow> RuntimeApplyEnvelope" where
  "demo_envelope p = \<lparr>en_control_commitment = demo_apply p, en_temporal = demo_temporal,
     en_authentication = demo_authentication,
     en_canonical_wire = projr (build_apply_envelope_wire (\<lambda>_. 0) (demo_apply p) demo_temporal demo_authentication),
     en_request_digest = 0\<rparr>"

definition demo_verifier :: "WriterTenureProof \<Rightarrow> Externals" where
  "demo_verifier p = \<lparr>ex_sha256 = \<lambda>_. 0, ex_key_valid = \<lambda>_. True, ex_key_weak = \<lambda>_. False,
     ex_verify_strict = \<lambda>key message signature.
       key = 11 \<and> message = projr (signing_transcript p) \<or>
       key = 12 \<and> message = projr (envelope_signing_transcript (\<lambda>_. 0) (demo_envelope p)),
     ex_verifying_key = \<lambda>seed. seed, ex_sign = \<lambda>seed message. 0, ex_parallelism = 1\<rparr>"

definition demo_policy :: "WriterTenureProof \<Rightarrow> ApplyAdmissionPolicy" where
  "demo_policy p = \<lparr>po_maximum_budget = 1000,
     po_state_limits = AdmissionStateLimits.make 1 1 1,
     po_tenure_keys = [(tenure_selector_of (demo_envelope p), TrustedTenureBinding.make 3 1 1 11)],
     po_apply_keys = [(apply_selector_of (demo_envelope p), 12)]\<rparr>"

definition demo_ingress :: "u64 \<Rightarrow> ClockReading" where
  "demo_ingress now = \<lparr>rd_domain = 3, rd_generation = 1, rd_now = now\<rparr>"

definition presentable :: "WriterTenureProof \<Rightarrow> bool" where
  "presentable p \<longleftrightarrow> proof_ok p \<and> length (tp_signature p) = 64"

lemmas demo_admission_defs = demo_apply_def demo_temporal_def demo_authentication_def
  slice_header_new_def PlanProvenance.defs ApplyTemporalConstraint.defs ApplyRequestAuthClaim.defs

lemma demo_fields [simp]: "en_control_commitment (demo_envelope p) = demo_apply p" "en_temporal (demo_envelope p) = demo_temporal"
  "en_authentication (demo_envelope p) = demo_authentication" "en_request_digest (demo_envelope p) = 0"
  "wc_proof (ac_writer_context (cc_control (demo_apply p))) = p" "ex_sha256 (demo_verifier p) = (\<lambda>_. 0)"
  by (simp_all add: demo_envelope_def demo_apply_def demo_verifier_def)

lemma presentable_wf: "presentable p \<Longrightarrow> tenure_proof_wf p \<and> length (tp_nonce p) \<le> 64"
  by (simp add: presentable_def proof_ok_def tenure_proof_wf_def tenure_limits)

lemma presentable_digest: "presentable p \<Longrightarrow> envelope_digest (\<lambda>_. 0) p = Inr 0"
  by (simp add: presentable_def envelope_digest_eq proof_ok_def)

lemma demo_wire:
  assumes "presentable p"
  shows "build_apply_envelope_wire (\<lambda>_. 0) (demo_apply p) demo_temporal demo_authentication = Inr (en_canonical_wire (demo_envelope p))"
    "length (en_canonical_wire (demo_envelope p)) \<le> 4096"
proof -
  note b = build_wire_encoding [of "\<lambda>_. 0" "demo_envelope p", simplified, OF presentable_digest [OF assms]]
  have w: "en_canonical_wire (demo_envelope p) = projr (build_apply_envelope_wire (\<lambda>_. 0) (demo_apply p) demo_temporal demo_authentication)"
    by (simp add: demo_envelope_def)
  show "build_apply_envelope_wire (\<lambda>_. 0) (demo_apply p) demo_temporal demo_authentication = Inr (en_canonical_wire (demo_envelope p))"
    unfolding w b by simp
  then have "en_canonical_wire (demo_envelope p) = envelope_format.encoding (envelope_field_list 0 (demo_envelope p))"
    using b by simp
  with presentable_wf [OF assms] assms show "length (en_canonical_wire (demo_envelope p)) \<le> 4096"
    unfolding envelope_format.encoding_def append_value_header_def presentable_def
    by (simp add: length_tlv_fields envelope_field_list_def apply_fields_def Let_def TLV_HEADER_BYTES_def
        APPLY_ENVELOPE_MAGIC_def demo_admission_defs)
qed

lemma demo_apply_valid:
  assumes "presentable p"
  shows "control_commitment_validate (\<lambda>_. 0) (demo_apply p) = Inr ()"
proof -
  have "tenure_proof_wf (wc_proof (ac_writer_context (cc_control (demo_apply p))))"
    using presentable_wf [OF assms] by simp
  then show ?thesis
    by (simp add: control_commitment_validate_iff res_simps ensure_writer_scope_matches_def demo_admission_defs)
qed

lemma demo_envelope_ok:
  assumes "presentable p"
  shows "envelope_ok (\<lambda>_. 0) (demo_envelope p)"
  using assms demo_wire [OF assms] demo_apply_valid [OF assms]
    build_digest_within [OF request_digestible [OF demo_wire(2) [OF assms]], of "\<lambda>_. 0"]
  by (simp add: presentable_def envelope_ok_def envelope_validate_def auth_claim_ok_def temporal_wf_def envelope_limits
      APPLY_TEMPORAL_CONSTRAINT_VERSION_def)
     (simp add: demo_admission_defs RUNTIME_SLICE_HEADER_VERSION_def)

lemma demo_tenure_transcript:
  assumes "presentable p"
  shows "signing_transcript p = Inr (projr (signing_transcript p))"
  using presentable_wf [OF assms]
  by (simp add: signing_transcript_def signing_transcript_try_new_def validate_tenure_nonce_def tenure_proof_wf_def
      tenure_limits Let_def)

lemma demo_request_transcript:
  assumes "presentable p"
  shows "envelope_signing_transcript (\<lambda>_. 0) (demo_envelope p) = Inr (projr (envelope_signing_transcript (\<lambda>_. 0) (demo_envelope p)))"
proof -
  have d: "envelope_digest (\<lambda>_. 0) (wc_proof (ac_writer_context (cc_control (demo_apply p)))) = Inr 0"
    using presentable_digest [OF assms] by simp
  show ?thesis
    using presentable_wf [OF assms] assms unfolding presentable_def
    by (simp add: envelope_signing_transcript_def build_apply_signing_transcript_def append_apply_fields_eq [OF d]
        length_tlv_fields apply_fields_def Let_def TLV_HEADER_BYTES_def APPLY_AUTH_SIGNING_MAGIC_def
        APPLY_AUTH_SIGNING_DOMAIN_def MAX_RUNTIME_APPLY_ENVELOPE_BYTES_def)
       (simp add: demo_admission_defs)
qed

lemma demo_authenticates:
  assumes "presentable p"
  shows "authenticate_envelope (demo_verifier p) (demo_policy p) (demo_envelope p) = Inr ()"
proof -
  obtain m n where m: "signing_transcript p = Inr m" "envelope_signing_transcript (\<lambda>_. 0) (demo_envelope p) = Inr n"
    using demo_tenure_transcript [OF assms] demo_request_transcript [OF assms] by blast
  have v: "ex_verify_strict (demo_verifier p) 11 m s" "ex_verify_strict (demo_verifier p) 12 n s" for s
    by (simp_all add: demo_verifier_def m)
  show ?thesis
    using assms by (simp add: authenticate_envelope_def m v demo_policy_def btree_get_def presentable_def parse_signature_def
        ED25519_SIGNATURE_BYTES_def demo_authentication_def TrustedTenureBinding.defs)
qed

definition demo_transition :: "WriterTenureProof \<Rightarrow> AdmissionTransition" where
  "demo_transition p = admission_outcome (demo_verifier p) (demo_envelope p) for_new_boundary Fresh
     (TemporalLedgerEntry.make (wt_source_scope (tp_claim p)) 1 100 90 \<lparr>dl_domain = 3, dl_generation = 1, dl_deadline = 100\<rparr>)"

lemma demo_admits:
  assumes "presentable p"
  shows "admit_envelope (demo_verifier p) (demo_policy p) (demo_envelope p) for_new_boundary (demo_ingress 10) = Inr (demo_transition p)"
proof -
  have scope: "slice_scope (cc_slice (demo_apply p)) = wt_source_scope (tp_claim p)" "slice_target (cc_slice (demo_apply p)) = 1"
    by (simp_all add: demo_admission_defs)
  have i: "install_temporal demo_temporal s 1 None (demo_ingress 10) 1000 False =
      Inr (TemporalLedgerEntry.make s 1 100 90 \<lparr>dl_domain = 3, dl_generation = 1, dl_deadline = 100\<rparr>)" for s
    by (simp add: install_temporal_def Let_def demo_temporal_def ApplyTemporalConstraint.defs demo_ingress_def
        try_deadline_after_def checked_add_def TemporalLedgerEntry.defs)
  have policy: "po_maximum_budget (demo_policy p) = 1000" "po_state_limits (demo_policy p) = AdmissionStateLimits.make 1 1 1"
    by (simp_all add: demo_policy_def)
  show ?thesis
    by (simp add: admit_envelope_def Let_def demo_authenticates [OF assms] demo_apply_valid [OF assms] presentable_digest [OF assms]
        ensure_nonce_consistent_def disposition_of_def ensure_ledger_capacity_def for_new_boundary_def scope policy i
        demo_transition_def admission_outcome_def AdmissionStateLimits.defs)
qed

definition demo_boundary :: admission_sys where
  "demo_boundary = \<lparr>ay_state = for_new_boundary, ay_log = []\<rparr>"

definition demo_admitted_sys :: "WriterTenureProof \<Rightarrow> admission_sys" where
  "demo_admitted_sys p = \<lparr>ay_state = xt_next_state (demo_transition p), ay_log = [(demo_envelope p, demo_transition p)]\<rparr>"

lemma demo_boundary_init: "admission_init demo_boundary"
  by (simp add: admission_init_def demo_boundary_def)

lemma demo_admission_run:
  assumes "presentable p"
  shows "(admission_step (demo_verifier p) (demo_policy p))\<^sup>*\<^sup>* demo_boundary (demo_admitted_sys p)"
  using admission_step.admit [of "demo_verifier p" "demo_envelope p" "demo_policy p" demo_boundary "demo_ingress 10" "demo_transition p"]
    demo_admits [OF assms] demo_envelope_ok [OF assms]
  by (simp add: demo_boundary_def demo_admitted_sys_def r_into_rtranclp)

definition demo_tenure_proof :: WriterTenureProof where
  "demo_tenure_proof = \<lparr>tp_authority = TenureProofAuthority.make 1 2 1 1,
     tp_claim = WriterTenureClaim.make 2 4 2 1, tp_nonce = [9], tp_signature = replicate 64 0\<rparr>"

lemma demo_presentable: "presentable demo_tenure_proof"
  by (simp add: presentable_def proof_ok_def tenure_proof_wf_def demo_tenure_proof_def tenure_limits
      WriterTenureClaim.defs TenureProofAuthority.defs)

section \<open>Properties\<close>

lemma reachable_admission:
  assumes "admission_init y0" "(admission_step X policy)\<^sup>*\<^sup>* y0 y" "(e, t) \<in> set (ay_log y)"
  shows "ledgers_ok (po_state_limits policy) (ay_state y)" "admissible_under X policy e t" "remembered X (ay_state y) e t"
  using admission.reachable_inv [OF assms(1,2)] assms(3) by (auto simp: admission_inv_def)

text \<open>C2. A lost answer to an admitted request is safe to retry: in every reachable state, an
envelope that was admitted before is admitted again by any reading of its target clock, however
late and however full the ledgers are. It is reported as a replay, leaves the state as it is, carries the
same payload, tenure and request digest, and its deadline is not renewed.\<close>

theorem admitted_request_replays:
  assumes "admission_init y0" "(admission_step X policy)\<^sup>*\<^sup>* y0 y" "(e, t) \<in> set (ay_log y)"
    and "rd_domain reading = tc_target_clock_domain (en_temporal e)"
    and "rd_generation reading = tc_target_clock_generation (en_temporal e)"
  shows "\<exists>t'. admit_envelope X policy e (ay_state y) reading = Inr t' \<and> xt_disposition t' = Replayed \<and>
     xt_next_state t' = ay_state y \<and> ad_payload (xt_admitted t') = ad_payload (xt_admitted t) \<and>
     ad_tenure (xt_admitted t') = ad_tenure (xt_admitted t) \<and>
     ad_request_digest (xt_admitted t') = ad_request_digest (xt_admitted t) \<and>
     dl_deadline (ad_deadline (xt_admitted t')) \<le> dl_deadline (ad_deadline (xt_admitted t))"
proof -
  note r = reachable_admission [OF assms(1-3)]
  have ok: "envelope_ok (ex_sha256 X) e" and auth: "authenticate_envelope X policy e = Inr ()"
    using r(2) by (simp_all add: admissible_under_def)
  obtain entry where entry: "btree_get (ss_temporal (ay_state y)) (lineage_of e) = Some entry" "entry_covers entry e"
    "dl_deadline (le_deadline entry) \<le> dl_deadline (ad_deadline (xt_admitted t))"
    using r(3) by (auto simp: remembered_def)
  have i: "install_temporal (en_temporal e) (envelope_scope e) (envelope_target e) (Some entry) reading
      (po_maximum_budget policy) True = Inr entry"
    using r(2) assms(4,5) entry(2) by (intro install_temporal_replay) (simp_all add: admissible_under_def)
  show ?thesis
    using r entry
    by (simp add: admit_envelope_def Let_def envelope_ok_validates [OF ok] auth envelope_ok_digest [OF ok] i
        ensure_nonce_consistent_def disposition_of_def ensure_ledger_capacity_def remembered_def
        btree_insert_same ledgers_ok_def admissible_under_def)
qed

theorem admitted_request_replays_witness:
  "\<exists>t. admit_envelope (demo_verifier demo_tenure_proof)
       (demo_policy demo_tenure_proof) (demo_envelope demo_tenure_proof) (ay_state (demo_admitted_sys demo_tenure_proof)) (demo_ingress 5000) = Inr t \<and>
     xt_disposition t = Replayed \<and> xt_next_state t = ay_state (demo_admitted_sys demo_tenure_proof)"
  using admitted_request_replays [OF demo_boundary_init demo_admission_run [OF demo_presentable],
      of "demo_envelope demo_tenure_proof" "demo_transition demo_tenure_proof" "demo_ingress 5000"]
  by (auto simp: demo_admitted_sys_def demo_ingress_def demo_temporal_def ApplyTemporalConstraint.defs)

definition requests_collide :: "Externals \<Rightarrow> RuntimeApplyEnvelope \<Rightarrow> RuntimeApplyEnvelope \<Rightarrow> bool" where
  "requests_collide X e e' \<longleftrightarrow> request_stream e \<noteq> request_stream e' \<and>
     ex_sha256 X (request_stream e) = ex_sha256 X (request_stream e')"

definition proofs_collide :: "Externals \<Rightarrow> RuntimeApplyEnvelope \<Rightarrow> RuntimeApplyEnvelope \<Rightarrow> bool" where
  "proofs_collide X e e' \<longleftrightarrow> envelope_stream (envelope_tenure e) \<noteq> envelope_stream (envelope_tenure e') \<and>
     proof_digest_of X e = proof_digest_of X e'"

lemma same_digest:
  assumes "envelope_ok (ex_sha256 X) e" "envelope_ok (ex_sha256 X) e'" "en_request_digest e = en_request_digest e'"
  shows "e' = e \<or> requests_collide X e e'"
  using assms request_stream_inject [OF assms(1,2)] unfolding requests_collide_def
  by (auto simp: request_digest_eq)

lemma same_proof_digest:
  assumes "envelope_ok (ex_sha256 X) e" "envelope_ok (ex_sha256 X) e'" "proof_digest_of X e = proof_digest_of X e'"
  shows "envelope_tenure e' = envelope_tenure e \<or> proofs_collide X e e'"
  using assms envelope_stream_inject unfolding proofs_collide_def envelope_ok_def proof_ok_def by metis

lemma replay_source:
  assumes "admission_inv X policy y" "btree_get (ss_request_nonces (ay_state y)) (request_nonce_key_of e) = Some (en_request_digest e)"
    "envelope_ok (ex_sha256 X) e"
  shows "\<exists>(e', t') \<in> set (ay_log y). e' = e \<or> requests_collide X e e'"
proof -
  have "\<exists>(e', t') \<in> set (ay_log y). request_nonce_key_of e = request_nonce_key_of e' \<and> en_request_digest e = en_request_digest e'"
    using assms(1,2) unfolding admission_inv_def ledgers_sound_def by blast
  then obtain e' t' where e': "(e', t') \<in> set (ay_log y)" "en_request_digest e = en_request_digest e'" by blast
  then have "envelope_ok (ex_sha256 X) e'" using assms(1) by (auto simp: admission_inv_def admissible_under_def)
  with same_digest [OF assms(3)] e' show ?thesis by blast
qed

text \<open>C15. A request nonce names one request, and a tenure nonce one tenure proof. In every reachable
state, an envelope that is admitted as fresh carries a nonce no admitted request has used; one admitted
as a replay is an envelope that was admitted before, or its request digest is a collision of the hash, and
changes nothing; the tenure proof is the one admitted before under the same authority nonce, or the
proof digests are a collision. The error for a torn ledger can only be the result of a
collision.\<close>

theorem nonce_names_one_request:
  assumes "admission_init y0" "(admission_step X policy)\<^sup>*\<^sup>* y0 y" "envelope_ok (ex_sha256 X) e"
  shows "case admit_envelope X policy e (ay_state y) reading of
      Inl err \<Rightarrow> err = AdmissionStateInconsistent \<longrightarrow> (\<exists>(e', t') \<in> set (ay_log y). requests_collide X e e')
    | Inr t \<Rightarrow>
        (xt_disposition t = Fresh \<longrightarrow> (\<forall>(e', t') \<in> set (ay_log y). request_nonce_key_of e' \<noteq> request_nonce_key_of e)) \<and>
        (xt_disposition t = Replayed \<longrightarrow> xt_next_state t = ay_state y \<and>
           (\<exists>(e', t') \<in> set (ay_log y). e' = e \<or> requests_collide X e e')) \<and>
        (\<forall>(e', t') \<in> set (ay_log y). tenure_nonce_key_of e' = tenure_nonce_key_of e \<longrightarrow>
           envelope_tenure e' = envelope_tenure e \<or> proofs_collide X e e')"
proof -
  note inv = admission.reachable_inv [OF assms(1,2)]
  show ?thesis
  proof (cases "admit_envelope X policy e (ay_state y) reading")
    case (Inl err)
    have "\<exists>(e', t') \<in> set (ay_log y). requests_collide X e e'" if err: "err = AdmissionStateInconsistent"
    proof -
      note torn = inconsistent_cases [OF assms(3) Inl [unfolded err]]
      then obtain e' t' where e': "(e', t') \<in> set (ay_log y)" "e' = e \<or> requests_collide X e e'"
        using replay_source [OF inv _ assms(3)] by blast
      have "remembered X (ay_state y) e' t'" using inv e'(1) by (auto simp: admission_inv_def)
      then have "e' \<noteq> e" using torn by (auto simp: remembered_def entry_covers_def)
      with e' show ?thesis by blast
    qed
    with Inl show ?thesis by simp
  next
    case (Inr t)
    have led: "ledgers_ok (po_state_limits policy) (ay_state y)" using inv by (simp add: admission_inv_def)
    have log: "remembered X (ay_state y) e' t'" "envelope_ok (ex_sha256 X) e'" if "(e', t') \<in> set (ay_log y)" for e' t'
      using inv that by (auto simp: admission_inv_def admissible_under_def)
    obtain disp entry where tn: "btree_get (ss_tenure_nonces (ay_state y)) (tenure_nonce_key_of e) \<in> {None, Some (proof_digest_of X e)}"
      and rn: "disposition_of (ss_request_nonces (ay_state y)) (request_nonce_key_of e) (en_request_digest e) = Inr disp"
      and t: "t = admission_outcome X e (ay_state y) disp entry"
      by (rule admit_envelope_ok [OF assms(3) Inr])
    have disp: "xt_disposition t = disp" by (simp add: t admission_outcome_def)
    have "request_nonce_key_of e' \<noteq> request_nonce_key_of e" if "disp = Fresh" "(e', t') \<in> set (ay_log y)" for e' t'
      using rn that(1) log(1) [OF that(2)] by (auto simp: disposition_of_ok remembered_def)
    moreover have "\<exists>(e', t') \<in> set (ay_log y). e' = e \<or> requests_collide X e e'" if "disp = Replayed"
      using rn that replay_source [OF inv _ assms(3)] by (auto simp: disposition_of_ok)
    moreover have "envelope_tenure e' = envelope_tenure e \<or> proofs_collide X e e'"
      if "(e', t') \<in> set (ay_log y)" "tenure_nonce_key_of e' = tenure_nonce_key_of e" for e' t'
      using tn that(2) log [OF that(1)] same_proof_digest [OF assms(3) log(2) [OF that(1)]] by (simp add: remembered_def)
    ultimately show ?thesis using Inr replay_keeps_state [OF led assms(3) Inr] by (auto simp: disp)
  qed
qed

theorem nonce_names_one_request_witness:
  "\<exists>t. admit_envelope (demo_verifier demo_tenure_proof)
       (demo_policy demo_tenure_proof) (demo_envelope demo_tenure_proof) for_new_boundary (demo_ingress 10) = Inr t \<and> xt_disposition t = Fresh"
  using nonce_names_one_request [OF demo_boundary_init rtranclp.rtrancl_refl, of "demo_verifier demo_tenure_proof" "demo_envelope demo_tenure_proof" "demo_policy demo_tenure_proof" "demo_ingress 10"]
    demo_envelope_ok [OF demo_presentable] demo_admits [OF demo_presentable]
  by (simp add: demo_boundary_def demo_transition_def admission_outcome_def)

lemma fresh_deadline_live:
  assumes "install_temporal temporal scope target existing reading maximum replay = Inr entry" "\<not> replay"
  shows "rd_now reading < dl_deadline (le_deadline entry)"
proof -
  have "unat (tc_remaining_budget temporal) \<noteq> 0"
    using install_temporal_checks(4) [OF assms(1)] by (simp add: unat_eq_zero)
  then have later: "rd_now reading < dl_deadline candidate"
    if "try_deadline_after reading (tc_remaining_budget temporal) = Inr candidate" for candidate
    using that by (simp add: try_deadline_after_ok word_less_nat_alt)
  show ?thesis
    using assms(1)
  proof (cases rule: install_temporal_cases)
    case replay
    with assms(2) show ?thesis by simp
  next
    case (fresh candidate)
    with later show ?thesis by simp
  next
    case (attenuated candidate previous)
    with later [of candidate] show ?thesis by (simp add: earlier_deadline_def)
  qed
qed

text \<open>C18. Time is only ever spent. In every reachable state, a fresh request is installed with a
deadline of the local clock that lies in the future and at most its remaining budget, and so the
policy's maximum, ahead. Requests of one temporal lineage share route, clock and original budget; a later
one never has a later deadline than any earlier one, and a fresh one never has more budget left.\<close>

theorem lineage_budget_never_extends:
  assumes "admission_init y0" "(admission_step X policy)\<^sup>*\<^sup>* y0 y" "envelope_ok (ex_sha256 X) e"
    and "admit_envelope X policy e (ay_state y) reading = Inr t"
  shows "dl_domain (ad_deadline (xt_admitted t)) = rd_domain reading \<and>
     dl_generation (ad_deadline (xt_admitted t)) = rd_generation reading \<and>
     (xt_disposition t = Fresh \<longrightarrow>
        rd_now reading < dl_deadline (ad_deadline (xt_admitted t)) \<and>
        unat (dl_deadline (ad_deadline (xt_admitted t))) \<le> unat (rd_now reading) + unat (tc_remaining_budget (en_temporal e)) \<and>
        tc_remaining_budget (en_temporal e) \<le> po_maximum_budget policy) \<and>
     (\<forall>(e', t') \<in> set (ay_log y). lineage_of e' = lineage_of e \<longrightarrow>
        envelope_scope e' = envelope_scope e \<and> envelope_target e' = envelope_target e \<and>
        tc_original_budget (en_temporal e') = tc_original_budget (en_temporal e) \<and>
        dl_deadline (ad_deadline (xt_admitted t)) \<le> dl_deadline (ad_deadline (xt_admitted t')) \<and>
        (xt_disposition t = Fresh \<longrightarrow> tc_remaining_budget (en_temporal e) \<le> tc_remaining_budget (en_temporal e')))"
proof -
  obtain disp entry where i: "install_temporal (en_temporal e) (envelope_scope e) (envelope_target e)
       (btree_get (ss_temporal (ay_state y)) (lineage_of e)) reading (po_maximum_budget policy) (disp = Replayed) = Inr entry"
    and t: "t = admission_outcome X e (ay_state y) disp entry"
    by (rule admit_envelope_ok [OF assms(3,4)])
  have d: "xt_disposition t = disp" "ad_deadline (xt_admitted t) = le_deadline entry"
    by (simp_all add: t admission_outcome_def)
  have fresh: "disp = Fresh \<Longrightarrow> disp \<noteq> Replayed" by simp
  note checks = install_temporal_checks [OF i] and entry = install_temporal_entry [OF i]
  have "tc_remaining_budget (en_temporal e) \<le> tc_original_budget (en_temporal e)"
    using assms(3) by (simp add: envelope_ok_def temporal_wf_def)
  then have budget: "tc_remaining_budget (en_temporal e) \<le> po_maximum_budget policy" using checks(3) by simp
  have earlier: "envelope_scope e' = envelope_scope e \<and> envelope_target e' = envelope_target e \<and>
        tc_original_budget (en_temporal e') = tc_original_budget (en_temporal e) \<and>
        dl_deadline (le_deadline entry) \<le> dl_deadline (ad_deadline (xt_admitted t')) \<and>
        (disp = Fresh \<longrightarrow> tc_remaining_budget (en_temporal e) \<le> tc_remaining_budget (en_temporal e'))"
    if log: "(e', t') \<in> set (ay_log y)" and same: "lineage_of e' = lineage_of e" for e' t'
  proof -
    obtain previous where p: "btree_get (ss_temporal (ay_state y)) (lineage_of e) = Some previous" "entry_covers previous e'"
      "dl_deadline (le_deadline previous) \<le> dl_deadline (ad_deadline (xt_admitted t'))"
      using reachable_admission(3) [OF assms(1,2) log] same by (auto simp: remembered_def)
    have ext: "entry_extends previous entry" by (rule entry(2) [OF p(1)])
    then have "entry_covers entry e'" by (rule entry_covers_extends [OF p(2)])
    with entry(1,4) p(3) ext show ?thesis by (auto simp: entry_covers_def entry_extends_def)
  qed
  show ?thesis
    unfolding d using checks(1,2) entry(1,3) fresh_deadline_live [OF i] budget earlier
    by (auto simp: entry_covers_def)
qed

theorem lineage_budget_never_extends_witness:
  "unat (dl_deadline (ad_deadline (xt_admitted (demo_transition demo_tenure_proof)))) \<le> 10 + 90"
proof -
  have "admit_envelope (demo_verifier demo_tenure_proof) (demo_policy demo_tenure_proof) (demo_envelope demo_tenure_proof)
      (ay_state demo_boundary) (demo_ingress 10) = Inr (demo_transition demo_tenure_proof)"
    using demo_admits [OF demo_presentable] by (simp add: demo_boundary_def)
  from lineage_budget_never_extends [OF demo_boundary_init rtranclp.rtrancl_refl _ this] demo_envelope_ok [OF demo_presentable]
  show ?thesis by (simp add: demo_transition_def admission_outcome_def demo_ingress_def demo_temporal_def
      ApplyTemporalConstraint.defs TemporalLedgerEntry.defs)
qed

text \<open>C7. Nothing is admitted that was not signed. Suppose that a signature verifies only on the transcript
of a statement its key was used for, whichever kind of statement that is. Then for
every admitted request the tenure statement (authority, claim and nonce) was made with the key
the policy trusts for it, and exactly the admitted content, with the temporal constraint and the authentication
claim, was signed with the key the policy trusts for this principal, writer, scope and target. A signature
on a tenure never passes for one on a request or the other way round.\<close>

theorem admitted_content_was_signed:
  assumes "admission_init y0" "(admission_step X policy)\<^sup>*\<^sup>* y0 y" "(e, t) \<in> set (ay_log y)"
    and "\<forall>key message signature. ex_verify_strict X key message signature \<longrightarrow>
      (\<exists>s \<in> statements key. statement_ok s \<and> statement_transcript (ex_sha256 X) s = Some message)"
  shows "\<exists>tenure_key apply_key.
     btree_get (po_tenure_keys policy) (tenure_selector_of e) = Some tenure_key \<and>
     TenureStatement (tp_authority (envelope_tenure e)) (tp_claim (envelope_tenure e)) (tp_nonce (envelope_tenure e))
       \<in> statements (tb_verifying_key tenure_key) \<and>
     btree_get (po_apply_keys policy) (apply_selector_of e) = Some apply_key \<and>
     RequestStatement (envelope_draft e) \<in> statements apply_key \<and>
     ad_payload (xt_admitted t) = dr_control_commitment (envelope_draft e)"
proof -
  have adm: "admissible_under X policy e t" by (rule reachable_admission [OF assms(1-3)])
  then obtain tk ak tm ts rm rs where k: "btree_get (po_tenure_keys policy) (tenure_selector_of e) = Some tk"
    "btree_get (po_apply_keys policy) (apply_selector_of e) = Some ak"
    and tm: "signing_transcript (envelope_tenure e) = Inr tm" "ex_verify_strict X (tb_verifying_key tk) tm ts"
    and rm: "envelope_signing_transcript (ex_sha256 X) e = Inr rm" "ex_verify_strict X ak rm rs"
    unfolding admissible_under_def by (blast elim: authenticated_signatures)
  have wf: "tenure_proof_wf (envelope_tenure e)" "auth_claim_ok (ra_claim (en_authentication e))"
    using adm by (simp_all add: admissible_under_def envelope_ok_def proof_ok_def)
  obtain s where s: "s \<in> statements (tb_verifying_key tk)" "statement_ok s" "statement_transcript (ex_sha256 X) s = Some tm"
    using assms(4) tm(2) by blast
  obtain q where q: "q \<in> statements ak" "statement_ok q" "statement_transcript (ex_sha256 X) q = Some rm"
    using assms(4) rm(2) by blast
  have "s = TenureStatement (tp_authority (envelope_tenure e)) (tp_claim (envelope_tenure e)) (tp_nonce (envelope_tenure e))"
    using s(2,3) tm(1) transcripts_separate tenure_signing_transcript_canonical
    by (cases s) (auto simp: signing_transcript_def draft_signing_transcript_def split: sum.splits)
  moreover have "q = RequestStatement (envelope_draft e)"
  proof (cases q)
    case (TenureStatement a c n)
    with q(3) rm(1) transcripts_separate wf(1) show ?thesis
      by (auto simp: envelope_signing_transcript_def split: sum.splits)
  next
    case (RequestStatement d)
    with q(2,3) rm(1) have "dr_control_commitment d = en_control_commitment e \<and> dr_temporal d = en_temporal e \<and>
        dr_auth_claim d = ra_claim (en_authentication e)"
      by (intro request_transcript_inject [of "ex_sha256 X" _ _ _ rm])
         (auto simp: envelope_signing_transcript_def draft_signing_transcript_def wf split: sum.splits)
    then show ?thesis unfolding RequestStatement by (cases d) simp
  qed
  ultimately show ?thesis using k s(1) q(1) adm by (auto simp: admissible_under_def)
qed

definition demo_statements :: "WriterTenureProof \<Rightarrow> bytes32 \<Rightarrow> Statement set" where
  "demo_statements p key =
     (if key = 11 then {TenureStatement (tp_authority p) (tp_claim p) (tp_nonce p)}
      else if key = 12 then {RequestStatement (envelope_draft (demo_envelope p))} else {})"

lemma demo_verifies_statements:
  assumes "presentable p" "ex_verify_strict (demo_verifier p) key message signature"
  shows "\<exists>s \<in> demo_statements p key. statement_ok s \<and> statement_transcript (ex_sha256 (demo_verifier p)) s = Some message"
proof -
  obtain m n where m: "signing_transcript p = Inr m" "envelope_signing_transcript (\<lambda>_. 0) (demo_envelope p) = Inr n"
    using demo_tenure_transcript [OF assms(1)] demo_request_transcript [OF assms(1)] by blast
  have "key = 11 \<and> message = m \<or> key = 12 \<and> message = n" using assms(2) by (auto simp: demo_verifier_def m)
  moreover have "tenure_proof_wf p" "auth_claim_ok (ra_claim demo_authentication)"
    using demo_envelope_ok [OF assms(1)] by (simp_all add: envelope_ok_def proof_ok_def)
  ultimately show ?thesis using m
    by (auto simp: demo_statements_def signing_transcript_def draft_signing_transcript_def envelope_signing_transcript_def)
qed

theorem admitted_content_was_signed_witness:
  "RequestStatement (envelope_draft (demo_envelope demo_tenure_proof)) \<in> demo_statements demo_tenure_proof 12 \<and>
   ad_payload (xt_admitted (demo_transition demo_tenure_proof)) = demo_apply demo_tenure_proof"
proof -
  have all: "\<forall>key message signature. ex_verify_strict (demo_verifier demo_tenure_proof) key message signature \<longrightarrow>
      (\<exists>s \<in> demo_statements demo_tenure_proof key. statement_ok s \<and>
         statement_transcript (ex_sha256 (demo_verifier demo_tenure_proof)) s = Some message)"
    using demo_verifies_statements [OF demo_presentable] by blast
  have "btree_get (po_apply_keys (demo_policy demo_tenure_proof)) (apply_selector_of (demo_envelope demo_tenure_proof)) = Some 12"
    by (simp add: demo_policy_def btree_get_def)
  with admitted_content_was_signed [OF demo_boundary_init demo_admission_run [OF demo_presentable] _ all,
      of "demo_envelope demo_tenure_proof" "demo_transition demo_tenure_proof"]
  show ?thesis by (auto simp: demo_admitted_sys_def)
qed

end
