(* ===== verification/Dispatch_Permits.thy ===== *)
theory Dispatch_Permits
  imports Prelude State_Machine
begin

text \<open>
  Domain permits, \<open>crates/paraegox-runtime/src/dispatcher.rs\<close>: a ledger of the permits one loop domain
  has handed out, with a part of the capacity reserved for control work. A ledger's identity
  carries the address of an allocation that \<open>Arc::ptr_eq\<close> compares; here it is a number that is different
  for every ledger created.
\<close>

section \<open>Data\<close>

datatype DispatchClass = Control | Interactive | Stream | Background

definition class_all :: "DispatchClass list" where
  "class_all = [Control, Interactive, Stream, Background]"

fun class_index :: "DispatchClass \<Rightarrow> nat" where
  "class_index Control = 0"
| "class_index Interactive = 1"
| "class_index Stream = 2"
| "class_index Background = 3"

fun is_control :: "DispatchClass \<Rightarrow> bool" where
  "is_control Control = True"
| "is_control _ = False"

record DomainPermitLedgerId =
  li_domain :: bytes16
  li_domain_epoch :: u64
  li_marker :: nat

datatype PermitPool = Shared | ControlReserved

record DomainPermitToken =
  dt_ledger :: DomainPermitLedgerId
  dt_permit_id :: u64
  dt_pool :: PermitPool
  dt_active :: bool

record DomainPermitSnapshot =
  ps_total :: u32
  ps_control_reserved :: u32
  ps_shared_in_use :: u32
  ps_control_reserved_in_use :: u32

record DomainPermitLedger =
  pl_id :: DomainPermitLedgerId
  pl_total :: u32
  pl_control_reserved :: u32
  pl_shared_in_use :: u32
  pl_control_reserved_in_use :: u32
  pl_next_permit_id :: u64
  pl_active :: "(u64, PermitPool) btree_map"

datatype PermitError =
    InvalidCapacity
  | PermitCounterOverflow
  | PermitStateInconsistent
  | LedgerMismatch
  | TokenMismatch
  | AlreadyReleased

section \<open>Operations\<close>

definition permits_try_new :: "DomainPermitLedgerId \<Rightarrow> u32 \<Rightarrow> u32 \<Rightarrow> PermitError + DomainPermitLedger" where
  "permits_try_new ident capacity control_reserved =
     (if capacity = 0 \<or> control_reserved > capacity then Inl InvalidCapacity
      else Inr \<lparr>pl_id = ident, pl_total = capacity, pl_control_reserved = control_reserved, pl_shared_in_use = 0,
                pl_control_reserved_in_use = 0, pl_next_permit_id = 0, pl_active = []\<rparr>)"

definition can_acquire :: "DomainPermitLedger \<Rightarrow> DispatchClass \<Rightarrow> bool" where
  "can_acquire self class =
     (if is_control class \<and> pl_control_reserved_in_use self < pl_control_reserved self then True
      else pl_shared_in_use self < pl_total self - pl_control_reserved self)"

definition validate_permits :: "DomainPermitLedger \<Rightarrow> PermitError + unit" where
  "validate_permits self =
     and_then (ok_or (checked_sub (pl_total self) (pl_control_reserved self)) PermitStateInconsistent) (\<lambda>shared_capacity.
     if pl_total self = 0 \<or> pl_shared_in_use self > shared_capacity
        \<or> pl_control_reserved_in_use self > pl_control_reserved self
     then Inl PermitStateInconsistent
     else
     and_then (ok_or (try_of_nat (length (pl_active self))) PermitStateInconsistent) (\<lambda>active.
     and_then (ok_or (checked_add (pl_shared_in_use self) (pl_control_reserved_in_use self)) PermitStateInconsistent)
       (\<lambda>counted.
     if active \<noteq> counted then Inl PermitStateInconsistent
     else
       let recomputed_shared = length (filter (\<lambda>pool. pool = Shared) (btree_values (pl_active self)));
           recomputed_reserved = length (pl_active self) - recomputed_shared in
       if unat (pl_shared_in_use self) \<noteq> recomputed_shared
          \<or> unat (pl_control_reserved_in_use self) \<noteq> recomputed_reserved
       then Inl PermitStateInconsistent else Inr ())))"

definition try_acquire ::
  "DomainPermitLedger \<Rightarrow> DispatchClass \<Rightarrow> (PermitError + DomainPermitToken option) \<times> DomainPermitLedger" where
  "try_acquire self class =
     and_then_st (validate_permits self) self (\<lambda>_.
     case (if is_control class \<and> pl_control_reserved_in_use self < pl_control_reserved self
           then Some ControlReserved
           else if pl_shared_in_use self < pl_total self - pl_control_reserved self then Some Shared
           else None) of
       None \<Rightarrow> (Inr None, self)
     | Some pool \<Rightarrow>
       and_then_st (ok_or (checked_add (pl_next_permit_id self) 1) PermitCounterOverflow) self (\<lambda>permit_id.
       let previous = btree_get (pl_active self) permit_id;
           self = self\<lparr>pl_active := btree_insert permit_id pool (pl_active self)\<rparr>;
           issue = (\<lambda>self. (Inr (Some \<lparr>dt_ledger = pl_id self, dt_permit_id = permit_id, dt_pool = pool,
                                       dt_active = True\<rparr>), self\<lparr>pl_next_permit_id := permit_id\<rparr>)) in
       if previous \<noteq> None then (Inl PermitStateInconsistent, self)
       else case pool of
         Shared \<Rightarrow>
           and_then_st (ok_or (checked_add (pl_shared_in_use self) 1) PermitCounterOverflow) self
             (\<lambda>n. issue (self\<lparr>pl_shared_in_use := n\<rparr>))
       | ControlReserved \<Rightarrow>
           and_then_st (ok_or (checked_add (pl_control_reserved_in_use self) 1) PermitCounterOverflow) self
             (\<lambda>n. issue (self\<lparr>pl_control_reserved_in_use := n\<rparr>))))"

definition permit_release ::
  "DomainPermitLedger \<Rightarrow> DomainPermitToken \<Rightarrow> (PermitError + unit) \<times> DomainPermitLedger \<times> DomainPermitToken" where
  "permit_release self token =
     and_then_st (validate_permits self) (self, token) (\<lambda>_.
     if \<not> dt_active token then (Inl AlreadyReleased, self, token)
     else if dt_ledger token \<noteq> pl_id self then (Inl LedgerMismatch, self, token)
     else
     and_then_st (ok_or (btree_get (pl_active self) (dt_permit_id token)) TokenMismatch) (self, token) (\<lambda>pool.
     if pool \<noteq> dt_pool token then (Inl TokenMismatch, self, token)
     else
       let finish = (\<lambda>self. (Inr (), self\<lparr>pl_active := btree_remove (dt_permit_id token) (pl_active self)\<rparr>,
                             token\<lparr>dt_active := False\<rparr>)) in
       case pool of
         Shared \<Rightarrow>
           and_then_st (ok_or (checked_sub (pl_shared_in_use self) 1) PermitStateInconsistent) (self, token)
             (\<lambda>n. finish (self\<lparr>pl_shared_in_use := n\<rparr>))
       | ControlReserved \<Rightarrow>
           and_then_st (ok_or (checked_sub (pl_control_reserved_in_use self) 1) PermitStateInconsistent) (self, token)
             (\<lambda>n. finish (self\<lparr>pl_control_reserved_in_use := n\<rparr>))))"

definition permit_snapshot :: "DomainPermitLedger \<Rightarrow> PermitError + DomainPermitSnapshot" where
  "permit_snapshot self =
     and_then (validate_permits self) (\<lambda>_.
     Inr \<lparr>ps_total = pl_total self, ps_control_reserved = pl_control_reserved self,
          ps_shared_in_use = pl_shared_in_use self,
          ps_control_reserved_in_use = pl_control_reserved_in_use self\<rparr>)"

definition in_use :: "DomainPermitSnapshot \<Rightarrow> u32" where
  "in_use self = ps_shared_in_use self + ps_control_reserved_in_use self"

definition available :: "DomainPermitSnapshot \<Rightarrow> u32" where
  "available self = ps_total self - in_use self"

section \<open>The accounting invariant\<close>

definition pool_count :: "PermitPool \<Rightarrow> (u64, PermitPool) btree_map \<Rightarrow> nat" where
  "pool_count pool m = length (filter (\<lambda>e. snd e = pool) m)"

definition permits_ok :: "DomainPermitLedger \<Rightarrow> bool" where
  "permits_ok l \<longleftrightarrow> pl_total l \<noteq> 0 \<and> pl_control_reserved l \<le> pl_total l \<and> btree_ok (pl_active l) \<and>
     (\<forall>k \<in> fst ` set (pl_active l). k \<le> pl_next_permit_id l) \<and>
     unat (pl_shared_in_use l) = pool_count Shared (pl_active l) \<and>
     unat (pl_control_reserved_in_use l) = pool_count ControlReserved (pl_active l) \<and>
     unat (pl_shared_in_use l) + unat (pl_control_reserved l) \<le> unat (pl_total l) \<and>
     pl_control_reserved_in_use l \<le> pl_control_reserved l"

lemma pool_count_total: "pool_count Shared m + pool_count ControlReserved m = length m"
proof -
  have "filter (\<lambda>e. snd e = ControlReserved) m = filter (\<lambda>e. \<not> snd e = Shared) m"
    by (rule filter_cong) (auto intro: PermitPool.exhaust)
  then show ?thesis using sum_length_filter_compl [of "\<lambda>e. snd e = Shared" m] by (simp add: pool_count_def)
qed

lemma pool_count_insert:
  assumes "btree_ok m" "btree_get m k = None"
  shows "pool_count pool (btree_insert k q m) = pool_count pool m + (if q = pool then 1 else 0)"
  using arg_cong [OF btree.insert_fresh [OF assms, of q], of "\<lambda>M. size (filter_mset (\<lambda>e. snd e = pool) M)"]
  by (simp add: pool_count_def flip: mset_filter)

lemma pool_count_remove:
  assumes "btree_ok m" "btree_get m k = Some q"
  shows "pool_count pool m = pool_count pool (btree_remove k m) + (if q = pool then 1 else 0)"
  using arg_cong [OF btree.remove_present [OF assms], of "\<lambda>M. size (filter_mset (\<lambda>e. snd e = pool) M)"]
  by (simp add: pool_count_def flip: mset_filter)

lemma permits_ok_validate: "permits_ok l \<Longrightarrow> validate_permits l = Inr ()"
proof -
  assume ok: "permits_ok l"
  let ?n = "length (pl_active l)"
  have sum: "unat (pl_shared_in_use l) + unat (pl_control_reserved_in_use l) = ?n"
    using ok pool_count_total [of "pl_active l"] by (simp add: permits_ok_def)
  moreover have "unat (pl_shared_in_use l) + unat (pl_control_reserved_in_use l) \<le> unat (pl_total l)"
    using ok by (simp add: permits_ok_def word_le_nat_alt)
  ultimately have n: "?n < 2 ^ 32" using unat_bound [of "pl_total l"] by simp
  obtain c where c: "checked_sub (pl_total l) (pl_control_reserved l) = Some c"
    "unat (pl_total l) = unat (pl_control_reserved l) + unat c"
    using ok by (cases "checked_sub (pl_total l) (pl_control_reserved l)") (auto simp: permits_ok_def checked)
  have "checked_add (pl_shared_in_use l) (pl_control_reserved_in_use l) = Some (of_nat ?n)"
    "try_of_nat ?n = Some (of_nat ?n :: u32)"
    using sum n by (simp_all add: checked unat_of_nat)
  moreover have "length (filter (\<lambda>pool. pool = Shared) (btree_values (pl_active l))) = unat (pl_shared_in_use l)"
    using ok by (simp add: permits_ok_def pool_count_def filter_map comp_def)
  moreover have "pl_shared_in_use l \<le> c" using ok c(2) by (simp add: permits_ok_def word_le_nat_alt)
  ultimately show ?thesis
    using ok sum c by (simp add: validate_permits_def permits_ok_def not_less)
qed

lemma shared_room:
  "permits_ok l \<Longrightarrow> pl_shared_in_use l < pl_total l - pl_control_reserved l \<longleftrightarrow>
     unat (pl_shared_in_use l) + unat (pl_control_reserved l) < unat (pl_total l)"
  by (auto simp: permits_ok_def word_less_nat_alt word_le_nat_alt unat_sub)

definition issued_pool :: "DomainPermitLedger \<Rightarrow> DispatchClass \<Rightarrow> PermitPool" where
  "issued_pool l class =
     (if is_control class \<and> pl_control_reserved_in_use l < pl_control_reserved l then ControlReserved else Shared)"

definition issued_token :: "DomainPermitLedger \<Rightarrow> DispatchClass \<Rightarrow> DomainPermitToken" where
  "issued_token l class = \<lparr>dt_ledger = pl_id l, dt_permit_id = pl_next_permit_id l + 1,
     dt_pool = issued_pool l class, dt_active = True\<rparr>"

definition with_issued :: "DomainPermitLedger \<Rightarrow> DispatchClass \<Rightarrow> DomainPermitLedger" where
  "with_issued l class = l\<lparr>
     pl_shared_in_use := (if issued_pool l class = Shared then pl_shared_in_use l + 1 else pl_shared_in_use l),
     pl_control_reserved_in_use := (if issued_pool l class = ControlReserved then pl_control_reserved_in_use l + 1
       else pl_control_reserved_in_use l),
     pl_next_permit_id := pl_next_permit_id l + 1,
     pl_active := btree_insert (pl_next_permit_id l + 1) (issued_pool l class) (pl_active l)\<rparr>"

lemma next_permit_fresh:
  assumes "permits_ok l" "pl_next_permit_id l \<noteq> - 1"
  shows "btree_get (pl_active l) (pl_next_permit_id l + 1) = None"
proof -
  have "pl_next_permit_id l + 1 \<notin> fst ` set (pl_active l)"
    using assms(1) succ_greater [OF assms(2)] unfolding permits_ok_def by (metis leD)
  then show ?thesis by (simp add: btree_get_None_iff)
qed

lemma try_acquire_eq:
  assumes "permits_ok l"
  shows "try_acquire l class =
    (if \<not> can_acquire l class then (Inr None, l)
     else if pl_next_permit_id l = - 1 then (Inl PermitCounterOverflow, l)
     else (Inr (Some (issued_token l class)), with_issued l class))"
proof -
  have s: "checked_add (pl_shared_in_use l) 1 = Some (pl_shared_in_use l + 1)"
    if "pl_shared_in_use l < pl_total l - pl_control_reserved l"
    using that by (auto simp: checked_succ)
  have c: "checked_add (pl_control_reserved_in_use l) 1 = Some (pl_control_reserved_in_use l + 1)"
    if "pl_control_reserved_in_use l < pl_control_reserved l"
    using that by (auto simp: checked_succ)
  show ?thesis
    using next_permit_fresh [OF assms] s c
    by (auto simp: try_acquire_def permits_ok_validate [OF assms] can_acquire_def checked_succ issued_token_def
        with_issued_def issued_pool_def Let_def)
qed

lemma with_issued_ok:
  assumes "permits_ok l" "can_acquire l class" "pl_next_permit_id l \<noteq> - 1"
  shows "permits_ok (with_issued l class)"
proof -
  note fresh = next_permit_fresh [OF assms(1,3)]
  have b: "btree_ok (pl_active l)" and keys: "\<And>k. k \<in> fst ` set (pl_active l) \<Longrightarrow> k \<le> pl_next_permit_id l"
    using assms(1) by (auto simp: permits_ok_def)
  have keys': "\<forall>k \<in> fst ` set (btree_insert (pl_next_permit_id l + 1) pool (pl_active l)). k \<le> pl_next_permit_id l + 1" for pool
  proof
    fix k
    assume "k \<in> fst ` set (btree_insert (pl_next_permit_id l + 1) pool (pl_active l))"
    then have "k = pl_next_permit_id l + 1 \<or> k \<in> fst ` set (pl_active l)"
      using set_btree_insert [of "pl_next_permit_id l + 1" pool "pl_active l"] unfolding set_map by blast
    then show "k \<le> pl_next_permit_id l + 1"
    proof
      assume "k \<in> fst ` set (pl_active l)"
      then have "k \<le> pl_next_permit_id l" by (rule keys)
      also have "\<dots> \<le> pl_next_permit_id l + 1" by (rule less_imp_le [OF succ_greater [OF assms(3)]])
      finally show ?thesis .
    qed simp
  qed
  have "unat (pl_shared_in_use l + 1) = unat (pl_shared_in_use l) + 1 \<and>
      unat (pl_shared_in_use l + 1) + unat (pl_control_reserved l) \<le> unat (pl_total l)"
    if "issued_pool l class = Shared"
  proof -
    have less: "pl_shared_in_use l < pl_total l - pl_control_reserved l"
      using that assms(2) by (auto simp: issued_pool_def can_acquire_def split: if_splits)
    then have "pl_shared_in_use l \<noteq> - 1" by auto
    with less unat_succ [OF this] shared_room [OF assms(1)] show ?thesis by simp
  qed
  moreover have "unat (pl_control_reserved_in_use l + 1) = unat (pl_control_reserved_in_use l) + 1 \<and>
      pl_control_reserved_in_use l + 1 \<le> pl_control_reserved l"
    if "issued_pool l class = ControlReserved"
  proof -
    have less: "pl_control_reserved_in_use l < pl_control_reserved l" using that by (auto simp: issued_pool_def split: if_splits)
    then have "pl_control_reserved_in_use l \<noteq> - 1" by auto
    with less unat_succ [OF this] show ?thesis by (auto simp: word_less_nat_alt word_le_nat_alt)
  qed
  ultimately show ?thesis
    using assms(1) b fresh keys'
    by (cases "issued_pool l class") (simp_all add: permits_ok_def with_issued_def btree_ok_insert pool_count_insert)
qed

definition with_released :: "DomainPermitLedger \<Rightarrow> DomainPermitToken \<Rightarrow> DomainPermitLedger" where
  "with_released l token = l\<lparr>
     pl_shared_in_use := (if dt_pool token = Shared then pl_shared_in_use l - 1 else pl_shared_in_use l),
     pl_control_reserved_in_use := (if dt_pool token = ControlReserved then pl_control_reserved_in_use l - 1
       else pl_control_reserved_in_use l),
     pl_active := btree_remove (dt_permit_id token) (pl_active l)\<rparr>"

lemma release_held:
  assumes "permits_ok l" "btree_get (pl_active l) (dt_permit_id token) = Some (dt_pool token)"
  shows "dt_active token \<Longrightarrow> dt_ledger token = pl_id l \<Longrightarrow>
      permit_release l token = (Inr (), with_released l token, token\<lparr>dt_active := False\<rparr>)"
    "permits_ok (with_released l token)"
proof -
  have b: "btree_ok (pl_active l)" using assms(1) by (simp add: permits_ok_def)
  note remove = pool_count_remove [OF b assms(2)]
  have pos: "1 \<le> unat (pl_shared_in_use l)" if "dt_pool token = Shared"
    using that remove [of Shared] assms(1) by (simp add: permits_ok_def)
  have pos': "1 \<le> unat (pl_control_reserved_in_use l)" if "dt_pool token = ControlReserved"
    using that remove [of ControlReserved] assms(1) by (simp add: permits_ok_def)
  have sub: "checked_sub w 1 = Some (w - 1) \<and> unat (w - 1) = unat w - 1" if "1 \<le> unat w" for w :: u32
    using that by (simp add: checked_sub_def word_le_nat_alt unat_sub)
  show "permit_release l token = (Inr (), with_released l token, token\<lparr>dt_active := False\<rparr>)"
    if "dt_active token" "dt_ledger token = pl_id l"
    using assms(2) that sub [OF pos] sub [OF pos']
    by (cases "dt_pool token")
       (simp_all add: permit_release_def with_released_def permits_ok_validate [OF assms(1)] Let_def)
  have keys: "\<forall>k \<in> fst ` set (btree_remove (dt_permit_id token) (pl_active l)). k \<le> pl_next_permit_id l"
    using assms(1) by (auto simp: permits_ok_def btree_remove_def)
  show "permits_ok (with_released l token)"
    using assms(1) keys remove [of Shared] remove [of ControlReserved] sub [OF pos] sub [OF pos']
    by (cases "dt_pool token") (auto simp: with_released_def permits_ok_def btree_ok_remove word_le_nat_alt)
qed

section \<open>Runs\<close>

text \<open>The ledger with the tokens its clients hold. A dropped token keeps its capacity occupied; a token
that was released or that belongs to another ledger may be presented at any time and changes nothing.\<close>

record permit_sys =
  pm_ledger :: DomainPermitLedger
  pm_held :: "DomainPermitToken list"

definition permit_init :: "permit_sys \<Rightarrow> bool" where
  "permit_init y \<longleftrightarrow> (\<exists>ident capacity reserved. permits_try_new ident capacity reserved = Inr (pm_ledger y)) \<and> pm_held y = []"

inductive permit_step :: "permit_sys \<Rightarrow> permit_sys \<Rightarrow> bool" where
  acquire: "try_acquire (pm_ledger y) class = (Inr (Some token), l) \<Longrightarrow>
     permit_step y \<lparr>pm_ledger = l, pm_held = token # pm_held y\<rparr>"
| idle: "try_acquire (pm_ledger y) class = (r, l) \<Longrightarrow> r = Inr None \<or> r = Inl e \<Longrightarrow>
     permit_step y (y\<lparr>pm_ledger := l\<rparr>)"
| release: "token \<in> set (pm_held y) \<Longrightarrow> permit_release (pm_ledger y) token = (r, l, token') \<Longrightarrow>
     permit_step y \<lparr>pm_ledger = l, pm_held = (if dt_active token' then pm_held y else remove1 token (pm_held y))\<rparr>"
| stale: "\<not> dt_active token \<or> dt_ledger token \<noteq> pl_id (pm_ledger y) \<Longrightarrow>
     permit_release (pm_ledger y) token = (r, l, token') \<Longrightarrow> permit_step y (y\<lparr>pm_ledger := l\<rparr>)"
| drop: "token \<in> set (pm_held y) \<Longrightarrow> permit_step y (y\<lparr>pm_held := remove1 token (pm_held y)\<rparr>)"

inductive_cases permit_stepE: "permit_step y z"

definition permit_inv :: "permit_sys \<Rightarrow> bool" where
  "permit_inv y \<longleftrightarrow> permits_ok (pm_ledger y) \<and> distinct (map dt_permit_id (pm_held y)) \<and>
     (\<forall>token \<in> set (pm_held y). dt_active token \<and> dt_ledger token = pl_id (pm_ledger y) \<and>
        btree_get (pl_active (pm_ledger y)) (dt_permit_id token) = Some (dt_pool token))"

lemma permit_init_inv: "permit_init y \<Longrightarrow> permit_inv y"
  by (cases "pm_ledger y") (auto simp: permit_init_def permit_inv_def permits_try_new_def permits_ok_def pool_count_def
      not_less word_le_nat_alt split: if_splits)

lemma held_acquire:
  assumes "permit_inv y" "try_acquire (pm_ledger y) class = (Inr (Some token), l)"
  shows "permit_inv \<lparr>pm_ledger = l, pm_held = token # pm_held y\<rparr>"
proof -
  have ok: "permits_ok (pm_ledger y)" using assms(1) by (simp add: permit_inv_def)
  have c: "can_acquire (pm_ledger y) class" "pl_next_permit_id (pm_ledger y) \<noteq> - 1"
    and l: "l = with_issued (pm_ledger y) class" "token = issued_token (pm_ledger y) class"
    using assms(2) by (auto simp: try_acquire_eq [OF ok] split: if_splits)
  note fresh = next_permit_fresh [OF ok c(2)]
  have b: "btree_ok (pl_active (pm_ledger y))" using ok by (simp add: permits_ok_def)
  have "dt_permit_id t \<noteq> pl_next_permit_id (pm_ledger y) + 1" if "t \<in> set (pm_held y)" for t
    using assms(1) that fresh by (auto simp: permit_inv_def)
  then show ?thesis
    using assms(1) with_issued_ok [OF ok c] unfolding l
    by (fastforce simp: permit_inv_def issued_token_def with_issued_def btree_get_insert [OF b])
qed

lemma held_release:
  assumes "permit_inv y" "token \<in> set (pm_held y)"
  shows "permit_release (pm_ledger y) token = (Inr (), with_released (pm_ledger y) token, token\<lparr>dt_active := False\<rparr>)"
    "permit_inv \<lparr>pm_ledger = with_released (pm_ledger y) token, pm_held = remove1 token (pm_held y)\<rparr>"
proof -
  have ok: "permits_ok (pm_ledger y)" and t: "dt_active token" "dt_ledger token = pl_id (pm_ledger y)"
    "btree_get (pl_active (pm_ledger y)) (dt_permit_id token) = Some (dt_pool token)"
    using assms by (auto simp: permit_inv_def)
  show "permit_release (pm_ledger y) token = (Inr (), with_released (pm_ledger y) token, token\<lparr>dt_active := False\<rparr>)"
    by (rule release_held(1) [OF ok t(3,1,2)])
  have b: "btree_ok (pl_active (pm_ledger y))" using ok by (simp add: permits_ok_def)
  have dist: "distinct (map dt_permit_id (pm_held y))" using assms(1) by (simp add: permit_inv_def)
  then have "distinct (pm_held y)" "inj_on dt_permit_id (set (pm_held y))" by (simp_all add: distinct_map)
  then have other: "dt_permit_id s \<noteq> dt_permit_id token" if "s \<in> set (remove1 token (pm_held y))" for s
    using that assms(2) by (auto dest: inj_onD)
  have "distinct (map dt_permit_id (remove1 token (pm_held y)))"
    using dist by (metis distinct_map distinct_remove1 inj_on_subset set_remove1_subset)
  moreover have "btree_get (pl_active (with_released (pm_ledger y) token)) (dt_permit_id s) = btree_get (pl_active (pm_ledger y)) (dt_permit_id s)"
    if "s \<in> set (remove1 token (pm_held y))" for s
    using other [OF that] by (simp add: with_released_def btree.get_remove_present [OF b t(3)])
  moreover have "pl_id (with_released (pm_ledger y) token) = pl_id (pm_ledger y)" by (simp add: with_released_def)
  ultimately show "permit_inv \<lparr>pm_ledger = with_released (pm_ledger y) token, pm_held = remove1 token (pm_held y)\<rparr>"
    using assms(1) release_held(2) [OF ok t(3)] notin_set_remove1 [of _ "pm_held y" token] unfolding permit_inv_def by auto
qed

lemma stale_release:
  assumes "permits_ok l" "\<not> dt_active token \<or> dt_ledger token \<noteq> pl_id l"
  shows "permit_release l token = (Inl (if dt_active token then LedgerMismatch else AlreadyReleased), l, token)"
  using assms by (auto simp: permit_release_def permits_ok_validate)

lemma permit_step_inv:
  assumes "permit_inv y" "permit_step y z"
  shows "permit_inv z"
proof -
  have ok: "permits_ok (pm_ledger y)" using assms(1) by (simp add: permit_inv_def)
  show ?thesis using assms(2)
  proof cases
    case (acquire c token l)
    then show ?thesis using held_acquire [OF assms(1)] by simp
  next
    case (idle c r l e)
    then show ?thesis using assms(1) by (auto simp: try_acquire_eq [OF ok] split: if_splits)
  next
    case (release token r l token')
    then show ?thesis using held_release [OF assms(1) release(2)] by auto
  next
    case (stale token r l token')
    then show ?thesis using assms(1) stale_release [OF ok stale(2)] by auto
  next
    case (drop token)
    then show ?thesis using assms(1) set_remove1_subset [of token "pm_held y"]
      by (auto simp: permit_inv_def subset_iff distinct_map intro: inj_on_subset)
  qed
qed

interpretation permits: state_machine permit_init permit_step permit_inv
  by unfold_locales (auto intro: permit_init_inv permit_step_inv)

end
