(* ===== verification/Mailbox_Data.thy ===== *)
theory Mailbox_Data
  imports Contracts_Assignment
begin

text \<open>
  The data of the target mailbox, \<open>crates/paraegox-runtime/src/mailbox.rs\<close>: messages and their
  payloads, outcomes and errors, counters, the queue, the in-flight cohort and the mailbox
  itself. Identities of messages keep their own type, ordered as the source derives it.
\<close>

section \<open>Data\<close>

datatype MessageId = MessageId (mid_bytes: bytes16)

instantiation MessageId :: linorder
begin

definition less_eq_MessageId :: "MessageId \<Rightarrow> MessageId \<Rightarrow> bool" where
  "less_eq_MessageId a b \<longleftrightarrow> mid_bytes a \<le> mid_bytes b"

definition less_MessageId :: "MessageId \<Rightarrow> MessageId \<Rightarrow> bool" where
  "less_MessageId a b \<longleftrightarrow> mid_bytes a < mid_bytes b"

instance
  by standard (auto simp: less_eq_MessageId_def less_MessageId_def MessageId.expand)

end

type_synonym CoalesceKey = bytes16

record PayloadHandle =
  ph_bytes :: bytes
  ph_charged_bytes :: u64

datatype MessageClass = ClassSignal | ClassEvent | ClassCommand

record ValidatedMessage =
  vm_id :: MessageId
  vm_schema :: SchemaRef
  vm_class :: MessageClass
  vm_coalesce_key :: "CoalesceKey option"
  vm_fresh_until :: MonotonicDeadline
  vm_run_deadline :: MonotonicDeadline
  vm_payload :: PayloadHandle

datatype RejectionReason =
    RejSchemaMismatch
  | RejInteractionMismatch
  | DuplicateActiveMessage
  | PayloadTooLarge
  | MissingCoalesceKey
  | CapacityFull
  | RetainedCapacityFull

datatype TerminalReason =
    Completed
  | Failed
  | Cancelled
  | ExpiredAfterAdmission
  | StaleBeforeRun
  | RunDeadlineExpired
  | QueueAgeExpired
  | Evicted
  | Coalesced
  | Uncertain

record TerminalRecord =
  tr_message_id :: MessageId
  tr_reason :: TerminalReason
  tr_released_bytes :: u64

datatype EnqueueOutcome =
    Admitted
  | Rejected RejectionReason ValidatedMessage
  | ExpiredBeforeAdmission ValidatedMessage
  | OfferClosed ValidatedMessage
  | WouldBlock ValidatedMessage MonotonicDeadline

record OfferReport =
  or_outcome :: EnqueueOutcome
  or_terminals :: "TerminalRecord list"

datatype MailboxError =
    InvalidMailboxSpec
  | UnsupportedInteractionPolicy
  | PayloadSizeOverflow
  | MbClockDomainMismatch
  | MbClockGenerationMismatch
  | MbDeadlineOverflow
  | CounterOverflow
  | StateInconsistent
  | InvalidTerminalReason
  | InflightTokenMismatch
  | AbandonRequiresDraining
  | CancelRequiresDraining

record OfferFailure =
  of_error :: MailboxError
  of_message :: ValidatedMessage

datatype MailboxLifecycle = Accepting | Draining | Closed

record OfferCounters =
  oc_offered :: u64
  oc_admitted :: u64
  oc_rejected :: u64
  oc_closed :: u64
  oc_expired_before_admission :: u64

datatype OfferCategory = CatAdmitted | CatRejected | CatClosed | CatExpiredBeforeAdmission

record TerminalCounters =
  tc_completed :: u64
  tc_failed :: u64
  tc_cancelled :: u64
  tc_expired_after_admission :: u64
  tc_stale_before_run :: u64
  tc_run_deadline_expired :: u64
  tc_queue_age_expired :: u64
  tc_evicted :: u64
  tc_coalesced :: u64
  tc_uncertain :: u64

record MailboxSnapshot =
  sn_lifecycle :: MailboxLifecycle
  sn_queued_items :: u32
  sn_queued_bytes :: u64
  sn_inflight_items :: u32
  sn_inflight_bytes :: u64
  sn_retained_bytes :: u64
  sn_offers :: OfferCounters
  sn_terminals :: TerminalCounters

record QueuedMessage =
  qm_message :: ValidatedMessage
  qm_queue_age_deadline :: MonotonicDeadline

record MailboxHeadHint =
  hh_mailbox :: MailboxRef
  hh_message_id :: MessageId
  hh_charged_bytes :: u64
  hh_fresh_until :: MonotonicDeadline
  hh_run_deadline :: MonotonicDeadline
  hh_queue_age_deadline :: MonotonicDeadline

datatype MailboxHeadReadiness =
    HeadReady MailboxHeadHint
  | HeadExpired MailboxHeadHint TerminalReason
  | HeadEmpty
  | HeadNoPermit MailboxHeadHint
  | HeadClosed

record InflightAccounting =
  ia_token_generation :: u64
  ia_payload_bytes :: u64

record InflightToken =
  it_mailbox :: MailboxRef
  it_token_generation :: u64
  it_message :: ValidatedMessage

datatype DispatchOutcome = Started InflightToken | NoQueuedMessage | NoPermit | DispatchClosed

record DispatchReport =
  dr_outcome :: DispatchOutcome
  dr_expired :: "TerminalRecord list"

record FinishFailure =
  ff_error :: MailboxError
  ff_token :: InflightToken

record MailboxLimits =
  ml_capacity_items :: u32
  ml_capacity_bytes :: u64
  ml_max_queue_age :: BoundedDuration
  ml_max_inflight :: u32
  ml_max_retained_bytes :: u64
  ml_overflow :: OverflowPolicy

record Mailbox =
  mb_reference :: MailboxRef
  mb_schema :: SchemaRef
  mb_interaction :: InteractionKind
  mb_message_class :: MessageClass
  mb_spec :: MailboxSpec
  mb_clock_domain :: ClockDomainRef
  mb_clock_generation :: ClockGeneration
  mb_limits :: MailboxLimits
  mb_lifecycle :: MailboxLifecycle
  mb_queue :: "QueuedMessage list"
  mb_inflight :: "(MessageId, InflightAccounting) btree_map"
  mb_queued_bytes :: u64
  mb_inflight_bytes :: u64
  mb_next_token_generation :: u64
  mb_offers :: OfferCounters
  mb_terminals :: TerminalCounters

datatype PlannedOffer = PlanAdmit | PlanRejected RejectionReason | PlanExpired | PlanWouldBlock

record CapacityFit =
  cf_items :: bool
  cf_queued_bytes :: bool
  cf_retained_bytes :: bool

end
