(* ===== verification/Mailbox_Ops.thy ===== *)
theory Mailbox_Ops
  imports Mailbox_Data
begin

text \<open>
  The operations of the target mailbox, \<open>crates/paraegox-runtime/src/mailbox.rs\<close>. Operations
  that take \<open>&mut self\<close> return the next mailbox beside their result, also when they fail, so
  that "an error changes nothing" is a statement about them.

  \<open>VecDeque\<close> and \<open>Vec\<close> are lists and their lengths natural numbers. A \<open>binary_search\<close> in a
  list of queue indices is membership: the lists the code searches are ascending, since the
  code builds them in queue order or sorts them first.
\<close>

section \<open>Messages and counters\<close>

definition payload_try_from_vec :: "bytes \<Rightarrow> MailboxError + PayloadHandle" where
  "payload_try_from_vec bs =
     and_then (ok_or (try_of_nat (length bs)) PayloadSizeOverflow) (\<lambda>charged_bytes.
       Inr \<lparr>ph_bytes = bs, ph_charged_bytes = charged_bytes\<rparr>)"

fun from_interaction :: "InteractionKind \<Rightarrow> MessageClass" where
  "from_interaction Signal = ClassSignal"
| "from_interaction Event = ClassEvent"

fun assignment_interaction :: "MessageClass \<Rightarrow> InteractionKind option" where
  "assignment_interaction ClassSignal = Some Signal"
| "assignment_interaction ClassEvent = Some Event"
| "assignment_interaction ClassCommand = None"

definition message_new_with_deadlines ::
  "MessageId \<Rightarrow> SchemaRef \<Rightarrow> InteractionKind \<Rightarrow> CoalesceKey option \<Rightarrow> MonotonicDeadline \<Rightarrow>
   MonotonicDeadline \<Rightarrow> PayloadHandle \<Rightarrow> ValidatedMessage" where
  "message_new_with_deadlines i schema interaction coalesce_key fresh_until run_deadline payload =
     \<lparr>vm_id = i, vm_schema = schema, vm_class = from_interaction interaction,
      vm_coalesce_key = coalesce_key, vm_fresh_until = fresh_until,
      vm_run_deadline = run_deadline, vm_payload = payload\<rparr>"

definition message_new ::
  "MessageId \<Rightarrow> SchemaRef \<Rightarrow> InteractionKind \<Rightarrow> CoalesceKey option \<Rightarrow> MonotonicDeadline \<Rightarrow>
   PayloadHandle \<Rightarrow> ValidatedMessage" where
  "message_new i schema interaction coalesce_key deadline payload =
     \<lparr>vm_id = i, vm_schema = schema, vm_class = from_interaction interaction,
      vm_coalesce_key = coalesce_key, vm_fresh_until = deadline,
      vm_run_deadline = deadline, vm_payload = payload\<rparr>"

fun is_inflight_completion :: "TerminalReason \<Rightarrow> bool" where
  "is_inflight_completion QueueAgeExpired = False"
| "is_inflight_completion Evicted = False"
| "is_inflight_completion Coalesced = False"
| "is_inflight_completion _ = True"

fun is_admitted :: "EnqueueOutcome \<Rightarrow> bool" where
  "is_admitted Admitted = True"
| "is_admitted _ = False"

fun is_dispatchable :: "MailboxHeadReadiness \<Rightarrow> bool" where
  "is_dispatchable (HeadReady _) = True"
| "is_dispatchable _ = False"

definition checked_terminal :: "OfferCategory \<Rightarrow> OfferCounters \<Rightarrow> MailboxError + OfferCounters" where
  "checked_terminal category self =
     and_then (ok_or (checked_add (oc_offered self) 1) CounterOverflow) (\<lambda>offered.
       let next = self\<lparr>oc_offered := offered\<rparr> in
       case category of
         CatAdmitted \<Rightarrow>
           and_then (ok_or (checked_add (oc_admitted next) 1) CounterOverflow) (\<lambda>n.
             Inr (next\<lparr>oc_admitted := n\<rparr>))
       | CatRejected \<Rightarrow>
           and_then (ok_or (checked_add (oc_rejected next) 1) CounterOverflow) (\<lambda>n.
             Inr (next\<lparr>oc_rejected := n\<rparr>))
       | CatClosed \<Rightarrow>
           and_then (ok_or (checked_add (oc_closed next) 1) CounterOverflow) (\<lambda>n.
             Inr (next\<lparr>oc_closed := n\<rparr>))
       | CatExpiredBeforeAdmission \<Rightarrow>
           and_then (ok_or (checked_add (oc_expired_before_admission next) 1) CounterOverflow) (\<lambda>n.
             Inr (next\<lparr>oc_expired_before_admission := n\<rparr>)))"

text \<open>A chain of \<open>checked_add\<close> joined with \<open>and_then\<close> is the checked sum of its operands.\<close>

definition offers_validate :: "OfferCounters \<Rightarrow> MailboxError + unit" where
  "offers_validate self =
     and_then (ok_or (try_sum (oc_admitted self)
                  [oc_rejected self, oc_closed self, oc_expired_before_admission self])
                StateInconsistent) (\<lambda>terminal_total.
       if terminal_total \<noteq> oc_offered self then Inl StateInconsistent else Inr ())"

fun counter_of :: "TerminalReason \<Rightarrow> TerminalCounters \<Rightarrow> u64" where
  "counter_of Completed c = tc_completed c"
| "counter_of Failed c = tc_failed c"
| "counter_of Cancelled c = tc_cancelled c"
| "counter_of ExpiredAfterAdmission c = tc_expired_after_admission c"
| "counter_of StaleBeforeRun c = tc_stale_before_run c"
| "counter_of RunDeadlineExpired c = tc_run_deadline_expired c"
| "counter_of QueueAgeExpired c = tc_queue_age_expired c"
| "counter_of Evicted c = tc_evicted c"
| "counter_of Coalesced c = tc_coalesced c"
| "counter_of Uncertain c = tc_uncertain c"

fun set_counter :: "TerminalReason \<Rightarrow> u64 \<Rightarrow> TerminalCounters \<Rightarrow> TerminalCounters" where
  "set_counter Completed n c = c\<lparr>tc_completed := n\<rparr>"
| "set_counter Failed n c = c\<lparr>tc_failed := n\<rparr>"
| "set_counter Cancelled n c = c\<lparr>tc_cancelled := n\<rparr>"
| "set_counter ExpiredAfterAdmission n c = c\<lparr>tc_expired_after_admission := n\<rparr>"
| "set_counter StaleBeforeRun n c = c\<lparr>tc_stale_before_run := n\<rparr>"
| "set_counter RunDeadlineExpired n c = c\<lparr>tc_run_deadline_expired := n\<rparr>"
| "set_counter QueueAgeExpired n c = c\<lparr>tc_queue_age_expired := n\<rparr>"
| "set_counter Evicted n c = c\<lparr>tc_evicted := n\<rparr>"
| "set_counter Coalesced n c = c\<lparr>tc_coalesced := n\<rparr>"
| "set_counter Uncertain n c = c\<lparr>tc_uncertain := n\<rparr>"

definition checked_increment :: "TerminalReason \<Rightarrow> TerminalCounters \<Rightarrow> MailboxError + TerminalCounters" where
  "checked_increment reason self =
     and_then (ok_or (checked_add (counter_of reason self) 1) CounterOverflow) (\<lambda>n.
       Inr (set_counter reason n self))"

fun checked_increment_records ::
  "TerminalRecord list \<Rightarrow> TerminalCounters \<Rightarrow> MailboxError + TerminalCounters" where
  "checked_increment_records [] counters = Inr counters"
| "checked_increment_records (r # rs) counters =
     and_then (checked_increment (tr_reason r) counters) (checked_increment_records rs)"

definition terminals_total :: "TerminalCounters \<Rightarrow> MailboxError + u64" where
  "terminals_total self =
     ok_or (try_sum (tc_completed self)
              [tc_failed self, tc_cancelled self, tc_expired_after_admission self,
               tc_stale_before_run self, tc_run_deadline_expired self, tc_queue_age_expired self,
               tc_evicted self, tc_coalesced self, tc_uncertain self]) StateInconsistent"

fun offer_category :: "PlannedOffer \<Rightarrow> OfferCategory option" where
  "offer_category PlanAdmit = Some CatAdmitted"
| "offer_category (PlanRejected _) = Some CatRejected"
| "offer_category PlanExpired = Some CatExpiredBeforeAdmission"
| "offer_category PlanWouldBlock = Some CatRejected"

definition is_full_fit :: "CapacityFit \<Rightarrow> bool" where
  "is_full_fit self \<longleftrightarrow> cf_items self \<and> cf_queued_bytes self \<and> cf_retained_bytes self"

definition rejection_reason :: "CapacityFit \<Rightarrow> RejectionReason" where
  "rejection_reason self =
     (if \<not> cf_items self \<or> \<not> cf_queued_bytes self then CapacityFull else RetainedCapacityFull)"

fun mailbox_time_error :: "TimeError \<Rightarrow> MailboxError" where
  "mailbox_time_error ClockDomainMismatch = MbClockDomainMismatch"
| "mailbox_time_error ClockGenerationMismatch = MbClockGenerationMismatch"
| "mailbox_time_error DeadlineOverflow = MbDeadlineOverflow"
| "mailbox_time_error InvalidClockGeneration = StateInconsistent"

section \<open>Construction\<close>

definition mailbox_try_new_with_class ::
  "MailboxRef \<Rightarrow> SchemaRef \<Rightarrow> InteractionKind \<Rightarrow> MessageClass \<Rightarrow> MailboxSpec \<Rightarrow> ClockDomainRef \<Rightarrow>
   ClockGeneration \<Rightarrow> MailboxError + Mailbox" where
  "mailbox_try_new_with_class reference schema interaction message_class spec clock_domain
       clock_generation =
     (let limits = \<lparr>ml_capacity_items = ms_capacity_items spec,
                    ml_capacity_bytes = ms_capacity_bytes spec,
                    ml_max_queue_age = ms_max_queue_age spec,
                    ml_max_inflight = ms_max_inflight spec,
                    ml_max_retained_bytes = ms_max_retained_bytes spec,
                    ml_overflow = ms_overflow_policy spec\<rparr> in
      if ml_capacity_items limits = 0 \<or> ml_capacity_bytes limits = 0
         \<or> ml_max_inflight limits = 0 \<or> ml_max_retained_bytes limits = 0
      then Inl InvalidMailboxSpec
      else if \<not> (case (message_class, ml_overflow limits) of
                   (ClassSignal, _) \<Rightarrow> True
                 | (ClassEvent, RejectNew) \<Rightarrow> True
                 | (ClassEvent, BlockUntilDeadline) \<Rightarrow> True
                 | (ClassCommand, RejectNew) \<Rightarrow> True
                 | _ \<Rightarrow> False)
      then Inl UnsupportedInteractionPolicy
      else Inr \<lparr>mb_reference = reference, mb_schema = schema, mb_interaction = interaction,
                mb_message_class = message_class, mb_spec = spec, mb_clock_domain = clock_domain,
                mb_clock_generation = clock_generation, mb_limits = limits,
                mb_lifecycle = Accepting, mb_queue = [], mb_inflight = [], mb_queued_bytes = 0,
                mb_inflight_bytes = 0, mb_next_token_generation = 0,
                mb_offers = \<lparr>oc_offered = 0, oc_admitted = 0, oc_rejected = 0, oc_closed = 0,
                             oc_expired_before_admission = 0\<rparr>,
                mb_terminals = \<lparr>tc_completed = 0, tc_failed = 0, tc_cancelled = 0,
                                tc_expired_after_admission = 0, tc_stale_before_run = 0,
                                tc_run_deadline_expired = 0, tc_queue_age_expired = 0,
                                tc_evicted = 0, tc_coalesced = 0, tc_uncertain = 0\<rparr>\<rparr>)"

definition mailbox_try_new ::
  "MailboxRef \<Rightarrow> SchemaRef \<Rightarrow> InteractionKind \<Rightarrow> MailboxSpec \<Rightarrow> ClockDomainRef \<Rightarrow>
   ClockGeneration \<Rightarrow> MailboxError + Mailbox" where
  "mailbox_try_new reference schema interaction spec clock_domain clock_generation =
     mailbox_try_new_with_class reference schema interaction (from_interaction interaction) spec
       clock_domain clock_generation"

section \<open>Checks and views of the queue\<close>

definition close_if_drained_internal :: "Mailbox \<Rightarrow> Mailbox" where
  "close_if_drained_internal self =
     (if mb_lifecycle self = Draining \<and> mb_queue self = [] \<and> mb_inflight self = []
      then self\<lparr>mb_lifecycle := Closed\<rparr> else self)"

definition ensure_reading :: "Mailbox \<Rightarrow> ClockReading \<Rightarrow> MailboxError + unit" where
  "ensure_reading self reading =
     (if rd_domain reading \<noteq> mb_clock_domain self then Inl MbClockDomainMismatch
      else if rd_generation reading \<noteq> mb_clock_generation self then Inl MbClockGenerationMismatch
      else Inr ())"

definition expiration_reason ::
  "QueuedMessage \<Rightarrow> ClockReading \<Rightarrow> MailboxError + TerminalReason option" where
  "expiration_reason item reading =
     (let run = dl_deadline (vm_run_deadline (qm_message item));
          fresh = dl_deadline (vm_fresh_until (qm_message item));
          queue_age = dl_deadline (qm_queue_age_deadline item);
          (deadline, reason) =
            (if run \<le> fresh \<and> run \<le> queue_age
             then (vm_run_deadline (qm_message item), RunDeadlineExpired)
             else if fresh \<le> queue_age then (vm_fresh_until (qm_message item), StaleBeforeRun)
             else (qm_queue_age_deadline item, QueueAgeExpired))
      in and_then (map_err mailbox_time_error (is_expired_at deadline reading)) (\<lambda>expired.
           Inr (if expired then Some reason else None)))"

fun expired_from ::
  "ClockReading \<Rightarrow> nat \<Rightarrow> QueuedMessage list \<Rightarrow> MailboxError + (nat \<times> TerminalReason) list" where
  "expired_from reading index [] = Inr []"
| "expired_from reading index (item # rest) =
     and_then (expiration_reason item reading) (\<lambda>found.
     and_then (expired_from reading (index + 1) rest) (\<lambda>items.
       Inr (case found of None \<Rightarrow> items | Some reason \<Rightarrow> (index, reason) # items)))"

definition expired_items :: "Mailbox \<Rightarrow> ClockReading \<Rightarrow> MailboxError + (nat \<times> TerminalReason) list" where
  "expired_items self reading = expired_from reading 0 (mb_queue self)"

definition indices_for_expired_items :: "(nat \<times> TerminalReason) list \<Rightarrow> nat list" where
  "indices_for_expired_items items = map fst items"

definition terminal_record :: "QueuedMessage \<Rightarrow> TerminalReason \<Rightarrow> TerminalRecord" where
  "terminal_record item reason =
     \<lparr>tr_message_id = vm_id (qm_message item), tr_reason = reason,
      tr_released_bytes = ph_charged_bytes (vm_payload (qm_message item))\<rparr>"

definition records_for_expired_items ::
  "Mailbox \<Rightarrow> (nat \<times> TerminalReason) list \<Rightarrow> TerminalRecord list" where
  "records_for_expired_items self items =
     map (\<lambda>(index, reason). terminal_record (mb_queue self ! index) reason) items"

definition live_indices_excluding :: "Mailbox \<Rightarrow> nat list \<Rightarrow> nat list" where
  "live_indices_excluding self excluded =
     filter (\<lambda>index. index \<notin> set excluded) [0..<length (mb_queue self)]"

definition records_for_indices :: "Mailbox \<Rightarrow> nat list \<Rightarrow> TerminalReason \<Rightarrow> TerminalRecord list" where
  "records_for_indices self indices reason =
     map (\<lambda>(index, item). terminal_record item reason)
       (filter (\<lambda>(index, item). index \<in> set indices) (enumerate 0 (mb_queue self)))"

definition bytes_for_indices :: "Mailbox \<Rightarrow> nat list \<Rightarrow> MailboxError + u64" where
  "bytes_for_indices self indices =
     ok_or (try_sum 0 (map (\<lambda>(index, item). ph_charged_bytes (vm_payload (qm_message item)))
              (filter (\<lambda>(index, item). index \<in> set indices) (enumerate 0 (mb_queue self)))))
       CounterOverflow"

text \<open>
  The removal loop pops every item of the original queue once and pushes the kept ones back;
  the middle equation is the \<open>unreachable!\<close> arm.
\<close>

fun remove_loop :: "nat \<Rightarrow> nat \<Rightarrow> nat list \<Rightarrow> 'a list \<Rightarrow> 'a list" where
  "remove_loop 0 index indices queue = queue"
| "remove_loop (Suc n) index indices [] = []"
| "remove_loop (Suc n) index indices (item # queue) =
     remove_loop n (index + 1) indices (if index \<in> set indices then queue else queue @ [item])"

definition remove_queue_indices :: "nat list \<Rightarrow> Mailbox \<Rightarrow> Mailbox" where
  "remove_queue_indices indices self =
     self\<lparr>mb_queue := remove_loop (length (mb_queue self)) 0 indices (mb_queue self)\<rparr>"

text \<open>Checked arithmetic on collection lengths (\<open>usize\<close>).\<close>

definition len_checked_sub :: "nat \<Rightarrow> nat \<Rightarrow> nat option" where
  "len_checked_sub a b = (if b \<le> a then Some (a - b) else None)"

definition len_checked_add :: "nat \<Rightarrow> nat \<Rightarrow> nat option" where
  "len_checked_add a b = (if a + b < 2 ^ 64 then Some (a + b) else None)"

definition fit_after_removing ::
  "Mailbox \<Rightarrow> nat list \<Rightarrow> nat list \<Rightarrow> u64 \<Rightarrow> MailboxError + CapacityFit" where
  "fit_after_removing self expired displaced incoming_bytes =
     (let removed = remdups_adj (sort (expired @ displaced)) in
      and_then (bytes_for_indices self removed) (\<lambda>removed_bytes.
      and_then (ok_or (Option.bind (len_checked_sub (length (mb_queue self)) (length removed))
                         (\<lambda>value. len_checked_add value 1)) CounterOverflow) (\<lambda>queued_items.
      and_then (ok_or (try_of_nat queued_items :: u32 option) CounterOverflow) (\<lambda>queued_items.
      and_then (ok_or (Option.bind (checked_sub (mb_queued_bytes self) removed_bytes)
                         (\<lambda>value. checked_add value incoming_bytes)) CounterOverflow) (\<lambda>queued_bytes.
      and_then (ok_or (checked_add queued_bytes (mb_inflight_bytes self)) CounterOverflow) (\<lambda>retained_bytes.
        Inr \<lparr>cf_items = (queued_items \<le> ml_capacity_items (mb_limits self)),
             cf_queued_bytes = (queued_bytes \<le> ml_capacity_bytes (mb_limits self)),
             cf_retained_bytes = (retained_bytes \<le> ml_max_retained_bytes (mb_limits self))\<rparr>))))))"

definition item_on_clock :: "Mailbox \<Rightarrow> QueuedMessage \<Rightarrow> bool" where
  "item_on_clock self item \<longleftrightarrow>
     (\<forall>deadline \<in> {qm_queue_age_deadline item, vm_fresh_until (qm_message item),
                   vm_run_deadline (qm_message item)}.
        dl_domain deadline = mb_clock_domain self \<and>
        dl_generation deadline = mb_clock_generation self)"

fun collect_queued ::
  "Mailbox \<Rightarrow> MessageId set \<Rightarrow> QueuedMessage list \<Rightarrow> MailboxError + MessageId set" where
  "collect_queued self active [] = Inr active"
| "collect_queued self active (item # rest) =
     (if \<not> item_on_clock self item \<or> vm_id (qm_message item) \<in> active
      then Inl StateInconsistent
      else collect_queued self (insert (vm_id (qm_message item)) active) rest)"

fun collect_inflight :: "MessageId set \<Rightarrow> MessageId list \<Rightarrow> MailboxError + MessageId set" where
  "collect_inflight active [] = Inr active"
| "collect_inflight active (message_id # rest) =
     (if message_id \<in> active then Inl StateInconsistent
      else collect_inflight (insert message_id active) rest)"

definition validate_state :: "Mailbox \<Rightarrow> MailboxError + unit" where
  "validate_state self =
     and_then (offers_validate (mb_offers self)) (\<lambda>_.
     and_then (ok_or (try_of_nat (length (mb_queue self)) :: u32 option) StateInconsistent) (\<lambda>queued_items.
     and_then (ok_or (try_of_nat (length (mb_inflight self)) :: u32 option) StateInconsistent) (\<lambda>inflight_items.
     if queued_items > ml_capacity_items (mb_limits self)
        \<or> inflight_items > ml_max_inflight (mb_limits self)
        \<or> mb_queued_bytes self > ml_capacity_bytes (mb_limits self)
     then Inl StateInconsistent
     else
     and_then (ok_or (try_sum 0 (map (\<lambda>item. ph_charged_bytes (vm_payload (qm_message item)))
                        (mb_queue self))) StateInconsistent) (\<lambda>recomputed_queued.
     and_then (ok_or (try_sum 0 (map ia_payload_bytes (btree_values (mb_inflight self))))
                 StateInconsistent) (\<lambda>recomputed_inflight.
     if recomputed_queued \<noteq> mb_queued_bytes self \<or> recomputed_inflight \<noteq> mb_inflight_bytes self
     then Inl StateInconsistent
     else
     and_then (ok_or (checked_add (mb_queued_bytes self) (mb_inflight_bytes self))
                 StateInconsistent) (\<lambda>retained.
     if retained > ml_max_retained_bytes (mb_limits self) then Inl StateInconsistent
     else
     and_then (collect_queued self {} (mb_queue self)) (\<lambda>active.
     and_then (collect_inflight active (map fst (mb_inflight self))) (\<lambda>_.
     and_then (ok_or (checked_add (ucast queued_items :: u64) (ucast inflight_items))
                 StateInconsistent) (\<lambda>active_count.
     and_then (terminals_total (mb_terminals self)) (\<lambda>total.
     and_then (ok_or (checked_add active_count total) StateInconsistent) (\<lambda>admitted_accounted.
     if admitted_accounted \<noteq> oc_admitted (mb_offers self) then Inl StateInconsistent
     else if mb_lifecycle self = Closed \<and> active_count \<noteq> 0 then Inl StateInconsistent
     else Inr ())))))))))))"

section \<open>Offering a message\<close>

definition initial_decision :: "Mailbox \<Rightarrow> ValidatedMessage \<Rightarrow> bool \<Rightarrow> bool \<Rightarrow> PlannedOffer" where
  "initial_decision self message expired duplicate =
     (if expired then PlanExpired
      else if vm_schema message \<noteq> mb_schema self then PlanRejected RejSchemaMismatch
      else if vm_class message \<noteq> mb_message_class self then PlanRejected RejInteractionMismatch
      else if duplicate then PlanRejected DuplicateActiveMessage
      else if ph_charged_bytes (vm_payload message) > ml_capacity_bytes (mb_limits self)
              \<or> ph_charged_bytes (vm_payload message) > ml_max_retained_bytes (mb_limits self)
        then PlanRejected PayloadTooLarge
      else if ml_overflow (mb_limits self) = CoalesceByKey \<and> vm_coalesce_key message = None
        then PlanRejected MissingCoalesceKey
      else PlanAdmit)"

definition initial_displaced ::
  "Mailbox \<Rightarrow> ValidatedMessage \<Rightarrow> nat list \<Rightarrow> nat list \<times> TerminalReason" where
  "initial_displaced self message live_indices =
     (case ml_overflow (mb_limits self) of
        Latest \<Rightarrow> (live_indices, Evicted)
      | CoalesceByKey \<Rightarrow>
          (case List.find (\<lambda>index. vm_coalesce_key (qm_message (mb_queue self ! index)) =
                                    vm_coalesce_key message) (rev live_indices) of
             Some index \<Rightarrow> ([index], Coalesced)
           | None \<Rightarrow> ([], Evicted))
      | _ \<Rightarrow> ([], Evicted))"

fun drop_oldest ::
  "Mailbox \<Rightarrow> nat list \<Rightarrow> u64 \<Rightarrow> nat list \<Rightarrow> nat list \<Rightarrow> MailboxError + nat list" where
  "drop_oldest self expired incoming_bytes displaced [] = Inr displaced"
| "drop_oldest self expired incoming_bytes displaced (index # rest) =
     (if index \<in> set displaced then drop_oldest self expired incoming_bytes displaced rest
      else
        let displaced = sort (displaced @ [index]) in
        and_then (fit_after_removing self expired displaced incoming_bytes) (\<lambda>fit.
          if is_full_fit fit then Inr displaced
          else drop_oldest self expired incoming_bytes displaced rest))"

definition plan_admission ::
  "Mailbox \<Rightarrow> ValidatedMessage \<Rightarrow> nat list \<Rightarrow> nat list \<Rightarrow>
   MailboxError + PlannedOffer \<times> nat list \<times> TerminalReason" where
  "plan_admission self message expired live_indices =
     (let (displaced, reason) = initial_displaced self message live_indices;
          incoming = ph_charged_bytes (vm_payload message) in
      and_then (fit_after_removing self expired displaced incoming) (\<lambda>initial_fit.
      if is_full_fit initial_fit then Inr (PlanAdmit, displaced, reason)
      else if ml_overflow (mb_limits self) = RejectNew
        then Inr (PlanRejected (rejection_reason initial_fit), displaced, reason)
      else if ml_overflow (mb_limits self) = BlockUntilDeadline
        then Inr (PlanWouldBlock, displaced, reason)
      else
      and_then (if ml_overflow (mb_limits self) = DropOldest
                then drop_oldest self expired incoming displaced live_indices
                else Inr displaced) (\<lambda>displaced.
      and_then (fit_after_removing self expired displaced incoming) (\<lambda>final_fit.
        if \<not> is_full_fit final_fit
        then Inr (PlanRejected (rejection_reason final_fit), [], reason)
        else Inr (PlanAdmit, displaced, reason)))))"

fun outcome_of :: "PlannedOffer \<Rightarrow> ValidatedMessage \<Rightarrow> EnqueueOutcome" where
  "outcome_of PlanAdmit message = Admitted"
| "outcome_of (PlanRejected reason) message = Rejected reason message"
| "outcome_of PlanExpired message = ExpiredBeforeAdmission message"
| "outcome_of PlanWouldBlock message =
     WouldBlock message
       (if dl_deadline (vm_fresh_until message) \<le> dl_deadline (vm_run_deadline message)
        then vm_fresh_until message else vm_run_deadline message)"

text \<open>Every early return of \<open>try_offer\<close> hands the message back with the error.\<close>

definition offer_err :: "ValidatedMessage \<Rightarrow> MailboxError + 'a \<Rightarrow> OfferFailure + 'a" where
  "offer_err message = map_err (\<lambda>e. \<lparr>of_error = e, of_message = message\<rparr>)"

text \<open>
  The last part of \<open>try_offer\<close>, once the decision and the displaced items are known: counters and
  bytes are checked first, then the transition is committed.
\<close>

definition offer_commit ::
  "ValidatedMessage \<Rightarrow> MonotonicDeadline \<Rightarrow> (nat \<times> TerminalReason) list \<Rightarrow> TerminalCounters \<Rightarrow>
   PlannedOffer \<times> nat list \<times> TerminalReason \<Rightarrow> Mailbox \<Rightarrow> (OfferFailure + OfferReport) \<times> Mailbox" where
  "offer_commit message queue_age_deadline items next_terminals plan self =
     (let (decision, displaced_indices, displaced_reason) = plan;
          displaced_records = records_for_indices self displaced_indices displaced_reason;
          remove_indices = remdups_adj (sort (indices_for_expired_items items @ displaced_indices)) in
      and_then_st (offer_err message (checked_increment_records displaced_records next_terminals))
        self (\<lambda>next_terminals.
      and_then_st (offer_err message (case offer_category decision of
                                        Some category \<Rightarrow> checked_terminal category (mb_offers self)
                                      | None \<Rightarrow> Inr (mb_offers self)))
        self (\<lambda>next_offers.
      and_then_st (offer_err message (bytes_for_indices self remove_indices)) self (\<lambda>removed_bytes.
      and_then_st (offer_err message (ok_or (checked_sub (mb_queued_bytes self) removed_bytes)
                                        StateInconsistent)) self (\<lambda>next_queued_bytes.
      and_then_st (offer_err message
                     (if decision = PlanAdmit
                      then ok_or (checked_add next_queued_bytes (ph_charged_bytes (vm_payload message)))
                             CounterOverflow
                      else Inr next_queued_bytes)) self (\<lambda>next_queued_bytes.
        let kept = (remove_queue_indices remove_indices self)
                     \<lparr>mb_queued_bytes := next_queued_bytes, mb_offers := next_offers,
                      mb_terminals := next_terminals\<rparr>
        in (Inr \<lparr>or_outcome = outcome_of decision message,
                 or_terminals = records_for_expired_items self items @ displaced_records\<rparr>,
            if decision = PlanAdmit
            then kept\<lparr>mb_queue := mb_queue kept @
                          [\<lparr>qm_message = message, qm_queue_age_deadline = queue_age_deadline\<rparr>]\<rparr>
            else kept)))))))"

text \<open>
  The part of \<open>try_offer\<close> after the clock checks: from the expired items of the queue to the
  decision.
\<close>

definition offer_on_clock ::
  "ValidatedMessage \<Rightarrow> bool \<Rightarrow> MonotonicDeadline \<Rightarrow> (nat \<times> TerminalReason) list \<Rightarrow> Mailbox \<Rightarrow>
   (OfferFailure + OfferReport) \<times> Mailbox" where
  "offer_on_clock message expired queue_age_deadline items self =
     (let expired_indices = indices_for_expired_items items;
          expired_records = records_for_expired_items self items in
      and_then_st (offer_err message (checked_increment_records expired_records (mb_terminals self)))
        self (\<lambda>next_terminals.
      let live_indices = live_indices_excluding self expired_indices;
          duplicate = (btree_has (mb_inflight self) (vm_id message)
                       \<or> (\<exists>index \<in> set live_indices.
                            vm_id (qm_message (mb_queue self ! index)) = vm_id message));
          decision = initial_decision self message expired duplicate in
      and_then_st (offer_err message
                     (if decision = PlanAdmit
                      then plan_admission self message expired_indices live_indices
                      else Inr (decision, [], Evicted)))
        self (\<lambda>plan. offer_commit message queue_age_deadline items next_terminals plan self)))"

definition try_offer ::
  "ValidatedMessage \<Rightarrow> ClockReading \<Rightarrow> Mailbox \<Rightarrow> (OfferFailure + OfferReport) \<times> Mailbox" where
  "try_offer message reading self =
     and_then_st (offer_err message (validate_state self)) self (\<lambda>_.
     if mb_lifecycle self \<noteq> Accepting
     then and_then_st (offer_err message (checked_terminal CatClosed (mb_offers self))) self (\<lambda>next_offers.
            (Inr \<lparr>or_outcome = OfferClosed message, or_terminals = []\<rparr>,
             self\<lparr>mb_offers := next_offers\<rparr>))
     else
     and_then_st (offer_err message (ensure_reading self reading)) self (\<lambda>_.
     and_then_st (offer_err message (map_err mailbox_time_error
                    (is_expired_at (vm_fresh_until message) reading))) self (\<lambda>freshness_expired.
     and_then_st (offer_err message (map_err mailbox_time_error
                    (is_expired_at (vm_run_deadline message) reading))) self (\<lambda>run_deadline_expired.
     and_then_st (offer_err message (map_err mailbox_time_error
                    (try_deadline_after reading (ml_max_queue_age (mb_limits self))))) self
       (\<lambda>queue_age_deadline.
     and_then_st (offer_err message (map_err mailbox_time_error
                    (is_expired_at queue_age_deadline reading))) self
       (\<lambda>queue_age_immediately_expired.
     and_then_st (offer_err message (expired_items self reading)) self (\<lambda>items.
       offer_on_clock message
         (freshness_expired \<or> run_deadline_expired \<or> queue_age_immediately_expired)
         queue_age_deadline items self)))))))"

section \<open>Dispatching and finishing\<close>

definition head_readiness :: "Mailbox \<Rightarrow> ClockReading \<Rightarrow> MailboxError + MailboxHeadReadiness" where
  "head_readiness self reading =
     and_then (validate_state self) (\<lambda>_.
     if mb_lifecycle self = Closed then Inr HeadClosed
     else
     and_then (ensure_reading self reading) (\<lambda>_.
     case mb_queue self of
       [] \<Rightarrow> Inr HeadEmpty
     | item # _ \<Rightarrow>
         let hint = \<lparr>hh_mailbox = mb_reference self, hh_message_id = vm_id (qm_message item),
                     hh_charged_bytes = ph_charged_bytes (vm_payload (qm_message item)),
                     hh_fresh_until = vm_fresh_until (qm_message item),
                     hh_run_deadline = vm_run_deadline (qm_message item),
                     hh_queue_age_deadline = qm_queue_age_deadline item\<rparr> in
         and_then (expiration_reason item reading) (\<lambda>found.
         case found of
           Some reason \<Rightarrow> Inr (HeadExpired hint reason)
         | None \<Rightarrow>
             and_then (ok_or (try_of_nat (length (mb_inflight self)) :: u32 option)
                         StateInconsistent) (\<lambda>inflight_items.
               if inflight_items \<ge> ml_max_inflight (mb_limits self) then Inr (HeadNoPermit hint)
               else Inr (HeadReady hint)))))"

text \<open>The part of \<open>try_begin_inflight\<close> after the expired items have been removed.\<close>

definition start_head ::
  "u64 \<Rightarrow> TerminalRecord list \<Rightarrow> Mailbox \<Rightarrow> (MailboxError + DispatchReport) \<times> Mailbox" where
  "start_head token_generation expired_records self =
     (case mb_queue self of
        [] \<Rightarrow> (Inl StateInconsistent, self)
      | item # rest \<Rightarrow>
          let self = self\<lparr>mb_queue := rest\<rparr>;
              payload_bytes = ph_charged_bytes (vm_payload (qm_message item)) in
          and_then_st (ok_or (checked_sub (mb_queued_bytes self) payload_bytes) StateInconsistent)
            self (\<lambda>next_queued_bytes.
          and_then_st (ok_or (checked_add (mb_inflight_bytes self) payload_bytes) CounterOverflow)
            self (\<lambda>next_inflight_bytes.
          if btree_has (mb_inflight self) (vm_id (qm_message item))
          then (Inl StateInconsistent, self)
          else
            (Inr \<lparr>dr_outcome = Started \<lparr>it_mailbox = mb_reference self,
                                         it_token_generation = token_generation,
                                         it_message = qm_message item\<rparr>,
                  dr_expired = expired_records\<rparr>,
             self\<lparr>mb_queued_bytes := next_queued_bytes, mb_inflight_bytes := next_inflight_bytes,
                  mb_next_token_generation := token_generation,
                  mb_inflight := btree_insert (vm_id (qm_message item))
                    \<lparr>ia_token_generation = token_generation, ia_payload_bytes = payload_bytes\<rparr>
                    (mb_inflight self)\<rparr>))))"

definition try_begin_inflight ::
  "ClockReading \<Rightarrow> Mailbox \<Rightarrow> (MailboxError + DispatchReport) \<times> Mailbox" where
  "try_begin_inflight reading self =
     and_then_st (validate_state self) self (\<lambda>_.
     if mb_lifecycle self = Closed
     then (Inr \<lparr>dr_outcome = DispatchClosed, dr_expired = []\<rparr>, self)
     else
     and_then_st (ensure_reading self reading) self (\<lambda>_.
     and_then_st (expired_items self reading) self (\<lambda>items.
     let expired_indices = indices_for_expired_items items;
         expired_records = records_for_expired_items self items in
     and_then_st (checked_increment_records expired_records (mb_terminals self)) self (\<lambda>next_terminals.
     and_then_st (bytes_for_indices self expired_indices) self (\<lambda>removed_bytes.
     and_then_st (ok_or (checked_sub (mb_queued_bytes self) removed_bytes) StateInconsistent)
       self (\<lambda>next_queued_bytes.
     and_then_st (ok_or (len_checked_sub (length (mb_queue self)) (length expired_indices))
                    StateInconsistent) self (\<lambda>remaining_items.
     and_then_st (ok_or (try_of_nat (length (mb_inflight self)) :: u32 option) StateInconsistent)
       self (\<lambda>inflight_items.
     let can_dispatch = (remaining_items > 0 \<and> inflight_items < ml_max_inflight (mb_limits self)) in
     and_then_st (if can_dispatch
                  then and_then (ok_or (checked_add (mb_next_token_generation self) 1) CounterOverflow)
                         (\<lambda>n. Inr (Some n))
                  else Inr None) self (\<lambda>next_token_generation.
     let self = (remove_queue_indices expired_indices self)
                  \<lparr>mb_queued_bytes := next_queued_bytes, mb_terminals := next_terminals\<rparr> in
     case next_token_generation of
       Some token_generation \<Rightarrow> start_head token_generation expired_records self
     | None \<Rightarrow>
         if remaining_items = 0
         then let self = close_if_drained_internal self in
              (Inr \<lparr>dr_outcome = (if mb_lifecycle self = Closed then DispatchClosed
                                  else NoQueuedMessage),
                    dr_expired = expired_records\<rparr>, self)
         else (Inr \<lparr>dr_outcome = NoPermit, dr_expired = expired_records\<rparr>, self))))))))))"

definition finish ::
  "InflightToken \<Rightarrow> TerminalReason \<Rightarrow> Mailbox \<Rightarrow> (FinishFailure + TerminalRecord) \<times> Mailbox" where
  "finish token reason self =
     (let fail = (\<lambda>e. Inl \<lparr>ff_error = e, ff_token = token\<rparr>);
          message = it_message token;
          charged = ph_charged_bytes (vm_payload message) in
      case validate_state self of
        Inl e \<Rightarrow> (fail e, self)
      | Inr _ \<Rightarrow>
      if \<not> is_inflight_completion reason then (fail InvalidTerminalReason, self)
      else if it_mailbox token \<noteq> mb_reference self then (fail InflightTokenMismatch, self)
      else case btree_get (mb_inflight self) (vm_id message) of
        None \<Rightarrow> (fail InflightTokenMismatch, self)
      | Some accounting \<Rightarrow>
          if ia_token_generation accounting \<noteq> it_token_generation token
             \<or> ia_payload_bytes accounting \<noteq> charged
          then (fail InflightTokenMismatch, self)
          else case checked_increment reason (mb_terminals self) of
            Inl e \<Rightarrow> (fail e, self)
          | Inr next_terminals \<Rightarrow>
              (case checked_sub (mb_inflight_bytes self) (ia_payload_bytes accounting) of
                 None \<Rightarrow> (fail StateInconsistent, self)
               | Some next_inflight_bytes \<Rightarrow>
                   (Inr \<lparr>tr_message_id = vm_id message, tr_reason = reason, tr_released_bytes = charged\<rparr>,
                    close_if_drained_internal
                      (self\<lparr>mb_inflight := btree_remove (vm_id message) (mb_inflight self),
                            mb_inflight_bytes := next_inflight_bytes,
                            mb_terminals := next_terminals\<rparr>))))"

definition abandon_all_inflight_uncertain ::
  "Mailbox \<Rightarrow> (MailboxError + TerminalRecord list) \<times> Mailbox" where
  "abandon_all_inflight_uncertain self =
     and_then_st (validate_state self) self (\<lambda>_.
     if mb_lifecycle self = Accepting then (Inl AbandonRequiresDraining, self)
     else
     let records = map (\<lambda>(message_id, accounting).
                          \<lparr>tr_message_id = message_id, tr_reason = Uncertain,
                           tr_released_bytes = ia_payload_bytes accounting\<rparr>) (mb_inflight self) in
     and_then_st (checked_increment_records records (mb_terminals self)) self (\<lambda>next_terminals.
       (Inr records,
        close_if_drained_internal
          (self\<lparr>mb_inflight := [], mb_inflight_bytes := 0, mb_terminals := next_terminals\<rparr>))))"

section \<open>Draining\<close>

definition stop_accepting :: "Mailbox \<Rightarrow> (MailboxError + unit) \<times> Mailbox" where
  "stop_accepting self =
     and_then_st (validate_state self) self (\<lambda>_.
       (Inr (), close_if_drained_internal
                  (if mb_lifecycle self = Accepting then self\<lparr>mb_lifecycle := Draining\<rparr> else self)))"

definition cancel_all_queued :: "Mailbox \<Rightarrow> (MailboxError + TerminalRecord list) \<times> Mailbox" where
  "cancel_all_queued self =
     and_then_st (validate_state self) self (\<lambda>_.
     if mb_lifecycle self = Accepting then (Inl CancelRequiresDraining, self)
     else if mb_queue self = [] then (Inr [], close_if_drained_internal self)
     else
     let indices = [0..<length (mb_queue self)];
         records = records_for_indices self indices Cancelled in
     and_then_st (checked_increment_records records (mb_terminals self)) self (\<lambda>next_terminals.
       (Inr records,
        close_if_drained_internal
          (self\<lparr>mb_queue := [], mb_queued_bytes := 0, mb_terminals := next_terminals\<rparr>))))"

definition expire_queued ::
  "ClockReading \<Rightarrow> Mailbox \<Rightarrow> (MailboxError + TerminalRecord list) \<times> Mailbox" where
  "expire_queued reading self =
     and_then_st (validate_state self) self (\<lambda>_.
     if mb_lifecycle self = Closed then (Inr [], self)
     else
     and_then_st (ensure_reading self reading) self (\<lambda>_.
     and_then_st (expired_items self reading) self (\<lambda>items.
     let expired_indices = indices_for_expired_items items;
         records = records_for_expired_items self items in
     and_then_st (checked_increment_records records (mb_terminals self)) self (\<lambda>next_terminals.
     and_then_st (bytes_for_indices self expired_indices) self (\<lambda>removed_bytes.
     and_then_st (ok_or (checked_sub (mb_queued_bytes self) removed_bytes) StateInconsistent)
       self (\<lambda>next_queued_bytes.
       (Inr records,
        close_if_drained_internal
          ((remove_queue_indices expired_indices self)
             \<lparr>mb_queued_bytes := next_queued_bytes, mb_terminals := next_terminals\<rparr>))))))))"

definition close_if_drained :: "Mailbox \<Rightarrow> (MailboxError + bool) \<times> Mailbox" where
  "close_if_drained self =
     and_then_st (validate_state self) self (\<lambda>_.
       let self = close_if_drained_internal self in (Inr (mb_lifecycle self = Closed), self))"

definition mailbox_snapshot :: "Mailbox \<Rightarrow> MailboxError + MailboxSnapshot" where
  "mailbox_snapshot self =
     and_then (validate_state self) (\<lambda>_.
     and_then (ok_or (try_of_nat (length (mb_queue self))) StateInconsistent) (\<lambda>queued_items.
     and_then (ok_or (try_of_nat (length (mb_inflight self))) StateInconsistent) (\<lambda>inflight_items.
     and_then (ok_or (checked_add (mb_queued_bytes self) (mb_inflight_bytes self))
                 StateInconsistent) (\<lambda>retained_bytes.
       Inr \<lparr>sn_lifecycle = mb_lifecycle self, sn_queued_items = queued_items,
            sn_queued_bytes = mb_queued_bytes self, sn_inflight_items = inflight_items,
            sn_inflight_bytes = mb_inflight_bytes self, sn_retained_bytes = retained_bytes,
            sn_offers = mb_offers self, sn_terminals = mb_terminals self\<rparr>))))"

end
