(* ===== verification/Dispatcher.thy ===== *)
theory Dispatcher
  imports Dispatch_Permits Mailbox_Ops
begin

text \<open>
  Dispatch selection, \<open>crates/paraegox-runtime/src/dispatcher.rs\<close>: which mailbox of a loop domain is
  served next. Uniform slots are scanned in turn; otherwise four classes share the domain by weighted
  deficits with caps on consecutive services, and within a class its slots do the same. Arrays of
  one entry per class are lists indexed by \<open>class_index\<close>. Indices and cursors are natural numbers: they stay
  below the number of slots, which is at most 256.
\<close>

section \<open>Data\<close>

definition MAX_DISPATCH_SLOTS :: nat where "MAX_DISPATCH_SLOTS = 256"
definition CLASS_COUNT :: nat where "CLASS_COUNT = 4"
definition MAX_DEFICIT :: u64 where "MAX_DEFICIT = push_bit 48 1"
definition MAX_SERVICE_COST_TOKENS :: u32 where "MAX_SERVICE_COST_TOKENS = 1000000"
definition MAX_MINIMUM_SERVICE_WEIGHT :: u32 where "MAX_MINIMUM_SERVICE_WEIGHT = 1000000"
definition MAX_CLASS_QUANTUM :: u32 where "MAX_CLASS_QUANTUM = MAX_MINIMUM_SERVICE_WEIGHT * of_nat MAX_DISPATCH_SLOTS"
definition MAX_CLASS_BURST :: u32 where "MAX_CLASS_BURST = 65535 * of_nat MAX_DISPATCH_SLOTS"

record DispatchClassPolicy =
  cp_quantum :: u32
  cp_max_burst :: u32

record DispatchSlotSpec =
  ds_mailbox :: MailboxRef
  ds_class :: DispatchClass
  ds_cost :: u32
  ds_weight :: u32
  ds_max_burst :: u32

record DispatchReadiness =
  dn_mailbox :: MailboxRef
  dn_head :: MailboxHeadReadiness

record DispatchSlot =
  sl_mailbox :: MailboxRef
  sl_class :: DispatchClass
  sl_cost :: u32
  sl_weight :: u32
  sl_deficit :: u64
  sl_max_burst :: u32
  sl_cursor :: u16

datatype SelectionPath = DirectScan | HierarchicalDeficit

record DispatchSelection =
  dx_mailbox :: MailboxRef
  dx_class :: DispatchClass
  dx_cost :: u32
  dx_path :: SelectionPath

record DispatchGrant =
  gr_selection :: DispatchSelection
  gr_permit :: DomainPermitToken

datatype DispatchIdleReason = NoReadyMailbox | NoDomainPermit

datatype DispatchDecision = Selected DispatchGrant | Idle DispatchIdleReason

record DispatchPolicy =
  dp_slots :: "DispatchSlot list"
  dp_classes :: "DispatchClassPolicy list"
  dp_class_deficit :: "u64 list"
  dp_class_cursor :: nat
  dp_class_visit_open :: bool
  dp_slot_cursor :: "nat list"
  dp_last_class :: "DispatchClass option"
  dp_class_burst :: u32
  dp_last_slot :: "nat option"
  dp_slot_burst :: u32
  dp_direct_scan :: bool
  dp_direct_cursor :: nat

datatype DispatcherError =
    NoSlots
  | TooManySlots
  | DuplicateMailbox
  | InvalidCost
  | InvalidWeight
  | InvalidBurst
  | TooManyReadinessHints
  | DuplicateReadinessHint
  | UnknownMailbox
  | ReadinessMailboxMismatch
  | DispatchCounterOverflow
  | DispatchStateInconsistent
  | PermitStateChanged
  | DispatchPermit PermitError

section \<open>Construction\<close>

definition class_policy_try_new :: "u32 \<Rightarrow> u32 \<Rightarrow> DispatcherError + DispatchClassPolicy" where
  "class_policy_try_new quantum max_burst =
     (if quantum = 0 \<or> quantum > MAX_CLASS_QUANTUM then Inl InvalidWeight
      else if max_burst = 0 \<or> max_burst > MAX_CLASS_BURST then Inl InvalidBurst
      else Inr \<lparr>cp_quantum = quantum, cp_max_burst = max_burst\<rparr>)"

definition slot_spec_try_new ::
  "MailboxRef \<Rightarrow> DispatchClass \<Rightarrow> u32 \<Rightarrow> u32 \<Rightarrow> u16 \<Rightarrow> DispatcherError + DispatchSlotSpec" where
  "slot_spec_try_new mailbox class cost weight max_burst =
     (if cost = 0 \<or> cost > MAX_SERVICE_COST_TOKENS then Inl InvalidCost
      else if weight = 0 \<or> weight > MAX_MINIMUM_SERVICE_WEIGHT then Inl InvalidWeight
      else if max_burst = 0 then Inl InvalidBurst
      else Inr \<lparr>ds_mailbox = mailbox, ds_class = class, ds_cost = cost, ds_weight = weight,
                ds_max_burst = ucast max_burst\<rparr>)"

fun build_slots :: "nat \<Rightarrow> DispatchSlotSpec list \<Rightarrow> DispatcherError + DispatchSlot list" where
  "build_slots cursor [] = Inr []"
| "build_slots cursor (spec # specs) =
     and_then (ok_or (try_of_nat cursor :: u16 option) TooManySlots) (\<lambda>position.
     and_then (build_slots (cursor + 1) specs) (\<lambda>slots.
     Inr (\<lparr>sl_mailbox = ds_mailbox spec, sl_class = ds_class spec, sl_cost = ds_cost spec,
           sl_weight = ds_weight spec, sl_deficit = 0, sl_max_burst = ds_max_burst spec,
           sl_cursor = position\<rparr> # slots)))"

definition dispatch_try_new ::
  "DispatchClassPolicy list \<Rightarrow> DispatchSlotSpec list \<Rightarrow> DispatcherError + DispatchPolicy" where
  "dispatch_try_new classes specs =
     (if specs = [] then Inl NoSlots
      else if length specs > MAX_DISPATCH_SLOTS then Inl TooManySlots
      else
        let mailboxes = sort (map ds_mailbox specs) in
        if list_ex (\<lambda>(a, b). a = b) (zip mailboxes (tl mailboxes)) then Inl DuplicateMailbox
        else
        let direct_scan = list_all (\<lambda>spec. ds_class spec = ds_class (hd specs)
              \<and> ds_cost spec = ds_cost (hd specs) \<and> ds_weight spec = ds_weight (hd specs)) specs in
        and_then (build_slots 0 specs) (\<lambda>slots.
        Inr \<lparr>dp_slots = slots, dp_classes = classes, dp_class_deficit = replicate CLASS_COUNT 0,
             dp_class_cursor = 0, dp_class_visit_open = False, dp_slot_cursor = replicate CLASS_COUNT 0,
             dp_last_class = None, dp_class_burst = 0, dp_last_slot = None, dp_slot_burst = 0,
             dp_direct_scan = direct_scan, dp_direct_cursor = 0\<rparr>))"

section \<open>Queries\<close>

abbreviation slot_at :: "DispatchPolicy \<Rightarrow> nat \<Rightarrow> DispatchSlot" where
  "slot_at self i \<equiv> dp_slots self ! i"

definition class_has_eligible :: "DispatchPolicy \<Rightarrow> DispatchClass \<Rightarrow> bool list \<Rightarrow> bool" where
  "class_has_eligible self class eligible =
     list_ex (\<lambda>i. eligible ! i \<and> sl_class (slot_at self i) = class) [0..<length (dp_slots self)]"

definition has_other_eligible_class :: "DispatchPolicy \<Rightarrow> DispatchClass \<Rightarrow> bool list \<Rightarrow> bool" where
  "has_other_eligible_class self class eligible =
     list_ex (\<lambda>i. eligible ! i \<and> sl_class (slot_at self i) \<noteq> class) [0..<length (dp_slots self)]"

definition has_other_eligible_slot :: "DispatchPolicy \<Rightarrow> nat \<Rightarrow> DispatchClass \<Rightarrow> bool list \<Rightarrow> bool" where
  "has_other_eligible_slot self selected class eligible =
     list_ex (\<lambda>i. i \<noteq> selected \<and> eligible ! i \<and> sl_class (slot_at self i) = class) [0..<length (dp_slots self)]"

definition minimum_eligible_cost :: "DispatchPolicy \<Rightarrow> DispatchClass \<Rightarrow> bool list \<Rightarrow> u64" where
  "minimum_eligible_cost self class eligible =
     foldr min (map (\<lambda>i. ucast (sl_cost (slot_at self i)))
       (filter (\<lambda>i. eligible ! i \<and> sl_class (slot_at self i) = class) [0..<length (dp_slots self)])) (- 1)"

definition class_burst_exhausted :: "DispatchPolicy \<Rightarrow> DispatchClass \<Rightarrow> bool" where
  "class_burst_exhausted self class =
     (dp_last_class self = Some class \<and> dp_class_burst self \<ge> cp_max_burst (dp_classes self ! class_index class))"

definition slot_burst_exhausted :: "DispatchPolicy \<Rightarrow> nat \<Rightarrow> bool" where
  "slot_burst_exhausted self index =
     (dp_last_slot self = Some index \<and> dp_slot_burst self \<ge> sl_max_burst (slot_at self index))"

section \<open>Service records\<close>

definition record_class_service :: "DispatchPolicy \<Rightarrow> DispatchClass \<Rightarrow> DispatchPolicy" where
  "record_class_service self class =
     (if dp_last_class self = Some class then self\<lparr>dp_class_burst := saturating_add (dp_class_burst self) 1\<rparr>
      else self\<lparr>dp_last_class := Some class, dp_class_burst := 1\<rparr>)"

definition record_slot_service :: "DispatchPolicy \<Rightarrow> nat \<Rightarrow> DispatchPolicy" where
  "record_slot_service self index =
     (if dp_last_slot self = Some index then self\<lparr>dp_slot_burst := saturating_add (dp_slot_burst self) 1\<rparr>
      else self\<lparr>dp_last_slot := Some index, dp_slot_burst := 1\<rparr>)"

definition advance_class_visit :: "DispatchPolicy \<Rightarrow> nat \<Rightarrow> DispatchPolicy" where
  "advance_class_visit self index =
     self\<lparr>dp_class_cursor := (index + 1) mod CLASS_COUNT, dp_class_visit_open := False\<rparr>"

definition credit_class_visit :: "DispatchPolicy \<Rightarrow> nat \<Rightarrow> (DispatcherError + unit) \<times> DispatchPolicy" where
  "credit_class_visit self index =
     and_then_st (ok_or (checked_add (dp_class_deficit self ! index)
         (ucast (cp_quantum (dp_classes self ! index)))) DispatchCounterOverflow) self (\<lambda>credited.
     (Inr (), self\<lparr>dp_class_deficit := (dp_class_deficit self)[index := min credited MAX_DEFICIT]\<rparr>))"

definition commit_slot_service :: "DispatchPolicy \<Rightarrow> nat \<Rightarrow> (DispatcherError + unit) \<times> DispatchPolicy" where
  "commit_slot_service self index =
     (let slot = slot_at self index; cost = (ucast (sl_cost slot) :: u64) in
      and_then_st (ok_or (checked_sub (sl_deficit slot) cost) DispatchStateInconsistent) self (\<lambda>remaining_deficit.
      let self = self\<lparr>dp_slots := (dp_slots self)[index := slot\<lparr>sl_deficit := remaining_deficit\<rparr>]\<rparr>;
          class_position = class_index (sl_class slot); max_burst = sl_max_burst slot;
          self = record_slot_service self index;
          repeats = (dp_slot_burst self < max_burst \<and> remaining_deficit \<ge> cost)
      in (Inr (), self\<lparr>dp_slot_cursor := (dp_slot_cursor self)[class_position :=
            if repeats then index else (index + 1) mod length (dp_slots self)]\<rparr>)))"

definition commit_class_service ::
  "DispatchPolicy \<Rightarrow> nat \<Rightarrow> nat \<Rightarrow> bool list \<Rightarrow> (DispatcherError + nat) \<times> DispatchPolicy" where
  "commit_class_service self class_position slot_index eligible =
     (let class = class_all ! class_position; cost = (ucast (sl_cost (slot_at self slot_index)) :: u64) in
      and_then_st (ok_or (checked_sub (dp_class_deficit self ! class_position) cost) DispatchStateInconsistent) self
        (\<lambda>remaining.
      bind_st (commit_slot_service (self\<lparr>dp_class_deficit := (dp_class_deficit self)[class_position := remaining]\<rparr>)
                 slot_index) (\<lambda>_ self.
      let self = record_class_service self class;
          keep_class = (dp_class_burst self < cp_max_burst (dp_classes self ! class_position)
            \<and> dp_class_deficit self ! class_position \<ge> minimum_eligible_cost self class eligible)
      in (Inr slot_index,
          if keep_class then self\<lparr>dp_class_cursor := class_position, dp_class_visit_open := True\<rparr>
          else advance_class_visit self class_position))))"

section \<open>Choosing a slot within a class\<close>

definition scan_order :: "nat \<Rightarrow> nat \<Rightarrow> nat list" where
  "scan_order start n = map (\<lambda>offset. (start + offset) mod n) [0..<n]"

text \<open>The two \<open>continue\<close> guards of both loops.\<close>

definition slot_candidate :: "DispatchPolicy \<Rightarrow> DispatchClass \<Rightarrow> bool list \<Rightarrow> nat \<Rightarrow> bool" where
  "slot_candidate self class eligible index =
     (\<not> (\<not> eligible ! index \<or> sl_class (slot_at self index) \<noteq> class)
      \<and> \<not> (slot_burst_exhausted self index \<and> has_other_eligible_slot self index class eligible))"

definition slot_rounds :: "DispatchSlot \<Rightarrow> DispatcherError + u64" where
  "slot_rounds slot =
     (let missing = saturating_sub (ucast (sl_cost slot)) (sl_deficit slot); weight = (ucast (sl_weight slot) :: u64) in
      if missing = 0 then Inr 0
      else and_then (ok_or (checked_add missing (weight - 1)) DispatchCounterOverflow) (\<lambda>padded.
           Inr (padded div weight)))"

fun required_rounds ::
  "DispatchPolicy \<Rightarrow> DispatchClass \<Rightarrow> bool list \<Rightarrow> nat list \<Rightarrow> u64 option \<Rightarrow> DispatcherError + u64 option" where
  "required_rounds self class eligible [] found = Inr found"
| "required_rounds self class eligible (index # rest) found =
     (if slot_candidate self class eligible index
      then and_then (slot_rounds (slot_at self index)) (\<lambda>rounds.
           required_rounds self class eligible rest
             (Some (case found of None \<Rightarrow> rounds | Some value \<Rightarrow> min value rounds)))
      else required_rounds self class eligible rest found)"

text \<open>The crediting loop; slots credited before a failure keep their credit.\<close>

fun credit_slots ::
  "u64 \<Rightarrow> DispatchClass \<Rightarrow> bool list \<Rightarrow> DispatchSlot list \<Rightarrow> (DispatcherError + unit) \<times> DispatchSlot list" where
  "credit_slots rounds class eligible [] = (Inr (), [])"
| "credit_slots rounds class eligible (slot # slots) =
     (let (credited, next) =
        (if hd eligible \<and> sl_class slot = class
         then case checked_mul rounds (ucast (sl_weight slot)) of
             None \<Rightarrow> (False, slot)
           | Some credit \<Rightarrow>
             (case checked_add (sl_deficit slot) credit of
                None \<Rightarrow> (False, slot)
              | Some deficit \<Rightarrow> (True, slot\<lparr>sl_deficit := min deficit MAX_DEFICIT\<rparr>))
         else (True, slot))
      in if \<not> credited then (Inl DispatchCounterOverflow, slot # slots)
         else let (r, rest) = credit_slots rounds class (tl eligible) slots in (r, next # rest))"

definition prepare_slot_in_class ::
  "DispatchPolicy \<Rightarrow> DispatchClass \<Rightarrow> bool list \<Rightarrow> (DispatcherError + nat) \<times> DispatchPolicy" where
  "prepare_slot_in_class self class eligible =
     (let n = length (dp_slots self); order = scan_order (dp_slot_cursor self ! class_index class mod n) n in
      and_then_st (required_rounds self class eligible order None) self (\<lambda>found.
      and_then_st (ok_or found DispatchStateInconsistent) self (\<lambda>rounds.
      bind_st (if rounds > 0
               then let (r, slots) = credit_slots rounds class eligible (dp_slots self)
                    in (r, self\<lparr>dp_slots := slots\<rparr>)
               else (Inr (), self)) (\<lambda>_ self.
      case find (\<lambda>i. slot_candidate self class eligible i
                     \<and> sl_deficit (slot_at self i) \<ge> ucast (sl_cost (slot_at self i))) order of
        Some index \<Rightarrow> (Inr index, self)
      | None \<Rightarrow> (Inl DispatchStateInconsistent, self)))))"

section \<open>Selection\<close>

definition select_direct :: "DispatchPolicy \<Rightarrow> bool list \<Rightarrow> (DispatcherError + nat) \<times> DispatchPolicy" where
  "select_direct self eligible =
     (let n = length (dp_slots self) in
      case find (\<lambda>i. eligible ! i) (scan_order (dp_direct_cursor self) n) of
        Some index \<Rightarrow> (Inr index, self\<lparr>dp_direct_cursor := (index + 1) mod n\<rparr>)
      | None \<Rightarrow> (Inl DispatchStateInconsistent, self))"

text \<open>The loop of a pass, with its remaining iterations and the fallback found so far.\<close>

fun pass_loop ::
  "nat \<Rightarrow> (nat \<times> nat) option \<Rightarrow> bool list \<Rightarrow> DispatchPolicy \<Rightarrow> (DispatcherError + nat option) \<times> DispatchPolicy" where
  "pass_loop 0 burst_fallback eligible self =
     (case burst_fallback of
        Some (class_position, slot_index) \<Rightarrow>
          bind_st (commit_class_service self class_position slot_index eligible) (\<lambda>i self. (Inr (Some i), self))
      | None \<Rightarrow> (Inr None, self))"
| "pass_loop (Suc n) burst_fallback eligible self =
     (let class_position = dp_class_cursor self; class = class_all ! class_position in
      if \<not> class_has_eligible self class eligible
      then pass_loop n burst_fallback eligible (advance_class_visit self class_position)
      else
      bind_st (if \<not> dp_class_visit_open self
               then bind_st (credit_class_visit self class_position) (\<lambda>_ self.
                    (Inr (), self\<lparr>dp_class_visit_open := True\<rparr>))
               else (Inr (), self)) (\<lambda>_ self.
      bind_st (prepare_slot_in_class self class eligible) (\<lambda>slot_index self.
      let cost = ucast (sl_cost (slot_at self slot_index)) in
      if dp_class_deficit self ! class_position < cost
      then pass_loop n burst_fallback eligible (advance_class_visit self class_position)
      else if class_burst_exhausted self class \<and> has_other_eligible_class self class eligible
      then pass_loop n (Some (class_position, slot_index)) eligible (advance_class_visit self class_position)
      else bind_st (commit_class_service self class_position slot_index eligible)
             (\<lambda>i self. (Inr (Some i), self)))))"

definition select_hierarchical_pass ::
  "DispatchPolicy \<Rightarrow> bool list \<Rightarrow> (DispatcherError + nat option) \<times> DispatchPolicy" where
  "select_hierarchical_pass self eligible = pass_loop CLASS_COUNT None eligible self"

text \<open>The two loops of \<open>fast_forward_empty_class_rounds\<close> over the classes.\<close>

fun visits_until_service ::
  "DispatchClass list \<Rightarrow> u64 option \<Rightarrow> bool list \<Rightarrow> DispatchPolicy \<Rightarrow> (DispatcherError + u64 option) \<times> DispatchPolicy" where
  "visits_until_service [] found eligible self = (Inr found, self)"
| "visits_until_service (class # classes) found eligible self =
     (if \<not> class_has_eligible self class eligible then visits_until_service classes found eligible self
      else
      bind_st (prepare_slot_in_class self class eligible) (\<lambda>slot_index self.
      and_then_st (ok_or (case checked_sub (ucast (sl_cost (slot_at self slot_index)))
                              (dp_class_deficit self ! class_index class) of
                            Some missing \<Rightarrow> if missing > 0 then Some missing else None
                          | None \<Rightarrow> None) DispatchStateInconsistent) self (\<lambda>missing.
      let quantum = ucast (cp_quantum (dp_classes self ! class_index class)) in
      and_then_st (ok_or (checked_add missing (quantum - 1)) DispatchCounterOverflow) self (\<lambda>padded.
      let visits = padded div quantum in
      visits_until_service classes
        (Some (case found of None \<Rightarrow> visits | Some current \<Rightarrow> min current visits)) eligible self))))"

fun credit_rounds ::
  "DispatchClass list \<Rightarrow> u64 \<Rightarrow> bool list \<Rightarrow> DispatchPolicy \<Rightarrow> (DispatcherError + unit) \<times> DispatchPolicy" where
  "credit_rounds [] empty_rounds eligible self = (Inr (), self)"
| "credit_rounds (class # classes) empty_rounds eligible self =
     (if \<not> class_has_eligible self class eligible then credit_rounds classes empty_rounds eligible self
      else
      let position = class_index class in
      and_then_st (ok_or (checked_mul empty_rounds (ucast (cp_quantum (dp_classes self ! position))))
                     DispatchCounterOverflow) self (\<lambda>credit.
      and_then_st (ok_or (checked_add (dp_class_deficit self ! position) credit) DispatchCounterOverflow) self
        (\<lambda>credited.
      credit_rounds classes empty_rounds eligible
        (self\<lparr>dp_class_deficit := (dp_class_deficit self)[position := min credited MAX_DEFICIT]\<rparr>))))"

definition fast_forward_empty_class_rounds ::
  "DispatchPolicy \<Rightarrow> bool list \<Rightarrow> (DispatcherError + unit) \<times> DispatchPolicy" where
  "fast_forward_empty_class_rounds self eligible =
     (if dp_class_visit_open self then (Inl DispatchStateInconsistent, self)
      else
      bind_st (visits_until_service class_all None eligible self) (\<lambda>found self.
      and_then_st (ok_or found DispatchStateInconsistent) self (\<lambda>visits.
      and_then_st (ok_or (checked_sub visits 1) DispatchStateInconsistent) self (\<lambda>empty_rounds.
      if empty_rounds = 0 then (Inr (), self)
      else credit_rounds class_all empty_rounds eligible self))))"

definition select_hierarchical :: "DispatchPolicy \<Rightarrow> bool list \<Rightarrow> (DispatcherError + nat) \<times> DispatchPolicy" where
  "select_hierarchical self eligible =
     bind_st (select_hierarchical_pass self eligible) (\<lambda>found self.
     case found of
       Some slot_index \<Rightarrow> (Inr slot_index, self)
     | None \<Rightarrow>
       bind_st (fast_forward_empty_class_rounds self eligible) (\<lambda>_ self.
       bind_st (select_hierarchical_pass self eligible) (\<lambda>found self.
       (ok_or found DispatchStateInconsistent, self))))"

section \<open>The dispatcher's turn\<close>

fun head_hint :: "MailboxHeadReadiness \<Rightarrow> MailboxHeadHint option" where
  "head_hint (HeadReady hint) = Some hint"
| "head_hint (HeadExpired hint reason) = Some hint"
| "head_hint (HeadNoPermit hint) = Some hint"
| "head_hint HeadEmpty = None"
| "head_hint HeadClosed = None"

fun slot_position :: "MailboxRef \<Rightarrow> DispatchSlot list \<Rightarrow> nat option" where
  "slot_position mailbox [] = None"
| "slot_position mailbox (slot # slots) =
     (if sl_mailbox slot = mailbox then Some 0 else map_option Suc (slot_position mailbox slots))"

fun readiness_loop ::
  "DispatchSlot list \<Rightarrow> DispatchReadiness list \<Rightarrow> bool list \<Rightarrow> bool list \<Rightarrow> DispatcherError + bool list" where
  "readiness_loop slots [] ready seen = Inr ready"
| "readiness_loop slots (input # rest) ready seen =
     and_then (ok_or (slot_position (dn_mailbox input) slots) UnknownMailbox) (\<lambda>index.
     if seen ! index then Inl DuplicateReadinessHint
     else if (case head_hint (dn_head input) of Some hint \<Rightarrow> hh_mailbox hint \<noteq> dn_mailbox input | None \<Rightarrow> False)
     then Inl ReadinessMailboxMismatch
     else readiness_loop slots rest (ready[index := is_dispatchable (dn_head input)]) (seen[index := True]))"

definition validate_readiness :: "DispatchPolicy \<Rightarrow> DispatchReadiness list \<Rightarrow> DispatcherError + bool list" where
  "validate_readiness self readiness =
     (if length readiness > MAX_DISPATCH_SLOTS then Inl TooManyReadinessHints
      else readiness_loop (dp_slots self) readiness (replicate (length (dp_slots self)) False)
             (replicate (length (dp_slots self)) False))"

definition try_select_and_acquire ::
  "DispatchPolicy \<Rightarrow> DispatchReadiness list \<Rightarrow> DomainPermitLedger \<Rightarrow>
   (DispatcherError + DispatchDecision) \<times> DispatchPolicy \<times> DomainPermitLedger" where
  "try_select_and_acquire self readiness permits =
     and_then_st (validate_readiness self readiness) (self, permits) (\<lambda>ready.
     if \<not> list_ex (\<lambda>v. v) ready then (Inr (Idle NoReadyMailbox), self, permits)
     else
       let eligible = map (\<lambda>i. ready ! i \<and> can_acquire permits (sl_class (slot_at self i))) [0..<length ready] in
       if \<not> list_ex (\<lambda>v. v) eligible then (Inr (Idle NoDomainPermit), self, permits)
       else
         let path = (if dp_direct_scan self then DirectScan else HierarchicalDeficit);
             (chosen, self) = (if dp_direct_scan self then select_direct self eligible
                               else select_hierarchical self eligible) in
         and_then_st chosen (self, permits) (\<lambda>slot_index.
         let slot = slot_at self slot_index; (acquired, permits) = try_acquire permits (sl_class slot) in
         and_then_st (map_err DispatchPermit acquired) (self, permits) (\<lambda>token.
         case token of
           None \<Rightarrow> (Inl PermitStateChanged, self, permits)
         | Some permit \<Rightarrow>
             (Inr (Selected \<lparr>gr_selection = \<lparr>dx_mailbox = sl_mailbox slot, dx_class = sl_class slot,
                     dx_cost = sl_cost slot, dx_path = path\<rparr>, gr_permit = permit\<rparr>), self, permits))))"

end
