(* ===== verification/Dispatch_Select.thy ===== *)
theory Dispatch_Select
  imports Dispatcher
begin

text \<open>
  Selection of the next slot never gets stuck: the invariant of a dispatch policy, what choosing a
  slot within a class does, what a pass over the classes does, and that passes can be skipped ahead.
\<close>

section \<open>Numbers\<close>

lemma unat_u32_u64 [simp]: "unat (ucast (c :: u32) :: u64) = unat c"
  using unat_u32_bound [of c] by (simp add: unsigned_ucast_eq take_bit_nat_eq_self)

lemma unat_MAX_DEFICIT [simp]: "unat MAX_DEFICIT = 281474976710656"
  by (simp add: MAX_DEFICIT_def push_bit_eq_mult)

lemma unat_min: "unat (min a b :: 'w::len word) = min (unat a) (unat b)"
  by (simp add: min_def word_le_nat_alt)

definition rounds_needed :: "nat \<Rightarrow> nat \<Rightarrow> nat" where
  "rounds_needed missing per = (missing + per - 1) div per"

lemma rounds_needed_enough:
  assumes "0 < per"
  shows "missing \<le> rounds_needed missing per * per"
proof -
  have "missing + per - 1 < Suc (rounds_needed missing per) * per"
    using assms unfolding rounds_needed_def by (metis dividend_less_div_times mult_Suc add.commute)
  then show ?thesis using assms by simp
qed

lemma rounds_needed_least:
  assumes "0 < per" "k < rounds_needed missing per"
  shows "k * per < missing"
proof -
  have "Suc k * per \<le> missing + per - 1"
    using assms by (metis Suc_leI div_le_dividend div_times_less_eq_dividend le_trans mult_le_mono1 rounds_needed_def)
  then show ?thesis using assms by simp
qed

lemma rounds_needed_zero: "0 < per \<Longrightarrow> rounds_needed missing per = 0 \<longleftrightarrow> missing = 0"
  by (cases missing) (auto simp: rounds_needed_def div_eq_0_iff)

lemma rounds_needed_le: "0 < per \<Longrightarrow> rounds_needed missing per \<le> missing"
proof (cases missing)
  case (Suc m)
  assume "0 < per"
  then have "rounds_needed missing per = Suc (m div per)" by (simp add: rounds_needed_def Suc div_add_self2)
  also have "\<dots> \<le> Suc m" by simp
  finally show ?thesis by (simp add: Suc)
qed (simp add: rounds_needed_def)

lemma word_div_round_up:
  fixes m per :: u64
  assumes "0 < unat per" "unat m + unat per < 2 ^ 64"
  shows "\<exists>padded. checked_add m (per - 1) = Some padded \<and> unat (padded div per) = rounds_needed (unat m) (unat per)"
proof -
  have p: "unat (per - 1) = unat per - 1" using assms(1) by (simp add: unat_sub word_le_nat_alt)
  then have "checked_add m (per - 1) = Some (m + (per - 1))" "unat (m + (per - 1)) = unat m + unat per - 1"
    using assms by (simp_all add: checked_add_def unat_word_ariths)
  then show ?thesis by (simp add: rounds_needed_def unat_div)
qed

section \<open>The invariant\<close>

definition slot_ok :: "DispatchSlot \<Rightarrow> bool" where
  "slot_ok s \<longleftrightarrow> 0 < unat (sl_cost s) \<and> unat (sl_cost s) \<le> 1000000 \<and> 0 < unat (sl_weight s) \<and>
     unat (sl_weight s) \<le> 1000000 \<and> sl_max_burst s \<noteq> 0 \<and> unat (sl_deficit s) \<le> 281474976710656"

definition class_policy_ok :: "DispatchClassPolicy \<Rightarrow> bool" where
  "class_policy_ok c \<longleftrightarrow> 0 < unat (cp_quantum c) \<and> unat (cp_quantum c) \<le> 256000000 \<and> cp_max_burst c \<noteq> 0"

definition policy_ok :: "DispatchPolicy \<Rightarrow> bool" where
  "policy_ok p \<longleftrightarrow> dp_slots p \<noteq> [] \<and> length (dp_slots p) \<le> 256 \<and> (\<forall>s \<in> set (dp_slots p). slot_ok s) \<and>
     length (dp_classes p) = 4 \<and> (\<forall>c \<in> set (dp_classes p). class_policy_ok c) \<and>
     length (dp_class_deficit p) = 4 \<and> (\<forall>d \<in> set (dp_class_deficit p). unat d \<le> 281474976710656) \<and>
     dp_class_cursor p < 4 \<and> length (dp_slot_cursor p) = 4 \<and> dp_direct_cursor p < length (dp_slots p)"

abbreviation slot_cost :: "DispatchPolicy \<Rightarrow> nat \<Rightarrow> nat" where
  "slot_cost p i \<equiv> unat (sl_cost (slot_at p i))"

abbreviation class_credit :: "DispatchPolicy \<Rightarrow> nat \<Rightarrow> nat" where
  "class_credit p k \<equiv> unat (dp_class_deficit p ! k)"

abbreviation quantum_of :: "DispatchPolicy \<Rightarrow> nat \<Rightarrow> nat" where
  "quantum_of p k \<equiv> unat (cp_quantum (dp_classes p ! k))"

lemma policy_ok_slot: "policy_ok p \<Longrightarrow> i < length (dp_slots p) \<Longrightarrow> slot_ok (slot_at p i)"
  by (simp add: policy_ok_def)

lemma policy_ok_class:
  "policy_ok p \<Longrightarrow> k < 4 \<Longrightarrow> 0 < quantum_of p k \<and> quantum_of p k \<le> 256000000 \<and> class_credit p k \<le> 281474976710656"
  by (auto simp: policy_ok_def class_policy_ok_def)

lemma class_all_index [simp]: "class_all ! class_index c = c" "class_index c < 4"
  by (cases c; simp add: class_all_def)+

lemma class_index_all [simp]: "k < 4 \<Longrightarrow> class_index (class_all ! k) = k"
  by (auto simp: class_all_def less_Suc_eq numeral_eq_Suc)

lemma set_scan_order: "0 < n \<Longrightarrow> set (scan_order start n) = {0..<n}"
proof -
  assume n: "0 < n"
  have "i \<in> (\<lambda>offset. (start + offset) mod n) ` {0..<n}" if "i < n" for i
  proof
    show "i = (start + (i + n - start mod n) mod n) mod n"
    proof -
      have "(start + (i + n - start mod n) mod n) mod n = (start mod n + (i + n - start mod n)) mod n"
        by (simp only: mod_add_right_eq mod_add_left_eq)
      also have "start mod n + (i + n - start mod n) = i + n" using n mod_less_divisor [OF n, of start] by simp
      finally show ?thesis using that by simp
    qed
  qed (use n in simp)
  then show ?thesis using n by (auto simp: scan_order_def)
qed

section \<open>Choosing a slot within a class\<close>

definition affordable :: "DispatchPolicy \<Rightarrow> DispatchClass \<Rightarrow> bool list \<Rightarrow> nat \<Rightarrow> bool" where
  "affordable p c el i \<longleftrightarrow> slot_candidate p c el i \<and> slot_cost p i \<le> unat (sl_deficit (slot_at p i))"

definition chosen :: "DispatchPolicy \<Rightarrow> DispatchClass \<Rightarrow> bool list \<Rightarrow> nat option" where
  "chosen p c el = find (affordable p c el)
     (scan_order (dp_slot_cursor p ! class_index c mod length (dp_slots p)) (length (dp_slots p)))"

definition credit :: "u64 \<Rightarrow> DispatchSlot \<Rightarrow> DispatchSlot" where
  "credit r s = s\<lparr>sl_deficit := of_nat (min (unat (sl_deficit s) + unat r * unat (sl_weight s)) 281474976710656)\<rparr>"

definition credited :: "DispatchClass \<Rightarrow> bool list \<Rightarrow> u64 \<Rightarrow> DispatchPolicy \<Rightarrow> DispatchPolicy" where
  "credited c el r p = p\<lparr>dp_slots := map2 (\<lambda>e s. if e \<and> sl_class s = c then credit r s else s) el (dp_slots p)\<rparr>"

lemma unat_credit:
  "unat (sl_deficit (credit r s)) = min (unat (sl_deficit s) + unat r * unat (sl_weight s)) 281474976710656"
  by (simp add: credit_def unat_of_nat)

lemma credit_simps [simp]: "sl_class (credit r s) = sl_class s" "sl_cost (credit r s) = sl_cost s"
  "sl_max_burst (credit r s) = sl_max_burst s" "slot_ok s \<Longrightarrow> slot_ok (credit r s)"
  by (simp_all add: credit_def slot_ok_def unat_of_nat)

lemma credit_zero: "slot_ok s \<Longrightarrow> credit 0 s = s"
  by (simp add: credit_def slot_ok_def min_def)

lemma credit_slots_eq:
  assumes "\<forall>s \<in> set slots. slot_ok s" "unat r \<le> 1000000" "length el = length slots"
  shows "credit_slots r c el slots = (Inr (), map2 (\<lambda>e s. if e \<and> sl_class s = c then credit r s else s) el slots)"
  using assms
proof (induction slots arbitrary: el)
  case (Cons s slots)
  obtain e es where el: "el = e # es" using Cons.prems(3) by (cases el) auto
  have ok: "slot_ok s" using Cons.prems(1) by simp
  let ?w = "ucast (sl_weight s) :: u64"
  have "unat r * unat (sl_weight s) \<le> 1000000 * 1000000"
    using ok Cons.prems(2) by (intro mult_le_mono) (simp_all add: slot_ok_def)
  then have small: "unat r * unat ?w < 2 ^ 64" "unat (sl_deficit s) + unat r * unat ?w < 2 ^ 64"
    using ok by (simp_all add: slot_ok_def)
  then have mul: "checked_mul r ?w = Some (r * ?w)" "unat (r * ?w) = unat r * unat ?w"
    by (simp_all add: checked_mul_def unat_word_ariths)
  have add: "checked_add (sl_deficit s) (r * ?w) = Some (sl_deficit s + r * ?w)"
    "unat (sl_deficit s + r * ?w) = unat (sl_deficit s) + unat r * unat ?w"
    using small mul(2) by (simp_all add: checked_add_def unat_word_ariths)
  have "min (sl_deficit s + r * ?w) MAX_DEFICIT = of_nat (min (unat (sl_deficit s) + unat r * unat (sl_weight s)) 281474976710656)"
    using add(2) by (simp add: unat_eq_iff unat_min unat_of_nat)
  then have "s\<lparr>sl_deficit := min (sl_deficit s + r * ?w) MAX_DEFICIT\<rparr> = credit r s" by (simp add: credit_def)
  moreover have "credit_slots r c es slots = (Inr (), map2 (\<lambda>e s. if e \<and> sl_class s = c then credit r s else s) es slots)"
    using Cons el by simp
  ultimately show ?case by (simp add: el mul(1) add(1))
qed simp

lemma slot_rounds_ok:
  assumes "slot_ok s"
  obtains r where "slot_rounds s = Inr r"
    "unat r = rounds_needed (unat (sl_cost s) - unat (sl_deficit s)) (unat (sl_weight s))"
proof -
  let ?m = "saturating_sub (ucast (sl_cost s)) (sl_deficit s)" and ?w = "ucast (sl_weight s) :: u64"
  have m: "unat ?m = unat (sl_cost s) - unat (sl_deficit s)" by (simp add: unat_saturating_sub)
  have "unat ?m + unat ?w \<le> 2000000" using assms unfolding slot_ok_def m unat_u32_u64 by linarith
  then have w: "0 < unat ?w" "unat ?m + unat ?w < 2 ^ 64" using assms by (simp_all add: slot_ok_def)
  show thesis
  proof (cases "?m = 0")
    case True
    then have "unat (sl_cost s) - unat (sl_deficit s) = 0" using m by simp
    with True w(1) that [of 0] show thesis by (simp add: slot_rounds_def rounds_needed_zero)
  next
    case False
    with word_div_round_up [OF w] that show thesis by (auto simp: slot_rounds_def m)
  qed
qed

abbreviation rounds_of :: "DispatchPolicy \<Rightarrow> nat \<Rightarrow> nat" where
  "rounds_of p i \<equiv> rounds_needed (slot_cost p i - unat (sl_deficit (slot_at p i))) (unat (sl_weight (slot_at p i)))"

lemma required_rounds_Some:
  assumes "\<forall>i \<in> set order. slot_ok (slot_at p i)"
  shows "\<exists>r. required_rounds p c el order (Some f) = Inr (Some r) \<and> unat r \<le> unat f \<and>
    (r = f \<or> (\<exists>i \<in> set order. slot_candidate p c el i \<and> unat r = rounds_of p i)) \<and>
    (\<forall>i \<in> set order. slot_candidate p c el i \<longrightarrow> unat r \<le> rounds_of p i)"
  using assms
proof (induction order arbitrary: f)
  case (Cons i order)
  show ?case
  proof (cases "slot_candidate p c el i")
    case False
    with Cons.IH [of f] Cons.prems show ?thesis by simp
  next
    case True
    obtain n where n: "slot_rounds (slot_at p i) = Inr n" "unat n = rounds_of p i"
      using slot_rounds_ok Cons.prems by (metis list.set_intros(1))
    obtain r where r: "required_rounds p c el order (Some (min f n)) = Inr (Some r)" "unat r \<le> unat (min f n)"
      "r = min f n \<or> (\<exists>i \<in> set order. slot_candidate p c el i \<and> unat r = rounds_of p i)"
      "\<forall>i \<in> set order. slot_candidate p c el i \<longrightarrow> unat r \<le> rounds_of p i"
      using Cons.IH [of "min f n"] Cons.prems by auto
    have "unat r \<le> unat f" "unat r \<le> rounds_of p i" using r(2) n(2) by (simp_all add: unat_min)
    moreover have "min f n = f \<or> min f n = n" by (simp add: min_def)
    then have "r = f \<or> r = n \<or> (\<exists>i \<in> set order. slot_candidate p c el i \<and> unat r = rounds_of p i)" using r(3) by auto
    ultimately show ?thesis using True n r(1,4) by auto
  qed
qed simp

lemma required_rounds_ok:
  assumes "\<forall>i \<in> set order. slot_ok (slot_at p i)" "i \<in> set order" "slot_candidate p c el i"
  shows "\<exists>r. required_rounds p c el order None = Inr (Some r) \<and>
    (\<exists>i \<in> set order. slot_candidate p c el i \<and> unat r = rounds_of p i) \<and>
    (\<forall>i \<in> set order. slot_candidate p c el i \<longrightarrow> unat r \<le> rounds_of p i)"
  using assms
proof (induction order)
  case (Cons j order)
  show ?case
  proof (cases "slot_candidate p c el j")
    case False
    with Cons show ?thesis by auto
  next
    case True
    obtain n where n: "slot_rounds (slot_at p j) = Inr n" "unat n = rounds_of p j"
      using slot_rounds_ok Cons.prems(1) by (metis list.set_intros(1))
    with True required_rounds_Some [of order p c el n] Cons.prems(1) show ?thesis by auto
  qed
qed simp

section \<open>What a turn leaves alone\<close>

definition same_shape :: "DispatchPolicy \<Rightarrow> DispatchPolicy \<Rightarrow> bool" where
  "same_shape p q \<longleftrightarrow> dp_classes q = dp_classes p \<and> dp_direct_scan q = dp_direct_scan p \<and>
     map (sl_deficit_update (\<lambda>_. 0)) (dp_slots q) = map (sl_deficit_update (\<lambda>_. 0)) (dp_slots p)"

definition same_turn :: "DispatchPolicy \<Rightarrow> DispatchPolicy \<Rightarrow> bool" where
  "same_turn p q \<longleftrightarrow> same_shape p q \<and> dp_slot_cursor q = dp_slot_cursor p \<and> dp_last_class q = dp_last_class p \<and>
     dp_class_burst q = dp_class_burst p \<and> dp_last_slot q = dp_last_slot p \<and> dp_slot_burst q = dp_slot_burst p"

lemma same_shape_refl [simp]: "same_shape p p" and same_turn_refl [simp]: "same_turn p p"
  by (simp_all add: same_turn_def same_shape_def)

lemma same_shape_trans [trans]: "same_shape p q \<Longrightarrow> same_shape q r \<Longrightarrow> same_shape p r"
  and same_turn_trans [trans]: "same_turn p q \<Longrightarrow> same_turn q r \<Longrightarrow> same_turn p r"
  by (simp_all add: same_turn_def same_shape_def)

lemma same_turn_shape: "same_turn p q \<Longrightarrow> same_shape p q"
  by (simp add: same_turn_def)

lemma same_shape_slot:
  assumes "same_shape p q"
  shows "length (dp_slots q) = length (dp_slots p)"
    "i < length (dp_slots p) \<Longrightarrow> sl_class (slot_at q i) = sl_class (slot_at p i) \<and> sl_cost (slot_at q i) = sl_cost (slot_at p i) \<and>
       sl_weight (slot_at q i) = sl_weight (slot_at p i) \<and> sl_max_burst (slot_at q i) = sl_max_burst (slot_at p i) \<and>
       sl_mailbox (slot_at q i) = sl_mailbox (slot_at p i)"
proof -
  have eq: "map (sl_deficit_update (\<lambda>_. 0)) (dp_slots q) = map (sl_deficit_update (\<lambda>_. 0)) (dp_slots p)"
    using assms by (simp add: same_shape_def)
  show len: "length (dp_slots q) = length (dp_slots p)" using arg_cong [OF eq, of length] by simp
  assume i: "i < length (dp_slots p)"
  have "(slot_at q i)\<lparr>sl_deficit := 0\<rparr> = (slot_at p i)\<lparr>sl_deficit := 0\<rparr>"
    using arg_cong [OF eq, of "\<lambda>xs. xs ! i"] i len by simp
  then show "sl_class (slot_at q i) = sl_class (slot_at p i) \<and> sl_cost (slot_at q i) = sl_cost (slot_at p i) \<and>
       sl_weight (slot_at q i) = sl_weight (slot_at p i) \<and> sl_max_burst (slot_at q i) = sl_max_burst (slot_at p i) \<and>
       sl_mailbox (slot_at q i) = sl_mailbox (slot_at p i)"
    by (cases "slot_at q i"; cases "slot_at p i") simp
qed

lemma same_shape_eligible:
  assumes "same_shape p q"
  shows "class_has_eligible q c el = class_has_eligible p c el"
    "has_other_eligible_class q c el = has_other_eligible_class p c el"
    "has_other_eligible_slot q i c el = has_other_eligible_slot p i c el"
  using same_shape_slot [OF assms]
  by (auto simp: class_has_eligible_def has_other_eligible_class_def has_other_eligible_slot_def list_ex_iff)

lemma same_turn_candidate:
  assumes "same_turn p q" "i < length (dp_slots p)"
  shows "slot_candidate q c el i = slot_candidate p c el i"
  using assms same_shape_slot(2) [OF same_turn_shape [OF assms(1)] assms(2)]
  by (simp add: slot_candidate_def slot_burst_exhausted_def same_shape_eligible(3) [OF same_turn_shape [OF assms(1)]] same_turn_def)

lemma same_turn_burst: "same_turn p q \<Longrightarrow> class_burst_exhausted q c = class_burst_exhausted p c"
  by (simp add: class_burst_exhausted_def same_turn_def same_shape_def)

lemma same_turn_chosen:
  assumes "same_turn p q" "policy_ok p"
    "\<And>i. i < length (dp_slots p) \<Longrightarrow> sl_class (slot_at p i) = c \<Longrightarrow> sl_deficit (slot_at q i) = sl_deficit (slot_at p i)"
  shows "chosen q c el = chosen p c el"
proof -
  let ?n = "length (dp_slots p)"
  note same = same_shape_slot [OF same_turn_shape [OF assms(1)]]
  have n: "0 < ?n" using assms(2) by (simp add: policy_ok_def)
  have "affordable q c el i = affordable p c el i" if "i < ?n" for i
    using same(2) [OF that] assms(3) [OF that] same_turn_candidate [OF assms(1) that]
    by (auto simp: affordable_def slot_candidate_def)
  then have "find (affordable q c el) (scan_order k ?n) = find (affordable p c el) (scan_order k ?n)" for k
    using set_scan_order [OF n] by (intro find_cong) auto
  then show ?thesis using assms(1) same(1) by (simp add: chosen_def same_turn_def)
qed

section \<open>Preparing a slot\<close>

lemma slot_at_credited:
  assumes "length el = length (dp_slots p)" "i < length (dp_slots p)"
  shows "slot_at (credited c el r p) i = (if el ! i \<and> sl_class (slot_at p i) = c then credit r (slot_at p i) else slot_at p i)"
  using assms by (simp add: credited_def)

lemma length_credited: "length el = length (dp_slots p) \<Longrightarrow> length (dp_slots (credited c el r p)) = length (dp_slots p)"
  by (simp add: credited_def)

lemma credited_same_turn: "length el = length (dp_slots p) \<Longrightarrow> same_turn p (credited c el r p)"
  by (auto simp: same_turn_def same_shape_def credited_def credit_def intro!: nth_equalityI)

lemma credited_simps [simp]: "dp_class_deficit (credited c el r p) = dp_class_deficit p"
  "dp_classes (credited c el r p) = dp_classes p" "dp_class_cursor (credited c el r p) = dp_class_cursor p"
  "dp_class_visit_open (credited c el r p) = dp_class_visit_open p"
  by (simp_all add: credited_def)

lemma credited_ok:
  assumes "policy_ok p" "length el = length (dp_slots p)"
  shows "policy_ok (credited c el r p)"
proof -
  have "slot_ok s" if s: "s \<in> set (dp_slots (credited c el r p))" for s
  proof -
    obtain i where "i < length (dp_slots p)" "s = slot_at (credited c el r p) i"
      using s assms(2) by (auto simp: in_set_conv_nth length_credited)
    then show ?thesis using policy_ok_slot [OF assms(1)] by (simp add: slot_at_credited [OF assms(2)])
  qed
  moreover have "dp_slots (credited c el r p) \<noteq> []"
    using assms length_credited [OF assms(2), of c r] by (metis length_0_conv policy_ok_def)
  ultimately show ?thesis using assms(1) length_credited [OF assms(2), of c r]
    by (simp add: policy_ok_def) (simp add: credited_def)
qed

lemma credited_zero:
  assumes "policy_ok p" "length el = length (dp_slots p)"
  shows "credited c el 0 p = p"
proof -
  have "map2 (\<lambda>e s. if e \<and> sl_class s = c then credit 0 s else s) el (dp_slots p) = dp_slots p"
    using assms by (intro nth_equalityI) (auto simp: credit_zero policy_ok_slot)
  then show ?thesis by (simp add: credited_def)
qed

lemma candidate_exists:
  assumes "class_has_eligible p c el"
  shows "\<exists>i < length (dp_slots p). slot_candidate p c el i"
proof -
  obtain i where i: "i < length (dp_slots p)" "el ! i" "sl_class (slot_at p i) = c"
    using assms by (auto simp: class_has_eligible_def list_ex_iff)
  show ?thesis
  proof (cases "slot_candidate p c el i")
    case False
    then have last: "dp_last_slot p = Some i" and "has_other_eligible_slot p i c el"
      using i by (auto simp: slot_candidate_def slot_burst_exhausted_def)
    then obtain j where "j < length (dp_slots p)" "el ! j" "sl_class (slot_at p j) = c" "j \<noteq> i"
      by (auto simp: has_other_eligible_slot_def list_ex_iff)
    then show ?thesis using last by (auto simp: slot_candidate_def slot_burst_exhausted_def)
  qed (use i in auto)
qed

lemma chosenD:
  assumes "chosen p c el = Some i" "policy_ok p"
  shows "i < length (dp_slots p)" "slot_candidate p c el i" "slot_cost p i \<le> unat (sl_deficit (slot_at p i))"
proof -
  have n: "0 < length (dp_slots p)" using assms(2) by (simp add: policy_ok_def)
  obtain j where j: "j < length (scan_order (dp_slot_cursor p ! class_index c mod length (dp_slots p)) (length (dp_slots p)))"
    "i = scan_order (dp_slot_cursor p ! class_index c mod length (dp_slots p)) (length (dp_slots p)) ! j" "affordable p c el i"
    using assms(1) by (auto simp: chosen_def find_Some_iff)
  then have "i \<in> {0..<length (dp_slots p)}" using set_scan_order [OF n] nth_mem by metis
  then show "i < length (dp_slots p)" by simp
  show "slot_candidate p c el i" "slot_cost p i \<le> unat (sl_deficit (slot_at p i))"
    using j(3) by (simp_all add: affordable_def)
qed

lemma candidate_simps: "slot_candidate p c el i \<Longrightarrow> el ! i \<and> sl_class (slot_at p i) = c"
  by (simp add: slot_candidate_def)

lemma chosen_exists:
  assumes "policy_ok p" "i < length (dp_slots p)" "affordable p c el i"
  shows "chosen p c el \<noteq> None"
proof -
  have "0 < length (dp_slots p)" using assms(2) by linarith
  from set_scan_order [OF this] assms(2,3) show ?thesis by (auto simp: chosen_def find_None_iff)
qed

lemma prepare_slot_ok:
  assumes ok: "policy_ok p" and len: "length el = length (dp_slots p)" and ex: "class_has_eligible p c el"
  obtains r i where "unat r \<le> 1000000" "chosen (credited c el r p) c el = Some i"
    "prepare_slot_in_class p c el = (Inr i, credited c el r p)" "chosen p c el \<noteq> None \<Longrightarrow> r = 0"
proof -
  let ?n = "length (dp_slots p)" and ?o = "scan_order (dp_slot_cursor p ! class_index c mod length (dp_slots p)) (length (dp_slots p))"
  have n: "0 < ?n" using ok by (simp add: policy_ok_def)
  have set: "set ?o = {0..<?n}" by (rule set_scan_order [OF n])
  then have good: "\<forall>i \<in> set ?o. slot_ok (slot_at p i)" using policy_ok_slot [OF ok] by simp
  obtain j where j: "j \<in> set ?o" "slot_candidate p c el j" using candidate_exists [OF ex] set by auto
  obtain r i where r: "required_rounds p c el ?o None = Inr (Some r)" "i \<in> set ?o" "slot_candidate p c el i"
      "unat r = rounds_of p i" "\<forall>i \<in> set ?o. slot_candidate p c el i \<longrightarrow> unat r \<le> rounds_of p i"
    using required_rounds_ok [OF good j] by auto
  have si: "slot_ok (slot_at p i)" using good r(2) by blast
  have "unat r \<le> slot_cost p i" using r(4) si rounds_needed_le [of "unat (sl_weight (slot_at p i))"]
    by (metis diff_le_self le_trans slot_ok_def)
  then have small: "unat r \<le> 1000000" using si by (simp add: slot_ok_def)
  let ?p = "credited c el r p"
  note turn = credited_same_turn [OF len, of c r] and ok' = credited_ok [OF ok len, of c r]
  have i: "i < ?n" using r(2) set by simp
  have "slot_cost p i - unat (sl_deficit (slot_at p i)) \<le> unat r * unat (sl_weight (slot_at p i))"
    using rounds_needed_enough si r(4) by (simp add: slot_ok_def)
  then have "affordable ?p c el i"
    using same_turn_candidate [OF turn i] r(3) si candidate_simps [OF r(3)]
    by (simp add: affordable_def slot_at_credited [OF len i] unat_credit slot_ok_def)
  then obtain k where k: "chosen ?p c el = Some k"
    using chosen_exists [OF ok'] i length_credited [OF len] by (metis not_None_eq)
  have aff: "(\<lambda>i. slot_candidate ?p c el i \<and> sl_deficit (slot_at ?p i) \<ge> ucast (sl_cost (slot_at ?p i))) = affordable ?p c el"
    by (auto simp: affordable_def word_le_nat_alt)
  have credit: "(if r > 0 then case credit_slots r c el (dp_slots p) of (r, slots) \<Rightarrow> (r, p\<lparr>dp_slots := slots\<rparr>)
       else (Inr (), p)) = (Inr (), ?p)"
  proof (cases "r = 0")
    case True then show ?thesis by (simp add: credited_zero [OF ok len])
  next
    case False
    have "\<forall>s \<in> set (dp_slots p). slot_ok s" using ok by (simp add: policy_ok_def)
    from credit_slots_eq [OF this small len] False show ?thesis by (simp add: credited_def word_neq_0_conv)
  qed
  have "prepare_slot_in_class p c el = (Inr k, ?p)"
    using k turn length_credited [OF len, of c r]
    unfolding prepare_slot_in_class_def Let_def
    by (simp add: r(1) credit aff chosen_def same_turn_def split del: if_split)
  moreover have "r = 0" if some: "chosen p c el \<noteq> None"
  proof -
    obtain m where m: "chosen p c el = Some m" using some by blast
    note chosenD [OF m ok]
    then have "rounds_of p m = 0" "m \<in> set ?o" using set policy_ok_slot [OF ok] by (simp_all add: rounds_needed_def slot_ok_def)
    with r(5) chosenD(2) [OF m ok] show ?thesis by (metis le_zero_eq unat_eq_zero)
  qed
  ultimately show thesis using that small k by blast
qed

lemma prepare_chosen:
  assumes "policy_ok p" "length el = length (dp_slots p)" "class_has_eligible p c el" "chosen p c el = Some i"
  shows "prepare_slot_in_class p c el = (Inr i, p)"
proof -
  obtain r k where "chosen (credited c el r p) c el = Some k" "prepare_slot_in_class p c el = (Inr k, credited c el r p)" "r = 0"
    using prepare_slot_ok [OF assms(1-3)] assms(4) by (metis option.distinct(1))
  then show ?thesis using assms(4) credited_zero [OF assms(1,2)] by simp
qed

section \<open>Serving a slot\<close>

lemma checked_sub_fits: "unat b \<le> unat a \<Longrightarrow> checked_sub a b = Some (a - b) \<and> unat (a - b :: 'w::len word) = unat a - unat b"
  by (simp add: checked_sub_def word_le_nat_alt unat_sub)

lemma list_all_update: "\<forall>x \<in> set xs. P x \<Longrightarrow> P y \<Longrightarrow> \<forall>x \<in> set (xs[i := y]). P x"
  using set_update_subset_insert by fastforce

lemma slot_service_ok:
  assumes "policy_ok p" "i < length (dp_slots p)" "slot_cost p i \<le> unat (sl_deficit (slot_at p i))"
  obtains q where "commit_slot_service p i = (Inr (), q)" "policy_ok q" "same_shape p q"
    "dp_class_cursor q = dp_class_cursor p" "dp_last_slot q = Some i"
    "dp_slot_burst q = (if dp_last_slot p = Some i then saturating_add (dp_slot_burst p) 1 else 1)"
proof -
  let ?s = "slot_at p i" and ?c = "ucast (sl_cost (slot_at p i)) :: u64"
  have sub: "checked_sub (sl_deficit ?s) ?c = Some (sl_deficit ?s - ?c)" "unat (sl_deficit ?s - ?c) \<le> unat (sl_deficit ?s)"
    using checked_sub_fits [of ?c "sl_deficit ?s"] assms(3) by simp_all
  let ?t = "?s\<lparr>sl_deficit := sl_deficit ?s - ?c\<rparr>" and ?q = "snd (commit_slot_service p i)"
  have "slot_ok ?t" using policy_ok_slot [OF assms(1,2)] sub(2) by (simp add: slot_ok_def)
  then have slots: "\<forall>s \<in> set ((dp_slots p)[i := ?t]). slot_ok s"
    using assms(1) by (intro list_all_update) (simp_all add: policy_ok_def)
  have shape: "map (sl_deficit_update (\<lambda>_. 0)) ((dp_slots p)[i := ?t]) = map (sl_deficit_update (\<lambda>_. 0)) (dp_slots p)"
    using assms(2) by (simp add: map_update list_update_same_conv)
  have "commit_slot_service p i = (Inr (), ?q)" by (simp add: commit_slot_service_def sub(1) Let_def)
  moreover have "policy_ok ?q"
    using assms(1) slots by (simp add: commit_slot_service_def sub(1) Let_def record_slot_service_def policy_ok_def)
  moreover have "same_shape p ?q"
    using shape by (simp add: commit_slot_service_def sub(1) Let_def record_slot_service_def same_shape_def)
  moreover have "dp_class_cursor ?q = dp_class_cursor p" "dp_last_slot ?q = Some i"
    "dp_slot_burst ?q = (if dp_last_slot p = Some i then saturating_add (dp_slot_burst p) 1 else 1)"
    by (simp_all add: commit_slot_service_def sub(1) Let_def record_slot_service_def)
  ultimately show thesis using that by blast
qed

lemma class_service_ok:
  assumes "policy_ok p" "i < length (dp_slots p)" "slot_cost p i \<le> unat (sl_deficit (slot_at p i))"
    "k < 4" "slot_cost p i \<le> class_credit p k"
  obtains q where "commit_class_service p k i el = (Inr i, q)" "policy_ok q" "same_shape p q" "dp_last_slot q = Some i"
    "dp_slot_burst q = (if dp_last_slot p = Some i then saturating_add (dp_slot_burst p) 1 else 1)"
proof -
  let ?c = "ucast (sl_cost (slot_at p i)) :: u64" and ?d = "dp_class_deficit p ! k"
  let ?p = "p\<lparr>dp_class_deficit := (dp_class_deficit p)[k := ?d - ?c]\<rparr>"
  have sub: "checked_sub ?d ?c = Some (?d - ?c)" "unat (?d - ?c) \<le> unat ?d"
    using checked_sub_fits [of ?c ?d] assms(5) by simp_all
  have "unat (?d - ?c) \<le> 281474976710656" using sub(2) policy_ok_class [OF assms(1,4)] by linarith
  then have "\<forall>d \<in> set ((dp_class_deficit p)[k := ?d - ?c]). unat d \<le> 281474976710656"
    using assms(1) by (intro list_all_update) (simp_all add: policy_ok_def)
  then have ok: "policy_ok ?p" using assms(1) by (simp add: policy_ok_def)
  obtain q where q: "commit_slot_service ?p i = (Inr (), q)" "policy_ok q" "same_shape ?p q" "dp_last_slot q = Some i"
    "dp_slot_burst q = (if dp_last_slot ?p = Some i then saturating_add (dp_slot_burst ?p) 1 else 1)"
    by (rule slot_service_ok [OF ok, of i]) (use assms(2,3) in simp_all)
  let ?r = "snd (commit_class_service p k i el)"
  have "commit_class_service p k i el = (Inr i, ?r)" by (simp add: commit_class_service_def sub(1) q(1) Let_def)
  moreover have "policy_ok ?r" using q(2) assms(4)
    by (simp add: commit_class_service_def sub(1) q(1) Let_def record_class_service_def advance_class_visit_def policy_ok_def CLASS_COUNT_def)
  moreover have "same_shape p ?r" using q(3)
    by (simp add: commit_class_service_def sub(1) q(1) Let_def record_class_service_def advance_class_visit_def same_shape_def)
  moreover have "dp_last_slot ?r = Some i" "dp_slot_burst ?r = (if dp_last_slot p = Some i then saturating_add (dp_slot_burst p) 1 else 1)"
    using q(4,5) by (simp_all add: commit_class_service_def sub(1) q(1) Let_def record_class_service_def advance_class_visit_def)
  ultimately show thesis using that by blast
qed

end
