(* ===== verification/Dispatch_Pass.thy ===== *)
theory Dispatch_Pass
  imports Dispatch_Select
begin

text \<open>
  What one pass over the four classes does: it serves an eligible slot, or every class with work has a
  slot ready that costs more than the class has saved up so far.
\<close>

section \<open>Visiting a class\<close>

definition opened :: "DispatchPolicy \<Rightarrow> DispatchPolicy" where
  "opened p = (let k = dp_class_cursor p in
     if dp_class_visit_open p then p
     else p\<lparr>dp_class_deficit := (dp_class_deficit p)[k := of_nat (min (class_credit p k + quantum_of p k) 281474976710656)],
            dp_class_visit_open := True\<rparr>)"

lemma opened_eq:
  assumes "policy_ok p"
  shows "(if \<not> dp_class_visit_open p
       then bind_st (credit_class_visit p (dp_class_cursor p)) (\<lambda>_ self. (Inr (), self\<lparr>dp_class_visit_open := True\<rparr>))
       else (Inr (), p)) = (Inr (), opened p)"
proof (cases "dp_class_visit_open p")
  case False
  let ?k = "dp_class_cursor p"
  let ?q = "ucast (cp_quantum (dp_classes p ! ?k)) :: u64"
  have "?k < 4" using assms by (simp add: policy_ok_def)
  then have "unat (dp_class_deficit p ! ?k) + unat ?q < 2 ^ 64" using policy_ok_class [OF assms] by fastforce
  then have "checked_add (dp_class_deficit p ! ?k) ?q = Some (dp_class_deficit p ! ?k + ?q)"
    "unat (dp_class_deficit p ! ?k + ?q) = class_credit p ?k + quantum_of p ?k"
    by (simp_all add: checked_add_def unat_word_ariths)
  moreover from this(2) have "min (dp_class_deficit p ! ?k + ?q) MAX_DEFICIT = of_nat (min (class_credit p ?k + quantum_of p ?k) 281474976710656)"
    by (simp add: unat_eq_iff unat_min unat_of_nat)
  ultimately show ?thesis using False by (simp add: credit_class_visit_def opened_def Let_def)
qed (simp add: opened_def Let_def)

lemma opened_simps [simp]: "dp_slots (opened p) = dp_slots p" "dp_classes (opened p) = dp_classes p"
  "dp_class_cursor (opened p) = dp_class_cursor p" "same_turn p (opened p)"
  by (simp_all add: opened_def Let_def same_turn_def same_shape_def)

lemma opened_ok:
  assumes "policy_ok p"
  shows "policy_ok (opened p)"
proof -
  have "\<forall>d \<in> set ((dp_class_deficit p)[dp_class_cursor p := of_nat (min n 281474976710656)]). unat d \<le> 281474976710656" for n
    using assms by (intro list_all_update) (simp_all add: policy_ok_def unat_of_nat)
  then show ?thesis using assms by (simp add: opened_def Let_def policy_ok_def)
qed

lemma opened_credit:
  assumes "policy_ok p" "k < 4"
  shows "class_credit (opened p) k = (if k = dp_class_cursor p \<and> \<not> dp_class_visit_open p
     then min (class_credit p k + quantum_of p k) 281474976710656 else class_credit p k)"
  using assms by (simp add: opened_def Let_def policy_ok_def unat_of_nat nth_list_update)

lemma advance_simps [simp]: "dp_slots (advance_class_visit p k) = dp_slots p"
  "dp_class_deficit (advance_class_visit p k) = dp_class_deficit p" "dp_classes (advance_class_visit p k) = dp_classes p"
  "dp_class_cursor (advance_class_visit p k) = Suc k mod 4" "\<not> dp_class_visit_open (advance_class_visit p k)"
  "same_turn p (advance_class_visit p k)" "policy_ok p \<Longrightarrow> policy_ok (advance_class_visit p k)"
  by (simp_all add: advance_class_visit_def CLASS_COUNT_def same_turn_def same_shape_def policy_ok_def)

section \<open>What a visit without a service keeps\<close>

definition passed :: "bool list \<Rightarrow> DispatchPolicy \<Rightarrow> DispatchPolicy \<Rightarrow> bool" where
  "passed el p q \<longleftrightarrow> same_turn p q \<and> policy_ok q \<and> (\<forall>c i. chosen p c el = Some i \<longrightarrow> chosen q c el = Some i) \<and>
     (\<forall>k < 4. class_credit p k \<le> class_credit q k) \<and>
     (\<forall>i < length (dp_slots p). unat (sl_deficit (slot_at p i)) \<le> unat (sl_deficit (slot_at q i)))"

lemma passed_trans [trans]:
  assumes "passed el p q" "passed el q r"
  shows "passed el p r"
proof -
  have "same_turn p r" using assms by (auto simp: passed_def intro: same_turn_trans)
  moreover have "length (dp_slots q) = length (dp_slots p)"
    using assms(1) same_shape_slot(1) [OF same_turn_shape] by (simp add: passed_def)
  ultimately show ?thesis using assms by (auto simp: passed_def intro: order.trans)
qed

lemma passed_refl: "policy_ok p \<Longrightarrow> passed el p p"
  by (simp add: passed_def)

lemma passed_shape: "passed el p q \<Longrightarrow> same_shape p q"
  by (simp add: passed_def same_turn_shape)

lemma passed_advance:
  assumes "policy_ok p"
  shows "passed el p (advance_class_visit p k)"
  using assms same_turn_chosen [OF advance_simps(6) assms] by (simp add: passed_def)

lemma passed_opened:
  assumes "policy_ok p"
  shows "passed el p (opened p)"
proof -
  have "chosen (opened p) c el = chosen p c el" for c
    by (rule same_turn_chosen [OF opened_simps(4) assms]) simp
  moreover have "class_credit p k \<le> class_credit (opened p) k" if "k < 4" for k
    using policy_ok_class [OF assms that] by (auto simp: opened_credit [OF assms that])
  ultimately show ?thesis using opened_ok [OF assms] by (simp add: passed_def)
qed

lemma passed_credited:
  assumes "policy_ok p" "length el = length (dp_slots p)" "chosen p c el \<noteq> None \<Longrightarrow> r = 0"
  shows "passed el p (credited c el r p)"
proof -
  note turn = credited_same_turn [OF assms(2), of c r]
  have "chosen (credited c el r p) d el = Some i" if "chosen p d el = Some i" for d i
  proof (cases "d = c")
    case True
    then show ?thesis using assms(3) that credited_zero [OF assms(1,2)] by simp
  next
    case False
    then have "chosen (credited c el r p) d el = chosen p d el"
      by (intro same_turn_chosen [OF turn assms(1)]) (simp add: slot_at_credited [OF assms(2)])
    then show ?thesis using that by simp
  qed
  moreover have "unat (sl_deficit (slot_at p i)) \<le> unat (sl_deficit (slot_at (credited c el r p) i))"
    if "i < length (dp_slots p)" for i
    using policy_ok_slot [OF assms(1) that] by (simp add: slot_at_credited [OF assms(2) that] unat_credit slot_ok_def)
  ultimately show ?thesis using turn credited_ok [OF assms(1,2)] by (simp add: passed_def)
qed

lemma pass_visit:
  assumes ok: "policy_ok p" and len: "length el = length (dp_slots p)"
    and ex: "class_has_eligible p (class_all ! dp_class_cursor p) el"
  obtains q i where "passed el p q" "dp_class_cursor q = dp_class_cursor p" "chosen q (class_all ! dp_class_cursor p) el = Some i"
    "dp_class_deficit q = dp_class_deficit (opened p)"
    "chosen p (class_all ! dp_class_cursor p) el \<noteq> None \<Longrightarrow> q = opened p"
    "\<And>n fb. pass_loop (Suc n) fb el p = (let k = dp_class_cursor p; c = class_all ! k in
       if class_credit q k < slot_cost q i then pass_loop n fb el (advance_class_visit q k)
       else if class_burst_exhausted p c \<and> has_other_eligible_class p c el
       then pass_loop n (Some (k, i)) el (advance_class_visit q k)
       else bind_st (commit_class_service q k i el) (\<lambda>i self. (Inr (Some i), self)))"
proof -
  let ?k = "dp_class_cursor p" and ?o = "opened p"
  let ?c = "class_all ! ?k"
  have oe: "class_has_eligible ?o ?c el" and ol: "length el = length (dp_slots ?o)"
    using ex len same_shape_eligible(1) [OF same_turn_shape [OF opened_simps(4)]] by simp_all
  have co: "chosen ?o ?c el = chosen p ?c el" by (rule same_turn_chosen [OF opened_simps(4) ok]) simp
  obtain r i where r: "chosen (credited ?c el r ?o) ?c el = Some i"
      "prepare_slot_in_class ?o ?c el = (Inr i, credited ?c el r ?o)" "chosen ?o ?c el \<noteq> None \<Longrightarrow> r = 0"
    using prepare_slot_ok [OF opened_ok [OF ok] ol oe] by metis
  let ?q = "credited ?c el r ?o"
  have pass: "passed el p ?q"
    using passed_trans [OF passed_opened [OF ok] passed_credited [OF opened_ok [OF ok] ol r(3)]] .
  have same: "class_burst_exhausted ?q ?c = class_burst_exhausted p ?c" "has_other_eligible_class ?q ?c el = has_other_eligible_class p ?c el"
    using pass same_turn_burst same_shape_eligible(2) [OF passed_shape [OF pass]] by (simp_all add: passed_def)
  have "pass_loop (Suc n) fb el p = (let k = ?k; c = class_all ! k in
       if class_credit ?q k < slot_cost ?q i then pass_loop n fb el (advance_class_visit ?q k)
       else if class_burst_exhausted p c \<and> has_other_eligible_class p c el
       then pass_loop n (Some (k, i)) el (advance_class_visit ?q k)
       else bind_st (commit_class_service ?q k i el) (\<lambda>i self. (Inr (Some i), self)))" for n fb
    using ex by (simp add: Let_def opened_eq [OF ok] r(2) word_less_nat_alt split del: if_split) (simp add: same)
  with that [of ?q i] pass r co credited_zero [OF opened_ok [OF ok] ol] show thesis by (simp add: Let_def)
qed

section \<open>A pass\<close>

definition serviceable :: "bool list \<Rightarrow> DispatchPolicy \<Rightarrow> nat \<Rightarrow> nat \<Rightarrow> bool" where
  "serviceable el p k i \<longleftrightarrow> k < 4 \<and> i < length (dp_slots p) \<and> slot_candidate p (class_all ! k) el i \<and>
     slot_cost p i \<le> unat (sl_deficit (slot_at p i)) \<and> slot_cost p i \<le> class_credit p k"

definition served :: "bool list \<Rightarrow> DispatchPolicy \<Rightarrow> nat \<Rightarrow> DispatchPolicy \<Rightarrow> bool" where
  "served el p i q \<longleftrightarrow> policy_ok q \<and> same_shape p q \<and> i < length (dp_slots p) \<and>
     slot_candidate p (sl_class (slot_at p i)) el i \<and> dp_last_slot q = Some i \<and>
     dp_slot_burst q = (if dp_last_slot p = Some i then saturating_add (dp_slot_burst p) 1 else 1)"

definition visited :: "nat \<Rightarrow> nat \<Rightarrow> nat set" where
  "visited cur n = (\<lambda>j. (cur + j) mod 4) ` {..<n}"

definition short :: "bool list \<Rightarrow> DispatchPolicy \<Rightarrow> nat \<Rightarrow> bool" where
  "short el p k \<longleftrightarrow> (class_has_eligible p (class_all ! k) el \<longrightarrow>
     (\<exists>i. chosen p (class_all ! k) el = Some i \<and> class_credit p k < slot_cost p i))"

definition held_back :: "bool list \<Rightarrow> DispatchPolicy \<Rightarrow> nat \<Rightarrow> DispatchPolicy \<Rightarrow> bool" where
  "held_back el p n q \<longleftrightarrow> passed el p q \<and> (\<not> dp_class_visit_open p \<or> 0 < n \<longrightarrow> \<not> dp_class_visit_open q) \<and>
     (\<forall>k \<in> visited (dp_class_cursor p) n. short el q k \<and>
        (\<not> dp_class_visit_open p \<longrightarrow> class_has_eligible p (class_all ! k) el \<longrightarrow>
         min (class_credit p k + quantum_of p k) 281474976710656 \<le> class_credit q k)) \<and>
     (\<forall>k < 4. k \<notin> visited (dp_class_cursor p) n \<longrightarrow> class_credit q k = class_credit p k)"

lemma visited_Suc: "visited cur (Suc n) = insert (cur mod 4) (visited (Suc cur mod 4) n)"
  by (simp add: visited_def lessThan_Suc_eq_insert_0 image_image mod_add_left_eq)

lemma visited_less: "k \<in> visited cur n \<Longrightarrow> k < 4"
  by (auto simp: visited_def)

lemma not_visited: "cur < 4 \<Longrightarrow> n < 4 \<Longrightarrow> cur \<notin> visited (Suc cur mod 4) n"
  by (auto simp: visited_def mod_simps) presburger

lemma visited_all: "visited cur 4 = {..<4}"
  using set_scan_order [of 4 cur] by (simp add: visited_def scan_order_def atLeast0LessThan)

lemma served_passed: "passed el p q \<Longrightarrow> served el q i r \<Longrightarrow> served el p i r"
  using same_shape_slot [OF passed_shape, of el p q] same_turn_candidate [of p q i] same_shape_trans [OF passed_shape, of el p q r]
  by (auto simp: served_def passed_def same_turn_def)

lemma serviceable_passed:
  assumes "passed el p q" "serviceable el p k i"
  shows "serviceable el q k i"
proof -
  have "slot_candidate q (class_all ! k) el i" "slot_cost q i = slot_cost p i" "length (dp_slots q) = length (dp_slots p)"
    using assms same_turn_candidate [of p q i] same_shape_slot [OF passed_shape [OF assms(1)]]
    by (simp_all add: serviceable_def passed_def)
  then show ?thesis using assms by (auto simp: serviceable_def passed_def intro: order.trans)
qed

lemma serviceable_serve:
  assumes "policy_ok p" "serviceable el p k i"
  obtains q where "commit_class_service p k i el = (Inr i, q)" "served el p i q"
proof -
  have i: "i < length (dp_slots p)" "slot_cost p i \<le> unat (sl_deficit (slot_at p i))" "k < 4" "slot_cost p i \<le> class_credit p k"
    "slot_candidate p (class_all ! k) el i"
    using assms(2) by (simp_all add: serviceable_def)
  show thesis
    by (rule class_service_ok [OF assms(1) i(1-4), of el], rule that)
       (use i candidate_simps [OF i(5)] in \<open>simp_all add: served_def\<close>)
qed

lemma short_passed:
  assumes "short el p k" "passed el p q" "class_credit q k = class_credit p k" "policy_ok p"
  shows "short el q k"
proof -
  have "slot_cost q i = slot_cost p i" if "chosen p c el = Some i" for c i
    using same_shape_slot(2) [OF passed_shape [OF assms(2)] chosenD(1) [OF that assms(4)]] by simp
  then show ?thesis
    using assms same_shape_eligible(1) [OF passed_shape [OF assms(2)]] by (fastforce simp: short_def passed_def)
qed

lemma held_back_step:
  assumes ok: "policy_ok p" and n: "n < 4" and q: "passed el p q" "short el q (dp_class_cursor p)"
    and other: "\<And>k. k < 4 \<Longrightarrow> k \<noteq> dp_class_cursor p \<Longrightarrow> class_credit q k = class_credit p k"
    and here: "\<not> dp_class_visit_open p \<Longrightarrow> class_has_eligible p (class_all ! dp_class_cursor p) el \<Longrightarrow>
       min (class_credit p (dp_class_cursor p) + quantum_of p (dp_class_cursor p)) 281474976710656 \<le> class_credit q (dp_class_cursor p)"
    and rest: "held_back el (advance_class_visit q (dp_class_cursor p)) n r"
  shows "held_back el p (Suc n) r"
proof -
  let ?k = "dp_class_cursor p"
  let ?a = "advance_class_visit q ?k"
  have k: "?k < 4" using ok by (simp add: policy_ok_def)
  have okq: "policy_ok q" using q(1) by (simp add: passed_def)
  have pass: "passed el q r" "passed el p r"
    using passed_trans [OF passed_advance [OF okq]] passed_trans [OF q(1)] rest by (auto simp: held_back_def)
  have fresh: "?k \<notin> visited (Suc ?k mod 4) n" by (rule not_visited [OF k n])
  have keep: "class_credit r j = class_credit q j" if "j < 4" "j \<notin> visited (Suc ?k mod 4) n" for j
    using rest that by (simp add: held_back_def)
  have "\<not> dp_class_visit_open r" using rest by (simp add: held_back_def)
  moreover have "short el r j" if "j \<in> visited ?k (Suc n)" for j
  proof (cases "j = ?k")
    case True
    then show ?thesis using short_passed [OF q(2) pass(1) _ okq] keep [OF k fresh] by simp
  next
    case False
    then show ?thesis using that rest k by (auto simp: visited_Suc held_back_def)
  qed
  moreover have "min (class_credit p j + quantum_of p j) 281474976710656 \<le> class_credit r j"
    if j: "j \<in> visited ?k (Suc n)" "\<not> dp_class_visit_open p" "class_has_eligible p (class_all ! j) el" for j
  proof (cases "j = ?k")
    case True
    then show ?thesis using here j keep [OF k fresh] by simp
  next
    case False
    have same: "dp_classes q = dp_classes p" "class_has_eligible q (class_all ! j) el"
      using q(1) j(3) same_shape_eligible(1) [OF passed_shape [OF q(1)]] passed_shape [OF q(1)] by (simp_all add: same_shape_def)
    have "class_has_eligible ?a (class_all ! j) el"
      using same(2) same_shape_eligible(1) [OF same_turn_shape [OF advance_simps(6)]] by simp
    moreover have "j \<in> visited (Suc ?k mod 4) n" using j(1) False k by (simp add: visited_Suc)
    ultimately have "min (class_credit q j + quantum_of q j) 281474976710656 \<le> class_credit r j"
      using rest unfolding held_back_def by auto
    then show ?thesis using same(1) other [OF visited_less [OF j(1)] False] by simp
  qed
  moreover have "class_credit r j = class_credit p j" if "j < 4" "j \<notin> visited ?k (Suc n)" for j
    using that keep [of j] other [of j] k by (simp add: visited_Suc)
  ultimately show ?thesis using pass(2) by (simp add: held_back_def)
qed

lemma pass_loop_ok:
  assumes "policy_ok p" "length el = length (dp_slots p)" "\<And>k i. fb = Some (k, i) \<Longrightarrow> serviceable el p k i" "n \<le> 4"
  shows "(\<exists>i q. pass_loop n fb el p = (Inr (Some i), q) \<and> served el p i q) \<or>
    (\<exists>q. fb = None \<and> pass_loop n fb el p = (Inr None, q) \<and> held_back el p n q)"
  using assms
proof (induction n arbitrary: p fb)
  case 0
  show ?case
  proof (cases fb)
    case None
    then show ?thesis using 0 passed_refl by (simp add: held_back_def visited_def)
  next
    case (Some ki)
    then obtain k i where ki: "fb = Some (k, i)" by (cases ki) simp
    then obtain q where "commit_class_service p k i el = (Inr i, q)" "served el p i q"
      using serviceable_serve [OF 0(1) 0(3)] by blast
    then show ?thesis using ki by simp
  qed
next
  case (Suc n)
  let ?k = "dp_class_cursor p"
  let ?c = "class_all ! ?k"
  have k: "?k < 4" using Suc.prems(1) by (simp add: policy_ok_def)
  have go: ?case
    if q: "passed el p q" "short el q ?k" "\<And>k. k < 4 \<Longrightarrow> k \<noteq> ?k \<Longrightarrow> class_credit q k = class_credit p k"
      "\<not> dp_class_visit_open p \<Longrightarrow> class_has_eligible p ?c el \<Longrightarrow>
         min (class_credit p ?k + quantum_of p ?k) 281474976710656 \<le> class_credit q ?k"
      and loop: "pass_loop (Suc n) fb el p = pass_loop n fb el (advance_class_visit q ?k)" for q
  proof -
    have okq: "policy_ok q" using q(1) by (simp add: passed_def)
    have adv: "passed el p (advance_class_visit q ?k)" using passed_trans [OF q(1) passed_advance [OF okq]] .
    have len: "length el = length (dp_slots (advance_class_visit q ?k))"
      using Suc.prems(2) same_shape_slot(1) [OF passed_shape [OF adv]] by simp
    from Suc.IH [of "advance_class_visit q ?k" fb] okq len serviceable_passed [OF adv Suc.prems(3)] Suc.prems(4)
    show ?thesis unfolding loop
      using served_passed [OF adv] held_back_step [OF Suc.prems(1) _ q(1,2,3,4)] by auto
  qed
  show ?case
  proof (cases "class_has_eligible p ?c el")
    case False
    then show ?thesis using go [of p] passed_refl [OF Suc.prems(1)] by (simp add: short_def Let_def)
  next
    case True
    obtain q i where q: "passed el p q" "chosen q ?c el = Some i" "dp_class_deficit q = dp_class_deficit (opened p)"
      and loop: "pass_loop (Suc n) fb el p = (if class_credit q ?k < slot_cost q i then pass_loop n fb el (advance_class_visit q ?k)
       else if class_burst_exhausted p ?c \<and> has_other_eligible_class p ?c el
       then pass_loop n (Some (?k, i)) el (advance_class_visit q ?k)
       else bind_st (commit_class_service q ?k i el) (\<lambda>i self. (Inr (Some i), self)))"
      by (rule pass_visit [OF Suc.prems(1,2) True]) (simp add: Let_def)
    have okq: "policy_ok q" using q(1) by (simp add: passed_def)
    note i = chosenD [OF q(2) okq]
    show ?thesis
    proof (cases "class_credit q ?k < slot_cost q i")
      case True
      have "class_credit q j = class_credit p j" if "j < 4" "j \<noteq> ?k" for j
        using that q(3) opened_credit [OF Suc.prems(1)] by simp
      moreover have "class_credit q ?k = min (class_credit p ?k + quantum_of p ?k) 281474976710656" if "\<not> dp_class_visit_open p"
        using that q(3) opened_credit [OF Suc.prems(1) k] by simp
      moreover have "short el q ?k" using True q(2) by (simp add: short_def)
      ultimately show ?thesis using go [of q] q(1) loop True by simp
    next
      case False
      then have can: "serviceable el q ?k i" using i k by (simp add: serviceable_def)
      have adv: "passed el p (advance_class_visit q ?k)" using passed_trans [OF q(1) passed_advance [OF okq]] .
      have len: "length el = length (dp_slots (advance_class_visit q ?k))"
        using Suc.prems(2) same_shape_slot(1) [OF passed_shape [OF adv]] by simp
      show ?thesis
      proof (cases "class_burst_exhausted p ?c \<and> has_other_eligible_class p ?c el")
        case True
        from Suc.IH [of "advance_class_visit q ?k" "Some (?k, i)"] okq len serviceable_passed [OF passed_advance [OF okq] can] Suc.prems(4)
        show ?thesis unfolding loop using True False served_passed [OF adv] by auto
      next
        case no: False
        obtain r where "commit_class_service q ?k i el = (Inr i, r)" "served el q i r"
          by (rule serviceable_serve [OF okq can])
        then show ?thesis unfolding loop using False no served_passed [OF q(1)] by auto
      qed
    qed
  qed
qed

end
