(* ===== verification/Dispatch_Rounds.thy ===== *)
theory Dispatch_Rounds
  imports Dispatch_Pass
begin

text \<open>
  Skipping ahead: rounds in which every class only saves up can be credited at once, and a selection over
  the classes is the same as passing over them again and again until one is served.
\<close>

section \<open>Rounds without a service\<close>

definition bumped_deficit :: "bool list \<Rightarrow> nat \<Rightarrow> DispatchPolicy \<Rightarrow> u64 list" where
  "bumped_deficit el m p = map (\<lambda>k. if class_has_eligible p (class_all ! k) el
     then dp_class_deficit p ! k + of_nat (m * quantum_of p k) else dp_class_deficit p ! k) [0..<4]"

definition bumped :: "bool list \<Rightarrow> nat \<Rightarrow> DispatchPolicy \<Rightarrow> DispatchPolicy" where
  "bumped el m p = p\<lparr>dp_class_deficit := bumped_deficit el m p\<rparr>"

lemma length_bumped_deficit [simp]: "length (bumped_deficit el m p) = 4"
  by (simp add: bumped_deficit_def)

lemma nth_bumped_deficit: "k < 4 \<Longrightarrow> bumped_deficit el m p ! k = (if class_has_eligible p (class_all ! k) el
     then dp_class_deficit p ! k + of_nat (m * quantum_of p k) else dp_class_deficit p ! k)"
  by (simp add: bumped_deficit_def)

text \<open>After \<open>m\<close> more rounds the class at position \<open>k\<close> still cannot pay for its next slot.\<close>

definition waits :: "bool list \<Rightarrow> nat \<Rightarrow> DispatchPolicy \<Rightarrow> nat \<Rightarrow> bool" where
  "waits el m p k \<longleftrightarrow> (class_has_eligible p (class_all ! k) el \<longrightarrow>
     (\<exists>i. chosen p (class_all ! k) el = Some i \<and> class_credit p k + m * quantum_of p k < slot_cost p i))"

lemma waits_zero: "waits el 0 p k = short el p k"
  by (simp add: waits_def short_def)

lemma waits_small:
  assumes "policy_ok p" "waits el m p k" "class_has_eligible p (class_all ! k) el"
  shows "class_credit p k + m * quantum_of p k < 1000000"
proof -
  obtain i where i: "chosen p (class_all ! k) el = Some i" "class_credit p k + m * quantum_of p k < slot_cost p i"
    using assms(2,3) by (auto simp: waits_def)
  show ?thesis using policy_ok_slot [OF assms(1) chosenD(1) [OF i(1) assms(1)]] i(2) by (simp add: slot_ok_def)
qed

lemma unat_add_small: "unat d + n < 2 ^ 64 \<Longrightarrow> unat (d + of_nat n :: u64) = unat d + n"
  by (simp add: unat_word_ariths unat_of_nat)

lemma bumped_credit:
  assumes "policy_ok p" "waits el m p k" "k < 4"
  shows "class_credit (bumped el m p) k =
    (if class_has_eligible p (class_all ! k) el then class_credit p k + m * quantum_of p k else class_credit p k)"
proof (cases "class_has_eligible p (class_all ! k) el")
  case True
  have "class_credit p k + m * quantum_of p k < 2 ^ 64" using waits_small [OF assms(1,2) True] by simp
  from unat_add_small [OF this] True assms(3) show ?thesis by (simp add: bumped_def nth_bumped_deficit)
next
  case False
  then show ?thesis using assms(3) by (simp add: bumped_def nth_bumped_deficit)
qed

lemma bumped_simps [simp]: "dp_slots (bumped el m p) = dp_slots p" "dp_classes (bumped el m p) = dp_classes p"
  "dp_class_visit_open (bumped el m p) = dp_class_visit_open p" "dp_class_cursor (bumped el m p) = dp_class_cursor p"
  "same_turn p (bumped el m p)"
  by (simp_all add: bumped_def same_turn_def same_shape_def)

lemma bumped_chosen: "policy_ok p \<Longrightarrow> chosen (bumped el m p) c el = chosen p c el"
  by (rule same_turn_chosen [OF bumped_simps(5)]) simp_all

lemma bumped_ok:
  assumes "policy_ok p" "\<forall>k < 4. waits el m p k"
  shows "policy_ok (bumped el m p)"
proof -
  have "class_credit (bumped el m p) k \<le> 281474976710656" if k: "k < 4" for k
  proof (cases "class_has_eligible p (class_all ! k) el")
    case True
    have w: "waits el m p k" using assms(2) k by blast
    show ?thesis using waits_small [OF assms(1) w True] True by (simp add: bumped_credit [OF assms(1) w k])
  next
    case False
    then show ?thesis using policy_ok_class [OF assms(1) k] by (simp add: bumped_def nth_bumped_deficit k)
  qed
  then have "\<forall>d \<in> set (bumped_deficit el m p). unat d \<le> 281474976710656" by (auto simp: in_set_conv_nth bumped_def)
  then show ?thesis using assms(1) by (simp add: policy_ok_def bumped_def)
qed

lemma eligible_bumped [simp]: "class_has_eligible (bumped el m p) c el = class_has_eligible p c el"
  by (rule same_shape_eligible(1) [OF same_turn_shape [OF bumped_simps(5)]])

lemma waits_bumped:
  assumes "policy_ok p" "waits el (m + j) p k" "k < 4"
  shows "waits el m p k" "waits el j (bumped el m p) k"
proof -
  show w: "waits el m p k" using assms(2) by (auto simp: waits_def algebra_simps)
  show "waits el j (bumped el m p) k"
    using assms(2) bumped_credit [OF assms(1) w assms(3)] bumped_chosen [OF assms(1)] by (auto simp: waits_def algebra_simps)
qed

lemma bumped_bumped: "bumped el j (bumped el m p) = bumped el (m + j) p"
proof -
  have "bumped_deficit el j (bumped el m p) = bumped_deficit el (m + j) p"
    by (rule nth_equalityI) (simp_all add: nth_bumped_deficit, simp_all add: bumped_def nth_bumped_deficit algebra_simps)
  then show ?thesis by (simp add: bumped_def)
qed

lemma bumped_zero:
  assumes "policy_ok p"
  shows "bumped el 0 p = p"
proof -
  have "bumped_deficit el 0 p = dp_class_deficit p"
    using assms by (intro nth_equalityI) (simp_all add: nth_bumped_deficit policy_ok_def)
  then show ?thesis by (simp add: bumped_def)
qed

section \<open>A pass in which every class waits\<close>

definition passed_deficit :: "bool list \<Rightarrow> nat \<Rightarrow> DispatchPolicy \<Rightarrow> u64 list" where
  "passed_deficit el n p = map (\<lambda>k. if k \<in> visited (dp_class_cursor p) n \<and> class_has_eligible p (class_all ! k) el
     then dp_class_deficit p ! k + of_nat (quantum_of p k) else dp_class_deficit p ! k) [0..<4]"

definition visit :: "bool list \<Rightarrow> DispatchPolicy \<Rightarrow> DispatchPolicy" where
  "visit el p = (let k = dp_class_cursor p in p\<lparr>dp_class_deficit := (dp_class_deficit p)[k :=
      if class_has_eligible p (class_all ! k) el then dp_class_deficit p ! k + of_nat (quantum_of p k) else dp_class_deficit p ! k],
      dp_class_cursor := Suc k mod 4\<rparr>)"

lemma visit_simps [simp]: "dp_slots (visit el p) = dp_slots p" "dp_classes (visit el p) = dp_classes p"
  "dp_class_visit_open (visit el p) = dp_class_visit_open p" "dp_class_cursor (visit el p) = Suc (dp_class_cursor p) mod 4"
  "same_turn p (visit el p)"
  by (simp_all add: visit_def Let_def same_turn_def same_shape_def)

lemma visit_waits:
  assumes ok: "policy_ok p" and len: "length el = length (dp_slots p)" and closed: "\<not> dp_class_visit_open p"
    and w: "waits el 1 p (dp_class_cursor p)"
  shows "pass_loop (Suc n) None el p = pass_loop n None el (visit el p)" "policy_ok (visit el p)"
proof -
  let ?k = "dp_class_cursor p"
  let ?c = "class_all ! ?k"
  have k: "?k < 4" using ok by (simp add: policy_ok_def)
  have goal: "pass_loop (Suc n) None el p = pass_loop n None el (visit el p) \<and> policy_ok (visit el p)"
  proof (cases "class_has_eligible p ?c el")
    case False
    then have "advance_class_visit p ?k = visit el p"
      using closed by (cases p) (simp add: advance_class_visit_def visit_def Let_def CLASS_COUNT_def)
    then show ?thesis using False advance_simps(7) [OF ok, of ?k] by (simp add: Let_def)
  next
    case True
    obtain i where i: "chosen p ?c el = Some i" "class_credit p ?k + quantum_of p ?k < slot_cost p i"
      using w True by (auto simp: waits_def)
    have small: "class_credit p ?k + quantum_of p ?k < 1000000" using waits_small [OF ok w True] by simp
    have "advance_class_visit (opened p) ?k = visit el p"
      using closed True small by (cases p) (simp add: advance_class_visit_def opened_def visit_def Let_def CLASS_COUNT_def min_def)
    moreover obtain q j where q: "chosen q ?c el = Some j" "q = opened p"
      and loop: "pass_loop (Suc n) None el p = (if class_credit q ?k < slot_cost q j then pass_loop n None el (advance_class_visit q ?k)
       else if class_burst_exhausted p ?c \<and> has_other_eligible_class p ?c el
       then pass_loop n (Some (?k, j)) el (advance_class_visit q ?k)
       else bind_st (commit_class_service q ?k j el) (\<lambda>i self. (Inr (Some i), self)))"
      by (rule pass_visit [OF ok len True]) (use i in \<open>simp add: Let_def\<close>)
    moreover have "j = i" using q i(1) same_turn_chosen [OF opened_simps(4) ok, of ?c el] by simp
    ultimately show ?thesis
      using i(2) small closed opened_credit [OF ok k] opened_ok [OF ok] advance_simps(7) [of "opened p" ?k] by simp
  qed
  then show "pass_loop (Suc n) None el p = pass_loop n None el (visit el p)" "policy_ok (visit el p)" by auto
qed

lemma pass_loop_waits:
  assumes "policy_ok p" "length el = length (dp_slots p)" "\<not> dp_class_visit_open p" "n \<le> 4"
    "\<forall>k \<in> visited (dp_class_cursor p) n. waits el 1 p k"
  shows "pass_loop n None el p = (Inr None, p\<lparr>dp_class_deficit := passed_deficit el n p, dp_class_cursor := (dp_class_cursor p + n) mod 4\<rparr>)"
  using assms
proof (induction n arbitrary: p)
  case 0
  have "passed_deficit el 0 p = dp_class_deficit p"
    using 0(1) by (intro nth_equalityI) (simp_all add: passed_deficit_def visited_def policy_ok_def)
  then show ?case using 0(1) by (simp add: policy_ok_def)
next
  case (Suc n)
  let ?k = "dp_class_cursor p" and ?p = "visit el p"
  have k: "?k < 4" "length (dp_class_deficit p) = 4" using Suc.prems(1) by (simp_all add: policy_ok_def)
  have fresh: "?k \<notin> visited (Suc ?k mod 4) n" using not_visited [OF k(1)] Suc.prems(4) by simp
  have v: "visited ?k (Suc n) = insert ?k (visited (dp_class_cursor ?p) n)" using k(1) by (simp add: visited_Suc)
  then have here: "waits el 1 p ?k" using Suc.prems(5) by simp
  note step = visit_waits [OF Suc.prems(1-3) here]
  have eligible: "class_has_eligible ?p c el = class_has_eligible p c el" for c
    by (rule same_shape_eligible(1) [OF same_turn_shape [OF visit_simps(5)]])
  have credit: "dp_class_deficit ?p ! j = dp_class_deficit p ! j" if "j < 4" "j \<noteq> ?k" for j
    using that k by (simp add: visit_def Let_def)
  have "waits el 1 ?p j" if j: "j \<in> visited (dp_class_cursor ?p) n" for j
  proof -
    have "j \<noteq> ?k" "j < 4" using j fresh visited_less by auto
    moreover have "waits el 1 p j" using Suc.prems(5) v j by simp
    moreover have "chosen ?p c el = chosen p c el" for c by (rule same_turn_chosen [OF visit_simps(5) Suc.prems(1)]) simp
    ultimately show ?thesis by (simp add: waits_def eligible credit)
  qed
  then have rest: "pass_loop n None el ?p = (Inr None, ?p\<lparr>dp_class_deficit := passed_deficit el n ?p,
      dp_class_cursor := (dp_class_cursor ?p + n) mod 4\<rparr>)"
    using Suc.prems step(2) by (intro Suc.IH) auto
  have "passed_deficit el n ?p = passed_deficit el (Suc n) p"
  proof (rule nth_equalityI)
    fix j assume "j < length (passed_deficit el n ?p)"
    then have j: "j < 4" by (simp add: passed_deficit_def)
    show "passed_deficit el n ?p ! j = passed_deficit el (Suc n) p ! j"
    proof (cases "j = ?k")
      case True
      then show ?thesis using j fresh k by (simp add: passed_deficit_def visited_Suc eligible visit_def Let_def)
    next
      case False
      then show ?thesis using j k credit by (simp add: passed_deficit_def visited_Suc eligible)
    qed
  qed (simp add: passed_deficit_def)
  moreover have "(dp_class_cursor ?p + n) mod 4 = (?k + Suc n) mod 4" by (simp add: mod_add_left_eq)
  ultimately show ?case using rest step(1) by (simp add: visit_def Let_def)
qed

lemma pass_waits:
  assumes "policy_ok p" "length el = length (dp_slots p)" "\<not> dp_class_visit_open p" "\<forall>k < 4. waits el 1 p k"
  shows "select_hierarchical_pass p el = (Inr None, bumped el 1 p)"
proof -
  have "passed_deficit el 4 p = bumped_deficit el 1 p"
    by (rule nth_equalityI) (simp_all add: passed_deficit_def bumped_deficit_def visited_all)
  moreover have "dp_class_cursor p < 4" using assms(1) by (simp add: policy_ok_def)
  ultimately show ?thesis
    using pass_loop_waits [OF assms(1-3), of 4] assms(4)
    by (simp add: select_hierarchical_pass_def CLASS_COUNT_def visited_all bumped_def)
qed

section \<open>Skipping ahead\<close>

lemma class_all_set [simp]: "c \<in> set class_all"
  by (cases c) (simp_all add: class_all_def)

lemma class_index_inject [simp]: "class_index c = class_index d \<longleftrightarrow> c = d"
  by (cases c; cases d) simp_all

definition visits_of :: "bool list \<Rightarrow> DispatchPolicy \<Rightarrow> DispatchClass \<Rightarrow> nat" where
  "visits_of el p c = rounds_needed (slot_cost p (the (chosen p c el)) - class_credit p (class_index c)) (quantum_of p (class_index c))"

lemma short_class:
  assumes "policy_ok p" "\<forall>k < 4. short el p k" "class_has_eligible p c el"
  obtains i where "chosen p c el = Some i" "class_credit p (class_index c) < slot_cost p i" "slot_cost p i \<le> 1000000"
    "0 < quantum_of p (class_index c)" "quantum_of p (class_index c) \<le> 256000000"
proof -
  obtain i where i: "chosen p c el = Some i" "class_credit p (class_index c) < slot_cost p i"
    using assms(2,3) class_all_index [of c] unfolding short_def by metis
  moreover have "slot_cost p i \<le> 1000000"
    using policy_ok_slot [OF assms(1) chosenD(1) [OF i(1) assms(1)]] by (simp add: slot_ok_def)
  ultimately show thesis using that policy_ok_class [OF assms(1) class_all_index(2), of c] by blast
qed

lemma visits_step:
  assumes "policy_ok p" "length el = length (dp_slots p)" "\<forall>k < 4. short el p k" "class_has_eligible p c el"
  obtains v where "unat v = visits_of el p c" "0 < unat v" "unat v \<le> 1000000"
    "\<And>cs found. visits_until_service (c # cs) found el p =
       visits_until_service cs (Some (case found of None \<Rightarrow> v | Some current \<Rightarrow> min current v)) el p"
proof -
  let ?k = "class_index c"
  obtain i where i: "chosen p c el = Some i" "class_credit p ?k < slot_cost p i" "slot_cost p i \<le> 1000000"
      "0 < quantum_of p ?k" "quantum_of p ?k \<le> 256000000"
    using short_class [OF assms(1,3,4)] by blast
  let ?cost = "ucast (sl_cost (slot_at p i)) :: u64" and ?d = "dp_class_deficit p ! ?k"
  let ?q = "ucast (cp_quantum (dp_classes p ! ?k)) :: u64"
  have m: "checked_sub ?cost ?d = Some (?cost - ?d)" "unat (?cost - ?d) = slot_cost p i - class_credit p ?k"
    using checked_sub_fits [of ?d ?cost] i(2) by simp_all
  have pos: "?cost - ?d > 0" using m(2) i(2) by (simp add: word_less_nat_alt)
  have "unat (?cost - ?d) + unat ?q \<le> 257000000" using m(2) i(3,5) by simp
  then obtain padded where padded: "checked_add (?cost - ?d) (?q - 1) = Some padded"
      "unat (padded div ?q) = rounds_needed (slot_cost p i - class_credit p ?k) (quantum_of p ?k)"
    using word_div_round_up [of ?q "?cost - ?d"] i(4) m(2) by auto
  then have v: "unat (padded div ?q) = visits_of el p c" by (simp add: visits_of_def i(1))
  have "visits_until_service (c # cs) found el p =
      visits_until_service cs (Some (case found of None \<Rightarrow> padded div ?q | Some current \<Rightarrow> min current (padded div ?q))) el p" for cs found
    using assms(4) pos padded(1) prepare_chosen [OF assms(1,2,4) i(1)] by (simp add: m(1) Let_def)
  moreover have "visits_of el p c \<noteq> 0"
    using i(2) rounds_needed_zero [OF i(4), of "slot_cost p i - class_credit p ?k"] by (simp add: visits_of_def i(1))
  moreover have "visits_of el p c \<le> 1000000"
    using i(3) rounds_needed_le [OF i(4), of "slot_cost p i - class_credit p ?k"] by (simp add: visits_of_def i(1))
  ultimately show thesis using that [of "padded div ?q"] v by simp
qed

lemma visits_Some:
  assumes "policy_ok p" "length el = length (dp_slots p)" "\<forall>k < 4. short el p k"
  shows "\<exists>v. visits_until_service cs (Some f) el p = (Inr (Some v), p) \<and> unat v \<le> unat f \<and>
    (v = f \<or> (\<exists>c \<in> set cs. class_has_eligible p c el \<and> unat v = visits_of el p c)) \<and>
    (\<forall>c \<in> set cs. class_has_eligible p c el \<longrightarrow> unat v \<le> visits_of el p c)"
proof (induction cs arbitrary: f)
  case (Cons c cs)
  show ?case
  proof (cases "class_has_eligible p c el")
    case False
    with Cons.IH [of f] show ?thesis by simp
  next
    case True
    obtain n where n: "unat n = visits_of el p c" "visits_until_service (c # cs) (Some f) el p =
        visits_until_service cs (Some (min f n)) el p"
      by (rule visits_step [OF assms True]) simp
    obtain v where v: "visits_until_service cs (Some (min f n)) el p = (Inr (Some v), p)" "unat v \<le> unat (min f n)"
      "v = min f n \<or> (\<exists>c \<in> set cs. class_has_eligible p c el \<and> unat v = visits_of el p c)"
      "\<forall>c \<in> set cs. class_has_eligible p c el \<longrightarrow> unat v \<le> visits_of el p c"
      using Cons.IH [of "min f n"] by auto
    have "unat v \<le> unat f" "unat v \<le> visits_of el p c" using v(2) n(1) by (simp_all add: unat_min)
    moreover have "min f n = f \<or> min f n = n" by (simp add: min_def)
    then have "v = f \<or> v = n \<or> (\<exists>c \<in> set cs. class_has_eligible p c el \<and> unat v = visits_of el p c)" using v(3) by auto
    ultimately show ?thesis using True n v(1,4) by auto
  qed
qed simp

lemma visits_ok:
  assumes "policy_ok p" "length el = length (dp_slots p)" "\<forall>k < 4. short el p k" "c \<in> set cs" "class_has_eligible p c el"
  shows "\<exists>v. visits_until_service cs None el p = (Inr (Some v), p) \<and> 0 < unat v \<and> unat v \<le> 1000000 \<and>
    (\<exists>c \<in> set cs. class_has_eligible p c el \<and> unat v = visits_of el p c) \<and>
    (\<forall>c \<in> set cs. class_has_eligible p c el \<longrightarrow> unat v \<le> visits_of el p c)"
  using assms(4)
proof (induction cs)
  case (Cons d cs)
  show ?case
  proof (cases "class_has_eligible p d el")
    case False
    with Cons assms(5) show ?thesis by auto
  next
    case True
    obtain n where n: "unat n = visits_of el p d" "visits_until_service (d # cs) None el p = visits_until_service cs (Some n) el p"
      by (rule visits_step [OF assms(1-3) True]) simp
    obtain v where v: "visits_until_service cs (Some n) el p = (Inr (Some v), p)"
      "v = n \<or> (\<exists>c \<in> set cs. class_has_eligible p c el \<and> unat v = visits_of el p c)"
      "\<forall>c \<in> set (d # cs). class_has_eligible p c el \<longrightarrow> unat v \<le> visits_of el p c"
      using visits_Some [OF assms(1-3), of cs n] n(1) by auto
    then have "\<exists>c \<in> set (d # cs). class_has_eligible p c el \<and> unat v = visits_of el p c" using n(1) True by auto
    moreover from this have "0 < unat v \<and> unat v \<le> 1000000" using visits_step [OF assms(1-3)] by metis
    ultimately show ?thesis using n(2) v(1,3) by auto
  qed
qed simp

lemma credit_rounds_ok:
  assumes "distinct cs" "length (dp_class_deficit p) = 4"
    "\<forall>c \<in> set cs. class_has_eligible p c el \<longrightarrow> class_credit p (class_index c) + unat e * quantum_of p (class_index c) < 1000000"
  shows "\<exists>ds. credit_rounds cs e el p = (Inr (), p\<lparr>dp_class_deficit := ds\<rparr>) \<and> length ds = 4 \<and>
    (\<forall>c. ds ! class_index c = (if c \<in> set cs \<and> class_has_eligible p c el
       then dp_class_deficit p ! class_index c + of_nat (unat e * quantum_of p (class_index c)) else dp_class_deficit p ! class_index c))"
  using assms
proof (induction cs arbitrary: p)
  case Nil
  show ?case by (rule exI [of _ "dp_class_deficit p"]) (use Nil(2) in simp)
next
  case (Cons c cs)
  show ?case
  proof (cases "class_has_eligible p c el")
    case False
    with Cons.IH [of p] Cons.prems show ?thesis by auto
  next
    case True
    let ?k = "class_index c"
    let ?q = "ucast (cp_quantum (dp_classes p ! ?k)) :: u64" and ?d = "dp_class_deficit p ! ?k"
    let ?p = "p\<lparr>dp_class_deficit := (dp_class_deficit p)[?k := ?d + of_nat (unat e * quantum_of p ?k)]\<rparr>"
    have small: "class_credit p ?k + unat e * quantum_of p ?k < 1000000" using Cons.prems(3) True by simp
    then have "checked_mul e ?q = Some (e * ?q)" "unat (e * ?q) = unat e * quantum_of p ?k"
      by (simp_all add: checked_mul_def unat_word_ariths)
    moreover from this(2) have "checked_add ?d (e * ?q) = Some (?d + e * ?q)" "unat (?d + e * ?q) = unat ?d + unat e * quantum_of p ?k"
      using small by (simp_all add: checked_add_def unat_word_ariths)
    moreover from this(2) have "min (?d + e * ?q) MAX_DEFICIT = ?d + of_nat (unat e * quantum_of p ?k)"
      using small by (simp add: unat_eq_iff unat_min unat_add_small)
    ultimately have step: "credit_rounds (c # cs) e el p = credit_rounds cs e el ?p" using True by (simp add: Let_def)
    have eligible: "class_has_eligible ?p d el = class_has_eligible p d el" for d by (simp add: class_has_eligible_def)
    have other: "dp_class_deficit ?p ! class_index d = (if d = c then ?d + of_nat (unat e * quantum_of p ?k)
        else dp_class_deficit p ! class_index d)" for d
      using Cons.prems(2) by (simp add: nth_list_update)
    have c: "c \<notin> set cs" using Cons.prems(1) by simp
    have "\<exists>ds. credit_rounds cs e el ?p = (Inr (), ?p\<lparr>dp_class_deficit := ds\<rparr>) \<and> length ds = 4 \<and>
      (\<forall>d. ds ! class_index d = (if d \<in> set cs \<and> class_has_eligible ?p d el
         then dp_class_deficit ?p ! class_index d + of_nat (unat e * quantum_of ?p (class_index d)) else dp_class_deficit ?p ! class_index d))"
    proof (rule Cons.IH)
      show "\<forall>d \<in> set cs. class_has_eligible ?p d el \<longrightarrow>
          class_credit ?p (class_index d) + unat e * quantum_of ?p (class_index d) < 1000000"
        unfolding eligible other using Cons.prems(3) c by auto
    qed (use Cons.prems in simp_all)
    then show ?thesis unfolding step eligible other using True c by auto
  qed
qed

text \<open>Skipping ahead credits every waiting class with the rounds that none of them could have used.\<close>

lemma fast_forward_ok:
  assumes ok: "policy_ok p" and len: "length el = length (dp_slots p)" and closed: "\<not> dp_class_visit_open p"
    and short: "\<forall>k < 4. short el p k" and ex: "class_has_eligible p c el"
  obtains m where "fast_forward_empty_class_rounds p el = (Inr (), bumped el m p)" "m < 1000000"
    "\<forall>k < 4. waits el m p k" "\<exists>k < 4. \<not> waits el (Suc m) p k"
proof -
  obtain v c where v: "visits_until_service class_all None el p = (Inr (Some v), p)" "0 < unat v" "unat v \<le> 1000000"
      "class_has_eligible p c el" "unat v = visits_of el p c"
      "\<forall>c \<in> set class_all. class_has_eligible p c el \<longrightarrow> unat v \<le> visits_of el p c"
    using visits_ok [OF ok len short class_all_set ex] by auto
  let ?m = "unat v - 1" and ?e = "v - 1"
  have e: "checked_sub v 1 = Some ?e" "unat ?e = ?m" using checked_sub_fits [of 1 v] v(2) by simp_all
  have w: "waits el ?m p k" if k: "k < 4" for k
    unfolding waits_def
  proof
    let ?c = "class_all ! k"
    assume elig: "class_has_eligible p ?c el"
    obtain i where i: "chosen p ?c el = Some i" "class_credit p k < slot_cost p i" "0 < quantum_of p k"
      using short_class [OF ok short elig] k by (metis class_index_all)
    have "?m < rounds_needed (slot_cost p i - class_credit p k) (quantum_of p k)"
      using v(2,6) elig k i(1) by (fastforce simp: visits_of_def)
    from rounds_needed_least [OF i(3) this] i
    show "\<exists>i. chosen p ?c el = Some i \<and> class_credit p k + ?m * quantum_of p k < slot_cost p i" by auto
  qed
  have "\<not> waits el (Suc ?m) p (class_index c)"
  proof -
    obtain i where i: "chosen p c el = Some i" "0 < quantum_of p (class_index c)" using short_class [OF ok short v(4)] by metis
    have "slot_cost p i - class_credit p (class_index c) \<le> unat v * quantum_of p (class_index c)"
      using rounds_needed_enough [OF i(2)] v(5) i(1) by (simp add: visits_of_def)
    then show ?thesis using i v(2,4) by (simp add: waits_def)
  qed
  moreover have "(if ?e = 0 then (Inr (), p) else credit_rounds class_all ?e el p) = (Inr (), bumped el ?m p)"
  proof (cases "?e = 0")
    case True
    then show ?thesis using e(2) bumped_zero [OF ok] by simp
  next
    case False
    have "class_credit p (class_index d) + unat ?e * quantum_of p (class_index d) < 1000000" if "class_has_eligible p d el" for d
      using waits_small [OF ok w, of "class_index d"] that e(2) by simp
    then obtain ds where ds: "credit_rounds class_all ?e el p = (Inr (), p\<lparr>dp_class_deficit := ds\<rparr>)" "length ds = 4"
        "\<And>c. ds ! class_index c = (if c \<in> set class_all \<and> class_has_eligible p c el
           then dp_class_deficit p ! class_index c + of_nat (unat ?e * quantum_of p (class_index c)) else dp_class_deficit p ! class_index c)"
      using credit_rounds_ok [of class_all p el ?e] ok by (auto simp: policy_ok_def class_all_def)
    have "ds = bumped_deficit el ?m p"
    proof (rule nth_equalityI)
      fix k assume "k < length ds"
      then have "k < 4" using ds(2) by simp
      then show "ds ! k = bumped_deficit el ?m p ! k"
        using ds(3) [of "class_all ! k"] e(2) by (simp add: nth_bumped_deficit)
    qed (simp add: ds(2))
    then show ?thesis using ds(1) False by (simp add: bumped_def)
  qed
  then have "fast_forward_empty_class_rounds p el = (Inr (), bumped el ?m p)"
    using closed by (simp add: fast_forward_empty_class_rounds_def v(1) e(1) split del: if_split)
  moreover have "?m < 1000000" using v(2,3) by simp
  ultimately show thesis using that w class_all_index(2) by blast
qed

section \<open>A selection\<close>

text \<open>The reference: pass over the classes until one is served, at most \<open>n\<close> times.\<close>

fun select_by_rounds :: "nat \<Rightarrow> DispatchPolicy \<Rightarrow> bool list \<Rightarrow> ((DispatcherError + nat) \<times> DispatchPolicy) option" where
  "select_by_rounds 0 self eligible = None"
| "select_by_rounds (Suc n) self eligible =
     (case select_hierarchical_pass self eligible of
        (Inl e, self) \<Rightarrow> Some (Inl e, self)
      | (Inr (Some i), self) \<Rightarrow> Some (Inr i, self)
      | (Inr None, self) \<Rightarrow> select_by_rounds n self eligible)"

lemma full_pass:
  assumes "policy_ok p" "length el = length (dp_slots p)"
  obtains (served) i q where "select_hierarchical_pass p el = (Inr (Some i), q)" "served el p i q"
    | (waits) q where "select_hierarchical_pass p el = (Inr None, q)" "held_back el p 4 q"
  using pass_loop_ok [OF assms, of None 4] by (auto simp: select_hierarchical_pass_def CLASS_COUNT_def)

lemma rounds_of_waiting:
  assumes "policy_ok p" "length el = length (dp_slots p)" "\<not> dp_class_visit_open p" "\<forall>k < 4. waits el m p k"
  shows "select_by_rounds (m + n) p el = select_by_rounds n (bumped el m p) el"
  using assms(4)
proof (induction m arbitrary: n)
  case 0
  then show ?case using bumped_zero [OF assms(1)] by simp
next
  case (Suc m)
  have w: "\<forall>k < 4. waits el m p k" "\<forall>k < 4. waits el 1 (bumped el m p) k"
    using waits_bumped [OF assms(1), of el m 1] Suc.prems by simp_all
  have "select_hierarchical_pass (bumped el m p) el = (Inr None, bumped el (Suc m) p)"
    using pass_waits [OF bumped_ok [OF assms(1) w(1)] _ _ w(2)] assms(2,3) by (simp add: bumped_bumped)
  then show ?case using Suc.IH [OF w(1), of "Suc n"] by simp
qed

lemma pass_after_skip:
  assumes ok: "policy_ok p" and len: "length el = length (dp_slots p)" and closed: "\<not> dp_class_visit_open p"
    and w: "\<forall>k < 4. waits el m p k" and k: "k < 4" "\<not> waits el (Suc m) p k"
  obtains i q where "select_hierarchical_pass (bumped el m p) el = (Inr (Some i), q)" "served el (bumped el m p) i q"
proof -
  let ?b = "bumped el m p" and ?c = "class_all ! k"
  have okb: "policy_ok ?b" and lenb: "length el = length (dp_slots ?b)" using bumped_ok [OF ok w] len by simp_all
  show thesis
  proof (rule full_pass [OF okb lenb])
    fix q assume q: "select_hierarchical_pass ?b el = (Inr None, q)" "held_back el ?b 4 q"
    have elig: "class_has_eligible p ?c el" using k(2) by (auto simp: waits_def)
    obtain i where i: "chosen p ?c el = Some i" using w k(1) elig by (auto simp: waits_def)
    then have cost: "slot_cost p i \<le> class_credit p k + Suc m * quantum_of p k" using k(2) by (auto simp: waits_def)
    have pass: "passed el ?b q" and "short el q k" and
      "min (class_credit ?b k + quantum_of ?b k) 281474976710656 \<le> class_credit q k"
      using q(2) k(1) closed elig by (auto simp: held_back_def visited_all)
    moreover have "chosen q ?c el = Some i" using pass i bumped_chosen [OF ok] by (simp add: passed_def)
    moreover have "slot_cost q i = slot_cost p i"
      using same_shape_slot(2) [OF passed_shape [OF pass]] chosenD(1) [OF i ok] by simp
    moreover have "class_has_eligible q ?c el" using elig same_shape_eligible(1) [OF passed_shape [OF pass]] by simp
    moreover have "slot_cost p i \<le> 1000000" using policy_ok_slot [OF ok chosenD(1) [OF i ok]] by (simp add: slot_ok_def)
    ultimately have False using cost bumped_credit [OF ok _ k(1)] w k(1) elig by (auto simp: short_def)
    then show thesis ..
  qed (rule that)
qed

lemma select_hierarchical_ok:
  assumes ok: "policy_ok p" and len: "length el = length (dp_slots p)" and ex: "class_has_eligible p c el"
  obtains i q where "select_hierarchical p el = (Inr i, q)" "served el p i q"
    "\<And>n. 1000001 \<le> n \<Longrightarrow> select_by_rounds n p el = Some (Inr i, q)"
proof (rule full_pass [OF ok len])
  fix i q assume q: "select_hierarchical_pass p el = (Inr (Some i), q)" "served el p i q"
  have "select_by_rounds n p el = Some (Inr i, q)" if "1000001 \<le> n" for n
    using q(1) that by (cases n) simp_all
  then show thesis using that [of i q] q by (simp add: select_hierarchical_def)
next
  fix q assume q: "select_hierarchical_pass p el = (Inr None, q)" "held_back el p 4 q"
  have pass: "passed el p q" and okq: "policy_ok q" and closed: "\<not> dp_class_visit_open q" and short: "\<forall>k < 4. short el q k"
    using q(2) by (auto simp: held_back_def passed_def visited_all)
  have lenq: "length el = length (dp_slots q)" and exq: "class_has_eligible q c el"
    using len ex same_shape_slot(1) same_shape_eligible(1) passed_shape [OF pass] by auto
  obtain m k where m: "fast_forward_empty_class_rounds q el = (Inr (), bumped el m q)" "m < 1000000"
      "\<forall>k < 4. waits el m q k" "k < 4" "\<not> waits el (Suc m) q k"
    using fast_forward_ok [OF okq lenq closed short exq] by metis
  obtain i r where r: "select_hierarchical_pass (bumped el m q) el = (Inr (Some i), r)" "served el (bumped el m q) i r"
    by (rule pass_after_skip [OF okq lenq closed m(3-5)])
  have "passed el q (bumped el m q)"
    using bumped_ok [OF okq m(3)] bumped_chosen [OF okq] bumped_credit [OF okq] m(3) by (auto simp: passed_def)
  then have "served el p i r" using served_passed [OF passed_trans [OF pass]] r(2) by blast
  moreover have "select_by_rounds n p el = Some (Inr i, r)" if "1000001 \<le> n" for n
  proof -
    have "n = Suc (m + Suc (n - 2 - m))" using that m(2) by linarith
    then obtain j where n: "n = Suc (m + Suc j)" ..
    have "select_by_rounds (m + Suc j) q el = Some (Inr i, r)"
      unfolding rounds_of_waiting [OF okq lenq closed m(3)] by (simp add: r(1))
    then show ?thesis unfolding n by (simp add: q(1))
  qed
  moreover have "select_hierarchical p el = (Inr i, r)" by (simp add: select_hierarchical_def q(1) m(1) r(1))
  ultimately show thesis using that by blast
qed

end
