(* ===== verification/Dispatch_Turn.thy ===== *)
theory Dispatch_Turn
  imports Dispatch_Rounds
begin

text \<open>
  The dispatcher's turn as a whole: construction establishes the invariant, hints are matched with
  slots, and a turn serves a slot whenever one can be served.
\<close>

section \<open>Construction\<close>

definition policy_inv :: "DispatchPolicy \<Rightarrow> bool" where
  "policy_inv p \<longleftrightarrow> policy_ok p \<and> distinct (map sl_mailbox (dp_slots p))"

lemma same_shape_mailboxes:
  assumes "same_shape p q"
  shows "map sl_mailbox (dp_slots q) = map sl_mailbox (dp_slots p)"
  using same_shape_slot [OF assms] by (intro nth_equalityI) simp_all

lemma policy_inv_shape: "policy_inv p \<Longrightarrow> policy_ok q \<Longrightarrow> same_shape p q \<Longrightarrow> policy_inv q"
  by (simp add: policy_inv_def same_shape_mailboxes)

lemma adjacent_distinct:
  assumes "sorted xs" "\<not> list_ex (\<lambda>(a, b). a = b) (zip xs (tl xs))"
  shows "distinct xs"
  using assms
proof (induction xs)
  case (Cons x xs)
  show ?case
  proof (cases xs)
    case (Cons y ys)
    have le: "x < y" "\<forall>z \<in> set xs. y \<le> z" using Cons.prems Cons by auto
    then have "x \<notin> set xs" by fastforce
    moreover have "distinct xs" using Cons.IH Cons.prems Cons by simp
    ultimately show ?thesis by simp
  qed simp
qed simp

definition spec_slot :: "DispatchSlotSpec \<Rightarrow> nat \<Rightarrow> DispatchSlot" where
  "spec_slot spec cursor = \<lparr>sl_mailbox = ds_mailbox spec, sl_class = ds_class spec, sl_cost = ds_cost spec,
     sl_weight = ds_weight spec, sl_deficit = 0, sl_max_burst = ds_max_burst spec, sl_cursor = of_nat cursor\<rparr>"

lemma build_slots_eq:
  "build_slots cursor specs = Inr slots \<Longrightarrow> slots = map2 spec_slot specs [cursor..<cursor + length specs]"
proof (induction specs arbitrary: cursor slots)
  case (Cons spec specs)
  then obtain rest where rest: "build_slots (Suc cursor) specs = Inr rest" "slots = spec_slot spec cursor # rest"
    by (auto simp: res_simps spec_slot_def checked)
  have "[cursor..<cursor + length (spec # specs)] = cursor # [Suc cursor..<Suc cursor + length specs]" by (simp add: upt_conv_Cons del: upt_Suc)
  with Cons.IH [OF rest(1)] rest(2) show ?case by (simp del: upt_Suc)
qed simp

definition class_policies_valid :: "DispatchClassPolicy list \<Rightarrow> bool" where
  "class_policies_valid classes \<longleftrightarrow> length classes = CLASS_COUNT \<and>
     (\<forall>c \<in> set classes. class_policy_try_new (cp_quantum c) (cp_max_burst c) = Inr c)"

definition slot_specs_valid :: "DispatchSlotSpec list \<Rightarrow> bool" where
  "slot_specs_valid specs \<longleftrightarrow>
     (\<forall>s \<in> set specs. \<exists>burst. slot_spec_try_new (ds_mailbox s) (ds_class s) (ds_cost s) (ds_weight s) burst = Inr s)"

lemma class_policy_valid: "class_policy_try_new q b = Inr c \<Longrightarrow> class_policy_ok c"
  by (auto simp: class_policy_try_new_def class_policy_ok_def MAX_CLASS_QUANTUM_def MAX_DISPATCH_SLOTS_def
      MAX_MINIMUM_SERVICE_WEIGHT_def word_le_nat_alt unat_gt_0 not_less split: if_splits)

lemma slot_spec_valid: "slot_spec_try_new m c cost weight burst = Inr s \<Longrightarrow> slot_ok (spec_slot s i)"
proof -
  assume "slot_spec_try_new m c cost weight burst = Inr s"
  then have s: "cost \<noteq> 0" "cost \<le> 1000000" "weight \<noteq> 0" "weight \<le> 1000000" "burst \<noteq> 0"
    "s = \<lparr>ds_mailbox = m, ds_class = c, ds_cost = cost, ds_weight = weight, ds_max_burst = ucast burst\<rparr>"
    by (auto simp: slot_spec_try_new_def MAX_SERVICE_COST_TOKENS_def MAX_MINIMUM_SERVICE_WEIGHT_def not_less split: if_splits)
  have "unat (ucast burst :: u32) = unat burst"
    using unat_bound [of burst] by (simp add: unsigned_ucast_eq take_bit_nat_eq_self)
  then have "(ucast burst :: u32) \<noteq> 0" using s(5) by (metis unat_eq_zero)
  then show ?thesis using s by (simp add: slot_ok_def spec_slot_def word_le_nat_alt unat_gt_0)
qed

lemma dispatch_new_inv:
  assumes "class_policies_valid classes" "slot_specs_valid specs" "dispatch_try_new classes specs = Inr p"
  shows "policy_inv p"
proof -
  let ?m = "sort (map ds_mailbox specs)"
  have g: "specs \<noteq> []" "length specs \<le> 256" "\<not> list_ex (\<lambda>(a, b). a = b) (zip ?m (tl ?m))"
    and p: "\<exists>slots scan. build_slots 0 specs = Inr slots \<and>
      p = \<lparr>dp_slots = slots, dp_classes = classes, dp_class_deficit = replicate CLASS_COUNT 0,
             dp_class_cursor = 0, dp_class_visit_open = False, dp_slot_cursor = replicate CLASS_COUNT 0,
             dp_last_class = None, dp_class_burst = 0, dp_last_slot = None, dp_slot_burst = 0,
             dp_direct_scan = scan, dp_direct_cursor = 0\<rparr>"
    using assms(3) by (auto simp: dispatch_try_new_def Let_def and_then_eq_Inr MAX_DISPATCH_SLOTS_def split: if_splits)
  then obtain slots where slots: "build_slots 0 specs = Inr slots" "dp_slots p = slots" by auto
  have eq: "slots = map2 spec_slot specs [0..<length specs]" using build_slots_eq [OF slots(1)] by simp
  have "distinct (map ds_mailbox specs)" using adjacent_distinct [OF _ g(3)] by simp
  moreover have "map sl_mailbox slots = map ds_mailbox specs"
    unfolding eq by (rule nth_equalityI) (simp_all add: spec_slot_def)
  ultimately have "distinct (map sl_mailbox slots)" by simp
  moreover have "\<forall>s \<in> set slots. slot_ok s"
    using assms(2) slot_spec_valid unfolding eq slot_specs_valid_def by (fastforce dest: set_zip_leftD)
  moreover have "\<forall>c \<in> set classes. class_policy_ok c" using assms(1) class_policy_valid unfolding class_policies_valid_def by blast
  ultimately show ?thesis
    using p g(1,2) slots assms(1) eq by (auto simp: policy_inv_def policy_ok_def class_policies_valid_def CLASS_COUNT_def)
qed

section \<open>Hints\<close>

lemma slot_position_Some: "slot_position m slots = Some i \<Longrightarrow> i < length slots \<and> sl_mailbox (slots ! i) = m"
  by (induction slots arbitrary: i) (auto split: if_splits)

lemma slot_position_nth:
  assumes "distinct (map sl_mailbox slots)" "i < length slots"
  shows "slot_position (sl_mailbox (slots ! i)) slots = Some i"
  using assms
proof (induction slots arbitrary: i)
  case (Cons s slots)
  then show ?case by (cases i) auto
qed simp

definition reported_ready :: "DispatchReadiness list \<Rightarrow> MailboxRef \<Rightarrow> bool" where
  "reported_ready readiness m \<longleftrightarrow> (\<exists>input \<in> set readiness. dn_mailbox input = m \<and> is_dispatchable (dn_head input))"

lemma readiness_loop_ready:
  assumes "distinct (map sl_mailbox slots)" "length ready = length slots" "length seen = length slots"
    "\<forall>i < length slots. ready ! i \<longrightarrow> seen ! i" "readiness_loop slots inputs ready seen = Inr result"
  shows "length result = length slots \<and>
    (\<forall>i < length slots. result ! i \<longleftrightarrow> ready ! i \<or> reported_ready inputs (sl_mailbox (slots ! i)))"
  using assms(2-)
proof (induction inputs arbitrary: ready seen)
  case (Cons input inputs)
  obtain k where k: "slot_position (dn_mailbox input) slots = Some k" "\<not> seen ! k"
    and rest: "readiness_loop slots inputs (ready[k := is_dispatchable (dn_head input)]) (seen[k := True]) = Inr result"
    using Cons.prems(4) by (auto simp: res_simps split: if_splits option.splits)
  note pos = slot_position_Some [OF k(1)]
  have r: "\<not> ready ! k" using Cons.prems(3) k(2) pos by blast
  have at: "dn_mailbox input = sl_mailbox (slots ! i) \<longleftrightarrow> i = k" if "i < length slots" for i
    using pos slot_position_nth [OF assms(1) that] k(1) by auto
  have "length result = length slots \<and> (\<forall>i < length slots. result ! i \<longleftrightarrow>
      (ready[k := is_dispatchable (dn_head input)]) ! i \<or> reported_ready inputs (sl_mailbox (slots ! i)))"
    using Cons.prems pos by (intro Cons.IH [OF _ _ _ rest]) (auto simp: nth_list_update)
  then show ?case using r at Cons.prems(1) pos by (auto simp: nth_list_update reported_ready_def)
qed (simp add: reported_ready_def)

lemma validate_readiness_ready:
  assumes "policy_inv p" "validate_readiness p readiness = Inr ready"
  shows "length ready = length (dp_slots p)"
    "i < length (dp_slots p) \<Longrightarrow> ready ! i \<longleftrightarrow> reported_ready readiness (sl_mailbox (slot_at p i))"
  using readiness_loop_ready [of "dp_slots p" "replicate (length (dp_slots p)) False" "replicate (length (dp_slots p)) False" readiness ready]
    assms by (simp_all add: validate_readiness_def policy_inv_def split: if_splits)

section \<open>The turn\<close>

lemma select_direct_ok:
  assumes "policy_ok p" "i < length (dp_slots p)" "el ! i"
  obtains k where "select_direct p el = (Inr k, p\<lparr>dp_direct_cursor := (k + 1) mod length (dp_slots p)\<rparr>)"
    "find (\<lambda>i. el ! i) (scan_order (dp_direct_cursor p) (length (dp_slots p))) = Some k" "k < length (dp_slots p)" "el ! k"
    "policy_ok (p\<lparr>dp_direct_cursor := (k + 1) mod length (dp_slots p)\<rparr>)"
proof -
  let ?n = "length (dp_slots p)" and ?o = "scan_order (dp_direct_cursor p) (length (dp_slots p))"
  have n: "0 < ?n" using assms(2) by linarith
  obtain k where k: "find (\<lambda>i. el ! i) ?o = Some k"
    using set_scan_order [OF n] assms(2,3) by (cases "find (\<lambda>i. el ! i) ?o") (auto simp: find_None_iff)
  then have "k \<in> set ?o" "el ! k" by (auto simp: find_Some_iff)
  moreover have "policy_ok (p\<lparr>dp_direct_cursor := (k + 1) mod ?n\<rparr>)" using assms(1) n by (simp add: policy_ok_def)
  ultimately show thesis using that [of k] k set_scan_order [OF n] by (simp add: select_direct_def Let_def)
qed

definition eligible_slots :: "DispatchPolicy \<Rightarrow> DispatchReadiness list \<Rightarrow> DomainPermitLedger \<Rightarrow> nat set" where
  "eligible_slots p readiness l = {i. i < length (dp_slots p) \<and> reported_ready readiness (sl_mailbox (slot_at p i)) \<and>
     can_acquire l (sl_class (slot_at p i))}"

definition grant_for :: "DispatchPolicy \<Rightarrow> DomainPermitLedger \<Rightarrow> nat \<Rightarrow> DispatchGrant" where
  "grant_for p l i = \<lparr>gr_selection = \<lparr>dx_mailbox = sl_mailbox (slot_at p i), dx_class = sl_class (slot_at p i),
     dx_cost = sl_cost (slot_at p i), dx_path = (if dp_direct_scan p then DirectScan else HierarchicalDeficit)\<rparr>,
     gr_permit = issued_token l (sl_class (slot_at p i))\<rparr>"

lemma turn_select:
  assumes inv: "policy_inv p" and len: "length el = length (dp_slots p)" and i: "i < length (dp_slots p)" "el ! i"
  obtains k q where "(if dp_direct_scan p then select_direct p el else select_hierarchical p el) = (Inr k, q)"
    "k < length (dp_slots p)" "el ! k" "policy_inv q" "same_shape p q"
proof -
  have ok: "policy_ok p" using inv by (simp add: policy_inv_def)
  show thesis
  proof (cases "dp_direct_scan p")
    case True
    obtain k where "select_direct p el = (Inr k, p\<lparr>dp_direct_cursor := (k + 1) mod length (dp_slots p)\<rparr>)"
        "k < length (dp_slots p)" "el ! k" "policy_ok (p\<lparr>dp_direct_cursor := (k + 1) mod length (dp_slots p)\<rparr>)"
      using select_direct_ok [OF ok i] by metis
    then show thesis using True inv
      by (intro that [of k "p\<lparr>dp_direct_cursor := (k + 1) mod length (dp_slots p)\<rparr>"]) (simp_all add: policy_inv_def same_shape_def)
  next
    case False
    have "class_has_eligible p (sl_class (slot_at p i)) el" using i by (auto simp: class_has_eligible_def list_ex_iff)
    from select_hierarchical_ok [OF ok len this] obtain k q where
      k: "select_hierarchical p el = (Inr k, q)" "served el p k q" by blast
    then have "k < length (dp_slots p)" "el ! k" "policy_inv q" "same_shape p q"
      using policy_inv_shape [OF inv] candidate_simps by (auto simp: served_def)
    then show thesis using False k(1) by (intro that) simp_all
  qed
qed

lemma list_ex_nth: "list_ex (\<lambda>v. v) xs \<longleftrightarrow> (\<exists>i < length xs. xs ! i)"
  by (metis (no_types, lifting) in_set_conv_nth list_ex_iff)

lemma turn_outcome:
  assumes inv: "policy_inv p" and permits: "permits_ok l" and valid: "validate_readiness p readiness = Inr ready"
  shows
    "(\<forall>s \<in> set (dp_slots p). \<not> reported_ready readiness (sl_mailbox s)) \<Longrightarrow>
       try_select_and_acquire p readiness l = (Inr (Idle NoReadyMailbox), p, l)"
    "\<exists>s \<in> set (dp_slots p). reported_ready readiness (sl_mailbox s) \<Longrightarrow> eligible_slots p readiness l = {} \<Longrightarrow>
       try_select_and_acquire p readiness l = (Inr (Idle NoDomainPermit), p, l)"
    "eligible_slots p readiness l \<noteq> {} \<Longrightarrow> \<exists>i q. i \<in> eligible_slots p readiness l \<and> policy_inv q \<and> same_shape p q \<and>
       try_select_and_acquire p readiness l = (if pl_next_permit_id l = - 1 then (Inl (DispatchPermit PermitCounterOverflow), q, l)
         else (Inr (Selected (grant_for p l i)), q, with_issued l (sl_class (slot_at p i))))"
proof -
  note r = validate_readiness_ready [OF inv valid]
  have any: "list_ex (\<lambda>v. v) ready \<longleftrightarrow> (\<exists>s \<in> set (dp_slots p). reported_ready readiness (sl_mailbox s))"
  proof -
    have "(\<exists>i < length ready. ready ! i) \<longleftrightarrow> (\<exists>i < length (dp_slots p). reported_ready readiness (sl_mailbox (slot_at p i)))" using r by auto
    also have "\<dots> \<longleftrightarrow> (\<exists>s \<in> set (dp_slots p). reported_ready readiness (sl_mailbox s))" by (metis in_set_conv_nth)
    finally show ?thesis unfolding list_ex_nth .
  qed
  define el where "el = map (\<lambda>i. ready ! i \<and> can_acquire l (sl_class (slot_at p i))) [0..<length ready]"
  have el: "length el = length (dp_slots p)" "\<And>i. i < length (dp_slots p) \<Longrightarrow> el ! i \<longleftrightarrow> i \<in> eligible_slots p readiness l"
    using r by (auto simp: el_def eligible_slots_def)
  have some: "list_ex (\<lambda>v. v) el \<longleftrightarrow> eligible_slots p readiness l \<noteq> {}"
    unfolding list_ex_nth using el by (auto simp: eligible_slots_def)
  show "try_select_and_acquire p readiness l = (Inr (Idle NoReadyMailbox), p, l)"
    if "\<forall>s \<in> set (dp_slots p). \<not> reported_ready readiness (sl_mailbox s)"
    using that any by (simp add: try_select_and_acquire_def valid)
  show "try_select_and_acquire p readiness l = (Inr (Idle NoDomainPermit), p, l)"
    if "\<exists>s \<in> set (dp_slots p). reported_ready readiness (sl_mailbox s)" "eligible_slots p readiness l = {}"
    using that any some by (simp add: try_select_and_acquire_def valid Let_def flip: el_def)
  assume ex: "eligible_slots p readiness l \<noteq> {}"
  then obtain j where j: "j < length (dp_slots p)" "el ! j" using el(2) by (auto simp: eligible_slots_def)
  have ready: "list_ex (\<lambda>v. v) ready" using ex any by (auto simp: eligible_slots_def)
  obtain i q where i: "(if dp_direct_scan p then select_direct p el else select_hierarchical p el) = (Inr i, q)"
      "i < length (dp_slots p)" "el ! i" "policy_inv q" "same_shape p q"
    using turn_select [OF inv el(1) j] by metis
  have e: "i \<in> eligible_slots p readiness l" using el(2) i(2,3) by blast
  have slot: "sl_class (slot_at q i) = sl_class (slot_at p i)" "sl_mailbox (slot_at q i) = sl_mailbox (slot_at p i)"
    "sl_cost (slot_at q i) = sl_cost (slot_at p i)"
    using same_shape_slot(2) [OF i(5,2)] by simp_all
  have "try_select_and_acquire p readiness l = (if pl_next_permit_id l = - 1 then (Inl (DispatchPermit PermitCounterOverflow), q, l)
         else (Inr (Selected (grant_for p l i)), q, with_issued l (sl_class (slot_at p i))))"
    using e ready ex some i(1)
    by (cases "dp_direct_scan p") (simp_all add: try_select_and_acquire_def valid Let_def try_acquire_eq [OF permits] slot
        grant_for_def eligible_slots_def flip: el_def)
  then show "\<exists>i q. i \<in> eligible_slots p readiness l \<and> policy_inv q \<and> same_shape p q \<and>
       try_select_and_acquire p readiness l = (if pl_next_permit_id l = - 1 then (Inl (DispatchPermit PermitCounterOverflow), q, l)
         else (Inr (Selected (grant_for p l i)), q, with_issued l (sl_class (slot_at p i))))"
    using e i(4,5) by blast
qed

end
