(* ===== verification/Dispatch_Properties.thy ===== *)
theory Dispatch_Properties
  imports Dispatch_Turn
begin

text \<open>
  What the dispatcher promises over whole runs: permits are never oversold, a turn serves whenever
  something can be served, and no slot starves its neighbours.
\<close>

section \<open>Runs\<close>

record dispatch_sys =
  dy_policy :: DispatchPolicy
  dy_permits :: permit_sys

definition dispatch_init :: "dispatch_sys \<Rightarrow> bool" where
  "dispatch_init y \<longleftrightarrow> permit_init (dy_permits y) \<and> (\<exists>classes specs. class_policies_valid classes \<and>
     slot_specs_valid specs \<and> dispatch_try_new classes specs = Inr (dy_policy y))"

inductive dispatch_step :: "dispatch_sys \<Rightarrow> dispatch_sys \<Rightarrow> bool" where
  turn: "try_select_and_acquire (dy_policy y) readiness (pm_ledger (dy_permits y)) = (r, p, l) \<Longrightarrow>
     dispatch_step y \<lparr>dy_policy = p, dy_permits = \<lparr>pm_ledger = l,
       pm_held = (case r of Inr (Selected grant) \<Rightarrow> gr_permit grant # pm_held (dy_permits y) | _ \<Rightarrow> pm_held (dy_permits y))\<rparr>\<rparr>"
| permit: "permit_step (dy_permits y) z \<Longrightarrow> dispatch_step y (y\<lparr>dy_permits := z\<rparr>)"

definition dispatch_inv :: "dispatch_sys \<Rightarrow> bool" where
  "dispatch_inv y \<longleftrightarrow> policy_inv (dy_policy y) \<and> permit_inv (dy_permits y)"

lemma permit_sys_eta [simp]: "\<lparr>pm_ledger = pm_ledger y, pm_held = pm_held y\<rparr> = y"
  by (cases y) simp

lemma held_issued:
  assumes "permit_inv y" "can_acquire (pm_ledger y) c" "pl_next_permit_id (pm_ledger y) \<noteq> - 1"
  shows "permit_inv \<lparr>pm_ledger = with_issued (pm_ledger y) c, pm_held = issued_token (pm_ledger y) c # pm_held y\<rparr>"
  using assms held_acquire [OF assms(1), of c] by (simp add: permit_inv_def try_acquire_eq)

lemma turn_inv:
  assumes inv: "dispatch_inv y" and turn: "try_select_and_acquire (dy_policy y) readiness (pm_ledger (dy_permits y)) = (r, p, l)"
  shows "dispatch_inv \<lparr>dy_policy = p, dy_permits = \<lparr>pm_ledger = l,
       pm_held = (case r of Inr (Selected grant) \<Rightarrow> gr_permit grant # pm_held (dy_permits y) | _ \<Rightarrow> pm_held (dy_permits y))\<rparr>\<rparr>"
proof -
  let ?p = "dy_policy y" and ?l = "pm_ledger (dy_permits y)"
  have i: "policy_inv ?p" "permit_inv (dy_permits y)" "permits_ok ?l" using inv by (simp_all add: dispatch_inv_def permit_inv_def)
  show ?thesis
  proof (cases "validate_readiness ?p readiness")
    case (Inl e)
    then show ?thesis using turn i(1,2) by (auto simp: try_select_and_acquire_def dispatch_inv_def)
  next
    case (Inr ready)
    note out = turn_outcome [OF i(1,3) Inr]
    show ?thesis
    proof (cases "eligible_slots ?p readiness ?l = {}")
      case True
      then have "r = Inr (Idle NoReadyMailbox) \<or> r = Inr (Idle NoDomainPermit)" "p = ?p" "l = ?l"
        using out(1,2) turn by (cases "\<exists>s \<in> set (dp_slots ?p). reported_ready readiness (sl_mailbox s)"; simp)+
      then show ?thesis using i(1,2) by (auto simp: dispatch_inv_def)
    next
      case False
      obtain j q where j: "j \<in> eligible_slots ?p readiness ?l" "policy_inv q"
        "try_select_and_acquire ?p readiness ?l = (if pl_next_permit_id ?l = - 1 then (Inl (DispatchPermit PermitCounterOverflow), q, ?l)
         else (Inr (Selected (grant_for ?p ?l j)), q, with_issued ?l (sl_class (slot_at ?p j))))"
        using out(3) [OF False] by blast
      then show ?thesis using turn i(2) held_issued [OF i(2), of "sl_class (slot_at ?p j)"]
        by (auto simp: dispatch_inv_def eligible_slots_def grant_for_def split: if_splits)
    qed
  qed
qed

lemma dispatch_init_inv: "dispatch_init y \<Longrightarrow> dispatch_inv y"
  using dispatch_new_inv permits.init_inv by (auto simp: dispatch_init_def dispatch_inv_def)

lemma dispatch_step_inv:
  assumes "dispatch_inv y" "dispatch_step y z"
  shows "dispatch_inv z"
  using assms(2)
proof cases
  case (turn readiness r p l)
  then show ?thesis using turn_inv [OF assms(1)] by simp
next
  case (permit z)
  then show ?thesis using assms(1) permits.step_inv by (auto simp: dispatch_inv_def)
qed

interpretation dispatch: state_machine dispatch_init dispatch_step dispatch_inv
  by unfold_locales (auto intro: dispatch_init_inv dispatch_step_inv)

section \<open>Sequences of selections\<close>

fun selections :: "DispatchPolicy \<Rightarrow> bool list list \<Rightarrow> (DispatcherError + nat) list" where
  "selections p [] = []"
| "selections p (el # els) =
     (let (r, q) = (if dp_direct_scan p then select_direct p el else select_hierarchical p el) in r # selections q els)"

lemma cyclic_distance: "x < n \<Longrightarrow> s < n \<Longrightarrow> (x + n - s) mod n = (if s \<le> x then x - s else x + n - s)" for x n s :: nat
  by (auto simp: mod_if)

lemma find_scan_first:
  assumes "find P (scan_order start n) = Some k" "i < n" "P i" "start < n"
  shows "(k + n - start) mod n \<le> (i + n - start) mod n" "k < n"
proof -
  obtain j where j: "j < n" "k = (start + j) mod n" "\<forall>m < j. \<not> P ((start + m) mod n)"
    using assms(1) by (auto simp: find_Some_iff scan_order_def)
  let ?m = "(i + n - start) mod n"
  have "(start + ?m) mod n = (start + (i + n - start)) mod n" by (simp add: mod_add_right_eq)
  also have "\<dots> = i" using assms(2,4) by simp
  finally have "\<not> ?m < j" using j(3) assms(3) by auto
  moreover have "(k + n - start) mod n = j"
    using j(1,2) assms(4) by (cases "start + j < n") (simp_all add: mod_if)
  ultimately show "(k + n - start) mod n \<le> ?m" by simp
  show "k < n" using j(2) assms(2) by simp
qed

lemma direct_served:
  assumes "policy_ok p" "dp_direct_scan p" "i < length (dp_slots p)"
    "\<forall>el \<in> set els. el ! i" "(i + length (dp_slots p) - dp_direct_cursor p) mod length (dp_slots p) < length els"
  shows "Inr i \<in> set (selections p els)"
  using assms
proof (induction els arbitrary: p)
  case (Cons el els)
  let ?n = "length (dp_slots p)" and ?s = "dp_direct_cursor p"
  have s: "?s < ?n" using Cons.prems(1) by (simp add: policy_ok_def)
  obtain k where k: "select_direct p el = (Inr k, p\<lparr>dp_direct_cursor := (k + 1) mod ?n\<rparr>)"
      "find (\<lambda>i. el ! i) (scan_order ?s ?n) = Some k" "policy_ok (p\<lparr>dp_direct_cursor := (k + 1) mod ?n\<rparr>)"
    using select_direct_ok [OF Cons.prems(1,3)] Cons.prems(4) by (metis list.set_intros(1))
  have first: "(k + ?n - ?s) mod ?n \<le> (i + ?n - ?s) mod ?n" "k < ?n"
    using find_scan_first [OF k(2) Cons.prems(3) _ s] Cons.prems(4) by simp_all
  show ?case
  proof (cases "k = i")
    case True
    then show ?thesis using Cons.prems(2) k(1) by simp
  next
    case False
    have "(k + 1) mod ?n = (if k + 1 = ?n then 0 else k + 1)" using first(2) by auto
    then have "(i + ?n - (k + 1) mod ?n) mod ?n < (i + ?n - ?s) mod ?n"
      using first False Cons.prems(3) s by (auto simp: cyclic_distance split: if_splits)
    moreover have "(i + ?n - ?s) mod ?n < Suc (length els)" using Cons.prems(5) by simp
    ultimately have "Inr i \<in> set (selections (p\<lparr>dp_direct_cursor := (k + 1) mod ?n\<rparr>) els)"
      using Cons.prems k(3) by (intro Cons.IH) simp_all
    then show ?thesis using Cons.prems(2) k(1) by simp
  qed
qed simp

lemma burst_bound:
  assumes "policy_ok p" "\<not> dp_direct_scan p" "i < length (dp_slots p)"
    "\<forall>el \<in> set els. length el = length (dp_slots p) \<and> has_other_eligible_slot p i (sl_class (slot_at p i)) el"
    "selections p els = replicate (length els) (Inr i)" "els \<noteq> []"
  shows "length els + (if dp_last_slot p = Some i then unat (dp_slot_burst p) else 0) \<le> unat (sl_max_burst (slot_at p i))"
  using assms
proof (induction els arbitrary: p)
  case (Cons el els)
  let ?c = "sl_class (slot_at p i)" and ?max = "unat (sl_max_burst (slot_at p i))"
  have el: "length el = length (dp_slots p)" "has_other_eligible_slot p i ?c el" using Cons.prems(4) by simp_all
  then have "class_has_eligible p ?c el" by (auto simp: class_has_eligible_def has_other_eligible_slot_def list_ex_iff)
  then obtain k q where k: "select_hierarchical p el = (Inr k, q)" "served el p k q"
    using select_hierarchical_ok [OF Cons.prems(1) el(1)] by blast
  then have "k = i" and rest: "selections q els = replicate (length els) (Inr i)" using Cons.prems(2,5) by simp_all
  then have q: "policy_ok q" "same_shape p q" "slot_candidate p ?c el i" "dp_last_slot q = Some i"
    "dp_slot_burst q = (if dp_last_slot p = Some i then saturating_add (dp_slot_burst p) 1 else 1)"
    using k(2) by (auto simp: served_def)
  have pos: "0 < ?max" using policy_ok_slot [OF Cons.prems(1,3)] by (simp add: slot_ok_def unat_gt_0)
  have less: "unat (dp_slot_burst p) < ?max" if "dp_last_slot p = Some i"
    using q(3) el(2) that by (simp add: slot_candidate_def slot_burst_exhausted_def word_less_nat_alt not_le)
  then have burst: "unat (dp_slot_burst q) = (if dp_last_slot p = Some i then unat (dp_slot_burst p) + 1 else 1)"
    using q(5) unat_bound [of "sl_max_burst (slot_at p i)"] by (auto simp: unat_saturating_add)
  show ?case
  proof (cases "els = []")
    case True
    then show ?thesis using pos less by auto
  next
    case False
    note same = same_shape_slot [OF q(2)] same_shape_eligible(3) [OF q(2)]
    have "length els + (if dp_last_slot q = Some i then unat (dp_slot_burst q) else 0) \<le> unat (sl_max_burst (slot_at q i))"
      using Cons.prems False rest q(1,2) same by (intro Cons.IH) (auto simp: same_shape_def)
    then show ?thesis using q(4) burst same(2) [OF Cons.prems(3)] by auto
  qed
qed simp

section \<open>Tokens\<close>

lemma held_pool_count:
  assumes "permit_inv y"
  shows "length (filter (\<lambda>t. dt_pool t = pool) (pm_held y)) \<le> pool_count pool (pl_active (pm_ledger y))"
proof -
  let ?held = "filter (\<lambda>t. dt_pool t = pool) (pm_held y)" and ?m = "pl_active (pm_ledger y)"
  have "distinct (map dt_permit_id ?held)" using assms by (simp add: permit_inv_def distinct_map_filter)
  then have "length ?held = card (set (map dt_permit_id ?held))" by (metis distinct_card length_map)
  also have "\<dots> \<le> card (set (map fst (filter (\<lambda>e. snd e = pool) ?m)))"
  proof (rule card_mono)
    show "set (map dt_permit_id ?held) \<subseteq> set (map fst (filter (\<lambda>e. snd e = pool) ?m))"
    proof
      fix k assume "k \<in> set (map dt_permit_id ?held)"
      then obtain t where "t \<in> set (pm_held y)" "dt_pool t = pool" "k = dt_permit_id t" by auto
      then have "btree_get ?m k = Some pool" using assms by (auto simp: permit_inv_def)
      then show "k \<in> set (map fst (filter (\<lambda>e. snd e = pool) ?m))" by (force simp: btree_get_def dest: map_of_SomeD)
    qed
  qed simp
  also have "\<dots> \<le> length (filter (\<lambda>e. snd e = pool) ?m)" using card_length [of "map fst (filter (\<lambda>e. snd e = pool) ?m)"] by simp
  finally show ?thesis by (simp add: pool_count_def)
qed

lemma acquired_fresh:
  assumes "permit_inv y" "pl_next_permit_id (pm_ledger y) \<noteq> - 1"
  shows "issued_token (pm_ledger y) c \<notin> set (pm_held y)"
  using assms next_permit_fresh [of "pm_ledger y"] by (force simp: permit_inv_def issued_token_def)

section \<open>An example\<close>

definition demo_classes :: "DispatchClassPolicy list" where
  "demo_classes = replicate 4 \<lparr>cp_quantum = 10, cp_max_burst = 4\<rparr>"

definition demo_spec :: "nat \<Rightarrow> u32 \<Rightarrow> DispatchSlotSpec" where
  "demo_spec m cost = \<lparr>ds_mailbox = of_nat m, ds_class = Interactive, ds_cost = cost, ds_weight = 10, ds_max_burst = 2\<rparr>"

definition demo_policy :: "u32 \<Rightarrow> DispatchPolicy" where
  "demo_policy cost = projr (dispatch_try_new demo_classes [demo_spec 1 30, demo_spec 2 cost])"

definition demo_ledger :: DomainPermitLedger where
  "demo_ledger = projr (permits_try_new \<lparr>li_domain = 5, li_domain_epoch = 1, li_marker = 0\<rparr> 2 1)"

definition demo_permits :: permit_sys where
  "demo_permits = \<lparr>pm_ledger = demo_ledger, pm_held = []\<rparr>"

definition demo_dispatch :: "u32 \<Rightarrow> dispatch_sys" where
  "demo_dispatch cost = \<lparr>dy_policy = demo_policy cost, dy_permits = demo_permits\<rparr>"

definition demo_hints :: "DispatchReadiness list" where
  "demo_hints = (let d = \<lparr>dl_domain = 1, dl_generation = 1, dl_deadline = 100\<rparr> in
     [\<lparr>dn_mailbox = 1, dn_head = HeadEmpty\<rparr>, \<lparr>dn_mailbox = 2, dn_head = HeadReady \<lparr>hh_mailbox = 2, hh_message_id = MessageId 7,
        hh_charged_bytes = 9, hh_fresh_until = d, hh_run_deadline = d, hh_queue_age_deadline = d\<rparr>\<rparr>])"

definition dispatched :: "DispatcherError + DispatchDecision \<Rightarrow> MailboxRef option" where
  "dispatched r = (case r of Inr (Selected grant) \<Rightarrow> Some (dx_mailbox (gr_selection grant)) | _ \<Rightarrow> None)"

lemma demo_policy_eq: "demo_policy cost = \<lparr>dp_slots = [spec_slot (demo_spec 1 30) 0, spec_slot (demo_spec 2 cost) 1],
     dp_classes = demo_classes, dp_class_deficit = replicate 4 0, dp_class_cursor = 0, dp_class_visit_open = False,
     dp_slot_cursor = replicate 4 0, dp_last_class = None, dp_class_burst = 0, dp_last_slot = None, dp_slot_burst = 0,
     dp_direct_scan = (cost = 30), dp_direct_cursor = 0\<rparr>"
  by (simp add: demo_policy_def dispatch_try_new_def demo_spec_def MAX_DISPATCH_SLOTS_def Let_def try_of_nat_def
      spec_slot_def CLASS_COUNT_def)

lemma demo_permit_init: "permit_init demo_permits"
proof -
  have "permits_try_new \<lparr>li_domain = 5, li_domain_epoch = 1, li_marker = 0\<rparr> 2 1 = Inr demo_ledger"
    by (simp add: demo_ledger_def permits_try_new_def)
  then show ?thesis unfolding permit_init_def demo_permits_def by auto
qed

lemma demo_dispatch_init:
  assumes "cost \<in> {30, 50}"
  shows "dispatch_init (demo_dispatch cost)"
proof -
  have "class_policies_valid demo_classes"
    by (simp add: class_policies_valid_def demo_classes_def CLASS_COUNT_def class_policy_try_new_def MAX_CLASS_QUANTUM_def
        MAX_CLASS_BURST_def MAX_MINIMUM_SERVICE_WEIGHT_def MAX_DISPATCH_SLOTS_def)
  moreover have "slot_spec_try_new (ds_mailbox (demo_spec m c)) (ds_class (demo_spec m c)) (ds_cost (demo_spec m c)) (ds_weight (demo_spec m c)) 2
      = Inr (demo_spec m c)" if "c = 30 \<or> c = 50" for m c
    using that by (auto simp: slot_spec_try_new_def demo_spec_def MAX_SERVICE_COST_TOKENS_def MAX_MINIMUM_SERVICE_WEIGHT_def)
  then have "slot_specs_valid [demo_spec 1 30, demo_spec 2 cost]" using assms by (auto simp: slot_specs_valid_def)
  moreover have "dispatch_try_new demo_classes [demo_spec 1 30, demo_spec 2 cost] = Inr (demo_policy cost)"
    by (simp add: demo_policy_def dispatch_try_new_def demo_spec_def MAX_DISPATCH_SLOTS_def Let_def try_of_nat_def)
  ultimately show ?thesis using demo_permit_init by (auto simp: dispatch_init_def demo_dispatch_def)
qed

section \<open>Properties\<close>

text \<open>C1. A turn of the dispatcher serves whenever something can be served. In every reachable state, on
hints that are accepted: when no slot's mailbox is reported ready the turn is idle for that reason,
and when none of the ready slots' classes can get a permit it is idle for that one, and in both
cases nothing changes; otherwise a slot is granted whose mailbox this turn's hints report ready and whose
class has a permit free, with exactly one permit issued for it. No other error occurs than that the
permit numbers are used up.\<close>

theorem dispatcher_serves_whenever_possible:
  assumes "dispatch_init y0" "dispatch_step\<^sup>*\<^sup>* y0 y" "p = dy_policy y" "l = pm_ledger (dy_permits y)"
    "validate_readiness p readiness = Inr ready"
  shows "case try_select_and_acquire p readiness l of
      (Inr (Idle NoReadyMailbox), p', l') \<Rightarrow> p' = p \<and> l' = l \<and>
        (\<forall>s \<in> set (dp_slots p). \<not> reported_ready readiness (sl_mailbox s))
    | (Inr (Idle NoDomainPermit), p', l') \<Rightarrow> p' = p \<and> l' = l \<and>
        (\<exists>s \<in> set (dp_slots p). reported_ready readiness (sl_mailbox s)) \<and>
        (\<forall>s \<in> set (dp_slots p). reported_ready readiness (sl_mailbox s) \<longrightarrow> \<not> can_acquire l (sl_class s))
    | (Inr (Selected grant), p', l') \<Rightarrow>
        (\<exists>s \<in> set (dp_slots p). reported_ready readiness (sl_mailbox s) \<and> can_acquire l (sl_class s) \<and>
           dx_mailbox (gr_selection grant) = sl_mailbox s \<and> dx_class (gr_selection grant) = sl_class s \<and>
           dx_cost (gr_selection grant) = sl_cost s \<and>
           try_acquire l (sl_class s) = (Inr (Some (gr_permit grant)), l'))
    | (Inl e, p', l') \<Rightarrow> e = DispatchPermit PermitCounterOverflow \<and> pl_next_permit_id l = - 1 \<and> l' = l"
proof -
  have inv: "policy_inv p" "permits_ok l"
    using dispatch.reachable_inv [OF assms(1,2)] assms(3,4) by (simp_all add: dispatch_inv_def permit_inv_def)
  note out = turn_outcome [OF inv assms(5)]
  have slots: "eligible_slots p readiness l = {} \<longleftrightarrow>
      (\<forall>s \<in> set (dp_slots p). reported_ready readiness (sl_mailbox s) \<longrightarrow> \<not> can_acquire l (sl_class s))"
    by (fastforce simp: eligible_slots_def in_set_conv_nth)
  consider (none) "\<forall>s \<in> set (dp_slots p). \<not> reported_ready readiness (sl_mailbox s)"
    | (full) "\<exists>s \<in> set (dp_slots p). reported_ready readiness (sl_mailbox s)" "eligible_slots p readiness l = {}"
    | (some) "eligible_slots p readiness l \<noteq> {}" using slots by blast
  then show ?thesis
  proof cases
    case some
    obtain i q where i: "i \<in> eligible_slots p readiness l"
        "try_select_and_acquire p readiness l = (if pl_next_permit_id l = - 1 then (Inl (DispatchPermit PermitCounterOverflow), q, l)
         else (Inr (Selected (grant_for p l i)), q, with_issued l (sl_class (slot_at p i))))"
      using out(3) [OF some] by blast
    then show ?thesis
      by (auto simp: eligible_slots_def grant_for_def try_acquire_eq [OF inv(2)] intro!: bexI [of _ "slot_at p i"])
  qed (use out(1,2) slots in simp_all)
qed

theorem dispatcher_serves_whenever_possible_witness:
  "\<exists>grant p' l'. try_select_and_acquire (demo_policy 50) demo_hints demo_ledger = (Inr (Selected grant), p', l') \<and>
     dx_mailbox (gr_selection grant) = 2 \<and> try_acquire demo_ledger Interactive = (Inr (Some (gr_permit grant)), l')"
proof -
  let ?p = "demo_policy 50"
  have v: "validate_readiness ?p demo_hints = Inr [False, True]"
    by (simp add: demo_policy_eq demo_hints_def validate_readiness_def MAX_DISPATCH_SLOTS_def spec_slot_def demo_spec_def Let_def)
  have hints: "reported_ready demo_hints m \<longleftrightarrow> m = 2" for m by (auto simp: reported_ready_def demo_hints_def Let_def)
  have l: "can_acquire demo_ledger Interactive" "pl_next_permit_id demo_ledger \<noteq> - 1"
    by (simp_all add: demo_ledger_def permits_try_new_def can_acquire_def)
  show ?thesis
    using dispatcher_serves_whenever_possible [OF demo_dispatch_init rtranclp.rtrancl_refl _ _ v, of 50 demo_ledger] l
    by (auto simp: demo_dispatch_def demo_permits_def hints demo_policy_eq spec_slot_def demo_spec_def
        split: prod.splits sum.splits DispatchDecision.splits DispatchIdleReason.splits)
qed

text \<open>C5. Skipping ahead is only an optimisation. In every reachable state and for any eligible slots, choosing
a slot over the classes gives the same slot and leaves the same policy as passing over the classes again
and again, crediting one quantum a round, until a class can pay for its slot; and a million and one
rounds are always enough.\<close>

theorem skipping_rounds_is_passing:
  assumes "dispatch_init y0" "dispatch_step\<^sup>*\<^sup>* y0 y" "length eligible = length (dp_slots (dy_policy y))"
    "\<exists>i < length eligible. eligible ! i" "1000001 \<le> n"
  shows "select_by_rounds n (dy_policy y) eligible = Some (select_hierarchical (dy_policy y) eligible) \<and>
    is_ok (fst (select_hierarchical (dy_policy y) eligible))"
proof -
  let ?p = "dy_policy y"
  have ok: "policy_ok ?p" using dispatch.reachable_inv [OF assms(1,2)] by (simp add: dispatch_inv_def policy_inv_def)
  obtain i where "i < length (dp_slots ?p)" "eligible ! i" using assms(3,4) by auto
  then have "class_has_eligible ?p (sl_class (slot_at ?p i)) eligible" by (auto simp: class_has_eligible_def list_ex_iff)
  from select_hierarchical_ok [OF ok assms(3) this] obtain k q where
    "select_hierarchical ?p eligible = (Inr k, q)" "select_by_rounds n ?p eligible = Some (Inr k, q)" using assms(5) by blast
  then show ?thesis by simp
qed

theorem skipping_rounds_is_passing_witness:
  "select_by_rounds 1000001 (demo_policy 50) [False, True] = Some (select_hierarchical (demo_policy 50) [False, True])"
proof -
  have "\<exists>i < length [False, True]. [False, True] ! i" by (rule exI [of _ 1]) simp
  then show ?thesis
    using skipping_rounds_is_passing [OF demo_dispatch_init rtranclp.rtrancl_refl, of 50 "[False, True]" 1000001]
    by (simp add: demo_dispatch_def demo_policy_eq)
qed

text \<open>C6. Permits are never oversold and the control reserve is kept. In every reachable state of a ledger
and its tokens: validation succeeds, the tokens held never exceed the capacity of their pools, work
that is not control never takes from the reserve, an acquisition succeeds exactly while the class has capacity and
permit numbers are left; every held token can be released, and releasing it once more is refused
and changes nothing.\<close>

theorem permits_never_oversold:
  assumes "permit_init y0" "permit_step\<^sup>*\<^sup>* y0 y" "l = pm_ledger y"
  shows "validate_permits l = Inr () \<and>
    length (filter (\<lambda>t. dt_pool t = ControlReserved) (pm_held y)) \<le> unat (pl_control_reserved l) \<and>
    length (filter (\<lambda>t. dt_pool t = Shared) (pm_held y)) + unat (pl_control_reserved l) \<le> unat (pl_total l) \<and>
    (\<forall>class. fst (try_acquire l class) = Inr None \<longleftrightarrow>
       unat (pl_shared_in_use l) + unat (pl_control_reserved l) = unat (pl_total l) \<and>
       (is_control class \<longrightarrow> pl_control_reserved_in_use l = pl_control_reserved l)) \<and>
    (\<forall>class token. fst (try_acquire l class) = Inr (Some token) \<longrightarrow>
       token \<notin> set (pm_held y) \<and> (dt_pool token = ControlReserved \<longrightarrow> is_control class)) \<and>
    (\<forall>class e. fst (try_acquire l class) = Inl e \<longrightarrow> e = PermitCounterOverflow \<and> pl_next_permit_id l = - 1) \<and>
    (\<forall>token \<in> set (pm_held y). \<exists>l' token'. permit_release l token = (Inr (), l', token') \<and>
       permit_release l' token' = (Inl AlreadyReleased, l', token'))"
proof -
  have inv: "permit_inv y" by (rule permits.reachable_inv [OF assms(1,2)])
  then have ok: "permits_ok l" using assms(3) by (simp add: permit_inv_def)
  have bounds: "unat (pl_shared_in_use l) + unat (pl_control_reserved l) \<le> unat (pl_total l)"
    "unat (pl_control_reserved_in_use l) \<le> unat (pl_control_reserved l)"
    using ok by (simp_all add: permits_ok_def word_le_nat_alt)
  have "fst (try_acquire l c) = Inr None \<longleftrightarrow> unat (pl_shared_in_use l) + unat (pl_control_reserved l) = unat (pl_total l) \<and>
       (is_control c \<longrightarrow> pl_control_reserved_in_use l = pl_control_reserved l)" for c
    using bounds shared_room [OF ok]
    by (auto simp: try_acquire_eq [OF ok] can_acquire_def word_less_nat_alt unat_eq_iff)
  moreover have "token \<notin> set (pm_held y) \<and> (dt_pool token = ControlReserved \<longrightarrow> is_control c)"
    if "fst (try_acquire l c) = Inr (Some token)" for c token
  proof -
    have "token = issued_token l c" "pl_next_permit_id l \<noteq> - 1"
      using that by (auto simp: try_acquire_eq [OF ok] split: if_splits)
    then show ?thesis using acquired_fresh [OF inv] assms(3) by (auto simp: issued_token_def issued_pool_def split: if_splits)
  qed
  moreover have "e = PermitCounterOverflow \<and> pl_next_permit_id l = - 1" if "fst (try_acquire l c) = Inl e" for c e
    using that by (auto simp: try_acquire_eq [OF ok] split: if_splits)
  moreover have "\<exists>l' token'. permit_release l token = (Inr (), l', token') \<and> permit_release l' token' = (Inl AlreadyReleased, l', token')"
    if "token \<in> set (pm_held y)" for token
  proof -
    have "permits_ok (with_released l token)" using held_release(2) [OF inv that] assms(3) by (simp add: permit_inv_def)
    from stale_release [OF this, of "token\<lparr>dt_active := False\<rparr>"] held_release(1) [OF inv that] assms(3) show ?thesis by simp
  qed
  moreover have "length (filter (\<lambda>t. dt_pool t = ControlReserved) (pm_held y)) \<le> unat (pl_control_reserved l)"
    "length (filter (\<lambda>t. dt_pool t = Shared) (pm_held y)) + unat (pl_control_reserved l) \<le> unat (pl_total l)"
    using held_pool_count [OF inv, of ControlReserved] held_pool_count [OF inv, of Shared] bounds ok assms(3)
    by (simp_all add: permits_ok_def)
  ultimately show ?thesis using permits_ok_validate [OF ok] by blast
qed

theorem permits_never_oversold_witness:
  "validate_permits demo_ledger = Inr () \<and> fst (try_acquire demo_ledger Background) \<noteq> Inr None"
proof -
  have l: "demo_ledger = pm_ledger demo_permits" by (simp add: demo_permits_def)
  have "unat (pl_shared_in_use demo_ledger) + unat (pl_control_reserved demo_ledger) \<noteq> unat (pl_total demo_ledger)"
    by (simp add: demo_ledger_def permits_try_new_def)
  with permits_never_oversold [OF demo_permit_init rtranclp.rtrancl_refl l] show ?thesis by blast
qed

text \<open>C26. No slot starves its neighbours. In every reachable state, whatever the other slots do: where the
slots are scanned in turn, a slot that stays eligible is chosen within as many turns as there are
slots; where classes share by deficits, a slot is never chosen more often in a row than its burst while
another slot of its class is eligible.\<close>

theorem no_slot_starves_its_neighbours:
  assumes "dispatch_init y0" "dispatch_step\<^sup>*\<^sup>* y0 y" "p = dy_policy y" "i < length (dp_slots p)"
    "\<forall>eligible \<in> set turns. length eligible = length (dp_slots p)"
  shows "(dp_direct_scan p \<and> length (dp_slots p) \<le> length turns \<and> (\<forall>eligible \<in> set turns. eligible ! i) \<longrightarrow>
      Inr i \<in> set (selections p turns)) \<and>
    (\<not> dp_direct_scan p \<and> (\<forall>eligible \<in> set turns. has_other_eligible_slot p i (sl_class (slot_at p i)) eligible) \<and>
     selections p turns = replicate (length turns) (Inr i) \<longrightarrow>
      length turns \<le> unat (sl_max_burst (slot_at p i)))"
proof (intro conjI impI)
  have ok: "policy_ok p" using dispatch.reachable_inv [OF assms(1,2)] assms(3) by (simp add: dispatch_inv_def policy_inv_def)
  assume "dp_direct_scan p \<and> length (dp_slots p) \<le> length turns \<and> (\<forall>eligible \<in> set turns. eligible ! i)"
  moreover have "(i + length (dp_slots p) - dp_direct_cursor p) mod length (dp_slots p) < length (dp_slots p)"
    by (rule mod_less_divisor) (use assms(4) in linarith)
  ultimately show "Inr i \<in> set (selections p turns)" using direct_served [OF ok _ assms(4)] by simp
next
  have ok: "policy_ok p" using dispatch.reachable_inv [OF assms(1,2)] assms(3) by (simp add: dispatch_inv_def policy_inv_def)
  assume "\<not> dp_direct_scan p \<and> (\<forall>eligible \<in> set turns. has_other_eligible_slot p i (sl_class (slot_at p i)) eligible) \<and>
     selections p turns = replicate (length turns) (Inr i)"
  then show "length turns \<le> unat (sl_max_burst (slot_at p i))"
    using burst_bound [OF ok _ assms(4), of turns] assms(5) by (cases "turns = []") fastforce+
qed

theorem no_slot_starves_its_neighbours_witness:
  "Inr 1 \<in> set (selections (demo_policy 30) [[True, True], [False, True]]) \<and>
   (\<exists>i < 2. selections (demo_policy 50) [[True, True]] = [Inr i] \<and> 1 \<le> unat (sl_max_burst (slot_at (demo_policy 50) i)))"
proof -
  let ?p = "demo_policy 50"
  have d: "dp_direct_scan (demo_policy 30)" "length (dp_slots (demo_policy 30)) = 2"
    "\<not> dp_direct_scan ?p" "length (dp_slots ?p) = 2" by (simp_all add: demo_policy_eq)
  have ok: "policy_ok ?p" using dispatch.init_inv [OF demo_dispatch_init, of 50]
    by (simp add: dispatch_inv_def policy_inv_def demo_dispatch_def)
  have el: "class_has_eligible ?p Interactive [True, True]"
    by (simp add: demo_policy_eq class_has_eligible_def spec_slot_def demo_spec_def)
  obtain i q where i: "select_hierarchical ?p [True, True] = (Inr i, q)" "i < 2"
    by (rule select_hierarchical_ok [OF ok _ el]) (use d(4) in \<open>auto simp: served_def\<close>)
  then have "has_other_eligible_slot ?p i (sl_class (slot_at ?p i)) [True, True]"
    by (auto simp: demo_policy_eq has_other_eligible_slot_def spec_slot_def demo_spec_def less_2_cases_iff)
  moreover have "selections ?p [[True, True]] = [Inr i]" using i(1) d(3) by simp
  ultimately show ?thesis
    using no_slot_starves_its_neighbours [OF demo_dispatch_init rtranclp.rtrancl_refl refl, of 30 1 "[[True, True], [False, True]]"] d
      no_slot_starves_its_neighbours [OF demo_dispatch_init rtranclp.rtrancl_refl refl, of 50 i "[[True, True]]"] i(2)
    by (auto simp: demo_dispatch_def)
qed

end
