(* ===== verification/Executor_Budget.thy ===== *)
theory Executor_Budget
  imports Prelude State_Machine
begin

text \<open>
  The RuntimeHost-wide thread budget, \<open>crates/paraegox-runtime/src/executor_budget.rs\<close>, and
  the join proof of \<open>thread_domain.rs\<close> that settles a reservation. The identity of the
  \<open>Arc\<close> marker a budget allocates is a natural number handed to \<open>budget_try_new\<close>;
  \<open>Arc::ptr_eq\<close> is its equality. A reservation is linear in the source (it is not \<open>Clone\<close>),
  so the machine below keeps the list of reservations that are still owned by somebody.
\<close>

section \<open>Data\<close>

record ExecutorReservation =
  er_marker :: nat
  er_reservation_id :: u64
  er_managed_workers :: u32
  er_native_threads :: u32
  er_active :: bool

record ReservationRecord =
  rr_managed_workers :: u32
  rr_native_threads :: u32

record ExecutorBudgetSnapshot =
  es_maximum_threads :: u32
  es_framework_threads :: u32
  es_managed_workers :: u32
  es_native_threads :: u32
  es_active_reservations :: u32

record ThreadInventoryObservation =
  io_framework_threads :: u32
  io_managed_workers :: u32
  io_native_threads :: u32
  io_unknown_threads :: u32

record ExecutorBudget =
  eb_marker :: nat
  eb_maximum_threads :: u32
  eb_framework_threads :: u32
  eb_managed_workers :: u32
  eb_native_threads :: u32
  eb_next_reservation_id :: u64
  eb_active :: "(u64, ReservationRecord) btree_map"

datatype ExecutorBudgetError =
    InvalidPlan
  | InvalidReservation
  | CapacityExhausted
  | CounterOverflow
  | IdentifierExhausted
  | AlreadyReleased
  | OwnerMismatch
  | ReservationMismatch
  | JoinProofMismatch
  | StateInconsistent

datatype ThreadInventoryMismatch =
    BudgetStateInvalid
  | ObservedCounterOverflow
  | ObservedTotalExceeded
  | FrameworkMismatch
  | ManagedWorkerMismatch
  | NativeReservationExceeded
  | UnknownThreadsObserved

datatype ThreadDomainJoinKind = ConstructionRollback | CompleteShutdown

record ThreadDomainJoinProof =
  jp_kind :: ThreadDomainJoinKind
  jp_reservation :: "ExecutorReservation option"
  jp_started_workers :: usize
  jp_joined_workers :: usize
  jp_native_threads_released :: bool

section \<open>Operations\<close>

definition reserved_threads :: "ExecutorBudgetSnapshot \<Rightarrow> u32" where
  "reserved_threads self =
     es_framework_threads self + es_managed_workers self + es_native_threads self"

definition available_threads :: "ExecutorBudgetSnapshot \<Rightarrow> u32" where
  "available_threads self = es_maximum_threads self - reserved_threads self"

definition budget_try_new :: "nat \<Rightarrow> u32 \<Rightarrow> u32 \<Rightarrow> ExecutorBudgetError + ExecutorBudget" where
  "budget_try_new marker maximum_threads framework_threads =
     (if maximum_threads = 0 \<or> framework_threads = 0 \<or> framework_threads > maximum_threads
      then Inl InvalidPlan
      else Inr \<lparr>eb_marker = marker, eb_maximum_threads = maximum_threads,
                eb_framework_threads = framework_threads, eb_managed_workers = 0,
                eb_native_threads = 0, eb_next_reservation_id = 0, eb_active = []\<rparr>)"

definition checked_add3 :: "u32 \<Rightarrow> u32 \<Rightarrow> u32 \<Rightarrow> u32 option" where
  "checked_add3 a b c = Option.bind (checked_add a b) (\<lambda>value. checked_add value c)"

definition budget_validate_state :: "ExecutorBudget \<Rightarrow> ExecutorBudgetError + unit" where
  "budget_validate_state self =
     (if eb_maximum_threads self = 0 \<or> eb_framework_threads self = 0
         \<or> eb_framework_threads self > eb_maximum_threads self
      then Inl StateInconsistent
      else
        let recomputed_managed = try_sum 0 (map rr_managed_workers (btree_values (eb_active self)));
            recomputed_native = try_sum 0 (map rr_native_threads (btree_values (eb_active self)))
        in if recomputed_managed \<noteq> Some (eb_managed_workers self)
              \<or> recomputed_native \<noteq> Some (eb_native_threads self)
           then Inl StateInconsistent
           else and_then (ok_or (checked_add3 (eb_framework_threads self)
                                  (eb_managed_workers self) (eb_native_threads self))
                                StateInconsistent) (\<lambda>total.
             if total > eb_maximum_threads self then Inl StateInconsistent else Inr ()))"

definition budget_try_reserve ::
  "u32 \<Rightarrow> u32 \<Rightarrow> ExecutorBudget \<Rightarrow> (ExecutorBudgetError + ExecutorReservation) \<times> ExecutorBudget" where
  "budget_try_reserve managed_workers native_threads self =
     and_then_st (budget_validate_state self) self (\<lambda>_.
     if managed_workers = 0 then (Inl InvalidReservation, self)
     else
     and_then_st (ok_or (checked_add (eb_managed_workers self) managed_workers) CounterOverflow)
       self (\<lambda>new_managed.
     and_then_st (ok_or (checked_add (eb_native_threads self) native_threads) CounterOverflow)
       self (\<lambda>new_native.
     and_then_st (ok_or (checked_add3 (eb_framework_threads self) new_managed new_native)
       CounterOverflow) self (\<lambda>total.
     if total > eb_maximum_threads self then (Inl CapacityExhausted, self)
     else
     and_then_st (ok_or (checked_add (eb_next_reservation_id self) 1) IdentifierExhausted)
       self (\<lambda>reservation_id.
       let record = \<lparr>rr_managed_workers = managed_workers, rr_native_threads = native_threads\<rparr>;
           prior = btree_get (eb_active self) reservation_id;
           self' = self\<lparr>eb_active := btree_insert reservation_id record (eb_active self)\<rparr>
       in if prior \<noteq> None then (Inl StateInconsistent, self')
          else (Inr \<lparr>er_marker = eb_marker self, er_reservation_id = reservation_id,
                     er_managed_workers = managed_workers, er_native_threads = native_threads,
                     er_active = True\<rparr>,
                self'\<lparr>eb_managed_workers := new_managed, eb_native_threads := new_native,
                      eb_next_reservation_id := reservation_id\<rparr>))))))"

definition mark_released :: "ThreadDomainJoinProof \<Rightarrow> ThreadDomainJoinProof" where
  "mark_released self = self\<lparr>jp_reservation := None\<rparr>"

text \<open>The condition under which a join proof does not settle its reservation.\<close>

definition join_proof_mismatch :: "ThreadDomainJoinProof \<Rightarrow> ExecutorReservation \<Rightarrow> bool" where
  "join_proof_mismatch jp reservation =
     (let managed_workers = (ucast (er_managed_workers reservation) :: usize) in
      jp_started_workers jp \<noteq> jp_joined_workers jp
      \<or> jp_started_workers jp > managed_workers
      \<or> (jp_kind jp = CompleteShutdown \<and> jp_started_workers jp \<noteq> managed_workers)
      \<or> (er_native_threads reservation \<noteq> 0 \<and> \<not> jp_native_threads_released jp))"

definition budget_release ::
  "ThreadDomainJoinProof \<Rightarrow> ExecutorBudget \<Rightarrow>
   (ExecutorBudgetError + unit) \<times> ExecutorBudget \<times> ThreadDomainJoinProof" where
  "budget_release jp self =
     and_then_st (budget_validate_state self) (self, jp) (\<lambda>_.
     and_then_st (ok_or (jp_reservation jp) AlreadyReleased) (self, jp) (\<lambda>reservation.
     if \<not> er_active reservation then (Inl AlreadyReleased, self, jp)
     else if er_marker reservation \<noteq> eb_marker self then (Inl OwnerMismatch, self, jp)
     else case btree_get (eb_active self) (er_reservation_id reservation) of
       None \<Rightarrow> (Inl ReservationMismatch, self, jp)
     | Some record \<Rightarrow>
         if rr_managed_workers record \<noteq> er_managed_workers reservation
            \<or> rr_native_threads record \<noteq> er_native_threads reservation
         then (Inl ReservationMismatch, self, jp)
         else if join_proof_mismatch jp reservation then (Inl JoinProofMismatch, self, jp)
         else
         and_then_st (ok_or (checked_sub (eb_managed_workers self) (rr_managed_workers record))
           StateInconsistent) (self, jp) (\<lambda>new_managed.
         and_then_st (ok_or (checked_sub (eb_native_threads self) (rr_native_threads record))
           StateInconsistent) (self, jp) (\<lambda>new_native.
           let self' = self\<lparr>eb_active := btree_remove (er_reservation_id reservation) (eb_active self),
                            eb_managed_workers := new_managed, eb_native_threads := new_native\<rparr>
           in (budget_validate_state self', self', mark_released jp)))))"

definition budget_snapshot :: "ExecutorBudget \<Rightarrow> ExecutorBudgetError + ExecutorBudgetSnapshot" where
  "budget_snapshot self =
     and_then (budget_validate_state self) (\<lambda>_.
     and_then (ok_or (try_of_nat (length (eb_active self))) StateInconsistent) (\<lambda>active_reservations.
       Inr \<lparr>es_maximum_threads = eb_maximum_threads self,
            es_framework_threads = eb_framework_threads self,
            es_managed_workers = eb_managed_workers self,
            es_native_threads = eb_native_threads self,
            es_active_reservations = active_reservations\<rparr>))"

definition evaluate_observation ::
  "ExecutorBudget \<Rightarrow> ThreadInventoryObservation \<Rightarrow> ThreadInventoryMismatch + unit" where
  "evaluate_observation self observation =
     and_then (map_err (\<lambda>_. BudgetStateInvalid) (budget_snapshot self)) (\<lambda>planned.
     and_then (ok_or (Option.bind (checked_add3 (io_framework_threads observation)
                                     (io_managed_workers observation) (io_native_threads observation))
                        (\<lambda>value. checked_add value (io_unknown_threads observation)))
                     ObservedCounterOverflow) (\<lambda>observed_total.
       if observed_total > es_maximum_threads planned then Inl ObservedTotalExceeded
       else if io_framework_threads observation \<noteq> es_framework_threads planned
         then Inl FrameworkMismatch
       else if io_managed_workers observation \<noteq> es_managed_workers planned
         then Inl ManagedWorkerMismatch
       else if io_native_threads observation > es_native_threads planned
         then Inl NativeReservationExceeded
       else if io_unknown_threads observation \<noteq> 0 then Inl UnknownThreadsObserved
       else Inr ()))"

section \<open>The invariant\<close>

abbreviation managed_total :: "ExecutorBudget \<Rightarrow> nat" where
  "managed_total b \<equiv> weight_sum (\<lambda>r. unat (rr_managed_workers r)) (eb_active b)"

abbreviation native_total :: "ExecutorBudget \<Rightarrow> nat" where
  "native_total b \<equiv> weight_sum (\<lambda>r. unat (rr_native_threads r)) (eb_active b)"

definition budget_inv :: "ExecutorBudget \<Rightarrow> bool" where
  "budget_inv b \<longleftrightarrow>
     eb_maximum_threads b \<noteq> 0 \<and> eb_framework_threads b \<noteq> 0 \<and>
     unat (eb_managed_workers b) = managed_total b \<and> unat (eb_native_threads b) = native_total b \<and>
     unat (eb_framework_threads b) + managed_total b + native_total b \<le> unat (eb_maximum_threads b) \<and>
     btree_ok (eb_active b) \<and>
     (\<forall>(k, r) \<in> set (eb_active b). k \<le> eb_next_reservation_id b \<and> rr_managed_workers r \<noteq> 0)"

lemma checked_add3_eq_Some [checked]:
  "checked_add3 a b c = Some t \<longleftrightarrow> unat t = unat a + unat b + unat c"
proof (cases "checked_add a b")
  case None
  then have "2 ^ 32 \<le> unat a + unat b" by (simp add: checked)
  then have "unat t \<noteq> unat a + unat b + unat c" using unat_u32_bound [of t] by simp
  with None show ?thesis by (simp add: checked_add3_def)
next
  case (Some d)
  then have "unat d = unat a + unat b" by (simp add: checked)
  with Some show ?thesis by (simp add: checked_add3_def checked_add_eq_Some [of d])
qed

lemma checked_add3_eq_None [checked]:
  "checked_add3 a b c = None \<longleftrightarrow> 2 ^ 32 \<le> unat a + unat b + unat c"
proof (cases "checked_add3 a b c")
  case (Some t)
  then have "unat t = unat a + unat b + unat c" by (simp add: checked)
  with Some unat_u32_bound [of t] show ?thesis by simp
next
  case None
  then have "checked_add3 a b c \<noteq> Some (word_of_nat (unat a + unat b + unat c))" by simp
  then have "unat (word_of_nat (unat a + unat b + unat c) :: u32) \<noteq> unat a + unat b + unat c"
    unfolding checked_add3_eq_Some .
  then have "\<not> unat a + unat b + unat c < 2 ^ 32"
    using unat_of_nat_u32 by blast
  with None show ?thesis by simp
qed

lemma budget_validate_state_ok [res_simps]:
  "budget_validate_state b = Inr u \<longleftrightarrow>
     eb_maximum_threads b \<noteq> 0 \<and> eb_framework_threads b \<noteq> 0 \<and>
     unat (eb_managed_workers b) = managed_total b \<and> unat (eb_native_threads b) = native_total b \<and>
     unat (eb_framework_threads b) + managed_total b + native_total b \<le> unat (eb_maximum_threads b)"
proof (cases "checked_add3 (eb_framework_threads b) (eb_managed_workers b) (eb_native_threads b)")
  case None
  then have "2 ^ 32 \<le> unat (eb_framework_threads b) + unat (eb_managed_workers b) + unat (eb_native_threads b)"
    by (simp add: checked)
  with None unat_u32_bound [of "eb_maximum_threads b"] show ?thesis
    by (auto simp: budget_validate_state_def Let_def)
next
  case (Some t)
  then have "unat t = unat (eb_framework_threads b) + unat (eb_managed_workers b) + unat (eb_native_threads b)"
    by (simp add: checked)
  with Some show ?thesis
    by (auto simp: budget_validate_state_def Let_def try_sum_eq_Some weight_sum_values word_nat not_less
        simp del: map_map)
qed

lemma budget_inv_valid: "budget_inv b \<Longrightarrow> budget_validate_state b = Inr ()"
  by (simp add: budget_inv_def res_simps)


lemma inv_counts:
  assumes "budget_inv b"
  shows "unat (eb_framework_threads b) + unat (eb_managed_workers b) + unat (eb_native_threads b)
           \<le> unat (eb_maximum_threads b)"
  using assms by (simp add: budget_inv_def)

section \<open>What reserving and releasing do\<close>

text \<open>The state after a reservation, and after its release.\<close>

definition reserved :: "u64 \<Rightarrow> u32 \<Rightarrow> u32 \<Rightarrow> ExecutorBudget \<Rightarrow> ExecutorBudget" where
  "reserved i m n b = b\<lparr>eb_active := btree_insert i \<lparr>rr_managed_workers = m, rr_native_threads = n\<rparr> (eb_active b),
     eb_managed_workers := eb_managed_workers b + m, eb_native_threads := eb_native_threads b + n,
     eb_next_reservation_id := i\<rparr>"

definition reserve_fits :: "u32 \<Rightarrow> u32 \<Rightarrow> ExecutorBudget \<Rightarrow> bool" where
  "reserve_fits m n b \<longleftrightarrow>
     unat (eb_framework_threads b) + unat (eb_managed_workers b) + unat m +
     unat (eb_native_threads b) + unat n \<le> unat (eb_maximum_threads b)"

lemma fresh_id:
  assumes "budget_inv b" and "eb_next_reservation_id b < i"
  shows "btree_get (eb_active b) i = None"
  using assms by (auto simp: budget_inv_def btree_get_None_iff)

lemma try_reserve_success:
  assumes inv: "budget_inv b" and "m \<noteq> 0" and fits: "reserve_fits m n b"
    and ids: "eb_next_reservation_id b \<noteq> - 1"
  defines "i \<equiv> eb_next_reservation_id b + 1"
  shows "budget_try_reserve m n b =
    (Inr \<lparr>er_marker = eb_marker b, er_reservation_id = i, er_managed_workers = m,
          er_native_threads = n, er_active = True\<rparr>, reserved i m n b)"
proof -
  have bound: "unat (eb_framework_threads b) + unat (eb_managed_workers b) + unat m +
     unat (eb_native_threads b) + unat n < 2 ^ 32"
    using fits unat_u32_bound [of "eb_maximum_threads b"] by (simp add: reserve_fits_def)
  have sums: "checked_add (eb_managed_workers b) m = Some (eb_managed_workers b + m)"
    "checked_add (eb_native_threads b) n = Some (eb_native_threads b + n)"
    using bound by (intro checked_add_fits; simp)+
  have nat: "unat (eb_managed_workers b + m) = unat (eb_managed_workers b) + unat m"
    "unat (eb_native_threads b + n) = unat (eb_native_threads b) + unat n"
    using sums by (simp_all only: checked_add_eq_Some)
  obtain t where t: "checked_add3 (eb_framework_threads b) (eb_managed_workers b + m)
      (eb_native_threads b + n) = Some t" and "\<not> eb_maximum_threads b < t"
    using bound fits
    by (cases "checked_add3 (eb_framework_threads b) (eb_managed_workers b + m) (eb_native_threads b + n)")
       (auto simp: checked_add3_eq_None checked_add3_eq_Some nat reserve_fits_def word_nat)
  with assms sums checked_succ [of "eb_next_reservation_id b"] succ_greater [OF ids] budget_inv_valid [OF inv] fresh_id [OF inv] show ?thesis
    by (simp add: budget_try_reserve_def reserved_def)
qed

lemma try_reserve_failure:
  assumes inv: "budget_inv b"
    and bad: "m = 0 \<or> \<not> reserve_fits m n b \<or> eb_next_reservation_id b = - 1"
  shows "\<exists>e. budget_try_reserve m n b = (Inl e, b) \<and> e \<noteq> StateInconsistent"
proof -
  have over: "reserve_fits m n b"
    if "checked_add (eb_managed_workers b) m = Some nm" and "checked_add (eb_native_threads b) n = Some nn"
      and "checked_add3 (eb_framework_threads b) nm nn = Some t" and "\<not> eb_maximum_threads b < t" for nm nn t
    using that by (simp add: checked_add_eq_Some checked_add3_eq_Some reserve_fits_def word_nat)
  have last: "checked_add (- 1 :: u64) 1 = None"
    by (simp add: checked_succ)
  show ?thesis
  proof (cases "checked_add (eb_managed_workers b) m")
    case None
    with bad budget_inv_valid [OF inv] show ?thesis by (auto simp: budget_try_reserve_def)
  next
    case (Some nm)
    note nm = this
    show ?thesis
    proof (cases "checked_add (eb_native_threads b) n")
      case None
      with nm bad budget_inv_valid [OF inv] show ?thesis by (auto simp: budget_try_reserve_def)
    next
      case (Some nn)
      then show ?thesis
        using nm bad budget_inv_valid [OF inv] over [OF nm Some] last
        by (cases "checked_add3 (eb_framework_threads b) nm nn") (auto simp: budget_try_reserve_def)
    qed
  qed
qed

lemma reserved_inv:
  assumes inv: "budget_inv b" and "m \<noteq> 0" and fits: "reserve_fits m n b"
    and ids: "eb_next_reservation_id b \<noteq> - 1"
  shows "budget_inv (reserved (eb_next_reservation_id b + 1) m n b)"
proof -
  let ?i = "eb_next_reservation_id b + 1"
  have fresh: "btree_get (eb_active b) ?i = None"
    by (rule fresh_id [OF inv succ_greater [OF ids]])
  have ok: "btree_ok (eb_active b)" using inv by (simp add: budget_inv_def)
  have bound: "unat (eb_managed_workers b) + unat m < 2 ^ 32" "unat (eb_native_threads b) + unat n < 2 ^ 32"
    using fits unat_u32_bound [of "eb_maximum_threads b"] by (simp_all add: reserve_fits_def)
  have nat: "unat (eb_managed_workers b + m) = unat (eb_managed_workers b) + unat m"
    "unat (eb_native_threads b + n) = unat (eb_native_threads b) + unat n"
    using checked_add_fits [of "eb_managed_workers b" m] checked_add_fits [of "eb_native_threads b" n] bound
    by (simp_all add: checked_add_eq_Some)
  have keys: "k \<le> ?i \<and> rr_managed_workers r \<noteq> 0"
    if "(k, r) \<in> set (btree_insert ?i \<lparr>rr_managed_workers = m, rr_native_threads = n\<rparr> (eb_active b))" for k r
  proof (cases "(k, r) \<in> set (eb_active b)")
    case True
    with inv succ_greater [OF ids] show ?thesis by (fastforce simp: budget_inv_def)
  next
    case False
    with that btree.set_insert_fresh [OF ok fresh] \<open>m \<noteq> 0\<close> show ?thesis by auto
  qed
  show ?thesis
    using inv fits keys btree.weight_insert [OF ok fresh] btree_ok_insert [OF ok] nat
    by (auto simp: budget_inv_def reserved_def reserve_fits_def)
qed

lemma released_inv:
  assumes inv: "budget_inv b" and get: "btree_get (eb_active b) i = Some r"
  defines "b' \<equiv> b\<lparr>eb_active := btree_remove i (eb_active b),
    eb_managed_workers := eb_managed_workers b - rr_managed_workers r,
    eb_native_threads := eb_native_threads b - rr_native_threads r\<rparr>"
  shows "budget_inv b'"
    and "checked_sub (eb_managed_workers b) (rr_managed_workers r) = Some (eb_managed_workers b')"
    and "checked_sub (eb_native_threads b) (rr_native_threads r) = Some (eb_native_threads b')"
proof -
  have ok: "btree_ok (eb_active b)" using inv by (simp add: budget_inv_def)
  note w = btree.weight_remove [OF ok get]
  have le: "rr_managed_workers r \<le> eb_managed_workers b" "rr_native_threads r \<le> eb_native_threads b"
    using inv w [of "\<lambda>r. unat (rr_managed_workers r)"] w [of "\<lambda>r. unat (rr_native_threads r)"]
    by (simp_all add: budget_inv_def word_le_nat_alt)
  then show subs: "checked_sub (eb_managed_workers b) (rr_managed_workers r) = Some (eb_managed_workers b')"
    "checked_sub (eb_native_threads b) (rr_native_threads r) = Some (eb_native_threads b')"
    by (simp_all add: checked_sub_def b'_def)
  have keys: "set (btree_remove i (eb_active b)) \<subseteq> set (eb_active b)"
    by (auto simp: btree_remove_def)
  have counts: "unat (eb_managed_workers b) = unat (rr_managed_workers r) + unat (eb_managed_workers b')"
    "unat (eb_native_threads b) = unat (rr_native_threads r) + unat (eb_native_threads b')"
    using subs by (simp_all only: checked_sub_eq_Some)
  show "budget_inv b'"
    unfolding budget_inv_def
  proof (intro conjI)
    show "\<forall>(k, r) \<in> set (eb_active b'). k \<le> eb_next_reservation_id b' \<and> rr_managed_workers r \<noteq> 0"
      using inv keys by (fastforce simp: budget_inv_def b'_def)
  qed (use inv counts w [of "\<lambda>r. unat (rr_managed_workers r)"] w [of "\<lambda>r. unat (rr_native_threads r)"]
      btree_ok_remove [OF ok] in \<open>auto simp: budget_inv_def b'_def\<close>)
qed

text \<open>A join proof that settles an outstanding reservation of this budget.\<close>

definition settles :: "ExecutorBudget \<Rightarrow> ThreadDomainJoinProof \<Rightarrow> ExecutorReservation \<Rightarrow> bool" where
  "settles b jp r \<longleftrightarrow> jp_reservation jp = Some r \<and> er_active r \<and> er_marker r = eb_marker b \<and>
     btree_get (eb_active b) (er_reservation_id r) =
       Some \<lparr>rr_managed_workers = er_managed_workers r, rr_native_threads = er_native_threads r\<rparr> \<and>
     \<not> join_proof_mismatch jp r"

definition released :: "ExecutorReservation \<Rightarrow> ExecutorBudget \<Rightarrow> ExecutorBudget" where
  "released r b = b\<lparr>eb_active := btree_remove (er_reservation_id r) (eb_active b),
     eb_managed_workers := eb_managed_workers b - er_managed_workers r,
     eb_native_threads := eb_native_threads b - er_native_threads r\<rparr>"

lemma release_success:
  assumes inv: "budget_inv b" and s: "settles b jp r"
  shows "budget_release jp b = (Inr (), released r b, mark_released jp)" and "budget_inv (released r b)"
proof -
  let ?rec = "\<lparr>rr_managed_workers = er_managed_workers r, rr_native_threads = er_native_threads r\<rparr>"
  have get: "btree_get (eb_active b) (er_reservation_id r) = Some ?rec"
    using s by (simp add: settles_def)
  note rel = released_inv [OF inv get, simplified, folded released_def]
  show "budget_inv (released r b)" by (rule rel(1))
  with s get rel(2,3) budget_inv_valid [OF inv] budget_inv_valid [OF rel(1)]
  show "budget_release jp b = (Inr (), released r b, mark_released jp)"
    by (simp add: budget_release_def settles_def released_def)
qed

lemma release_failure:
  assumes inv: "budget_inv b" and "\<nexists>r. settles b jp r"
  shows "\<exists>e. budget_release jp b = (Inl e, b, jp) \<and> e \<noteq> StateInconsistent"
proof (cases "jp_reservation jp")
  case None
  then show ?thesis using budget_inv_valid [OF inv] by (simp add: budget_release_def)
next
  case (Some r)
  show ?thesis
  proof (cases "btree_get (eb_active b) (er_reservation_id r)")
    case None
    with Some budget_inv_valid [OF inv] show ?thesis by (simp add: budget_release_def)
  next
    case rec: (Some rec)
    show ?thesis
    proof (cases "er_active r \<and> er_marker r = eb_marker b \<and>
        rr_managed_workers rec = er_managed_workers r \<and> rr_native_threads rec = er_native_threads r")
      case True
      then have "rec = \<lparr>rr_managed_workers = er_managed_workers r, rr_native_threads = er_native_threads r\<rparr>"
        by (cases rec) simp
      with True Some rec assms(2) have "join_proof_mismatch jp r" by (auto simp: settles_def)
      with True Some rec budget_inv_valid [OF inv] show ?thesis by (simp add: budget_release_def)
    next
      case False
      with Some rec budget_inv_valid [OF inv] show ?thesis by (auto simp: budget_release_def)
    qed
  qed
qed

section \<open>The machine of reservations and releases\<close>

record budget_sys =
  bs_budget :: ExecutorBudget
  bs_owned :: "ExecutorReservation list"

definition budget_init :: "budget_sys \<Rightarrow> bool" where
  "budget_init s \<longleftrightarrow> bs_owned s = [] \<and>
     (\<exists>marker maximum framework. budget_try_new marker maximum framework = Inr (bs_budget s))"

inductive budget_step :: "budget_sys \<Rightarrow> budget_sys \<Rightarrow> bool" where
  step_reserve:
    "budget_try_reserve m n (bs_budget s) = (res, b) \<Longrightarrow>
     budget_step s \<lparr>bs_budget = b,
       bs_owned = (case res of Inl _ \<Rightarrow> bs_owned s | Inr r \<Rightarrow> r # bs_owned s)\<rparr>"
| step_release:
    "r \<in> set (bs_owned s) \<Longrightarrow> jp_reservation jp = Some r \<Longrightarrow>
     budget_release jp (bs_budget s) = (res, b, jp') \<Longrightarrow>
     budget_step s \<lparr>bs_budget = b,
       bs_owned = (if jp_reservation jp' = None then remove1 r (bs_owned s) else bs_owned s)\<rparr>"

abbreviation entry_of :: "ExecutorReservation \<Rightarrow> u64 \<times> ReservationRecord" where
  "entry_of r \<equiv> (er_reservation_id r,
     \<lparr>rr_managed_workers = er_managed_workers r, rr_native_threads = er_native_threads r\<rparr>)"

definition budget_sys_inv :: "budget_sys \<Rightarrow> bool" where
  "budget_sys_inv s \<longleftrightarrow> budget_inv (bs_budget s) \<and>
     mset (map entry_of (bs_owned s)) = mset (eb_active (bs_budget s)) \<and>
     (\<forall>r \<in> set (bs_owned s). er_active r \<and> er_marker r = eb_marker (bs_budget s))"

lemma mset_map_remove1:
  "x \<in> set xs \<Longrightarrow> mset (map f xs) = add_mset (f x) (mset (map f (remove1 x xs)))"
  by (induction xs) auto

lemma budget_try_new_inv:
  "budget_try_new marker maximum framework = Inr b \<Longrightarrow> budget_inv b \<and> eb_active b = []"
  by (auto simp: budget_try_new_def budget_inv_def word_nat not_less split: if_splits)

lemma budget_init_inv: "budget_init s \<Longrightarrow> budget_sys_inv s"
proof -
  assume "budget_init s"
  then obtain marker maximum framework where "bs_owned s = []"
    and "budget_try_new marker maximum framework = Inr (bs_budget s)" by (auto simp: budget_init_def)
  with budget_try_new_inv show ?thesis by (simp add: budget_sys_inv_def)
qed

lemma owned_get:
  assumes "budget_sys_inv s" and "r \<in> set (bs_owned s)"
  shows "btree_get (eb_active (bs_budget s)) (er_reservation_id r) = Some (snd (entry_of r))"
proof -
  have "set (map entry_of (bs_owned s)) = set (eb_active (bs_budget s))"
    using assms(1) unfolding budget_sys_inv_def by (intro mset_eq_setD) simp
  then have "entry_of r \<in> set (eb_active (bs_budget s))" using assms(2) by auto
  then show ?thesis
    using assms(1) by (simp add: btree.get_iff budget_sys_inv_def budget_inv_def)
qed

lemma owned_settles:
  assumes "budget_sys_inv s" and "r \<in> set (bs_owned s)"
    and "jp_reservation jp = Some r" and "\<not> join_proof_mismatch jp r"
  shows "settles (bs_budget s) jp r"
  using assms owned_get [OF assms(1,2)] by (simp add: settles_def budget_sys_inv_def)

lemma reserve_step_inv:
  assumes s: "budget_sys_inv s" and res: "budget_try_reserve m n (bs_budget s) = (res, b)"
  shows "budget_sys_inv \<lparr>bs_budget = b, bs_owned = (case res of Inl _ \<Rightarrow> bs_owned s | Inr r \<Rightarrow> r # bs_owned s)\<rparr>"
proof -
  let ?b = "bs_budget s" let ?i = "eb_next_reservation_id ?b + 1"
  have inv: "budget_inv ?b" using s by (simp add: budget_sys_inv_def)
  show ?thesis
  proof (cases "m = 0 \<or> \<not> reserve_fits m n ?b \<or> eb_next_reservation_id ?b = - 1")
    case True
    from try_reserve_failure [OF inv True] res s show ?thesis by (auto simp: budget_sys_inv_def)
  next
    case False
    then have ok: "m \<noteq> 0" "reserve_fits m n ?b" "eb_next_reservation_id ?b \<noteq> - 1" by auto
    have "btree_get (eb_active ?b) ?i = None"
      by (rule fresh_id [OF inv succ_greater [OF ok(3)]])
    with try_reserve_success [OF inv ok] reserved_inv [OF inv ok] res s show ?thesis
      by (auto simp: budget_sys_inv_def mset_btree_insert reserved_def)
  qed
qed

lemma release_step_inv:
  assumes s: "budget_sys_inv s" and r: "r \<in> set (bs_owned s)" "jp_reservation jp = Some r"
    and res: "budget_release jp (bs_budget s) = (res, b, jp')"
  shows "budget_sys_inv \<lparr>bs_budget = b,
    bs_owned = (if jp_reservation jp' = None then remove1 r (bs_owned s) else bs_owned s)\<rparr>"
proof -
  have inv: "budget_inv (bs_budget s)" using s by (simp add: budget_sys_inv_def)
  show ?thesis
  proof (cases "join_proof_mismatch jp r")
    case True
    then have "\<nexists>r. settles (bs_budget s) jp r" using r by (auto simp: settles_def)
    from release_failure [OF inv this] res r s show ?thesis by (auto simp: budget_sys_inv_def)
  next
    case False
    note ok = owned_settles [OF s r False]
    have eqs: "b = released r (bs_budget s)" "jp_reservation jp' = None"
      using release_success(1) [OF inv ok] res by (auto simp: mark_released_def)
    have "mset (eb_active (bs_budget s)) = add_mset (entry_of r) (mset (eb_active b))"
      using btree.remove_present [OF _ owned_get [OF s r(1)]] inv
      by (simp add: eqs released_def budget_inv_def)
    moreover note mset_map_remove1 [OF r(1), of entry_of]
    ultimately show ?thesis
      using s release_success(2) [OF inv ok] eqs notin_set_remove1
      by (auto simp: budget_sys_inv_def released_def dest: notin_set_remove1)
  qed
qed

interpretation budget_machine: state_machine budget_init budget_step budget_sys_inv
proof unfold_locales
  show "budget_sys_inv s \<Longrightarrow> budget_step s t \<Longrightarrow> budget_sys_inv t" for s t
    by (erule budget_step.cases) (use reserve_step_inv release_step_inv in blast)+
qed (rule budget_init_inv)

lemma active_bounded:
  "budget_inv b \<Longrightarrow> length (eb_active b) \<le> managed_total b"
proof -
  have "\<forall>(k, r) \<in> set m. rr_managed_workers r \<noteq> 0 \<Longrightarrow>
      length m \<le> weight_sum (\<lambda>r. unat (rr_managed_workers r)) m" for m :: "(u64 \<times> ReservationRecord) list"
  proof (induction m)
    case (Cons e m)
    then have "unat (rr_managed_workers (snd e)) \<noteq> 0" by (auto simp: unat_eq_0 split: prod.splits)
    with Cons show ?case by (auto simp: weight_sum_def)
  qed simp
  then show "budget_inv b \<Longrightarrow> ?thesis" by (auto simp: budget_inv_def)
qed

lemma snapshot_inv:
  assumes "budget_inv b"
  obtains k where "budget_snapshot b = Inr \<lparr>es_maximum_threads = eb_maximum_threads b,
      es_framework_threads = eb_framework_threads b, es_managed_workers = eb_managed_workers b,
      es_native_threads = eb_native_threads b, es_active_reservations = k\<rparr>"
    and "unat k = length (eb_active b)"
proof -
  have "length (eb_active b) < 2 ^ 32"
    using active_bounded [OF assms] assms unat_u32_bound [of "eb_managed_workers b"]
    by (simp add: budget_inv_def)
  then obtain k :: u32 where k: "try_of_nat (length (eb_active b)) = Some k"
    by (simp add: try_of_nat_def)
  show thesis
  proof (rule that [of k])
    show "unat k = length (eb_active b)" using k by (simp add: try_of_nat_eq_Some)
  qed (use k budget_inv_valid [OF assms] in \<open>simp add: budget_snapshot_def\<close>)
qed

lemma owned_weight:
  assumes "budget_sys_inv s"
  shows "weight_sum w (eb_active (bs_budget s)) = (\<Sum>r \<leftarrow> bs_owned s. w (snd (entry_of r)))"
proof -
  have "mset (map (\<lambda>e. w (snd e)) (map entry_of (bs_owned s))) =
        mset (map (\<lambda>e. w (snd e)) (eb_active (bs_budget s)))"
    using assms unfolding budget_sys_inv_def mset_map [of "\<lambda>e. w (snd e)"] by simp
  from arg_cong [OF this, of sum_mset] have "sum_list (map (\<lambda>e. w (snd e)) (map entry_of (bs_owned s))) =
        sum_list (map (\<lambda>e. w (snd e)) (eb_active (bs_budget s)))"
    by (simp only: sum_mset_sum_list)
  then show ?thesis by (simp add: weight_sum_def comp_def)
qed

section \<open>Properties\<close>

text \<open>C16. However reservations and releases are interleaved, the budget is never oversold: in
every reachable state the self-check passes, the snapshot succeeds, and the threads it reports
as reserved are exactly the framework threads and those of all reservations still owned by
somebody, never more than the maximum, so that the subtraction in \<open>available_threads\<close> does not
wrap and the number of active reservations is the number of owned ones.\<close>

theorem executor_budget_never_oversold:
  assumes "budget_init s" and "budget_step\<^sup>*\<^sup>* s t"
  shows "budget_validate_state (bs_budget t) = Inr () \<and>
    (\<exists>snap. budget_snapshot (bs_budget t) = Inr snap \<and>
       unat (reserved_threads snap) = unat (eb_framework_threads (bs_budget t)) +
         (\<Sum>r \<leftarrow> bs_owned t. unat (er_managed_workers r) + unat (er_native_threads r)) \<and>
       unat (reserved_threads snap) + unat (available_threads snap) = unat (eb_maximum_threads (bs_budget t)) \<and>
       unat (es_active_reservations snap) = length (bs_owned t))"
proof -
  let ?b = "bs_budget t"
  have sinv: "budget_sys_inv t" by (rule budget_machine.reachable_inv [OF assms])
  then have inv: "budget_inv ?b" by (simp add: budget_sys_inv_def)
  obtain k where snap: "budget_snapshot ?b = Inr \<lparr>es_maximum_threads = eb_maximum_threads ?b,
      es_framework_threads = eb_framework_threads ?b, es_managed_workers = eb_managed_workers ?b,
      es_native_threads = eb_native_threads ?b, es_active_reservations = k\<rparr>" (is "_ = Inr ?snap")
    and k: "unat k = length (eb_active ?b)"
    by (rule snapshot_inv [OF inv])
  have count: "length (eb_active ?b) = length (bs_owned t)"
    using sinv mset_eq_length [of "map entry_of (bs_owned t)" "eb_active ?b"] by (simp add: budget_sys_inv_def)
  have sum: "unat (eb_managed_workers ?b) + unat (eb_native_threads ?b) =
      (\<Sum>r \<leftarrow> bs_owned t. unat (er_managed_workers r) + unat (er_native_threads r))"
    using inv owned_weight [OF sinv, of "\<lambda>r. unat (rr_managed_workers r)"]
      owned_weight [OF sinv, of "\<lambda>r. unat (rr_native_threads r)"]
    by (simp add: budget_inv_def sum_list_addf)
  obtain total where total: "checked_add3 (eb_framework_threads ?b) (eb_managed_workers ?b)
      (eb_native_threads ?b) = Some total"
    using inv_counts [OF inv] unat_u32_bound [of "eb_maximum_threads ?b"]
    by (cases "checked_add3 (eb_framework_threads ?b) (eb_managed_workers ?b) (eb_native_threads ?b)")
       (auto simp: checked_add3_eq_None)
  then have "reserved_threads ?snap = total"
    by (auto simp: checked_add3_def checked_add_def reserved_threads_def split: Option.bind_splits if_splits)
  with total have reserved: "unat (reserved_threads ?snap) = unat (eb_framework_threads ?b) +
      unat (eb_managed_workers ?b) + unat (eb_native_threads ?b)"
    by (simp add: checked_add3_eq_Some)
  then have "reserved_threads ?snap \<le> eb_maximum_threads ?b"
    using inv_counts [OF inv] by (simp add: word_le_nat_alt)
  then have "unat (available_threads ?snap) = unat (eb_maximum_threads ?b) - unat (reserved_threads ?snap)"
    by (simp add: available_threads_def unat_sub word_le_nat_alt)
  with snap k count sum reserved inv_counts [OF inv] budget_inv_valid [OF inv] show ?thesis
    by (intro conjI exI [of _ ?snap]) simp_all
qed

text \<open>A budget of four threads, one of them for the framework, and one reservation of it.\<close>

definition demo_budget :: ExecutorBudget where
  "demo_budget = projr (budget_try_new 0 4 1)"

definition demo_reservation :: ExecutorReservation where
  "demo_reservation = \<lparr>er_marker = 0, er_reservation_id = 1, er_managed_workers = 2,
     er_native_threads = 1, er_active = True\<rparr>"

definition demo_joined :: "usize \<Rightarrow> ThreadDomainJoinProof" where
  "demo_joined joined = \<lparr>jp_kind = CompleteShutdown, jp_reservation = Some demo_reservation,
     jp_started_workers = 2, jp_joined_workers = joined, jp_native_threads_released = True\<rparr>"

lemma demo_budget_eq: "demo_budget =
   \<lparr>eb_marker = 0, eb_maximum_threads = 4, eb_framework_threads = 1, eb_managed_workers = 0,
    eb_native_threads = 0, eb_next_reservation_id = 0, eb_active = []\<rparr>"
  by (simp add: demo_budget_def budget_try_new_def)

lemma demo_reserve: "budget_try_reserve 2 1 demo_budget = (Inr demo_reservation, reserved 1 2 1 demo_budget)"
proof -
  have "budget_inv demo_budget" using budget_try_new_inv [of 0 4 1 demo_budget]
    by (simp add: demo_budget_def budget_try_new_def)
  then show ?thesis
    using try_reserve_success [of demo_budget 2 1]
    by (simp add: demo_budget_eq reserve_fits_def demo_reservation_def)
qed

lemma demo_budget_init: "budget_init \<lparr>bs_budget = demo_budget, bs_owned = []\<rparr>"
proof -
  have "budget_try_new 0 4 1 = Inr demo_budget" by (simp add: demo_budget_def budget_try_new_def)
  then show ?thesis unfolding budget_init_def by auto
qed

lemma demo_budget_run:
  "budget_step\<^sup>*\<^sup>* \<lparr>bs_budget = demo_budget, bs_owned = []\<rparr>
     \<lparr>bs_budget = reserved 1 2 1 demo_budget, bs_owned = [demo_reservation]\<rparr>"
  using budget_step.step_reserve [of 2 1 "\<lparr>bs_budget = demo_budget, bs_owned = []\<rparr>"] demo_reserve by force

theorem executor_budget_never_oversold_witness:
  "\<exists>snap. budget_snapshot (reserved 1 2 1 demo_budget) = Inr snap \<and> unat (reserved_threads snap) = 4"
  using executor_budget_never_oversold [OF demo_budget_init demo_budget_run]
  by (auto simp: demo_budget_eq demo_reservation_def reserved_def)

lemma join_proof_mismatch_iff:
  "join_proof_mismatch jp r \<longleftrightarrow>
     \<not> (jp_started_workers jp = jp_joined_workers jp \<and> unat (jp_started_workers jp) \<le> unat (er_managed_workers r) \<and>
        (jp_kind jp = CompleteShutdown \<longrightarrow> unat (jp_started_workers jp) = unat (er_managed_workers r)) \<and>
        (er_native_threads r = 0 \<or> jp_native_threads_released jp))"
proof -
  have "unat (er_managed_workers r) < 2 ^ 32" using unsigned_less [of "er_managed_workers r"] by simp
  then have "unat (ucast (er_managed_workers r) :: usize) = unat (er_managed_workers r)"
    by (simp add: unsigned_ucast_eq take_bit_nat_eq_self)
  then show ?thesis by (auto simp: join_proof_mismatch_def Let_def word_less_nat_alt unat_eq_iff)
qed

text \<open>C17. In every reachable state, an owned reservation returns its capacity exactly when its
join proof settles it: every started worker was joined, no more workers were started than reserved,
a complete shutdown joined as many as were reserved, and reserved native threads were released.
Such a proof is accepted: exactly that reservation leaves the
budget, its threads become available again, and presenting the same proof again is refused
without effect. Any other proof for it is refused and changes neither the budget nor the
proof, so a timed-out or wedged worker keeps its capacity reserved.\<close>

theorem release_needs_joined_workers:
  assumes "budget_init s" and "budget_step\<^sup>*\<^sup>* s t"
    and "r \<in> set (bs_owned t)" and "jp_reservation jp = Some r"
  shows "if jp_started_workers jp = jp_joined_workers jp \<and> unat (jp_started_workers jp) \<le> unat (er_managed_workers r) \<and>
       (jp_kind jp = CompleteShutdown \<longrightarrow> unat (jp_started_workers jp) = unat (er_managed_workers r)) \<and>
       (er_native_threads r = 0 \<or> jp_native_threads_released jp)
     then \<exists>b. budget_release jp (bs_budget t) = (Inr (), b, mark_released jp) \<and>
       budget_validate_state b = Inr () \<and>
       btree_get (eb_active b) = (btree_get (eb_active (bs_budget t)))(er_reservation_id r := None) \<and>
       unat (eb_managed_workers (bs_budget t)) = unat (eb_managed_workers b) + unat (er_managed_workers r) \<and>
       unat (eb_native_threads (bs_budget t)) = unat (eb_native_threads b) + unat (er_native_threads r) \<and>
       budget_release (mark_released jp) b = (Inl AlreadyReleased, b, mark_released jp)
     else budget_release jp (bs_budget t) = (Inl JoinProofMismatch, bs_budget t, jp)"
    (is "if ?settled then _ else _")
proof -
  have sinv: "budget_sys_inv t" by (rule budget_machine.reachable_inv [OF assms(1,2)])
  then have inv: "budget_inv (bs_budget t)" by (simp add: budget_sys_inv_def)
  note get = owned_get [OF sinv assms(3)]
  have settled: "?settled \<longleftrightarrow> \<not> join_proof_mismatch jp r" unfolding join_proof_mismatch_iff by blast
  show ?thesis
  proof (cases "join_proof_mismatch jp r")
    case True
    with get sinv assms(3,4) budget_inv_valid [OF inv]
    have "budget_release jp (bs_budget t) = (Inl JoinProofMismatch, bs_budget t, jp)"
      by (simp add: budget_release_def budget_sys_inv_def)
    with True show ?thesis unfolding settled by simp
  next
    case False
    note ok = owned_settles [OF sinv assms(3,4) False]
    have inv': "budget_inv (released r (bs_budget t))" by (rule release_success(2) [OF inv ok])
    have "btree_get (eb_active (released r (bs_budget t))) =
        (btree_get (eb_active (bs_budget t)))(er_reservation_id r := None)"
      using btree.get_remove_present [OF _ get] inv by (simp add: released_def budget_inv_def)
    moreover have "unat (eb_managed_workers (bs_budget t)) =
        unat (eb_managed_workers (released r (bs_budget t))) + unat (er_managed_workers r)"
      "unat (eb_native_threads (bs_budget t)) =
        unat (eb_native_threads (released r (bs_budget t))) + unat (er_native_threads r)"
      using released_inv(2,3) [OF inv get] by (simp_all add: checked_sub_eq_Some released_def)
    moreover have "budget_release (mark_released jp) (released r (bs_budget t)) =
        (Inl AlreadyReleased, released r (bs_budget t), mark_released jp)"
      using budget_inv_valid [OF inv'] by (simp add: budget_release_def mark_released_def)
    ultimately show ?thesis
      unfolding settled if_P [OF False] using release_success(1) [OF inv ok] budget_inv_valid [OF inv'] by blast
  qed
qed

theorem release_needs_joined_workers_witness:
  "budget_release (demo_joined 1) (reserved 1 2 1 demo_budget) =
     (Inl JoinProofMismatch, reserved 1 2 1 demo_budget, demo_joined 1) \<and>
   budget_release ((demo_joined 2)\<lparr>jp_native_threads_released := False\<rparr>) (reserved 1 2 1 demo_budget) =
     (Inl JoinProofMismatch, reserved 1 2 1 demo_budget, (demo_joined 2)\<lparr>jp_native_threads_released := False\<rparr>) \<and>
   (\<exists>b. budget_release (demo_joined 2) (reserved 1 2 1 demo_budget) = (Inr (), b, mark_released (demo_joined 2)))"
  using release_needs_joined_workers [OF demo_budget_init demo_budget_run, of demo_reservation "demo_joined 1"]
    release_needs_joined_workers [OF demo_budget_init demo_budget_run, of demo_reservation
      "(demo_joined 2)\<lparr>jp_native_threads_released := False\<rparr>"]
    release_needs_joined_workers [OF demo_budget_init demo_budget_run, of demo_reservation "demo_joined 2"]
  by (auto simp: demo_joined_def demo_reservation_def)

text \<open>Against the budget of a reachable state, an observed thread inventory is accepted
exactly when it has the planned framework threads, exactly the reserved managed workers, at
most the reserved native threads and no unknown thread; unused headroom never hides a thread
nobody owns.\<close>

lemma observation_accepted_iff:
  assumes "budget_init s" and "budget_step\<^sup>*\<^sup>* s t"
  shows "evaluate_observation (bs_budget t) obs = Inr () \<longleftrightarrow>
    io_framework_threads obs = eb_framework_threads (bs_budget t) \<and>
    unat (io_managed_workers obs) = (\<Sum>r \<leftarrow> bs_owned t. unat (er_managed_workers r)) \<and>
    unat (io_native_threads obs) \<le> (\<Sum>r \<leftarrow> bs_owned t. unat (er_native_threads r)) \<and>
    io_unknown_threads obs = 0"
    (is "_ \<longleftrightarrow> ?ok")
proof -
  let ?b = "bs_budget t"
  have sinv: "budget_sys_inv t" by (rule budget_machine.reachable_inv [OF assms])
  then have inv: "budget_inv ?b" by (simp add: budget_sys_inv_def)
  have sums: "(\<Sum>r \<leftarrow> bs_owned t. unat (er_managed_workers r)) = unat (eb_managed_workers ?b)"
    "(\<Sum>r \<leftarrow> bs_owned t. unat (er_native_threads r)) = unat (eb_native_threads ?b)"
    using inv owned_weight [OF sinv, of "\<lambda>r. unat (rr_managed_workers r)"]
      owned_weight [OF sinv, of "\<lambda>r. unat (rr_native_threads r)"]
    by (simp_all add: budget_inv_def)
  obtain k where snap: "budget_snapshot ?b = Inr \<lparr>es_maximum_threads = eb_maximum_threads ?b,
      es_framework_threads = eb_framework_threads ?b, es_managed_workers = eb_managed_workers ?b,
      es_native_threads = eb_native_threads ?b, es_active_reservations = k\<rparr>"
    by (rule snapshot_inv [OF inv])
  let ?sum = "Option.bind (checked_add3 (io_framework_threads obs) (io_managed_workers obs)
      (io_native_threads obs)) (\<lambda>value. checked_add value (io_unknown_threads obs))"
  have "\<exists>total. ?sum = Some total \<and> \<not> eb_maximum_threads ?b < total" if ?ok
  proof -
    from that have le: "unat (io_framework_threads obs) + unat (io_managed_workers obs) +
        unat (io_native_threads obs) \<le> unat (eb_maximum_threads ?b)"
      using inv_counts [OF inv] sums by simp
    then obtain total where "checked_add3 (io_framework_threads obs) (io_managed_workers obs)
        (io_native_threads obs) = Some total"
      using unat_u32_bound [of "eb_maximum_threads ?b"]
      by (cases "checked_add3 (io_framework_threads obs) (io_managed_workers obs) (io_native_threads obs)")
         (auto simp: checked_add3_eq_None)
    moreover from this le have "\<not> eb_maximum_threads ?b < total"
      by (simp add: checked_add3_eq_Some word_less_nat_alt)
    moreover have "checked_add total 0 = Some total" by (simp add: checked_add_eq_Some)
    ultimately show ?thesis using that by simp
  qed
  with snap sums show ?thesis
    by (auto simp: evaluate_observation_def res_simps word_nat not_less unat_eq_iff split: if_splits)
qed

end
