(* ===== verification/Mailbox_Inv.thy ===== *)
theory Mailbox_Inv
  imports Mailbox_Ops State_Machine
begin

text \<open>
  The mailbox seen without indices, and its validity: the removal loop and the index lists are
  filters of the queue, \<open>validate_state\<close> accepts exactly the mailboxes that satisfy
  \<open>mailbox_ok\<close>, and the counters count.
\<close>

section \<open>Sublists selected by index\<close>

lemma filter_enumerate_nths:
  "map snd (filter (\<lambda>(i, x). i \<in> A) (enumerate n xs)) = nths xs {i. i + n \<in> A}"
proof (induction xs arbitrary: n)
  case (Cons x xs)
  from Cons [of "Suc n"] show ?case by (simp add: nths_Cons)
qed simp

lemma map_filter_enumerate:
  "map (\<lambda>(i, x). f x) (filter (\<lambda>(i, x). i \<in> A) (enumerate 0 xs)) = map f (nths xs A)"
  using arg_cong [OF filter_enumerate_nths [of A 0 xs], of "map f"]
  by (simp add: comp_def case_prod_unfold)

lemma remove_loop_nths:
  "remove_loop (length q) k idx (q @ r) = r @ nths q {i. i + k \<notin> set idx}"
proof (induction q arbitrary: k r)
  case (Cons x q)
  from Cons [of "k + 1" r] Cons [of "k + 1" "r @ [x]"] show ?case
    by (simp add: nths_Cons)
qed simp

lemma remove_loop_eq: "remove_loop (length q) 0 idx q = nths q (- set idx)"
  using remove_loop_nths [of q 0 idx "[]"] by (simp add: Compl_eq)

lemma sum_nths_split:
  "sum_list (map f (nths xs A)) + sum_list (map f (nths xs (- A))) = (sum_list (map f xs) :: nat)"
proof (induction xs arbitrary: A)
  case (Cons x xs)
  from Cons [of "{j. Suc j \<in> A}"] show ?case
    by (simp add: nths_Cons Compl_eq)
qed simp

lemma length_nths_split: "length (nths xs A) + length (nths xs (- A)) = length xs"
  using sum_nths_split [of "\<lambda>_. 1" xs A] by (simp add: sum_list_triv)

lemma length_nths_distinct:
  assumes "distinct is" and "set is \<subseteq> {..<length xs}"
  shows "length (nths xs (set is)) = length is"
proof -
  have "{i. i < length xs \<and> i \<in> set is} = set is" using assms(2) by auto
  then show ?thesis using distinct_card [OF assms(1)] by (simp add: length_nths)
qed

lemma nths_filter_index:
  "nths xs {i. i < length xs \<and> P (xs ! i)} = filter P xs"
proof (induction xs)
  case (Cons x xs)
  then show ?case by (simp add: nths_Cons)
qed simp

lemma nths_Compl_filter_index:
  "nths xs (- {i. i < length xs \<and> P (xs ! i)}) = filter (\<lambda>x. \<not> P x) xs"
proof -
  have "nths xs (- {i. i < length xs \<and> P (xs ! i)}) = nths xs {i. i < length xs \<and> \<not> P (xs ! i)}"
    unfolding nths_def by (intro arg_cong [where f = "map fst"] filter_cong) (auto dest: set_zip_rightD)
  with nths_filter_index [of xs "\<lambda>x. \<not> P x"] show ?thesis by simp
qed

section \<open>Expiry\<close>

text \<open>On the mailbox's clock an item expires at the earliest of its three deadlines.\<close>

definition item_expiry :: "ClockReading \<Rightarrow> QueuedMessage \<Rightarrow> TerminalReason option" where
  "item_expiry r item =
     (let run = dl_deadline (vm_run_deadline (qm_message item));
          fresh = dl_deadline (vm_fresh_until (qm_message item));
          age = dl_deadline (qm_queue_age_deadline item) in
      if min run (min fresh age) \<le> rd_now r
      then Some (if run \<le> fresh \<and> run \<le> age then RunDeadlineExpired
                 else if fresh \<le> age then StaleBeforeRun else QueueAgeExpired)
      else None)"

lemma ensure_reading_ok [res_simps]:
  "ensure_reading m r = Inr u \<longleftrightarrow>
     rd_domain r = mb_clock_domain m \<and> rd_generation r = mb_clock_generation m"
  by (auto simp: ensure_reading_def)

lemma expiration_reason_on_clock:
  assumes "ensure_reading m r = Inr ()" and "item_on_clock m item"
  shows "expiration_reason item r = Inr (item_expiry r item)"
  using assms
  by (auto simp: expiration_reason_def item_expiry_def Let_def item_on_clock_def is_expired_at_same_clock
      same_clock_def res_simps min_def)

definition expired_pairs :: "ClockReading \<Rightarrow> nat \<Rightarrow> QueuedMessage list \<Rightarrow> (nat \<times> TerminalReason) list" where
  "expired_pairs r k q =
     map (\<lambda>(i, item). (i, the (item_expiry r item)))
       (filter (\<lambda>(i, item). item_expiry r item \<noteq> None) (enumerate k q))"

lemma expired_from_on_clock:
  assumes "ensure_reading m r = Inr ()" and "list_all (item_on_clock m) q"
  shows "expired_from r k q = Inr (expired_pairs r k q)"
  using assms(2)
proof (induction q arbitrary: k)
  case (Cons item q)
  then show ?case
    by (auto simp: expiration_reason_on_clock [OF assms(1)] expired_pairs_def split: option.splits)
qed (simp add: expired_pairs_def)

lemma expired_pairs_indices:
  "map fst (expired_pairs r k q) = filter (\<lambda>i. item_expiry r (q ! (i - k)) \<noteq> None) [k..<k + length q]"
proof (induction q arbitrary: k)
  case (Cons item q)
  have "filter (\<lambda>i. item_expiry r ((item # q) ! (i - k)) \<noteq> None) [Suc k..<Suc k + length q] =
        filter (\<lambda>i. item_expiry r (q ! (i - Suc k)) \<noteq> None) [Suc k..<Suc k + length q]"
  proof (rule filter_cong)
    fix i assume "i \<in> set [Suc k..<Suc k + length q]"
    then have "i - k = Suc (i - Suc k)" by auto
    then show "(item_expiry r ((item # q) ! (i - k)) \<noteq> None) = (item_expiry r (q ! (i - Suc k)) \<noteq> None)" by simp
  qed simp
  moreover have "[k..<k + length (item # q)] = k # [Suc k..<Suc k + length q]"
    by (simp add: upt_conv_Cons del: upt_Suc)
  ultimately show ?case
    using Cons [of "Suc k"] by (simp add: expired_pairs_def del: upt_Suc)
qed (simp add: expired_pairs_def)

lemma expired_pairs_records:
  "map (\<lambda>(i, reason). f (q ! (i - k)) reason) (expired_pairs r k q) =
     map (\<lambda>item. f item (the (item_expiry r item))) (filter (\<lambda>item. item_expiry r item \<noteq> None) q)"
proof (induction q arbitrary: k)
  case (Cons item q)
  have "map (\<lambda>(i, reason). f ((item # q) ! (i - k)) reason) (expired_pairs r (Suc k) q) =
        map (\<lambda>(i, reason). f (q ! (i - Suc k)) reason) (expired_pairs r (Suc k) q)"
  proof (rule map_cong [OF refl])
    fix e assume "e \<in> set (expired_pairs r (Suc k) q)"
    then have "fst e \<in> set (map fst (expired_pairs r (Suc k) q))" by force
    then have "fst e - k = Suc (fst e - Suc k)" by (auto simp: expired_pairs_indices)
    then show "(case e of (i, reason) \<Rightarrow> f ((item # q) ! (i - k)) reason) =
        (case e of (i, reason) \<Rightarrow> f (q ! (i - Suc k)) reason)"
      by (cases e) simp
  qed
  with Cons [of "Suc k"] show ?case by (simp add: expired_pairs_def)
qed (simp add: expired_pairs_def)

section \<open>Validity\<close>

abbreviation charge :: "QueuedMessage \<Rightarrow> nat" where
  "charge item \<equiv> unat (ph_charged_bytes (vm_payload (qm_message item)))"

abbreviation queue_ids :: "QueuedMessage list \<Rightarrow> MessageId list" where
  "queue_ids q \<equiv> map (\<lambda>item. vm_id (qm_message item)) q"

abbreviation queue_bytes :: "QueuedMessage list \<Rightarrow> nat" where
  "queue_bytes q \<equiv> sum_list (map charge q)"

abbreviation inflight_weight :: "(MessageId, InflightAccounting) btree_map \<Rightarrow> nat" where
  "inflight_weight f \<equiv> weight_sum (\<lambda>a. unat (ia_payload_bytes a)) f"

definition terminal_count :: "TerminalCounters \<Rightarrow> nat" where
  "terminal_count c = unat (tc_completed c) + unat (tc_failed c) + unat (tc_cancelled c) +
     unat (tc_expired_after_admission c) + unat (tc_stale_before_run c) +
     unat (tc_run_deadline_expired c) + unat (tc_queue_age_expired c) + unat (tc_evicted c) +
     unat (tc_coalesced c) + unat (tc_uncertain c)"

definition offers_ok :: "OfferCounters \<Rightarrow> bool" where
  "offers_ok c \<longleftrightarrow> unat (oc_offered c) = unat (oc_admitted c) + unat (oc_rejected c) +
     unat (oc_closed c) + unat (oc_expired_before_admission c)"

definition mailbox_ok :: "Mailbox \<Rightarrow> bool" where
  "mailbox_ok m \<longleftrightarrow>
     offers_ok (mb_offers m) \<and>
     length (mb_queue m) \<le> unat (ml_capacity_items (mb_limits m)) \<and>
     length (mb_inflight m) \<le> unat (ml_max_inflight (mb_limits m)) \<and>
     unat (mb_queued_bytes m) = queue_bytes (mb_queue m) \<and>
     unat (mb_inflight_bytes m) = inflight_weight (mb_inflight m) \<and>
     queue_bytes (mb_queue m) \<le> unat (ml_capacity_bytes (mb_limits m)) \<and>
     queue_bytes (mb_queue m) + inflight_weight (mb_inflight m)
       \<le> unat (ml_max_retained_bytes (mb_limits m)) \<and>
     list_all (item_on_clock m) (mb_queue m) \<and>
     distinct (queue_ids (mb_queue m) @ map fst (mb_inflight m)) \<and>
     unat (oc_admitted (mb_offers m)) =
       length (mb_queue m) + length (mb_inflight m) + terminal_count (mb_terminals m) \<and>
     (mb_lifecycle m = Closed \<longrightarrow> mb_queue m = [] \<and> mb_inflight m = [])"

lemma item_on_clock_update [simp]:
  "item_on_clock (m\<lparr>mb_queue := q\<rparr>) = item_on_clock m"
  "item_on_clock (m\<lparr>mb_queued_bytes := b\<rparr>) = item_on_clock m"
  "item_on_clock (m\<lparr>mb_inflight := f\<rparr>) = item_on_clock m"
  "item_on_clock (m\<lparr>mb_inflight_bytes := b\<rparr>) = item_on_clock m"
  "item_on_clock (m\<lparr>mb_next_token_generation := g\<rparr>) = item_on_clock m"
  "item_on_clock (m\<lparr>mb_offers := c\<rparr>) = item_on_clock m"
  "item_on_clock (m\<lparr>mb_terminals := t\<rparr>) = item_on_clock m"
  "item_on_clock (m\<lparr>mb_lifecycle := l\<rparr>) = item_on_clock m"
  by (simp_all add: item_on_clock_def fun_eq_iff)

lemma offers_validate_ok: "offers_validate c = Inr u \<longleftrightarrow> offers_ok c"
  unfolding offers_validate_def offers_ok_def and_then_eq_Inr ok_or_eq_Inr guard_eq_Inr try_sum_eq_Some
  by (auto simp: unat_eq_iff intro: exI [of _ "oc_offered c"])

lemma terminals_total_ok: "terminals_total c = Inr t \<longleftrightarrow> unat t = terminal_count c"
  unfolding terminals_total_def ok_or_eq_Inr try_sum_eq_Some terminal_count_def by (simp add: add.assoc)

lemma collect_queued_ok:
  "collect_queued m A q = Inr s \<longleftrightarrow>
     list_all (item_on_clock m) q \<and> distinct (queue_ids q) \<and> set (queue_ids q) \<inter> A = {} \<and>
     s = A \<union> set (queue_ids q)"
  by (induction q arbitrary: A) auto

lemma collect_inflight_ok:
  "collect_inflight A ks = Inr s \<longleftrightarrow> distinct ks \<and> set ks \<inter> A = {} \<and> s = A \<union> set ks"
  by (induction ks arbitrary: A) auto

lemma unat_ucast_u32: "unat (ucast (x :: u32) :: u64) = unat x"
  by (simp add: unsigned_ucast_eq take_bit_nat_eq_self order_less_trans [OF unat_u32_bound])

lemma try_u32: "n \<le> unat (w :: u32) \<Longrightarrow> \<exists>v :: u32. try_of_nat n = Some v \<and> unat v = n"
  using unat_u32_bound [of w] by (simp add: try_of_nat_def unat_of_nat)

lemma try_u64: "n < 2 ^ 64 \<Longrightarrow> \<exists>v :: u64. unat v = n"
  by (intro exI [of _ "of_nat n"]) (simp add: unat_of_nat)

lemma validate_state_sound: "validate_state m = Inr u \<Longrightarrow> mailbox_ok m"
proof -
  assume "validate_state m = Inr u"
  then obtain qi ii :: u32 and rq ri ret ac t aa :: u64 and s s' v where
    "offers_validate (mb_offers m) = Inr v" and
    counts: "try_of_nat (length (mb_queue m)) = Some qi" "try_of_nat (length (mb_inflight m)) = Some ii" and
    limits: "\<not> (qi > ml_capacity_items (mb_limits m) \<or> ii > ml_max_inflight (mb_limits m)
        \<or> mb_queued_bytes m > ml_capacity_bytes (mb_limits m))" and
    bytes: "try_sum 0 (map (\<lambda>item. ph_charged_bytes (vm_payload (qm_message item))) (mb_queue m)) = Some rq"
      "try_sum 0 (map ia_payload_bytes (btree_values (mb_inflight m))) = Some ri"
      "\<not> (rq \<noteq> mb_queued_bytes m \<or> ri \<noteq> mb_inflight_bytes m)" and
    ret: "checked_add (mb_queued_bytes m) (mb_inflight_bytes m) = Some ret"
      "\<not> ret > ml_max_retained_bytes (mb_limits m)" and
    active: "collect_queued m {} (mb_queue m) = Inr s" "collect_inflight s (map fst (mb_inflight m)) = Inr s'" and
    acc: "checked_add (ucast qi :: u64) (ucast ii) = Some ac" "terminals_total (mb_terminals m) = Inr t"
      "checked_add ac t = Some aa" "\<not> aa \<noteq> oc_admitted (mb_offers m)" "\<not> (mb_lifecycle m = Closed \<and> ac \<noteq> 0)"
    unfolding validate_state_def and_then_eq_Inr guard_eq_Inr ok_or_eq_Inr by blast
  from counts have n: "unat qi = length (mb_queue m)" "unat ii = length (mb_inflight m)"
    by (simp_all add: try_of_nat_eq_Some)
  from bytes have b: "unat (mb_queued_bytes m) = queue_bytes (mb_queue m)"
    "unat (mb_inflight_bytes m) = inflight_weight (mb_inflight m)"
    by (simp_all add: try_sum_eq_Some weight_sum_def comp_def)
  from acc(1) n have ac: "unat ac = length (mb_queue m) + length (mb_inflight m)"
    by (simp add: checked_add_eq_Some unat_ucast_u32)
  have "mb_lifecycle m = Closed \<longrightarrow> mb_queue m = [] \<and> mb_inflight m = []"
    using acc(5) ac by (auto simp: unat_eq_0)
  with \<open>offers_validate _ = _\<close> limits ret active acc n b ac show "mailbox_ok m"
    unfolding mailbox_ok_def
    by (auto simp: offers_validate_ok word_nat not_less checked_add_eq_Some collect_queued_ok
        collect_inflight_ok terminals_total_ok)
qed

lemma validate_state_complete: "mailbox_ok m \<Longrightarrow> validate_state m = Inr ()"
proof -
  assume ok: "mailbox_ok m"
  obtain qi :: u32 where qi: "try_of_nat (length (mb_queue m)) = Some qi" "unat qi = length (mb_queue m)"
    using ok try_u32 unfolding mailbox_ok_def by blast
  obtain ii :: u32 where ii: "try_of_nat (length (mb_inflight m)) = Some ii" "unat ii = length (mb_inflight m)"
    using ok try_u32 unfolding mailbox_ok_def by blast
  have limits: "\<not> (qi > ml_capacity_items (mb_limits m) \<or> ii > ml_max_inflight (mb_limits m)
        \<or> mb_queued_bytes m > ml_capacity_bytes (mb_limits m))"
    using ok qi ii by (simp add: mailbox_ok_def word_nat not_less)
  have bytes: "try_sum 0 (map (\<lambda>item. ph_charged_bytes (vm_payload (qm_message item))) (mb_queue m)) = Some (mb_queued_bytes m)"
      "try_sum 0 (map ia_payload_bytes (btree_values (mb_inflight m))) = Some (mb_inflight_bytes m)"
    using ok by (simp_all add: mailbox_ok_def try_sum_eq_Some weight_sum_def comp_def)
  obtain ret where ret: "checked_add (mb_queued_bytes m) (mb_inflight_bytes m) = Some ret"
      "\<not> ret > ml_max_retained_bytes (mb_limits m)"
    using ok unat_u64_bound [of "ml_max_retained_bytes (mb_limits m)"]
      checked_add_fits [of "mb_queued_bytes m" "mb_inflight_bytes m"]
    by (simp add: mailbox_ok_def) (auto simp: checked_add_eq_Some word_nat)
  have active: "collect_queued m {} (mb_queue m) = Inr (set (queue_ids (mb_queue m)))"
      "collect_inflight (set (queue_ids (mb_queue m))) (map fst (mb_inflight m)) =
         Inr (set (queue_ids (mb_queue m)) \<union> set (map fst (mb_inflight m)))"
    using ok by (auto simp: mailbox_ok_def collect_queued_ok collect_inflight_ok)
  have sum: "length (mb_queue m) + length (mb_inflight m) + terminal_count (mb_terminals m) < 2 ^ 64"
    using ok unat_u64_bound [of "oc_admitted (mb_offers m)"] by (simp add: mailbox_ok_def)
  then obtain ac t :: u64 where ac: "unat ac = length (mb_queue m) + length (mb_inflight m)"
      and t: "unat t = terminal_count (mb_terminals m)"
    using try_u64 [of "length (mb_queue m) + length (mb_inflight m)"] try_u64 [of "terminal_count (mb_terminals m)"]
    by auto
  have acc: "checked_add (ucast qi :: u64) (ucast ii) = Some ac" "terminals_total (mb_terminals m) = Inr t"
      "checked_add ac t = Some (oc_admitted (mb_offers m))" "\<not> (mb_lifecycle m = Closed \<and> ac \<noteq> 0)"
    using ok ac t qi ii
    by (auto simp: checked_add_eq_Some unat_ucast_u32 terminals_total_ok mailbox_ok_def unat_eq_iff)
  have "offers_validate (mb_offers m) = Inr ()" using ok by (simp add: mailbox_ok_def offers_validate_ok)
  with qi ii limits bytes ret active acc show ?thesis
    unfolding validate_state_def by simp
qed

lemma validate_state_ok [res_simps]: "validate_state m = Inr u \<longleftrightarrow> mailbox_ok m"
  using validate_state_sound validate_state_complete by auto

section \<open>Counters\<close>

lemma checked_terminal_ok:
  assumes "checked_terminal cat c = Inr c'" and "offers_ok c"
  shows "offers_ok c'" and "unat (oc_admitted c') = unat (oc_admitted c) + (if cat = CatAdmitted then 1 else 0)"
    and "unat (oc_offered c') = unat (oc_offered c) + 1"
  using assms
  by (cases cat; auto simp: checked_terminal_def offers_ok_def Let_def and_then_eq_Inr ok_or_eq_Inr
      checked_add_eq_Some)+

lemma set_counter_count:
  "unat n = unat (counter_of reason c) + 1 \<Longrightarrow> terminal_count (set_counter reason n c) = terminal_count c + 1"
  by (cases reason) (simp_all add: terminal_count_def)

lemma checked_increment_count:
  "checked_increment reason c = Inr c' \<Longrightarrow> terminal_count c' = terminal_count c + 1"
  by (auto simp: checked_increment_def and_then_eq_Inr ok_or_eq_Inr checked_add_eq_Some set_counter_count)

lemma checked_increment_records_count:
  "checked_increment_records rs c = Inr c' \<Longrightarrow> terminal_count c' = terminal_count c + length rs"
  by (induction rs arbitrary: c) (auto simp: and_then_eq_Inr dest: checked_increment_count)

lemma increment_error:
  "checked_increment_records rs c = Inl e \<Longrightarrow> e = CounterOverflow"
  by (induction rs arbitrary: c)
     (auto simp: and_then_eq_Inl checked_increment_def ok_or_eq_Inl)

lemma terminal_error: "checked_terminal cat c = Inl e \<Longrightarrow> e = CounterOverflow"
  by (cases cat) (auto simp: checked_terminal_def Let_def and_then_eq_Inl ok_or_eq_Inl)

section \<open>Index lists as filters\<close>

text \<open>Facts about a valid mailbox read on its own clock.\<close>

definition expired_at :: "ClockReading \<Rightarrow> Mailbox \<Rightarrow> QueuedMessage list" where
  "expired_at r m = filter (\<lambda>item. item_expiry r item \<noteq> None) (mb_queue m)"

definition live_at :: "ClockReading \<Rightarrow> Mailbox \<Rightarrow> QueuedMessage list" where
  "live_at r m = filter (\<lambda>item. item_expiry r item = None) (mb_queue m)"

definition expiry_records :: "ClockReading \<Rightarrow> Mailbox \<Rightarrow> TerminalRecord list" where
  "expiry_records r m = map (\<lambda>item. terminal_record item (the (item_expiry r item))) (expired_at r m)"

definition expired_set :: "ClockReading \<Rightarrow> Mailbox \<Rightarrow> nat set" where
  "expired_set r m = {i. i < length (mb_queue m) \<and> item_expiry r (mb_queue m ! i) \<noteq> None}"

lemma bytes_for_indices_ok:
  "bytes_for_indices m idx = Inr b \<longleftrightarrow> unat b = queue_bytes (nths (mb_queue m) (set idx))"
proof -
  show ?thesis
    unfolding bytes_for_indices_def map_filter_enumerate
    by (simp add: ok_or_eq_Inr try_sum_eq_Some comp_def)
qed

lemma records_for_indices_eq:
  "records_for_indices m idx reason = map (\<lambda>item. terminal_record item reason) (nths (mb_queue m) (set idx))"
  unfolding records_for_indices_def map_filter_enumerate ..

lemma remove_queue_indices_eq:
  "remove_queue_indices idx m = m\<lparr>mb_queue := nths (mb_queue m) (- set idx)\<rparr>"
  by (simp add: remove_queue_indices_def remove_loop_eq)

lemma expired_items_ok:
  assumes "mailbox_ok m" and "ensure_reading m r = Inr ()" and "expired_items m r = Inr items"
  shows "set (indices_for_expired_items items) = expired_set r m"
    and "distinct (indices_for_expired_items items)"
    and "records_for_expired_items m items = expiry_records r m"
proof -
  have items: "items = expired_pairs r 0 (mb_queue m)"
    using assms expired_from_on_clock [OF assms(2)] by (simp add: expired_items_def mailbox_ok_def)
  show "set (indices_for_expired_items items) = expired_set r m"
    and "distinct (indices_for_expired_items items)"
    by (auto simp: indices_for_expired_items_def items expired_pairs_indices expired_set_def)
  show "records_for_expired_items m items = expiry_records r m"
    using expired_pairs_records [of terminal_record "mb_queue m" 0 r]
    by (simp add: records_for_expired_items_def items expiry_records_def expired_at_def)
qed

lemma expired_items_total:
  "mailbox_ok m \<Longrightarrow> ensure_reading m r = Inr () \<Longrightarrow> \<exists>items. expired_items m r = Inr items"
  using expired_from_on_clock by (auto simp: expired_items_def mailbox_ok_def)

lemma nths_expired_set [simp]:
  "nths (mb_queue m) (expired_set r m) = expired_at r m"
  "nths (mb_queue m) (- expired_set r m) = live_at r m"
  using nths_filter_index [of "mb_queue m" "\<lambda>x. item_expiry r x \<noteq> None"]
    nths_Compl_filter_index [of "mb_queue m" "\<lambda>x. item_expiry r x \<noteq> None"]
  by (simp_all add: expired_set_def expired_at_def live_at_def)

end
