(* ===== verification/Mailbox.thy ===== *)
theory Mailbox
  imports Mailbox_Inv
begin

text \<open>
  What the operations of the mailbox guarantee: every operation keeps the mailbox valid and
  leaves it unchanged when it fails, messages are neither lost nor counted twice, dispatch is
  first in, first out, pressure policies displace only what they announce, and a drained
  mailbox stays closed.
\<close>

section \<open>The invariant\<close>

definition mailbox_inv :: "Mailbox \<Rightarrow> bool" where
  "mailbox_inv m \<longleftrightarrow> mailbox_ok m \<and> btree_ok (mb_inflight m) \<and>
     (\<forall>(k, a) \<in> set (mb_inflight m). ia_token_generation a \<le> mb_next_token_generation m)"

lemma inv_valid [simp]: "mailbox_inv m \<Longrightarrow> validate_state m = Inr ()"
  by (simp add: mailbox_inv_def res_simps)

lemma mailbox_try_new_inv: "mailbox_try_new_with_class r s i c sp d g = Inr m \<Longrightarrow> mailbox_inv m"
  by (auto simp: mailbox_try_new_with_class_def Let_def mailbox_inv_def mailbox_ok_def offers_ok_def
      terminal_count_def split: if_splits)

text \<open>Removing items from the queue and counting them as terminals.\<close>

lemma shrink_inv:
  assumes inv: "mailbox_inv m"
    and bytes: "unat b = queue_bytes (nths (mb_queue m) (- A))"
    and count: "terminal_count t = terminal_count (mb_terminals m) + length (nths (mb_queue m) A)"
  shows "mailbox_inv (m\<lparr>mb_queue := nths (mb_queue m) (- A), mb_queued_bytes := b, mb_terminals := t\<rparr>)"
proof -
  let ?kept = "nths (mb_queue m) (- A)"
  have ok: "mailbox_ok m" using inv by (simp add: mailbox_inv_def)
  have len: "length (nths (mb_queue m) A) + length ?kept = length (mb_queue m)"
    by (rule length_nths_split)
  have sum: "queue_bytes (nths (mb_queue m) A) + queue_bytes ?kept = queue_bytes (mb_queue m)"
    by (rule sum_nths_split)
  have sub: "set ?kept \<subseteq> set (mb_queue m)" by (rule set_nths_subset)
  have ids: "distinct (queue_ids ?kept @ map fst (mb_inflight m))"
  proof -
    have "queue_ids ?kept = nths (queue_ids (mb_queue m)) (- A)" by (simp add: nths_map)
    then have "distinct (queue_ids ?kept)" using ok by (simp add: mailbox_ok_def distinct_nthsI)
    moreover have "set (queue_ids ?kept) \<inter> set (map fst (mb_inflight m)) = {}"
      using ok sub image_mono [OF sub, of "\<lambda>item. vm_id (qm_message item)"] by (auto simp: mailbox_ok_def)
    ultimately show ?thesis using ok by (simp add: mailbox_ok_def)
  qed
  have clock: "list_all (item_on_clock m) ?kept" using ok sub by (auto simp: mailbox_ok_def list_all_iff)
  show ?thesis
    using inv ok len sum ids clock bytes count
    by (auto simp: mailbox_inv_def mailbox_ok_def)
qed

lemma offers_inv:
  assumes "mailbox_inv m" and "checked_terminal cat (mb_offers m) = Inr o'" and "cat \<noteq> CatAdmitted"
  shows "mailbox_inv (m\<lparr>mb_offers := o'\<rparr>)"
  using assms checked_terminal_ok [OF assms(2)]
  by (auto simp: mailbox_inv_def mailbox_ok_def)

lemma close_inv: "mailbox_inv m \<Longrightarrow> mailbox_inv (close_if_drained_internal m)"
  by (auto simp: close_if_drained_internal_def mailbox_inv_def mailbox_ok_def)

lemma bytes_kept:
  assumes "mailbox_inv m" and "bytes_for_indices m idx = Inr removed"
    and "checked_sub (mb_queued_bytes m) removed = Some b"
  shows "unat b = queue_bytes (nths (mb_queue m) (- set idx))"
  using assms sum_nths_split [of charge "mb_queue m" "set idx"]
  by (simp add: mailbox_inv_def mailbox_ok_def bytes_for_indices_ok checked_sub_eq_Some)

lemma removal_total:
  assumes "mailbox_inv m"
  shows "\<exists>removed b. bytes_for_indices m idx = Inr removed \<and> checked_sub (mb_queued_bytes m) removed = Some b"
proof -
  have le: "queue_bytes (nths (mb_queue m) (set idx)) \<le> unat (mb_queued_bytes m)"
    using assms sum_nths_split [of charge "mb_queue m" "set idx"] by (simp add: mailbox_inv_def mailbox_ok_def)
  then obtain removed :: u64 where "unat removed = queue_bytes (nths (mb_queue m) (set idx))"
    using try_u64 unat_u64_bound [of "mb_queued_bytes m"] by fastforce
  with le show ?thesis
    by (intro exI [of _ removed] exI [of _ "mb_queued_bytes m - removed"])
       (simp add: bytes_for_indices_ok checked_sub_def word_le_nat_alt)
qed

lemma expiry_view:
  assumes inv: "mailbox_inv m" and reading: "ensure_reading m r = Inr ()"
  obtains items removed b where "expired_items m r = Inr items"
    "bytes_for_indices m (indices_for_expired_items items) = Inr removed"
    "checked_sub (mb_queued_bytes m) removed = Some b" "unat b = queue_bytes (live_at r m)"
    "set (indices_for_expired_items items) = expired_set r m"
    "records_for_expired_items m items = expiry_records r m"
    "length (indices_for_expired_items items) = length (expired_at r m)"
proof -
  have ok: "mailbox_ok m" using inv by (simp add: mailbox_inv_def)
  obtain items where items: "expired_items m r = Inr items" using expired_items_total [OF ok reading] by blast
  note view = expired_items_ok [OF ok reading items]
  obtain removed b where rem: "bytes_for_indices m (indices_for_expired_items items) = Inr removed"
    "checked_sub (mb_queued_bytes m) removed = Some b"
    using removal_total [OF inv] by blast
  have "length (nths (mb_queue m) (set (indices_for_expired_items items))) = length (indices_for_expired_items items)"
    by (rule length_nths_distinct [OF view(2)]) (auto simp: view(1) expired_set_def)
  then have "length (indices_for_expired_items items) = length (expired_at r m)" by (simp add: view(1))
  with items rem bytes_kept [OF inv rem] view show thesis by (intro that) simp_all
qed

lemma length_expired_live: "length (expired_at r m) + length (live_at r m) = length (mb_queue m)"
  using length_nths_split [of "mb_queue m" "expired_set r m"] by simp

section \<open>Expiring, cancelling and draining\<close>

lemma expire_queued_cases:
  assumes inv: "mailbox_inv m" and res: "expire_queued r m = (res, m')"
  obtains
    (fails) e where "res = Inl e" "m' = m" "e \<noteq> StateInconsistent"
  | (closed) "mb_lifecycle m = Closed" "res = Inr []" "m' = m"
  | (expired) b t where "ensure_reading m r = Inr ()" "res = Inr (expiry_records r m)"
      "checked_increment_records (expiry_records r m) (mb_terminals m) = Inr t"
      "unat b = queue_bytes (live_at r m)"
      "m' = close_if_drained_internal (m\<lparr>mb_queue := live_at r m, mb_queued_bytes := b, mb_terminals := t\<rparr>)"
proof (cases "mb_lifecycle m = Closed")
  case True
  with inv res have "res = Inr []" "m' = m" by (simp_all add: expire_queued_def)
  with True show thesis by (rule closed)
next
  case open_: False
  have ok: "mailbox_ok m" using inv by (simp add: mailbox_inv_def)
  show thesis
  proof (cases "ensure_reading m r")
    case (Inl e)
    then have "e \<noteq> StateInconsistent" by (auto simp: ensure_reading_def split: if_splits)
    moreover from Inl open_ inv res have "res = Inl e" "m' = m" by (simp_all add: expire_queued_def)
    ultimately show thesis by (intro fails)
  next
    case (Inr u)
    then have reading: "ensure_reading m r = Inr ()" by simp
    obtain items removed b where items: "expired_items m r = Inr items"
      and rem: "bytes_for_indices m (indices_for_expired_items items) = Inr removed"
        "checked_sub (mb_queued_bytes m) removed = Some b" "unat b = queue_bytes (live_at r m)"
      and view: "set (indices_for_expired_items items) = expired_set r m"
        "records_for_expired_items m items = expiry_records r m"
      by (rule expiry_view [OF inv reading])
    show thesis
    proof (cases "checked_increment_records (expiry_records r m) (mb_terminals m)")
      case (Inl e)
      then have "e \<noteq> StateInconsistent" using increment_error by blast
      moreover from Inl open_ inv res reading items view(2) have "res = Inl e" "m' = m"
        by (simp_all add: expire_queued_def Let_def)
      ultimately show thesis by (intro fails)
    next
      case (Inr t)
      from Inr open_ inv res reading items view rem
      have "res = Inr (expiry_records r m)" "m' = close_if_drained_internal
          (m\<lparr>mb_queue := live_at r m, mb_queued_bytes := b, mb_terminals := t\<rparr>)"
        by (simp_all add: expire_queued_def remove_queue_indices_eq Let_def)
      with Inr reading rem(3) show thesis by (intro expired)
    qed
  qed
qed

section \<open>Dispatching\<close>

text \<open>The mailbox after its expired items have been removed and counted.\<close>

definition settled :: "ClockReading \<Rightarrow> u64 \<Rightarrow> TerminalCounters \<Rightarrow> Mailbox \<Rightarrow> Mailbox" where
  "settled r b t m = m\<lparr>mb_queue := live_at r m, mb_queued_bytes := b, mb_terminals := t\<rparr>"

lemma settled_inv:
  assumes "mailbox_inv m" and "unat b = queue_bytes (live_at r m)"
    and "checked_increment_records (expiry_records r m) (mb_terminals m) = Inr t"
  shows "mailbox_inv (settled r b t m)"
  using shrink_inv [OF assms(1), of b "expired_set r m" t] assms(2) checked_increment_records_count [OF assms(3)]
  by (simp add: settled_def expiry_records_def)

text \<open>The mailbox after its head has moved to the in-flight cohort.\<close>

definition begun :: "QueuedMessage \<Rightarrow> QueuedMessage list \<Rightarrow> Mailbox \<Rightarrow> Mailbox" where
  "begun item rest m = m\<lparr>mb_queue := rest,
     mb_queued_bytes := mb_queued_bytes m - ph_charged_bytes (vm_payload (qm_message item)),
     mb_inflight_bytes := mb_inflight_bytes m + ph_charged_bytes (vm_payload (qm_message item)),
     mb_next_token_generation := mb_next_token_generation m + 1,
     mb_inflight := btree_insert (vm_id (qm_message item))
       \<lparr>ia_token_generation = mb_next_token_generation m + 1,
        ia_payload_bytes = ph_charged_bytes (vm_payload (qm_message item))\<rparr> (mb_inflight m)\<rparr>"

lemma start_head_ok:
  assumes inv: "mailbox_inv m" and head: "mb_queue m = item # rest"
    and gen: "mb_next_token_generation m \<noteq> - 1"
    and room: "length (mb_inflight m) < unat (ml_max_inflight (mb_limits m))"
  shows "start_head (mb_next_token_generation m + 1) recs m =
      (Inr \<lparr>dr_outcome = Started \<lparr>it_mailbox = mb_reference m,
              it_token_generation = mb_next_token_generation m + 1, it_message = qm_message item\<rparr>,
            dr_expired = recs\<rparr>, begun item rest m)"
    and "mailbox_inv (begun item rest m)"
proof -
  let ?c = "ph_charged_bytes (vm_payload (qm_message item))" and ?k = "vm_id (qm_message item)"
  have ok: "mailbox_ok m" and tree: "btree_ok (mb_inflight m)" using inv by (simp_all add: mailbox_inv_def)
  have fresh: "btree_get (mb_inflight m) ?k = None"
    using ok head by (simp add: mailbox_ok_def btree_get_None_iff)
  have sub: "checked_sub (mb_queued_bytes m) ?c = Some (mb_queued_bytes m - ?c)"
    using ok head by (simp add: mailbox_ok_def checked_sub_def word_le_nat_alt)
  have "unat (mb_inflight_bytes m) + unat ?c < 2 ^ 64"
    using ok head unat_u64_bound [of "ml_max_retained_bytes (mb_limits m)"] by (simp add: mailbox_ok_def)
  then have add: "checked_add (mb_inflight_bytes m) ?c = Some (mb_inflight_bytes m + ?c)"
    by (intro checked_add_fits) simp
  show "start_head (mb_next_token_generation m + 1) recs m =
      (Inr \<lparr>dr_outcome = Started \<lparr>it_mailbox = mb_reference m,
              it_token_generation = mb_next_token_generation m + 1, it_message = qm_message item\<rparr>,
            dr_expired = recs\<rparr>, begun item rest m)"
    using head sub add fresh by (simp add: start_head_def begun_def Let_def)
  have bytes: "unat (mb_queued_bytes m) = unat ?c + unat (mb_queued_bytes m - ?c)"
    "unat (mb_inflight_bytes m + ?c) = unat (mb_inflight_bytes m) + unat ?c"
    using sub add by (simp_all only: checked_sub_eq_Some checked_add_eq_Some)
  let ?a = "\<lparr>ia_token_generation = mb_next_token_generation m + 1, ia_payload_bytes = ?c\<rparr>"
  have keys: "set (map fst (btree_insert ?k ?a (mb_inflight m))) = insert ?k (set (map fst (mb_inflight m)))"
    by (rule set_btree_insert)
  have dist: "distinct (map fst (btree_insert ?k ?a (mb_inflight m)))"
    by (rule btree_ok_distinct [OF btree_ok_insert [OF tree]])
  have gens: "\<forall>(k, a) \<in> set (btree_insert ?k ?a (mb_inflight m)).
      ia_token_generation a \<le> mb_next_token_generation m + 1"
    using inv succ_greater [OF gen] btree.set_insert_fresh [OF tree fresh, of ?a]
    by (fastforce simp: mailbox_inv_def)
  have ok': "mailbox_ok (begun item rest m)"
    using ok head room bytes keys dist btree.length_insert [OF tree fresh, of ?a]
      btree.weight_insert [OF tree fresh, of "\<lambda>a. unat (ia_payload_bytes a)" ?a]
    by (simp add: mailbox_ok_def begun_def)
  show "mailbox_inv (begun item rest m)"
    using ok' gens btree_ok_insert [OF tree] by (simp add: mailbox_inv_def begun_def)
qed

lemma try_begin_cases:
  assumes inv: "mailbox_inv m" and res: "try_begin_inflight r m = (res, m')"
  obtains
    (fails) e where "res = Inl e" "m' = m" "e \<noteq> StateInconsistent"
  | (closed) "mb_lifecycle m = Closed" "res = Inr \<lparr>dr_outcome = DispatchClosed, dr_expired = []\<rparr>" "m' = m"
  | (started) b t item rest where "mb_lifecycle m \<noteq> Closed" "mailbox_inv (settled r b t m)"
      "ensure_reading m r = Inr ()"
      "checked_increment_records (expiry_records r m) (mb_terminals m) = Inr t"
      "live_at r m = item # rest" "mb_next_token_generation m \<noteq> - 1"
      "length (mb_inflight m) < unat (ml_max_inflight (mb_limits m))"
      "res = Inr \<lparr>dr_outcome = Started \<lparr>it_mailbox = mb_reference m,
              it_token_generation = mb_next_token_generation m + 1, it_message = qm_message item\<rparr>,
            dr_expired = expiry_records r m\<rparr>"
      "m' = begun item rest (settled r b t m)"
  | (idle) b t outcome where "mb_lifecycle m \<noteq> Closed" "mailbox_inv (settled r b t m)"
      "ensure_reading m r = Inr ()"
      "checked_increment_records (expiry_records r m) (mb_terminals m) = Inr t"
      "live_at r m = [] \<and> m' = close_if_drained_internal (settled r b t m) \<and>
         outcome = (if mb_lifecycle m' = Closed then DispatchClosed else NoQueuedMessage) \<or>
       live_at r m \<noteq> [] \<and> length (mb_inflight m) = unat (ml_max_inflight (mb_limits m)) \<and>
         m' = settled r b t m \<and> outcome = NoPermit"
      "res = Inr \<lparr>dr_outcome = outcome, dr_expired = expiry_records r m\<rparr>"
proof (cases "mb_lifecycle m = Closed")
  case True
  with inv res have "res = Inr \<lparr>dr_outcome = DispatchClosed, dr_expired = []\<rparr>" "m' = m"
    by (simp_all add: try_begin_inflight_def)
  with True show thesis by (rule closed)
next
  case open_: False
  show thesis
  proof (cases "ensure_reading m r")
    case (Inl e)
    then have "e \<noteq> StateInconsistent" by (auto simp: ensure_reading_def split: if_splits)
    moreover from Inl open_ inv res have "res = Inl e" "m' = m" by (simp_all add: try_begin_inflight_def)
    ultimately show thesis by (intro fails)
  next
    case (Inr u)
    then have reading: "ensure_reading m r = Inr ()" by simp
    obtain items removed b where items: "expired_items m r = Inr items"
      and rem: "bytes_for_indices m (indices_for_expired_items items) = Inr removed"
        "checked_sub (mb_queued_bytes m) removed = Some b" "unat b = queue_bytes (live_at r m)"
      and view: "set (indices_for_expired_items items) = expired_set r m"
        "records_for_expired_items m items = expiry_records r m"
        "length (indices_for_expired_items items) = length (expired_at r m)"
      by (rule expiry_view [OF inv reading])
    have ok: "mailbox_ok m" using inv by (simp add: mailbox_inv_def)
    have live: "len_checked_sub (length (mb_queue m)) (length (indices_for_expired_items items)) =
        Some (length (live_at r m))"
      using length_expired_live [of r m] by (simp add: len_checked_sub_def view(3))
    obtain ii :: u32 where ii: "try_of_nat (length (mb_inflight m)) = Some ii" "unat ii = length (mb_inflight m)"
      using ok try_u32 unfolding mailbox_ok_def by blast
    show thesis
    proof (cases "checked_increment_records (expiry_records r m) (mb_terminals m)")
      case (Inl e)
      then have "e \<noteq> StateInconsistent" using increment_error by blast
      moreover from Inl open_ inv res reading items view(2) have "res = Inl e" "m' = m"
        by (simp_all add: try_begin_inflight_def Let_def)
      ultimately show thesis by (intro fails)
    next
      case (Inr t)
      have sinv: "mailbox_inv (settled r b t m)" by (rule settled_inv [OF inv rem(3) Inr])
      note facts = open_ inv reading items rem view(2) live ii(1) Inr
      have queue: "(remove_queue_indices (indices_for_expired_items items) m)\<lparr>mb_queued_bytes := b, mb_terminals := t\<rparr> =
          settled r b t m"
        by (simp add: remove_queue_indices_eq view(1) settled_def)
      show thesis
      proof (cases "length (live_at r m) > 0 \<and> ii < ml_max_inflight (mb_limits m)")
        case go: True
        then obtain item rest where head: "live_at r m = item # rest" by (cases "live_at r m") auto
        have room: "length (mb_inflight m) < unat (ml_max_inflight (mb_limits m))"
          using go ii(2) by (simp add: word_less_nat_alt)
        show thesis
        proof (cases "mb_next_token_generation m = - 1")
          case True
          then have "res = Inl CounterOverflow" "m' = m"
            using res facts go by (simp_all add: try_begin_inflight_def Let_def checked_succ)
          then show thesis by (rule fails) simp
        next
          case False
          have start: "start_head (mb_next_token_generation m + 1) (expiry_records r m) (settled r b t m) =
              (Inr \<lparr>dr_outcome = Started \<lparr>it_mailbox = mb_reference m,
                      it_token_generation = mb_next_token_generation m + 1, it_message = qm_message item\<rparr>,
                    dr_expired = expiry_records r m\<rparr>, begun item rest (settled r b t m))"
            using start_head_ok(1) [OF sinv, of item rest "expiry_records r m"] head False room
            by (simp add: settled_def)
          with res facts go False queue have "try_begin_inflight r m =
              start_head (mb_next_token_generation m + 1) (expiry_records r m) (settled r b t m)"
            by (simp add: try_begin_inflight_def Let_def checked_succ)
          with start res have "res = Inr \<lparr>dr_outcome = Started \<lparr>it_mailbox = mb_reference m,
              it_token_generation = mb_next_token_generation m + 1, it_message = qm_message item\<rparr>,
            dr_expired = expiry_records r m\<rparr>" "m' = begun item rest (settled r b t m)" by simp_all
          with open_ sinv reading Inr head False room show thesis by (intro started)
        qed
      next
        case stay: False
        show thesis
        proof (cases "live_at r m = []")
          case True
          let ?o = "if mb_lifecycle m' = Closed then DispatchClosed else NoQueuedMessage"
          from True res facts queue have "m' = close_if_drained_internal (settled r b t m)"
            "res = Inr \<lparr>dr_outcome = ?o, dr_expired = expiry_records r m\<rparr>"
            by (auto simp: try_begin_inflight_def Let_def)
          with True open_ sinv reading Inr show thesis by (intro idle [of b t ?o]) simp_all
        next
          case False
          with stay have full: "length (mb_inflight m) = unat (ml_max_inflight (mb_limits m))"
            using ii(2) ok by (simp add: word_less_nat_alt mailbox_ok_def)
          from stay False res facts queue have "m' = settled r b t m"
            "res = Inr \<lparr>dr_outcome = NoPermit, dr_expired = expiry_records r m\<rparr>"
            by (simp_all add: try_begin_inflight_def Let_def)
          with False full open_ sinv reading Inr show thesis by (intro idle [of b t NoPermit]) simp_all
        qed
      qed
    qed
  qed
qed

section \<open>Finishing and draining\<close>

text \<open>The token is the one the in-flight cohort accounts for.\<close>

definition token_current :: "Mailbox \<Rightarrow> InflightToken \<Rightarrow> bool" where
  "token_current m token \<longleftrightarrow> it_mailbox token = mb_reference m \<and>
     btree_get (mb_inflight m) (vm_id (it_message token)) =
       Some \<lparr>ia_token_generation = it_token_generation token,
             ia_payload_bytes = ph_charged_bytes (vm_payload (it_message token))\<rparr>"

definition returned :: "MessageId \<Rightarrow> u64 \<Rightarrow> TerminalCounters \<Rightarrow> Mailbox \<Rightarrow> Mailbox" where
  "returned k charged t m = m\<lparr>mb_inflight := btree_remove k (mb_inflight m),
     mb_inflight_bytes := mb_inflight_bytes m - charged, mb_terminals := t\<rparr>"

lemma returned_inv:
  assumes inv: "mailbox_inv m" and get: "btree_get (mb_inflight m) k = Some a"
    and count: "terminal_count t = terminal_count (mb_terminals m) + 1"
  shows "checked_sub (mb_inflight_bytes m) (ia_payload_bytes a) = Some (mb_inflight_bytes m - ia_payload_bytes a)"
    and "mailbox_inv (returned k (ia_payload_bytes a) t m)"
proof -
  have ok: "mailbox_ok m" and tree: "btree_ok (mb_inflight m)" using inv by (simp_all add: mailbox_inv_def)
  note weight = btree.weight_remove [OF tree get, of "\<lambda>a. unat (ia_payload_bytes a)"]
  show sub: "checked_sub (mb_inflight_bytes m) (ia_payload_bytes a) = Some (mb_inflight_bytes m - ia_payload_bytes a)"
    using ok weight by (simp add: mailbox_ok_def checked_sub_def word_le_nat_alt)
  then have bytes: "unat (mb_inflight_bytes m) = unat (ia_payload_bytes a) + unat (mb_inflight_bytes m - ia_payload_bytes a)"
    by (simp only: checked_sub_eq_Some)
  have keys: "set (map fst (btree_remove k (mb_inflight m))) \<subseteq> set (map fst (mb_inflight m))"
    by (auto simp: btree_remove_def)
  have dist: "distinct (map fst (btree_remove k (mb_inflight m)))"
    by (rule btree_ok_distinct [OF btree_ok_remove [OF tree]])
  have "set (queue_ids (mb_queue m)) \<inter> set (map fst (mb_inflight m)) = {}"
    using ok by (simp add: mailbox_ok_def)
  with keys have "set (queue_ids (mb_queue m)) \<inter> set (map fst (btree_remove k (mb_inflight m))) = {}"
    by blast
  then have ids: "distinct (queue_ids (mb_queue m) @ map fst (btree_remove k (mb_inflight m)))"
    using ok dist by (simp add: mailbox_ok_def)
  have closed: "mb_lifecycle m \<noteq> Closed" using ok get by (auto simp: mailbox_ok_def)
  have ok': "mailbox_ok (returned k (ia_payload_bytes a) t m)"
    using ok weight bytes ids count closed btree.length_remove [OF tree get]
    unfolding mailbox_ok_def returned_def by simp
  have gens: "\<forall>(k, a) \<in> set (btree_remove k (mb_inflight m)). ia_token_generation a \<le> mb_next_token_generation m"
    using inv by (auto simp: mailbox_inv_def btree_remove_def)
  show "mailbox_inv (returned k (ia_payload_bytes a) t m)"
    using ok' gens btree_ok_remove [OF tree] by (simp add: mailbox_inv_def returned_def)
qed

lemma finish_cases:
  assumes inv: "mailbox_inv m" and res: "finish token reason m = (res, m')"
  obtains
    (fails) e where "res = Inl \<lparr>ff_error = e, ff_token = token\<rparr>" "m' = m" "e \<noteq> StateInconsistent"
      "is_inflight_completion reason \<Longrightarrow> token_current m token \<Longrightarrow> e = CounterOverflow"
  | (finished) t where "is_inflight_completion reason" "token_current m token"
      "checked_increment reason (mb_terminals m) = Inr t"
      "res = Inr \<lparr>tr_message_id = vm_id (it_message token), tr_reason = reason,
                  tr_released_bytes = ph_charged_bytes (vm_payload (it_message token))\<rparr>"
      "m' = close_if_drained_internal
             (returned (vm_id (it_message token)) (ph_charged_bytes (vm_payload (it_message token))) t m)"
proof (cases "is_inflight_completion reason \<and> token_current m token")
  case True
  then have get: "btree_get (mb_inflight m) (vm_id (it_message token)) =
       Some \<lparr>ia_token_generation = it_token_generation token,
             ia_payload_bytes = ph_charged_bytes (vm_payload (it_message token))\<rparr>"
    by (simp add: token_current_def)
  show thesis
  proof (cases "checked_increment reason (mb_terminals m)")
    case (Inl e)
    then have "e = CounterOverflow" by (auto simp: checked_increment_def and_then_eq_Inl ok_or_eq_Inl)
    moreover from Inl True get inv res have "res = Inl \<lparr>ff_error = e, ff_token = token\<rparr>" "m' = m"
      by (simp_all add: finish_def Let_def token_current_def)
    ultimately show thesis by (intro fails) simp_all
  next
    case (Inr t)
    from returned_inv(1) [OF inv get checked_increment_count [OF Inr]] Inr True get inv res
    have "res = Inr \<lparr>tr_message_id = vm_id (it_message token), tr_reason = reason,
                  tr_released_bytes = ph_charged_bytes (vm_payload (it_message token))\<rparr>"
      "m' = close_if_drained_internal
             (returned (vm_id (it_message token)) (ph_charged_bytes (vm_payload (it_message token))) t m)"
      by (simp_all add: finish_def Let_def token_current_def returned_def)
    with True Inr show thesis by (intro finished) simp_all
  qed
next
  case False
  have "\<exists>e. res = Inl \<lparr>ff_error = e, ff_token = token\<rparr> \<and> m' = m \<and> e \<noteq> StateInconsistent"
  proof (cases "btree_get (mb_inflight m) (vm_id (it_message token))")
    case None
    with inv res show ?thesis by (auto simp: finish_def Let_def split: if_splits)
  next
    case (Some a)
    with False inv res show ?thesis
      by (cases a) (auto simp: finish_def Let_def token_current_def split: if_splits)
  qed
  then obtain e where "res = Inl \<lparr>ff_error = e, ff_token = token\<rparr>" "m' = m" "e \<noteq> StateInconsistent" by blast
  with False show thesis by (intro fails) simp_all
qed

section \<open>Making room\<close>

lemma sorted_distinct_remdups_adj: "sorted xs \<Longrightarrow> distinct (remdups_adj (xs :: nat list))"
  by (induction xs rule: remdups_adj.induct) auto

text \<open>What remains of the queue when two lists of indices are removed.\<close>

lemma removed_indices:
  assumes "set E \<union> set D \<subseteq> {..<length q}"
  shows "set (remdups_adj (sort (E @ D))) = set E \<union> set D"
    and "length (remdups_adj (sort (E @ D))) + length (nths q (- (set E \<union> set D))) = length q"
proof -
  let ?r = "remdups_adj (sort (E @ D))"
  show set: "set ?r = set E \<union> set D" by simp
  have "length (nths q (set ?r)) = length ?r"
    using assms by (intro length_nths_distinct sorted_distinct_remdups_adj) (simp_all only: set sorted_sort)
  then show "length ?r + length (nths q (- (set E \<union> set D))) = length q"
    using length_nths_split [of q "set E \<union> set D"] by (simp only: set)
qed

lemma fit_after_removing_ok:
  assumes ok: "mailbox_ok m" and idx: "set E \<union> set D \<subseteq> {..<length (mb_queue m)}"
    and fit: "fit_after_removing m E D c = Inr f"
  defines "kept \<equiv> nths (mb_queue m) (- (set E \<union> set D))"
  shows "cf_items f \<longleftrightarrow> length kept + 1 \<le> unat (ml_capacity_items (mb_limits m))"
    and "cf_queued_bytes f \<longleftrightarrow> queue_bytes kept + unat c \<le> unat (ml_capacity_bytes (mb_limits m))"
    and "cf_retained_bytes f \<longleftrightarrow> queue_bytes kept + unat c + unat (mb_inflight_bytes m)
           \<le> unat (ml_max_retained_bytes (mb_limits m))"
proof -
  let ?r = "remdups_adj (sort (E @ D))"
  note removed = removed_indices [OF idx]
  obtain removed_bytes qi v qb rb and qi' :: u32 where
    bytes: "bytes_for_indices m ?r = Inr removed_bytes" and
    items: "Option.bind (len_checked_sub (length (mb_queue m)) (length ?r)) (\<lambda>v. len_checked_add v 1) = Some qi"
      "try_of_nat qi = Some qi'" and
    sums: "Option.bind (checked_sub (mb_queued_bytes m) removed_bytes) (\<lambda>v. checked_add v c) = Some qb"
      "checked_add qb (mb_inflight_bytes m) = Some rb" and
    f: "f = \<lparr>cf_items = (qi' \<le> ml_capacity_items (mb_limits m)),
             cf_queued_bytes = (qb \<le> ml_capacity_bytes (mb_limits m)),
             cf_retained_bytes = (rb \<le> ml_max_retained_bytes (mb_limits m))\<rparr>"
    using fit unfolding fit_after_removing_def Let_def and_then_eq_Inr ok_or_eq_Inr by (auto simp del: set_sort)
  have "unat qi' = length kept + 1"
    using items removed(2) by (auto simp: try_of_nat_eq_Some len_checked_sub_def len_checked_add_def kept_def
        split: if_splits)
  moreover obtain v where v: "checked_sub (mb_queued_bytes m) removed_bytes = Some v" "checked_add v c = Some qb"
    using sums(1) by (auto split: Option.bind_splits)
  then have "unat qb = queue_bytes kept + unat c"
    using ok bytes sum_nths_split [of charge "mb_queue m" "set ?r"]
    unfolding bytes_for_indices_ok removed(1) kept_def
    by (simp add: mailbox_ok_def checked_sub_eq_Some checked_add_eq_Some)
  moreover from this sums(2) have "unat rb = queue_bytes kept + unat c + unat (mb_inflight_bytes m)"
    by (simp add: checked_add_eq_Some)
  ultimately show "cf_items f \<longleftrightarrow> length kept + 1 \<le> unat (ml_capacity_items (mb_limits m))"
    and "cf_queued_bytes f \<longleftrightarrow> queue_bytes kept + unat c \<le> unat (ml_capacity_bytes (mb_limits m))"
    and "cf_retained_bytes f \<longleftrightarrow> queue_bytes kept + unat c + unat (mb_inflight_bytes m)
           \<le> unat (ml_max_retained_bytes (mb_limits m))"
    by (simp_all add: f word_le_nat_alt)
qed

text \<open>A message of \<open>c\<close> bytes fits beside the items \<open>kept\<close>.\<close>

definition fits :: "Mailbox \<Rightarrow> u64 \<Rightarrow> QueuedMessage list \<Rightarrow> bool" where
  "fits m c kept \<longleftrightarrow>
     length kept + 1 \<le> unat (ml_capacity_items (mb_limits m)) \<and>
     queue_bytes kept + unat c \<le> unat (ml_capacity_bytes (mb_limits m)) \<and>
     queue_bytes kept + unat c + unat (mb_inflight_bytes m) \<le> unat (ml_max_retained_bytes (mb_limits m))"

lemma full_fit_iff:
  assumes "mailbox_ok m" and "set E \<union> set D \<subseteq> {..<length (mb_queue m)}"
    and "fit_after_removing m E D c = Inr f"
  shows "is_full_fit f \<longleftrightarrow> fits m c (nths (mb_queue m) (- (set E \<union> set D)))"
  using fit_after_removing_ok [OF assms] by (simp add: is_full_fit_def fits_def)

text \<open>Dropping the oldest stops at the first prefix of the live items whose removal makes room.\<close>

lemma drop_oldest_prefix:
  assumes "drop_oldest m E c ds rest = Inr D" and "sorted (ds @ rest)" and "distinct (ds @ rest)"
  shows "\<exists>n \<ge> length ds. n \<le> length (ds @ rest) \<and> D = take n (ds @ rest) \<and>
    (\<forall>k. length ds < k \<and> k < n \<longrightarrow> (\<exists>f. fit_after_removing m E (take k (ds @ rest)) c = Inr f \<and> \<not> is_full_fit f))"
  using assms
proof (induction rest arbitrary: ds)
  case Nil
  then show ?case by (intro exI [of _ "length ds"]) auto
next
  case (Cons i rest)
  have srt: "sort (ds @ [i]) = ds @ [i]"
    using Cons.prems(2) by (intro sorted_sort_id) (auto simp: sorted_append)
  have "i \<notin> set ds" using Cons.prems(3) by auto
  with Cons.prems(1) srt obtain f where f: "fit_after_removing m E (ds @ [i]) c = Inr f"
    and D: "(if is_full_fit f then Inr (ds @ [i]) else drop_oldest m E c (ds @ [i]) rest) = Inr D"
    by (auto simp: Let_def and_then_eq_Inr)
  show ?case
  proof (cases "is_full_fit f")
    case True
    with D show ?thesis by (intro exI [of _ "length ds + 1"]) auto
  next
    case False
    with D Cons.IH [of "ds @ [i]"] Cons.prems(2,3) obtain n where n: "length ds + 1 \<le> n"
      "n \<le> length (ds @ i # rest)" "D = take n (ds @ i # rest)"
      "\<forall>k. length ds + 1 < k \<and> k < n \<longrightarrow> (\<exists>f. fit_after_removing m E (take k (ds @ i # rest)) c = Inr f \<and> \<not> is_full_fit f)"
      by (auto simp: sorted_append)
    have "\<exists>f. fit_after_removing m E (take k (ds @ i # rest)) c = Inr f \<and> \<not> is_full_fit f"
      if "length ds < k" "k < n" for k
    proof (cases "k = length ds + 1")
      case True
      with f False show ?thesis by simp
    next
      case False
      with n(4) that show ?thesis by simp
    qed
    with n show ?thesis by (intro exI [of _ n]) auto
  qed
qed

end
