(* ===== verification/Mailbox_Offer.thy ===== *)
theory Mailbox_Offer
  imports Mailbox
begin

text \<open>
  Offering a message to a mailbox: what each branch of \<open>try_offer\<close> does to a valid mailbox. The
  overflow policies choose the displaced items among the live ones (\<open>displaces\<close>), a failing offer
  changes nothing and hands the message back (\<open>try_offer_fail\<close>), and a decided offer leaves the
  live items that were not displaced, followed by the message when it was admitted
  (\<open>try_offer_cases\<close>).
\<close>

lemma fit_error: "fit_after_removing m E D c = Inl e \<Longrightarrow> e = CounterOverflow"
  by (auto simp: fit_after_removing_def Let_def and_then_eq_Inl ok_or_eq_Inl bytes_for_indices_def)

lemma drop_oldest_error: "drop_oldest m E c ds rest = Inl e \<Longrightarrow> e = CounterOverflow"
proof (induction rest arbitrary: ds)
  case (Cons i rest)
  then show ?case
    by (auto simp: Let_def and_then_eq_Inl split: if_splits dest: fit_error)
qed simp

lemma plan_error: "plan_admission m msg E live = Inl e \<Longrightarrow> e = CounterOverflow"
  by (auto simp: plan_admission_def Let_def and_then_eq_Inl case_prod_unfold split: if_splits
      dest: fit_error drop_oldest_error)

text \<open>The items each pressure policy may displace.\<close>

definition displaces :: "Mailbox \<Rightarrow> ValidatedMessage \<Rightarrow> nat list \<Rightarrow> nat list \<Rightarrow> nat list \<Rightarrow> bool" where
  "displaces m msg E live D \<longleftrightarrow>
     (case ml_overflow (mb_limits m) of
        RejectNew \<Rightarrow> D = []
      | BlockUntilDeadline \<Rightarrow> D = []
      | Latest \<Rightarrow> D = live
      | CoalesceByKey \<Rightarrow>
          (case List.find (\<lambda>i. vm_coalesce_key (qm_message (mb_queue m ! i)) = vm_coalesce_key msg)
                  (rev live) of
             Some i \<Rightarrow> D = [i]
           | None \<Rightarrow> D = [])
      | DropOldest \<Rightarrow> \<exists>n. D = take n live \<and>
          (\<forall>k < n. \<not> fits m (ph_charged_bytes (vm_payload msg))
             (nths (mb_queue m) (- (set E \<union> set (take k live))))))"

lemma find_rev_Some: "List.find P (rev xs) = Some x \<Longrightarrow> x \<in> set xs \<and> P x"
  by (metis find_Some_iff nth_mem set_rev)

lemma initial_displaced_sub:
  "initial_displaced m msg live = (D, reason) \<Longrightarrow> set D \<subseteq> set live"
  by (auto simp: initial_displaced_def split: OverflowPolicy.splits option.splits dest: find_rev_Some)

lemma initial_displaces:
  assumes "initial_displaced m msg live = (D, reason)" and "ml_overflow (mb_limits m) \<noteq> DropOldest"
  shows "displaces m msg E live D"
  using assms
  by (auto simp: initial_displaced_def displaces_def split: OverflowPolicy.splits option.splits
      dest: find_rev_Some)

lemma initial_none:
  "ml_overflow (mb_limits m) \<in> {RejectNew, BlockUntilDeadline, DropOldest} \<Longrightarrow>
     initial_displaced m msg live = ([], Evicted)"
  by (auto simp: initial_displaced_def)

lemma plan_admit:
  assumes ok: "mailbox_ok m" and E: "set E = expired_set r m"
    and live: "live = live_indices_excluding m E"
    and plan: "plan_admission m msg E live = Inr (PlanAdmit, D, reason)"
  shows "set D \<subseteq> set live"
    and "fits m (ph_charged_bytes (vm_payload msg)) (nths (mb_queue m) (- (set E \<union> set D)))"
    and "displaces m msg E live D"
proof -
  let ?c = "ph_charged_bytes (vm_payload msg)"
  obtain D0 reason0 where D0: "initial_displaced m msg live = (D0, reason0)" by fastforce
  have range: "set E \<union> set X \<subseteq> {..<length (mb_queue m)}" if "set X \<subseteq> set live" for X
    using that E live by (auto simp: expired_set_def live_indices_excluding_def)
  have fitI: "fits m ?c (nths (mb_queue m) (- (set E \<union> set X)))"
    if "set X \<subseteq> set live" "fit_after_removing m E X ?c = Inr f" "is_full_fit f" for X f
    using full_fit_iff [OF ok range [OF that(1)] that(2)] that(3) by simp
  have sub0: "set D0 \<subseteq> set live" by (rule initial_displaced_sub [OF D0])
  obtain f0 where f0: "fit_after_removing m E D0 ?c = Inr f0"
    using plan D0 by (auto simp: plan_admission_def Let_def and_then_eq_Inr)
  have "set D \<subseteq> set live \<and> fits m ?c (nths (mb_queue m) (- (set E \<union> set D))) \<and> displaces m msg E live D"
  proof (cases "is_full_fit f0")
    case True
    then have D: "D = D0" using plan D0 f0 by (simp add: plan_admission_def)
    show ?thesis
    proof (cases "ml_overflow (mb_limits m) = DropOldest")
      case True
      with D D0 initial_none [of m msg live] have "D = []" by simp
      with True have "displaces m msg E live D" by (auto simp: displaces_def intro!: exI [of _ 0])
      with D sub0 fitI [OF sub0 f0 \<open>is_full_fit f0\<close>] show ?thesis by simp
    next
      case False
      with D sub0 fitI [OF sub0 f0 True] initial_displaces [OF D0 False] show ?thesis by simp
    qed
  next
    case False
    with plan D0 f0 obtain f where
      next_: "(if ml_overflow (mb_limits m) = DropOldest then drop_oldest m E ?c D0 live else Inr D0) = Inr D"
      and f: "fit_after_removing m E D ?c = Inr f" "is_full_fit f"
      by (auto simp: plan_admission_def Let_def and_then_eq_Inr split: if_splits)
    show ?thesis
    proof (cases "ml_overflow (mb_limits m) = DropOldest")
      case drop: True
      then have none: "D0 = []" using D0 initial_none [of m msg live] by simp
      have srt: "sorted ([] @ live)" "distinct ([] @ live)"
        by (auto simp: live live_indices_excluding_def sorted_wrt_filter)
      from next_ drop none drop_oldest_prefix [OF _ srt, of m E ?c D] obtain n where
        n: "D = take n live" "\<forall>k. 0 < k \<and> k < n \<longrightarrow> (\<exists>f. fit_after_removing m E (take k live) ?c = Inr f \<and> \<not> is_full_fit f)"
        by auto
      have "\<not> fits m ?c (nths (mb_queue m) (- (set E \<union> set (take k live))))" if k: "k < n" for k
      proof -
        have sub: "set (take k live) \<subseteq> set live" by (rule set_take_subset)
        obtain g where "fit_after_removing m E (take k live) ?c = Inr g" "\<not> is_full_fit g"
          using n(2) k f0 False none by (cases "k = 0") auto
        with full_fit_iff [OF ok range [OF sub]] show ?thesis by blast
      qed
      with n(1) drop have "displaces m msg E live D" by (auto simp: displaces_def)
      moreover have "set D \<subseteq> set live" using set_take_subset [of n live] n(1) by simp
      ultimately show ?thesis using fitI [OF _ f] by simp
    next
      case False
      with next_ have "D = D0" by simp
      with sub0 f fitI initial_displaces [OF D0 False] show ?thesis by simp
    qed
  qed
  then show "set D \<subseteq> set live"
    and "fits m ?c (nths (mb_queue m) (- (set E \<union> set D)))" and "displaces m msg E live D" by simp_all
qed

lemma plan_refuse:
  assumes "plan_admission m msg E live = Inr (d, D, reason)" and "d \<noteq> PlanAdmit"
  shows "D = [] \<and> (\<exists>f c D0. fit_after_removing m E D0 c = Inr f \<and> \<not> is_full_fit f \<and>
    (d = PlanRejected (rejection_reason f) \<or> d = PlanWouldBlock \<and> ml_overflow (mb_limits m) = BlockUntilDeadline))"
  using assms initial_none [of m msg live]
  by (auto simp: plan_admission_def Let_def and_then_eq_Inr case_prod_unfold split: if_splits)

section \<open>Offering\<close>

lemma offer_err_simps [res_simps]:
  "offer_err msg x = Inr a \<longleftrightarrow> x = Inr a"
  "offer_err msg x = Inl f \<longleftrightarrow> (\<exists>e. x = Inl e \<and> f = \<lparr>of_error = e, of_message = msg\<rparr>)"
  by (cases x; auto simp: offer_err_def)+

lemma time_error_cases:
  "map_err mailbox_time_error (is_expired_at dl r) = Inl e \<Longrightarrow> e \<noteq> StateInconsistent"
  "map_err mailbox_time_error (try_deadline_after r d) = Inl e \<Longrightarrow> e \<noteq> StateInconsistent"
  by (auto simp: map_err_eq_Inl try_deadline_after_err dest: is_expired_at_err)

text \<open>A failing step of \<open>try_offer\<close> keeps the mailbox and hands the message back.\<close>

lemma offer_step_fails:
  assumes "and_then_st (offer_err msg x) m k = (Inl f, m')"
    and "\<And>e. x = Inl e \<Longrightarrow> e \<noteq> StateInconsistent"
    and "\<And>a. x = Inr a \<Longrightarrow> k a = (Inl f, m') \<Longrightarrow>
      m' = m \<and> (\<exists>e. f = \<lparr>of_error = e, of_message = msg\<rparr> \<and> e \<noteq> StateInconsistent)"
  shows "m' = m \<and> (\<exists>e. f = \<lparr>of_error = e, of_message = msg\<rparr> \<and> e \<noteq> StateInconsistent)"
  using assms by (cases x) (auto simp: offer_err_def)

lemma category_error:
  "(case offer_category d of Some c \<Rightarrow> checked_terminal c o' | None \<Rightarrow> Inr o') = Inl e \<Longrightarrow> e = CounterOverflow"
  by (cases d) (auto dest: terminal_error)

lemma bytes_error: "bytes_for_indices m idx = Inl e \<Longrightarrow> e = CounterOverflow"
  by (simp add: bytes_for_indices_def ok_or_eq_Inl)

lemma offer_commit_fail:
  assumes inv: "mailbox_inv m" and res: "offer_commit msg dl items t (d, D, reason) m = (Inl f, m')"
  shows "m' = m \<and> (\<exists>e. f = \<lparr>of_error = e, of_message = msg\<rparr> \<and> e \<noteq> StateInconsistent)"
proof -
  let ?idx = "remdups_adj (sort (indices_for_expired_items items @ D))"
  obtain removed b where rem: "bytes_for_indices m ?idx = Inr removed" "checked_sub (mb_queued_bytes m) removed = Some b"
    using removal_total [OF inv] by blast
  show ?thesis
    using res unfolding offer_commit_def Let_def prod.case
  proof (rule offer_step_fails, goal_cases)
    case 1
    then show ?case by (auto dest: increment_error)
  next
    case (2 t')
    from 2(2) show ?case
    proof (rule offer_step_fails, goal_cases)
      case 1
      then show ?case by (auto dest: category_error)
    next
      case (2 o')
      then show ?case
        by (cases "d = PlanAdmit"; cases "checked_add b (ph_charged_bytes (vm_payload msg))")
           (auto simp: rem offer_err_def)
    qed
  qed
qed

lemma offer_on_clock_fail:
  assumes inv: "mailbox_inv m" and res: "offer_on_clock msg x dl items m = (Inl f, m')"
  shows "m' = m \<and> (\<exists>e. f = \<lparr>of_error = e, of_message = msg\<rparr> \<and> e \<noteq> StateInconsistent)"
  using res unfolding offer_on_clock_def Let_def
proof (rule offer_step_fails, goal_cases)
  case 1
  then show ?case by (auto dest: increment_error)
next
  case (2 t)
  from 2(2) show ?case
  proof (rule offer_step_fails, goal_cases)
    case 1
    then show ?case by (auto dest: plan_error split: if_splits)
  next
    case (2 plan)
    then show ?case by (cases plan) (auto dest: offer_commit_fail [OF inv])
  qed
qed

lemma try_offer_fail:
  assumes inv: "mailbox_inv m" and res: "try_offer msg r m = (Inl f, m')"
  shows "m' = m \<and> (\<exists>e. f = \<lparr>of_error = e, of_message = msg\<rparr> \<and> e \<noteq> StateInconsistent)"
proof (cases "mb_lifecycle m = Accepting")
  case False
  with inv res show ?thesis
    by (cases "checked_terminal CatClosed (mb_offers m)")
       (auto simp: try_offer_def offer_err_def dest: terminal_error)
next
  case True
  show ?thesis
  proof (cases "ensure_reading m r")
    case (Inl e)
    then have "e \<noteq> StateInconsistent" by (auto simp: ensure_reading_def split: if_splits)
    with Inl True inv res show ?thesis by (auto simp: try_offer_def offer_err_def)
  next
    case (Inr u)
    then have reading: "ensure_reading m r = Inr ()" by simp
    obtain items where items: "expired_items m r = Inr items"
      using expired_items_total [OF _ reading] inv by (auto simp: mailbox_inv_def)
    have "offer_err msg (validate_state m) = Inr ()" "offer_err msg (ensure_reading m r) = Inr ()"
      "offer_err msg (expired_items m r) = Inr items"
      using inv reading items by (simp_all add: offer_err_def)
    with res True show ?thesis
      unfolding try_offer_def
      by (auto elim!: offer_step_fails dest: time_error_cases offer_on_clock_fail [OF inv])
  qed
qed

text \<open>Putting one admitted item at the end of the queue.\<close>

lemma admit_inv:
  assumes inv: "mailbox_inv m" and open_: "mb_lifecycle m \<noteq> Closed"
    and fits: "fits m (ph_charged_bytes (vm_payload (qm_message item))) (mb_queue m)"
    and clock: "item_on_clock m item"
    and fresh: "vm_id (qm_message item) \<notin> set (queue_ids (mb_queue m)) \<union> set (map fst (mb_inflight m))"
    and offers: "checked_terminal CatAdmitted (mb_offers m) = Inr o'"
    and bytes: "checked_add (mb_queued_bytes m) (ph_charged_bytes (vm_payload (qm_message item))) = Some b"
  shows "mailbox_inv (m\<lparr>mb_queue := mb_queue m @ [item], mb_queued_bytes := b, mb_offers := o'\<rparr>)"
proof -
  have ok: "mailbox_ok m" using inv by (simp add: mailbox_inv_def)
  note counts = checked_terminal_ok [OF offers]
  have "unat b = unat (mb_queued_bytes m) + charge item" using bytes by (simp add: checked_add_eq_Some)
  then show ?thesis
    using inv ok open_ fits clock fresh counts
    by (auto simp: mailbox_inv_def mailbox_ok_def fits_def)
qed

definition new_item :: "PlannedOffer \<Rightarrow> ValidatedMessage \<Rightarrow> MonotonicDeadline \<Rightarrow> QueuedMessage list" where
  "new_item d msg dl = (if d = PlanAdmit then [\<lparr>qm_message = msg, qm_queue_age_deadline = dl\<rparr>] else [])"

lemma offer_commit_ok:
  assumes inv: "mailbox_inv m" and reading: "ensure_reading m r = Inr ()" and open_: "mb_lifecycle m \<noteq> Closed"
    and E: "set (indices_for_expired_items items) = expired_set r m"
    and recs: "records_for_expired_items m items = expiry_records r m"
    and t: "checked_increment_records (expiry_records r m) (mb_terminals m) = Inr t"
    and D: "set D \<subseteq> {..<length (mb_queue m)} - expired_set r m"
    and admit: "d = PlanAdmit \<Longrightarrow>
      fits m (ph_charged_bytes (vm_payload msg)) (nths (mb_queue m) (- (expired_set r m \<union> set D))) \<and>
      item_on_clock m \<lparr>qm_message = msg, qm_queue_age_deadline = dl\<rparr> \<and>
      vm_id msg \<notin> set (queue_ids (live_at r m)) \<union> set (map fst (mb_inflight m))"
    and res: "offer_commit msg dl items t (d, D, reason) m = (Inr rep, m')"
  obtains b t' o' where
    "checked_increment_records (records_for_indices m D reason) t = Inr t'"
    "checked_terminal (the (offer_category d)) (mb_offers m) = Inr o'"
    "rep = \<lparr>or_outcome = outcome_of d msg,
            or_terminals = expiry_records r m @ records_for_indices m D reason\<rparr>"
    "m' = m\<lparr>mb_queue := nths (mb_queue m) (- (expired_set r m \<union> set D)) @ new_item d msg dl,
            mb_queued_bytes := b, mb_offers := o', mb_terminals := t'\<rparr>"
    "mailbox_inv m'"
proof -
  let ?idx = "remdups_adj (sort (indices_for_expired_items items @ D))"
  let ?A = "expired_set r m \<union> set D" and ?c = "ph_charged_bytes (vm_payload msg)"
  have idx: "set ?idx = ?A" by (simp add: E)
  let ?kept = "\<lambda>b o' t'. (remove_queue_indices ?idx m)\<lparr>mb_queued_bytes := b, mb_offers := o', mb_terminals := t'\<rparr>"
  from res obtain t' o' removed b0 b where
    t': "checked_increment_records (records_for_indices m D reason) t = Inr t'" and
    cat: "(case offer_category d of Some category \<Rightarrow> checked_terminal category (mb_offers m)
           | None \<Rightarrow> Inr (mb_offers m)) = Inr o'" and
    rem: "bytes_for_indices m ?idx = Inr removed" "checked_sub (mb_queued_bytes m) removed = Some b0" and
    b: "(if d = PlanAdmit then ok_or (checked_add b0 ?c) CounterOverflow else Inr b0) = Inr b" and
    fin: "(Inr \<lparr>or_outcome = outcome_of d msg,
                 or_terminals = records_for_expired_items m items @ records_for_indices m D reason\<rparr>,
            if d = PlanAdmit
            then (?kept b o' t')\<lparr>mb_queue := mb_queue (?kept b o' t') @
                          [\<lparr>qm_message = msg, qm_queue_age_deadline = dl\<rparr>]\<rparr>
            else ?kept b o' t') = (Inr rep, m')"
    unfolding offer_commit_def Let_def prod.case and_then_st_eq_Inr offer_err_simps ok_or_eq_Inr
    by blast
  have o': "checked_terminal (the (offer_category d)) (mb_offers m) = Inr o'"
    using cat by (cases d) simp_all
  have rep: "rep = \<lparr>or_outcome = outcome_of d msg,
                 or_terminals = expiry_records r m @ records_for_indices m D reason\<rparr>"
    using fin by (simp add: recs)
  have m': "m' = m\<lparr>mb_queue := nths (mb_queue m) (- ?A) @ new_item d msg dl,
            mb_queued_bytes := b, mb_offers := o', mb_terminals := t'\<rparr>"
    using fin by (auto simp: remove_queue_indices_eq E new_item_def)
  have b0: "unat b0 = queue_bytes (nths (mb_queue m) (- ?A))"
    using bytes_kept [OF inv rem] by (simp only: idx)
  have gone: "length (nths (mb_queue m) ?A) = length (expired_at r m) + length (nths (mb_queue m) (set D))"
  proof -
    have "{i. i < length (mb_queue m) \<and> i \<in> ?A} =
        {i. i < length (mb_queue m) \<and> i \<in> expired_set r m} \<union> {i. i < length (mb_queue m) \<and> i \<in> set D}"
      by auto
    moreover have "{i. i < length (mb_queue m) \<and> i \<in> expired_set r m} \<inter> {i. i < length (mb_queue m) \<and> i \<in> set D} = {}"
      using D by auto
    ultimately have "length (nths (mb_queue m) ?A) =
        length (nths (mb_queue m) (expired_set r m)) + length (nths (mb_queue m) (set D))"
      by (simp add: length_nths card_Un_disjoint del: nths_expired_set)
    then show ?thesis by simp
  qed
  have count: "terminal_count t' = terminal_count (mb_terminals m) + length (nths (mb_queue m) ?A)"
    using checked_increment_records_count [OF t] checked_increment_records_count [OF t'] gone
    by (simp add: expiry_records_def records_for_indices_eq)
  let ?k = "m\<lparr>mb_queue := nths (mb_queue m) (- ?A), mb_queued_bytes := b0, mb_terminals := t'\<rparr>"
  have kept: "mailbox_inv ?k" by (rule shrink_inv [OF inv b0 count])
  have "mailbox_inv m'"
  proof (cases "d = PlanAdmit")
    case True
    have "set (nths (mb_queue m) (- ?A)) \<subseteq> set (nths (mb_queue m) (- expired_set r m))"
      by (auto simp: set_nths simp del: nths_expired_set)
    then have ids: "set (queue_ids (nths (mb_queue m) (- ?A))) \<subseteq> set (queue_ids (live_at r m))" by auto
    from admit_inv [OF kept, of "\<lparr>qm_message = msg, qm_queue_age_deadline = dl\<rparr>" o' b] True admit o' b open_ ids
    have "mailbox_inv (?k\<lparr>mb_queue := nths (mb_queue m) (- ?A) @ [\<lparr>qm_message = msg, qm_queue_age_deadline = dl\<rparr>],
        mb_queued_bytes := b, mb_offers := o'\<rparr>)"
      by (auto simp: fits_def ok_or_eq_Inr)
    moreover have "?k\<lparr>mb_queue := nths (mb_queue m) (- ?A) @ [\<lparr>qm_message = msg, qm_queue_age_deadline = dl\<rparr>],
        mb_queued_bytes := b, mb_offers := o'\<rparr> = m'"
      using True unfolding m' new_item_def by (cases m) simp
    ultimately show ?thesis by simp
  next
    case False
    then have "the (offer_category d) \<noteq> CatAdmitted" by (cases d) simp_all
    from offers_inv [OF kept, of "the (offer_category d)" o'] this o' have "mailbox_inv (?k\<lparr>mb_offers := o'\<rparr>)"
      by simp
    moreover have "?k\<lparr>mb_offers := o'\<rparr> = m'"
      using False b unfolding m' new_item_def by (cases m) simp
    ultimately show ?thesis by simp
  qed
  with t' o' rep m' show thesis by (rule that)
qed

lemma live_ids:
  assumes "set E = expired_set r m"
  shows "(\<exists>i \<in> set (live_indices_excluding m E). vm_id (qm_message (mb_queue m ! i)) = k) \<longleftrightarrow>
    k \<in> set (queue_ids (live_at r m))"
  using assms by (force simp: live_indices_excluding_def live_at_def expired_set_def in_set_conv_nth)

lemma try_offer_cases:
  assumes inv: "mailbox_inv m" and res: "try_offer msg r m = (res, m')"
  obtains
    (fails) e where "res = Inl \<lparr>of_error = e, of_message = msg\<rparr>" "m' = m" "e \<noteq> StateInconsistent"
  | (refused) o' where "mb_lifecycle m \<noteq> Accepting" "checked_terminal CatClosed (mb_offers m) = Inr o'"
      "res = Inr \<lparr>or_outcome = OfferClosed msg, or_terminals = []\<rparr>" "m' = m\<lparr>mb_offers := o'\<rparr>"
  | (decided) E D d reason dl b t t' o' where
      "mb_lifecycle m = Accepting" "ensure_reading m r = Inr ()" "set E = expired_set r m"
      "set D \<subseteq> set (live_indices_excluding m E)"
      "d = PlanAdmit \<Longrightarrow> displaces m msg E (live_indices_excluding m E) D \<and>
         fits m (ph_charged_bytes (vm_payload msg)) (nths (mb_queue m) (- (expired_set r m \<union> set D))) \<and>
         item_expiry r \<lparr>qm_message = msg, qm_queue_age_deadline = dl\<rparr> = None \<and>
         vm_schema msg = mb_schema m \<and> vm_class msg = mb_message_class m \<and>
         vm_id msg \<notin> set (queue_ids (live_at r m)) \<union> set (map fst (mb_inflight m))"
      "d \<noteq> PlanAdmit \<Longrightarrow> D = []"
      "checked_increment_records (expiry_records r m) (mb_terminals m) = Inr t"
      "checked_increment_records (records_for_indices m D reason) t = Inr t'"
      "checked_terminal (the (offer_category d)) (mb_offers m) = Inr o'"
      "res = Inr \<lparr>or_outcome = outcome_of d msg,
                  or_terminals = expiry_records r m @ records_for_indices m D reason\<rparr>"
      "m' = m\<lparr>mb_queue := nths (mb_queue m) (- (expired_set r m \<union> set D)) @ new_item d msg dl,
              mb_queued_bytes := b, mb_offers := o', mb_terminals := t'\<rparr>"
      "mailbox_inv m'"
proof (cases res)
  case (Inl f)
  with try_offer_fail [OF inv, of msg r f m'] res show thesis by (auto intro: fails)
next
  case (Inr rep)
  show thesis
  proof (cases "mb_lifecycle m = Accepting")
    case False
    with res Inr inv obtain o' where "checked_terminal CatClosed (mb_offers m) = Inr o'"
      "rep = \<lparr>or_outcome = OfferClosed msg, or_terminals = []\<rparr>" "m' = m\<lparr>mb_offers := o'\<rparr>"
      by (auto simp: try_offer_def and_then_st_eq_Inr offer_err_simps)
    with False Inr show thesis by (intro refused) simp_all
  next
    case True
    have ok: "mailbox_ok m" using inv by (simp add: mailbox_inv_def)
    from res Inr inv True obtain fe re dl qe items where
      reading: "ensure_reading m r = Inr ()" and
      fresh: "is_expired_at (vm_fresh_until msg) r = Inr fe" and run: "is_expired_at (vm_run_deadline msg) r = Inr re" and
      age: "try_deadline_after r (ml_max_queue_age (mb_limits m)) = Inr dl" "is_expired_at dl r = Inr qe" and
      items: "expired_items m r = Inr items" and
      on_clock: "offer_on_clock msg (fe \<or> re \<or> qe) dl items m = (Inr rep, m')"
      by (auto simp: try_offer_def and_then_st_eq_Inr offer_err_simps map_err_eq_Inr)
    define E where "E = indices_for_expired_items items"
    define live where "live = live_indices_excluding m E"
    note view = expired_items_ok [OF ok reading items, folded E_def]
    define d0 where "d0 = initial_decision m msg (fe \<or> re \<or> qe)
      (btree_has (mb_inflight m) (vm_id msg) \<or> (\<exists>i \<in> set live. vm_id (qm_message (mb_queue m ! i)) = vm_id msg))"
    from on_clock obtain t plan where t: "checked_increment_records (expiry_records r m) (mb_terminals m) = Inr t"
      and plan: "(if d0 = PlanAdmit then plan_admission m msg E live else Inr (d0, [], Evicted)) = Inr plan"
      and commit: "offer_commit msg dl items t plan m = (Inr rep, m')"
      unfolding offer_on_clock_def Let_def and_then_st_eq_Inr offer_err_simps
        E_def [symmetric] live_def [symmetric] d0_def [symmetric] view(3) by blast
    obtain d D reason where p: "plan = (d, D, reason)" by (cases plan) auto
    have refuse: "d \<noteq> PlanAdmit \<Longrightarrow> D = []"
      using plan p plan_refuse [of m msg E live d D reason] by (auto split: if_splits)
    have admit: "d0 = PlanAdmit \<and> plan_admission m msg E live = Inr (PlanAdmit, D, reason)" if "d = PlanAdmit"
      using plan p that by (auto split: if_splits)
    have sub: "set D \<subseteq> set live"
      using refuse plan_admit(1) [OF ok view(1) live_def] admit by (cases "d = PlanAdmit") auto
    have clock: "item_on_clock m \<lparr>qm_message = msg, qm_queue_age_deadline = dl\<rparr>"
      using reading fresh run age by (auto simp: item_on_clock_def res_simps same_clock_def)
    have adm: "fits m (ph_charged_bytes (vm_payload msg)) (nths (mb_queue m) (- (expired_set r m \<union> set D))) \<and>
        displaces m msg E live D \<and>
        item_expiry r \<lparr>qm_message = msg, qm_queue_age_deadline = dl\<rparr> = None \<and>
        vm_schema msg = mb_schema m \<and> vm_class msg = mb_message_class m \<and>
        vm_id msg \<notin> set (queue_ids (live_at r m)) \<union> set (map fst (mb_inflight m))" if "d = PlanAdmit"
    proof -
      from admit [OF that] have d0: "d0 = PlanAdmit" and pl: "plan_admission m msg E live = Inr (PlanAdmit, D, reason)"
        by simp_all
      have "\<not> (fe \<or> re \<or> qe)" and "vm_schema msg = mb_schema m" "vm_class msg = mb_message_class m"
        and dup: "btree_get (mb_inflight m) (vm_id msg) = None"
          "\<not> (\<exists>i \<in> set live. vm_id (qm_message (mb_queue m ! i)) = vm_id msg)"
        using d0 unfolding d0_def initial_decision_def by (simp_all split: if_splits)
      moreover from this(1) have "item_expiry r \<lparr>qm_message = msg, qm_queue_age_deadline = dl\<rparr> = None"
        using fresh run age(2) by (simp add: item_expiry_def res_simps min_def Let_def)
      moreover have "vm_id msg \<notin> set (queue_ids (live_at r m)) \<union> set (map fst (mb_inflight m))"
        using dup live_ids [OF view(1), of "vm_id msg"] by (simp add: live_def btree_get_None_iff)
      ultimately show ?thesis using plan_admit(2,3) [OF ok view(1) live_def pl] by (simp add: view(1))
    qed
    have D: "set D \<subseteq> {..<length (mb_queue m)} - expired_set r m"
      using sub by (auto simp: live_def live_indices_excluding_def view(1))
    have open_: "mb_lifecycle m \<noteq> Closed" using True by simp
    have admits: "fits m (ph_charged_bytes (vm_payload msg)) (nths (mb_queue m) (- (expired_set r m \<union> set D))) \<and>
        item_on_clock m \<lparr>qm_message = msg, qm_queue_age_deadline = dl\<rparr> \<and>
        vm_id msg \<notin> set (queue_ids (live_at r m)) \<union> set (map fst (mb_inflight m))" if "d = PlanAdmit"
      using adm [OF that] clock by blast
    obtain b t' o' where "checked_increment_records (records_for_indices m D reason) t = Inr t'"
      "checked_terminal (the (offer_category d)) (mb_offers m) = Inr o'"
      "rep = \<lparr>or_outcome = outcome_of d msg,
            or_terminals = expiry_records r m @ records_for_indices m D reason\<rparr>"
      "m' = m\<lparr>mb_queue := nths (mb_queue m) (- (expired_set r m \<union> set D)) @ new_item d msg dl,
            mb_queued_bytes := b, mb_offers := o', mb_terminals := t'\<rparr>"
      "mailbox_inv m'"
      by (rule offer_commit_ok [OF inv reading open_ view(1) [unfolded E_def] view(3) t D admits commit [unfolded p]])
    with True reading view(1) sub adm refuse t Inr show thesis
      by (intro decided [of E D d dl t reason t' o' b]) (auto simp: live_def)
  qed
qed

section \<open>Pressure policies on the live queue\<close>

text \<open>
  The items of a live queue each pressure policy keeps when it admits a message: \<open>RejectNew\<close> and
  \<open>BlockUntilDeadline\<close> keep all of them, \<open>Latest\<close> none, \<open>CoalesceByKey\<close> all but the most recent one
  with the message's key, and \<open>DropOldest\<close> drops the shortest prefix that makes room.
\<close>

definition keeps :: "Mailbox \<Rightarrow> ValidatedMessage \<Rightarrow> QueuedMessage list \<Rightarrow> QueuedMessage list \<Rightarrow> bool" where
  "keeps m msg live kept \<longleftrightarrow>
     (let same_key = (\<lambda>item. vm_coalesce_key (qm_message item) = vm_coalesce_key msg) in
      case ml_overflow (mb_limits m) of
        RejectNew \<Rightarrow> kept = live
      | BlockUntilDeadline \<Rightarrow> kept = live
      | Latest \<Rightarrow> kept = []
      | CoalesceByKey \<Rightarrow> kept = live \<and> (\<forall>item \<in> set live. \<not> same_key item) \<or>
          (\<exists>older old newer. live = older @ old # newer \<and> same_key old \<and>
             (\<forall>item \<in> set newer. \<not> same_key item) \<and> kept = older @ newer)
      | DropOldest \<Rightarrow> \<exists>n. kept = drop n live \<and>
          (\<forall>k < n. \<not> fits m (ph_charged_bytes (vm_payload msg)) (drop k live)))"

lemma nths_map_nth: "nths q A = map ((!) q) (filter (\<lambda>i. i \<in> A) [0..<length q])"
proof -
  have "zip q [0..<length q] = map (\<lambda>i. (q ! i, i)) [0..<length q]"
    by (rule nth_equalityI) simp_all
  then show ?thesis by (simp add: nths_def filter_map comp_def)
qed

lemma kept_live:
  assumes "set E = expired_set r m"
  shows "nths (mb_queue m) (- (expired_set r m \<union> set D)) =
    map ((!) (mb_queue m)) (filter (\<lambda>i. i \<notin> set D) (live_indices_excluding m E))"
  using assms by (simp add: nths_map_nth live_indices_excluding_def filter_filter conj_commute)

lemma live_indices_view:
  assumes "set E = expired_set r m"
  shows "map ((!) (mb_queue m)) (live_indices_excluding m E) = live_at r m"
  using kept_live [OF assms, of "[]"] by simp

lemma filter_not_take: "distinct xs \<Longrightarrow> filter (\<lambda>i. i \<notin> set (take n xs)) xs = drop n xs"
proof -
  assume "distinct xs"
  then have "set (take n xs) \<inter> set (drop n xs) = {}" by (rule set_take_disj_set_drop_if_distinct) simp
  then have "filter (\<lambda>i. i \<notin> set (take n xs)) (take n xs) = []"
    "filter (\<lambda>i. i \<notin> set (take n xs)) (drop n xs) = drop n xs"
    by (auto simp: filter_empty_conv filter_id_conv)
  then show ?thesis
    using filter_append [of "\<lambda>i. i \<notin> set (take n xs)" "take n xs" "drop n xs"] by simp
qed

lemma find_rev_split:
  "List.find P (rev xs) = Some x \<Longrightarrow> \<exists>ys zs. xs = ys @ x # zs \<and> P x \<and> (\<forall>z \<in> set zs. \<not> P z)"
proof (induction xs rule: rev_induct)
  case (snoc a xs)
  show ?case
  proof (cases "P a")
    case True
    with snoc.prems show ?thesis by (intro exI [of _ xs] exI [of _ "[]"]) simp
  next
    case False
    with snoc obtain ys zs where "xs = ys @ x # zs" "P x" "\<forall>z \<in> set zs. \<not> P z" by auto
    with False show ?thesis by (intro exI [of _ ys] exI [of _ "zs @ [a]"]) auto
  qed
qed simp

lemma displaces_keeps:
  assumes E: "set E = expired_set r m" and D: "displaces m msg E (live_indices_excluding m E) D"
  shows "keeps m msg (live_at r m) (nths (mb_queue m) (- (expired_set r m \<union> set D)))"
proof -
  let ?q = "mb_queue m" and ?L = "live_indices_excluding m E"
  let ?key = "\<lambda>item. vm_coalesce_key (qm_message item) = vm_coalesce_key msg"
  have dist: "distinct ?L" by (simp add: live_indices_excluding_def)
  note live = live_indices_view [OF E, symmetric]
  have take: "nths ?q (- (expired_set r m \<union> set (take n ?L))) = drop n (live_at r m)" for n
    by (simp only: kept_live [OF E] filter_not_take [OF dist] live drop_map)
  show ?thesis
  proof (cases "ml_overflow (mb_limits m)")
    case CoalesceByKey
    show ?thesis
    proof (cases "List.find (\<lambda>i. ?key (?q ! i)) (rev ?L)")
      case None
      with CoalesceByKey D take [of 0] show ?thesis
        by (auto simp: displaces_def keeps_def live find_None_iff)
    next
      case (Some i)
      then obtain ys zs where split: "?L = ys @ i # zs" "?key (?q ! i)" "\<forall>z \<in> set zs. \<not> ?key (?q ! z)"
        using find_rev_split [OF Some] by blast
      from CoalesceByKey D Some have "D = [i]" by (simp add: displaces_def)
      moreover from dist split(1) have "filter (\<lambda>j. j \<noteq> i) ys = ys" "filter (\<lambda>j. j \<noteq> i) zs = zs"
        by (auto simp: filter_id_conv)
      ultimately have "filter (\<lambda>i. i \<notin> set D) ?L = ys @ zs" using split(1) by simp
      then have "nths ?q (- (expired_set r m \<union> set D)) = map ((!) ?q) ys @ map ((!) ?q) zs"
        by (simp only: kept_live [OF E] map_append)
      moreover have "live_at r m = map ((!) ?q) ys @ ?q ! i # map ((!) ?q) zs" by (simp add: live split(1))
      moreover have "\<forall>item \<in> set (map ((!) ?q) zs). \<not> ?key item" using split(3) by simp
      ultimately show ?thesis using CoalesceByKey split(2)
        unfolding keeps_def Let_def by (simp only: OverflowPolicy.case) blast
    qed
  next
    case DropOldest
    with D obtain n where n: "D = take n ?L" and
      min: "\<forall>k < n. \<not> fits m (ph_charged_bytes (vm_payload msg))
          (nths ?q (- (expired_set r m \<union> set (take k ?L))))"
      by (auto simp: displaces_def E)
    with DropOldest show ?thesis by (auto simp only: keeps_def take Let_def OverflowPolicy.case n)
  next
    case Latest
    with D take [of "length ?L"] show ?thesis by (simp add: displaces_def keeps_def live)
  qed (use D take [of 0] in \<open>simp_all add: displaces_def keeps_def\<close>)
qed


lemma displaced_count:
  assumes E: "set E = expired_set r m" and D: "set D \<subseteq> set (live_indices_excluding m E)"
  shows "length (records_for_indices m D reason) + length (nths (mb_queue m) (- (expired_set r m \<union> set D))) =
    length (live_at r m)"
proof -
  let ?L = "live_indices_excluding m E"
  have "filter (\<lambda>i. i \<in> set D) [0..<length (mb_queue m)] = filter (\<lambda>i. i \<in> set D) ?L"
    using D by (auto simp: live_indices_excluding_def intro!: filter_cong)
  then have "length (records_for_indices m D reason) = length (filter (\<lambda>i. i \<in> set D) ?L)"
    by (simp add: records_for_indices_eq nths_map_nth)
  moreover have "length (nths (mb_queue m) (- (expired_set r m \<union> set D))) = length (filter (\<lambda>i. i \<notin> set D) ?L)"
    by (simp only: kept_live [OF E] length_map)
  moreover have "length ?L = length (live_at r m)"
    using arg_cong [OF live_indices_view [OF E], of length] by simp
  ultimately show ?thesis using sum_length_filter_compl [of "\<lambda>i. i \<in> set D" ?L] by simp
qed

end
