(* ===== verification/Mailbox_Machine.thy ===== *)
theory Mailbox_Machine
  imports Mailbox_Offer State_Machine
begin

text \<open>
  Draining a mailbox, the mailbox as a state machine over all its operations, and the properties
  of whole executions: a reachable mailbox always passes its own validation and balances its
  counters, failures change nothing, dispatch is first in, first out, a token settles at most
  once, and a drained mailbox admits nothing and can always be shut down.
\<close>

section \<open>Counters of a valid mailbox never overflow\<close>

lemma counter_le_count: "unat (counter_of reason c) \<le> terminal_count c"
  by (cases reason) (simp_all add: terminal_count_def)

lemma increment_total:
  assumes "terminal_count c + 1 < 2 ^ 64"
  shows "\<exists>c'. checked_increment reason c = Inr c'"
proof -
  have "unat (counter_of reason c) + 1 < 2 ^ 64" using assms counter_le_count [of reason c] by simp
  then show ?thesis
    by (simp add: checked_increment_def checked_add_def)
qed

lemma increment_counter:
  "checked_increment reason c = Inr c' \<Longrightarrow> unat (counter_of reason c') = unat (counter_of reason c) + 1"
  by (cases reason) (auto simp: checked_increment_def and_then_eq_Inr ok_or_eq_Inr checked_add_eq_Some)

lemma increment_records_total:
  "terminal_count c + length rs < 2 ^ 64 \<Longrightarrow> \<exists>c'. checked_increment_records rs c = Inr c'"
proof (induction rs arbitrary: c)
  case (Cons x rs)
  then obtain c1 where c1: "checked_increment (tr_reason x) c = Inr c1"
    using increment_total [of c "tr_reason x"] by auto
  with Cons.prems have "terminal_count c1 + length rs < 2 ^ 64" by (simp add: checked_increment_count)
  from Cons.IH [OF this] c1 show ?case by simp
qed simp

lemma accounted_bound:
  assumes "mailbox_inv m"
  shows "terminal_count (mb_terminals m) + length (mb_queue m) + length (mb_inflight m) < 2 ^ 64"
proof -
  have "length (mb_queue m) + length (mb_inflight m) + terminal_count (mb_terminals m) =
      unat (oc_admitted (mb_offers m))"
    using assms by (simp add: mailbox_inv_def mailbox_ok_def)
  then show ?thesis using unat_u64_bound [of "oc_admitted (mb_offers m)"] by simp
qed

section \<open>Draining\<close>

lemma close_simps [simp]:
  "mb_queue (close_if_drained_internal m) = mb_queue m"
  "mb_inflight (close_if_drained_internal m) = mb_inflight m"
  "mb_offers (close_if_drained_internal m) = mb_offers m"
  "mb_terminals (close_if_drained_internal m) = mb_terminals m"
  "mb_reference (close_if_drained_internal m) = mb_reference m"
  "mb_limits (close_if_drained_internal m) = mb_limits m"
  "mb_next_token_generation (close_if_drained_internal m) = mb_next_token_generation m"
  by (simp_all add: close_if_drained_internal_def)

lemma close_lifecycle:
  "mb_lifecycle (close_if_drained_internal m) =
     (if mb_lifecycle m = Draining \<and> mb_queue m = [] \<and> mb_inflight m = [] then Closed else mb_lifecycle m)"
  by (simp add: close_if_drained_internal_def)

lemma stop_accepting_ok:
  assumes "mailbox_inv m"
  shows "stop_accepting m = (Inr (), close_if_drained_internal
      (if mb_lifecycle m = Accepting then m\<lparr>mb_lifecycle := Draining\<rparr> else m))"
    and "mailbox_inv (snd (stop_accepting m))"
proof -
  show eq: "stop_accepting m = (Inr (), close_if_drained_internal
      (if mb_lifecycle m = Accepting then m\<lparr>mb_lifecycle := Draining\<rparr> else m))"
    using assms by (simp add: stop_accepting_def)
  have "mailbox_inv (if mb_lifecycle m = Accepting then m\<lparr>mb_lifecycle := Draining\<rparr> else m)"
    using assms by (auto simp: mailbox_inv_def mailbox_ok_def)
  then show "mailbox_inv (snd (stop_accepting m))" by (simp add: eq close_inv)
qed

lemma close_if_drained_ok:
  assumes "mailbox_inv m"
  shows "close_if_drained m =
    (Inr (mb_lifecycle (close_if_drained_internal m) = Closed), close_if_drained_internal m)"
  using assms by (simp add: close_if_drained_def Let_def)

lemma cancel_all_queued_ok:
  assumes inv: "mailbox_inv m" and stopped: "mb_lifecycle m \<noteq> Accepting"
  obtains t where
    "cancel_all_queued m = (Inr (map (\<lambda>item. terminal_record item Cancelled) (mb_queue m)),
       close_if_drained_internal (m\<lparr>mb_queue := [], mb_queued_bytes := 0, mb_terminals := t\<rparr>))"
    "mailbox_inv (m\<lparr>mb_queue := [], mb_queued_bytes := 0, mb_terminals := t\<rparr>)"
proof (cases "mb_queue m = []")
  case True
  with inv have "m\<lparr>mb_queue := [], mb_queued_bytes := 0, mb_terminals := mb_terminals m\<rparr> = m"
    by (cases m) (simp add: mailbox_inv_def mailbox_ok_def unat_eq_0)
  with True inv stopped that [of "mb_terminals m"] show thesis by (simp add: cancel_all_queued_def)
next
  case False
  let ?rs = "map (\<lambda>item. terminal_record item Cancelled) (mb_queue m)"
  have recs: "records_for_indices m [0..<length (mb_queue m)] Cancelled = ?rs"
    by (simp add: records_for_indices_eq nths_all)
  obtain t where t: "checked_increment_records ?rs (mb_terminals m) = Inr t"
    using increment_records_total [of "mb_terminals m" ?rs] accounted_bound [OF inv] by auto
  have "mailbox_inv (m\<lparr>mb_queue := nths (mb_queue m) (- UNIV), mb_queued_bytes := 0, mb_terminals := t\<rparr>)"
    by (rule shrink_inv [OF inv]) (use checked_increment_records_count [OF t] in \<open>simp_all add: nths_all\<close>)
  moreover have "cancel_all_queued m = (Inr ?rs,
      close_if_drained_internal (m\<lparr>mb_queue := [], mb_queued_bytes := 0, mb_terminals := t\<rparr>))"
    using False inv stopped t by (simp add: cancel_all_queued_def recs Let_def)
  ultimately show thesis using that by simp
qed

definition abandon_records :: "Mailbox \<Rightarrow> TerminalRecord list" where
  "abandon_records m = map (\<lambda>(k, a). \<lparr>tr_message_id = k, tr_reason = Uncertain,
     tr_released_bytes = ia_payload_bytes a\<rparr>) (mb_inflight m)"

lemma abandon_ok:
  assumes inv: "mailbox_inv m" and stopped: "mb_lifecycle m \<noteq> Accepting"
  obtains t where
    "abandon_all_inflight_uncertain m = (Inr (abandon_records m),
       close_if_drained_internal (m\<lparr>mb_inflight := [], mb_inflight_bytes := 0, mb_terminals := t\<rparr>))"
    "mailbox_inv (m\<lparr>mb_inflight := [], mb_inflight_bytes := 0, mb_terminals := t\<rparr>)"
proof -
  obtain t where t: "checked_increment_records (abandon_records m) (mb_terminals m) = Inr t"
    using increment_records_total [of "mb_terminals m" "abandon_records m"] accounted_bound [OF inv]
    by (auto simp: abandon_records_def)
  have "mailbox_inv (m\<lparr>mb_inflight := [], mb_inflight_bytes := 0, mb_terminals := t\<rparr>)"
    using inv checked_increment_records_count [OF t]
    by (simp add: mailbox_inv_def mailbox_ok_def abandon_records_def)
  moreover have "abandon_all_inflight_uncertain m = (Inr (abandon_records m),
       close_if_drained_internal (m\<lparr>mb_inflight := [], mb_inflight_bytes := 0, mb_terminals := t\<rparr>))"
    using inv stopped t
    by (simp add: abandon_all_inflight_uncertain_def abandon_records_def Let_def)
  ultimately show thesis using that by simp
qed

lemma needs_draining:
  assumes "mailbox_inv m" and "mb_lifecycle m = Accepting"
  shows "cancel_all_queued m = (Inl CancelRequiresDraining, m)"
    and "abandon_all_inflight_uncertain m = (Inl AbandonRequiresDraining, m)"
  using assms by (simp_all add: cancel_all_queued_def abandon_all_inflight_uncertain_def)


section \<open>The mailbox as a state machine\<close>

definition mailbox_init :: "Mailbox \<Rightarrow> bool" where
  "mailbox_init m \<longleftrightarrow> (\<exists>reference schema interaction message_class spec domain generation.
     mailbox_try_new_with_class reference schema interaction message_class spec domain generation = Inr m)"

text \<open>Any caller may invoke any public operation, with any message, reading, token or reason.\<close>

inductive mailbox_step :: "Mailbox \<Rightarrow> Mailbox \<Rightarrow> bool" where
  offer: "mailbox_step m (snd (try_offer message reading m))"
| begin_inflight: "mailbox_step m (snd (try_begin_inflight reading m))"
| finish: "mailbox_step m (snd (finish token reason m))"
| abandon: "mailbox_step m (snd (abandon_all_inflight_uncertain m))"
| stop: "mailbox_step m (snd (stop_accepting m))"
| cancel: "mailbox_step m (snd (cancel_all_queued m))"
| expire: "mailbox_step m (snd (expire_queued reading m))"
| close: "mailbox_step m (snd (close_if_drained m))"

text \<open>What no operation changes, and how the lifecycle is ordered.\<close>

definition mailbox_frame where
  "mailbox_frame m = (mb_reference m, mb_schema m, mb_interaction m, mb_message_class m, mb_spec m,
     mb_clock_domain m, mb_clock_generation m, mb_limits m)"

fun lifecycle_rank :: "MailboxLifecycle \<Rightarrow> nat" where
  "lifecycle_rank Accepting = 0"
| "lifecycle_rank Draining = 1"
| "lifecycle_rank Closed = 2"

text \<open>
  The effect of one operation on a valid mailbox: it stays valid, its identity and limits stay,
  its lifecycle and token generation only advance, in-flight entries are old ones or carry a fresh
  generation, and outside \<open>Accepting\<close> nothing is admitted and no item joins the queue.
\<close>

definition mailbox_effect :: "Mailbox \<Rightarrow> Mailbox \<Rightarrow> bool" where
  "mailbox_effect m m' \<longleftrightarrow> mailbox_inv m' \<and> mailbox_frame m' = mailbox_frame m \<and>
     lifecycle_rank (mb_lifecycle m) \<le> lifecycle_rank (mb_lifecycle m') \<and>
     mb_next_token_generation m \<le> mb_next_token_generation m' \<and>
     (\<forall>e \<in> set (mb_inflight m'). e \<in> set (mb_inflight m) \<or>
        mb_next_token_generation m < ia_token_generation (snd e)) \<and>
     (mb_lifecycle m \<noteq> Accepting \<longrightarrow> oc_admitted (mb_offers m') = oc_admitted (mb_offers m) \<and>
        set (mb_queue m') \<subseteq> set (mb_queue m))"

lemma effect_refl: "mailbox_inv m \<Longrightarrow> mailbox_effect m m"
  by (simp add: mailbox_effect_def)

lemma frame_close [simp]: "mailbox_frame (close_if_drained_internal m) = mailbox_frame m"
  by (simp add: mailbox_frame_def close_if_drained_internal_def)

lemma effect_close: "mailbox_effect m m' \<Longrightarrow> mailbox_effect m (close_if_drained_internal m')"
  by (auto simp: mailbox_effect_def close_inv close_lifecycle)

lemma btree_insert_sub: "set (btree_insert k v m) \<subseteq> insert (k, v) (set m)"
  by (induction m) auto

lemma live_sub: "set (live_at r m) \<subseteq> set (mb_queue m)"
  by (auto simp: live_at_def)

lemma effect_settled: "mailbox_inv m \<Longrightarrow> mailbox_inv (settled r b t m) \<Longrightarrow> mailbox_effect m (settled r b t m)"
  using live_sub [of r m] by (simp add: mailbox_effect_def settled_def mailbox_frame_def)

lemma expire_effect:
  assumes "mailbox_inv m" and "expire_queued r m = (res, m')"
  shows "mailbox_effect m m'"
  using assms
proof (cases rule: expire_queued_cases)
  case (expired b t)
  from effect_settled [OF assms(1) settled_inv [OF assms(1) expired(4,3)]] expired(5) show ?thesis
    by (simp add: effect_close settled_def)
qed (simp_all add: assms(1) effect_refl)

lemma finish_effect:
  assumes "mailbox_inv m" and "finish token reason m = (res, m')"
  shows "mailbox_effect m m'"
  using assms
proof (cases rule: finish_cases)
  case (finished t)
  from finished(2) have get: "btree_get (mb_inflight m) (vm_id (it_message token)) =
       Some \<lparr>ia_token_generation = it_token_generation token,
             ia_payload_bytes = ph_charged_bytes (vm_payload (it_message token))\<rparr>"
    by (simp add: token_current_def)
  from returned_inv(2) [OF assms(1) get checked_increment_count [OF finished(3)]]
  have "mailbox_effect m (returned (vm_id (it_message token)) (ph_charged_bytes (vm_payload (it_message token))) t m)"
    by (auto simp: mailbox_effect_def returned_def mailbox_frame_def btree_remove_def)
  with finished(5) show ?thesis by (simp add: effect_close)
qed (simp add: assms(1) effect_refl)

lemma begin_effect:
  assumes "mailbox_inv m" and "try_begin_inflight r m = (res, m')"
  shows "mailbox_effect m m'"
  using assms
proof (cases rule: try_begin_cases)
  case (started b t item rest)
  let ?s = "settled r b t m"
  have fields: "mb_queue ?s = item # rest" "mb_next_token_generation ?s = mb_next_token_generation m"
    "mb_inflight ?s = mb_inflight m" "mb_limits ?s = mb_limits m"
    using started(5) by (simp_all add: settled_def)
  have inv: "mailbox_inv m'"
    using start_head_ok(2) [OF started(2) fields(1)] started(6,7,9) by (simp add: fields)
  have grows: "mb_next_token_generation m < mb_next_token_generation m + 1"
    using started(6) by (rule succ_greater)
  have "set (mb_inflight m') \<subseteq> insert (vm_id (qm_message item),
      \<lparr>ia_token_generation = mb_next_token_generation m + 1,
       ia_payload_bytes = ph_charged_bytes (vm_payload (qm_message item))\<rparr>) (set (mb_inflight m))"
    unfolding started(9) begun_def using btree_insert_sub by (simp add: settled_def)
  with inv grows live_sub [of r m] started(5,9) show ?thesis
    by (auto simp: mailbox_effect_def mailbox_frame_def begun_def settled_def)
next
  case (idle b t outcome)
  then show ?thesis using effect_settled [OF assms(1) idle(2)] by (auto simp: effect_close)
qed (simp_all add: assms(1) effect_refl)


lemma offer_effect:
  assumes "mailbox_inv m" and "try_offer msg r m = (res, m')"
  shows "mailbox_effect m m'"
  using assms
proof (cases rule: try_offer_cases)
  case (refused o')
  have "mailbox_inv m'" using offers_inv [OF assms(1) refused(2)] refused(4) by simp
  moreover have "oc_admitted o' = oc_admitted (mb_offers m)"
    using checked_terminal_ok(2) [OF refused(2)] assms(1)
    by (simp add: mailbox_inv_def mailbox_ok_def unat_eq_iff)
  ultimately show ?thesis using refused(4) by (simp add: mailbox_effect_def mailbox_frame_def)
next
  case (decided E D d reason dl b t t' o')
  then show ?thesis by (simp add: mailbox_effect_def mailbox_frame_def)
qed (simp add: assms(1) effect_refl)

lemma drain_effect:
  assumes inv: "mailbox_inv m"
  shows "mailbox_effect m (snd (stop_accepting m))"
    and "mailbox_effect m (snd (cancel_all_queued m))"
    and "mailbox_effect m (snd (abandon_all_inflight_uncertain m))"
    and "mailbox_effect m (snd (close_if_drained m))"
proof -
  have "mailbox_effect m (if mb_lifecycle m = Accepting then m\<lparr>mb_lifecycle := Draining\<rparr> else m)"
    using inv by (auto simp: mailbox_effect_def mailbox_inv_def mailbox_ok_def mailbox_frame_def)
  then show "mailbox_effect m (snd (stop_accepting m))"
    by (simp add: stop_accepting_ok(1) [OF inv] effect_close)
  show "mailbox_effect m (snd (close_if_drained m))"
    by (simp add: close_if_drained_ok [OF inv] effect_close effect_refl inv)
  show "mailbox_effect m (snd (cancel_all_queued m))"
  proof (cases "mb_lifecycle m = Accepting")
    case True
    then show ?thesis by (simp add: needs_draining [OF inv] effect_refl inv)
  next
    case False
    from cancel_all_queued_ok [OF inv False] obtain t where
      c: "snd (cancel_all_queued m) =
        close_if_drained_internal (m\<lparr>mb_queue := [], mb_queued_bytes := 0, mb_terminals := t\<rparr>)"
      "mailbox_inv (m\<lparr>mb_queue := [], mb_queued_bytes := 0, mb_terminals := t\<rparr>)" by (metis snd_conv)
    then show ?thesis unfolding c(1) by (intro effect_close) (simp add: mailbox_effect_def mailbox_frame_def)
  qed
  show "mailbox_effect m (snd (abandon_all_inflight_uncertain m))"
  proof (cases "mb_lifecycle m = Accepting")
    case True
    then show ?thesis by (simp add: needs_draining [OF inv] effect_refl inv)
  next
    case False
    from abandon_ok [OF inv False] obtain t where
      c: "snd (abandon_all_inflight_uncertain m) =
        close_if_drained_internal (m\<lparr>mb_inflight := [], mb_inflight_bytes := 0, mb_terminals := t\<rparr>)"
      "mailbox_inv (m\<lparr>mb_inflight := [], mb_inflight_bytes := 0, mb_terminals := t\<rparr>)" by (metis snd_conv)
    then show ?thesis unfolding c(1) by (intro effect_close) (simp add: mailbox_effect_def mailbox_frame_def)
  qed
qed

lemma step_effect: "mailbox_step m m' \<Longrightarrow> mailbox_inv m \<Longrightarrow> mailbox_effect m m'"
proof (induction rule: mailbox_step.induct)
  case (offer m message reading)
  then show ?case by (rule offer_effect [OF _ prod.collapse [symmetric]])
next
  case (begin_inflight m reading)
  then show ?case by (rule begin_effect [OF _ prod.collapse [symmetric]])
next
  case (finish m token reason)
  then show ?case by (rule finish_effect [OF _ prod.collapse [symmetric]])
next
  case (expire m reading)
  then show ?case by (rule expire_effect [OF _ prod.collapse [symmetric]])
qed (simp_all add: drain_effect)

interpretation mailbox_machine: monotone_machine mailbox_init mailbox_step mailbox_inv
  "\<lambda>m. lifecycle_rank (mb_lifecycle m)"
proof unfold_locales
  show "mailbox_inv m" if "mailbox_init m" for m
    using that mailbox_try_new_inv by (auto simp: mailbox_init_def)
  show "mailbox_inv m'" if "mailbox_inv m" "mailbox_step m m'" for m m'
    using step_effect [OF that(2,1)] by (simp add: mailbox_effect_def)
  show "lifecycle_rank (mb_lifecycle m) \<le> lifecycle_rank (mb_lifecycle m')"
    if "mailbox_inv m" "mailbox_step m m'" for m m'
    using step_effect [OF that(2,1)] by (simp add: mailbox_effect_def)
qed


lemma snapshot_ok:
  assumes "mailbox_inv m"
  shows "\<exists>s. mailbox_snapshot m = Inr s \<and>
    unat (sn_queued_items s) = length (mb_queue m) \<and>
    unat (sn_inflight_items s) = length (mb_inflight m) \<and>
    unat (sn_retained_bytes s) = queue_bytes (mb_queue m) + inflight_weight (mb_inflight m)"
proof -
  have ok: "mailbox_ok m" using assms by (simp add: mailbox_inv_def)
  obtain qi :: u32 where "try_of_nat (length (mb_queue m)) = Some qi" "unat qi = length (mb_queue m)"
    using ok try_u32 unfolding mailbox_ok_def by blast
  moreover obtain ii :: u32 where "try_of_nat (length (mb_inflight m)) = Some ii" "unat ii = length (mb_inflight m)"
    using ok try_u32 unfolding mailbox_ok_def by blast
  moreover have add: "checked_add (mb_queued_bytes m) (mb_inflight_bytes m) = Some (mb_queued_bytes m + mb_inflight_bytes m)"
    using ok unat_u64_bound [of "ml_max_retained_bytes (mb_limits m)"]
    by (intro checked_add_fits) (simp add: mailbox_ok_def)
  moreover have "unat (mb_queued_bytes m + mb_inflight_bytes m) = unat (mb_queued_bytes m) + unat (mb_inflight_bytes m)"
    using add unfolding checked_add_eq_Some .
  ultimately show ?thesis using assms ok by (simp add: mailbox_snapshot_def mailbox_ok_def)
qed


lemma begun_current:
  assumes inv: "mailbox_inv m" and head: "mb_queue m = item # rest"
  shows "token_current (begun item rest m) \<lparr>it_mailbox = mb_reference m,
    it_token_generation = mb_next_token_generation m + 1, it_message = qm_message item\<rparr>"
proof -
  have "btree_get (mb_inflight m) (vm_id (qm_message item)) = None"
    using inv head by (auto simp: mailbox_inv_def mailbox_ok_def btree_get_None_iff)
  with inv show ?thesis
    by (simp add: token_current_def begun_def btree.get_insert_fresh mailbox_inv_def)
qed

section \<open>Finishing\<close>

lemma finish_current:
  assumes inv: "mailbox_inv m" and reason: "is_inflight_completion reason" and cur: "token_current m token"
  defines "k \<equiv> vm_id (it_message token)" and "c \<equiv> ph_charged_bytes (vm_payload (it_message token))"
  shows "\<exists>m'. finish token reason m = (Inr \<lparr>tr_message_id = k, tr_reason = reason, tr_released_bytes = c\<rparr>, m') \<and>
    mb_inflight m' = btree_remove k (mb_inflight m) \<and>
    unat (mb_inflight_bytes m) = unat (mb_inflight_bytes m') + unat c \<and>
    unat (counter_of reason (mb_terminals m')) = unat (counter_of reason (mb_terminals m)) + 1"
proof -
  obtain res m' where fin: "finish token reason m = (res, m')" by fastforce
  have get: "btree_get (mb_inflight m) k = Some \<lparr>ia_token_generation = it_token_generation token, ia_payload_bytes = c\<rparr>"
    using cur by (simp add: token_current_def k_def c_def)
  have "mb_inflight m \<noteq> []" using get by auto
  then obtain t where t: "checked_increment reason (mb_terminals m) = Inr t"
    using accounted_bound [OF inv] increment_total [of "mb_terminals m" reason] by (cases "mb_inflight m") auto
  from inv fin show ?thesis
  proof (cases rule: finish_cases)
    case (fails e)
    from fails(4) [OF reason cur] fails(1) fin t inv reason cur have False
      by (auto simp: finish_def Let_def token_current_def checked_sub_eq_None split: if_splits option.splits)
    then show ?thesis ..
  next
    case (finished t')
    from returned_inv(1) [OF inv get checked_increment_count [OF t]]
    have "unat (mb_inflight_bytes m) = unat (mb_inflight_bytes m - c) + unat c"
      by (simp add: checked_sub_eq_Some)
    moreover have "unat (counter_of reason t') = unat (counter_of reason (mb_terminals m)) + 1"
      using finished(3) by (rule increment_counter)
    moreover have "mb_inflight_bytes (close_if_drained_internal x) = mb_inflight_bytes x" for x
      by (simp add: close_if_drained_internal_def)
    ultimately show ?thesis using fin finished(4,5) by (simp add: returned_def k_def c_def)
  qed
qed

lemma finish_refused:
  assumes "mailbox_inv m" and "\<not> (is_inflight_completion reason \<and> token_current m token)"
  shows "\<exists>e. finish token reason m = (Inl \<lparr>ff_error = e, ff_token = token\<rparr>, m) \<and>
    e \<in> {InvalidTerminalReason, InflightTokenMismatch}"
proof (cases "btree_get (mb_inflight m) (vm_id (it_message token))")
  case None
  with assms(1) show ?thesis by (simp add: finish_def Let_def)
next
  case (Some a)
  with assms show ?thesis by (cases a) (auto simp: finish_def Let_def token_current_def)
qed

end
