(* ===== verification/Mailbox_Properties.thy ===== *)
theory Mailbox_Properties
  imports Mailbox_Machine
begin

text \<open>
  The properties of the target mailbox over all executions of its operations, each with a
  concrete execution of a small mailbox (two items, eight bytes, dropping the oldest) that
  exercises it.
\<close>

section \<open>A small mailbox\<close>

definition demo_clock :: "u64 \<Rightarrow> ClockReading" where
  "demo_clock now = \<lparr>rd_domain = 1, rd_generation = 1, rd_now = now\<rparr>"

definition demo_deadline :: "u64 \<Rightarrow> MonotonicDeadline" where
  "demo_deadline at = \<lparr>dl_domain = 1, dl_generation = 1, dl_deadline = at\<rparr>"

definition demo_message :: "bytes16 \<Rightarrow> bytes \<Rightarrow> u64 \<Rightarrow> ValidatedMessage" where
  "demo_message i payload at =
     message_new (MessageId i) (ps_schema (demo_port In)) Signal None (demo_deadline at)
       \<lparr>ph_bytes = payload, ph_charged_bytes = of_nat (length payload)\<rparr>"

definition demo_item :: "bytes16 \<Rightarrow> bytes \<Rightarrow> u64 \<Rightarrow> u64 \<Rightarrow> QueuedMessage" where
  "demo_item i payload at age =
     \<lparr>qm_message = demo_message i payload at, qm_queue_age_deadline = demo_deadline age\<rparr>"

text \<open>A mailbox for two messages and eight bytes, with the given queue.\<close>

definition demo_mailbox :: "QueuedMessage list \<Rightarrow> u64 \<Rightarrow> u64 \<Rightarrow> Mailbox" where
  "demo_mailbox q bytes n =
     \<lparr>mb_reference = 7, mb_schema = ps_schema (demo_port In), mb_interaction = Signal,
      mb_message_class = ClassSignal, mb_spec = demo_mailbox_spec DropOldest, mb_clock_domain = 1,
      mb_clock_generation = 1,
      mb_limits = \<lparr>ml_capacity_items = 2, ml_capacity_bytes = 8, ml_max_queue_age = 50,
                   ml_max_inflight = 1, ml_max_retained_bytes = 10, ml_overflow = DropOldest\<rparr>,
      mb_lifecycle = Accepting, mb_queue = q, mb_inflight = [], mb_queued_bytes = bytes,
      mb_inflight_bytes = 0, mb_next_token_generation = 0,
      mb_offers = \<lparr>oc_offered = n, oc_admitted = n, oc_rejected = 0, oc_closed = 0,
                   oc_expired_before_admission = 0\<rparr>,
      mb_terminals = \<lparr>tc_completed = 0, tc_failed = 0, tc_cancelled = 0,
                      tc_expired_after_admission = 0, tc_stale_before_run = 0,
                      tc_run_deadline_expired = 0, tc_queue_age_expired = 0,
                      tc_evicted = 0, tc_coalesced = 0, tc_uncertain = 0\<rparr>\<rparr>"

lemma demo_mailbox_init: "mailbox_init (demo_mailbox [] 0 0)"
proof -
  have "mailbox_try_new_with_class 7 (ps_schema (demo_port In)) Signal ClassSignal (demo_mailbox_spec DropOldest) 1 1 =
      Inr (demo_mailbox [] 0 0)"
    by (simp add: mailbox_try_new_with_class_def demo_mailbox_def demo_mailbox_spec_def)
  then show ?thesis unfolding mailbox_init_def by blast
qed

lemmas demo_eval = demo_mailbox_def demo_message_def demo_clock_def demo_deadline_def demo_item_def message_new_def
  validate_state_def offers_validate_def terminals_total_def try_of_nat_def checked_add_def checked_sub_def
  try_offer_def ensure_reading_def is_expired_at_def try_deadline_after_def expired_items_def expiration_reason_def
  offer_on_clock_def indices_for_expired_items_def records_for_expired_items_def live_indices_excluding_def
  initial_decision_def plan_admission_def initial_displaced_def fit_after_removing_def is_full_fit_def
  bytes_for_indices_def offer_commit_def records_for_indices_def checked_terminal_def remove_queue_indices_def
  offer_err_def demo_port_def Let_def ensure_compatible_def len_checked_sub_def len_checked_add_def
  item_on_clock_def records_for_expired_items_def expired_pairs_def terminal_record_def
  checked_increment_def rejection_reason_def try_begin_inflight_def start_head_def
  close_if_drained_internal_def finish_def

definition demo_inflight :: "bytes16 \<Rightarrow> u64 \<Rightarrow> Mailbox \<Rightarrow> Mailbox" where
  "demo_inflight i bytes m = m\<lparr>mb_inflight := [(MessageId i, \<lparr>ia_token_generation = 1, ia_payload_bytes = bytes\<rparr>)],
     mb_inflight_bytes := bytes, mb_next_token_generation := 1\<rparr>"

lemma demo_offer1: "try_offer (demo_message 1 [1,2,3] 100) (demo_clock 10) (demo_mailbox [] 0 0) =
    (Inr \<lparr>or_outcome = Admitted, or_terminals = []\<rparr>, demo_mailbox [demo_item 1 [1,2,3] 100 60] 3 1)"
  by (simp add: demo_eval)

lemma demo_offer2: "try_offer (demo_message 2 [4,5] 100) (demo_clock 20) (demo_mailbox [demo_item 1 [1,2,3] 100 60] 3 1) =
    (Inr \<lparr>or_outcome = Admitted, or_terminals = []\<rparr>,
     demo_mailbox [demo_item 1 [1,2,3] 100 60, demo_item 2 [4,5] 100 70] 5 2)"
  by (simp add: demo_eval)

lemma demo_offer3: "try_offer (demo_message 3 [6] 100) (demo_clock 30)
      (demo_mailbox [demo_item 1 [1,2,3] 100 60, demo_item 2 [4,5] 100 70] 5 2) =
    (Inr \<lparr>or_outcome = Admitted, or_terminals = [\<lparr>tr_message_id = MessageId 1, tr_reason = Evicted, tr_released_bytes = 3\<rparr>]\<rparr>,
     (demo_mailbox [demo_item 2 [4,5] 100 70, demo_item 3 [6] 100 80] 3 3)
       \<lparr>mb_terminals := (mb_terminals (demo_mailbox [] 0 0))\<lparr>tc_evicted := 1\<rparr>\<rparr>)"
  by (simp add: demo_eval)

lemma demo_begin: "try_begin_inflight (demo_clock 30)
      (demo_mailbox [demo_item 1 [1,2,3] 100 60, demo_item 2 [4,5] 100 70] 5 2) =
    (Inr \<lparr>dr_outcome = Started \<lparr>it_mailbox = 7, it_token_generation = 1, it_message = demo_message 1 [1,2,3] 100\<rparr>,
          dr_expired = []\<rparr>,
     demo_inflight 1 3 (demo_mailbox [demo_item 2 [4,5] 100 70] 2 2))"
  by (simp add: demo_eval demo_inflight_def)

lemma demo_finish: "finish \<lparr>it_mailbox = 7, it_token_generation = 1, it_message = demo_message 1 [1,2,3] 100\<rparr> Completed
     (demo_inflight 1 3 (demo_mailbox [demo_item 2 [4,5] 100 70] 2 2)) =
    (Inr \<lparr>tr_message_id = MessageId 1, tr_reason = Completed, tr_released_bytes = 3\<rparr>,
     (demo_mailbox [demo_item 2 [4,5] 100 70] 2 2)\<lparr>mb_next_token_generation := 1, mb_terminals := (mb_terminals (demo_mailbox [] 0 0))\<lparr>tc_completed := 1\<rparr>\<rparr>)"
  by (simp add: demo_eval demo_inflight_def btree_remove_def btree_get_def)

text \<open>The mailbox after two offers, and after its first message was started.\<close>

abbreviation demo_queued :: Mailbox where
  "demo_queued \<equiv> demo_mailbox [demo_item 1 [1, 2, 3] 100 60, demo_item 2 [4, 5] 100 70] 5 2"

abbreviation demo_started :: Mailbox where
  "demo_started \<equiv> demo_inflight 1 3 (demo_mailbox [demo_item 2 [4, 5] 100 70] 2 2)"

abbreviation demo_token :: InflightToken where
  "demo_token \<equiv> \<lparr>it_mailbox = 7, it_token_generation = 1, it_message = demo_message 1 [1, 2, 3] 100\<rparr>"

lemma demo_queued_run: "mailbox_step\<^sup>*\<^sup>* (demo_mailbox [] 0 0) demo_queued"
proof -
  have "mailbox_step (demo_mailbox [] 0 0) (demo_mailbox [demo_item 1 [1, 2, 3] 100 60] 3 1)"
    using mailbox_step.offer [of "demo_mailbox [] 0 0"] demo_offer1 by (metis snd_conv)
  moreover have "mailbox_step (demo_mailbox [demo_item 1 [1, 2, 3] 100 60] 3 1) demo_queued"
    using mailbox_step.offer [of "demo_mailbox [demo_item 1 [1, 2, 3] 100 60] 3 1"] demo_offer2 by (metis snd_conv)
  ultimately show ?thesis by (meson rtranclp.rtrancl_refl rtranclp.rtrancl_into_rtrancl)
qed

lemma demo_started_run: "mailbox_step\<^sup>*\<^sup>* (demo_mailbox [] 0 0) demo_started"
  using demo_queued_run mailbox_step.begin_inflight [of demo_queued "demo_clock 30"]
  by (simp add: demo_begin rtranclp.rtrancl_into_rtrancl)

section \<open>Properties\<close>

text \<open>C21. Every mailbox reachable from its construction by any sequence of operations passes its
own validation and can be observed. Offers balance (offered = admitted + rejected + closed +
expired before admission), admissions balance (admitted = queued + in flight + terminal
records), the byte accounts are exact, and the item, byte, in-flight and retained limits hold;
no message identity is active twice.\<close>

theorem mailbox_always_valid:
  assumes "mailbox_init m0" and "mailbox_step\<^sup>*\<^sup>* m0 m"
  shows "validate_state m = Inr () \<and>
    (\<exists>s. mailbox_snapshot m = Inr s \<and>
       unat (sn_queued_items s) = length (mb_queue m) \<and>
       unat (sn_inflight_items s) = length (mb_inflight m) \<and>
       unat (sn_retained_bytes s) = queue_bytes (mb_queue m) + inflight_weight (mb_inflight m)) \<and>
    unat (oc_offered (mb_offers m)) = unat (oc_admitted (mb_offers m)) + unat (oc_rejected (mb_offers m)) +
      unat (oc_closed (mb_offers m)) + unat (oc_expired_before_admission (mb_offers m)) \<and>
    unat (oc_admitted (mb_offers m)) =
      length (mb_queue m) + length (mb_inflight m) + terminal_count (mb_terminals m) \<and>
    unat (mb_queued_bytes m) = queue_bytes (mb_queue m) \<and>
    length (mb_queue m) \<le> unat (ml_capacity_items (mb_limits m)) \<and>
    length (mb_inflight m) \<le> unat (ml_max_inflight (mb_limits m)) \<and>
    queue_bytes (mb_queue m) \<le> unat (ml_capacity_bytes (mb_limits m)) \<and>
    queue_bytes (mb_queue m) + inflight_weight (mb_inflight m) \<le> unat (ml_max_retained_bytes (mb_limits m)) \<and>
    distinct (queue_ids (mb_queue m) @ map fst (mb_inflight m))"
proof -
  have inv: "mailbox_inv m" by (rule mailbox_machine.reachable_inv [OF assms])
  then have ok: "mailbox_ok m" by (simp add: mailbox_inv_def)
  with snapshot_ok [OF inv] inv show ?thesis
    by (auto simp: mailbox_ok_def offers_ok_def)
qed

theorem mailbox_always_valid_witness:
  "validate_state demo_started = Inr () \<and>
   distinct (queue_ids (mb_queue demo_started) @ map fst (mb_inflight demo_started))"
  using mailbox_always_valid [OF demo_mailbox_init demo_started_run] by blast


text \<open>
  A token that is no longer current, under a generation that has already been issued, can never
  become current again.
\<close>

definition token_spent :: "InflightToken \<Rightarrow> Mailbox \<Rightarrow> bool" where
  "token_spent token m \<longleftrightarrow> \<not> token_current m token \<and> it_token_generation token \<le> mb_next_token_generation m"

lemma spent_stable:
  assumes inv: "mailbox_inv m" and spent: "token_spent token m" and step: "mailbox_step m m'"
  shows "token_spent token m'"
proof -
  have eff: "mailbox_effect m m'" by (rule step_effect [OF step inv])
  then have gen: "it_token_generation token \<le> mb_next_token_generation m'"
    using spent by (auto simp: mailbox_effect_def token_spent_def)
  have "\<not> token_current m' token"
  proof
    assume cur: "token_current m' token"
    let ?e = "(vm_id (it_message token), \<lparr>ia_token_generation = it_token_generation token,
        ia_payload_bytes = ph_charged_bytes (vm_payload (it_message token))\<rparr>)"
    from cur have "?e \<in> set (mb_inflight m')" by (auto simp: token_current_def btree_get_def dest: map_of_SomeD)
    with eff spent have "?e \<in> set (mb_inflight m)" by (fastforce simp: mailbox_effect_def token_spent_def)
    then have "token_current m token"
      using inv cur eff by (auto simp: token_current_def btree_get_def mailbox_inv_def mailbox_effect_def
          mailbox_frame_def dest: btree_ok_distinct)
    with spent show False by (simp add: token_spent_def)
  qed
  with gen show ?thesis by (simp add: token_spent_def)
qed

lemma finish_spends:
  assumes inv: "mailbox_inv m" and fin: "finish token reason m = (Inr record, m')"
  shows "token_spent token m'"
  using assms
proof (cases rule: finish_cases)
  case (finished t)
  from finished(2) have mem: "btree_get (mb_inflight m) (vm_id (it_message token)) =
       Some \<lparr>ia_token_generation = it_token_generation token,
             ia_payload_bytes = ph_charged_bytes (vm_payload (it_message token))\<rparr>"
    by (simp add: token_current_def)
  then have "it_token_generation token \<le> mb_next_token_generation m"
    using inv by (fastforce simp: mailbox_inv_def btree_get_def dest: map_of_SomeD)
  moreover have "btree_get (btree_remove k (mb_inflight m)) k = None" for k
    by (auto simp: btree_get_None_iff btree_remove_def)
  ultimately show ?thesis using finished(5) by (simp add: token_spent_def token_current_def returned_def)
qed simp

lemma stopped_stable:
  assumes "mailbox_inv x" and "mb_lifecycle x \<noteq> Accepting" and "mailbox_step x y"
  shows "mb_lifecycle y \<noteq> Accepting" and "oc_admitted (mb_offers y) = oc_admitted (mb_offers x)"
    and "set (mb_queue y) \<subseteq> set (mb_queue x)"
  using step_effect [OF assms(3,1)] assms(2)
  by (cases "mb_lifecycle x"; auto simp: mailbox_effect_def)+

lemma finish_fail:
  assumes "mailbox_inv m" and "finish token reason m = (Inl f, m')"
  shows "m' = m \<and> ff_token f = token \<and> ff_error f \<noteq> StateInconsistent"
  using assms by (cases rule: finish_cases) simp_all

text \<open>C22. An operation that fails leaves a reachable mailbox exactly as it was and hands the
message or the token back, and \<open>StateInconsistent\<close> never occurs.\<close>

theorem mailbox_failures_change_nothing:
  assumes "mailbox_init m0" and "mailbox_step\<^sup>*\<^sup>* m0 m"
  shows "(try_offer msg r m = (Inl offer_failure, m') \<longrightarrow>
      m' = m \<and> of_message offer_failure = msg \<and> of_error offer_failure \<noteq> StateInconsistent) \<and>
    (try_begin_inflight r m = (Inl e, m') \<longrightarrow> m' = m \<and> e \<noteq> StateInconsistent) \<and>
    (finish token reason m = (Inl finish_failure, m') \<longrightarrow>
      m' = m \<and> ff_token finish_failure = token \<and> ff_error finish_failure \<noteq> StateInconsistent) \<and>
    (expire_queued r m = (Inl e, m') \<longrightarrow> m' = m \<and> e \<noteq> StateInconsistent) \<and>
    (cancel_all_queued m = (Inl e, m') \<longrightarrow> m' = m \<and> e = CancelRequiresDraining) \<and>
    (abandon_all_inflight_uncertain m = (Inl e, m') \<longrightarrow> m' = m \<and> e = AbandonRequiresDraining)"
proof (intro conjI impI)
  have inv: "mailbox_inv m" by (rule mailbox_machine.reachable_inv [OF assms])
  show "m' = m" "of_message offer_failure = msg" "of_error offer_failure \<noteq> StateInconsistent"
    if "try_offer msg r m = (Inl offer_failure, m')"
    using try_offer_fail [OF inv that] by auto
  show "m' = m" "e \<noteq> StateInconsistent" if "try_begin_inflight r m = (Inl e, m')"
    using try_begin_cases [OF inv that] by auto
  show "m' = m" "ff_token finish_failure = token" "ff_error finish_failure \<noteq> StateInconsistent"
    if "finish token reason m = (Inl finish_failure, m')"
    using finish_fail [OF inv that] by simp_all
  show "m' = m" "e \<noteq> StateInconsistent" if "expire_queued r m = (Inl e, m')"
    using expire_queued_cases [OF inv that] by auto
  show "m' = m" "e = CancelRequiresDraining" if "cancel_all_queued m = (Inl e, m')"
  proof -
    have "mb_lifecycle m = Accepting" by (rule ccontr) (use that cancel_all_queued_ok [OF inv] in auto)
    with that needs_draining(1) [OF inv] show "m' = m" "e = CancelRequiresDraining" by auto
  qed
  show "m' = m" "e = AbandonRequiresDraining" if "abandon_all_inflight_uncertain m = (Inl e, m')"
  proof -
    have "mb_lifecycle m = Accepting" by (rule ccontr) (use that abandon_ok [OF inv] in auto)
    with that needs_draining(2) [OF inv] show "m' = m" "e = AbandonRequiresDraining" by auto
  qed
qed

lemma demo_wrong_clock:
  "try_offer (demo_message 3 [6] 100) \<lparr>rd_domain = 2, rd_generation = 1, rd_now = 0\<rparr> demo_queued =
     (Inl \<lparr>of_error = MbClockDomainMismatch, of_message = demo_message 3 [6] 100\<rparr>, demo_queued)"
  by (simp add: demo_eval)

theorem mailbox_failures_change_nothing_witness:
  "try_offer (demo_message 3 [6] 100) \<lparr>rd_domain = 2, rd_generation = 1, rd_now = 0\<rparr> demo_queued =
     (Inl \<lparr>of_error = MbClockDomainMismatch, of_message = demo_message 3 [6] 100\<rparr>, demo_queued) \<and>
   MbClockDomainMismatch \<noteq> StateInconsistent"
  using mailbox_failures_change_nothing [OF demo_mailbox_init demo_queued_run, of "demo_message 3 [6] 100"
      "\<lparr>rd_domain = 2, rd_generation = 1, rd_now = 0\<rparr>"] demo_wrong_clock by simp

text \<open>C23. What an offer does to a reachable mailbox that accepts messages. The items whose
deadlines have passed leave the queue and are reported. If the message is admitted, it has the
mailbox's schema and class, is not expired, is no duplicate of an active message, and is
appended to the live items the pressure policy keeps; the displaced items are reported, and
everything fits the limits. Otherwise the message comes back and the live items stay in order.\<close>

theorem offer_follows_policy:
  assumes "mailbox_init m0" and "mailbox_step\<^sup>*\<^sup>* m0 m" and "mb_lifecycle m = Accepting"
    and "try_offer msg r m = (Inr rep, m')"
  shows "(or_outcome rep = Admitted \<longrightarrow>
      vm_schema msg = mb_schema m \<and> vm_class msg = mb_message_class m \<and>
      vm_id msg \<notin> set (queue_ids (live_at r m)) \<union> set (map fst (mb_inflight m)) \<and>
      (\<exists>kept item displaced. mb_queue m' = kept @ [item] \<and> qm_message item = msg \<and>
         item_expiry r item = None \<and> keeps m msg (live_at r m) kept \<and>
         fits m (ph_charged_bytes (vm_payload msg)) kept \<and>
         or_terminals rep = expiry_records r m @ displaced \<and>
         length displaced + length kept = length (live_at r m))) \<and>
    (or_outcome rep \<noteq> Admitted \<longrightarrow>
      mb_queue m' = live_at r m \<and> or_terminals rep = expiry_records r m \<and>
      ((\<exists>reason. or_outcome rep = Rejected reason msg) \<or>
       or_outcome rep = ExpiredBeforeAdmission msg \<or> (\<exists>dl. or_outcome rep = WouldBlock msg dl)))"
proof -
  have inv: "mailbox_inv m" by (rule mailbox_machine.reachable_inv [OF assms(1,2)])
  from inv assms(4) show ?thesis
  proof (cases rule: try_offer_cases)
    case (decided E D d reason dl b t t' o')
    show ?thesis
    proof (cases "d = PlanAdmit")
      case True
      let ?kept = "nths (mb_queue m) (- (expired_set r m \<union> set D))"
      have "keeps m msg (live_at r m) ?kept"
        by (rule displaces_keeps [OF decided(3)]) (use decided(5) True in blast)
      moreover have "length (records_for_indices m D reason) + length ?kept = length (live_at r m)"
        by (rule displaced_count [OF decided(3,4)])
      ultimately show ?thesis using decided(5) [OF True] decided(10,11) True
        by (auto simp: new_item_def)
    next
      case False
      with decided(6) decided(10,11) show ?thesis
        by (cases d) (auto simp: new_item_def records_for_indices_eq)
    qed
  qed (use assms(3) in simp_all)
qed

theorem offer_follows_policy_witness:
  "\<exists>kept item. [demo_item 2 [4, 5] 100 70, demo_item 3 [6] 100 80] = kept @ [item] \<and>
     keeps demo_queued (demo_message 3 [6] 100) (live_at (demo_clock 30) demo_queued) kept"
proof -
  have "mb_lifecycle demo_queued = Accepting" by (simp add: demo_mailbox_def)
  from offer_follows_policy [OF demo_mailbox_init demo_queued_run this demo_offer3] show ?thesis
    by (auto simp: demo_mailbox_def [of "[demo_item 2 [4, 5] 100 70, demo_item 3 [6] 100 80]"])
qed


text \<open>C24. Dispatch is first in, first out: a started token carries the first live message, the
remaining live messages stay queued in order, the expired ones are reported, and the token is
current under a generation no earlier token has. A dispatch that succeeds on an open mailbox
starts a message exactly when one is live and an in-flight slot is free.\<close>

theorem dispatch_fifo:
  assumes "mailbox_init m0" and "mailbox_step\<^sup>*\<^sup>* m0 m" and "try_begin_inflight r m = (Inr rep, m')"
    and "mb_lifecycle m \<noteq> Closed"
  shows "dr_expired rep = expiry_records r m \<and>
    ((\<exists>token. dr_outcome rep = Started token) \<longleftrightarrow>
       live_at r m \<noteq> [] \<and> length (mb_inflight m) < unat (ml_max_inflight (mb_limits m))) \<and>
    (\<forall>token. dr_outcome rep = Started token \<longrightarrow>
       it_message token = qm_message (hd (live_at r m)) \<and> mb_queue m' = tl (live_at r m) \<and>
       token_current m' token \<and>
       (\<forall>(k, a) \<in> set (mb_inflight m). ia_token_generation a < it_token_generation token))"
proof -
  have inv: "mailbox_inv m" by (rule mailbox_machine.reachable_inv [OF assms(1,2)])
  from inv assms(3) show ?thesis
  proof (cases rule: try_begin_cases)
    case (started b t item rest)
    have fresh: "\<forall>(k, a) \<in> set (mb_inflight m). ia_token_generation a < mb_next_token_generation m + 1"
      using inv succ_greater [OF started(6)] by (auto simp: mailbox_inv_def dest: order_le_less_trans)
    have "mb_queue (settled r b t m) = item # rest" using started(5) by (simp add: settled_def)
    from begun_current [OF started(2) this] have "token_current m' \<lparr>it_mailbox = mb_reference m,
        it_token_generation = mb_next_token_generation m + 1, it_message = qm_message item\<rparr>"
      by (simp add: started(9) settled_def)
    with fresh started(5,7,8,9) show ?thesis by (simp add: begun_def)
  qed (use assms(4) in \<open>auto split: if_splits\<close>)
qed

theorem dispatch_fifo_witness:
  "it_message demo_token = qm_message (hd (live_at (demo_clock 30) demo_queued)) \<and>
   token_current demo_started demo_token"
proof -
  have "mb_lifecycle demo_queued \<noteq> Closed" by (simp add: demo_mailbox_def)
  from dispatch_fifo [OF demo_mailbox_init demo_queued_run demo_begin this] show ?thesis by force
qed

text \<open>On a reachable mailbox, finishing succeeds exactly for a completion reason and a
token that is current; it then releases the token's slot and bytes and records the reason.\<close>

lemma finish_accepts_current_tokens:
  assumes "mailbox_init m0" and "mailbox_step\<^sup>*\<^sup>* m0 m" and "finish token reason m = (res, m')"
  shows "(is_inflight_completion reason \<and> token_current m token \<longrightarrow>
      res = Inr \<lparr>tr_message_id = vm_id (it_message token), tr_reason = reason,
                 tr_released_bytes = ph_charged_bytes (vm_payload (it_message token))\<rparr> \<and>
      mb_inflight m' = btree_remove (vm_id (it_message token)) (mb_inflight m) \<and>
      unat (mb_inflight_bytes m) =
        unat (mb_inflight_bytes m') + unat (ph_charged_bytes (vm_payload (it_message token))) \<and>
      unat (counter_of reason (mb_terminals m')) = unat (counter_of reason (mb_terminals m)) + 1) \<and>
    (\<not> (is_inflight_completion reason \<and> token_current m token) \<longrightarrow>
      (\<exists>e. res = Inl \<lparr>ff_error = e, ff_token = token\<rparr> \<and> e \<in> {InvalidTerminalReason, InflightTokenMismatch}) \<and>
      m' = m)"
proof -
  have inv: "mailbox_inv m" by (rule mailbox_machine.reachable_inv [OF assms(1,2)])
  show ?thesis
  proof (cases "is_inflight_completion reason \<and> token_current m token")
    case True
    from finish_current [OF inv conjunct1 [OF True] conjunct2 [OF True]] assms(3) True show ?thesis by auto
  next
    case False
    with finish_refused [OF inv False] assms(3) show ?thesis by auto
  qed
qed


lemma demo_token_current: "token_current demo_started demo_token"
  by (simp add: token_current_def demo_inflight_def demo_mailbox_def demo_message_def message_new_def btree_get_def)

text \<open>A token settles at most once: after a finish has accepted it, every later finish
with the same token is refused, whatever operations come in between.\<close>

lemma token_settles_once:
  assumes "mailbox_init m0" and "mailbox_step\<^sup>*\<^sup>* m0 m" and "finish token reason m = (Inr record, m1)"
    and "mailbox_step\<^sup>*\<^sup>* m1 m2"
  shows "\<exists>e. finish token reason' m2 = (Inl \<lparr>ff_error = e, ff_token = token\<rparr>, m2) \<and>
    e \<in> {InvalidTerminalReason, InflightTokenMismatch}"
proof -
  have inv: "mailbox_inv m" by (rule mailbox_machine.reachable_inv [OF assms(1,2)])
  have inv1: "mailbox_inv m1" using finish_effect [OF inv assms(3)] by (simp add: mailbox_effect_def)
  have "token_spent token m2"
    by (rule mailbox_machine.run_stable [where P = "token_spent token", OF assms(4) inv1])
       (use finish_spends [OF inv assms(3)] spent_stable in auto)
  with finish_refused [OF mailbox_machine.run_inv [OF assms(4) inv1]] show ?thesis
    by (simp add: token_spent_def)
qed

text \<open>C27. Draining is final: once a mailbox has stopped accepting, no later operation admits a
message or puts one into the queue, it never accepts again, and once it is closed it stays
closed and empty.\<close>

theorem draining_is_final:
  assumes "mailbox_init m0" and "mailbox_step\<^sup>*\<^sup>* m0 m" and "mb_lifecycle m \<noteq> Accepting"
    and "mailbox_step\<^sup>*\<^sup>* m m'"
  shows "mb_lifecycle m' \<noteq> Accepting \<and> oc_admitted (mb_offers m') = oc_admitted (mb_offers m) \<and>
    set (mb_queue m') \<subseteq> set (mb_queue m) \<and>
    (mb_lifecycle m = Closed \<longrightarrow> mb_lifecycle m' = Closed \<and> mb_queue m' = [] \<and> mb_inflight m' = [])"
proof -
  have inv: "mailbox_inv m" by (rule mailbox_machine.reachable_inv [OF assms(1,2)])
  have inv': "mailbox_inv m'" by (rule mailbox_machine.run_inv [OF assms(4) inv])
  have stopped: "mb_lifecycle m' \<noteq> Accepting \<and> oc_admitted (mb_offers m') = oc_admitted (mb_offers m) \<and>
      set (mb_queue m') \<subseteq> set (mb_queue m)"
    by (rule mailbox_machine.run_stable [where P = "\<lambda>x. mb_lifecycle x \<noteq> Accepting \<and>
          oc_admitted (mb_offers x) = oc_admitted (mb_offers m) \<and> set (mb_queue x) \<subseteq> set (mb_queue m)",
          OF assms(4) inv]) (use assms(3) in \<open>simp_all add: stopped_stable subset_trans [OF stopped_stable(3)]\<close>)
  moreover have "mb_lifecycle m' = Closed \<and> mb_queue m' = [] \<and> mb_inflight m' = []" if "mb_lifecycle m = Closed"
    using mailbox_machine.run_rank [OF assms(4) inv] inv' that
    by (cases "mb_lifecycle m'") (simp_all add: mailbox_inv_def mailbox_ok_def)
  ultimately show ?thesis by blast
qed

theorem draining_is_final_witness:
  "mb_lifecycle (snd (try_offer (demo_message 3 [6] 100) (demo_clock 30) (snd (stop_accepting demo_queued)))) \<noteq>
     Accepting"
proof -
  have stop: "mb_lifecycle (snd (stop_accepting demo_queued)) \<noteq> Accepting"
    using stop_accepting_ok(1) [OF mailbox_machine.reachable_inv [OF demo_mailbox_init demo_queued_run]]
    by (simp add: close_lifecycle)
  have run: "mailbox_step\<^sup>*\<^sup>* (demo_mailbox [] 0 0) (snd (stop_accepting demo_queued))"
    using demo_queued_run mailbox_step.stop by (rule rtranclp.rtrancl_into_rtrancl)
  from draining_is_final [OF demo_mailbox_init run stop r_into_rtranclp [of mailbox_step, OF mailbox_step.offer]]
  show ?thesis by blast
qed

text \<open>C28. A mailbox can always be shut down: on every reachable mailbox, stopping, cancelling the
queue and abandoning the in-flight cohort all succeed, account for every active message in a
terminal record, and leave the mailbox closed.\<close>

theorem shutdown_always_completes:
  assumes "mailbox_init m0" and "mailbox_step\<^sup>*\<^sup>* m0 m"
  shows "\<exists>m1 m2 m3 cancelled abandoned.
    stop_accepting m = (Inr (), m1) \<and> cancel_all_queued m1 = (Inr cancelled, m2) \<and>
    abandon_all_inflight_uncertain m2 = (Inr abandoned, m3) \<and> mb_lifecycle m3 = Closed \<and>
    map tr_message_id cancelled = queue_ids (mb_queue m) \<and>
    map tr_message_id abandoned = map fst (mb_inflight m) \<and>
    terminal_count (mb_terminals m3) = unat (oc_admitted (mb_offers m))"
proof -
  have inv: "mailbox_inv m" by (rule mailbox_machine.reachable_inv [OF assms])
  obtain m1 where m1: "stop_accepting m = (Inr (), m1)" "mailbox_inv m1" "mb_lifecycle m1 \<noteq> Accepting"
    "mb_queue m1 = mb_queue m" "mb_inflight m1 = mb_inflight m" "mb_offers m1 = mb_offers m"
    using stop_accepting_ok [OF inv] by (auto simp: close_lifecycle)
  obtain t2 where t2: "cancel_all_queued m1 = (Inr (map (\<lambda>item. terminal_record item Cancelled) (mb_queue m1)),
       close_if_drained_internal (m1\<lparr>mb_queue := [], mb_queued_bytes := 0, mb_terminals := t2\<rparr>))"
    "mailbox_inv (m1\<lparr>mb_queue := [], mb_queued_bytes := 0, mb_terminals := t2\<rparr>)"
    by (rule cancel_all_queued_ok [OF m1(2,3)])
  define m2 where "m2 = close_if_drained_internal (m1\<lparr>mb_queue := [], mb_queued_bytes := 0, mb_terminals := t2\<rparr>)"
  have m2: "mailbox_inv m2" "mb_lifecycle m2 \<noteq> Accepting" "mb_queue m2 = []" "mb_inflight m2 = mb_inflight m"
    "mb_offers m2 = mb_offers m"
    using m1 close_inv [OF t2(2)] by (auto simp: m2_def close_lifecycle)
  obtain t3 where t3: "abandon_all_inflight_uncertain m2 = (Inr (abandon_records m2),
       close_if_drained_internal (m2\<lparr>mb_inflight := [], mb_inflight_bytes := 0, mb_terminals := t3\<rparr>))"
    "mailbox_inv (m2\<lparr>mb_inflight := [], mb_inflight_bytes := 0, mb_terminals := t3\<rparr>)"
    by (rule abandon_ok [OF m2(1,2)])
  define m3 where "m3 = close_if_drained_internal (m2\<lparr>mb_inflight := [], mb_inflight_bytes := 0, mb_terminals := t3\<rparr>)"
  have m3: "mb_lifecycle m3 = Closed" using m2(2,3) by (cases "mb_lifecycle m2") (simp_all add: m3_def close_lifecycle)
  have "terminal_count (mb_terminals m3) = unat (oc_admitted (mb_offers m))"
    using t3(2) m2(3,5) by (simp add: m3_def mailbox_inv_def mailbox_ok_def)
  moreover have "map tr_message_id (abandon_records m2) = map fst (mb_inflight m)"
    by (simp add: abandon_records_def m2(4) case_prod_unfold)
  moreover have "map tr_message_id (map (\<lambda>item. terminal_record item Cancelled) (mb_queue m1)) = queue_ids (mb_queue m)"
    by (simp add: m1(4) terminal_record_def)
  ultimately show ?thesis using m1(1) t2(1) t3(1) m3 unfolding m2_def [symmetric] m3_def [symmetric] by blast
qed

theorem shutdown_always_completes_witness:
  "\<exists>m1. stop_accepting demo_started = (Inr (), m1) \<and> (\<exists>cancelled m2. cancel_all_queued m1 = (Inr cancelled, m2) \<and>
     map tr_message_id cancelled = [MessageId 2])"
  using shutdown_always_completes [OF demo_mailbox_init demo_started_run]
  by (auto simp: demo_inflight_def demo_mailbox_def demo_item_def demo_message_def message_new_def)

end
