(* ===== verification/Service_Order.thy ===== *)
theory Service_Order
  imports Prelude
begin

text \<open>
  Service dependencies, \<open>crates/paraegox-deployment/src/planner.rs\<close>: the order in which services start and
  stop, or a cycle of them. Ordered sets are their ascending lists. A result is \<open>None\<close> where the
  code would panic or loop forever; the properties show that neither happens.
\<close>

section \<open>Data\<close>

type_synonym ServiceRef = bytes16

type_synonym ServiceCycleWitness = "ServiceRef list"

record ServiceDependency =
  sd_provider :: ServiceRef
  sd_consumer :: ServiceRef

record ServiceDependencyOrder =
  so_startup :: "ServiceRef list"
  so_shutdown :: "ServiceRef list"

datatype ServiceDependencyError =
    TooManyVertices
  | TooManyEdges
  | DuplicateDependency
  | Cycle ServiceCycleWitness

definition MAX_SERVICE_DEPENDENCY_VERTICES :: nat where "MAX_SERVICE_DEPENDENCY_VERTICES = 256"
definition MAX_SERVICE_DEPENDENCY_EDGES :: nat where "MAX_SERVICE_DEPENDENCY_EDGES = 1024"

type_synonym outgoing = "(ServiceRef, ServiceRef list) btree_map"
type_synonym indegree = "(ServiceRef, nat) btree_map"

section \<open>The graph\<close>

definition dependency_nodes :: "ServiceDependency list \<Rightarrow> ServiceRef list" where
  "dependency_nodes dependencies =
     fold (\<lambda>d nodes. insort_insert (sd_consumer d) (insort_insert (sd_provider d) nodes)) dependencies []"

text \<open>A set of pairs is ordered by the first component, then by the second.\<close>

definition edge_rank :: "ServiceRef \<times> ServiceRef \<Rightarrow> nat" where
  "edge_rank e = unat (fst e) * 2 ^ 128 + unat (snd e)"

definition dependency_edges :: "ServiceDependency list \<Rightarrow> (ServiceRef \<times> ServiceRef) list" where
  "dependency_edges dependencies =
     fold (\<lambda>d edges. insort_insert_key edge_rank (sd_provider d, sd_consumer d) edges) dependencies []"

fun link_edges :: "(ServiceRef \<times> ServiceRef) list \<Rightarrow> outgoing \<Rightarrow> indegree \<Rightarrow> (outgoing \<times> indegree) option" where
  "link_edges [] outgoing indegree = Some (outgoing, indegree)"
| "link_edges ((provider, consumer) # edges) outgoing indegree =
     (let outgoing = btree_insert provider
            ((case btree_get outgoing provider of None \<Rightarrow> [] | Some consumers \<Rightarrow> consumers) @ [consumer]) outgoing in
      case btree_get indegree consumer of
        None \<Rightarrow> None
      | Some value \<Rightarrow> link_edges edges outgoing (btree_insert consumer (value + 1) indegree))"

section \<open>The startup order\<close>

fun release_consumers :: "ServiceRef list \<Rightarrow> ServiceRef list \<Rightarrow> indegree \<Rightarrow> (ServiceRef list \<times> indegree) option" where
  "release_consumers [] ready indegree = Some (ready, indegree)"
| "release_consumers (consumer # consumers) ready indegree =
     (case btree_get indegree consumer of
        None \<Rightarrow> None
      | Some degree \<Rightarrow>
          if degree = 0 then None
          else
            let degree = degree - 1 in
            release_consumers consumers (if degree = 0 then insort_insert consumer ready else ready)
              (btree_insert consumer degree indegree))"

partial_function (option) startup_loop ::
  "outgoing \<Rightarrow> ServiceRef list \<Rightarrow> indegree \<Rightarrow> ServiceRef list \<Rightarrow> ServiceRef list option" where
  "startup_loop outgoing ready indegree startup =
     (case ready of
        [] \<Rightarrow> Some startup
      | node # ready \<Rightarrow>
          Option.bind
            (case btree_get outgoing node of
               Some consumers \<Rightarrow> release_consumers consumers ready indegree
             | None \<Rightarrow> Some (ready, indegree))
            (\<lambda>(ready, indegree). startup_loop outgoing ready indegree (startup @ [node])))"

section \<open>A cycle\<close>

text \<open>The frames of the search, the top of the stack first.\<close>

record Search =
  se_state :: "(ServiceRef, u8) btree_map"
  se_path :: "ServiceRef list"
  se_path_positions :: "(ServiceRef, nat) btree_map"
  se_frames :: "(ServiceRef \<times> nat) list"

definition search_state :: "Search \<Rightarrow> ServiceRef \<Rightarrow> u8" where
  "search_state s node = (case btree_get (se_state s) node of None \<Rightarrow> 0 | Some v \<Rightarrow> v)"

definition search_enter :: "ServiceRef \<Rightarrow> nat \<Rightarrow> Search \<Rightarrow> Search" where
  "search_enter node position s = s\<lparr>se_state := btree_insert node 1 (se_state s),
     se_path_positions := btree_insert node position (se_path_positions s),
     se_path := se_path s @ [node], se_frames := (node, 0) # se_frames s\<rparr>"

definition search_leave :: "ServiceRef \<Rightarrow> Search \<Rightarrow> Search" where
  "search_leave node s = s\<lparr>se_frames := tl (se_frames s), se_path := butlast (se_path s),
     se_path_positions := btree_remove node (se_path_positions s), se_state := btree_insert node 2 (se_state s)\<rparr>"

definition next_neighbour :: "outgoing \<Rightarrow> ServiceRef \<Rightarrow> nat \<Rightarrow> ServiceRef option" where
  "next_neighbour outgoing node next_index =
     (case btree_get outgoing node of
        None \<Rightarrow> None
      | Some next_nodes \<Rightarrow> if next_index < length next_nodes then Some (next_nodes ! next_index) else None)"

text \<open>The search below one root: a witness, or the state when the stack is empty.\<close>

partial_function (option) search_loop :: "outgoing \<Rightarrow> Search \<Rightarrow> (ServiceCycleWitness + Search) option" where
  "search_loop outgoing s =
     (case se_frames s of
        [] \<Rightarrow> Some (Inr s)
      | (node, next_index) # frames \<Rightarrow>
          (case next_neighbour outgoing node next_index of
             Some next \<Rightarrow>
               (let s = s\<lparr>se_frames := (node, next_index + 1) # frames\<rparr> in
                if search_state s next = 0 then search_loop outgoing (search_enter next (length (se_path s)) s)
                else if search_state s next = 1 then
                  (case btree_get (se_path_positions s) next of
                     None \<Rightarrow> None
                   | Some start \<Rightarrow> Some (Inl (drop start (se_path s) @ [next])))
                else search_loop outgoing s)
           | None \<Rightarrow> if se_path s = [] then None else search_loop outgoing (search_leave node s)))"

fun search_roots :: "outgoing \<Rightarrow> ServiceRef list \<Rightarrow> Search \<Rightarrow> ServiceCycleWitness option" where
  "search_roots outgoing [] s = None"
| "search_roots outgoing (root # roots) s =
     (if search_state s root \<noteq> 0 then search_roots outgoing roots s
      else case search_loop outgoing (search_enter root 0 s) of
        None \<Rightarrow> None
      | Some (Inl witness) \<Rightarrow> Some witness
      | Some (Inr s) \<Rightarrow> search_roots outgoing roots s)"

definition stable_cycle_witness :: "ServiceRef list \<Rightarrow> outgoing \<Rightarrow> ServiceCycleWitness option" where
  "stable_cycle_witness nodes outgoing =
     search_roots outgoing nodes \<lparr>se_state = [], se_path = [], se_path_positions = [], se_frames = []\<rparr>"

declare startup_loop.simps [code] search_loop.simps [code]

section \<open>Validation\<close>

definition validate_service_dependencies ::
  "ServiceDependency list \<Rightarrow> (ServiceDependencyError + ServiceDependencyOrder) option" where
  "validate_service_dependencies dependencies =
     (if length dependencies > MAX_SERVICE_DEPENDENCY_EDGES then Some (Inl TooManyEdges)
      else
        let nodes = dependency_nodes dependencies; edges = dependency_edges dependencies in
        if length nodes > MAX_SERVICE_DEPENDENCY_VERTICES then Some (Inl TooManyVertices)
        else if length edges \<noteq> length dependencies then Some (Inl DuplicateDependency)
        else
          Option.bind (link_edges edges [] (fold (\<lambda>node. btree_insert node 0) nodes [])) (\<lambda>(outgoing, indegree).
          Option.bind (startup_loop outgoing (map fst (filter (\<lambda>(node, degree). degree = 0) indegree)) indegree [])
            (\<lambda>startup.
          if length startup \<noteq> length nodes
          then map_option (\<lambda>witness. Inl (Cycle witness)) (stable_cycle_witness nodes outgoing)
          else Some (Inr \<lparr>so_startup = startup, so_shutdown = rev startup\<rparr>))))"

end
