(* ===== verification/Deck_Cycle.thy ===== *)
theory Deck_Cycle
  imports Service_Order "HOL-Library.List_Lexorder"
begin

text \<open>
  The links of a deck and the search for a cycle among its cards,
  \<open>crates/paraegox-deployment/src/deck.rs\<close>: two depth-first passes split the cards into components, a third
  one looks for links that close a cycle. The recursive visits are partial functions over the list of
  edges still to follow; \<open>None\<close> is a visit that never returns or panics.
\<close>

section \<open>Data\<close>

type_synonym DeckKey = bytes16
type_synonym CardUseKey = bytes16
type_synonym DeckPortKey = bytes16
type_synonym DeckLinkKey = bytes16
type_synonym RequirementKey = bytes16
type_synonym DeckExportRef = bytes16
type_synonym CardRefinementRef = bytes16
type_synonym DeliveryProfileRef = bytes16
type_synonym RequirementRef = bytes16

record DeckEndpointSpec =
  ep_card :: CardUseKey
  ep_port :: DeckPortKey

record DeckLink =
  dl_key :: DeckLinkKey
  dl_source :: DeckEndpointSpec
  dl_target :: DeckEndpointSpec
  dl_delivery_profile :: DeliveryProfileRef

record DeckCycleWitness =
  cw_component :: "CardUseKey list"
  cw_cards :: "CardUseKey list"
  cw_links :: "DeckLinkKey list"

type_synonym edges = "(CardUseKey \<times> DeckLinkKey) list"

section \<open>Components\<close>

definition sort_edges :: "edges \<Rightarrow> edges" where
  "sort_edges = sort_key (\<lambda>(target, link). edge_rank (link, target))"

definition edges_of :: "(CardUseKey, edges) btree_map \<Rightarrow> CardUseKey \<Rightarrow> edges" where
  "edges_of adjacency use_key = (case btree_get adjacency use_key of None \<Rightarrow> [] | Some edges \<Rightarrow> edges)"

definition link_ends :: "bool \<Rightarrow> DeckLink \<Rightarrow> CardUseKey \<times> CardUseKey" where
  "link_ends reverse link =
     (if reverse then (ep_card (dl_target link), ep_card (dl_source link))
      else (ep_card (dl_source link), ep_card (dl_target link)))"

definition push_edge :: "CardUseKey \<Rightarrow> CardUseKey \<times> DeckLinkKey \<Rightarrow> (CardUseKey, edges) btree_map \<Rightarrow> (CardUseKey, edges) btree_map" where
  "push_edge source edge result = btree_insert source (edges_of result source @ [edge]) result"

definition adjacency :: "CardUseKey list \<Rightarrow> DeckLink list \<Rightarrow> bool \<Rightarrow> (CardUseKey, edges) btree_map" where
  "adjacency cards links reverse =
     (let result = fold (\<lambda>use_key. btree_insert use_key []) cards [];
          result = fold (\<lambda>link. case link_ends reverse link of (source, target) \<Rightarrow>
                     push_edge source (target, dl_key link)) links result in
      map (\<lambda>(use_key, edges). (use_key, sort_edges edges)) result)"

text \<open>The visits of the targets of a list of edges, as in the loop of \<open>visit_finish\<close>.\<close>

partial_function (option) visit_finish_all ::
  "(CardUseKey, edges) btree_map \<Rightarrow> edges \<Rightarrow> CardUseKey list \<Rightarrow> CardUseKey list \<Rightarrow>
   (CardUseKey list \<times> CardUseKey list) option" where
  "visit_finish_all edge_map edges visited finish =
     (case edges of
        [] \<Rightarrow> Some (visited, finish)
      | (use_key, _) # edges \<Rightarrow>
          if use_key \<in> set visited then visit_finish_all edge_map edges visited finish
          else
            Option.bind (visit_finish_all edge_map (edges_of edge_map use_key) (insort_insert use_key visited) finish)
              (\<lambda>(visited, finish). visit_finish_all edge_map edges visited (finish @ [use_key])))"

definition visit_finish ::
  "CardUseKey \<Rightarrow> (CardUseKey, edges) btree_map \<Rightarrow> CardUseKey list \<Rightarrow> CardUseKey list \<Rightarrow>
   (CardUseKey list \<times> CardUseKey list) option" where
  "visit_finish use_key edge_map visited finish =
     (if use_key \<in> set visited then Some (visited, finish)
      else
        map_option (\<lambda>(visited, finish). (visited, finish @ [use_key]))
          (visit_finish_all edge_map (edges_of edge_map use_key) (insort_insert use_key visited) finish))"

fun finish_all ::
  "(CardUseKey, edges) btree_map \<Rightarrow> CardUseKey list \<Rightarrow> CardUseKey list \<Rightarrow> CardUseKey list \<Rightarrow> CardUseKey list option" where
  "finish_all forward [] visited finish = Some finish"
| "finish_all forward (use_key # cards) visited finish =
     Option.bind (visit_finish use_key forward visited finish) (\<lambda>(visited, finish). finish_all forward cards visited finish)"

partial_function (option) visit_component_all ::
  "(CardUseKey, edges) btree_map \<Rightarrow> edges \<Rightarrow> CardUseKey list \<Rightarrow> CardUseKey list \<Rightarrow>
   (CardUseKey list \<times> CardUseKey list) option" where
  "visit_component_all reverse edges visited component =
     (case edges of
        [] \<Rightarrow> Some (visited, component)
      | (use_key, _) # edges \<Rightarrow>
          if use_key \<in> set visited then visit_component_all reverse edges visited component
          else
            Option.bind (visit_component_all reverse (edges_of reverse use_key) (insort_insert use_key visited) (component @ [use_key]))
              (\<lambda>(visited, component). visit_component_all reverse edges visited component))"

definition visit_component ::
  "CardUseKey \<Rightarrow> (CardUseKey, edges) btree_map \<Rightarrow> CardUseKey list \<Rightarrow> CardUseKey list \<Rightarrow>
   (CardUseKey list \<times> CardUseKey list) option" where
  "visit_component use_key reverse visited component =
     (if use_key \<in> set visited then Some (visited, component)
      else visit_component_all reverse (edges_of reverse use_key) (insort_insert use_key visited) (component @ [use_key]))"

text \<open>The loop that pops the finished cards, last one first.\<close>

fun collect_components ::
  "(CardUseKey, edges) btree_map \<Rightarrow> CardUseKey list \<Rightarrow> CardUseKey list \<Rightarrow> CardUseKey list list \<Rightarrow>
   CardUseKey list list option" where
  "collect_components reverse [] visited components = Some components"
| "collect_components reverse (use_key # finish) visited components =
     (if use_key \<in> set visited then collect_components reverse finish visited components
      else
        Option.bind (visit_component use_key reverse visited []) (\<lambda>(visited, component).
        collect_components reverse finish visited (components @ [sort component])))"

section \<open>A concrete cycle\<close>

record CycleSearch =
  cs_colors :: "(CardUseKey, u8) btree_map"
  cs_stack_cards :: "CardUseKey list"
  cs_stack_links :: "DeckLinkKey list"

text \<open>
  A visit finds a cycle, finishes its loop, or returns early without the clean-up behind the loop,
  which is what \<open>?\<close> on a card missing from the stack does.
\<close>

datatype Visit =
    Found "CardUseKey list" "DeckLinkKey list"
  | Finished CycleSearch
  | Returned CycleSearch

definition color_of :: "CycleSearch \<Rightarrow> CardUseKey \<Rightarrow> u8" where
  "color_of s use_key = (case btree_get (cs_colors s) use_key of None \<Rightarrow> 0 | Some c \<Rightarrow> c)"

definition enter_card :: "CardUseKey \<Rightarrow> CycleSearch \<Rightarrow> CycleSearch" where
  "enter_card use_key s = s\<lparr>cs_colors := btree_insert use_key 1 (cs_colors s), cs_stack_cards := cs_stack_cards s @ [use_key]\<rparr>"

definition leave_card :: "CardUseKey \<Rightarrow> CycleSearch \<Rightarrow> CycleSearch" where
  "leave_card use_key s = s\<lparr>cs_stack_cards := butlast (cs_stack_cards s), cs_colors := btree_insert use_key 2 (cs_colors s)\<rparr>"

definition push_link :: "DeckLinkKey \<Rightarrow> CycleSearch \<Rightarrow> CycleSearch" where
  "push_link link s = s\<lparr>cs_stack_links := cs_stack_links s @ [link]\<rparr>"

definition pop_link :: "CycleSearch \<Rightarrow> CycleSearch" where
  "pop_link s = s\<lparr>cs_stack_links := butlast (cs_stack_links s)\<rparr>"

fun position :: "'a \<Rightarrow> 'a list \<Rightarrow> nat option" where
  "position x [] = None"
| "position x (y # ys) = (if y = x then Some 0 else map_option Suc (position x ys))"

definition close_cycle :: "CycleSearch \<Rightarrow> CardUseKey \<Rightarrow> DeckLinkKey \<Rightarrow> Visit option" where
  "close_cycle s target link =
     (case position target (cs_stack_cards s) of
        None \<Rightarrow> Some (Returned s)
      | Some start \<Rightarrow>
          if length (cs_stack_links s) < start then None
          else Some (Found (drop start (cs_stack_cards s) @ [target]) (drop start (cs_stack_links s) @ [link])))"

text \<open>The loop of \<open>visit_cycle\<close> over the edges of a card already entered.\<close>

partial_function (option) visit_edges :: "(CardUseKey, edges) btree_map \<Rightarrow> edges \<Rightarrow> CycleSearch \<Rightarrow> Visit option" where
  "visit_edges outgoing edges s =
     (case edges of
        [] \<Rightarrow> Some (Finished s)
      | (target, link) # edges \<Rightarrow>
          if color_of s target = 0 then
            Option.bind (visit_edges outgoing (edges_of outgoing target) (enter_card target (push_link link s)))
              (\<lambda>r. case r of
                 Found cards links \<Rightarrow> Some (Found cards links)
               | Finished s \<Rightarrow> visit_edges outgoing edges (pop_link (leave_card target s))
               | Returned s \<Rightarrow> visit_edges outgoing edges (pop_link s))
          else if color_of s target = 1 then close_cycle s target link
          else visit_edges outgoing edges s)"

definition visit_cycle ::
  "CardUseKey \<Rightarrow> (CardUseKey, edges) btree_map \<Rightarrow> CycleSearch \<Rightarrow>
   ((CardUseKey list \<times> DeckLinkKey list) + CycleSearch) option" where
  "visit_cycle use_key outgoing s =
     map_option (\<lambda>r. case r of
         Found cards links \<Rightarrow> Inl (cards, links)
       | Finished s \<Rightarrow> Inr (leave_card use_key s)
       | Returned s \<Rightarrow> Inr s)
       (visit_edges outgoing (edges_of outgoing use_key) (enter_card use_key s))"

text \<open>A lookup that fails gives up without a witness.\<close>

fun outgoing_links ::
  "CardUseKey list \<Rightarrow> DeckLink list \<Rightarrow> (CardUseKey, edges) btree_map \<Rightarrow> (CardUseKey, edges) btree_map option" where
  "outgoing_links allowed [] outgoing = Some outgoing"
| "outgoing_links allowed (link # links) outgoing =
     (if ep_card (dl_source link) \<in> set allowed \<and> ep_card (dl_target link) \<in> set allowed then
        if btree_has outgoing (ep_card (dl_source link))
        then outgoing_links allowed links
               (push_edge (ep_card (dl_source link)) (ep_card (dl_target link), dl_key link) outgoing)
        else None
      else outgoing_links allowed links outgoing)"

fun cycle_from ::
  "(CardUseKey, edges) btree_map \<Rightarrow> CardUseKey list \<Rightarrow> CycleSearch \<Rightarrow>
   (CardUseKey list \<times> DeckLinkKey list) option option" where
  "cycle_from outgoing [] s = Some None"
| "cycle_from outgoing (use_key # cards) s =
     (if color_of s use_key = 0 then
        Option.bind (visit_cycle use_key outgoing s) (\<lambda>r. case r of
            Inl witness \<Rightarrow> Some (Some witness)
          | Inr s \<Rightarrow> cycle_from outgoing cards s)
      else cycle_from outgoing cards s)"

definition concrete_cycle ::
  "CardUseKey list \<Rightarrow> DeckLink list \<Rightarrow> CardUseKey list \<Rightarrow> (CardUseKey list \<times> DeckLinkKey list) option option" where
  "concrete_cycle component links allowed =
     (case outgoing_links allowed links (fold (\<lambda>use_key. btree_insert use_key []) component []) of
        None \<Rightarrow> Some None
      | Some outgoing \<Rightarrow>
          cycle_from (map (\<lambda>(use_key, edges). (use_key, sort_edges edges)) outgoing) component
            \<lparr>cs_colors = [], cs_stack_cards = [], cs_stack_links = []\<rparr>)"

fun first_cycle :: "DeckLink list \<Rightarrow> CardUseKey list list \<Rightarrow> DeckCycleWitness option option" where
  "first_cycle links [] = Some None"
| "first_cycle links (component # components) =
     (if component = [] then None
      else
        let cyclic = 1 < length component \<or>
              list_ex (\<lambda>link. ep_card (dl_source link) = hd component \<and> ep_card (dl_target link) = hd component) links in
        if cyclic then
          let allowed = fold insort_insert component [] in
          Option.bind (concrete_cycle component links allowed) (\<lambda>r. case r of
              Some (cycle_cards, cycle_links) \<Rightarrow>
                Some (Some \<lparr>cw_component = component, cw_cards = cycle_cards, cw_links = cycle_links\<rparr>)
            | None \<Rightarrow> first_cycle links components)
        else first_cycle links components)"

definition cycle_witness :: "CardUseKey list \<Rightarrow> DeckLink list \<Rightarrow> DeckCycleWitness option option" where
  "cycle_witness cards links =
     (let forward = adjacency cards links False; reverse = adjacency cards links True in
      Option.bind (finish_all forward cards [] []) (\<lambda>finish.
      Option.bind (collect_components reverse (rev finish) [] []) (\<lambda>components.
      first_cycle links (sort components))))"

declare visit_finish_all.simps [code] visit_component_all.simps [code] visit_edges.simps [code]

end
