(* ===== verification/Binary_Search.thy ===== *)
theory Binary_Search
  imports Prelude
begin

text \<open>
  \<open>slice::binary_search_by_key\<close> of the Rust standard library, the loop that halves the window
  and the final comparison, and its contract on a slice whose keys ascend strictly: the index of
  the entry with the key, or the only place where inserting it keeps the order.
\<close>

section \<open>The search\<close>

function search_window :: "('a \<Rightarrow> 'k::linorder) \<Rightarrow> 'k \<Rightarrow> 'a list \<Rightarrow> nat \<Rightarrow> nat \<Rightarrow> nat" where
  "search_window key k xs base size' =
     (if size' \<le> 1 then base
      else let half = size' div 2; mid = base + half in
        search_window key k xs (if key (xs ! mid) > k then base else mid) (size' - half))"
  by pat_completeness auto
termination
  by (relation "measure (\<lambda>(key, k, xs, base, size'). size')") (auto simp: Let_def)

declare search_window.simps [simp del]

text \<open>\<open>Inr i\<close> is \<open>Ok(i)\<close>, \<open>Inl i\<close> is \<open>Err(i)\<close>.\<close>

definition binary_search_by_key :: "('a \<Rightarrow> 'k::linorder) \<Rightarrow> 'k \<Rightarrow> 'a list \<Rightarrow> nat + nat" where
  "binary_search_by_key key k xs =
     (if xs = [] then Inl 0
      else let base = search_window key k xs 0 (length xs) in
        if key (xs ! base) = k then Inr base
        else Inl (base + (if key (xs ! base) < k then 1 else 0)))"

section \<open>Its contract\<close>

text \<open>Everything before the window is below the key, everything behind it above.\<close>

definition window_ok :: "('a \<Rightarrow> 'k::linorder) \<Rightarrow> 'k \<Rightarrow> 'a list \<Rightarrow> nat \<Rightarrow> nat \<Rightarrow> bool" where
  "window_ok key k xs base size' \<longleftrightarrow>
     0 < size' \<and> base + size' \<le> length xs
     \<and> (\<forall>i < base. key (xs ! i) < k)
     \<and> (\<forall>i. base + size' \<le> i \<longrightarrow> i < length xs \<longrightarrow> k < key (xs ! i))"

lemma window_ok_halve:
  assumes ok: "window_ok key k xs base size'" and big: "1 < size'"
    and ord: "sorted_wrt (<) (map key xs)"
  shows "window_ok key k xs
           (if key (xs ! (base + size' div 2)) > k then base else base + size' div 2)
           (size' - size' div 2)"
proof -
  let ?mid = "base + size' div 2"
  have mid: "?mid < length xs" using ok big by (auto simp: window_ok_def)
  have asc: "key (xs ! i) < key (xs ! j)" if "i < j" "j < length xs" for i j
    using sorted_wrt_nth_less [OF ord, of i j] that by simp
  show ?thesis
  proof (cases "key (xs ! ?mid) > k")
    case True
    have "k < key (xs ! i)" if "base + (size' - size' div 2) \<le> i" "i < length xs" for i
    proof -
      have "?mid \<le> i" using that by simp
      then show ?thesis using True asc [of ?mid i] that by (cases "i = ?mid") auto
    qed
    then show ?thesis using True ok big by (auto simp: window_ok_def)
  next
    case False
    have "key (xs ! i) < k" if "i < ?mid" for i
      using False asc [OF that mid] by simp
    then show ?thesis using False ok big by (auto simp: window_ok_def)
  qed
qed

lemma search_window_ok:
  assumes "window_ok key k xs base size'" "sorted_wrt (<) (map key xs)"
  shows "window_ok key k xs (search_window key k xs base size') 1"
  using assms
proof (induction key k xs base size' rule: search_window.induct)
  case (1 key k xs base size')
  show ?case
  proof (cases "size' \<le> 1")
    case True
    then have "size' = 1" using "1.prems"(1) by (simp add: window_ok_def)
    then show ?thesis using "1.prems"(1) by (simp add: search_window.simps)
  next
    case False
    then show ?thesis
      using "1.IH" [OF False refl refl] window_ok_halve [OF "1.prems"(1) _ "1.prems"(2)] "1.prems"(2)
      by (subst search_window.simps) (simp add: Let_def)
  qed
qed

lemma search_base:
  assumes "xs \<noteq> []" "sorted_wrt (<) (map key xs)"
  shows "window_ok key k xs (search_window key k xs 0 (length xs)) 1"
  using assms by (intro search_window_ok) (simp_all add: window_ok_def)

lemma binary_search_found:
  assumes "sorted_wrt (<) (map key xs)" "binary_search_by_key key k xs = Inr i"
  shows "i < length xs" "key (xs ! i) = k"
  using assms search_base [of xs key k]
  by (auto simp: binary_search_by_key_def window_ok_def Let_def split: if_splits)

lemma binary_search_absent:
  assumes ord: "sorted_wrt (<) (map key xs)" and res: "binary_search_by_key key k xs = Inl i"
  shows "i \<le> length xs" "\<forall>j < i. key (xs ! j) < k"
    "\<forall>j. i \<le> j \<longrightarrow> j < length xs \<longrightarrow> k < key (xs ! j)"
proof -
  let ?b = "search_window key k xs 0 (length xs)"
  have "i \<le> length xs \<and> (\<forall>j < i. key (xs ! j) < k)
        \<and> (\<forall>j. i \<le> j \<longrightarrow> j < length xs \<longrightarrow> k < key (xs ! j))"
  proof (cases "xs = []")
    case True
    then show ?thesis using res by (simp add: binary_search_by_key_def)
  next
    case False
    note b = search_base [OF False ord, of k, unfolded window_ok_def]
    consider (below) "key (xs ! ?b) < k" "i = ?b + 1" | (above) "k < key (xs ! ?b)" "i = ?b"
      using res False by (auto simp: binary_search_by_key_def Let_def split: if_splits)
    then show ?thesis
    proof cases
      case below
      then show ?thesis using b by (auto simp: less_Suc_eq)
    next
      case above
      have "k < key (xs ! j)" if "?b \<le> j" "j < length xs" for j
        using b above(1) that by (cases "j = ?b") auto
      then show ?thesis using b above by auto
    qed
  qed
  then show "i \<le> length xs" "\<forall>j < i. key (xs ! j) < k"
    "\<forall>j. i \<le> j \<longrightarrow> j < length xs \<longrightarrow> k < key (xs ! j)" by blast+
qed

lemma binary_search_absent_key:
  assumes "sorted_wrt (<) (map key xs)" "binary_search_by_key key k xs = Inl i" "x \<in> set xs"
  shows "key x \<noteq> k"
proof -
  obtain j where j: "j < length xs" "x = xs ! j" using assms(3) by (auto simp: in_set_conv_nth)
  have "j < i \<or> i \<le> j" by auto
  then show ?thesis using binary_search_absent(2,3) [OF assms(1,2)] j by auto
qed

lemma binary_search_finds:
  assumes "sorted_wrt (<) (map key xs)" "x \<in> set xs" "key x = k"
  obtains i where "binary_search_by_key key k xs = Inr i" "i < length xs" "xs ! i = x"
proof (cases "binary_search_by_key key k xs")
  case (Inl i)
  then show ?thesis using binary_search_absent_key [OF assms(1) Inl assms(2)] assms(3) by simp
next
  case (Inr i)
  note f = binary_search_found [OF assms(1) Inr]
  obtain j where j: "j < length xs" "x = xs ! j" using assms(2) by (auto simp: in_set_conv_nth)
  have "distinct (map key xs)" using assms(1) strict_sorted_iff by auto
  then have "i = j" using f j assms(3) by (auto simp: distinct_conv_nth)
  then show ?thesis using that Inr f j by simp
qed

text \<open>\<open>Vec::insert\<close>.\<close>

definition vec_insert :: "nat \<Rightarrow> 'a \<Rightarrow> 'a list \<Rightarrow> 'a list" where
  "vec_insert i x xs = take i xs @ x # drop i xs"

lemma set_vec_insert [simp]: "set (vec_insert i x xs) = insert x (set xs)"
  by (metis Un_insert_right append_take_drop_id list.simps(15) set_append vec_insert_def)

lemma length_vec_insert [simp]: "length (vec_insert i x xs) = Suc (length xs)"
  by (cases "i \<le> length xs") (simp_all add: vec_insert_def)

end
