(* ===== verification/Deck.thy ===== *)
theory Deck
  imports Deck_Cycle Contracts_Assignment Binary_Search
begin

text \<open>
  The deck compiler, \<open>crates/paraegox-deployment/src/deck.rs\<close>: a specification of cards, links and requirements
  is resolved against a snapshot of definitions and becomes a lock, a canonical byte string with its digest.
\<close>

section \<open>Specification\<close>

type_synonym CardDefinitionRef = bytes16
type_synonym CardImplementationRef = bytes16

definition DECK_LOCK_VERSION :: u16 where "DECK_LOCK_VERSION = 1"
definition DECK_LOCK_MAGIC :: bytes where "DECK_LOCK_MAGIC = ascii ''PXDL''"
definition DECK_LOCK_DIGEST_DOMAIN :: bytes where
  "DECK_LOCK_DIGEST_DOMAIN = ascii ''paraegox.deployment.deck-lock.sha256.v1''"
definition MAX_DECK_CARDS :: nat where "MAX_DECK_CARDS = 256"
definition MAX_DECK_LINKS :: nat where "MAX_DECK_LINKS = 1024"
definition MAX_DECK_REQUIREMENTS :: nat where "MAX_DECK_REQUIREMENTS = 256"
definition MAX_RESOLVER_DEFINITIONS :: nat where "MAX_RESOLVER_DEFINITIONS = 256"
definition MAX_PORTS_PER_DEFINITION :: nat where "MAX_PORTS_PER_DEFINITION = 256"
definition MAX_REFINEMENTS_PER_DEFINITION :: nat where "MAX_REFINEMENTS_PER_DEFINITION = 64"
definition MAX_RESOLVED_DELIVERY_PROFILES :: nat where "MAX_RESOLVED_DELIVERY_PROFILES = 256"
definition MAX_RESOLVED_REQUIREMENTS :: nat where "MAX_RESOLVED_REQUIREMENTS = 256"
definition MAX_DISPLAY_ENTRIES :: nat where "MAX_DISPLAY_ENTRIES = 256"
definition MAX_DISPLAY_LABEL_BYTES :: nat where "MAX_DISPLAY_LABEL_BYTES = 256"

datatype DeckOwnershipRequest = OwnedByDeck | OwnedByApplication
datatype DeckLifetimeRequest = DeckLifetime | InstallationLifetime
datatype DeckCardRole = ReferenceSubject | General
datatype DeckCardConfig = CanonicalEmpty | ConfigDigest Digest32

record CardDefinitionVersionRequirement =
  vr_minimum :: u32
  vr_maximum_inclusive :: u32

definition requirement_admits :: "CardDefinitionVersionRequirement \<Rightarrow> u32 \<Rightarrow> bool" where
  "requirement_admits self version \<longleftrightarrow> vr_minimum self \<noteq> 0 \<and> vr_minimum self \<le> vr_maximum_inclusive self
     \<and> version \<ge> vr_minimum self \<and> version \<le> vr_maximum_inclusive self"

definition requirement_is_valid :: "CardDefinitionVersionRequirement \<Rightarrow> bool" where
  "requirement_is_valid self \<longleftrightarrow> vr_minimum self \<noteq> 0 \<and> vr_minimum self \<le> vr_maximum_inclusive self"

record ResolvedCardRefinementCommitment =
  rr_reference :: CardRefinementRef
  rr_payload_digest :: Digest32

text \<open>The label as its UTF-8 bytes.\<close>

record DeckDisplayMetadata =
  dm_label :: bytes
  dm_canvas_x :: "64 word"
  dm_canvas_y :: "64 word"

record DeckCardSpec =
  dc_key :: CardUseKey
  dc_definition :: CardDefinitionRef
  dc_role :: DeckCardRole
  dc_requested_version :: CardDefinitionVersionRequirement
  dc_refinement :: "CardRefinementRef option"
  dc_config :: DeckCardConfig

record DeckRequirementSpec =
  rq_key :: RequirementKey
  rq_reference :: RequirementRef

record DeckLinkSpec =
  ls_key :: DeckLinkKey
  ls_source :: DeckEndpointSpec
  ls_target :: DeckEndpointSpec
  ls_delivery_profile :: "DeliveryProfileRef option"

record DeckSpec =
  dk_deck_key :: DeckKey
  dk_cards :: "DeckCardSpec list"
  dk_links :: "DeckLinkSpec list"
  dk_requirements :: "DeckRequirementSpec list"
  dk_display :: "DeckDisplayMetadata list"
  dk_ownership :: DeckOwnershipRequest
  dk_lifetime :: DeckLifetimeRequest

section \<open>Resolution\<close>

record ResolvedDeckPort =
  dport_key :: DeckPortKey
  dport_spec :: PortSpec

record ResolvedCardDefinition =
  rd_definition :: CardDefinitionRef
  rd_version :: u32
  rd_definition_digest :: Digest32
  rd_implementation :: CardImplementationRef
  rd_export :: DeckExportRef
  rd_artifact_digest :: Digest32
  rd_ports :: "ResolvedDeckPort list"
  rd_refinements :: "ResolvedCardRefinementCommitment list"

record ResolvedDeliveryProfileCommitment =
  rp_reference :: DeliveryProfileRef
  rp_payload_digest :: Digest32

record ResolvedRequirementCommitment =
  rc_reference :: RequirementRef
  rc_payload_digest :: Digest32

record DeckResolverSnapshot =
  rs_definitions :: "ResolvedCardDefinition list"
  rs_delivery_profiles :: "ResolvedDeliveryProfileCommitment list"
  rs_requirements :: "ResolvedRequirementCommitment list"

section \<open>Lock\<close>

record DeckTopology =
  tp_card_keys :: "CardUseKey list"
  tp_links :: "DeckLink list"
  tp_requirements :: "DeckRequirementSpec list"

record ResolvedCardUse =
  cu_key :: CardUseKey
  cu_definition :: CardDefinitionRef
  cu_requested_version :: CardDefinitionVersionRequirement
  cu_definition_version :: u32
  cu_definition_digest :: Digest32
  cu_implementation :: CardImplementationRef
  cu_export :: DeckExportRef
  cu_artifact_digest :: Digest32
  cu_role :: DeckCardRole
  cu_refinement :: "ResolvedCardRefinementCommitment option"
  cu_config :: DeckCardConfig
  cu_ports :: "ResolvedDeckPort list"

record ResolvedDeckClosure =
  rz_cards :: "ResolvedCardUse list"
  rz_delivery_profiles :: "ResolvedDeliveryProfileCommitment list"
  rz_requirements :: "ResolvedRequirementCommitment list"

record DeckLock =
  dx_deck_key :: DeckKey
  dx_topology :: DeckTopology
  dx_resolved_closure :: ResolvedDeckClosure
  dx_canonical_wire :: bytes
  dx_digest :: Digest32

datatype DeckCompileError =
    ApplicationOwnershipUnsupported
  | InstallationLifetimeUnsupported
  | TooManyCards
  | TooManyLinks
  | TooManyRequirements
  | TooManyResolverDefinitions
  | TooManyPorts CardDefinitionRef
  | TooManyRefinements CardDefinitionRef
  | TooManyDeliveryProfiles
  | TooManyResolvedRequirements
  | TooManyDisplayEntries
  | DisplayLabelTooLong
  | EmptyDeck
  | DuplicateCardUse CardUseKey
  | InvalidRequestedDefinitionVersion CardUseKey
  | DuplicateResolvedDefinition CardDefinitionRef
  | InvalidDefinitionVersion CardDefinitionRef
  | ResolvedDefinitionVersionMismatch CardUseKey
  | DuplicateResolvedPort CardDefinitionRef DeckPortKey
  | DuplicateResolvedRefinement CardDefinitionRef CardRefinementRef
  | MissingResolvedRefinement CardUseKey CardRefinementRef
  | MissingResolvedDefinition CardDefinitionRef
  | DuplicateRequirement RequirementKey
  | DuplicateRequirementRef RequirementRef
  | DuplicateResolvedRequirement RequirementRef
  | MissingResolvedRequirement RequirementRef
  | DuplicateLink DeckLinkKey
  | MissingDeliveryProfileRef DeckLinkKey
  | DuplicateResolvedDeliveryProfile DeliveryProfileRef
  | MissingResolvedDeliveryProfile DeliveryProfileRef
  | DanglingSourceCard DeckLinkKey CardUseKey
  | DanglingTargetCard DeckLinkKey CardUseKey
  | DanglingSourcePort DeckLinkKey DeckPortKey
  | DanglingTargetPort DeckLinkKey DeckPortKey
  | SourcePortIsNotOutput DeckLinkKey
  | TargetPortIsNotInput DeckLinkKey
  | PortSchemaMismatch DeckLinkKey
  | PortInteractionMismatch DeckLinkKey
  | CyclicDeck DeckCycleWitness
  | DeckLengthOverflow
  | DeckDigest DigestBuildError

section \<open>Checks\<close>

fun first_duplicate_from :: "'a option \<Rightarrow> 'a list \<Rightarrow> 'a option" where
  "first_duplicate_from previous [] = None"
| "first_duplicate_from previous (value # values) =
     (if previous = Some value then Some value else first_duplicate_from (Some value) values)"

definition first_duplicate :: "'a list \<Rightarrow> 'a option" where
  "first_duplicate values = first_duplicate_from None values"

definition unique_or :: "('a \<Rightarrow> 'e) \<Rightarrow> 'a list \<Rightarrow> 'e + unit" where
  "unique_or err values = (case first_duplicate values of Some value \<Rightarrow> Inl (err value) | None \<Rightarrow> Inr ())"

definition find_port :: "ResolvedCardUse \<Rightarrow> DeckPortKey \<Rightarrow> ResolvedDeckPort option" where
  "find_port self key =
     (case binary_search_by_key dport_key key (cu_ports self) of
        Inl _ \<Rightarrow> None | Inr index \<Rightarrow> Some (cu_ports self ! index))"

definition check_limits :: "DeckSpec \<Rightarrow> DeckResolverSnapshot \<Rightarrow> DeckCompileError + unit" where
  "check_limits spec resolver =
     (if dk_ownership spec = OwnedByApplication then Inl ApplicationOwnershipUnsupported
      else if dk_lifetime spec = InstallationLifetime then Inl InstallationLifetimeUnsupported
      else if length (dk_cards spec) > MAX_DECK_CARDS then Inl TooManyCards
      else if length (dk_links spec) > MAX_DECK_LINKS then Inl TooManyLinks
      else if length (dk_requirements spec) > MAX_DECK_REQUIREMENTS then Inl TooManyRequirements
      else if length (rs_definitions resolver) > MAX_RESOLVER_DEFINITIONS then Inl TooManyResolverDefinitions
      else if length (rs_delivery_profiles resolver) > MAX_RESOLVED_DELIVERY_PROFILES then Inl TooManyDeliveryProfiles
      else if length (rs_requirements resolver) > MAX_RESOLVED_REQUIREMENTS then Inl TooManyResolvedRequirements
      else if length (dk_display spec) > MAX_DISPLAY_ENTRIES then Inl TooManyDisplayEntries
      else if list_ex (\<lambda>entry. length (dm_label entry) > MAX_DISPLAY_LABEL_BYTES) (dk_display spec) then Inl DisplayLabelTooLong
      else if dk_cards spec = [] then Inl EmptyDeck
      else Inr ())"

definition check_cards :: "DeckCardSpec list \<Rightarrow> DeckCompileError + unit" where
  "check_cards cards =
     and_then (unique_or DuplicateCardUse (map dc_key cards)) (\<lambda>_.
     case find (\<lambda>c. \<not> requirement_is_valid (dc_requested_version c)) cards of
       Some c \<Rightarrow> Inl (InvalidRequestedDefinitionVersion (dc_key c))
     | None \<Rightarrow> Inr ())"

text \<open>\<open>Iterator::min_by_key\<close>: the first of the smallest.\<close>

fun min_by_key :: "('a \<Rightarrow> 'k::linorder) \<Rightarrow> 'a option \<Rightarrow> 'a list \<Rightarrow> 'a option" where
  "min_by_key key best [] = best"
| "min_by_key key best (x # xs) =
     min_by_key key (case best of None \<Rightarrow> Some x | Some b \<Rightarrow> if key x < key b then Some x else Some b) xs"

definition definition_preflight :: "ResolvedCardDefinition \<Rightarrow> (CardDefinitionRef \<times> DeckCompileError) option" where
  "definition_preflight definition' =
     (if rd_version definition' = 0 then Some (rd_definition definition', InvalidDefinitionVersion (rd_definition definition'))
      else if length (rd_ports definition') > MAX_PORTS_PER_DEFINITION
      then Some (rd_definition definition', TooManyPorts (rd_definition definition'))
      else if length (rd_refinements definition') > MAX_REFINEMENTS_PER_DEFINITION
      then Some (rd_definition definition', TooManyRefinements (rd_definition definition'))
      else None)"

definition check_definitions :: "ResolvedCardDefinition list \<Rightarrow> DeckCompileError + unit" where
  "check_definitions definitions =
     and_then (unique_or DuplicateResolvedDefinition (sort (map rd_definition definitions))) (\<lambda>_.
     case min_by_key fst None (List.map_filter definition_preflight definitions) of
       Some (_, err) \<Rightarrow> Inl err | None \<Rightarrow> Inr ())"

fun sort_definitions :: "ResolvedCardDefinition list \<Rightarrow> DeckCompileError + ResolvedCardDefinition list" where
  "sort_definitions [] = Inr []"
| "sort_definitions (d # ds) =
     (let ports = sort_key dport_key (rd_ports d); refinements = sort_key rr_reference (rd_refinements d) in
      and_then (unique_or (DuplicateResolvedPort (rd_definition d)) (map dport_key ports)) (\<lambda>_.
      and_then (unique_or (DuplicateResolvedRefinement (rd_definition d)) (map rr_reference refinements)) (\<lambda>_.
      and_then (sort_definitions ds) (\<lambda>ds.
      Inr (d\<lparr>rd_ports := ports, rd_refinements := refinements\<rparr> # ds)))))"

section \<open>Cards, requirements and links\<close>

definition resolve_refinement ::
  "DeckCardSpec \<Rightarrow> ResolvedCardDefinition \<Rightarrow> DeckCompileError + ResolvedCardRefinementCommitment option" where
  "resolve_refinement c d =
     (case dc_refinement c of
        None \<Rightarrow> Inr None
      | Some requested \<Rightarrow>
          (case binary_search_by_key rr_reference requested (rd_refinements d) of
             Inl _ \<Rightarrow> Inl (MissingResolvedRefinement (dc_key c) requested)
           | Inr index \<Rightarrow> Inr (Some (rd_refinements d ! index))))"

fun resolve_cards ::
  "(CardDefinitionRef, ResolvedCardDefinition) btree_map \<Rightarrow> DeckCardSpec list \<Rightarrow> DeckCompileError + ResolvedCardUse list" where
  "resolve_cards definition_index [] = Inr []"
| "resolve_cards definition_index (c # cards) =
     and_then (ok_or (btree_get definition_index (dc_definition c)) (MissingResolvedDefinition (dc_definition c))) (\<lambda>d.
     if \<not> requirement_admits (dc_requested_version c) (rd_version d) then Inl (ResolvedDefinitionVersionMismatch (dc_key c))
     else
     and_then (resolve_refinement c d) (\<lambda>refinement.
     and_then (resolve_cards definition_index cards) (\<lambda>resolved.
     Inr (\<lparr>cu_key = dc_key c, cu_definition = rd_definition d, cu_requested_version = dc_requested_version c,
           cu_definition_version = rd_version d, cu_definition_digest = rd_definition_digest d,
           cu_implementation = rd_implementation d, cu_export = rd_export d, cu_artifact_digest = rd_artifact_digest d,
           cu_role = dc_role c, cu_refinement = refinement, cu_config = dc_config c, cu_ports = rd_ports d\<rparr> # resolved))))"

fun resolve_requirements ::
  "(RequirementRef, ResolvedRequirementCommitment) btree_map \<Rightarrow> DeckRequirementSpec list \<Rightarrow>
   DeckCompileError + ResolvedRequirementCommitment list" where
  "resolve_requirements requirement_index [] = Inr []"
| "resolve_requirements requirement_index (r # requirements) =
     and_then (ok_or (btree_get requirement_index (rq_reference r)) (MissingResolvedRequirement (rq_reference r))) (\<lambda>payload.
     and_then (resolve_requirements requirement_index requirements) (\<lambda>resolved. Inr (payload # resolved)))"

definition resolve_link ::
  "(DeliveryProfileRef, ResolvedDeliveryProfileCommitment) btree_map \<Rightarrow> (CardUseKey, ResolvedCardUse) btree_map \<Rightarrow>
   DeckLinkSpec \<Rightarrow> DeckCompileError + DeckLink" where
  "resolve_link delivery_index card_index link =
     and_then (ok_or (ls_delivery_profile link) (MissingDeliveryProfileRef (ls_key link))) (\<lambda>delivery_profile.
     if \<not> btree_has delivery_index delivery_profile then Inl (MissingResolvedDeliveryProfile delivery_profile)
     else
     and_then (ok_or (btree_get card_index (ep_card (ls_source link)))
                 (DanglingSourceCard (ls_key link) (ep_card (ls_source link)))) (\<lambda>source.
     and_then (ok_or (btree_get card_index (ep_card (ls_target link)))
                 (DanglingTargetCard (ls_key link) (ep_card (ls_target link)))) (\<lambda>target.
     and_then (ok_or (find_port source (ep_port (ls_source link)))
                 (DanglingSourcePort (ls_key link) (ep_port (ls_source link)))) (\<lambda>source_port.
     and_then (ok_or (find_port target (ep_port (ls_target link)))
                 (DanglingTargetPort (ls_key link) (ep_port (ls_target link)))) (\<lambda>target_port.
     if ps_direction (dport_spec source_port) \<noteq> Out then Inl (SourcePortIsNotOutput (ls_key link))
     else if ps_direction (dport_spec target_port) \<noteq> In then Inl (TargetPortIsNotInput (ls_key link))
     else if ps_schema (dport_spec source_port) \<noteq> ps_schema (dport_spec target_port) then Inl (PortSchemaMismatch (ls_key link))
     else if ps_interaction (dport_spec source_port) \<noteq> ps_interaction (dport_spec target_port)
     then Inl (PortInteractionMismatch (ls_key link))
     else Inr \<lparr>dl_key = ls_key link, dl_source = ls_source link, dl_target = ls_target link,
               dl_delivery_profile = delivery_profile\<rparr>)))))"

fun resolve_links ::
  "(DeliveryProfileRef, ResolvedDeliveryProfileCommitment) btree_map \<Rightarrow> (CardUseKey, ResolvedCardUse) btree_map \<Rightarrow>
   DeckLinkSpec list \<Rightarrow> DeliveryProfileRef list \<Rightarrow> DeckCompileError + DeckLink list \<times> DeliveryProfileRef list" where
  "resolve_links delivery_index card_index [] used_delivery_profiles = Inr ([], used_delivery_profiles)"
| "resolve_links delivery_index card_index (link # links) used_delivery_profiles =
     and_then (resolve_link delivery_index card_index link) (\<lambda>canonical.
     and_then (resolve_links delivery_index card_index links
                 (insort_insert (dl_delivery_profile canonical) used_delivery_profiles)) (\<lambda>(canonical_links, used).
     Inr (canonical # canonical_links, used)))"

fun resolve_profiles ::
  "(DeliveryProfileRef, ResolvedDeliveryProfileCommitment) btree_map \<Rightarrow> DeliveryProfileRef list \<Rightarrow>
   DeckCompileError + ResolvedDeliveryProfileCommitment list" where
  "resolve_profiles delivery_index [] = Inr []"
| "resolve_profiles delivery_index (reference # references) =
     and_then (ok_or (btree_get delivery_index reference) (MissingResolvedDeliveryProfile reference)) (\<lambda>profile.
     and_then (resolve_profiles delivery_index references) (\<lambda>profiles. Inr (profile # profiles)))"

section \<open>Canonical bytes\<close>

definition append_count :: "bytes \<Rightarrow> nat \<Rightarrow> DeckCompileError + bytes" where
  "append_count encoded value =
     and_then (ok_or (try_of_nat value) DeckLengthOverflow) (\<lambda>value. Inr (encoded @ be_u32 value))"

definition endpoint_bytes :: "DeckEndpointSpec \<Rightarrow> bytes" where
  "endpoint_bytes endpoint = arr16 (ep_card endpoint) @ arr16 (ep_port endpoint)"

definition port_bytes :: "ResolvedDeckPort \<Rightarrow> bytes" where
  "port_bytes port =
     (let schema = ps_schema (dport_spec port) in
      arr16 (dport_key port) @ [direction_u8 (ps_direction (dport_spec port))] @ arr16 (sr_id schema)
      @ be_u32 (sr_version schema) @ arr32 (sr_content_digest schema)
      @ [interaction_u8 (ps_interaction (dport_spec port))] @ [cardinality_u8 (ps_cardinality (dport_spec port))])"

definition link_bytes :: "DeckLink \<Rightarrow> bytes" where
  "link_bytes link = arr16 (dl_key link) @ endpoint_bytes (dl_source link) @ endpoint_bytes (dl_target link)
     @ arr16 (dl_delivery_profile link)"

fun role_u8 :: "DeckCardRole \<Rightarrow> u8" where
  "role_u8 ReferenceSubject = 1" | "role_u8 General = 2"

definition refinement_bytes :: "ResolvedCardRefinementCommitment option \<Rightarrow> bytes" where
  "refinement_bytes refinement =
     (case refinement of
        Some refinement \<Rightarrow> [1] @ arr16 (rr_reference refinement) @ arr32 (rr_payload_digest refinement)
      | None \<Rightarrow> [0])"

definition config_bytes :: "DeckCardConfig \<Rightarrow> bytes" where
  "config_bytes config = (case config of CanonicalEmpty \<Rightarrow> [0] | ConfigDigest digest \<Rightarrow> [1] @ arr32 digest)"

definition card_bytes :: "ResolvedCardUse \<Rightarrow> bytes" where
  "card_bytes c =
     arr16 (cu_key c) @ arr16 (cu_definition c) @ be_u32 (vr_minimum (cu_requested_version c))
     @ be_u32 (vr_maximum_inclusive (cu_requested_version c)) @ be_u32 (cu_definition_version c)
     @ arr32 (cu_definition_digest c) @ arr16 (cu_implementation c) @ arr16 (cu_export c)
     @ arr32 (cu_artifact_digest c) @ [role_u8 (cu_role c)] @ refinement_bytes (cu_refinement c)
     @ config_bytes (cu_config c)"

fun append_cards :: "bytes \<Rightarrow> ResolvedCardUse list \<Rightarrow> DeckCompileError + bytes" where
  "append_cards encoded [] = Inr encoded"
| "append_cards encoded (c # cards) =
     and_then (append_count (encoded @ card_bytes c) (length (cu_ports c))) (\<lambda>encoded.
     append_cards (encoded @ concat (map port_bytes (cu_ports c))) cards)"

definition encode_lock :: "DeckKey \<Rightarrow> DeckTopology \<Rightarrow> ResolvedDeckClosure \<Rightarrow> DeckCompileError + bytes" where
  "encode_lock deck_key topology closure =
     and_then (append_count (DECK_LOCK_MAGIC @ be_u16 DECK_LOCK_VERSION @ arr16 deck_key) (length (tp_card_keys topology))) (\<lambda>encoded.
     and_then (append_count (encoded @ concat (map arr16 (tp_card_keys topology))) (length (tp_links topology))) (\<lambda>encoded.
     and_then (append_count (encoded @ concat (map link_bytes (tp_links topology))) (length (tp_requirements topology))) (\<lambda>encoded.
     and_then (append_count (encoded @ concat (map (\<lambda>r. arr16 (rq_key r) @ arr16 (rq_reference r)) (tp_requirements topology)))
                 (length (rz_cards closure))) (\<lambda>encoded.
     and_then (append_cards encoded (rz_cards closure)) (\<lambda>encoded.
     and_then (append_count encoded (length (rz_delivery_profiles closure))) (\<lambda>encoded.
     and_then (append_count
                 (encoded @ concat (map (\<lambda>p. arr16 (rp_reference p) @ arr32 (rp_payload_digest p)) (rz_delivery_profiles closure)))
                 (length (rz_requirements closure))) (\<lambda>encoded.
     Inr (encoded @ concat (map (\<lambda>r. arr16 (rc_reference r) @ arr32 (rc_payload_digest r)) (rz_requirements closure))))))))))"

section \<open>Compilation\<close>

definition index_by :: "('a \<Rightarrow> 'k::linorder) \<Rightarrow> 'a list \<Rightarrow> ('k, 'a) btree_map" where
  "index_by key xs = fold (\<lambda>x. btree_insert (key x) x) xs []"

text \<open>Everything before the search for a cycle: the topology and the closure.\<close>

definition resolve_deck :: "DeckSpec \<Rightarrow> DeckResolverSnapshot \<Rightarrow> DeckCompileError + DeckTopology \<times> ResolvedDeckClosure" where
  "resolve_deck spec resolver =
     and_then (check_limits spec resolver) (\<lambda>_.
     let cards = sort_key dc_key (dk_cards spec) in
     and_then (check_cards cards) (\<lambda>_.
     and_then (check_definitions (rs_definitions resolver)) (\<lambda>_.
     and_then (sort_definitions (sort_key rd_definition (rs_definitions resolver))) (\<lambda>definitions.
     and_then (resolve_cards (index_by rd_definition definitions) cards) (\<lambda>resolved_cards.
     let requirements = sort_key rq_key (dk_requirements spec) in
     and_then (unique_or DuplicateRequirement (map rq_key requirements)) (\<lambda>_.
     and_then (unique_or DuplicateRequirementRef (sort (map rq_reference requirements))) (\<lambda>_.
     let available_requirements = sort_key rc_reference (rs_requirements resolver) in
     and_then (unique_or DuplicateResolvedRequirement (map rc_reference available_requirements)) (\<lambda>_.
     and_then (resolve_requirements (index_by rc_reference available_requirements) requirements) (\<lambda>resolved_requirements.
     let links = sort_key ls_key (dk_links spec) in
     and_then (unique_or DuplicateLink (map ls_key links)) (\<lambda>_.
     let available_delivery_profiles = sort_key rp_reference (rs_delivery_profiles resolver) in
     and_then (unique_or DuplicateResolvedDeliveryProfile (map rp_reference available_delivery_profiles)) (\<lambda>_.
     let delivery_index = index_by rp_reference available_delivery_profiles in
     and_then (resolve_links delivery_index (index_by cu_key resolved_cards) links []) (\<lambda>(canonical_links, used_delivery_profiles).
     and_then (resolve_profiles delivery_index used_delivery_profiles) (\<lambda>resolved_delivery_profiles.
     Inr (\<lparr>tp_card_keys = map dc_key cards, tp_links = canonical_links, tp_requirements = requirements\<rparr>,
          \<lparr>rz_cards = resolved_cards, rz_delivery_profiles = resolved_delivery_profiles,
           rz_requirements = sort_key rc_reference resolved_requirements\<rparr>))))))))))))))"

definition lock_deck ::
  "(bytes \<Rightarrow> Digest32) \<Rightarrow> DeckKey \<Rightarrow> DeckTopology \<Rightarrow> ResolvedDeckClosure \<Rightarrow> DeckCompileError + DeckLock" where
  "lock_deck sha256 deck_key topology resolved_closure =
     and_then (encode_lock deck_key topology resolved_closure) (\<lambda>canonical_wire.
     and_then (map_err DeckDigest (build_digest sha256 DECK_LOCK_DIGEST_DOMAIN [field_bytes canonical_wire])) (\<lambda>digest.
     Inr \<lparr>dx_deck_key = deck_key, dx_topology = topology, dx_resolved_closure = resolved_closure,
          dx_canonical_wire = canonical_wire, dx_digest = digest\<rparr>))"

definition compile :: "(bytes \<Rightarrow> Digest32) \<Rightarrow> DeckSpec \<Rightarrow> DeckResolverSnapshot \<Rightarrow> (DeckCompileError + DeckLock) option" where
  "compile sha256 spec resolver =
     (case resolve_deck spec resolver of
        Inl err \<Rightarrow> Some (Inl err)
      | Inr (topology, resolved_closure) \<Rightarrow>
          Option.bind (cycle_witness (tp_card_keys topology) (tp_links topology)) (\<lambda>r. case r of
              Some witness \<Rightarrow> Some (Inl (CyclicDeck witness))
            | None \<Rightarrow> Some (lock_deck sha256 (dk_deck_key spec) topology resolved_closure)))"

end
