(* ===== verification/Reference_Wire.thy ===== *)
theory Reference_Wire
  imports Deck
begin

text \<open>
  Build descriptors, compatibility manifests and their projections,
  \<open>crates/paraegox-runtime-contracts/src/reference_assembly.rs\<close>: the data, the canonical bytes and the decoders. A
  target triple is its UTF-8 bytes; the separate check for valid UTF-8 is covered by the check of the
  allowed bytes, all of which are ASCII, with the same error.
\<close>

section \<open>Constants\<close>

definition BUILD_DESCRIPTOR_MAGIC :: bytes where "BUILD_DESCRIPTOR_MAGIC = ascii ''PXBD''"
definition COMPATIBILITY_MANIFEST_MAGIC :: bytes where "COMPATIBILITY_MANIFEST_MAGIC = ascii ''PXCM''"
definition COMPATIBILITY_PROJECTION_MAGIC :: bytes where "COMPATIBILITY_PROJECTION_MAGIC = ascii ''PXMP''"
definition TARGET_EXECUTION_MAGIC :: bytes where "TARGET_EXECUTION_MAGIC = ascii ''PXTE''"
definition RUNTIME_APPLY_REQUEST_MAGIC :: bytes where "RUNTIME_APPLY_REQUEST_MAGIC = ascii ''PXAR''"
definition REFERENCE_ENVELOPE_MAGIC :: bytes where
  "REFERENCE_ENVELOPE_MAGIC = ascii ''ParaEGOX'' @ [0] @ ascii ''runtime-apply-envelope''"

definition BUILD_DESCRIPTOR_DIGEST_DOMAIN :: bytes where
  "BUILD_DESCRIPTOR_DIGEST_DOMAIN = ascii ''paraegox.runtime.build-descriptor.sha256.v1''"
definition COMPILED_REFERENCE_COMPATIBILITY_DIGEST_DOMAIN :: bytes where
  "COMPILED_REFERENCE_COMPATIBILITY_DIGEST_DOMAIN = ascii ''paraegox.runtime.compiled-reference-compatibility.sha256.v1''"
definition COMPATIBILITY_MANIFEST_DIGEST_DOMAIN :: bytes where
  "COMPATIBILITY_MANIFEST_DIGEST_DOMAIN = ascii ''paraegox.runtime.artifact-compatibility-manifest.sha256.v1''"
definition REFERENCE_EMPTY_CONFIG_DIGEST_DOMAIN :: bytes where
  "REFERENCE_EMPTY_CONFIG_DIGEST_DOMAIN = ascii ''paraegox.runtime.reference-empty-config.sha256.v1''"
definition TARGET_EXECUTION_V4_DIGEST_DOMAIN :: bytes where
  "TARGET_EXECUTION_V4_DIGEST_DOMAIN = ascii ''paraegox.runtime.target-execution.sha256.v4''"
definition TARGET_PLAN_ASSIGNMENTS_V5_DIGEST_DOMAIN :: bytes where
  "TARGET_PLAN_ASSIGNMENTS_V5_DIGEST_DOMAIN = ascii ''paraegox.runtime.target-plan-assignments.sha256.v5''"
definition APPLY_ENVELOPE_V2_SIGNING_DOMAIN :: bytes where
  "APPLY_ENVELOPE_V2_SIGNING_DOMAIN = ascii ''paraegox.runtime.apply-envelope-auth.signing.v2''"
definition APPLY_ENVELOPE_V2_REQUEST_DIGEST_DOMAIN :: bytes where
  "APPLY_ENVELOPE_V2_REQUEST_DIGEST_DOMAIN = ascii ''paraegox.runtime.apply-envelope.request.sha256.v2''"
definition REFERENCE_PROFILE_FINGERPRINT_DIGEST_DOMAIN :: bytes where
  "REFERENCE_PROFILE_FINGERPRINT_DIGEST_DOMAIN = ascii ''paraegox.runtime.reference-profile-fingerprint.sha256.v1''"

definition RUNTIME_BUILD_DESCRIPTOR_VERSION :: u16 where "RUNTIME_BUILD_DESCRIPTOR_VERSION = 1"
definition RUNTIME_ARTIFACT_COMPATIBILITY_MANIFEST_VERSION :: u16 where
  "RUNTIME_ARTIFACT_COMPATIBILITY_MANIFEST_VERSION = 1"
definition RUNTIME_ARTIFACT_COMPATIBILITY_PROJECTION_VERSION :: u16 where
  "RUNTIME_ARTIFACT_COMPATIBILITY_PROJECTION_VERSION = 1"
definition REFERENCE_ASSEMBLY_PROFILE_VERSION :: u16 where "REFERENCE_ASSEMBLY_PROFILE_VERSION = 1"
definition TARGET_EXECUTION_PLAN_V4_VERSION :: u16 where "TARGET_EXECUTION_PLAN_V4_VERSION = 4"
definition RUNTIME_APPLY_REQUEST_V5_VERSION :: u16 where "RUNTIME_APPLY_REQUEST_V5_VERSION = 5"
definition RUNTIME_APPLY_ENVELOPE_V2_VERSION :: u16 where "RUNTIME_APPLY_ENVELOPE_V2_VERSION = 2"

definition REFERENCE_LIFECYCLE_CONCURRENCY :: u16 where "REFERENCE_LIFECYCLE_CONCURRENCY = 1"
definition REFERENCE_MAILBOX_SLOTS :: u16 where "REFERENCE_MAILBOX_SLOTS = 0"
definition REFERENCE_DISPATCH_SLOTS :: u16 where "REFERENCE_DISPATCH_SLOTS = 0"
definition REFERENCE_BACKGROUND_TASK_SLOTS :: u16 where "REFERENCE_BACKGROUND_TASK_SLOTS = 0"
definition MAX_TARGET_TRIPLE_BYTES :: nat where "MAX_TARGET_TRIPLE_BYTES = 255"
definition MAX_RUNTIME_ARTIFACT_BYTES :: u64 where "MAX_RUNTIME_ARTIFACT_BYTES = 4294967296"
definition MAX_REFERENCE_LIFECYCLE_BUDGET_NANOS :: u64 where "MAX_REFERENCE_LIFECYCLE_BUDGET_NANOS = 86400000000000"
definition MAX_RUNTIME_APPLY_ENVELOPE_V2_BYTES :: nat where "MAX_RUNTIME_APPLY_ENVELOPE_V2_BYTES = 4096"
definition MAX_APPLY_AUTH_NONCE_V2_BYTES :: nat where "MAX_APPLY_AUTH_NONCE_V2_BYTES = 64"
definition MAX_APPLY_AUTH_SIGNATURE_V2_BYTES :: nat where "MAX_APPLY_AUTH_SIGNATURE_V2_BYTES = 512"

definition BUILD_ID_BYTES :: nat where "BUILD_ID_BYTES = 32"
definition STORE_ID_BYTES :: nat where "STORE_ID_BYTES = 32"
definition FIXTURE_ENTRY_BYTES :: nat where "FIXTURE_ENTRY_BYTES = 112"
definition BUILD_IDENTITY_BYTES :: nat where "BUILD_IDENTITY_BYTES = 128"
definition MANIFEST_TARGET_ROW_BYTES :: nat where
  "MANIFEST_TARGET_ROW_BYTES = 16 + BUILD_IDENTITY_BYTES + 2 + 2 + FIXTURE_ENTRY_BYTES"
definition COMPATIBILITY_MANIFEST_BYTES :: nat where "COMPATIBILITY_MANIFEST_BYTES = 4 + 2 + MANIFEST_TARGET_ROW_BYTES"
definition COMPATIBILITY_PROJECTION_BYTES :: nat where
  "COMPATIBILITY_PROJECTION_BYTES = 4 + 2 + 32 + MANIFEST_TARGET_ROW_BYTES"
definition REFERENCE_LOOP_DOMAIN_BYTES :: nat where "REFERENCE_LOOP_DOMAIN_BYTES = 16 + 8 + 8 + 8"
definition REFERENCE_LOOP_SUBJECT_BYTES :: nat where "REFERENCE_LOOP_SUBJECT_BYTES = 16 + 16 + FIXTURE_ENTRY_BYTES + 32"
definition ZERO_BINDING_PXTA_BYTES :: nat where "ZERO_BINDING_PXTA_BYTES = 10"
definition APPLY_REQUEST_V5_HEADER_BYTES :: nat where "APPLY_REQUEST_V5_HEADER_BYTES = 18"
definition APPLY_ENVELOPE_V2_FIELD_COUNT :: u16 where "APPLY_ENVELOPE_V2_FIELD_COUNT = 38"
definition MAX_RUNTIME_BUILD_DESCRIPTOR_BYTES :: nat where
  "MAX_RUNTIME_BUILD_DESCRIPTOR_BYTES = 4 + 2 + BUILD_ID_BYTES + 8 + 32 + 2 + MAX_TARGET_TRIPLE_BYTES + 32"
definition MAX_TARGET_EXECUTION_PLAN_V4_BYTES :: nat where
  "MAX_TARGET_EXECUTION_PLAN_V4_BYTES = 4 + 2 + COMPATIBILITY_PROJECTION_BYTES + 2 + 1 + 1 + REFERENCE_LOOP_DOMAIN_BYTES
     + 1 + REFERENCE_LOOP_SUBJECT_BYTES"
definition MAX_RUNTIME_PLAN_SLICE_V5_BYTES :: nat where
  "MAX_RUNTIME_PLAN_SLICE_V5_BYTES = ZERO_BINDING_PXTA_BYTES + MAX_TARGET_EXECUTION_PLAN_V4_BYTES"
definition MAX_RUNTIME_APPLY_REQUEST_V5_BYTES :: nat where
  "MAX_RUNTIME_APPLY_REQUEST_V5_BYTES = APPLY_REQUEST_V5_HEADER_BYTES + MAX_RUNTIME_APPLY_ENVELOPE_V2_BYTES
     + ZERO_BINDING_PXTA_BYTES + MAX_TARGET_EXECUTION_PLAN_V4_BYTES"
definition ZERO_BINDING_PXTA :: bytes where "ZERO_BINDING_PXTA = ascii ''PXTA'' @ [0, 1, 0, 0, 0, 0]"

section \<open>Errors\<close>

datatype ReferenceWireErrorCode =
    RefFrameTooLarge | RefTruncated | RefInvalidMagic | RefUnsupportedVersion | RefUnknownField | RefDuplicateField
  | RefOutOfOrderField | RefMissingField | RefInvalidFieldLength | RefInvalidFieldValue | RefNonCanonicalFrame
  | RefDigestMismatch | RefCrossReferenceMismatch | RefUnsupportedShape | RefBindingNotAllowed | RefRuntimeStoreMismatch
  | RefTargetMismatch | RefFixtureMismatch | RefResponseBoundExceeded | RefUnknownReason | RefTrailingBytes
  | RefInvalidSignatureField | RefInvalidPresence | RefArtifactMismatch | RefCompatibilityMismatch

record ReferenceWireError =
  we_code :: ReferenceWireErrorCode
  we_detail :: "u16 option"

definition wire_error :: "ReferenceWireErrorCode \<Rightarrow> ReferenceWireError" where
  "wire_error code = \<lparr>we_code = code, we_detail = None\<rparr>"

definition wire_error_at :: "ReferenceWireErrorCode \<Rightarrow> u16 \<Rightarrow> ReferenceWireError" where
  "wire_error_at code detail = \<lparr>we_code = code, we_detail = Some detail\<rparr>"

datatype ReferenceContractError =
    ContractDigest DigestBuildError | ContractInvalidBuildInstanceId | ContractInvalidRuntimeStoreInstanceId
  | ContractInvalidArtifactLength | ContractInvalidArtifactDigest | ContractInvalidTargetTriple
  | ContractInvalidCompatibility | ContractInvalidLifecycleBudget | ContractInvalidProfile | ContractInvalidShape
  | ContractDomainMismatch | ContractFixtureMismatch | ContractConfigMismatch | ContractTargetMismatch
  | ContractBindingNotAllowed | ContractEnvelopeInvalid | ContractRequestFrameTooLarge | ContractCommitmentMismatch
  | ContractInvalidBound | ContractInvalidReason

section \<open>Data\<close>

type_synonym FixtureExportRef = bytes16
type_synonym RuntimeBuildInstanceId = bytes32
type_synonym RuntimeTargetTriple = bytes

record ReferenceFixtureEntryV1 =
  fx_definition :: CardDefinitionRef
  fx_implementation :: CardImplementationRef
  fx_export :: FixtureExportRef
  fx_definition_digest :: Digest32
  fx_fixture_artifact_digest :: Digest32

record RuntimeBuildDescriptorV1 =
  bd_build_instance_id :: RuntimeBuildInstanceId
  bd_runtime_artifact_length :: u64
  bd_runtime_artifact_sha256 :: Digest32
  bd_target_triple :: RuntimeTargetTriple
  bd_compiled_reference_compatibility_digest :: Digest32
  bd_canonical_wire :: bytes
  bd_descriptor_digest :: Digest32

record RuntimeBuildIdentityV1 =
  bi_build_instance_id :: RuntimeBuildInstanceId
  bi_build_descriptor_digest :: Digest32
  bi_runtime_artifact_sha256 :: Digest32
  bi_compiled_reference_compatibility_digest :: Digest32

record RuntimeArtifactCompatibilityTargetRowV1 =
  rw_target :: RuntimeHostId
  rw_build_identity :: RuntimeBuildIdentityV1
  rw_fixture :: ReferenceFixtureEntryV1

record RuntimeArtifactCompatibilityManifestV1 =
  mf_row :: RuntimeArtifactCompatibilityTargetRowV1
  mf_canonical_wire :: bytes
  mf_manifest_digest :: Digest32

record RuntimeArtifactCompatibilityManifestProjectionV1 =
  mp_manifest_digest :: Digest32
  mp_row :: RuntimeArtifactCompatibilityTargetRowV1
  mp_canonical_wire :: bytes

definition build_instance_id_try_from_bytes :: "bytes32 \<Rightarrow> ReferenceContractError + RuntimeBuildInstanceId" where
  "build_instance_id_try_from_bytes value = (if value = 0 then Inl ContractInvalidBuildInstanceId else Inr value)"

definition ascii_lowercase :: "u8 \<Rightarrow> bool" where "ascii_lowercase b \<longleftrightarrow> 97 \<le> b \<and> b \<le> 122"
definition ascii_digit :: "u8 \<Rightarrow> bool" where "ascii_digit b \<longleftrightarrow> 48 \<le> b \<and> b \<le> 57"
definition ascii_alphanumeric :: "u8 \<Rightarrow> bool" where
  "ascii_alphanumeric b \<longleftrightarrow> ascii_lowercase b \<or> ascii_digit b \<or> 65 \<le> b \<and> b \<le> 90"

text \<open>Letters, digits, and the hyphen (45), the dot (46) and the underscore (95).\<close>

definition target_triple_try_new :: "bytes \<Rightarrow> ReferenceContractError + RuntimeTargetTriple" where
  "target_triple_try_new value =
     (if value = [] \<or> length value > MAX_TARGET_TRIPLE_BYTES \<or> \<not> ascii_alphanumeric (hd value)
        \<or> \<not> ascii_alphanumeric (last value)
        \<or> list_ex (\<lambda>b. \<not> ascii_lowercase b \<and> \<not> ascii_digit b \<and> b \<notin> {45, 95, 46}) value
      then Inl ContractInvalidTargetTriple else Inr value)"

section \<open>Digests\<close>

definition compiled_reference_compatibility_digest ::
  "(bytes \<Rightarrow> Digest32) \<Rightarrow> ReferenceFixtureEntryV1 \<Rightarrow> DigestBuildError + Digest32" where
  "compiled_reference_compatibility_digest sha256 fixture =
     build_digest sha256 COMPILED_REFERENCE_COMPATIBILITY_DIGEST_DOMAIN
       [field_bytes RUNTIME_APPLY_REQUEST_MAGIC,
        field_u16 RUNTIME_APPLY_REQUEST_V5_VERSION,
        field_u16 (of_nat APPLY_REQUEST_V5_HEADER_BYTES),
        field_bytes (be_u32 (of_nat MAX_RUNTIME_APPLY_REQUEST_V5_BYTES)),
        field_bytes TARGET_EXECUTION_MAGIC,
        field_u16 TARGET_EXECUTION_PLAN_V4_VERSION,
        field_bytes (be_u32 (of_nat MAX_TARGET_EXECUTION_PLAN_V4_BYTES)),
        field_u16 (of_nat COMPATIBILITY_PROJECTION_BYTES),
        field_u16 (of_nat REFERENCE_LOOP_DOMAIN_BYTES),
        field_u16 (of_nat REFERENCE_LOOP_SUBJECT_BYTES),
        field_bytes ZERO_BINDING_PXTA,
        field_bytes REFERENCE_ENVELOPE_MAGIC,
        field_u16 RUNTIME_APPLY_ENVELOPE_V2_VERSION,
        field_u16 APPLY_ENVELOPE_V2_FIELD_COUNT,
        field_u16 (of_nat STORE_ID_BYTES),
        field_bytes (be_u32 (of_nat MAX_RUNTIME_APPLY_ENVELOPE_V2_BYTES)),
        field_u16 (of_nat MAX_APPLY_AUTH_NONCE_V2_BYTES),
        field_u16 (of_nat MAX_APPLY_AUTH_SIGNATURE_V2_BYTES),
        field_u16 REFERENCE_ASSEMBLY_PROFILE_VERSION,
        field_u16 REFERENCE_LIFECYCLE_CONCURRENCY,
        field_u16 REFERENCE_MAILBOX_SLOTS,
        field_u16 REFERENCE_DISPATCH_SLOTS,
        field_u16 REFERENCE_BACKGROUND_TASK_SLOTS,
        field_u64 MAX_REFERENCE_LIFECYCLE_BUDGET_NANOS,
        field_bytes TARGET_EXECUTION_V4_DIGEST_DOMAIN,
        field_bytes TARGET_PLAN_ASSIGNMENTS_V5_DIGEST_DOMAIN,
        field_bytes APPLY_ENVELOPE_V2_SIGNING_DOMAIN,
        field_bytes APPLY_ENVELOPE_V2_REQUEST_DIGEST_DOMAIN,
        field_bytes REFERENCE_EMPTY_CONFIG_DIGEST_DOMAIN,
        field_bytes COMPATIBILITY_PROJECTION_MAGIC,
        field_u16 RUNTIME_ARTIFACT_COMPATIBILITY_PROJECTION_VERSION,
        field_u16 (of_nat COMPATIBILITY_PROJECTION_BYTES),
        field_bytes COMPATIBILITY_MANIFEST_MAGIC,
        field_u16 RUNTIME_ARTIFACT_COMPATIBILITY_MANIFEST_VERSION,
        field_u16 (of_nat COMPATIBILITY_MANIFEST_BYTES),
        field_bytes COMPATIBILITY_MANIFEST_DIGEST_DOMAIN,
        field_u16 (of_nat BUILD_IDENTITY_BYTES),
        field_u16 (of_nat FIXTURE_ENTRY_BYTES),
        field_bytes (arr16 (fx_definition fixture)),
        field_bytes (arr16 (fx_implementation fixture)),
        field_bytes (arr16 (fx_export fixture)),
        field_digest (fx_definition_digest fixture),
        field_digest (fx_fixture_artifact_digest fixture)]"

definition reference_empty_config_digest :: "(bytes \<Rightarrow> Digest32) \<Rightarrow> DigestBuildError + Digest32" where
  "reference_empty_config_digest sha256 = build_digest sha256 REFERENCE_EMPTY_CONFIG_DIGEST_DOMAIN []"

datatype ReferenceAssemblyModeV1 = OneSourceLoopMode | EmptyDeactivateMode

fun mode_u8 :: "ReferenceAssemblyModeV1 \<Rightarrow> u8" where
  "mode_u8 OneSourceLoopMode = 1" | "mode_u8 EmptyDeactivateMode = 2"

definition reference_profile_fingerprint ::
  "(bytes \<Rightarrow> Digest32) \<Rightarrow> ReferenceFixtureEntryV1 \<Rightarrow> DigestBuildError + Digest32" where
  "reference_profile_fingerprint sha256 fixture =
     and_then (reference_empty_config_digest sha256) (\<lambda>empty_config.
     build_digest sha256 REFERENCE_PROFILE_FINGERPRINT_DIGEST_DOMAIN
       [field_u16 REFERENCE_ASSEMBLY_PROFILE_VERSION,
        field_u16 2,
        field_bytes [mode_u8 OneSourceLoopMode],
        field_bytes [mode_u8 EmptyDeactivateMode],
        field_u16 REFERENCE_LIFECYCLE_CONCURRENCY,
        field_u16 REFERENCE_MAILBOX_SLOTS,
        field_u16 REFERENCE_DISPATCH_SLOTS,
        field_u16 REFERENCE_BACKGROUND_TASK_SLOTS,
        field_u64 MAX_REFERENCE_LIFECYCLE_BUDGET_NANOS,
        field_digest empty_config,
        field_bytes (arr16 (fx_definition fixture)),
        field_bytes (arr16 (fx_implementation fixture)),
        field_bytes (arr16 (fx_export fixture)),
        field_digest (fx_definition_digest fixture),
        field_digest (fx_fixture_artifact_digest fixture)])"

definition digest_wire :: "(bytes \<Rightarrow> Digest32) \<Rightarrow> bytes \<Rightarrow> bytes \<Rightarrow> DigestBuildError + Digest32" where
  "digest_wire sha256 domain wire = build_digest sha256 domain [field_bytes wire]"

section \<open>Canonical bytes\<close>

definition build_descriptor_wire ::
  "RuntimeBuildInstanceId \<Rightarrow> u64 \<Rightarrow> Digest32 \<Rightarrow> RuntimeTargetTriple \<Rightarrow> Digest32 \<Rightarrow> bytes" where
  "build_descriptor_wire build_instance_id runtime_artifact_length runtime_artifact_sha256 target_triple compatibility_digest =
     BUILD_DESCRIPTOR_MAGIC @ be_u16 RUNTIME_BUILD_DESCRIPTOR_VERSION @ arr32 build_instance_id
     @ be_u64 runtime_artifact_length @ arr32 runtime_artifact_sha256 @ be_u16 (of_nat (length target_triple))
     @ target_triple @ arr32 compatibility_digest"

definition build_identity_bytes :: "RuntimeBuildIdentityV1 \<Rightarrow> bytes" where
  "build_identity_bytes identity =
     arr32 (bi_build_instance_id identity) @ arr32 (bi_build_descriptor_digest identity)
     @ arr32 (bi_runtime_artifact_sha256 identity) @ arr32 (bi_compiled_reference_compatibility_digest identity)"

definition fixture_entry_bytes :: "ReferenceFixtureEntryV1 \<Rightarrow> bytes" where
  "fixture_entry_bytes fixture =
     arr16 (fx_definition fixture) @ arr16 (fx_implementation fixture) @ arr16 (fx_export fixture)
     @ arr32 (fx_definition_digest fixture) @ arr32 (fx_fixture_artifact_digest fixture)"

definition manifest_target_row_bytes :: "RuntimeArtifactCompatibilityTargetRowV1 \<Rightarrow> bytes" where
  "manifest_target_row_bytes row =
     arr16 (rw_target row) @ build_identity_bytes (rw_build_identity row) @ be_u16 RUNTIME_APPLY_REQUEST_V5_VERSION
     @ be_u16 REFERENCE_ASSEMBLY_PROFILE_VERSION @ fixture_entry_bytes (rw_fixture row)"

definition build_manifest_wire :: "RuntimeArtifactCompatibilityTargetRowV1 \<Rightarrow> bytes" where
  "build_manifest_wire row =
     COMPATIBILITY_MANIFEST_MAGIC @ be_u16 RUNTIME_ARTIFACT_COMPATIBILITY_MANIFEST_VERSION @ manifest_target_row_bytes row"

definition build_projection_wire :: "Digest32 \<Rightarrow> RuntimeArtifactCompatibilityTargetRowV1 \<Rightarrow> bytes" where
  "build_projection_wire manifest_digest row =
     COMPATIBILITY_PROJECTION_MAGIC @ be_u16 RUNTIME_ARTIFACT_COMPATIBILITY_PROJECTION_VERSION @ arr32 manifest_digest
     @ manifest_target_row_bytes row"

section \<open>Construction\<close>

definition descriptor_try_from_parts ::
  "(bytes \<Rightarrow> Digest32) \<Rightarrow> RuntimeBuildInstanceId \<Rightarrow> u64 \<Rightarrow> Digest32 \<Rightarrow> RuntimeTargetTriple \<Rightarrow> Digest32 \<Rightarrow>
   ReferenceContractError + RuntimeBuildDescriptorV1" where
  "descriptor_try_from_parts sha256 build_instance_id runtime_artifact_length runtime_artifact_sha256 target_triple
     compatibility_digest =
     (if runtime_artifact_length = 0 \<or> runtime_artifact_length > MAX_RUNTIME_ARTIFACT_BYTES
      then Inl ContractInvalidArtifactLength
      else if runtime_artifact_sha256 = 0 then Inl ContractInvalidArtifactDigest
      else if compatibility_digest = 0 then Inl ContractInvalidCompatibility
      else
        let canonical_wire = build_descriptor_wire build_instance_id runtime_artifact_length runtime_artifact_sha256
              target_triple compatibility_digest in
        and_then (map_err ContractDigest (digest_wire sha256 BUILD_DESCRIPTOR_DIGEST_DOMAIN canonical_wire)) (\<lambda>descriptor_digest.
        Inr \<lparr>bd_build_instance_id = build_instance_id, bd_runtime_artifact_length = runtime_artifact_length,
             bd_runtime_artifact_sha256 = runtime_artifact_sha256, bd_target_triple = target_triple,
             bd_compiled_reference_compatibility_digest = compatibility_digest, bd_canonical_wire = canonical_wire,
             bd_descriptor_digest = descriptor_digest\<rparr>))"

definition descriptor_try_new ::
  "(bytes \<Rightarrow> Digest32) \<Rightarrow> RuntimeBuildInstanceId \<Rightarrow> u64 \<Rightarrow> Digest32 \<Rightarrow> RuntimeTargetTriple \<Rightarrow> ReferenceFixtureEntryV1 \<Rightarrow>
   ReferenceContractError + RuntimeBuildDescriptorV1" where
  "descriptor_try_new sha256 build_instance_id runtime_artifact_length runtime_artifact_sha256 target_triple fixture =
     and_then (map_err ContractDigest (compiled_reference_compatibility_digest sha256 fixture)) (\<lambda>compatibility_digest.
     descriptor_try_from_parts sha256 build_instance_id runtime_artifact_length runtime_artifact_sha256 target_triple
       compatibility_digest)"

definition identity_from_descriptor :: "RuntimeBuildDescriptorV1 \<Rightarrow> RuntimeBuildIdentityV1" where
  "identity_from_descriptor descriptor =
     \<lparr>bi_build_instance_id = bd_build_instance_id descriptor, bi_build_descriptor_digest = bd_descriptor_digest descriptor,
      bi_runtime_artifact_sha256 = bd_runtime_artifact_sha256 descriptor,
      bi_compiled_reference_compatibility_digest = bd_compiled_reference_compatibility_digest descriptor\<rparr>"

definition identity_try_from_parts ::
  "RuntimeBuildInstanceId \<Rightarrow> Digest32 \<Rightarrow> Digest32 \<Rightarrow> Digest32 \<Rightarrow> ReferenceContractError + RuntimeBuildIdentityV1" where
  "identity_try_from_parts build_instance_id build_descriptor_digest runtime_artifact_sha256 compatibility_digest =
     (if build_descriptor_digest = 0 \<or> runtime_artifact_sha256 = 0 \<or> compatibility_digest = 0
      then Inl ContractInvalidCompatibility
      else Inr \<lparr>bi_build_instance_id = build_instance_id, bi_build_descriptor_digest = build_descriptor_digest,
                bi_runtime_artifact_sha256 = runtime_artifact_sha256,
                bi_compiled_reference_compatibility_digest = compatibility_digest\<rparr>)"

definition row_try_new ::
  "(bytes \<Rightarrow> Digest32) \<Rightarrow> RuntimeHostId \<Rightarrow> RuntimeBuildIdentityV1 \<Rightarrow> ReferenceFixtureEntryV1 \<Rightarrow>
   ReferenceContractError + RuntimeArtifactCompatibilityTargetRowV1" where
  "row_try_new sha256 target build_identity fixture =
     and_then (map_err ContractDigest (compiled_reference_compatibility_digest sha256 fixture)) (\<lambda>expected.
     if bi_compiled_reference_compatibility_digest build_identity \<noteq> expected then Inl ContractInvalidCompatibility
     else Inr \<lparr>rw_target = target, rw_build_identity = build_identity, rw_fixture = fixture\<rparr>)"

definition manifest_from_row ::
  "(bytes \<Rightarrow> Digest32) \<Rightarrow> RuntimeArtifactCompatibilityTargetRowV1 \<Rightarrow>
   ReferenceContractError + RuntimeArtifactCompatibilityManifestV1" where
  "manifest_from_row sha256 row =
     (let canonical_wire = build_manifest_wire row in
      and_then (map_err ContractDigest (digest_wire sha256 COMPATIBILITY_MANIFEST_DIGEST_DOMAIN canonical_wire)) (\<lambda>manifest_digest.
      Inr \<lparr>mf_row = row, mf_canonical_wire = canonical_wire, mf_manifest_digest = manifest_digest\<rparr>))"

definition manifest_try_new ::
  "(bytes \<Rightarrow> Digest32) \<Rightarrow> RuntimeHostId \<Rightarrow> RuntimeBuildDescriptorV1 \<Rightarrow> ReferenceFixtureEntryV1 \<Rightarrow>
   ReferenceContractError + RuntimeArtifactCompatibilityManifestV1" where
  "manifest_try_new sha256 target descriptor fixture =
     and_then (row_try_new sha256 target (identity_from_descriptor descriptor) fixture) (manifest_from_row sha256)"

definition projection_from_manifest ::
  "RuntimeArtifactCompatibilityManifestV1 \<Rightarrow> RuntimeArtifactCompatibilityManifestProjectionV1" where
  "projection_from_manifest manifest =
     \<lparr>mp_manifest_digest = mf_manifest_digest manifest, mp_row = mf_row manifest,
      mp_canonical_wire = build_projection_wire (mf_manifest_digest manifest) (mf_row manifest)\<rparr>"

section \<open>Reading\<close>

text \<open>The cursor: every read gives the value and the remaining bytes.\<close>

fun read_next :: "'e + 'a \<times> 's \<Rightarrow> ('a \<Rightarrow> 's \<Rightarrow> 'e + 'b) \<Rightarrow> 'e + 'b" where
  "read_next (Inl e) f = Inl e"
| "read_next (Inr (a, rest)) f = f a rest"

definition fixed_take :: "nat \<Rightarrow> bytes \<Rightarrow> ReferenceWireError + bytes \<times> bytes" where
  "fixed_take n remaining =
     (if length remaining < n then Inl (wire_error RefTruncated) else Inr (take n remaining, drop n remaining))"

definition fixed_array :: "nat \<Rightarrow> bytes \<Rightarrow> ReferenceWireError + 'w::len word \<times> bytes" where
  "fixed_array n remaining = read_next (fixed_take n remaining) (\<lambda>value rest. Inr (from_be value, rest))"

definition descriptor_contract_wire_error :: "ReferenceContractError \<Rightarrow> ReferenceWireError" where
  "descriptor_contract_wire_error err =
     (case err of
        ContractInvalidArtifactLength \<Rightarrow> wire_error_at RefInvalidFieldValue 2
      | ContractInvalidArtifactDigest \<Rightarrow> wire_error_at RefInvalidFieldValue 3
      | ContractInvalidTargetTriple \<Rightarrow> wire_error_at RefInvalidFieldValue 4
      | ContractInvalidCompatibility \<Rightarrow> wire_error_at RefCompatibilityMismatch 5
      | _ \<Rightarrow> wire_error RefInvalidFieldValue)"

abbreviation slice :: "nat \<Rightarrow> nat \<Rightarrow> bytes \<Rightarrow> bytes" where
  "slice start stop frame \<equiv> take (stop - start) (drop start frame)"

definition decode_build_descriptor :: "(bytes \<Rightarrow> Digest32) \<Rightarrow> bytes \<Rightarrow> ReferenceWireError + RuntimeBuildDescriptorV1" where
  "decode_build_descriptor sha256 frame =
     (if length frame > MAX_RUNTIME_BUILD_DESCRIPTOR_BYTES then Inl (wire_error RefFrameTooLarge)
      else if length frame < 113 then Inl (wire_error RefTruncated)
      else if take 4 frame \<noteq> BUILD_DESCRIPTOR_MAGIC then Inl (wire_error RefInvalidMagic)
      else if from_be (slice 4 6 frame) \<noteq> RUNTIME_BUILD_DESCRIPTOR_VERSION then Inl (wire_error RefUnsupportedVersion)
      else
        let build_instance_id_bytes = from_be (slice 6 38 frame);
            runtime_artifact_length = from_be (slice 38 46 frame);
            runtime_artifact_sha256 = from_be (slice 46 78 frame);
            target_length = unat (from_be (slice 78 80 frame) :: u16) in
        if target_length = 0 \<or> target_length > MAX_TARGET_TRIPLE_BYTES then Inl (wire_error_at RefInvalidFieldLength 4)
        else
          let expected_length = 80 + target_length + 32 in
          if length frame < expected_length then Inl (wire_error RefTruncated)
          else if length frame > expected_length then Inl (wire_error RefTrailingBytes)
          else
          and_then (map_err (\<lambda>_. wire_error_at RefInvalidFieldValue 1) (build_instance_id_try_from_bytes build_instance_id_bytes))
            (\<lambda>build_instance_id.
          if runtime_artifact_length = 0 \<or> runtime_artifact_length > MAX_RUNTIME_ARTIFACT_BYTES
          then Inl (wire_error_at RefInvalidFieldValue 2)
          else if runtime_artifact_sha256 = 0 then Inl (wire_error_at RefInvalidFieldValue 3)
          else
          and_then (map_err (\<lambda>_. wire_error_at RefInvalidFieldValue 4) (target_triple_try_new (slice 80 (80 + target_length) frame)))
            (\<lambda>target_triple.
          let compatibility_digest = from_be (drop (80 + target_length) frame) in
          if compatibility_digest = 0 then Inl (wire_error_at RefCompatibilityMismatch 5)
          else
          and_then (map_err descriptor_contract_wire_error
            (descriptor_try_from_parts sha256 build_instance_id runtime_artifact_length runtime_artifact_sha256 target_triple
               compatibility_digest)) (\<lambda>decoded.
          if bd_canonical_wire decoded \<noteq> frame then Inl (wire_error RefNonCanonicalFrame) else Inr decoded))))"

definition decode_build_identity :: "bytes \<Rightarrow> ReferenceWireError + RuntimeBuildIdentityV1 \<times> bytes" where
  "decode_build_identity cursor =
     read_next (fixed_array 32 cursor) (\<lambda>value cursor.
     and_then (map_err (\<lambda>_. wire_error_at RefInvalidFieldValue 1) (build_instance_id_try_from_bytes value)) (\<lambda>build_instance_id.
     read_next (fixed_array 32 cursor) (\<lambda>descriptor_digest cursor.
     if descriptor_digest = 0 then Inl (wire_error_at RefInvalidFieldValue 2)
     else
     read_next (fixed_array 32 cursor) (\<lambda>artifact_sha cursor.
     if artifact_sha = 0 then Inl (wire_error_at RefInvalidFieldValue 3)
     else
     read_next (fixed_array 32 cursor) (\<lambda>compatibility_digest cursor.
     if compatibility_digest = 0 then Inl (wire_error_at RefInvalidFieldValue 4)
     else
     and_then (map_err (\<lambda>_. wire_error RefInvalidFieldValue)
       (identity_try_from_parts build_instance_id descriptor_digest artifact_sha compatibility_digest)) (\<lambda>identity.
     Inr (identity, cursor)))))))"

definition decode_fixture_entry :: "bytes \<Rightarrow> ReferenceWireError + ReferenceFixtureEntryV1 \<times> bytes" where
  "decode_fixture_entry cursor =
     read_next (fixed_array 16 cursor) (\<lambda>definition' cursor.
     read_next (fixed_array 16 cursor) (\<lambda>implementation cursor.
     read_next (fixed_array 16 cursor) (\<lambda>export cursor.
     read_next (fixed_array 32 cursor) (\<lambda>definition_digest cursor.
     read_next (fixed_array 32 cursor) (\<lambda>fixture_artifact_digest cursor.
     Inr (\<lparr>fx_definition = definition', fx_implementation = implementation, fx_export = export,
           fx_definition_digest = definition_digest, fx_fixture_artifact_digest = fixture_artifact_digest\<rparr>, cursor))))))"

definition decode_manifest_target_row ::
  "(bytes \<Rightarrow> Digest32) \<Rightarrow> bytes \<Rightarrow> ReferenceWireError + RuntimeArtifactCompatibilityTargetRowV1 \<times> bytes" where
  "decode_manifest_target_row sha256 cursor =
     read_next (fixed_array 16 cursor) (\<lambda>target cursor.
     read_next (decode_build_identity cursor) (\<lambda>identity cursor.
     read_next (fixed_array 2 cursor) (\<lambda>selected_apply_version cursor.
     if selected_apply_version \<noteq> RUNTIME_APPLY_REQUEST_V5_VERSION then Inl (wire_error_at RefUnsupportedVersion 1)
     else
     read_next (fixed_array 2 cursor) (\<lambda>selected_profile_version cursor.
     if selected_profile_version \<noteq> REFERENCE_ASSEMBLY_PROFILE_VERSION then Inl (wire_error_at RefUnsupportedVersion 2)
     else
     read_next (decode_fixture_entry cursor) (\<lambda>fixture cursor.
     and_then (map_err (\<lambda>_. wire_error RefCompatibilityMismatch) (row_try_new sha256 target identity fixture)) (\<lambda>row.
     Inr (row, cursor)))))))"

definition decode_compatibility_manifest ::
  "(bytes \<Rightarrow> Digest32) \<Rightarrow> bytes \<Rightarrow> ReferenceWireError + RuntimeArtifactCompatibilityManifestV1" where
  "decode_compatibility_manifest sha256 frame =
     (if length frame < COMPATIBILITY_MANIFEST_BYTES then Inl (wire_error RefTruncated)
      else if length frame > COMPATIBILITY_MANIFEST_BYTES then Inl (wire_error RefTrailingBytes)
      else if take 4 frame \<noteq> COMPATIBILITY_MANIFEST_MAGIC then Inl (wire_error RefInvalidMagic)
      else if from_be (slice 4 6 frame) \<noteq> RUNTIME_ARTIFACT_COMPATIBILITY_MANIFEST_VERSION
      then Inl (wire_error RefUnsupportedVersion)
      else
      read_next (decode_manifest_target_row sha256 (drop 6 frame)) (\<lambda>row cursor.
      if cursor \<noteq> [] then Inl (wire_error RefTrailingBytes)
      else
      and_then (map_err (\<lambda>_. wire_error RefCompatibilityMismatch) (manifest_from_row sha256 row)) (\<lambda>decoded.
      if mf_canonical_wire decoded \<noteq> frame then Inl (wire_error RefNonCanonicalFrame) else Inr decoded)))"

definition decode_compatibility_projection ::
  "(bytes \<Rightarrow> Digest32) \<Rightarrow> bytes \<Rightarrow> ReferenceWireError + RuntimeArtifactCompatibilityManifestProjectionV1" where
  "decode_compatibility_projection sha256 frame =
     (if length frame < COMPATIBILITY_PROJECTION_BYTES then Inl (wire_error RefTruncated)
      else if length frame > COMPATIBILITY_PROJECTION_BYTES then Inl (wire_error RefTrailingBytes)
      else if take 4 frame \<noteq> COMPATIBILITY_PROJECTION_MAGIC then Inl (wire_error RefInvalidMagic)
      else if from_be (slice 4 6 frame) \<noteq> RUNTIME_ARTIFACT_COMPATIBILITY_PROJECTION_VERSION
      then Inl (wire_error RefUnsupportedVersion)
      else
        let manifest_digest = from_be (slice 6 38 frame) in
        read_next (decode_manifest_target_row sha256 (drop 38 frame)) (\<lambda>row cursor.
        if cursor \<noteq> [] then Inl (wire_error RefTrailingBytes)
        else
        and_then (map_err (\<lambda>_. wire_error RefCompatibilityMismatch) (manifest_from_row sha256 row)) (\<lambda>manifest.
        if mf_manifest_digest manifest \<noteq> manifest_digest then Inl (wire_error RefDigestMismatch)
        else
          let decoded = projection_from_manifest manifest in
          if mp_canonical_wire decoded \<noteq> frame then Inl (wire_error RefNonCanonicalFrame) else Inr decoded)))"

end
