(* ===== verification/Reference_Execution.thy ===== *)
theory Reference_Execution
  imports Reference_Wire
begin

text \<open>
  The execution plan of the reference profile, \<open>crates/paraegox-runtime-contracts/src/reference_assembly.rs\<close>:
  exactly one source loop with its subject, or the empty target; its canonical bytes and decoder; and
  the slice that joins it with the empty assignments. The lifecycle budgets are also those of
  \<open>reference_control.rs\<close>.
\<close>

section \<open>Data\<close>

type_synonym DomainRef = bytes16

record ReferenceLoopDomainSpecV1 =
  ld_domain :: DomainRef
  ld_start_budget :: BoundedDuration
  ld_drain_budget :: BoundedDuration
  ld_cleanup_budget :: BoundedDuration

record ReferenceLoopSubjectSpecV1 =
  lj_instance :: InstanceRef
  lj_domain :: DomainRef
  lj_fixture :: ReferenceFixtureEntryV1
  lj_config_digest :: Digest32

record TargetExecutionPlanV4 =
  xp_projection :: RuntimeArtifactCompatibilityManifestProjectionV1
  xp_mode :: ReferenceAssemblyModeV1
  xp_domain :: "ReferenceLoopDomainSpecV1 option"
  xp_subject :: "ReferenceLoopSubjectSpecV1 option"
  xp_canonical_wire :: bytes
  xp_execution_digest :: Digest32

record TargetPlanAssignmentsV5 =
  pv_bindings :: TargetAssignments
  pv_execution :: TargetExecutionPlanV4
  pv_assignment_digest :: TargetAssignmentDigest

record RuntimePlanSliceV5 =
  ps5_commitment :: RuntimeSliceCommitment
  ps5_assignments :: TargetPlanAssignmentsV5

definition valid_lifecycle_budget :: "BoundedDuration \<Rightarrow> bool" where
  "valid_lifecycle_budget value \<longleftrightarrow> value > 0 \<and> value \<le> MAX_REFERENCE_LIFECYCLE_BUDGET_NANOS"

definition loop_domain_try_new ::
  "DomainRef \<Rightarrow> BoundedDuration \<Rightarrow> BoundedDuration \<Rightarrow> BoundedDuration \<Rightarrow> ReferenceContractError + ReferenceLoopDomainSpecV1" where
  "loop_domain_try_new domain start_budget drain_budget cleanup_budget =
     (if \<not> valid_lifecycle_budget start_budget \<or> \<not> valid_lifecycle_budget drain_budget \<or> \<not> valid_lifecycle_budget cleanup_budget
      then Inl ContractInvalidLifecycleBudget
      else Inr \<lparr>ld_domain = domain, ld_start_budget = start_budget, ld_drain_budget = drain_budget,
                ld_cleanup_budget = cleanup_budget\<rparr>)"

definition loop_subject_try_new ::
  "(bytes \<Rightarrow> Digest32) \<Rightarrow> InstanceRef \<Rightarrow> DomainRef \<Rightarrow> ReferenceFixtureEntryV1 \<Rightarrow> Digest32 \<Rightarrow>
   ReferenceContractError + ReferenceLoopSubjectSpecV1" where
  "loop_subject_try_new sha256 instance_ref domain fixture config_digest =
     and_then (map_err ContractDigest (reference_empty_config_digest sha256)) (\<lambda>empty.
     if config_digest \<noteq> empty then Inl ContractConfigMismatch
     else Inr \<lparr>lj_instance = instance_ref, lj_domain = domain, lj_fixture = fixture, lj_config_digest = config_digest\<rparr>)"

record ValidatedReferenceLifecycleBudgetsV1 =
  lb_start :: BoundedDuration
  lb_drain :: BoundedDuration
  lb_cleanup :: BoundedDuration

definition lifecycle_budgets_try_new ::
  "BoundedDuration \<Rightarrow> BoundedDuration \<Rightarrow> BoundedDuration \<Rightarrow> ReferenceContractError + ValidatedReferenceLifecycleBudgetsV1" where
  "lifecycle_budgets_try_new start drain cleanup =
     and_then (loop_domain_try_new 0 start drain cleanup) (\<lambda>_.
     Inr \<lparr>lb_start = start, lb_drain = drain, lb_cleanup = cleanup\<rparr>)"

section \<open>Execution plan\<close>

definition reference_domain_bytes :: "ReferenceLoopDomainSpecV1 \<Rightarrow> bytes" where
  "reference_domain_bytes domain =
     arr16 (ld_domain domain) @ be_u64 (ld_start_budget domain) @ be_u64 (ld_drain_budget domain) @ be_u64 (ld_cleanup_budget domain)"

definition reference_subject_bytes :: "ReferenceLoopSubjectSpecV1 \<Rightarrow> bytes" where
  "reference_subject_bytes subject =
     arr16 (lj_instance subject) @ arr16 (lj_domain subject) @ fixture_entry_bytes (lj_fixture subject) @ arr32 (lj_config_digest subject)"

definition optional_bytes :: "('a \<Rightarrow> bytes) \<Rightarrow> 'a option \<Rightarrow> bytes" where
  "optional_bytes f value = (case value of None \<Rightarrow> [0] | Some v \<Rightarrow> 1 # f v)"

definition build_target_execution_v4_wire ::
  "RuntimeArtifactCompatibilityManifestProjectionV1 \<Rightarrow> ReferenceAssemblyModeV1 \<Rightarrow> ReferenceLoopDomainSpecV1 option \<Rightarrow>
   ReferenceLoopSubjectSpecV1 option \<Rightarrow> bytes" where
  "build_target_execution_v4_wire projection mode domain subject =
     TARGET_EXECUTION_MAGIC @ be_u16 TARGET_EXECUTION_PLAN_V4_VERSION @ mp_canonical_wire projection
     @ be_u16 REFERENCE_ASSEMBLY_PROFILE_VERSION @ [mode_u8 mode] @ optional_bytes reference_domain_bytes domain
     @ optional_bytes reference_subject_bytes subject"

definition validate_reference_shape ::
  "(bytes \<Rightarrow> Digest32) \<Rightarrow> RuntimeArtifactCompatibilityManifestProjectionV1 \<Rightarrow> ReferenceAssemblyModeV1 \<Rightarrow>
   ReferenceLoopDomainSpecV1 option \<Rightarrow> ReferenceLoopSubjectSpecV1 option \<Rightarrow> ReferenceContractError + unit" where
  "validate_reference_shape sha256 projection mode domain subject =
     (case (mode, domain, subject) of
        (OneSourceLoopMode, Some domain, Some subject) \<Rightarrow>
          if lj_domain subject \<noteq> ld_domain domain then Inl ContractDomainMismatch
          else if lj_fixture subject \<noteq> rw_fixture (mp_row projection) then Inl ContractFixtureMismatch
          else
          and_then (map_err ContractDigest (reference_empty_config_digest sha256)) (\<lambda>empty.
          if lj_config_digest subject \<noteq> empty then Inl ContractConfigMismatch else Inr ())
      | (EmptyDeactivateMode, None, None) \<Rightarrow> Inr ()
      | _ \<Rightarrow> Inl ContractInvalidShape)"

definition execution_try_new ::
  "(bytes \<Rightarrow> Digest32) \<Rightarrow> RuntimeArtifactCompatibilityManifestProjectionV1 \<Rightarrow> ReferenceAssemblyModeV1 \<Rightarrow>
   ReferenceLoopDomainSpecV1 option \<Rightarrow> ReferenceLoopSubjectSpecV1 option \<Rightarrow> ReferenceContractError + TargetExecutionPlanV4" where
  "execution_try_new sha256 projection mode domain subject =
     and_then (validate_reference_shape sha256 projection mode domain subject) (\<lambda>_.
     let canonical_wire = build_target_execution_v4_wire projection mode domain subject in
     and_then (map_err ContractDigest (digest_wire sha256 TARGET_EXECUTION_V4_DIGEST_DOMAIN canonical_wire)) (\<lambda>execution_digest.
     Inr \<lparr>xp_projection = projection, xp_mode = mode, xp_domain = domain, xp_subject = subject,
          xp_canonical_wire = canonical_wire, xp_execution_digest = execution_digest\<rparr>))"

definition try_one_source_loop ::
  "(bytes \<Rightarrow> Digest32) \<Rightarrow> RuntimeArtifactCompatibilityManifestProjectionV1 \<Rightarrow> ReferenceLoopDomainSpecV1 \<Rightarrow>
   ReferenceLoopSubjectSpecV1 \<Rightarrow> ReferenceContractError + TargetExecutionPlanV4" where
  "try_one_source_loop sha256 projection domain subject =
     execution_try_new sha256 projection OneSourceLoopMode (Some domain) (Some subject)"

definition try_empty_deactivate ::
  "(bytes \<Rightarrow> Digest32) \<Rightarrow> RuntimeArtifactCompatibilityManifestProjectionV1 \<Rightarrow> ReferenceContractError + TargetExecutionPlanV4" where
  "try_empty_deactivate sha256 projection = execution_try_new sha256 projection EmptyDeactivateMode None None"

definition decode_presence :: "u8 \<Rightarrow> u16 \<Rightarrow> ReferenceWireError + bool" where
  "decode_presence value detail =
     (if value = 0 then Inr False else if value = 1 then Inr True else Inl (wire_error_at RefInvalidPresence detail))"

definition decode_reference_domain :: "bytes \<Rightarrow> ReferenceWireError + ReferenceLoopDomainSpecV1" where
  "decode_reference_domain cursor =
     read_next (fixed_array 16 cursor) (\<lambda>domain cursor.
     read_next (fixed_array 8 cursor) (\<lambda>start cursor.
     read_next (fixed_array 8 cursor) (\<lambda>drain cursor.
     read_next (fixed_array 8 cursor) (\<lambda>cleanup cursor.
     map_err (\<lambda>_. wire_error_at RefInvalidFieldValue 4) (loop_domain_try_new domain start drain cleanup)))))"

definition decode_reference_subject :: "(bytes \<Rightarrow> Digest32) \<Rightarrow> bytes \<Rightarrow> ReferenceWireError + ReferenceLoopSubjectSpecV1" where
  "decode_reference_subject sha256 cursor =
     read_next (fixed_array 16 cursor) (\<lambda>instance_ref cursor.
     read_next (fixed_array 16 cursor) (\<lambda>domain cursor.
     read_next (decode_fixture_entry cursor) (\<lambda>fixture cursor.
     read_next (fixed_array 32 cursor) (\<lambda>config cursor.
     map_err (\<lambda>_. wire_error_at RefFixtureMismatch 5) (loop_subject_try_new sha256 instance_ref domain fixture config)))))"

definition target_execution_contract_wire_error ::
  "ReferenceContractError \<Rightarrow> ReferenceAssemblyModeV1 \<Rightarrow> ReferenceLoopDomainSpecV1 option \<Rightarrow> ReferenceLoopSubjectSpecV1 option \<Rightarrow>
   ReferenceWireError" where
  "target_execution_contract_wire_error err mode domain subject =
     (case err of
        ContractDomainMismatch \<Rightarrow> wire_error_at RefCrossReferenceMismatch 5
      | ContractFixtureMismatch \<Rightarrow> wire_error_at RefFixtureMismatch 5
      | ContractConfigMismatch \<Rightarrow> wire_error_at RefFixtureMismatch 5
      | ContractInvalidShape \<Rightarrow>
          if mode = OneSourceLoopMode \<and> domain = None then wire_error_at RefUnsupportedShape 4
          else if mode = EmptyDeactivateMode \<and> domain \<noteq> None then wire_error_at RefUnsupportedShape 4
          else if subject \<noteq> None then wire_error_at RefUnsupportedShape 5
          else if mode = EmptyDeactivateMode then wire_error_at RefUnsupportedShape 4
          else wire_error_at RefUnsupportedShape 5
      | _ \<Rightarrow> wire_error RefInvalidFieldValue)"

text \<open>An optional part: its bytes when the presence byte says so.\<close>

definition take_optional :: "u16 \<Rightarrow> nat \<Rightarrow> bytes \<Rightarrow> ReferenceWireError + bytes option \<times> bytes" where
  "take_optional detail n cursor =
     read_next (fixed_array 1 cursor) (\<lambda>value cursor.
     and_then (decode_presence value detail) (\<lambda>present.
     if present then read_next (fixed_take n cursor) (\<lambda>value cursor. Inr (Some value, cursor)) else Inr (None, cursor)))"

definition decode_target_execution_v4 :: "(bytes \<Rightarrow> Digest32) \<Rightarrow> bytes \<Rightarrow> ReferenceWireError + TargetExecutionPlanV4" where
  "decode_target_execution_v4 sha256 frame =
     (if length frame > MAX_TARGET_EXECUTION_PLAN_V4_BYTES then Inl (wire_error RefFrameTooLarge)
      else if length frame < 4 + 2 + COMPATIBILITY_PROJECTION_BYTES + 2 + 1 + 1 + 1 then Inl (wire_error RefTruncated)
      else if take 4 frame \<noteq> TARGET_EXECUTION_MAGIC then Inl (wire_error RefInvalidMagic)
      else if from_be (slice 4 6 frame) \<noteq> TARGET_EXECUTION_PLAN_V4_VERSION then Inl (wire_error RefUnsupportedVersion)
      else
        let projection_end = 6 + COMPATIBILITY_PROJECTION_BYTES in
        read_next (fixed_array 2 (drop projection_end frame)) (\<lambda>profile_version cursor.
        read_next (fixed_array 1 cursor) (\<lambda>mode_value cursor.
        read_next (take_optional 4 REFERENCE_LOOP_DOMAIN_BYTES cursor) (\<lambda>domain_frame cursor.
        read_next (take_optional 5 REFERENCE_LOOP_SUBJECT_BYTES cursor) (\<lambda>subject_frame cursor.
        if cursor \<noteq> [] then Inl (wire_error RefTrailingBytes)
        else
        and_then (decode_compatibility_projection sha256 (slice 6 projection_end frame)) (\<lambda>projection.
        if profile_version \<noteq> REFERENCE_ASSEMBLY_PROFILE_VERSION then Inl (wire_error_at RefUnsupportedVersion 2)
        else
        and_then (if (mode_value :: u8) = 1 then Inr OneSourceLoopMode else if mode_value = 2 then Inr EmptyDeactivateMode
                  else Inl (wire_error_at RefUnsupportedShape 3)) (\<lambda>mode.
        and_then (case domain_frame of None \<Rightarrow> Inr None
                  | Some bytes \<Rightarrow> and_then (decode_reference_domain bytes) (\<lambda>domain. Inr (Some domain))) (\<lambda>domain.
        and_then (case subject_frame of None \<Rightarrow> Inr None
                  | Some bytes \<Rightarrow> and_then (decode_reference_subject sha256 bytes) (\<lambda>subject. Inr (Some subject))) (\<lambda>subject.
        and_then (map_err (\<lambda>err. target_execution_contract_wire_error err mode domain subject)
                    (execution_try_new sha256 projection mode domain subject)) (\<lambda>decoded.
        if xp_canonical_wire decoded \<noteq> frame then Inl (wire_error RefNonCanonicalFrame) else Inr decoded))))))))))"

section \<open>Slices\<close>

definition target_plan_assignments_v5_digest ::
  "(bytes \<Rightarrow> Digest32) \<Rightarrow> TargetAssignments \<Rightarrow> TargetExecutionPlanV4 \<Rightarrow> DigestBuildError + TargetAssignmentDigest" where
  "target_plan_assignments_v5_digest sha256 bindings execution =
     build_digest sha256 TARGET_PLAN_ASSIGNMENTS_V5_DIGEST_DOMAIN
       [field_digest (ta_assignment_digest bindings), field_digest (xp_execution_digest execution)]"

definition plan_assignments_try_new ::
  "(bytes \<Rightarrow> Digest32) \<Rightarrow> TargetAssignments \<Rightarrow> TargetExecutionPlanV4 \<Rightarrow> ReferenceContractError + TargetPlanAssignmentsV5" where
  "plan_assignments_try_new sha256 bindings execution =
     and_then (map_err (\<lambda>_. ContractBindingNotAllowed) (assignments_validate sha256 bindings)) (\<lambda>_.
     if ta_assignments bindings \<noteq> [] \<or> ta_canonical_wire bindings \<noteq> ZERO_BINDING_PXTA then Inl ContractBindingNotAllowed
     else
     and_then (map_err ContractDigest (target_plan_assignments_v5_digest sha256 bindings execution)) (\<lambda>assignment_digest.
     Inr \<lparr>pv_bindings = bindings, pv_execution = execution, pv_assignment_digest = assignment_digest\<rparr>))"

definition plan_assignments_try_from_execution ::
  "(bytes \<Rightarrow> Digest32) \<Rightarrow> TargetExecutionPlanV4 \<Rightarrow> ReferenceContractError + TargetPlanAssignmentsV5" where
  "plan_assignments_try_from_execution sha256 execution =
     and_then (map_err (\<lambda>_. ContractBindingNotAllowed) (assignments_try_new sha256 [])) (\<lambda>bindings.
     plan_assignments_try_new sha256 bindings execution)"

definition plan_slice_v5_try_new ::
  "(bytes \<Rightarrow> Digest32) \<Rightarrow> RuntimeSliceCommitment \<Rightarrow> TargetPlanAssignmentsV5 \<Rightarrow> ReferenceContractError + RuntimePlanSliceV5" where
  "plan_slice_v5_try_new sha256 commitment assignments =
     and_then (map_err (\<lambda>_. ContractCommitmentMismatch) (slice_commitment_validate sha256 commitment)) (\<lambda>_.
     if sh_assignment_digest (sc_header commitment) \<noteq> pv_assignment_digest assignments then Inl ContractCommitmentMismatch
     else if sh_target (sc_header commitment) \<noteq> rw_target (mp_row (xp_projection (pv_execution assignments)))
     then Inl ContractTargetMismatch
     else Inr \<lparr>ps5_commitment = commitment, ps5_assignments = assignments\<rparr>)"

definition slice_v5_decode_durable ::
  "(bytes \<Rightarrow> Digest32) \<Rightarrow> bytes \<Rightarrow> RuntimeHostId \<Rightarrow> PlanProvenance \<Rightarrow> TargetSliceDigest \<Rightarrow> ReferenceWireError + RuntimePlanSliceV5" where
  "slice_v5_decode_durable sha256 frame target provenance expected_target_slice_digest =
     (if length frame > MAX_RUNTIME_PLAN_SLICE_V5_BYTES then Inl (wire_error RefFrameTooLarge)
      else if length frame < ZERO_BINDING_PXTA_BYTES then Inl (wire_error RefTruncated)
      else
        let binding_frame = take ZERO_BINDING_PXTA_BYTES frame; execution_frame = drop ZERO_BINDING_PXTA_BYTES frame in
        if binding_frame \<noteq> ZERO_BINDING_PXTA then Inl (wire_error_at RefBindingNotAllowed 2)
        else
        and_then (map_err (\<lambda>_. wire_error_at RefBindingNotAllowed 2) (decode_target_assignments sha256 binding_frame)) (\<lambda>bindings.
        and_then (decode_target_execution_v4 sha256 execution_frame) (\<lambda>execution.
        if rw_target (mp_row (xp_projection execution)) \<noteq> target then Inl (wire_error_at RefTargetMismatch 2)
        else
        and_then (map_err (\<lambda>_. wire_error RefCrossReferenceMismatch) (plan_assignments_try_new sha256 bindings execution)) (\<lambda>assignments.
        and_then (map_err (\<lambda>_. wire_error_at RefDigestMismatch 8)
          (slice_commitment_try_new sha256 (slice_header_new target provenance (pv_assignment_digest assignments)))) (\<lambda>commitment.
        if sc_target_slice_digest commitment \<noteq> expected_target_slice_digest then Inl (wire_error_at RefDigestMismatch 8)
        else
        map_err (\<lambda>err. case err of ContractTargetMismatch \<Rightarrow> wire_error_at RefTargetMismatch 2 | _ \<Rightarrow> wire_error_at RefDigestMismatch 7)
          (plan_slice_v5_try_new sha256 commitment assignments))))))"

end
