(* ===== verification/Stable_Allocation.thy ===== *)
theory Stable_Allocation
  imports Reference_Execution
begin

text \<open>
  Stable identities, \<open>crates/paraegox-deployment/src/planner.rs\<close>: the controller's record of which instance
  and domain belongs to which card, the changes a plan makes to it, and the checks of a change.
\<close>

section \<open>Data\<close>


definition INSTANCE_ALLOCATION_DOMAIN :: bytes where
  "INSTANCE_ALLOCATION_DOMAIN = ascii ''paraegox.deployment.stable-instance-allocation.sha256.v1''"
definition DOMAIN_ALLOCATION_DOMAIN :: bytes where
  "DOMAIN_ALLOCATION_DOMAIN = ascii ''paraegox.deployment.stable-domain-allocation.sha256.v1''"
definition MAX_STABLE_ALLOCATION_RECORDS :: nat where "MAX_STABLE_ALLOCATION_RECORDS = 4096"

datatype AllocationState = Active | Tombstone

record StableAllocationRecord =
  al_key :: bytes16
  al_ordinal :: u64
  al_instance :: InstanceRef
  al_domain :: DomainRef
  al_state :: AllocationState

record StableAllocationSnapshot =
  an_target :: RuntimeHostId
  an_generation :: u64
  an_high_water :: u64
  an_records :: "StableAllocationRecord list"

record StableAllocationDelta =
  de_base_generation :: u64
  de_next_generation :: u64
  de_resulting_high_water :: u64
  de_records :: "StableAllocationRecord list"

datatype PlannerDiagnostic = FreshStableAllocation | ReusedStableAllocation | StableAllocationTombstoned

datatype PlannerError =
    PlanServiceDependency ServiceDependencyError
  | UnsupportedServiceDependency
  | MissingManifestProjection
  | ManifestTargetMismatch
  | ManifestFixtureMismatch
  | InvalidManifestDigest
  | ConfigMismatch
  | AllocationTargetMismatch
  | PreviousAllocationMismatch
  | InvalidAllocationSnapshot
  | AllocationCapacityExceeded
  | AllocationExhausted
  | UnsupportedDeckShape
  | UnsupportedLink
  | UnsupportedRequirement
  | UnsupportedPerUseConfig
  | UnsupportedPort
  | UnsupportedRefinement
  | UnsupportedGeneralCard
  | LoopToLoopRejected
  | ExplicitEmptyRequiredBeforeLoop
  | ExplicitEmptyRequiredBeforeOmit
  | EmptyBootstrapRejected
  | PreviousTargetNotTerminal
  | PreviousTargetBusy
  | PreviousTargetIneligible
  | InvalidLifecycleBudget
  | InvalidPersistedPlanContent
  | CanonicalLengthOverflow
  | PlanDigest DigestBuildError

section \<open>Identities\<close>

text \<open>The first 16 bytes of the digest.\<close>

definition derive_id ::
  "(bytes \<Rightarrow> Digest32) \<Rightarrow> bytes \<Rightarrow> RuntimeHostId \<Rightarrow> bytes16 \<Rightarrow> u64 \<Rightarrow> PlannerError + bytes16" where
  "derive_id sha256 domain target key ordinal =
     and_then (map_err PlanDigest
       (build_digest sha256 domain [field_bytes (arr16 target), field_bytes (arr16 key), field_u64 ordinal])) (\<lambda>digest.
     Inr (from_be (take 16 (arr32 digest))))"

definition record_try_from_persisted ::
  "(bytes \<Rightarrow> Digest32) \<Rightarrow> RuntimeHostId \<Rightarrow> bytes16 \<Rightarrow> u64 \<Rightarrow> bytes16 \<Rightarrow> bytes16 \<Rightarrow> AllocationState \<Rightarrow>
   PlannerError + StableAllocationRecord" where
  "record_try_from_persisted sha256 target key ordinal instance_ref domain state =
     (if ordinal = 0 then Inl InvalidAllocationSnapshot
      else
      and_then (derive_id sha256 INSTANCE_ALLOCATION_DOMAIN target key ordinal) (\<lambda>expected_instance.
      if expected_instance \<noteq> instance_ref then Inl InvalidAllocationSnapshot
      else
      and_then (derive_id sha256 DOMAIN_ALLOCATION_DOMAIN target key ordinal) (\<lambda>expected_domain.
      if expected_domain \<noteq> domain then Inl InvalidAllocationSnapshot
      else Inr \<lparr>al_key = key, al_ordinal = ordinal, al_instance = instance_ref, al_domain = domain, al_state = state\<rparr>)))"

section \<open>Snapshots\<close>

fun derived_all :: "(bytes \<Rightarrow> Digest32) \<Rightarrow> RuntimeHostId \<Rightarrow> StableAllocationRecord list \<Rightarrow> PlannerError + unit" where
  "derived_all sha256 target [] = Inr ()"
| "derived_all sha256 target (record # records) =
     and_then (derive_id sha256 INSTANCE_ALLOCATION_DOMAIN target (al_key record) (al_ordinal record)) (\<lambda>expected_instance.
     and_then (derive_id sha256 DOMAIN_ALLOCATION_DOMAIN target (al_key record) (al_ordinal record)) (\<lambda>expected_domain.
     if al_instance record \<noteq> expected_instance \<or> al_domain record \<noteq> expected_domain then Inl InvalidAllocationSnapshot
     else derived_all sha256 target records))"

definition snapshot_try_new ::
  "(bytes \<Rightarrow> Digest32) \<Rightarrow> RuntimeHostId \<Rightarrow> u64 \<Rightarrow> u64 \<Rightarrow> StableAllocationRecord list \<Rightarrow>
   PlannerError + StableAllocationSnapshot" where
  "snapshot_try_new sha256 target generation high_water records =
     (if target = 0 then Inl InvalidAllocationSnapshot
      else if length records > MAX_STABLE_ALLOCATION_RECORDS then Inl AllocationCapacityExceeded
      else
        let records = sort_key al_key records;
            unique_ordinals = remdups (map al_ordinal records);
            unique_instances = remdups (map al_instance records);
            unique_domains = remdups (map al_domain records) in
        if list_ex (\<lambda>(a, b). al_key a = al_key b) (zip records (tl records))
           \<or> list_ex (\<lambda>record. al_ordinal record = 0 \<or> al_ordinal record > high_water) records
           \<or> length unique_ordinals \<noteq> length records
           \<or> length unique_instances \<noteq> length records
           \<or> length unique_domains \<noteq> length records
           \<or> (if records = [] then generation \<noteq> 0 \<or> high_water \<noteq> 0
              else generation = 0 \<or> generation < high_water \<or> high_water \<noteq> Max (set (map al_ordinal records)))
        then Inl InvalidAllocationSnapshot
        else
        and_then (derived_all sha256 target records) (\<lambda>_.
        Inr \<lparr>an_target = target, an_generation = generation, an_high_water = high_water, an_records = records\<rparr>))"

section \<open>Changes\<close>

text \<open>The loop over the changes, with the records so far, the keys changed and the last ordinal given.\<close>

fun apply_changes ::
  "(bytes \<Rightarrow> Digest32) \<Rightarrow> RuntimeHostId \<Rightarrow> StableAllocationRecord list \<Rightarrow> (bytes16, StableAllocationRecord) btree_map \<Rightarrow>
   bytes16 list \<Rightarrow> bytes16 option \<Rightarrow> u64 \<Rightarrow> PlannerError + (bytes16, StableAllocationRecord) btree_map \<times> u64" where
  "apply_changes sha256 target [] records changed_keys previous_key next_ordinal = Inr (records, next_ordinal)"
| "apply_changes sha256 target (change # changes) records changed_keys previous_key next_ordinal =
     (if (case previous_key of Some key \<Rightarrow> key \<ge> al_key change | None \<Rightarrow> False) \<or> al_key change \<in> set changed_keys
      then Inl InvalidAllocationSnapshot
      else
      and_then (record_try_from_persisted sha256 target (al_key change) (al_ordinal change) (al_instance change)
                  (al_domain change) (al_state change)) (\<lambda>validated.
      and_then
        (case btree_get records (al_key change) of
           None \<Rightarrow>
             and_then (ok_or (checked_add next_ordinal 1) AllocationExhausted) (\<lambda>next_ordinal.
             if al_state validated \<noteq> Active \<or> al_ordinal validated \<noteq> next_ordinal then Inl InvalidAllocationSnapshot
             else Inr next_ordinal)
         | Some previous \<Rightarrow>
             if al_ordinal previous = al_ordinal validated \<and> al_instance previous = al_instance validated
                \<and> al_domain previous = al_domain validated
             then
               if al_state previous \<noteq> Active \<or> al_state validated \<noteq> Tombstone then Inl InvalidAllocationSnapshot
               else Inr next_ordinal
             else
               and_then (ok_or (checked_add next_ordinal 1) AllocationExhausted) (\<lambda>next_ordinal.
               if al_state previous \<noteq> Tombstone \<or> al_state validated \<noteq> Active \<or> al_ordinal validated \<noteq> next_ordinal
               then Inl InvalidAllocationSnapshot else Inr next_ordinal))
        (\<lambda>next_ordinal.
      apply_changes sha256 target changes (btree_insert (al_key change) validated records)
        (insort_insert (al_key change) changed_keys) (Some (al_key change)) next_ordinal)))"

definition apply_delta ::
  "(bytes \<Rightarrow> Digest32) \<Rightarrow> StableAllocationSnapshot \<Rightarrow> StableAllocationDelta \<Rightarrow> PlannerError + StableAllocationSnapshot" where
  "apply_delta sha256 self delta =
     (if de_base_generation delta \<noteq> an_generation self \<or> de_resulting_high_water delta < an_high_water self
      then Inl PreviousAllocationMismatch
      else
      and_then (apply_changes sha256 (an_target self) (de_records delta)
                  (fold (\<lambda>record. btree_insert (al_key record) record) (an_records self) []) [] None (an_high_water self))
        (\<lambda>(records, next_ordinal).
      if next_ordinal \<noteq> de_resulting_high_water delta then Inl InvalidAllocationSnapshot
      else
      and_then (if de_records delta = [] then Inr (an_generation self)
                else ok_or (checked_add (an_generation self) 1) AllocationExhausted) (\<lambda>expected_generation.
      if de_next_generation delta \<noteq> expected_generation then Inl PreviousAllocationMismatch
      else snapshot_try_new sha256 (an_target self) (de_next_generation delta) (de_resulting_high_water delta)
             (btree_values records))))"

definition validate_successor_of ::
  "(bytes \<Rightarrow> Digest32) \<Rightarrow> StableAllocationSnapshot \<Rightarrow> StableAllocationSnapshot \<Rightarrow> PlannerError + unit" where
  "validate_successor_of sha256 self previous =
     (if an_target self \<noteq> an_target previous \<or> an_high_water self < an_high_water previous
      then Inl PreviousAllocationMismatch
      else
        let current = fold (\<lambda>record. btree_insert (al_key record) record) (an_records self) [] in
        if list_ex (\<lambda>record. \<not> btree_has current (al_key record)) (an_records previous)
        then Inl PreviousAllocationMismatch
        else
          let changes = filter (\<lambda>record. find (\<lambda>candidate. al_key candidate = al_key record) (an_records previous)
                                         \<noteq> Some record) (an_records self);
              delta = \<lparr>de_base_generation = an_generation previous, de_next_generation = an_generation self,
                       de_resulting_high_water = an_high_water self, de_records = changes\<rparr> in
          and_then (apply_delta sha256 previous delta) (\<lambda>applied.
          if applied \<noteq> self then Inl PreviousAllocationMismatch else Inr ()))"

section \<open>Allocation\<close>

definition advance_generation :: "u64 \<Rightarrow> bool \<Rightarrow> PlannerError + u64" where
  "advance_generation base changed = (if changed then ok_or (checked_add base 1) AllocationExhausted else Inr base)"

definition advance_live_generation :: "u64 \<Rightarrow> bool \<Rightarrow> PlannerError + u64" where
  "advance_live_generation base changed =
     (if base = - 1 then Inl AllocationExhausted
      else and_then (advance_generation base changed) (\<lambda>next.
        if changed \<and> next = - 1 then Inl AllocationExhausted else Inr next))"

definition retire :: "StableAllocationRecord \<Rightarrow> StableAllocationRecord" where
  "retire record = record\<lparr>al_state := Tombstone\<rparr>"

definition allocate_active ::
  "(bytes \<Rightarrow> Digest32) \<Rightarrow> RuntimeHostId \<Rightarrow> CardUseKey \<Rightarrow> StableAllocationSnapshot \<Rightarrow>
   PlannerError + StableAllocationRecord \<times> StableAllocationDelta \<times> PlannerDiagnostic list" where
  "allocate_active sha256 target key snapshot =
     (let desired = find (\<lambda>record. al_key record = key) (an_records snapshot);
          changes = map retire (filter (\<lambda>record. al_state record = Active \<and> al_key record \<noteq> key) (an_records snapshot));
          tombstoned_extras = (changes \<noteq> []);
          tombstoned = (if tombstoned_extras then [StableAllocationTombstoned] else []);
          fresh =
            (if desired = None \<and> length (an_records snapshot) = MAX_STABLE_ALLOCATION_RECORDS
             then Inl AllocationCapacityExceeded
             else
             and_then (ok_or (checked_add (an_high_water snapshot) 1) AllocationExhausted) (\<lambda>ordinal.
             and_then (derive_id sha256 INSTANCE_ALLOCATION_DOMAIN target key ordinal) (\<lambda>instance_ref.
             and_then (derive_id sha256 DOMAIN_ALLOCATION_DOMAIN target key ordinal) (\<lambda>domain.
             let record = \<lparr>al_key = key, al_ordinal = ordinal, al_instance = instance_ref, al_domain = domain,
                           al_state = Active\<rparr> in
             and_then (advance_live_generation (an_generation snapshot) True) (\<lambda>next_generation.
             Inr (record,
                  \<lparr>de_base_generation = an_generation snapshot, de_next_generation = next_generation,
                   de_resulting_high_water = ordinal, de_records = sort_key al_key (changes @ [record])\<rparr>,
                  FreshStableAllocation # tombstoned)))))) in
      case desired of
        Some record \<Rightarrow>
          if al_state record = Active then
            and_then (advance_live_generation (an_generation snapshot) tombstoned_extras) (\<lambda>next_generation.
            Inr (record,
                 \<lparr>de_base_generation = an_generation snapshot, de_next_generation = next_generation,
                  de_resulting_high_water = an_high_water snapshot, de_records = changes\<rparr>,
                 ReusedStableAllocation # tombstoned))
          else fresh
      | None \<Rightarrow> fresh)"

end
