(* ===== verification/Installation.thy ===== *)
theory Installation
  imports Reference_Wire
begin

text \<open>
  Release and installation, \<open>crates/paraegox-runtime-contracts/src/installation.rs\<close>: the descriptor of a final
  executable, the manifest generated from it, and the checks that accept an existing pair at
  initialisation and at startup. The second half is the controller's view of an installed manifest,
  \<open>crates/paraegox-deployment/src/manifest_ingress.rs\<close>.
\<close>

section \<open>Data\<close>

datatype RuntimeInstallationError =
    InvalidArtifactLength | InvalidArtifactDigest | InvalidTargetTriple | InvalidBuildInstanceId | InvalidDescriptor
  | DescriptorDigestMismatch | ArtifactLengthMismatch | ArtifactDigestMismatch | TargetTripleMismatch
  | CompiledBuildInstanceMismatch | CompiledCompatibilityMismatch | InvalidManifest | InstalledManifestDigestMismatch
  | InstalledManifestTargetMismatch | ManifestBuildIdentityMismatch | InstalledManifestFixtureMismatch
  | ManifestCanonicalMismatch | InternalContract

record InstalledRuntimeArtifactObservationV1 =
  ob_runtime_artifact_length :: u64
  ob_runtime_artifact_sha256 :: Digest32
  ob_target_triple :: RuntimeTargetTriple

record RuntimeCompiledInstallationFactsV1 =
  ci_build_instance_id :: RuntimeBuildInstanceId
  ci_fixture :: ReferenceFixtureEntryV1

record VerifiedRuntimeInstallationV1 =
  vi_descriptor :: RuntimeBuildDescriptorV1
  vi_build_identity :: RuntimeBuildIdentityV1
  vi_manifest :: RuntimeArtifactCompatibilityManifestV1

record VerifiedRuntimeManifestIngressV1 =
  mi_manifest :: RuntimeArtifactCompatibilityManifestV1
  mi_projection :: RuntimeArtifactCompatibilityManifestProjectionV1
  mi_profile_fingerprint :: Digest32
  mi_canonical_empty_config_digest :: Digest32

definition observation_try_new ::
  "u64 \<Rightarrow> Digest32 \<Rightarrow> bytes \<Rightarrow> RuntimeInstallationError + InstalledRuntimeArtifactObservationV1" where
  "observation_try_new runtime_artifact_length runtime_artifact_sha256 target_triple =
     (if runtime_artifact_length = 0 \<or> runtime_artifact_length > MAX_RUNTIME_ARTIFACT_BYTES then Inl InvalidArtifactLength
      else if runtime_artifact_sha256 = 0 then Inl InvalidArtifactDigest
      else
      and_then (map_err (\<lambda>_. InvalidTargetTriple) (target_triple_try_new target_triple)) (\<lambda>target_triple.
      Inr \<lparr>ob_runtime_artifact_length = runtime_artifact_length, ob_runtime_artifact_sha256 = runtime_artifact_sha256,
           ob_target_triple = target_triple\<rparr>))"

definition compiled_facts_try_new ::
  "bytes32 \<Rightarrow> CardDefinitionRef \<Rightarrow> CardImplementationRef \<Rightarrow> bytes16 \<Rightarrow> Digest32 \<Rightarrow> Digest32 \<Rightarrow>
   RuntimeInstallationError + RuntimeCompiledInstallationFactsV1" where
  "compiled_facts_try_new build_instance_id definition' implementation export definition_digest fixture_artifact_digest =
     and_then (map_err (\<lambda>_. InvalidBuildInstanceId) (build_instance_id_try_from_bytes build_instance_id)) (\<lambda>build_instance_id.
     Inr \<lparr>ci_build_instance_id = build_instance_id,
          ci_fixture = \<lparr>fx_definition = definition', fx_implementation = implementation, fx_export = export,
            fx_definition_digest = definition_digest, fx_fixture_artifact_digest = fixture_artifact_digest\<rparr>\<rparr>)"

definition facts_compatibility_digest ::
  "(bytes \<Rightarrow> Digest32) \<Rightarrow> RuntimeCompiledInstallationFactsV1 \<Rightarrow> RuntimeInstallationError + Digest32" where
  "facts_compatibility_digest sha256 self =
     map_err (\<lambda>_. InternalContract) (compiled_reference_compatibility_digest sha256 (ci_fixture self))"

definition installation_new ::
  "RuntimeBuildDescriptorV1 \<Rightarrow> RuntimeArtifactCompatibilityManifestV1 \<Rightarrow> VerifiedRuntimeInstallationV1" where
  "installation_new descriptor manifest =
     \<lparr>vi_descriptor = descriptor, vi_build_identity = identity_from_descriptor descriptor, vi_manifest = manifest\<rparr>"

section \<open>Generation\<close>

definition descriptor_generation_error :: "ReferenceContractError \<Rightarrow> RuntimeInstallationError" where
  "descriptor_generation_error err =
     (case err of
        ContractInvalidArtifactLength \<Rightarrow> InvalidArtifactLength
      | ContractInvalidArtifactDigest \<Rightarrow> InvalidArtifactDigest
      | ContractInvalidTargetTriple \<Rightarrow> InvalidTargetTriple
      | ContractInvalidBuildInstanceId \<Rightarrow> InvalidBuildInstanceId
      | ContractInvalidCompatibility \<Rightarrow> CompiledCompatibilityMismatch
      | _ \<Rightarrow> InternalContract)"

definition generate_build_descriptor ::
  "(bytes \<Rightarrow> Digest32) \<Rightarrow> InstalledRuntimeArtifactObservationV1 \<Rightarrow> RuntimeCompiledInstallationFactsV1 \<Rightarrow>
   RuntimeInstallationError + RuntimeBuildDescriptorV1" where
  "generate_build_descriptor sha256 artifact compiled =
     map_err descriptor_generation_error
       (descriptor_try_new sha256 (ci_build_instance_id compiled) (ob_runtime_artifact_length artifact)
          (ob_runtime_artifact_sha256 artifact) (ob_target_triple artifact) (ci_fixture compiled))"

definition verify_descriptor ::
  "(bytes \<Rightarrow> Digest32) \<Rightarrow> bytes \<Rightarrow> Digest32 \<Rightarrow> InstalledRuntimeArtifactObservationV1 \<Rightarrow> RuntimeCompiledInstallationFactsV1 \<Rightarrow>
   RuntimeInstallationError + RuntimeBuildDescriptorV1" where
  "verify_descriptor sha256 descriptor_wire descriptor_digest artifact compiled =
     and_then (map_err (\<lambda>_. InvalidDescriptor) (decode_build_descriptor sha256 descriptor_wire)) (\<lambda>descriptor.
     if bd_descriptor_digest descriptor \<noteq> descriptor_digest then Inl DescriptorDigestMismatch
     else if bd_runtime_artifact_length descriptor \<noteq> ob_runtime_artifact_length artifact then Inl ArtifactLengthMismatch
     else if bd_runtime_artifact_sha256 descriptor \<noteq> ob_runtime_artifact_sha256 artifact then Inl ArtifactDigestMismatch
     else if bd_target_triple descriptor \<noteq> ob_target_triple artifact then Inl TargetTripleMismatch
     else if bd_build_instance_id descriptor \<noteq> ci_build_instance_id compiled then Inl CompiledBuildInstanceMismatch
     else Inr descriptor)"

definition expected_manifest ::
  "(bytes \<Rightarrow> Digest32) \<Rightarrow> RuntimeHostId \<Rightarrow> RuntimeBuildDescriptorV1 \<Rightarrow> RuntimeCompiledInstallationFactsV1 \<Rightarrow>
   RuntimeInstallationError + RuntimeArtifactCompatibilityManifestV1" where
  "expected_manifest sha256 target descriptor compiled =
     map_err (\<lambda>err. case err of ContractInvalidCompatibility \<Rightarrow> CompiledCompatibilityMismatch | _ \<Rightarrow> InternalContract)
       (manifest_try_new sha256 target descriptor (ci_fixture compiled))"

definition generate_manifest ::
  "(bytes \<Rightarrow> Digest32) \<Rightarrow> bytes \<Rightarrow> Digest32 \<Rightarrow> RuntimeHostId \<Rightarrow> InstalledRuntimeArtifactObservationV1 \<Rightarrow>
   RuntimeCompiledInstallationFactsV1 \<Rightarrow> RuntimeInstallationError + VerifiedRuntimeInstallationV1" where
  "generate_manifest sha256 descriptor_wire descriptor_digest target artifact compiled =
     and_then (verify_descriptor sha256 descriptor_wire descriptor_digest artifact compiled) (\<lambda>descriptor.
     and_then (expected_manifest sha256 target descriptor compiled) (\<lambda>manifest.
     Inr (installation_new descriptor manifest)))"

section \<open>Verification\<close>

definition verify_manifest_for_descriptor ::
  "(bytes \<Rightarrow> Digest32) \<Rightarrow> RuntimeBuildDescriptorV1 \<Rightarrow> bytes \<Rightarrow> Digest32 \<Rightarrow> RuntimeHostId \<Rightarrow>
   RuntimeCompiledInstallationFactsV1 \<Rightarrow> RuntimeInstallationError + VerifiedRuntimeInstallationV1" where
  "verify_manifest_for_descriptor sha256 descriptor manifest_wire manifest_digest expected_target compiled =
     and_then (expected_manifest sha256 expected_target descriptor compiled) (\<lambda>expected.
     and_then (map_err (\<lambda>_. InvalidManifest) (decode_compatibility_manifest sha256 manifest_wire)) (\<lambda>manifest.
     if mf_manifest_digest manifest \<noteq> manifest_digest then Inl InstalledManifestDigestMismatch
     else
       let row = mf_row manifest in
       if rw_target row \<noteq> expected_target then Inl InstalledManifestTargetMismatch
       else if rw_fixture row \<noteq> ci_fixture compiled then Inl InstalledManifestFixtureMismatch
       else if rw_build_identity row \<noteq> identity_from_descriptor descriptor then Inl ManifestBuildIdentityMismatch
       else if mf_canonical_wire manifest \<noteq> mf_canonical_wire expected
          \<or> mf_manifest_digest manifest \<noteq> mf_manifest_digest expected
       then Inl ManifestCanonicalMismatch
       else Inr (installation_new descriptor manifest)))"

definition verify_existing ::
  "(bytes \<Rightarrow> Digest32) \<Rightarrow> bytes \<Rightarrow> Digest32 \<Rightarrow> bytes \<Rightarrow> Digest32 \<Rightarrow> RuntimeHostId \<Rightarrow> InstalledRuntimeArtifactObservationV1 \<Rightarrow>
   RuntimeCompiledInstallationFactsV1 \<Rightarrow> RuntimeInstallationError + VerifiedRuntimeInstallationV1" where
  "verify_existing sha256 descriptor_wire descriptor_digest manifest_wire manifest_digest expected_target artifact compiled =
     and_then (verify_descriptor sha256 descriptor_wire descriptor_digest artifact compiled) (\<lambda>descriptor.
     verify_manifest_for_descriptor sha256 descriptor manifest_wire manifest_digest expected_target compiled)"

definition verify_pinned_startup ::
  "(bytes \<Rightarrow> Digest32) \<Rightarrow> bytes \<Rightarrow> Digest32 \<Rightarrow> bytes \<Rightarrow> Digest32 \<Rightarrow> RuntimeHostId \<Rightarrow>
   RuntimeCompiledInstallationFactsV1 \<Rightarrow> RuntimeInstallationError + VerifiedRuntimeInstallationV1" where
  "verify_pinned_startup sha256 descriptor_wire descriptor_digest manifest_wire manifest_digest expected_target compiled =
     and_then (map_err (\<lambda>_. InvalidDescriptor) (decode_build_descriptor sha256 descriptor_wire)) (\<lambda>descriptor.
     if bd_descriptor_digest descriptor \<noteq> descriptor_digest then Inl DescriptorDigestMismatch
     else if bd_build_instance_id descriptor \<noteq> ci_build_instance_id compiled then Inl CompiledBuildInstanceMismatch
     else
     and_then (facts_compatibility_digest sha256 compiled) (\<lambda>compiled_compatibility.
     if bd_compiled_reference_compatibility_digest descriptor \<noteq> compiled_compatibility then Inl CompiledCompatibilityMismatch
     else verify_manifest_for_descriptor sha256 descriptor manifest_wire manifest_digest expected_target compiled))"

section \<open>The controller's view\<close>

definition immutable_manifest_ingress_from_parts ::
  "(bytes \<Rightarrow> Digest32) \<Rightarrow> RuntimeArtifactCompatibilityManifestV1 \<Rightarrow> RuntimeArtifactCompatibilityManifestProjectionV1 \<Rightarrow>
   RuntimeInstallationError + VerifiedRuntimeManifestIngressV1" where
  "immutable_manifest_ingress_from_parts sha256 manifest projection =
     and_then (map_err (\<lambda>_. InternalContract) (reference_profile_fingerprint sha256 (rw_fixture (mf_row manifest)))) (\<lambda>profile_fingerprint.
     and_then (map_err (\<lambda>_. InternalContract) (reference_empty_config_digest sha256)) (\<lambda>canonical_empty_config_digest.
     Inr \<lparr>mi_manifest = manifest, mi_projection = projection, mi_profile_fingerprint = profile_fingerprint,
          mi_canonical_empty_config_digest = canonical_empty_config_digest\<rparr>))"

definition immutable_manifest_ingress_from_manifest ::
  "(bytes \<Rightarrow> Digest32) \<Rightarrow> RuntimeArtifactCompatibilityManifestV1 \<Rightarrow>
   RuntimeInstallationError + VerifiedRuntimeManifestIngressV1" where
  "immutable_manifest_ingress_from_manifest sha256 manifest =
     immutable_manifest_ingress_from_parts sha256 manifest (projection_from_manifest manifest)"

definition verify_immutable_manifest_ingress ::
  "(bytes \<Rightarrow> Digest32) \<Rightarrow> bytes \<Rightarrow> Digest32 \<Rightarrow> RuntimeInstallationError + VerifiedRuntimeManifestIngressV1" where
  "verify_immutable_manifest_ingress sha256 manifest_wire manifest_digest =
     and_then (map_err (\<lambda>_. InvalidManifest) (decode_compatibility_manifest sha256 manifest_wire)) (\<lambda>manifest.
     if mf_manifest_digest manifest \<noteq> manifest_digest then Inl InstalledManifestDigestMismatch
     else immutable_manifest_ingress_from_manifest sha256 manifest)"

definition verify_immutable_manifest_projection_ingress ::
  "(bytes \<Rightarrow> Digest32) \<Rightarrow> bytes \<Rightarrow> Digest32 \<Rightarrow> RuntimeInstallationError + VerifiedRuntimeManifestIngressV1" where
  "verify_immutable_manifest_projection_ingress sha256 projection_wire expected_manifest_digest =
     and_then (map_err (\<lambda>_. InvalidManifest) (decode_compatibility_projection sha256 projection_wire)) (\<lambda>projection.
     if mp_manifest_digest projection \<noteq> expected_manifest_digest then Inl InstalledManifestDigestMismatch
     else
     and_then (map_err (\<lambda>_. InternalContract) (manifest_from_row sha256 (mp_row projection))) (\<lambda>manifest.
     if mf_manifest_digest manifest \<noteq> expected_manifest_digest then Inl ManifestCanonicalMismatch
     else immutable_manifest_ingress_from_parts sha256 manifest projection))"

type_synonym InstalledManifestProjectionIngress = VerifiedRuntimeManifestIngressV1
type_synonym ControllerInstalledManifestPin = InstalledManifestProjectionIngress

definition pin_try_from_persisted_manifest ::
  "(bytes \<Rightarrow> Digest32) \<Rightarrow> bytes \<Rightarrow> Digest32 \<Rightarrow> RuntimeInstallationError + ControllerInstalledManifestPin" where
  "pin_try_from_persisted_manifest sha256 canonical_manifest_wire expected_manifest_digest =
     verify_immutable_manifest_ingress sha256 canonical_manifest_wire expected_manifest_digest"

definition ingress_try_from_persisted_projection ::
  "(bytes \<Rightarrow> Digest32) \<Rightarrow> bytes \<Rightarrow> Digest32 \<Rightarrow> RuntimeInstallationError + InstalledManifestProjectionIngress" where
  "ingress_try_from_persisted_projection sha256 canonical_projection expected_manifest_digest =
     verify_immutable_manifest_projection_ingress sha256 canonical_projection expected_manifest_digest"

text \<open>The getters of the ingress.\<close>

abbreviation ingress_row :: "VerifiedRuntimeManifestIngressV1 \<Rightarrow> RuntimeArtifactCompatibilityTargetRowV1" where
  "ingress_row self \<equiv> mf_row (mi_manifest self)"

abbreviation ingress_fixture :: "VerifiedRuntimeManifestIngressV1 \<Rightarrow> ReferenceFixtureEntryV1" where
  "ingress_fixture self \<equiv> rw_fixture (ingress_row self)"

abbreviation ingress_manifest_digest :: "VerifiedRuntimeManifestIngressV1 \<Rightarrow> Digest32" where
  "ingress_manifest_digest self \<equiv> mf_manifest_digest (mi_manifest self)"

abbreviation ingress_projection_wire :: "VerifiedRuntimeManifestIngressV1 \<Rightarrow> bytes" where
  "ingress_projection_wire self \<equiv> mp_canonical_wire (mi_projection self)"

end
