(* ===== verification/Planner.thy ===== *)
theory Planner
  imports Stable_Allocation Installation
begin

text \<open>
  The pure planner, \<open>crates/paraegox-deployment/src/planner.rs\<close>: from the desired shape of a target, its previous
  state, the installed manifest and the allocation snapshot it makes a plan candidate, or says why it
  does not. A result is \<open>None\<close> where the code would reach an \<open>unreachable!\<close>.
\<close>

section \<open>Data\<close>

datatype TargetIntent = OneSourceLoop | EmptyTarget | Omitted

record ValidatedReferenceLifecycleBudgets =
  vb_start :: BoundedDuration
  vb_drain :: BoundedDuration
  vb_cleanup :: BoundedDuration

definition budgets_from_reference_contract :: "ValidatedReferenceLifecycleBudgetsV1 \<Rightarrow> ValidatedReferenceLifecycleBudgets" where
  "budgets_from_reference_contract value = \<lparr>vb_start = lb_start value, vb_drain = lb_drain value, vb_cleanup = lb_cleanup value\<rparr>"

definition budget_values :: "ValidatedReferenceLifecycleBudgets \<Rightarrow> BoundedDuration list" where
  "budget_values self = [vb_start self, vb_drain self, vb_cleanup self]"

datatype PreviousTargetEligibility =
    UninitializedNoneExactZero
  | OneSourceLoopLiveReady
  | OneSourceLoopRecoveryFailedExactZero
  | EmptyDeactivateRetiring
  | EmptyDeactivateTerminalExactZero
  | Busy
  | Ineligible

type_synonym AllocationSubject = "CardUseKey \<times> InstanceRef \<times> DomainRef"

record PlanContent =
  pc_target :: RuntimeHostId
  pc_shape :: TargetIntent
  pc_manifest_digest :: Digest32
  pc_stable_allocation_subject :: "AllocationSubject option"
  pc_reference_lifecycle :: "ValidatedReferenceLifecycleBudgetsV1 option"
  pc_canonical_bytes :: bytes

record DeploymentPlanCandidate =
  ca_content :: PlanContent
  ca_allocation_delta :: StableAllocationDelta
  ca_diagnostics :: "PlannerDiagnostic list"
  ca_content_digest :: Digest32

datatype PlannerOutcome = Candidate DeploymentPlanCandidate | OmittedOutcome

datatype PlannerDesired =
    DesiredLoop DeckLock ValidatedReferenceLifecycleBudgets Digest32
  | DesiredEmpty
  | DesiredOmitted

record PlannerInput =
  pi_target :: RuntimeHostId
  pi_desired :: PlannerDesired
  pi_previous :: PreviousTargetEligibility
  pi_manifest :: "InstalledManifestProjectionIngress option"
  pi_allocation :: StableAllocationSnapshot
  pi_service_dependencies :: "ServiceDependency list"

definition PLAN_CONTENT_DIGEST_DOMAIN :: bytes where
  "PLAN_CONTENT_DIGEST_DOMAIN = ascii ''paraegox.deployment.plan-content.sha256.v1''"
definition PLAN_CONTENT_MAGIC :: bytes where
  "PLAN_CONTENT_MAGIC = ascii ''ParaEGOX'' @ [0] @ ascii ''deployment-plan-content''"
definition PLAN_CONTENT_VERSION :: u16 where "PLAN_CONTENT_VERSION = 1"

section \<open>Transitions\<close>

definition validate_transition :: "PreviousTargetEligibility \<Rightarrow> PlannerDesired \<Rightarrow> PlannerError + unit" where
  "validate_transition previous desired =
     (case previous of
        Busy \<Rightarrow> Inl PreviousTargetBusy
      | Ineligible \<Rightarrow> Inl PreviousTargetIneligible
      | EmptyDeactivateRetiring \<Rightarrow> Inl PreviousTargetNotTerminal
      | UninitializedNoneExactZero \<Rightarrow>
          (case desired of DesiredLoop _ _ _ \<Rightarrow> Inr () | DesiredEmpty \<Rightarrow> Inl EmptyBootstrapRejected | DesiredOmitted \<Rightarrow> Inr ())
      | EmptyDeactivateTerminalExactZero \<Rightarrow> Inr ()
      | OneSourceLoopLiveReady \<Rightarrow>
          (case desired of DesiredLoop _ _ _ \<Rightarrow> Inl LoopToLoopRejected | DesiredEmpty \<Rightarrow> Inr ()
           | DesiredOmitted \<Rightarrow> Inl ExplicitEmptyRequiredBeforeOmit)
      | OneSourceLoopRecoveryFailedExactZero \<Rightarrow>
          (case desired of DesiredLoop _ _ _ \<Rightarrow> Inl ExplicitEmptyRequiredBeforeLoop | DesiredEmpty \<Rightarrow> Inr ()
           | DesiredOmitted \<Rightarrow> Inl ExplicitEmptyRequiredBeforeOmit))"

definition active_records :: "StableAllocationSnapshot \<Rightarrow> StableAllocationRecord list" where
  "active_records snapshot = filter (\<lambda>record. al_state record = Active) (an_records snapshot)"

fun expected_active_count :: "PreviousTargetEligibility \<Rightarrow> nat option" where
  "expected_active_count UninitializedNoneExactZero = Some 0"
| "expected_active_count EmptyDeactivateTerminalExactZero = Some 0"
| "expected_active_count OneSourceLoopLiveReady = Some 1"
| "expected_active_count OneSourceLoopRecoveryFailedExactZero = Some 1"
| "expected_active_count _ = None"

definition validate_previous_allocation ::
  "PreviousTargetEligibility \<Rightarrow> StableAllocationSnapshot \<Rightarrow> (PlannerError + unit) option" where
  "validate_previous_allocation previous snapshot =
     map_option (\<lambda>expected. if length (active_records snapshot) \<noteq> expected then Inl PreviousAllocationMismatch else Inr ())
       (expected_active_count previous)"

section \<open>Content\<close>

record LoopFields =
  lf_deck_lock_digest :: Digest32
  lf_key :: CardUseKey
  lf_instance :: InstanceRef
  lf_domain :: DomainRef
  lf_lifecycle :: "u64 list"
  lf_config_digest :: Digest32

definition loop_fields_bytes :: "LoopFields \<Rightarrow> bytes" where
  "loop_fields_bytes f =
     arr32 (lf_deck_lock_digest f) @ arr16 (lf_key f) @ arr16 (lf_instance f) @ arr16 (lf_domain f)
     @ concat (map be_u64 (lf_lifecycle f)) @ arr32 (lf_config_digest f)"

text \<open>The layout that both \<open>build_content\<close> and \<open>try_from_persisted\<close> write.\<close>

definition content_layout ::
  "u8 \<Rightarrow> RuntimeHostId \<Rightarrow> Digest32 \<Rightarrow> Digest32 \<Rightarrow> bytes \<Rightarrow> ReferenceFixtureEntryV1 \<Rightarrow> LoopFields option \<Rightarrow> bytes" where
  "content_layout shape_byte target profile_fingerprint manifest_digest projection fixture loop_fields =
     PLAN_CONTENT_MAGIC @ be_u16 PLAN_CONTENT_VERSION @ [shape_byte] @ arr16 target @ arr32 profile_fingerprint
     @ arr32 manifest_digest @ be_u64 (of_nat (length projection)) @ projection
     @ fixture_entry_bytes fixture
     @ (case loop_fields of None \<Rightarrow> [] | Some f \<Rightarrow> loop_fields_bytes f)"

fun shape_u8 :: "TargetIntent \<Rightarrow> u8 option" where
  "shape_u8 OneSourceLoop = Some 1" | "shape_u8 EmptyTarget = Some 2" | "shape_u8 Omitted = None"

definition manifest_digest_try_new :: "Digest32 \<Rightarrow> PlannerError + Digest32" where
  "manifest_digest_try_new value = (if value = 0 then Inl InvalidManifestDigest else Inr value)"

fun bind_ok :: "('e + 'a) option \<Rightarrow> ('a \<Rightarrow> ('e + 'b) option) \<Rightarrow> ('e + 'b) option" where
  "bind_ok None f = None"
| "bind_ok (Some (Inl e)) f = Some (Inl e)"
| "bind_ok (Some (Inr a)) f = f a"

definition content_loop_fields ::
  "DeckLock option \<Rightarrow> AllocationSubject option \<Rightarrow> (ValidatedReferenceLifecycleBudgets \<times> Digest32) option \<Rightarrow>
   (PlannerError + LoopFields option) option" where
  "content_loop_fields deck_lock subject loop_facts =
     (case subject of
        None \<Rightarrow> Some (Inr None)
      | Some (key, instance_ref, domain) \<Rightarrow>
          (case (deck_lock, loop_facts) of
             (Some deck_lock, Some (lifecycle, config_digest)) \<Rightarrow>
               if 0 \<in> set (budget_values lifecycle) then Some (Inl InvalidLifecycleBudget)
               else Some (Inr (Some \<lparr>lf_deck_lock_digest = dx_digest deck_lock, lf_key = key, lf_instance = instance_ref,
                      lf_domain = domain, lf_lifecycle = budget_values lifecycle, lf_config_digest = config_digest\<rparr>))
           | _ \<Rightarrow> None))"

definition build_content ::
  "RuntimeHostId \<Rightarrow> TargetIntent \<Rightarrow> DeckLock option \<Rightarrow> InstalledManifestProjectionIngress \<Rightarrow> AllocationSubject option \<Rightarrow>
   (ValidatedReferenceLifecycleBudgets \<times> Digest32) option \<Rightarrow> (PlannerError + PlanContent) option" where
  "build_content target shape deck_lock manifest subject loop_facts =
     bind_ok (Some (case loop_facts of None \<Rightarrow> Inr None
         | Some (lifecycle, _) \<Rightarrow>
             and_then (map_err (\<lambda>_. InvalidLifecycleBudget)
               (lifecycle_budgets_try_new (vb_start lifecycle) (vb_drain lifecycle) (vb_cleanup lifecycle))) (\<lambda>budgets. Inr (Some budgets))))
       (\<lambda>reference_lifecycle.
     Option.bind (shape_u8 shape) (\<lambda>shape_byte.
     bind_ok (Some (if length (ingress_projection_wire manifest) < 2 ^ 64 then Inr () else Inl CanonicalLengthOverflow)) (\<lambda>_.
     bind_ok (content_loop_fields deck_lock subject loop_facts) (\<lambda>loop_fields.
     let canonical_bytes = content_layout shape_byte target (mi_profile_fingerprint manifest) (ingress_manifest_digest manifest)
           (ingress_projection_wire manifest) (ingress_fixture manifest) loop_fields in
     Some (and_then (manifest_digest_try_new (ingress_manifest_digest manifest)) (\<lambda>manifest_digest.
     Inr \<lparr>pc_target = target, pc_shape = shape, pc_manifest_digest = manifest_digest, pc_stable_allocation_subject = subject,
          pc_reference_lifecycle = reference_lifecycle, pc_canonical_bytes = canonical_bytes\<rparr>))))))"

definition content_digest_try_for_content :: "(bytes \<Rightarrow> Digest32) \<Rightarrow> PlanContent \<Rightarrow> PlannerError + Digest32" where
  "content_digest_try_for_content sha256 content =
     map_err PlanDigest (build_digest sha256 PLAN_CONTENT_DIGEST_DOMAIN [field_bytes (pc_canonical_bytes content)])"

definition candidate ::
  "(bytes \<Rightarrow> Digest32) \<Rightarrow> PlanContent \<Rightarrow> StableAllocationDelta \<Rightarrow> PlannerDiagnostic list \<Rightarrow> PlannerError + DeploymentPlanCandidate" where
  "candidate sha256 content allocation_delta diagnostics =
     and_then (content_digest_try_for_content sha256 content) (\<lambda>content_digest.
     Inr \<lparr>ca_content = content, ca_allocation_delta = allocation_delta, ca_diagnostics = diagnostics,
          ca_content_digest = content_digest\<rparr>)"

section \<open>Planning\<close>

definition check_loop_deck :: "InstalledManifestProjectionIngress \<Rightarrow> DeckLock \<Rightarrow> PlannerError + ResolvedCardUse" where
  "check_loop_deck manifest deck_lock =
     (let topology = dx_topology deck_lock; closure = dx_resolved_closure deck_lock; fixture = ingress_fixture manifest in
      if tp_links topology \<noteq> [] then Inl UnsupportedLink
      else if tp_requirements topology \<noteq> [] then Inl UnsupportedRequirement
      else if length (tp_card_keys topology) \<noteq> 1 \<or> length (rz_cards closure) \<noteq> 1 then Inl UnsupportedDeckShape
      else
        let c = hd (rz_cards closure) in
        if cu_ports c \<noteq> [] then Inl UnsupportedPort
        else if cu_config c \<noteq> CanonicalEmpty then Inl UnsupportedPerUseConfig
        else if cu_refinement c \<noteq> None then Inl UnsupportedRefinement
        else if cu_role c \<noteq> ReferenceSubject then Inl UnsupportedGeneralCard
        else if hd (tp_card_keys topology) \<noteq> cu_key c then Inl UnsupportedDeckShape
        else if fx_definition fixture \<noteq> cu_definition c \<or> fx_implementation fixture \<noteq> cu_implementation c
          \<or> fx_export fixture \<noteq> cu_export c \<or> fx_definition_digest fixture \<noteq> cu_definition_digest c
          \<or> fx_fixture_artifact_digest fixture \<noteq> cu_artifact_digest c
        then Inl ManifestFixtureMismatch
        else Inr c)"

definition plan_loop ::
  "(bytes \<Rightarrow> Digest32) \<Rightarrow> PlannerInput \<Rightarrow> InstalledManifestProjectionIngress \<Rightarrow> DeckLock \<Rightarrow> ValidatedReferenceLifecycleBudgets \<Rightarrow>
   Digest32 \<Rightarrow> (PlannerError + PlannerOutcome) option" where
  "plan_loop sha256 input manifest deck_lock lifecycle config_digest =
     (if config_digest \<noteq> mi_canonical_empty_config_digest manifest then Some (Inl ConfigMismatch)
      else
      bind_ok (Some (check_loop_deck manifest deck_lock)) (\<lambda>c.
      bind_ok (Some (allocate_active sha256 (pi_target input) (cu_key c) (pi_allocation input))) (\<lambda>(allocation, delta, diagnostics).
      bind_ok (build_content (pi_target input) OneSourceLoop (Some deck_lock) manifest
                 (Some (cu_key c, al_instance allocation, al_domain allocation)) (Some (lifecycle, config_digest))) (\<lambda>content.
      Some (and_then (candidate sha256 content delta diagnostics) (\<lambda>c. Inr (Candidate c)))))))"

definition plan_empty ::
  "(bytes \<Rightarrow> Digest32) \<Rightarrow> PlannerInput \<Rightarrow> InstalledManifestProjectionIngress \<Rightarrow> (PlannerError + PlannerOutcome) option" where
  "plan_empty sha256 input manifest =
     (let active = map retire (active_records (pi_allocation input));
          changed = (active \<noteq> []) in
      bind_ok (Some (advance_generation (an_generation (pi_allocation input)) changed)) (\<lambda>next_generation.
      let delta = \<lparr>de_base_generation = an_generation (pi_allocation input), de_next_generation = next_generation,
                   de_resulting_high_water = an_high_water (pi_allocation input), de_records = active\<rparr>;
          diagnostics = (if changed then [StableAllocationTombstoned] else []) in
      bind_ok (build_content (pi_target input) EmptyTarget None manifest None None) (\<lambda>content.
      Some (and_then (candidate sha256 content delta diagnostics) (\<lambda>c. Inr (Candidate c))))))"

definition plan :: "(bytes \<Rightarrow> Digest32) \<Rightarrow> PlannerInput \<Rightarrow> (PlannerError + PlannerOutcome) option" where
  "plan sha256 input =
     bind_ok (map_option (map_err PlanServiceDependency) (validate_service_dependencies (pi_service_dependencies input))) (\<lambda>service_order.
     if so_startup service_order \<noteq> [] then Some (Inl UnsupportedServiceDependency)
     else
     bind_ok (Some (validate_transition (pi_previous input) (pi_desired input))) (\<lambda>_.
     if an_target (pi_allocation input) \<noteq> pi_target input then Some (Inl AllocationTargetMismatch)
     else
     bind_ok (validate_previous_allocation (pi_previous input) (pi_allocation input)) (\<lambda>_.
     if pi_desired input = DesiredOmitted then Some (Inr OmittedOutcome)
     else
     bind_ok (Some (ok_or (pi_manifest input) MissingManifestProjection)) (\<lambda>manifest.
     if rw_target (ingress_row manifest) \<noteq> pi_target input then Some (Inl ManifestTargetMismatch)
     else
       case pi_desired input of
         DesiredLoop deck_lock lifecycle config_digest \<Rightarrow> plan_loop sha256 input manifest deck_lock lifecycle config_digest
       | DesiredEmpty \<Rightarrow> plan_empty sha256 input manifest
       | DesiredOmitted \<Rightarrow> None))))"

section \<open>Persisted content\<close>

text \<open>The reader: the bytes and the offset of the next one.\<close>

definition reader_take :: "bytes \<Rightarrow> nat \<Rightarrow> nat \<Rightarrow> PlannerError + bytes \<times> nat" where
  "reader_take bs n offset =
     (if offset + n \<ge> 2 ^ 64 then Inl CanonicalLengthOverflow
      else if offset + n > length bs then Inl InvalidPersistedPlanContent
      else Inr (take n (drop offset bs), offset + n))"

definition reader_array :: "bytes \<Rightarrow> nat \<Rightarrow> nat \<Rightarrow> PlannerError + 'w::len word \<times> nat" where
  "reader_array bs n offset = read_next (reader_take bs n offset) (\<lambda>value offset. Inr (from_be value, offset))"

definition read_fixture :: "bytes \<Rightarrow> nat \<Rightarrow> PlannerError + ReferenceFixtureEntryV1 \<times> nat" where
  "read_fixture bs offset =
     read_next (reader_array bs 16 offset) (\<lambda>fixture_definition offset.
     read_next (reader_array bs 16 offset) (\<lambda>fixture_implementation offset.
     read_next (reader_array bs 16 offset) (\<lambda>fixture_export offset.
     read_next (reader_array bs 32 offset) (\<lambda>fixture_definition_digest offset.
     read_next (reader_array bs 32 offset) (\<lambda>fixture_artifact_digest offset.
     Inr (\<lparr>fx_definition = fixture_definition, fx_implementation = fixture_implementation, fx_export = fixture_export,
           fx_definition_digest = fixture_definition_digest, fx_fixture_artifact_digest = fixture_artifact_digest\<rparr>, offset))))))"

definition read_loop_fields ::
  "InstalledManifestProjectionIngress \<Rightarrow> bytes \<Rightarrow> nat \<Rightarrow> PlannerError + (ValidatedReferenceLifecycleBudgetsV1 \<times> LoopFields) \<times> nat" where
  "read_loop_fields manifest bs offset =
     read_next (reader_array bs 32 offset) (\<lambda>deck_lock_digest offset.
     read_next (reader_array bs 16 offset) (\<lambda>key offset.
     read_next (reader_array bs 16 offset) (\<lambda>instance_ref offset.
     read_next (reader_array bs 16 offset) (\<lambda>domain offset.
     read_next (reader_array bs 8 offset) (\<lambda>start offset.
     read_next (reader_array bs 8 offset) (\<lambda>drain offset.
     read_next (reader_array bs 8 offset) (\<lambda>cleanup offset.
     if 0 \<in> set [start, drain, cleanup] then Inl InvalidPersistedPlanContent
     else
     and_then (map_err (\<lambda>_. InvalidPersistedPlanContent) (lifecycle_budgets_try_new start drain cleanup)) (\<lambda>reference_lifecycle.
     read_next (reader_array bs 32 offset) (\<lambda>config_digest offset.
     if config_digest \<noteq> mi_canonical_empty_config_digest manifest then Inl InvalidPersistedPlanContent
     else Inr ((reference_lifecycle,
       \<lparr>lf_deck_lock_digest = deck_lock_digest, lf_key = key, lf_instance = instance_ref, lf_domain = domain,
        lf_lifecycle = [start, drain, cleanup], lf_config_digest = config_digest\<rparr>), offset))))))))))"

definition content_try_from_persisted ::
  "(bytes \<Rightarrow> Digest32) \<Rightarrow> RuntimeHostId \<Rightarrow> bytes \<Rightarrow> PlannerError + PlanContent" where
  "content_try_from_persisted sha256 expected_target bs =
     read_next (reader_take bs (length PLAN_CONTENT_MAGIC) 0) (\<lambda>magic offset.
     if magic \<noteq> PLAN_CONTENT_MAGIC then Inl InvalidPersistedPlanContent
     else
     read_next (reader_array bs 2 offset) (\<lambda>version offset.
     if version \<noteq> PLAN_CONTENT_VERSION then Inl InvalidPersistedPlanContent
     else
     read_next (reader_array bs 1 offset) (\<lambda>shape_byte offset.
     and_then (if (shape_byte :: u8) = 1 then Inr OneSourceLoop else if shape_byte = 2 then Inr EmptyTarget
               else Inl InvalidPersistedPlanContent) (\<lambda>shape.
     read_next (reader_array bs 16 offset) (\<lambda>target offset.
     if target \<noteq> expected_target then Inl InvalidPersistedPlanContent
     else
     read_next (reader_array bs 32 offset) (\<lambda>profile_fingerprint offset.
     read_next (reader_array bs 32 offset) (\<lambda>value offset.
     and_then (manifest_digest_try_new value) (\<lambda>manifest_digest.
     read_next (reader_array bs 8 offset) (\<lambda>projection_length :: u64. \<lambda>offset.
     read_next (reader_take bs (unat projection_length) offset) (\<lambda>projection offset.
     read_next (read_fixture bs offset) (\<lambda>fixture offset.
     and_then (map_err (\<lambda>_. InvalidPersistedPlanContent)
       (ingress_try_from_persisted_projection sha256 projection manifest_digest)) (\<lambda>manifest.
     if rw_target (ingress_row manifest) \<noteq> expected_target \<or> profile_fingerprint \<noteq> mi_profile_fingerprint manifest
        \<or> fixture \<noteq> ingress_fixture manifest
     then Inl InvalidPersistedPlanContent
     else
     read_next (if shape = OneSourceLoop
                then read_next (read_loop_fields manifest bs offset) (\<lambda>(reference_lifecycle, loop_fields) offset.
                       Inr ((Some (lf_key loop_fields, lf_instance loop_fields, lf_domain loop_fields),
                             Some reference_lifecycle, Some loop_fields), offset))
                else Inr ((None, None, None), offset)) (\<lambda>(subject, reference_lifecycle, loop_fields) offset.
     if offset \<noteq> length bs then Inl InvalidPersistedPlanContent
     else if content_layout shape_byte target profile_fingerprint manifest_digest projection fixture loop_fields \<noteq> bs
     then Inl InvalidPersistedPlanContent
     else Inr \<lparr>pc_target = expected_target, pc_shape = shape, pc_manifest_digest = manifest_digest,
               pc_stable_allocation_subject = subject, pc_reference_lifecycle = reference_lifecycle,
               pc_canonical_bytes = bs\<rparr>)))))))))))))"

end
