(* ===== verification/Allocation_Facts.thy ===== *)
theory Allocation_Facts
  imports Stable_Allocation
begin

text \<open>
  What a valid allocation snapshot is, and what applying a change to one does: the code's loop over the
  changes against a description of the successors of a snapshot.
\<close>

section \<open>Valid snapshots\<close>

definition derived :: "(bytes \<Rightarrow> Digest32) \<Rightarrow> RuntimeHostId \<Rightarrow> StableAllocationRecord \<Rightarrow> bool" where
  "derived sha256 target r \<longleftrightarrow>
     derive_id sha256 INSTANCE_ALLOCATION_DOMAIN target (al_key r) (al_ordinal r) = Inr (al_instance r) \<and>
     derive_id sha256 DOMAIN_ALLOCATION_DOMAIN target (al_key r) (al_ordinal r) = Inr (al_domain r)"

definition allocation_ok :: "(bytes \<Rightarrow> Digest32) \<Rightarrow> StableAllocationSnapshot \<Rightarrow> bool" where
  "allocation_ok sha256 s \<longleftrightarrow>
     an_target s \<noteq> 0 \<and> length (an_records s) \<le> 4096 \<and> sorted_wrt (<) (map al_key (an_records s)) \<and>
     distinct (map al_ordinal (an_records s)) \<and> distinct (map al_instance (an_records s)) \<and>
     distinct (map al_domain (an_records s)) \<and>
     (\<forall>r \<in> set (an_records s). al_ordinal r \<noteq> 0 \<and> al_ordinal r \<le> an_high_water s \<and> derived sha256 (an_target s) r) \<and>
     (if an_records s = [] then an_generation s = 0 \<and> an_high_water s = 0
      else an_generation s \<noteq> 0 \<and> an_high_water s \<le> an_generation s \<and> an_high_water s \<in> al_ordinal ` set (an_records s))"

lemma derived_all_iff: "derived_all sha256 target rs = Inr () \<longleftrightarrow> (\<forall>r \<in> set rs. derived sha256 target r)"
  by (induction rs) (auto simp: derived_def res_simps)

lemma adjacent_keys:
  "sorted (map f xs) \<Longrightarrow> list_ex (\<lambda>(a, b). f a = f b) (zip xs (tl xs)) \<longleftrightarrow> \<not> sorted_wrt (<) (map (f :: 'a \<Rightarrow> 'b::linorder) xs)"
proof (induction xs)
  case (Cons x xs)
  then show ?case by (cases xs) auto
qed simp

lemma length_remdups_iff: "length (remdups xs) = length xs \<longleftrightarrow> distinct xs"
  by (metis distinct_remdups_id length_remdups_card_conv card_distinct)

lemma is_maximum:
  assumes "rs \<noteq> []" "\<forall>r \<in> set rs. f r \<le> (h :: 'b::linorder)"
  shows "h = Max (set (map f rs)) \<longleftrightarrow> h \<in> f ` set rs"
proof
  assume "h = Max (set (map f rs))"
  then show "h \<in> f ` set rs" using Max_in [of "set (map f rs)"] assms(1) by simp
next
  assume "h \<in> f ` set rs"
  then show "h = Max (set (map f rs))" using assms(2) by (intro Max_eqI [symmetric]) auto
qed

definition rows_ok :: "u64 \<Rightarrow> u64 \<Rightarrow> StableAllocationRecord list \<Rightarrow> bool" where
  "rows_ok g h rs \<longleftrightarrow> sorted_wrt (<) (map al_key rs) \<and> (\<forall>r \<in> set rs. al_ordinal r \<noteq> 0 \<and> al_ordinal r \<le> h) \<and>
     distinct (map al_ordinal rs) \<and> distinct (map al_instance rs) \<and> distinct (map al_domain rs) \<and>
     (if rs = [] then g = 0 \<and> h = 0 else g \<noteq> 0 \<and> h \<le> g \<and> h \<in> al_ordinal ` set rs)"

lemma rows_checked:
  assumes "sorted (map al_key rs)"
  shows "list_ex (\<lambda>(a, b). al_key a = al_key b) (zip rs (tl rs))
           \<or> list_ex (\<lambda>record. al_ordinal record = 0 \<or> al_ordinal record > h) rs
           \<or> length (remdups (map al_ordinal rs)) \<noteq> length rs
           \<or> length (remdups (map al_instance rs)) \<noteq> length rs
           \<or> length (remdups (map al_domain rs)) \<noteq> length rs
           \<or> (if rs = [] then g \<noteq> 0 \<or> h \<noteq> 0
              else g = 0 \<or> g < h \<or> h \<noteq> Max (set (map al_ordinal rs))) \<longleftrightarrow> \<not> rows_ok g h rs"
proof -
  have dist: "length (remdups (map f rs)) = length rs \<longleftrightarrow> distinct (map f rs)" for f :: "StableAllocationRecord \<Rightarrow> 'a"
    using length_remdups_iff [of "map f rs"] by simp
  have "h = Max (set (map al_ordinal rs)) \<longleftrightarrow> h \<in> al_ordinal ` set rs" if "rs \<noteq> []" "\<forall>r \<in> set rs. al_ordinal r \<le> h"
    using that by (rule is_maximum)
  then show ?thesis
    unfolding rows_ok_def dist adjacent_keys [OF assms] unfolding list_ex_iff
    by (cases "rs = []") (simp, unfold not_less [symmetric], simp only: if_False simp_thms, blast)
qed

lemma allocation_ok_rows:
  "allocation_ok sha256 s \<longleftrightarrow> an_target s \<noteq> 0 \<and> length (an_records s) \<le> 4096 \<and>
     rows_ok (an_generation s) (an_high_water s) (an_records s) \<and> (\<forall>r \<in> set (an_records s). derived sha256 (an_target s) r)"
  unfolding allocation_ok_def rows_ok_def by blast

lemma snapshot_try_new_iff:
  "snapshot_try_new sha256 t g h rs = Inr s \<longleftrightarrow>
     s = \<lparr>an_target = t, an_generation = g, an_high_water = h, an_records = sort_key al_key rs\<rparr> \<and> allocation_ok sha256 s"
proof -
  have "sorted (map al_key (sort_key al_key rs))" by simp
  note rows = rows_checked [OF this]
  show ?thesis
    using derived_all_iff [of sha256 t "sort_key al_key rs"]
    unfolding snapshot_try_new_def Let_def rows by (auto simp: allocation_ok_rows MAX_STABLE_ALLOCATION_RECORDS_def res_simps)
qed

section \<open>Changes\<close>

text \<open>A change takes an active record out of use or gives a card without an active record a new one.\<close>

definition retires :: "(bytes16 \<Rightarrow> StableAllocationRecord option) \<Rightarrow> StableAllocationRecord \<Rightarrow> bool" where
  "retires M c \<longleftrightarrow> (\<exists>p. M (al_key c) = Some p \<and> al_state p = Active \<and> c = retire p)"

definition grants :: "(bytes16 \<Rightarrow> StableAllocationRecord option) \<Rightarrow> StableAllocationRecord \<Rightarrow> bool" where
  "grants M c \<longleftrightarrow> al_state c = Active \<and> (\<forall>p. M (al_key c) = Some p \<longrightarrow> al_state p = Tombstone)"

definition accounted :: "(bytes16 \<Rightarrow> StableAllocationRecord option) \<Rightarrow> u64 \<Rightarrow> bool" where
  "accounted M h \<longleftrightarrow> (\<forall>k p. M k = Some p \<longrightarrow> al_key p = k \<and> al_ordinal p \<le> h)"

lemma accountedD: "accounted M h \<Longrightarrow> M k = Some p \<Longrightarrow> al_key p = k \<and> al_ordinal p \<le> h"
  unfolding accounted_def by blast

lemma retire_simps [simp]:
  "al_key (retire r) = al_key r" "al_ordinal (retire r) = al_ordinal r" "al_instance (retire r) = al_instance r"
  "al_domain (retire r) = al_domain r" "al_state (retire r) = Tombstone"
  by (simp_all add: retire_def)

lemma retires_accounted:
  assumes "accounted M h" "retires M c"
  shows "al_ordinal c \<le> h"
proof -
  obtain p where "M (al_key c) = Some p" "c = retire p" using assms(2) unfolding retires_def by blast
  then show ?thesis using accountedD [OF assms(1), of "al_key c" p] by simp
qed

fun changes_ok ::
  "(bytes \<Rightarrow> Digest32) \<Rightarrow> RuntimeHostId \<Rightarrow> (bytes16 \<Rightarrow> StableAllocationRecord option) \<Rightarrow> u64 \<Rightarrow>
   StableAllocationRecord list \<Rightarrow> u64 \<Rightarrow> bool" where
  "changes_ok sha256 t M h [] h' \<longleftrightarrow> h' = h"
| "changes_ok sha256 t M h (c # cs) h' \<longleftrightarrow> al_ordinal c \<noteq> 0 \<and> derived sha256 t c \<and>
     (retires M c \<and> changes_ok sha256 t M h cs h' \<or>
      grants M c \<and> unat (al_ordinal c) = unat h + 1 \<and> changes_ok sha256 t M (al_ordinal c) cs h')"

lemma record_checked:
  "record_try_from_persisted sha256 t (al_key c) (al_ordinal c) (al_instance c) (al_domain c) (al_state c) = Inr v \<longleftrightarrow>
     v = c \<and> al_ordinal c \<noteq> 0 \<and> derived sha256 t c"
  by (auto simp: record_try_from_persisted_def derived_def res_simps)

lemma change_step:
  assumes "accounted M h"
  shows "(case M (al_key c) of
           None \<Rightarrow>
             and_then (ok_or (checked_add h 1) AllocationExhausted) (\<lambda>n.
             if al_state c \<noteq> Active \<or> al_ordinal c \<noteq> n then Inl InvalidAllocationSnapshot else Inr n)
         | Some p \<Rightarrow>
             if al_ordinal p = al_ordinal c \<and> al_instance p = al_instance c \<and> al_domain p = al_domain c
             then if al_state p \<noteq> Active \<or> al_state c \<noteq> Tombstone then Inl InvalidAllocationSnapshot else Inr h
             else
               and_then (ok_or (checked_add h 1) AllocationExhausted) (\<lambda>n.
               if al_state p \<noteq> Tombstone \<or> al_state c \<noteq> Active \<or> al_ordinal c \<noteq> n
               then Inl InvalidAllocationSnapshot else Inr n)) = Inr n \<longleftrightarrow>
     retires M c \<and> n = h \<or> grants M c \<and> n = al_ordinal c \<and> unat (al_ordinal c) = unat h + 1"
proof (cases "M (al_key c)")
  case None
  then show ?thesis by (auto simp: retires_def grants_def res_simps checked)
next
  case (Some p)
  have p: "al_key p = al_key c" "al_ordinal p \<le> h" using accountedD [OF assms Some] by simp_all
  have same: "c = retire p \<longleftrightarrow> al_ordinal p = al_ordinal c \<and> al_instance p = al_instance c \<and> al_domain p = al_domain c \<and> al_state c = Tombstone"
    using p(1) by (cases c; cases p) (auto simp: retire_def)
  have old: "al_ordinal p \<noteq> al_ordinal c" if "unat (al_ordinal c) = unat h + 1" using that p(2) by (auto simp: word_le_nat_alt)
  show ?thesis unfolding Some option.case retires_def grants_def
    using same old by (cases "al_state p"; cases "al_state c") (auto simp: res_simps checked)
qed

lemma changes_ok_cong:
  "\<forall>c \<in> set cs. M (al_key c) = M' (al_key c) \<Longrightarrow> changes_ok sha256 t M h cs h' = changes_ok sha256 t M' h cs h'"
  by (induction cs arbitrary: h) (auto simp: retires_def grants_def)

definition above :: "bytes16 option \<Rightarrow> bytes16 \<Rightarrow> bool" where
  "above previous k \<longleftrightarrow> (\<forall>p. previous = Some p \<longrightarrow> p < k)"

lemma apply_changes_iff:
  assumes "btree_ok m" "accounted (btree_get m) h" "\<forall>k \<in> set ck. \<exists>p. previous = Some p \<and> k \<le> p"
  shows "apply_changes sha256 t cs m ck previous h = Inr (m', h') \<longleftrightarrow>
    sorted_wrt (<) (map al_key cs) \<and> (\<forall>c \<in> set cs. above previous (al_key c)) \<and>
    changes_ok sha256 t (btree_get m) h cs h' \<and> m' = fold (\<lambda>c. btree_insert (al_key c) c) cs m"
  using assms
proof (induction cs arbitrary: m ck previous h)
  case (Cons c cs)
  let ?m = "btree_insert (al_key c) c m" and ?ck = "insort_insert (al_key c) ck"
  have get: "btree_get ?m = (btree_get m)(al_key c \<mapsto> c)" by (rule btree_get_insert [OF Cons.prems(1)])
  have guard: "((case previous of Some key \<Rightarrow> key \<ge> al_key c | None \<Rightarrow> False) \<or> al_key c \<in> set ck) \<longleftrightarrow> \<not> above previous (al_key c)"
    using Cons.prems(3) by (auto simp: above_def not_le split: option.splits dest: leD)
  have rest: "apply_changes sha256 t cs ?m ?ck (Some (al_key c)) n = Inr (m', h') \<longleftrightarrow>
      sorted_wrt (<) (map al_key (c # cs)) \<and> changes_ok sha256 t (btree_get m) n cs h' \<and>
      m' = fold (\<lambda>c. btree_insert (al_key c) c) cs ?m"
    if n: "retires (btree_get m) c \<and> n = h \<or> grants (btree_get m) c \<and> n = al_ordinal c \<and> unat (al_ordinal c) = unat h + 1"
      and first: "above previous (al_key c)" for n
  proof -
    have "h \<le> n \<and> al_ordinal c \<le> n"
      using n
    proof
      assume "retires (btree_get m) c \<and> n = h"
      then show ?thesis using retires_accounted [OF Cons.prems(2)] by simp
    qed (simp add: word_le_nat_alt)
    then have "accounted (btree_get ?m) n"
      using accountedD [OF Cons.prems(2)] order_trans unfolding get accounted_def by (simp, blast)
    moreover have "\<forall>k \<in> set ?ck. k \<le> al_key c"
      using Cons.prems(3) first by (fastforce simp: set_insort_insert above_def)
    ultimately have "apply_changes sha256 t cs ?m ?ck (Some (al_key c)) n = Inr (m', h') \<longleftrightarrow>
      sorted_wrt (<) (map al_key cs) \<and> (\<forall>d \<in> set cs. above (Some (al_key c)) (al_key d)) \<and>
      changes_ok sha256 t (btree_get ?m) n cs h' \<and> m' = fold (\<lambda>c. btree_insert (al_key c) c) cs ?m"
      using Cons.prems(1) by (intro Cons.IH) (simp_all add: btree_ok_insert)
    moreover have "changes_ok sha256 t (btree_get ?m) n cs h' = changes_ok sha256 t (btree_get m) n cs h'"
      if "\<forall>d \<in> set cs. al_key c < al_key d"
      by (rule changes_ok_cong) (use that in \<open>auto simp: get\<close>)
    ultimately show ?thesis by (auto simp: above_def)
  qed
  have all_above: "\<forall>d \<in> set cs. above previous (al_key d)" if "above previous (al_key c)" "sorted_wrt (<) (map al_key (c # cs))"
    using that by (auto simp: above_def intro: less_trans)
  show ?case
  proof (cases "above previous (al_key c)")
    case False
    then show ?thesis using guard by simp
  next
    case True
    have "apply_changes sha256 t (c # cs) m ck previous h = Inr (m', h') \<longleftrightarrow>
        al_ordinal c \<noteq> 0 \<and> derived sha256 t c \<and> (\<exists>n. (retires (btree_get m) c \<and> n = h \<or>
          grants (btree_get m) c \<and> n = al_ordinal c \<and> unat (al_ordinal c) = unat h + 1) \<and>
          apply_changes sha256 t cs ?m ?ck (Some (al_key c)) n = Inr (m', h'))"
      unfolding apply_changes.simps guard using True
      by (simp add: res_simps record_checked change_step [OF Cons.prems(2)] conj_assoc)
    then show ?thesis using rest [OF _ True] all_above [OF True] True by (simp only: list.simps changes_ok.simps fold_simps) auto
  qed
qed auto

lemma count_from:
  "(a = h + 1 \<and> a \<le> h' \<and> ns = [Suc a ..< Suc h']) \<longleftrightarrow> h \<le> h' \<and> a # ns = [Suc h ..< Suc h']"
proof (cases "h < h'")
  case True
  then have "[Suc h ..< Suc h'] = Suc h # [Suc (Suc h) ..< Suc h']" by (simp add: upt_conv_Cons)
  then show ?thesis using True by auto
qed auto

lemma changes_declared:
  "changes_ok sha256 t M h cs h' \<longleftrightarrow>
     (\<forall>c \<in> set cs. al_ordinal c \<noteq> 0 \<and> derived sha256 t c \<and> (retires M c \<or> grants M c)) \<and> h \<le> h' \<and>
     map (\<lambda>c. unat (al_ordinal c)) (filter (\<lambda>c. \<not> retires M c) cs) = [Suc (unat h) ..< Suc (unat h')]"
proof (induction cs arbitrary: h)
  case Nil
  show ?case by (auto simp: word_le_nat_alt unat_eq_iff)
next
  case (Cons c cs)
  have apart: "\<not> (retires M c \<and> grants M c)" by (auto simp: retires_def grants_def)
  show ?case
  proof (cases "retires M c")
    case True
    then show ?thesis using apart Cons.IH [of h] by auto
  next
    case False
    then show ?thesis using Cons.IH [of "al_ordinal c"] count_from [of "unat (al_ordinal c)" "unat h" "unat h'"]
      by (auto simp: word_le_nat_alt simp del: upt_Suc)
  qed
qed

section \<open>Applying a change\<close>

abbreviation lookup :: "StableAllocationSnapshot \<Rightarrow> bytes16 \<Rightarrow> StableAllocationRecord option" where
  "lookup s k \<equiv> find (\<lambda>r. al_key r = k) (an_records s)"

abbreviation index_of :: "StableAllocationRecord list \<Rightarrow> (bytes16, StableAllocationRecord) btree_map" where
  "index_of rs \<equiv> map (\<lambda>r. (al_key r, r)) rs"

lemma btree_insert_last: "\<forall>e \<in> set m. fst e < k \<Longrightarrow> btree_insert k v m = m @ [(k, v)]"
  by (induction m) auto

lemma build_index:
  assumes "sorted_wrt (<) (map al_key (ps @ rs))"
  shows "fold (\<lambda>r. btree_insert (al_key r) r) rs (index_of ps) = index_of (ps @ rs)"
  using assms
proof (induction rs arbitrary: ps)
  case (Cons r rs)
  have "btree_insert (al_key r) r (index_of ps) = index_of (ps @ [r])"
    using Cons.prems by (subst btree_insert_last) (auto simp: sorted_wrt_append)
  then show ?case using Cons.IH [of "ps @ [r]"] Cons.prems by simp
qed simp

lemma index_get: "btree_get (index_of rs) k = find (\<lambda>r. al_key r = k) rs"
  by (induction rs) (auto simp: btree_get_def)

lemma index_ok: "btree_ok (index_of rs) \<longleftrightarrow> sorted_wrt (<) (map al_key rs)"
  by (simp add: btree_ok_def comp_def)

lemma find_key: "find (\<lambda>r. al_key r = k) rs = Some r \<Longrightarrow> al_key r = k \<and> r \<in> set rs"
  by (auto simp: find_Some_iff in_set_conv_nth)

lemma lookup_record:
  "sorted_wrt (<) (map al_key rs) \<Longrightarrow> r \<in> set rs \<Longrightarrow> find (\<lambda>q. al_key q = al_key r) rs = Some r"
  by (induction rs) auto

lemma lookup_iff:
  "sorted_wrt (<) (map al_key rs) \<Longrightarrow> find (\<lambda>q. al_key q = k) rs = Some r \<longleftrightarrow> r \<in> set rs \<and> al_key r = k"
  using find_key lookup_record by blast

lemma accounted_lookup: "allocation_ok sha256 s \<Longrightarrow> accounted (lookup s) (an_high_water s)"
  using find_key unfolding accounted_def allocation_ok_def by blast

lemma merged:
  "btree_ok m \<Longrightarrow> btree_ok (fold (\<lambda>c. btree_insert (al_key c) c) cs m) \<and>
   (sorted_wrt (<) (map al_key cs) \<longrightarrow>
     btree_get (fold (\<lambda>c. btree_insert (al_key c) c) cs m) k =
       (case find (\<lambda>c. al_key c = k) cs of Some c \<Rightarrow> Some c | None \<Rightarrow> btree_get m k))"
proof (induction cs arbitrary: m)
  case (Cons c cs)
  have none: "find (\<lambda>d. al_key d = al_key c) cs = None" if "sorted_wrt (<) (map al_key (c # cs))"
    using that by (fastforce simp: find_None_iff)
  show ?case using Cons.IH [of "btree_insert (al_key c) c m"] Cons.prems none
    by (auto simp: btree_ok_insert btree_get_insert split: option.splits)
qed simp

lemma apply_delta_iff:
  assumes "allocation_ok sha256 s"
  shows "apply_delta sha256 s d = Inr s' \<longleftrightarrow>
    de_base_generation d = an_generation s \<and> sorted_wrt (<) (map al_key (de_records d)) \<and>
    changes_ok sha256 (an_target s) (lookup s) (an_high_water s) (de_records d) (de_resulting_high_water d) \<and>
    unat (de_next_generation d) = unat (an_generation s) + (if de_records d = [] then 0 else 1) \<and>
    snapshot_try_new sha256 (an_target s) (de_next_generation d) (de_resulting_high_water d)
      (btree_values (fold (\<lambda>c. btree_insert (al_key c) c) (de_records d) (index_of (an_records s)))) = Inr s'"
proof -
  have strict: "sorted_wrt (<) (map al_key (an_records s))" using assms by (simp add: allocation_ok_def)
  have index: "fold (\<lambda>r. btree_insert (al_key r) r) (an_records s) [] = index_of (an_records s)"
    using build_index [of "[]"] strict by simp
  have get: "btree_get (index_of (an_records s)) = lookup s" by (rule ext) (rule index_get)
  have run: "apply_changes sha256 (an_target s) (de_records d) (index_of (an_records s)) [] None (an_high_water s) = Inr (m', h') \<longleftrightarrow>
      sorted_wrt (<) (map al_key (de_records d)) \<and>
      changes_ok sha256 (an_target s) (lookup s) (an_high_water s) (de_records d) h' \<and>
      m' = fold (\<lambda>c. btree_insert (al_key c) c) (de_records d) (index_of (an_records s))" for m' h'
    using apply_changes_iff [of "index_of (an_records s)" "an_high_water s" "[]" None] strict accounted_lookup [OF assms]
    by (simp add: index_ok get above_def)
  have same: "unat (de_next_generation d) = unat (an_generation s) \<longleftrightarrow> de_next_generation d = an_generation s"
    by (simp add: unat_eq_iff)
  have mono: "an_high_water s \<le> h'" if "changes_ok sha256 (an_target s) (lookup s) (an_high_water s) (de_records d) h'" for h'
    using that by (simp add: changes_declared)
  show ?thesis
    unfolding apply_delta_def index
    by (cases "de_records d = []") (auto simp: res_simps run checked same not_less dest: mono)
qed

section \<open>Successors of a snapshot\<close>

definition successor :: "(bytes \<Rightarrow> Digest32) \<Rightarrow> StableAllocationSnapshot \<Rightarrow> StableAllocationSnapshot \<Rightarrow> bool" where
  "successor sha256 s s' \<longleftrightarrow>
     allocation_ok sha256 s' \<and> an_target s' = an_target s \<and> an_high_water s \<le> an_high_water s' \<and>
     (\<forall>k. lookup s k \<noteq> None \<longrightarrow> lookup s' k \<noteq> None) \<and>
     (\<forall>r \<in> set (an_records s'). if an_high_water s < al_ordinal r then grants (lookup s) r
        else lookup s (al_key r) = Some r \<or> retires (lookup s) r) \<and>
     map (\<lambda>r. unat (al_ordinal r)) (filter (\<lambda>r. an_high_water s < al_ordinal r) (an_records s')) =
       [Suc (unat (an_high_water s)) ..< Suc (unat (an_high_water s'))] \<and>
     unat (an_generation s') = unat (an_generation s) + (if an_records s' = an_records s then 0 else 1)"

lemma values_sorted:
  assumes "btree_ok m" "\<forall>(k, r) \<in> set m. al_key r = k"
  shows "sort_key al_key (btree_values m) = btree_values m" "map al_key (btree_values m) = map fst m" "m = index_of (btree_values m)"
proof -
  show keys: "map al_key (btree_values m) = map fst m" using assms(2) by auto
  show "m = index_of (btree_values m)" using assms(2) by (induction m) auto
  have "sorted_wrt (<) (map al_key (btree_values m))" using assms(1) by (simp only: keys btree_ok_def)
  then show "sort_key al_key (btree_values m) = btree_values m"
    by (intro sort_key_id_if_sorted) (rule strict_sorted_imp_sorted)
qed

lemma merged_rows:
  assumes "sorted_wrt (<) (map al_key rs)" "sorted_wrt (<) (map al_key cs)"
  defines "vs \<equiv> btree_values (fold (\<lambda>c. btree_insert (al_key c) c) cs (index_of rs))"
  shows "sort_key al_key vs = vs" "sorted_wrt (<) (map al_key vs)"
    "find (\<lambda>r. al_key r = k) vs = (case find (\<lambda>c. al_key c = k) cs of Some c \<Rightarrow> Some c | None \<Rightarrow> find (\<lambda>r. al_key r = k) rs)"
proof -
  let ?m = "fold (\<lambda>c. btree_insert (al_key c) c) cs (index_of rs)"
  have ok: "btree_ok ?m" and get: "\<And>k. btree_get ?m k =
      (case find (\<lambda>c. al_key c = k) cs of Some c \<Rightarrow> Some c | None \<Rightarrow> btree_get (index_of rs) k)"
    using merged [of "index_of rs" cs] assms(1,2) by (simp_all add: index_ok)
  have "al_key r = k" if "(k, r) \<in> set ?m" for k r
  proof -
    have "btree_get ?m k = Some r" using that btree_ok_distinct [OF ok] by (simp add: btree_get_def)
    then show ?thesis unfolding get index_get using find_key by (auto split: option.splits)
  qed
  then have keyed: "\<forall>(k, r) \<in> set ?m. al_key r = k" by blast
  note v = values_sorted [OF ok keyed]
  show "sort_key al_key vs = vs" unfolding vs_def by (rule v(1))
  show "sorted_wrt (<) (map al_key vs)" using ok unfolding vs_def btree_ok_def v(2) .
  show "find (\<lambda>r. al_key r = k) vs = (case find (\<lambda>c. al_key c = k) cs of Some c \<Rightarrow> Some c | None \<Rightarrow> find (\<lambda>r. al_key r = k) rs)"
    using get [of k] unfolding index_get arg_cong [OF v(3), of "\<lambda>m. btree_get m k", unfolded index_get] unfolding vs_def .
qed

lemma rows_unique:
  assumes "sorted_wrt (<) (map al_key xs)" "sorted_wrt (<) (map al_key ys)" "set xs = set ys"
  shows "xs = ys"
proof (rule map_sorted_distinct_set_unique [of al_key])
  show "inj_on al_key (set xs \<union> set ys)"
    using assms strict_sorted_iff [of "map al_key xs"] by (simp add: distinct_map)
qed (use assms strict_sorted_iff in blast)+

lemma rows_unique_lookup:
  assumes "sorted_wrt (<) (map al_key xs)" "sorted_wrt (<) (map al_key ys)"
    and "\<And>k. find (\<lambda>r. al_key r = k) xs = find (\<lambda>r. al_key r = k) ys"
  shows "xs = ys"
proof (rule rows_unique [OF assms(1,2)])
  have "r \<in> set xs \<longleftrightarrow> r \<in> set ys" for r
    using assms(3) [of "al_key r"] lookup_iff [OF assms(1), of "al_key r" r] lookup_iff [OF assms(2), of "al_key r" r] by simp
  then show "set xs = set ys" by blast
qed

lemma changed_differs: "retires M c \<or> grants M c \<Longrightarrow> M (al_key c) \<noteq> Some c"
  unfolding retires_def grants_def by (metis AllocationState.distinct(1) option.inject retire_simps(5))

lemma grants_fresh:
  assumes "accounted M h" "changes_ok sha256 t M h cs h'" "c \<in> set cs"
  shows "if h < al_ordinal c then grants M c \<and> \<not> retires M c else retires M c"
proof (cases "retires M c")
  case True
  then have "\<not> h < al_ordinal c" using retires_accounted [OF assms(1)] by (simp add: not_less)
  then show ?thesis using True by simp
next
  case False
  then have "unat (al_ordinal c) \<in> set (map (\<lambda>c. unat (al_ordinal c)) (filter (\<lambda>c. \<not> retires M c) cs))"
    using assms(3) by simp
  then have "unat (al_ordinal c) \<in> set [Suc (unat h) ..< Suc (unat h')]" using assms(2) unfolding changes_declared by argo
  then have "h < al_ordinal c" unfolding word_less_nat_alt set_upt atLeastLessThan_iff by linarith
  then show ?thesis using False assms(2,3) by (auto simp: changes_declared)
qed

lemma applied_is_successor:
  assumes ok: "allocation_ok sha256 s" and ap: "apply_delta sha256 s d = Inr s'"
  shows "successor sha256 s s'"
proof -
  let ?cs = "de_records d" and ?M = "lookup s" and ?h = "an_high_water s"
  have strict: "sorted_wrt (<) (map al_key (an_records s))" using ok by (simp add: allocation_ok_def)
  note ac = accounted_lookup [OF ok]
  have d: "sorted_wrt (<) (map al_key ?cs)" "changes_ok sha256 (an_target s) ?M ?h ?cs (de_resulting_high_water d)"
    "unat (de_next_generation d) = unat (an_generation s) + (if ?cs = [] then 0 else 1)"
    "snapshot_try_new sha256 (an_target s) (de_next_generation d) (de_resulting_high_water d)
      (btree_values (fold (\<lambda>c. btree_insert (al_key c) c) ?cs (index_of (an_records s)))) = Inr s'"
    using ap unfolding apply_delta_iff [OF ok] by blast+
  note m = merged_rows [OF strict d(1)]
  have s': "an_target s' = an_target s" "an_generation s' = de_next_generation d" "an_high_water s' = de_resulting_high_water d"
    "allocation_ok sha256 s'" and
    rows: "sorted_wrt (<) (map al_key (an_records s'))" and
    look: "\<And>k. lookup s' k = (case find (\<lambda>c. al_key c = k) ?cs of Some c \<Rightarrow> Some c | None \<Rightarrow> ?M k)"
    using d(4) m unfolding snapshot_try_new_iff m(1) by (auto split: option.splits)
  have fresh: "r \<in> set ?cs \<or> ?M (al_key r) = Some r" if "r \<in> set (an_records s')" for r
    using lookup_record [OF rows that] look [of "al_key r"] find_key by (auto split: option.splits)
  have row: "if ?h < al_ordinal r then grants ?M r else ?M (al_key r) = Some r \<or> retires ?M r" if "r \<in> set (an_records s')" for r
    using fresh [OF that] grants_fresh [OF ac d(2), of r] accountedD [OF ac, of "al_key r" r] by (auto simp: not_less split: if_splits)
  have inrow: "c \<in> set (an_records s')" if "c \<in> set ?cs" for c
    using look [of "al_key c"] lookup_record [OF d(1) that] find_key [of "al_key c" "an_records s'" c] by simp
  have "set (filter (\<lambda>r. ?h < al_ordinal r) (an_records s')) = set (filter (\<lambda>c. \<not> retires ?M c) ?cs)"
  proof (intro set_eqI iffI)
    fix r assume "r \<in> set (filter (\<lambda>r. ?h < al_ordinal r) (an_records s'))"
    then show "r \<in> set (filter (\<lambda>c. \<not> retires ?M c) ?cs)"
      using fresh [of r] accountedD [OF ac, of "al_key r" r] retires_accounted [OF ac, of r] by auto
  next
    fix c assume "c \<in> set (filter (\<lambda>c. \<not> retires ?M c) ?cs)"
    then show "c \<in> set (filter (\<lambda>r. ?h < al_ordinal r) (an_records s'))"
      using inrow [of c] grants_fresh [OF ac d(2), of c] by (auto split: if_splits)
  qed
  then have "filter (\<lambda>r. ?h < al_ordinal r) (an_records s') = filter (\<lambda>c. \<not> retires ?M c) ?cs"
    using rows d(1) by (intro rows_unique) (auto simp: sorted_wrt_map intro: sorted_wrt_filter)
  then have "map (\<lambda>r. unat (al_ordinal r)) (filter (\<lambda>r. ?h < al_ordinal r) (an_records s')) =
      [Suc (unat ?h) ..< Suc (unat (an_high_water s'))]" "?h \<le> an_high_water s'"
    using d(2) unfolding changes_declared s'(3) by simp_all
  moreover have "an_records s' = an_records s \<longleftrightarrow> ?cs = []"
  proof
    assume same: "an_records s' = an_records s"
    have "?M (al_key c) \<noteq> Some c" if "c \<in> set ?cs" for c
      using d(2) that by (intro changed_differs) (simp add: changes_declared)
    then have "c \<notin> set ?cs" for c using inrow [of c] lookup_record [OF strict, of c] unfolding same by blast
    then show "?cs = []" by (cases ?cs) auto
  next
    assume "?cs = []"
    then show "an_records s' = an_records s" using rows strict look by (intro rows_unique_lookup) simp_all
  qed
  ultimately show ?thesis
    unfolding successor_def using s' row d(3) look by (auto split: option.splits)
qed

lemma successor_is_applied:
  assumes ok: "allocation_ok sha256 s" and sc: "successor sha256 s s'"
  shows "apply_delta sha256 s \<lparr>de_base_generation = an_generation s, de_next_generation = an_generation s',
    de_resulting_high_water = an_high_water s',
    de_records = filter (\<lambda>r. lookup s (al_key r) \<noteq> Some r) (an_records s')\<rparr> = Inr s'"
proof -
  let ?M = "lookup s" and ?h = "an_high_water s"
  let ?cs = "filter (\<lambda>r. ?M (al_key r) \<noteq> Some r) (an_records s')"
  note ac = accounted_lookup [OF ok]
  have ok': "allocation_ok sha256 s'" and t: "an_target s' = an_target s" using sc by (simp_all add: successor_def)
  have strict: "sorted_wrt (<) (map al_key (an_records s))" and strict': "sorted_wrt (<) (map al_key (an_records s'))"
    using ok ok' by (simp_all add: allocation_ok_def)
  then have cs: "sorted_wrt (<) (map al_key ?cs)" by (auto simp: sorted_wrt_map intro: sorted_wrt_filter)
  have row: "if ?h < al_ordinal r then grants ?M r else ?M (al_key r) = Some r \<or> retires ?M r" if "r \<in> set (an_records s')" for r
    using sc that by (simp add: successor_def)
  have old: "\<not> ?h < al_ordinal r" if "?M (al_key r) = Some r \<or> retires ?M r" for r
    using that accountedD [OF ac, of "al_key r" r] retires_accounted [OF ac, of r] by (auto simp: not_less)
  have "filter (\<lambda>c. \<not> retires ?M c) ?cs = filter (\<lambda>r. ?h < al_ordinal r) (an_records s')"
    unfolding filter_filter by (rule filter_cong [OF refl]) (metis row old)
  moreover have "\<forall>c \<in> set ?cs. al_ordinal c \<noteq> 0 \<and> derived sha256 (an_target s) c \<and> (retires ?M c \<or> grants ?M c)"
  proof
    fix c assume "c \<in> set ?cs"
    then show "al_ordinal c \<noteq> 0 \<and> derived sha256 (an_target s) c \<and> (retires ?M c \<or> grants ?M c)"
      using ok' t row [of c] by (cases "?h < al_ordinal c") (simp_all add: allocation_ok_def)
  qed
  ultimately have ch: "changes_ok sha256 (an_target s) ?M ?h ?cs (an_high_water s')"
    using sc unfolding changes_declared by (simp add: successor_def)
  have kept: "?M k \<noteq> None \<Longrightarrow> lookup s' k \<noteq> None" for k using sc by (simp add: successor_def)
  have look: "lookup s' k = (case find (\<lambda>c. al_key c = k) ?cs of Some c \<Rightarrow> Some c | None \<Rightarrow> ?M k)" for k
  proof (cases "find (\<lambda>c. al_key c = k) ?cs")
    case (Some c)
    then show ?thesis using find_key [OF Some] lookup_record [OF strict', of c] by auto
  next
    case None
    show ?thesis
    proof (cases "lookup s' k")
      case (Some r)
      then have "?M k = Some r" using find_key [OF Some] None by (auto simp: find_None_iff)
      then show ?thesis using Some None by simp
    qed (use kept [of k] None in \<open>cases "?M k"; simp\<close>)
  qed
  note m = merged_rows [OF strict cs]
  have vs: "btree_values (fold (\<lambda>c. btree_insert (al_key c) c) ?cs (index_of (an_records s))) = an_records s'"
    by (rule rows_unique_lookup [OF m(2) strict']) (simp only: m(3) look)
  have sorted: "sort_key al_key (an_records s') = an_records s'" using m(1) unfolding vs .
  have same: "an_records s' = an_records s \<longleftrightarrow> ?cs = []"
  proof
    assume "an_records s' = an_records s"
    then show "?cs = []" using lookup_record [OF strict] by (auto simp: filter_empty_conv)
  next
    assume e: "?cs = []"
    show "an_records s' = an_records s"
      by (rule rows_unique_lookup [OF strict' strict]) (use look in \<open>simp add: e\<close>)
  qed
  have "unat (an_generation s') = unat (an_generation s) + (if ?cs = [] then 0 else 1)"
    using sc unfolding successor_def same by blast
  then show ?thesis
    unfolding apply_delta_iff [OF ok] using cs ch ok' t by (simp add: vs snapshot_try_new_iff sorted)
qed

lemma successor_validated:
  assumes ok: "allocation_ok sha256 s" "allocation_ok sha256 s'"
  shows "validate_successor_of sha256 s' s = Inr () \<longleftrightarrow> successor sha256 s s'"
proof -
  have strict: "sorted_wrt (<) (map al_key (an_records s'))" using ok(2) by (simp add: allocation_ok_def)
  have index: "btree_get (fold (\<lambda>r. btree_insert (al_key r) r) (an_records s') []) k = lookup s' k" for k
    using build_index [of "[]" "an_records s'"] strict index_get by simp
  let ?d = "\<lparr>de_base_generation = an_generation s, de_next_generation = an_generation s',
    de_resulting_high_water = an_high_water s',
    de_records = filter (\<lambda>r. lookup s (al_key r) \<noteq> Some r) (an_records s')\<rparr>"
  have val: "validate_successor_of sha256 s' s = Inr () \<longleftrightarrow>
      an_target s' = an_target s \<and> an_high_water s \<le> an_high_water s' \<and>
      (\<forall>r \<in> set (an_records s). lookup s' (al_key r) \<noteq> None) \<and> apply_delta sha256 s ?d = Inr s'"
    unfolding validate_successor_of_def Let_def index by (auto simp: res_simps list_ex_iff not_less)
  show ?thesis
  proof
    assume "validate_successor_of sha256 s' s = Inr ()"
    then show "successor sha256 s s'" using applied_is_successor [OF ok(1)] unfolding val by blast
  next
    assume sc: "successor sha256 s s'"
    have "\<forall>r \<in> set (an_records s). lookup s' (al_key r) \<noteq> None"
      using sc lookup_record [of "an_records s"] ok(1) unfolding successor_def allocation_ok_def by blast
    then show "validate_successor_of sha256 s' s = Inr ()"
      unfolding val using sc successor_is_applied [OF ok(1) sc] unfolding successor_def by blast
  qed
qed

end
