(* ===== verification/Planner_Facts.thy ===== *)
theory Planner_Facts
  imports Planner Allocation_Facts
begin

text \<open>
  What the planner's changes do to the allocation snapshot: they apply, unless two derived identities are
  the same, and leave exactly the planned card active.
\<close>

section \<open>Derived identities\<close>

lemma derive_total:
  assumes "domain = INSTANCE_ALLOCATION_DOMAIN \<or> domain = DOMAIN_ALLOCATION_DOMAIN"
  shows "\<exists>i. derive_id sha256 domain t k n = Inr i"
proof -
  have "digestible domain [arr16 t, arr16 k, be_u64 n]"
    using assms by (auto simp: digestible_def INSTANCE_ALLOCATION_DOMAIN_def DOMAIN_ALLOCATION_DOMAIN_def)
  from build_digest_within [OF this, of sha256] show ?thesis by (auto simp: derive_id_def field_u64_def)
qed


section \<open>Rows after a change\<close>

text \<open>Every row has the identity of an old one or is the new record.\<close>

definition same_identity :: "StableAllocationRecord \<Rightarrow> StableAllocationRecord \<Rightarrow> bool" where
  "same_identity p r \<longleftrightarrow> al_key r = al_key p \<and> al_ordinal r = al_ordinal p \<and> al_instance r = al_instance p \<and> al_domain r = al_domain p"

definition no_collision :: "StableAllocationSnapshot \<Rightarrow> StableAllocationRecord option \<Rightarrow> bool" where
  "no_collision s fresh \<longleftrightarrow> (\<forall>f p. fresh = Some f \<longrightarrow> p \<in> set (an_records s) \<longrightarrow> al_instance p \<noteq> al_instance f \<and> al_domain p \<noteq> al_domain f)"

lemma distinct_field:
  assumes rows: "sorted_wrt (<) (map al_key vs)" and old: "distinct (map g (an_records s))"
    and rows': "\<forall>r \<in> set vs. fresh = Some r \<or> (\<exists>p \<in> set (an_records s). same_identity p r)"
    and g: "\<And>p r. same_identity p r \<Longrightarrow> g r = g p"
    and new: "\<forall>f p. fresh = Some f \<longrightarrow> p \<in> set (an_records s) \<longrightarrow> g p \<noteq> g f"
  shows "distinct (map g vs)"
proof -
  have dv: "distinct vs" using rows strict_sorted_iff [of "map al_key vs"] by (simp add: distinct_map)
  have keys: "al_key r \<noteq> al_key q" if "r \<in> set vs" "q \<in> set vs" "r \<noteq> q" for r q
    using lookup_record [OF rows that(1)] lookup_record [OF rows that(2)] that(3) by auto
  have inj: "p = q" if "p \<in> set (an_records s)" "q \<in> set (an_records s)" "g p = g q" for p q
    using old that by (simp add: distinct_map inj_on_def)
  have "inj_on g (set vs)"
  proof (rule inj_onI, rule ccontr)
    fix r q assume rq: "r \<in> set vs" "q \<in> set vs" "g r = g q" "r \<noteq> q"
    have "fresh = Some r \<or> (\<exists>p \<in> set (an_records s). same_identity p r)"
      "fresh = Some q \<or> (\<exists>p \<in> set (an_records s). same_identity p q)" using rows' rq(1,2) by blast+
    then show False
    proof (elim disjE bexE)
      fix p p' assume "p \<in> set (an_records s)" "same_identity p r" "p' \<in> set (an_records s)" "same_identity p' q"
      moreover from this have "p = p'" using inj g rq(3) by metis
      ultimately show False using keys [OF rq(1,2,4)] by (simp add: same_identity_def)
    next
      assume "fresh = Some r" "fresh = Some q" then show False using rq(4) by simp
    next
      fix p assume "fresh = Some r" "p \<in> set (an_records s)" "same_identity p q"
      then show False using new g rq(3) by metis
    next
      fix p assume "fresh = Some q" "p \<in> set (an_records s)" "same_identity p r"
      then show False using new g rq(3) by metis
    qed
  qed
  then show ?thesis using dv by (simp add: distinct_map)
qed

text \<open>A change: some active records retired, at most one new record.\<close>

definition change_ok ::
  "(bytes \<Rightarrow> Digest32) \<Rightarrow> StableAllocationSnapshot \<Rightarrow> StableAllocationRecord option \<Rightarrow> StableAllocationRecord list \<Rightarrow> bool" where
  "change_ok sha256 s fresh cs \<longleftrightarrow> sorted_wrt (<) (map al_key cs) \<and>
     (\<forall>c \<in> set cs. retires (lookup s) c \<or> fresh = Some c) \<and>
     (\<forall>f. fresh = Some f \<longrightarrow> f \<in> set cs \<and> grants (lookup s) f \<and> unat (al_ordinal f) = unat (an_high_water s) + 1 \<and>
        derived sha256 (an_target s) f \<and> (lookup s (al_key f) = None \<longrightarrow> length (an_records s) < 4096))"

definition new_water :: "StableAllocationSnapshot \<Rightarrow> StableAllocationRecord option \<Rightarrow> u64" where
  "new_water s fresh = (case fresh of None \<Rightarrow> an_high_water s | Some f \<Rightarrow> al_ordinal f)"

lemma retired_row:
  assumes "allocation_ok sha256 s" "retires (lookup s) c"
  obtains p where "p \<in> set (an_records s)" "al_state p = Active" "c = retire p" "same_identity p c"
proof -
  obtain p where p: "lookup s (al_key c) = Some p" "al_state p = Active" "c = retire p"
    using assms(2) unfolding retires_def by blast
  have "p \<in> set (an_records s)" using find_key [OF p(1)] by (rule conjunct2)
  moreover have "same_identity p c" unfolding p(3) same_identity_def by simp
  ultimately show ?thesis using that p(2,3) by blast
qed

lemma change_changes_ok:
  assumes ok: "allocation_ok sha256 s" and ch: "change_ok sha256 s fresh cs"
  shows "changes_ok sha256 (an_target s) (lookup s) (an_high_water s) cs (new_water s fresh)"
proof -
  let ?M = "lookup s" and ?h = "an_high_water s"
  have strict: "sorted_wrt (<) (map al_key cs)" using ch by (simp add: change_ok_def)
  have fresh: "f \<in> set cs" "grants ?M f" "\<not> retires ?M f" "unat (al_ordinal f) = unat ?h + 1" "derived sha256 (an_target s) f"
    if "fresh = Some f" for f
    using ch that by (auto simp: change_ok_def grants_def retires_def)
  have row: "al_ordinal c \<noteq> 0 \<and> derived sha256 (an_target s) c" if ret: "retires ?M c" for c
  proof -
    obtain p where p: "p \<in> set (an_records s)" "same_identity p c" by (rule retired_row [OF ok ret])
    then show ?thesis using ok by (simp add: allocation_ok_def derived_def same_identity_def)
  qed
  have "filter (\<lambda>c. \<not> retires ?M c) cs = (case fresh of None \<Rightarrow> [] | Some f \<Rightarrow> [f])"
  proof (cases fresh)
    case None
    then show ?thesis using ch by (simp add: change_ok_def filter_empty_conv)
  next
    case (Some f)
    have "set (filter (\<lambda>c. \<not> retires ?M c) cs) = set [f]" using ch fresh [OF Some] Some by (auto simp: change_ok_def)
    then show ?thesis using strict Some by (simp, intro rows_unique) (auto simp: sorted_wrt_map intro: sorted_wrt_filter)
  qed
  then have "map (\<lambda>c. unat (al_ordinal c)) (filter (\<lambda>c. \<not> retires ?M c) cs) = [Suc (unat ?h) ..< Suc (unat (new_water s fresh))]"
    using fresh(4) by (cases fresh) (simp_all add: new_water_def)
  moreover have "?h \<le> new_water s fresh" using fresh(4) by (cases fresh) (simp_all add: new_water_def word_le_nat_alt)
  moreover have "\<forall>c \<in> set cs. al_ordinal c \<noteq> 0 \<and> derived sha256 (an_target s) c \<and> (retires ?M c \<or> grants ?M c)"
  proof
    fix c assume "c \<in> set cs"
    then consider "retires ?M c" | "fresh = Some c" using ch by (auto simp: change_ok_def)
    then show "al_ordinal c \<noteq> 0 \<and> derived sha256 (an_target s) c \<and> (retires ?M c \<or> grants ?M c)"
      using row [of c] fresh [of c] by cases (auto simp: unat_eq_iff)
  qed
  ultimately show ?thesis unfolding changes_declared by blast
qed

lemma rows_keys_length:
  assumes "sorted_wrt (<) (map al_key xs)" "sorted_wrt (<) (map al_key ys)" "al_key ` set xs \<subseteq> K \<union> al_key ` set ys" "finite K"
  shows "length xs \<le> card K + length ys"
proof -
  have len: "length zs = card (al_key ` set zs)" if "sorted_wrt (<) (map al_key zs)" for zs
    using that distinct_card [of "map al_key zs"] strict_sorted_iff [of "map al_key zs"] by simp
  have "length xs \<le> card (K \<union> al_key ` set ys)" unfolding len [OF assms(1)] by (rule card_mono) (use assms in auto)
  also have "\<dots> \<le> card K + length ys" unfolding len [OF assms(2)] by (rule card_Un_le)
  finally show ?thesis .
qed

lemma change_rows_ok:
  assumes ok: "allocation_ok sha256 s" and ch: "change_ok sha256 s fresh cs" and nc: "no_collision s fresh"
    and gen: "unat g = unat (an_generation s) + (if cs = [] then 0 else 1)"
    and vs: "sorted_wrt (<) (map al_key vs)"
      "\<And>k. find (\<lambda>r. al_key r = k) vs = (case find (\<lambda>c. al_key c = k) cs of Some c \<Rightarrow> Some c | None \<Rightarrow> lookup s k)"
  shows "allocation_ok sha256 \<lparr>an_target = an_target s, an_generation = g, an_high_water = new_water s fresh, an_records = vs\<rparr>"
proof -
  let ?h = "new_water s fresh"
  have strict: "sorted_wrt (<) (map al_key (an_records s))" and sorted: "sorted_wrt (<) (map al_key cs)"
    using ok ch by (simp_all add: allocation_ok_def change_ok_def)
  have fresh: "f \<in> set cs" "unat (al_ordinal f) = unat (an_high_water s) + 1" "derived sha256 (an_target s) f"
    "lookup s (al_key f) = None \<longrightarrow> length (an_records s) < 4096" if "fresh = Some f" for f
    using ch that by (auto simp: change_ok_def)
  have inv: "r \<in> set cs \<or> r \<in> set (an_records s) \<and> find (\<lambda>c. al_key c = al_key r) cs = None" if "r \<in> set vs" for r
    using lookup_record [OF vs(1) that] vs(2) [of "al_key r"] find_key by (auto split: option.splits)
  have incs: "c \<in> set vs" if "c \<in> set cs" for c
    using vs(2) [of "al_key c"] lookup_record [OF sorted that] find_key [of "al_key c" vs c] by simp
  have rows: "\<forall>r \<in> set vs. fresh = Some r \<or> (\<exists>p \<in> set (an_records s). same_identity p r)"
  proof
    fix r assume "r \<in> set vs"
    then consider "fresh = Some r" | (old) "retires (lookup s) r" | "r \<in> set (an_records s)"
      using inv [of r] ch by (auto simp: change_ok_def)
    then show "fresh = Some r \<or> (\<exists>p \<in> set (an_records s). same_identity p r)"
    proof cases
      case old
      then show ?thesis by (rule retired_row [OF ok]) blast
    qed (auto simp: same_identity_def)
  qed
  have newest: "al_ordinal p < al_ordinal f" if "fresh = Some f" "p \<in> set (an_records s)" for f p
    using ok fresh(2) [OF that(1)] that(2) by (force simp: allocation_ok_def word_le_nat_alt word_less_nat_alt)
  have ords: "distinct (map al_ordinal vs)"
    by (rule distinct_field [OF vs(1) _ rows]) (use ok in \<open>auto simp: allocation_ok_def same_identity_def dest: newest\<close>)
  have insts: "distinct (map al_instance vs)"
    by (rule distinct_field [OF vs(1) _ rows]) (use ok nc in \<open>auto simp: allocation_ok_def no_collision_def same_identity_def\<close>)
  have doms: "distinct (map al_domain vs)"
    by (rule distinct_field [OF vs(1) _ rows]) (use ok nc in \<open>auto simp: allocation_ok_def no_collision_def same_identity_def\<close>)
  have water: "an_high_water s \<le> ?h" using change_changes_ok [OF ok ch] by (simp add: changes_declared)
  have each: "al_ordinal r \<noteq> 0 \<and> al_ordinal r \<le> ?h \<and> derived sha256 (an_target s) r" if "r \<in> set vs" for r
    using rows that
  proof (elim ballE disjE bexE)
    assume "fresh = Some r"
    then show ?thesis using fresh [of r] by (auto simp: new_water_def unat_eq_iff)
  next
    fix p assume "p \<in> set (an_records s)" "same_identity p r"
    then show ?thesis using ok water by (auto simp: allocation_ok_def same_identity_def derived_def intro: order_trans)
  qed blast
  have len: "length vs \<le> 4096"
  proof (cases "\<exists>f. fresh = Some f \<and> lookup s (al_key f) = None")
    case True
    then obtain f where f: "fresh = Some f" "lookup s (al_key f) = None" by blast
    have "length vs \<le> card {al_key f} + length (an_records s)"
      by (rule rows_keys_length [OF vs(1) strict]) (use rows f(1) in \<open>auto simp: same_identity_def\<close>)
    then show ?thesis using fresh(4) [OF f(1)] f(2) by simp
  next
    case False
    have "al_key r \<in> al_key ` set (an_records s)" if "r \<in> set vs" for r
    proof -
      have "fresh = Some r \<or> (\<exists>p \<in> set (an_records s). same_identity p r)" using rows that by blast
      then show ?thesis
      proof (elim disjE bexE)
        assume "fresh = Some r"
        then obtain p where p: "lookup s (al_key r) = Some p" using False by auto
        show ?thesis using find_key [OF p] by (metis image_eqI)
      qed (simp add: same_identity_def)
    qed
    then have "length vs \<le> card ({} :: bytes16 set) + length (an_records s)"
      by (intro rows_keys_length [OF vs(1) strict]) auto
    then show ?thesis using ok by (simp add: allocation_ok_def)
  qed
  have top: "if vs = [] then g = 0 \<and> ?h = 0 else g \<noteq> 0 \<and> ?h \<le> g \<and> ?h \<in> al_ordinal ` set vs"
  proof (cases "an_records s = []")
    case True
    have none: "\<not> retires (lookup s) c" for c using True by (simp add: retires_def)
    show ?thesis
    proof (cases cs)
      case Nil
      then have "fresh = None" using fresh(1) by (cases fresh) auto
      moreover have "vs = []" using inv True Nil by (cases vs) auto
      ultimately show ?thesis using ok gen True Nil by (simp add: new_water_def allocation_ok_def unat_eq_iff)
    next
      case (Cons c cs')
      then have c: "fresh = Some c" using ch none by (simp add: change_ok_def)
      have z: "unat (an_generation s) = 0" "unat (an_high_water s) = 0" using ok True by (simp_all add: allocation_ok_def)
      have "c \<in> set vs" using incs Cons by simp
      then show ?thesis using c fresh(2) [OF c] gen Cons z by (auto simp: new_water_def word_le_nat_alt unat_eq_iff)
    qed
  next
    case False
    then have old: "an_generation s \<noteq> 0" "an_high_water s \<le> an_generation s" "an_high_water s \<in> al_ordinal ` set (an_records s)"
      using ok by (simp_all add: allocation_ok_def)
    have le: "unat (an_generation s) \<le> unat g" using gen by simp
    have "\<exists>r \<in> set vs. al_ordinal r = ?h"
    proof (cases fresh)
      case (Some f)
      then show ?thesis using incs fresh(1) by (auto simp: new_water_def)
    next
      case None
      obtain p where p: "p \<in> set (an_records s)" "al_ordinal p = an_high_water s" using old(3) by auto
      have lk: "lookup s (al_key p) = Some p" by (rule lookup_record [OF strict p(1)])
      show ?thesis
      proof (cases "find (\<lambda>c. al_key c = al_key p) cs")
        case (Some c)
        then have c: "c \<in> set cs" "al_key c = al_key p" using find_key by blast+
        then have "retires (lookup s) c" using ch None by (auto simp: change_ok_def)
        then have "c = retire p" using lk c(2) by (simp add: retires_def)
        then have "al_ordinal c = ?h" using p(2) None by (simp add: new_water_def)
        then show ?thesis using incs [OF c(1)] by blast
      next
        case no: None
        then show ?thesis using vs(2) [of "al_key p"] lk find_key [of "al_key p" vs p] p(2) None by (auto simp: new_water_def)
      qed
    qed
    moreover have "?h \<le> g"
    proof (cases fresh)
      case (Some f)
      then have "cs \<noteq> []" using fresh(1) by force
      then show ?thesis using Some fresh(2) gen old(2) by (simp add: new_water_def word_le_nat_alt)
    next
      case None
      then show ?thesis using old(2) le by (simp add: new_water_def word_le_nat_alt)
    qed
    moreover have "g \<noteq> 0" using old(1) le by (auto simp: unat_eq_iff)
    ultimately show ?thesis by (metis empty_iff image_eqI list.set(1))
  qed
  show ?thesis unfolding allocation_ok_def using ok vs(1) ords insts doms each len top by (simp add: allocation_ok_def)
qed

lemma change_applies:
  assumes ok: "allocation_ok sha256 s" and ch: "change_ok sha256 s fresh cs" and nc: "no_collision s fresh"
    and gen: "unat g = unat (an_generation s) + (if cs = [] then 0 else 1)"
  shows "\<exists>s'. apply_delta sha256 s \<lparr>de_base_generation = an_generation s, de_next_generation = g,
      de_resulting_high_water = new_water s fresh, de_records = cs\<rparr> = Inr s' \<and> an_generation s' = g \<and>
      (\<forall>k. lookup s' k = (case find (\<lambda>c. al_key c = k) cs of Some c \<Rightarrow> Some c | None \<Rightarrow> lookup s k))"
proof -
  have strict: "sorted_wrt (<) (map al_key (an_records s))" using ok by (simp add: allocation_ok_def)
  have sorted: "sorted_wrt (<) (map al_key cs)" using ch by (simp add: change_ok_def)
  note m = merged_rows [OF strict sorted]
  let ?vs = "btree_values (fold (\<lambda>c. btree_insert (al_key c) c) cs (index_of (an_records s)))"
  let ?s = "\<lparr>an_target = an_target s, an_generation = g, an_high_water = new_water s fresh, an_records = ?vs\<rparr>"
  have "allocation_ok sha256 ?s" by (rule change_rows_ok [OF ok ch nc gen m(2,3)])
  then have "snapshot_try_new sha256 (an_target s) g (new_water s fresh) ?vs = Inr ?s"
    by (simp only: snapshot_try_new_iff m(1) simp_thms)
  then have "apply_delta sha256 s \<lparr>de_base_generation = an_generation s, de_next_generation = g,
      de_resulting_high_water = new_water s fresh, de_records = cs\<rparr> = Inr ?s"
    unfolding apply_delta_iff [OF ok] using sorted change_changes_ok [OF ok ch] gen by simp
  moreover have "lookup ?s k = (case find (\<lambda>c. al_key c = k) cs of Some c \<Rightarrow> Some c | None \<Rightarrow> lookup s k)" for k
    using m(3) [of k] by simp
  ultimately show ?thesis by (intro exI [of _ ?s]) simp
qed

section \<open>The planner's changes\<close>

text \<open>Retiring a part of the active records.\<close>

lemma retired_change:
  assumes ok: "allocation_ok sha256 s" and P: "\<forall>r. P r \<longrightarrow> al_state r = Active"
  defines "cs \<equiv> map retire (filter P (an_records s))"
  shows "sorted_wrt (<) (map al_key cs)" "\<forall>c \<in> set cs. retires (lookup s) c"
    "find (\<lambda>c. al_key c = k) cs = (case lookup s k of Some r \<Rightarrow> if P r then Some (retire r) else None | None \<Rightarrow> None)"
proof -
  have strict: "sorted_wrt (<) (map al_key (an_records s))" using ok by (simp add: allocation_ok_def)
  have keys: "map al_key cs = map al_key (filter P (an_records s))" by (simp add: cs_def)
  show sorted: "sorted_wrt (<) (map al_key cs)" unfolding keys using strict by (auto simp: sorted_wrt_map intro: sorted_wrt_filter)
  show "\<forall>c \<in> set cs. retires (lookup s) c"
  proof
    fix c assume "c \<in> set cs"
    then obtain r where "r \<in> set (an_records s)" "P r" "c = retire r" by (auto simp: cs_def)
    then show "retires (lookup s) c" using lookup_record [OF strict, of r] P by (simp add: retires_def)
  qed
  show "find (\<lambda>c. al_key c = k) cs = (case lookup s k of Some r \<Rightarrow> if P r then Some (retire r) else None | None \<Rightarrow> None)"
  proof (cases "lookup s k")
    case None
    then have "find (\<lambda>c. al_key c = k) cs = None" by (auto simp: cs_def find_None_iff)
    then show ?thesis using None by simp
  next
    case (Some r)
    have r: "r \<in> set (an_records s)" "al_key r = k" using find_key [OF Some] by simp_all
    have only: "q = r" if "q \<in> set (an_records s)" "al_key q = k" for q
      using lookup_record [OF strict that(1)] Some that(2) by simp
    show ?thesis
    proof (cases "P r")
      case True
      then have "retire r \<in> set cs" using r(1) by (simp add: cs_def)
      from lookup_record [OF sorted this] show ?thesis using Some True r(2) by simp
    next
      case False
      then have "find (\<lambda>c. al_key c = k) cs = None" using only by (auto simp: cs_def find_None_iff)
      then show ?thesis using Some False by simp
    qed
  qed
qed

lemma active_records_none:
  assumes "sorted_wrt (<) (map al_key (an_records s))" "\<And>k r. lookup s k = Some r \<Longrightarrow> al_state r \<noteq> Active"
  shows "active_records s = []"
  using assms(2) lookup_record [OF assms(1)] by (auto simp: active_records_def filter_empty_conv)

lemma active_records_single:
  assumes "sorted_wrt (<) (map al_key (an_records s))" "lookup s (al_key a) = Some a" "al_state a = Active"
    and "\<And>k r. lookup s k = Some r \<Longrightarrow> al_state r = Active \<Longrightarrow> k = al_key a"
  shows "active_records s = [a]"
proof -
  have "r = a" if r: "r \<in> set (an_records s)" "al_state r = Active" for r
  proof -
    have "lookup s (al_key r) = Some r" by (rule lookup_record [OF assms(1) r(1)])
    moreover from this have "al_key r = al_key a" by (rule assms(4) [OF _ r(2)])
    ultimately show ?thesis using assms(2) by simp
  qed
  then have "set (active_records s) \<subseteq> {a}" unfolding active_records_def set_filter by fast
  moreover have "a \<in> set (active_records s)"
    using find_key [OF assms(2)] assms(3) unfolding active_records_def set_filter by fast
  ultimately have same: "set (active_records s) = set [a]" unfolding list.set by fast
  have "sorted_wrt (<) (map al_key (active_records s))"
    using assms(1) unfolding active_records_def sorted_wrt_map by (rule sorted_wrt_filter)
  then show ?thesis by (rule rows_unique [OF _ _ same]) simp
qed

lemma advance_generation_ok:
  "advance_generation base changed = Inr g \<longleftrightarrow> unat g = unat base + (if changed then 1 else 0)"
  by (auto simp: advance_generation_def res_simps checked unat_eq_iff)

lemma advance_live_generation_ok:
  "advance_live_generation base changed = Inr g \<Longrightarrow> unat g = unat base + (if changed then 1 else 0) \<and> g \<noteq> - 1"
  by (auto simp: advance_live_generation_def res_simps advance_generation_ok unat_eq_iff split: if_splits)

lemma empty_change_applies:
  assumes ok: "allocation_ok sha256 s" and g: "advance_generation (an_generation s) (map retire (active_records s) \<noteq> []) = Inr g"
  shows "\<exists>s'. apply_delta sha256 s \<lparr>de_base_generation = an_generation s, de_next_generation = g,
      de_resulting_high_water = an_high_water s, de_records = map retire (active_records s)\<rparr> = Inr s' \<and>
      active_records s' = []"
proof -
  let ?cs = "map retire (filter (\<lambda>r. al_state r = Active) (an_records s))"
  have P: "\<forall>r. al_state r = Active \<longrightarrow> al_state r = Active" by blast
  note r = retired_change [OF ok P]
  have ch: "change_ok sha256 s None ?cs" using r(1,2) by (simp add: change_ok_def)
  have gen: "unat g = unat (an_generation s) + (if ?cs = [] then 0 else 1)"
    using g unfolding advance_generation_ok active_records_def by presburger
  have nc: "no_collision s None" by (simp add: no_collision_def)
  obtain s' where s': "apply_delta sha256 s \<lparr>de_base_generation = an_generation s, de_next_generation = g,
      de_resulting_high_water = new_water s None, de_records = ?cs\<rparr> = Inr s'"
    "\<And>k. lookup s' k = (case find (\<lambda>c. al_key c = k) ?cs of Some c \<Rightarrow> Some c | None \<Rightarrow> lookup s k)"
    using change_applies [OF ok ch nc gen] by blast
  have "allocation_ok sha256 s'" using applied_is_successor [OF ok s'(1)] by (simp add: successor_def)
  then have "active_records s' = []"
    by (intro active_records_none) (auto simp: allocation_ok_def s'(2) r(3) split: option.splits if_splits)
  then show ?thesis using s'(1) by (auto simp: new_water_def active_records_def)
qed

lemma sorted_changes:
  assumes "sorted_wrt (<) (map al_key cs)" "\<forall>c \<in> set cs. al_key c \<noteq> al_key f"
  shows "sorted_wrt (<) (map al_key (sort_key al_key (cs @ [f])))"
    "find (\<lambda>c. al_key c = k) (sort_key al_key (cs @ [f])) = (if k = al_key f then Some f else find (\<lambda>c. al_key c = k) cs)"
proof -
  let ?xs = "sort_key al_key (cs @ [f])"
  have "distinct (map al_key (cs @ [f]))" using assms strict_sorted_iff [of "map al_key cs"] by auto
  moreover have "mset (map al_key ?xs) = mset (map al_key (cs @ [f]))" by simp
  ultimately have "distinct (map al_key ?xs)" using mset_eq_imp_distinct_iff by blast
  then show st: "sorted_wrt (<) (map al_key ?xs)" by (simp add: strict_sorted_iff)
  show "find (\<lambda>c. al_key c = k) ?xs = (if k = al_key f then Some f else find (\<lambda>c. al_key c = k) cs)"
  proof (rule option_eq_by_Some)
    fix c
    show "find (\<lambda>c. al_key c = k) ?xs = Some c \<longleftrightarrow> (if k = al_key f then Some f else find (\<lambda>c. al_key c = k) cs) = Some c"
      using assms by (auto simp: lookup_iff [OF st] lookup_iff [OF assms(1)])
  qed
qed

text \<open>The outcome of \<open>allocate_active\<close>: the record of the card is kept or a new one is made.\<close>

lemma allocate_active_cases:
  assumes "allocate_active sha256 t key s = Inr (a, d, diagnostics)"
  defines "cs \<equiv> map retire (filter (\<lambda>r. al_state r = Active \<and> al_key r \<noteq> key) (an_records s))"
  obtains (reuse) g where "lookup s key = Some a" "al_state a = Active"
      "d = \<lparr>de_base_generation = an_generation s, de_next_generation = g, de_resulting_high_water = an_high_water s, de_records = cs\<rparr>"
      "unat g = unat (an_generation s) + (if cs \<noteq> [] then 1 else 0)" "g \<noteq> - 1"
  | (fresh) g where "\<forall>r. lookup s key = Some r \<longrightarrow> al_state r = Tombstone" "al_key a = key" "al_state a = Active"
      "unat (al_ordinal a) = unat (an_high_water s) + 1" "derived sha256 t a"
      "lookup s key = None \<longrightarrow> length (an_records s) \<noteq> 4096"
      "d = \<lparr>de_base_generation = an_generation s, de_next_generation = g, de_resulting_high_water = al_ordinal a,
         de_records = sort_key al_key (cs @ [a])\<rparr>"
      "unat g = unat (an_generation s) + 1" "g \<noteq> - 1"
proof (cases "\<exists>r. lookup s key = Some r \<and> al_state r = Active")
  case True
  then obtain r where r: "lookup s key = Some r" "al_state r = Active" by blast
  then have "\<exists>g. advance_live_generation (an_generation s) (cs \<noteq> []) = Inr g \<and> a = r \<and>
      d = \<lparr>de_base_generation = an_generation s, de_next_generation = g, de_resulting_high_water = an_high_water s, de_records = cs\<rparr>"
    using assms(1) unfolding allocate_active_def Let_def cs_def [symmetric] by (auto simp: res_simps)
  then show ?thesis using reuse r advance_live_generation_ok by blast
next
  case False
  then have none: "\<forall>r. lookup s key = Some r \<longrightarrow> al_state r = Tombstone" by (metis AllocationState.exhaust)
  have "\<exists>g. advance_live_generation (an_generation s) True = Inr g \<and> al_key a = key \<and> al_state a = Active \<and>
      unat (al_ordinal a) = unat (an_high_water s) + 1 \<and> derived sha256 t a \<and>
      (lookup s key = None \<longrightarrow> length (an_records s) \<noteq> 4096) \<and>
      d = \<lparr>de_base_generation = an_generation s, de_next_generation = g, de_resulting_high_water = al_ordinal a,
         de_records = sort_key al_key (cs @ [a])\<rparr>"
    using assms(1) none unfolding allocate_active_def Let_def cs_def [symmetric]
    by (cases "lookup s key")
      (auto simp: res_simps checked derived_def MAX_STABLE_ALLOCATION_RECORDS_def split: if_splits)
  then show ?thesis using fresh none advance_live_generation_ok [of "an_generation s" True] by auto
qed

lemma still_active:
  "(case (case x of Some r \<Rightarrow> if P r then Some (retire r) else None | None \<Rightarrow> None) of Some c \<Rightarrow> Some c | None \<Rightarrow> x) = Some q \<Longrightarrow>
     al_state q = Active \<Longrightarrow> x = Some q \<and> \<not> P q"
  by (cases x) (auto split: if_splits)

text \<open>Two different cards or ordinals with the same derived identity.\<close>

definition colliding_identity :: "(bytes \<Rightarrow> Digest32) \<Rightarrow> StableAllocationSnapshot \<Rightarrow> CardUseKey \<Rightarrow> bool" where
  "colliding_identity sha256 s key \<longleftrightarrow> (\<exists>r \<in> set (an_records s). \<exists>domain \<in> {INSTANCE_ALLOCATION_DOMAIN, DOMAIN_ALLOCATION_DOMAIN}.
     al_ordinal r < an_high_water s + 1 \<and>
     derive_id sha256 domain (an_target s) (al_key r) (al_ordinal r) = derive_id sha256 domain (an_target s) key (an_high_water s + 1))"

lemma allocate_active_applies:
  assumes ok: "allocation_ok sha256 s" and al: "allocate_active sha256 (an_target s) key s = Inr (a, d, diagnostics)"
    and nc: "\<not> colliding_identity sha256 s key"
  shows "\<exists>s'. apply_delta sha256 s d = Inr s' \<and> active_records s' = [a] \<and> al_key a = key \<and> an_generation s' \<noteq> - 1"
proof -
  let ?P = "\<lambda>r. al_state r = Active \<and> al_key r \<noteq> key"
  let ?cs = "map retire (filter ?P (an_records s))"
  have strict: "sorted_wrt (<) (map al_key (an_records s))" using ok by (simp add: allocation_ok_def)
  have P: "\<forall>r. ?P r \<longrightarrow> al_state r = Active" by blast
  note r = retired_change [OF ok P]
  from al show ?thesis
  proof (cases rule: allocate_active_cases)
    case (reuse g)
    have ch: "change_ok sha256 s None ?cs" using r(1,2) by (simp add: change_ok_def)
    have gen: "unat g = unat (an_generation s) + (if ?cs = [] then 0 else 1)" using reuse(4) by presburger
    have none: "no_collision s None" by (simp add: no_collision_def)
    obtain s' where s': "apply_delta sha256 s d = Inr s'" "an_generation s' = g"
      "\<And>k. lookup s' k = (case find (\<lambda>c. al_key c = k) ?cs of Some c \<Rightarrow> Some c | None \<Rightarrow> lookup s k)"
      using change_applies [OF ok ch none gen] reuse(3) by (auto simp: new_water_def)
    have key: "al_key a = key" using find_key [OF reuse(1)] by (rule conjunct1)
    have ok': "allocation_ok sha256 s'" using applied_is_successor [OF ok s'(1)] by (simp add: successor_def)
    have "active_records s' = [a]"
    proof (rule active_records_single)
      show "lookup s' (al_key a) = Some a" using reuse(1) key by (simp add: s'(3) r(3))
      show "k = al_key a" if "lookup s' k = Some q" "al_state q = Active" for k q
      proof -
        have "lookup s k = Some q \<and> \<not> ?P q" using that [unfolded s'(3), unfolded r(3)] by (rule still_active)
        then show ?thesis using find_key [of k "an_records s" q] that(2) key by metis
      qed
    qed (use ok' reuse(2) in \<open>simp_all add: allocation_ok_def\<close>)
    then show ?thesis using s'(1,2) key reuse(5) by blast
  next
    case (fresh g)
    have apart: "\<forall>c \<in> set ?cs. al_key c \<noteq> al_key a" using fresh(2) by auto
    note st = sorted_changes [OF r(1) apart]
    have set: "set (sort_key al_key (?cs @ [a])) = insert a (set ?cs)" by simp
    have room: "length (an_records s) \<le> 4096" using ok by (simp add: allocation_ok_def)
    have gr: "grants (lookup s) a" unfolding grants_def fresh(2) using fresh(1,3) by blast
    have free: "lookup s (al_key a) = None \<longrightarrow> length (an_records s) < 4096" using fresh(6) room unfolding fresh(2) by linarith
    have ch: "change_ok sha256 s (Some a) (sort_key al_key (?cs @ [a]))"
      unfolding change_ok_def set
    proof (intro conjI ballI allI impI)
      show "retires (lookup s) c \<or> Some a = Some c" if "c \<in> insert a (set ?cs)" for c
        using that
      proof
        assume "c \<in> set ?cs"
        then show ?thesis by (intro disjI1 bspec [OF r(2)])
      qed simp
    qed (use st(1) gr free fresh(4,5) in \<open>simp_all only: option.inject insert_iff simp_thms\<close>)
    have nonempty: "sort_key al_key (?cs @ [a]) \<noteq> []"
    proof
      assume "sort_key al_key (?cs @ [a]) = []"
      with set show False by (simp only: list.set insert_not_empty [symmetric])
    qed
    have gen: "unat g = unat (an_generation s) + (if sort_key al_key (?cs @ [a]) = [] then 0 else 1)"
      unfolding if_not_P [OF nonempty] by (rule fresh(8))
    have none: "no_collision s (Some a)"
    proof -
      have "al_ordinal p \<le> an_high_water s \<and> derived sha256 (an_target s) p" if "p \<in> set (an_records s)" for p
        using ok that by (simp add: allocation_ok_def)
      moreover have "an_high_water s < al_ordinal a" using fresh(4) by (simp add: word_less_nat_alt)
      moreover have "al_ordinal a = an_high_water s + 1"
      proof -
        have "unat (al_ordinal a) < 2 ^ 64" using unsigned_less [of "al_ordinal a"] by simp
        then show ?thesis using fresh(4) by (simp add: unat_eq_iff unat_word_ariths)
      qed
      ultimately show ?thesis using nc fresh(2,5) unfolding no_collision_def colliding_identity_def derived_def
        by (fastforce intro: le_less_trans)
    qed
    obtain s' where s': "apply_delta sha256 s d = Inr s'" "an_generation s' = g"
      "\<And>k. lookup s' k = (case find (\<lambda>c. al_key c = k) (sort_key al_key (?cs @ [a])) of Some c \<Rightarrow> Some c | None \<Rightarrow> lookup s k)"
      using change_applies [OF ok ch none gen] fresh(7) by (auto simp: new_water_def)
    have ok': "allocation_ok sha256 s'" using applied_is_successor [OF ok s'(1)] by (simp add: successor_def)
    have "active_records s' = [a]"
    proof (rule active_records_single)
      show "lookup s' (al_key a) = Some a" by (simp add: s'(3) st(2))
      show "k = al_key a" if "lookup s' k = Some q" "al_state q = Active" for k q
      proof (rule ccontr)
        assume k: "k \<noteq> al_key a"
        have "lookup s k = Some q \<and> \<not> ?P q" using that [unfolded s'(3) st(2) if_not_P [OF k], unfolded r(3)] by (rule still_active)
        then show False using find_key [of k "an_records s" q] that(2) k fresh(2) by metis
      qed
    qed (use ok' fresh(3) in \<open>simp_all add: allocation_ok_def\<close>)
    then show ?thesis using s'(1,2) fresh(2,9) by blast
  qed
qed

end
