(* ===== verification/Allocation_Properties.thy ===== *)
theory Allocation_Properties
  imports Planner_Facts State_Machine
begin

text \<open>
  Stable identities over any number of changes: what the check of a decoded successor accepts, and that an
  identity that was given up never comes before.
\<close>

section \<open>Runs\<close>

inductive allocation_step :: "(bytes \<Rightarrow> Digest32) \<Rightarrow> StableAllocationSnapshot \<Rightarrow> StableAllocationSnapshot \<Rightarrow> bool"
  for sha256 where
  change: "apply_delta sha256 s delta = Inr s' \<Longrightarrow> allocation_step sha256 s s'"

lemma allocation_step_successor:
  "allocation_ok sha256 s \<Longrightarrow> allocation_step sha256 s s' \<Longrightarrow> successor sha256 s s'"
  by (auto elim: allocation_step.cases intro: applied_is_successor)

interpretation allocations: state_machine "allocation_ok sha256" "allocation_step sha256" "allocation_ok sha256"
  by unfold_locales (auto dest: allocation_step_successor simp: successor_def)

definition continues :: "StableAllocationSnapshot \<Rightarrow> StableAllocationSnapshot \<Rightarrow> bool" where
  "continues s t \<longleftrightarrow> an_target t = an_target s \<and> an_generation s \<le> an_generation t \<and> an_high_water s \<le> an_high_water t \<and>
     (\<forall>r \<in> set (an_records t). al_ordinal r \<le> an_high_water s \<longrightarrow>
        r \<in> set (an_records s) \<or> (\<exists>p \<in> set (an_records s). al_state p = Active \<and> r = retire p)) \<and>
     (\<forall>p \<in> set (an_records s). \<exists>r \<in> set (an_records t). al_key r = al_key p \<and>
        (r = p \<or> al_state p = Active \<and> r = retire p \<or> an_high_water s < al_ordinal r))"

lemma continues_step:
  assumes "continues s t" "allocation_ok sha256 t" "successor sha256 t u"
  shows "continues s u"
proof -
  have strict: "sorted_wrt (<) (map al_key (an_records t))" and strict': "sorted_wrt (<) (map al_key (an_records u))"
    using assms(2,3) by (simp_all add: successor_def allocation_ok_def)
  have mono: "an_high_water s \<le> an_high_water t" "an_high_water t \<le> an_high_water u" "an_generation s \<le> an_generation t"
    using assms(1,3) by (simp_all add: continues_def successor_def)
  have gen: "an_generation t \<le> an_generation u" using assms(3) by (auto simp: successor_def word_le_nat_alt split: if_splits)
  have before: "r \<in> set (an_records t) \<or> (\<exists>p \<in> set (an_records t). al_state p = Active \<and> r = retire p)"
    if "r \<in> set (an_records u)" "al_ordinal r \<le> an_high_water t" for r
  proof -
    have "lookup t (al_key r) = Some r \<or> retires (lookup t) r"
      using assms(3) that unfolding successor_def by (metis not_less)
    then show ?thesis unfolding retires_def using find_key by metis
  qed
  have old: "r \<in> set (an_records s) \<or> (\<exists>p \<in> set (an_records s). al_state p = Active \<and> r = retire p)"
    if "r \<in> set (an_records u)" "al_ordinal r \<le> an_high_water s" for r
  proof -
    have IH: "q \<in> set (an_records s) \<or> (\<exists>p \<in> set (an_records s). al_state p = Active \<and> q = retire p)"
      if "q \<in> set (an_records t)" "al_ordinal q \<le> an_high_water s" for q
      using assms(1) that by (simp add: continues_def)
    from before [OF that(1) order_trans [OF that(2) mono(1)]] show ?thesis
    proof (elim disjE bexE conjE)
      fix p assume "p \<in> set (an_records t)" "al_state p = Active" "r = retire p"
      then show ?thesis using IH [of p] that(2) by auto
    qed (use IH that(2) in blast)
  qed
  have kept: "\<exists>r \<in> set (an_records u). al_key r = al_key p \<and>
      (r = p \<or> al_state p = Active \<and> r = retire p \<or> an_high_water s < al_ordinal r)" if "p \<in> set (an_records s)" for p
  proof -
    have "\<exists>q \<in> set (an_records t). al_key q = al_key p \<and> (q = p \<or> al_state p = Active \<and> q = retire p \<or> an_high_water s < al_ordinal q)"
      using assms(1) that unfolding continues_def by fast
    then obtain q where q: "q \<in> set (an_records t)" "al_key q = al_key p"
      "q = p \<or> al_state p = Active \<and> q = retire p \<or> an_high_water s < al_ordinal q" by (elim bexE conjE)
    have "lookup t (al_key p) = Some q" using lookup_record [OF strict q(1)] q(2) by simp
    moreover have "lookup t (al_key p) \<noteq> None \<longrightarrow> lookup u (al_key p) \<noteq> None" using assms(3) unfolding successor_def by blast
    ultimately obtain r where some: "lookup u (al_key p) = Some r" by auto
    then have r: "r \<in> set (an_records u)" "al_key r = al_key p" using find_key [OF some] by simp_all
    show ?thesis
    proof (cases "al_ordinal r \<le> an_high_water t")
      case False
      then show ?thesis using r mono(1) by (auto intro: le_less_trans)
    next
      case True
      have only: "q' = q" if "q' \<in> set (an_records t)" "al_key q' = al_key p" for q'
        using lookup_record [OF strict that(1)] lookup_record [OF strict q(1)] q(2) that(2) by simp
      from before [OF r(1) True] have "r = q \<or> al_state q = Active \<and> r = retire q"
        using only r(2) by (metis retire_simps(1))
      then have "r = p \<or> al_state p = Active \<and> r = retire p \<or> an_high_water s < al_ordinal r"
        using q(3) by (elim disjE conjE) simp_all
      then show ?thesis using r by blast
    qed
  qed
  have "an_target u = an_target s" using assms(1,3) by (simp add: continues_def successor_def)
  then show ?thesis unfolding continues_def using mono gen old kept by (intro conjI ballI impI) (auto intro: order_trans)
qed

lemma run_continues:
  assumes "(allocation_step sha256)\<^sup>*\<^sup>* s t" "allocation_ok sha256 s"
  shows "continues s t"
proof (rule allocations.run_stable [OF assms(1,2)])
  show "continues s s" by (auto simp: continues_def)
  show "continues s u" if "allocation_ok sha256 t" "continues s t" "allocation_step sha256 t u" for t u
    using continues_step allocation_step_successor that by blast
qed

lemma constant_id:
  "domain = INSTANCE_ALLOCATION_DOMAIN \<or> domain = DOMAIN_ALLOCATION_DOMAIN \<Longrightarrow>
     derive_id (\<lambda>_. c) domain t k n = Inr (from_be (take 16 (arr32 c)))"
  using derive_total [of domain "\<lambda>_. c" t k n]
  by (auto simp: derive_id_def res_simps build_digest_def finish_def)

lemma zero_id: "(from_be (take 16 (arr32 0)) :: bytes16) = 0"
  by code_simp

text \<open>
  C13. The check that a decoded allocation snapshot is a legal successor of the stored one accepts exactly the
  snapshots that some change produces: a snapshot is accepted if and only if there is a delta whose application
  to the previous snapshot gives it. Nothing that the planner or the controller can produce is refused on
  recovery, and nothing else gets in.
\<close>

theorem successor_check_is_exact:
  assumes "snapshot_try_new sha256 t g h rs = Inr s" and "snapshot_try_new sha256 t' g' h' rs' = Inr s'"
  shows "validate_successor_of sha256 s' s = Inr () \<longleftrightarrow> (\<exists>delta. apply_delta sha256 s delta = Inr s')"
  using assms successor_validated applied_is_successor successor_is_applied unfolding snapshot_try_new_iff by blast

definition no_allocations :: StableAllocationSnapshot where
  "no_allocations = \<lparr>an_target = 1, an_generation = 0, an_high_water = 0, an_records = []\<rparr>"

definition one_allocation :: "AllocationState \<Rightarrow> StableAllocationRecord" where
  "one_allocation st = \<lparr>al_key = 7, al_ordinal = 1, al_instance = 0, al_domain = 0, al_state = st\<rparr>"

definition allocations_with :: "u64 \<Rightarrow> AllocationState \<Rightarrow> StableAllocationSnapshot" where
  "allocations_with g st = \<lparr>an_target = 1, an_generation = g, an_high_water = 1, an_records = [one_allocation st]\<rparr>"

lemma sample_snapshots:
  "snapshot_try_new (\<lambda>_. 0) 1 0 0 [] = Inr no_allocations"
  "g = 1 \<or> g = 2 \<Longrightarrow> snapshot_try_new (\<lambda>_. 0) 1 g 1 [one_allocation st] = Inr (allocations_with g st)"
  by (auto simp: snapshot_try_new_def no_allocations_def MAX_STABLE_ALLOCATION_RECORDS_def one_allocation_def
      allocations_with_def constant_id zero_id Let_def)

theorem successor_check_is_exact_witness:
  "validate_successor_of (\<lambda>_. 0) (allocations_with 1 Active) no_allocations = Inr () \<longleftrightarrow>
     (\<exists>delta. apply_delta (\<lambda>_. 0) no_allocations delta = Inr (allocations_with 1 Active))"
  by (rule successor_check_is_exact [OF sample_snapshots]) simp

lemma continued_identity:
  assumes "continues s u" "r \<in> set (an_records u)" "al_ordinal r \<le> an_high_water s"
  shows "\<exists>p \<in> set (an_records s). same_identity p r \<and> (al_state p = Tombstone \<longrightarrow> al_state r = Tombstone)"
  using assms unfolding continues_def same_identity_def by (metis AllocationState.distinct(1) retire_simps)

text \<open>
  C14. Stable identities are stable. Over any number of applied changes the target stays, the generation and the
  high-water ordinal never decrease, and every card that ever had a record keeps one. A record with an ordinal
  that was already given is one of the old records, with the same card, instance and domain, and a retired one
  stays retired. An instance that was retired is active again only in a record with a new ordinal for which
  the hash derives the very same identity.
\<close>

theorem identities_never_return:
  assumes "snapshot_try_new sha256 t g h rs = Inr s" and "(allocation_step sha256)\<^sup>*\<^sup>* s u"
  shows "an_target u = an_target s \<and> an_generation s \<le> an_generation u \<and> an_high_water s \<le> an_high_water u \<and>
     (\<forall>p \<in> set (an_records s). \<exists>r \<in> set (an_records u). al_key r = al_key p) \<and>
     (\<forall>r \<in> set (an_records u). al_ordinal r \<le> an_high_water s \<longrightarrow>
        (\<exists>p \<in> set (an_records s). same_identity p r \<and> (al_state p = Tombstone \<longrightarrow> al_state r = Tombstone))) \<and>
     (\<forall>p \<in> set (an_records s). \<forall>r \<in> set (an_records u).
        al_state p = Tombstone \<and> al_state r = Active \<and> al_instance r = al_instance p \<longrightarrow>
        al_ordinal p \<le> an_high_water s \<and> an_high_water s < al_ordinal r \<and>
        derive_id sha256 INSTANCE_ALLOCATION_DOMAIN (an_target s) (al_key r) (al_ordinal r) =
        derive_id sha256 INSTANCE_ALLOCATION_DOMAIN (an_target s) (al_key p) (al_ordinal p))"
proof -
  have ok: "allocation_ok sha256 s" using assms(1) unfolding snapshot_try_new_iff by (rule conjunct2)
  have ok': "allocation_ok sha256 u" by (rule allocations.run_inv [OF assms(2) ok])
  have c: "continues s u" by (rule run_continues [OF assms(2) ok])
  have kept: "\<exists>r \<in> set (an_records u). al_key r = al_key p" if "p \<in> set (an_records s)" for p
    using c that unfolding continues_def by fast
  have later: "al_ordinal p \<le> an_high_water s \<and> an_high_water s < al_ordinal r \<and>
      derive_id sha256 INSTANCE_ALLOCATION_DOMAIN (an_target s) (al_key r) (al_ordinal r) =
      derive_id sha256 INSTANCE_ALLOCATION_DOMAIN (an_target s) (al_key p) (al_ordinal p)"
    if pr: "p \<in> set (an_records s)" "r \<in> set (an_records u)"
      and st: "al_state p = Tombstone \<and> al_state r = Active \<and> al_instance r = al_instance p" for p r
  proof -
    have p: "al_ordinal p \<le> an_high_water s" "derived sha256 (an_target s) p" using ok pr(1) by (simp_all add: allocation_ok_def)
    have r: "derived sha256 (an_target s) r" using ok' c pr(2) by (simp add: allocation_ok_def continues_def)
    have "an_high_water s < al_ordinal r"
    proof (rule ccontr)
      assume "\<not> an_high_water s < al_ordinal r"
      then have "\<exists>q \<in> set (an_records s). same_identity q r \<and> (al_state q = Tombstone \<longrightarrow> al_state r = Tombstone)"
        by (intro continued_identity [OF c pr(2)]) simp
      then obtain q where q: "q \<in> set (an_records s)" "al_instance q = al_instance p" "al_state q \<noteq> Tombstone"
        using st unfolding same_identity_def by (elim bexE conjE) simp
      moreover have "inj_on al_instance (set (an_records s))" using ok by (simp add: allocation_ok_def distinct_map)
      ultimately have "q = p" using pr(1) by (metis inj_onD)
      then show False using q(3) st by simp
    qed
    then show ?thesis using p r st by (simp add: derived_def)
  qed
  show ?thesis using c kept later continued_identity [OF c] unfolding continues_def by (intro conjI ballI impI) simp_all
qed

lemma sample_changes:
  "apply_delta (\<lambda>_. 0) no_allocations
     \<lparr>de_base_generation = 0, de_next_generation = 1, de_resulting_high_water = 1, de_records = [one_allocation Active]\<rparr> =
     Inr (allocations_with 1 Active)"
  "apply_delta (\<lambda>_. 0) (allocations_with 1 Active)
     \<lparr>de_base_generation = 1, de_next_generation = 2, de_resulting_high_water = 1, de_records = [one_allocation Tombstone]\<rparr> =
     Inr (allocations_with 2 Tombstone)"
  using sample_snapshots(2) [of 1 Active] sample_snapshots(2) [of 2 Tombstone]
  by (simp_all add: apply_delta_def no_allocations_def allocations_with_def one_allocation_def record_try_from_persisted_def
      constant_id zero_id checked_add_def btree_get_def)

theorem identities_never_return_witness:
  "(allocation_step (\<lambda>_. 0))\<^sup>*\<^sup>* (allocations_with 1 Active) (allocations_with 2 Tombstone) \<and>
   an_generation (allocations_with 1 Active) \<le> an_generation (allocations_with 2 Tombstone)"
proof -
  have run: "(allocation_step (\<lambda>_. 0))\<^sup>*\<^sup>* (allocations_with 1 Active) (allocations_with 2 Tombstone)"
    using change [OF sample_changes(2)] by (rule r_into_rtranclp)
  have "snapshot_try_new (\<lambda>_. 0) 1 1 1 [one_allocation Active] = Inr (allocations_with 1 Active)"
    by (rule sample_snapshots) simp
  from identities_never_return [OF this run] run show ?thesis by simp
qed

end
