(* ===== verification/Service_Startup.thy ===== *)
theory Service_Startup
  imports Service_Order
begin

text \<open>
  The graph that validation builds from the dependencies, and what the startup loop computes: the longest
  list of services in which every provider comes before its consumers.
\<close>

section \<open>Nodes and edges\<close>

lemma insort_insert_strict: "sorted_wrt (<) xs \<Longrightarrow> sorted_wrt (<) (insort_insert x (xs :: 'a::linorder list))"
  by (simp add: strict_sorted_iff sorted_insort_insert distinct_insort_insert)

lemma nodes_fold:
  "sorted_wrt (<) ns \<Longrightarrow> sorted_wrt (<) (fold (\<lambda>d nodes. insort_insert (sd_consumer d) (insort_insert (sd_provider d) nodes)) ds ns) \<and>
   set (fold (\<lambda>d nodes. insort_insert (sd_consumer d) (insort_insert (sd_provider d) nodes)) ds ns) =
     set ns \<union> sd_provider ` set ds \<union> sd_consumer ` set ds"
  by (induction ds arbitrary: ns) (auto simp: insort_insert_strict set_insort_insert)

lemma digits_inject:
  fixes m :: nat
  assumes "a * m + b = a' * m + b'" "b < m" "b' < m"
  shows "a = a' \<and> b = b'"
  using arg_cong [OF assms(1), of "\<lambda>n. n div m"] arg_cong [OF assms(1), of "\<lambda>n. n mod m"] assms(2,3) by simp

lemma edge_rank_inject: "edge_rank e = edge_rank f \<longleftrightarrow> e = f"
proof
  have bound: "unat (w :: bytes16) < 2 ^ 128" for w using unat_bound [of w] by simp
  assume "edge_rank e = edge_rank f"
  then have "unat (fst e) = unat (fst f) \<and> unat (snd e) = unat (snd f)"
    unfolding edge_rank_def by (rule digits_inject) (rule bound)+
  then show "e = f" by (simp add: prod_eq_iff word_unat_eq_iff)
qed simp

lemma inj_edge_rank: "inj edge_rank"
  by (simp add: inj_def edge_rank_inject)

lemma edges_fold:
  "sorted (map edge_rank es) \<Longrightarrow> distinct es \<Longrightarrow>
   sorted (map edge_rank (fold (\<lambda>d edges. insort_insert_key edge_rank (sd_provider d, sd_consumer d) edges) ds es)) \<and>
   distinct (fold (\<lambda>d edges. insort_insert_key edge_rank (sd_provider d, sd_consumer d) edges) ds es) \<and>
   set (fold (\<lambda>d edges. insort_insert_key edge_rank (sd_provider d, sd_consumer d) edges) ds es) =
     set es \<union> (\<lambda>d. (sd_provider d, sd_consumer d)) ` set ds"
proof (induction ds arbitrary: es)
  case (Cons d ds)
  let ?es = "insort_insert_key edge_rank (sd_provider d, sd_consumer d) es"
  have "sorted (map edge_rank ?es)" "distinct ?es" "set ?es = insert (sd_provider d, sd_consumer d) (set es)"
    using Cons.prems inj_edge_rank
    by (auto simp: insort_insert_key_def sorted_insort_key distinct_insort set_insort_key edge_rank_inject image_iff)
  then show ?case using Cons.IH [of ?es] by auto
qed simp

definition edge_of :: "ServiceDependency \<Rightarrow> ServiceRef \<times> ServiceRef" where
  "edge_of d = (sd_provider d, sd_consumer d)"

lemma dependency_nodes: "sorted_wrt (<) (dependency_nodes ds)" "set (dependency_nodes ds) = sd_provider ` set ds \<union> sd_consumer ` set ds"
  using nodes_fold [of "[]" ds] by (auto simp: dependency_nodes_def)

lemma dependency_edges: "sorted (map edge_rank (dependency_edges ds))" "distinct (dependency_edges ds)" "set (dependency_edges ds) = edge_of ` set ds"
  using edges_fold [of "[]" ds] by (auto simp: dependency_edges_def edge_of_def)

lemma edge_of_inj: "inj edge_of"
  by (rule injI) (auto simp: edge_of_def intro: ServiceDependency.equality)

lemma length_dependency_edges: "length (dependency_edges ds) = card (set ds)"
proof -
  have "length (dependency_edges ds) = card (set (dependency_edges ds))"
    using distinct_card [OF dependency_edges(2)] by simp
  also have "\<dots> = card (set ds)" using card_image [OF inj_on_subset [OF edge_of_inj], of "set ds"] by (simp add: dependency_edges(3))
  finally show ?thesis .
qed

section \<open>Adjacency\<close>

definition succs :: "outgoing \<Rightarrow> ServiceRef \<Rightarrow> ServiceRef list" where
  "succs out p = (case btree_get out p of None \<Rightarrow> [] | Some cs \<Rightarrow> cs)"

lemma link_edges_ok:
  assumes "btree_ok out" "btree_ok ind" "\<forall>e \<in> set es. btree_get ind (snd e) \<noteq> None"
  obtains out' ind' where "link_edges es out ind = Some (out', ind')" "btree_ok ind'"
    "\<And>p. succs out' p = succs out p @ map snd (filter (\<lambda>e. fst e = p) es)"
    "\<And>v. btree_get ind' v = map_option (\<lambda>n. n + length (filter (\<lambda>e. snd e = v) es)) (btree_get ind v)"
  using assms
proof (induction es arbitrary: out ind thesis)
  case Nil
  show ?case by (rule Nil(1) [of out ind]) (use Nil in \<open>simp_all add: option.map_ident\<close>)
next
  case (Cons e es)
  obtain p c where e: "e = (p, c)" by (cases e)
  obtain n where n: "btree_get ind c = Some n" using Cons.prems(4) e by auto
  let ?out = "btree_insert p (succs out p @ [c]) out" and ?ind = "btree_insert c (n + 1) ind"
  have "btree_ok ?out" "btree_ok ?ind" "\<forall>e \<in> set es. btree_get ?ind (snd e) \<noteq> None"
    using Cons.prems btree_ok_insert by (auto simp: btree_get_insert)
  then obtain out' ind' where r: "link_edges es ?out ?ind = Some (out', ind')" "btree_ok ind'"
    "\<And>q. succs out' q = succs ?out q @ map snd (filter (\<lambda>e. fst e = q) es)"
    "\<And>v. btree_get ind' v = map_option (\<lambda>n. n + length (filter (\<lambda>e. snd e = v) es)) (btree_get ?ind v)"
    using Cons.IH by blast
  have "link_edges (e # es) out ind = Some (out', ind')" using r(1) n by (simp add: e Let_def succs_def)
  moreover have "succs out' q = succs out q @ map snd (filter (\<lambda>e. fst e = q) (e # es))" for q
    using r(3) [of q] Cons.prems(2) by (auto simp: e succs_def btree_get_insert)
  moreover have "btree_get ind' v = map_option (\<lambda>n. n + length (filter (\<lambda>e. snd e = v) (e # es))) (btree_get ind v)" for v
    using r(4) [of v] Cons.prems(3) n by (auto simp: e btree_get_insert)
  ultimately show ?case using Cons.prems(1) r(2) by blast
qed

lemma init_indegree:
  "btree_ok m \<Longrightarrow> btree_ok (fold (\<lambda>node. btree_insert node (0 :: nat)) ns m) \<and>
   (\<forall>v. btree_get (fold (\<lambda>node. btree_insert node (0 :: nat)) ns m) v = (if v \<in> set ns then Some 0 else btree_get m v))"
  by (induction ns arbitrary: m) (auto simp: btree_ok_insert btree_get_insert)

definition pending :: "(ServiceRef \<times> ServiceRef) set \<Rightarrow> ServiceRef set \<Rightarrow> ServiceRef \<Rightarrow> ServiceRef set" where
  "pending E S v = {p. (p, v) \<in> E \<and> p \<notin> S}"

lemma graph_ok:
  assumes d: "distinct edges" and "\<forall>(p, c) \<in> set edges. p \<in> set nodes \<and> c \<in> set nodes"
  obtains out ind where "link_edges edges [] (fold (\<lambda>node. btree_insert node 0) nodes []) = Some (out, ind)" "btree_ok ind"
    "\<And>p. distinct (succs out p)" "\<And>p. set (succs out p) = {c. (p, c) \<in> set edges}"
    "\<And>v. btree_get ind v = (if v \<in> set nodes then Some (card (pending (set edges) {} v)) else None)"
proof -
  let ?ind = "fold (\<lambda>node. btree_insert node (0 :: nat)) nodes []"
  have ind: "btree_ok ?ind" "\<And>v. btree_get ?ind v = (if v \<in> set nodes then Some 0 else None)"
    using init_indegree [of "[]" nodes] by simp_all
  obtain out ind' where r: "link_edges edges [] ?ind = Some (out, ind')" "btree_ok ind'"
    "\<And>p. succs out p = succs [] p @ map snd (filter (\<lambda>e. fst e = p) edges)"
    "\<And>v. btree_get ind' v = map_option (\<lambda>n. n + length (filter (\<lambda>e. snd e = v) edges)) (btree_get ?ind v)"
    by (rule link_edges_ok [of "[]" ?ind edges]) (use ind assms(2) in auto)
  have s: "succs out p = map snd (filter (\<lambda>e. fst e = p) edges)" for p using r(3) by (simp add: succs_def)
  have "distinct (succs out p)" for p using d by (auto simp: s distinct_map inj_on_def)
  moreover have "set (succs out p) = {c. (p, c) \<in> set edges}" for p by (force simp: s)
  moreover have "length (filter (\<lambda>e. snd e = v) edges) = card (pending (set edges) {} v)" for v
  proof -
    have "length (filter (\<lambda>e. snd e = v) edges) = card (set (filter (\<lambda>e. snd e = v) edges))"
      using d by (metis distinct_card distinct_filter)
    also have "set (filter (\<lambda>e. snd e = v) edges) = (\<lambda>p. (p, v)) ` pending (set edges) {} v" by (auto simp: pending_def)
    finally show ?thesis by (simp add: card_image inj_on_def)
  qed
  ultimately show thesis using that r(1,2,4) ind(2) by simp
qed

section \<open>The loop\<close>

definition topo :: "(ServiceRef \<times> ServiceRef) set \<Rightarrow> ServiceRef list \<Rightarrow> bool" where
  "topo E S \<longleftrightarrow> (\<forall>i < length S. \<forall>p. (p, S ! i) \<in> E \<longrightarrow> p \<in> set (take i S))"

definition startup_inv ::
  "(ServiceRef \<times> ServiceRef) set \<Rightarrow> ServiceRef set \<Rightarrow> ServiceRef list \<Rightarrow> indegree \<Rightarrow> ServiceRef list \<Rightarrow> bool" where
  "startup_inv E V ready ind S \<longleftrightarrow> btree_ok ind \<and>
     (\<forall>v. btree_get ind v = (if v \<in> V then Some (card (pending E (set S) v)) else None)) \<and>
     distinct (S @ ready) \<and> set S \<union> set ready = {v \<in> V. pending E (set S) v = {}} \<and> topo E S"

lemma release_ok:
  assumes "btree_ok ind" "distinct cs" "distinct ready" "\<forall>c \<in> set cs. \<exists>d. btree_get ind c = Some (Suc d)"
  obtains ready' ind' where "release_consumers cs ready ind = Some (ready', ind')" "btree_ok ind'" "distinct ready'"
    "\<And>v. btree_get ind' v = (if v \<in> set cs then map_option (\<lambda>d. d - 1) (btree_get ind v) else btree_get ind v)"
    "set ready' = set ready \<union> {c \<in> set cs. btree_get ind c = Some 1}"
  using assms
proof (induction cs arbitrary: ind ready thesis)
  case Nil
  show ?case by (rule Nil(1) [of ready ind]) (use Nil in simp_all)
next
  case (Cons c cs)
  obtain d where d: "btree_get ind c = Some (Suc d)" using Cons.prems(5) by auto
  let ?ready = "if d = 0 then insort_insert c ready else ready" and ?ind = "btree_insert c d ind"
  have get: "btree_get ?ind = (btree_get ind)(c \<mapsto> d)" by (rule btree_get_insert [OF Cons.prems(2)])
  have c: "c \<notin> set cs" "distinct cs" using Cons.prems(3) by simp_all
  have "btree_ok ?ind" "distinct ?ready" "\<forall>c \<in> set cs. \<exists>d. btree_get ?ind c = Some (Suc d)"
    using Cons.prems c btree_ok_insert by (auto simp: get distinct_insort_insert)
  then obtain ready' ind' where r: "release_consumers cs ?ready ?ind = Some (ready', ind')" "btree_ok ind'" "distinct ready'"
    "\<And>v. btree_get ind' v = (if v \<in> set cs then map_option (\<lambda>d. d - 1) (btree_get ?ind v) else btree_get ?ind v)"
    "set ready' = set ?ready \<union> {c \<in> set cs. btree_get ?ind c = Some 1}"
    using Cons.IH [OF _ _ c(2)] by blast
  have "release_consumers (c # cs) ready ind = Some (ready', ind')" using r(1) d by (simp add: Let_def)
  moreover have "btree_get ind' v = (if v \<in> set (c # cs) then map_option (\<lambda>d. d - 1) (btree_get ind v) else btree_get ind v)" for v
    using r(4) [of v] d c(1) by (simp add: get)
  moreover have "set ready' = set ready \<union> {x \<in> set (c # cs). btree_get ind x = Some 1}"
    using r(5) d c(1) by (auto simp: get set_insort_insert)
  ultimately show ?case using Cons.prems(1) r(2,3) by blast
qed

lemma pending_append: "n \<notin> set S \<Longrightarrow> pending E (set (S @ [n])) v = pending E (set S) v - {n}"
  by (auto simp: pending_def)

lemma topo_snoc: "topo E (S @ [n]) \<longleftrightarrow> topo E S \<and> pending E (set S) n = {}"
  by (auto simp: topo_def pending_def nth_append less_Suc_eq)

lemma startup_step:
  assumes inv: "startup_inv E V (n # ready) ind S" and fin: "finite E"
    and edges: "\<And>p c. (p, c) \<in> E \<Longrightarrow> c \<in> V"
    and out: "distinct (succs out n)" "set (succs out n) = {c. (n, c) \<in> E}"
  obtains ready' ind' where "release_consumers (succs out n) ready ind = Some (ready', ind')" "startup_inv E V ready' ind' (S @ [n])"
proof -
  let ?P = "pending E (set S)" and ?Q = "pending E (set (S @ [n]))"
  have i: "btree_ok ind" "\<And>v. btree_get ind v = (if v \<in> V then Some (card (?P v)) else None)" "distinct (S @ n # ready)"
    "insert n (set S \<union> set ready) = {v \<in> V. ?P v = {}}" "topo E S"
    using inv by (auto simp: startup_inv_def)
  have n: "n \<in> V" "?P n = {}" "n \<notin> set S" using i(3,4) by auto
  have finP: "finite (?P v)" for v
    by (rule finite_subset [of _ "fst ` E"]) (use fin in \<open>force simp: pending_def\<close>)+
  have Q: "?Q v = ?P v - {n}" for v by (rule pending_append [OF n(3)])
  have mem: "n \<in> ?P v \<longleftrightarrow> (n, v) \<in> E" for v using n(3) by (simp add: pending_def)
  have pos: "0 < card (?P v)" if "(n, v) \<in> E" for v using mem that finP by (auto simp: card_gt_0_iff)
  have nz: "\<forall>c \<in> set (succs out n). \<exists>d. btree_get ind c = Some (Suc d)"
    using pos i(2) edges gr0_conv_Suc by (auto simp: out(2))
  have dr: "distinct ready" using i(3) by simp
  obtain ready' ind' where r: "release_consumers (succs out n) ready ind = Some (ready', ind')" "btree_ok ind'" "distinct ready'"
    "\<And>v. btree_get ind' v = (if v \<in> set (succs out n) then map_option (\<lambda>d. d - 1) (btree_get ind v) else btree_get ind v)"
    "set ready' = set ready \<union> {c \<in> set (succs out n). btree_get ind c = Some 1}"
    by (rule release_ok [OF i(1) out(1) dr nz]) blast
  have card: "card (?Q v) = (if (n, v) \<in> E then card (?P v) - 1 else card (?P v))" for v
    unfolding Q using mem by (simp add: card_Diff_singleton_if)
  have "btree_get ind' v = (if v \<in> V then Some (card (?Q v)) else None)" for v
    using r(4) [of v] i(2) [of v] edges unfolding card by (auto simp: out(2))
  moreover have zero: "?Q v = {} \<longleftrightarrow> ?P v = {} \<or> ((n, v) \<in> E \<and> card (?P v) = 1)" for v
    unfolding Q using mem [of v] finP [of v] by (auto simp: card_1_singleton_iff)
  have new: "set ready' = set ready \<union> {v \<in> V. (n, v) \<in> E \<and> card (?P v) = 1}"
    using r(5) i(2) edges by (auto simp: out(2))
  then have "set (S @ [n]) \<union> set ready' = {v \<in> V. ?Q v = {}}" using i(4) unfolding zero new by auto
  moreover have "v \<notin> insert n (set S)" if "(n, v) \<in> E" "card (?P v) = 1" for v
  proof
    assume "v \<in> insert n (set S)"
    then have "?P v = {}" using i(4) by blast
    then show False using that(2) by simp
  qed
  then have "distinct ((S @ [n]) @ ready')" using r(3) i(3) unfolding distinct_append new by auto
  moreover have "topo E (S @ [n])" using i(5) n(2) by (simp add: topo_snoc)
  ultimately show thesis using that r(1,2) by (simp add: startup_inv_def)
qed

lemma startup_loop_ok:
  assumes "startup_inv E V ready ind S" "finite E" "finite V" "\<And>p c. (p, c) \<in> E \<Longrightarrow> c \<in> V"
    "\<And>p. distinct (succs out p)" "\<And>p. set (succs out p) = {c. (p, c) \<in> E}"
  shows "\<exists>S' ind'. startup_loop out ready ind S = Some S' \<and> startup_inv E V [] ind' S'"
  using assms(1)
proof (induction "card V - length S" arbitrary: ready ind S rule: less_induct)
  case less
  show ?case
  proof (cases ready)
    case Nil
    then show ?thesis using less.prems by (auto simp: startup_loop.simps)
  next
    case (Cons n rest)
    obtain ready' ind' where r: "release_consumers (succs out n) rest ind = Some (ready', ind')" "startup_inv E V ready' ind' (S @ [n])"
      using startup_step [OF _ assms(2) _ assms(5,6)] less.prems assms(4) Cons by metis
    have sub: "set (S @ [n]) \<subseteq> V" and d: "distinct (S @ [n])" using r(2) by (auto simp: startup_inv_def)
    have "length (S @ [n]) \<le> card V" using card_mono [OF assms(3) sub] distinct_card [OF d] by simp
    then have "card V - length (S @ [n]) < card V - length S" by simp
    from less.hyps [OF this r(2)] obtain S' ind'' where
      "startup_loop out ready' ind' (S @ [n]) = Some S'" "startup_inv E V [] ind'' S'" by blast
    moreover have "startup_loop out (n # rest) ind S = startup_loop out ready' ind' (S @ [n])"
      by (subst startup_loop.simps) (use r(1) in \<open>simp add: succs_def split: option.splits\<close>)
    ultimately show ?thesis using Cons by auto
  qed
qed

end
