(* ===== verification/Service_Search.thy ===== *)
theory Service_Search
  imports Service_Startup
begin

text \<open>
  The depth-first search for a cycle: it ends, the vertices it has left lie on no cycle, and what it returns
  is a closed walk along the dependencies.
\<close>

definition closed_walk :: "(ServiceRef \<times> ServiceRef) set \<Rightarrow> ServiceRef list \<Rightarrow> bool" where
  "closed_walk E w \<longleftrightarrow> 2 \<le> length w \<and> hd w = last w \<and> distinct (butlast w) \<and> successively (\<lambda>a b. (a, b) \<in> E) w"

definition black :: "Search \<Rightarrow> ServiceRef set" where
  "black s = {v. search_state s v = 2}"

fun frames_ok :: "outgoing \<Rightarrow> ServiceRef set \<Rightarrow> (ServiceRef \<times> nat) list \<Rightarrow> ServiceRef option \<Rightarrow> bool" where
  "frames_ok out B [] child = True"
| "frames_ok out B ((n, i) # fs) child \<longleftrightarrow> i \<le> length (succs out n) \<and>
     (case child of
        None \<Rightarrow> set (take i (succs out n)) \<subseteq> B
      | Some c \<Rightarrow> 0 < i \<and> succs out n ! (i - 1) = c \<and> set (take (i - 1) (succs out n)) \<subseteq> B) \<and>
     frames_ok out B fs (Some n)"

definition search_inv :: "(ServiceRef \<times> ServiceRef) set \<Rightarrow> ServiceRef set \<Rightarrow> outgoing \<Rightarrow> Search \<Rightarrow> bool" where
  "search_inv E V out s \<longleftrightarrow> btree_ok (se_state s) \<and> btree_ok (se_path_positions s) \<and>
     (\<forall>v. search_state s v \<in> {0, 1, 2}) \<and> (\<forall>v. search_state s v = 1 \<longleftrightarrow> v \<in> set (se_path s)) \<and>
     distinct (se_path s) \<and> map fst (se_frames s) = rev (se_path s) \<and>
     (\<forall>i < length (se_path s). btree_get (se_path_positions s) (se_path s ! i) = Some i) \<and>
     successively (\<lambda>a b. (a, b) \<in> E) (se_path s) \<and> set (se_path s) \<subseteq> V \<and>
     E `` black s \<subseteq> black s \<and> (\<forall>v \<in> black s. (v, v) \<notin> E\<^sup>+) \<and> frames_ok out (black s) (se_frames s) None"

definition search_size :: "ServiceRef set \<Rightarrow> outgoing \<Rightarrow> Search \<Rightarrow> nat \<times> nat" where
  "search_size V out s = (card {v \<in> V. search_state s v = 0},
     sum_list (map (\<lambda>(n, i). Suc (length (succs out n)) - i) (se_frames s)))"

lemma btree_get_remove: "btree_get (btree_remove k m) = (btree_get m)(k := None)"
  by (induction m) (auto simp: btree_get_def btree_remove_def fun_eq_iff)

lemma next_neighbour_eq: "next_neighbour out n i = (if i < length (succs out n) then Some (succs out n ! i) else None)"
  by (simp add: next_neighbour_def succs_def split: option.splits)

lemma search_state_enter:
  "btree_ok (se_state s) \<Longrightarrow> search_state (search_enter n k s) v = (if v = n then 1 else search_state s v)"
  by (simp add: search_state_def search_enter_def btree_get_insert)

lemma search_state_leave:
  "btree_ok (se_state s) \<Longrightarrow> search_state (search_leave n s) v = (if v = n then 2 else search_state s v)"
  by (simp add: search_state_def search_leave_def btree_get_insert)

lemma search_state_frames [simp]: "search_state (s\<lparr>se_frames := fs\<rparr>) v = search_state s v" "black (s\<lparr>se_frames := fs\<rparr>) = black s"
  by (simp_all add: search_state_def black_def)

lemma black_enter: "btree_ok (se_state s) \<Longrightarrow> search_state s n = 0 \<Longrightarrow> black (search_enter n k s) = black s"
  by (auto simp: black_def search_state_enter)

lemma black_leave: "btree_ok (se_state s) \<Longrightarrow> black (search_leave n s) = insert n (black s)"
  by (auto simp: black_def search_state_leave)

text \<open>Entering a fresh vertex, from the top of the stack or as a root.\<close>

lemma enter_inv:
  assumes inv: "search_inv E V out s" and fresh: "search_state s n = 0" "n \<in> V"
    and frames: "map fst fs = rev (se_path s)" "frames_ok out (black s) fs (Some n)" "se_path s = [] \<or> (last (se_path s), n) \<in> E"
  shows "search_inv E V out (search_enter n (length (se_path s)) (s\<lparr>se_frames := fs\<rparr>))"
proof -
  let ?s = "s\<lparr>se_frames := fs\<rparr>" and ?t = "search_enter n (length (se_path s)) (s\<lparr>se_frames := fs\<rparr>)"
  have ok: "btree_ok (se_state ?s)" "btree_ok (se_path_positions s)" using inv by (simp_all add: search_inv_def)
  have n: "n \<notin> set (se_path s)" using inv fresh(1) unfolding search_inv_def by (metis zero_neq_one)
  have b: "black ?t = black s" using black_enter [OF ok(1)] fresh(1) by simp
  have pos: "\<forall>i < length (se_path s @ [n]). btree_get (se_path_positions ?t) ((se_path s @ [n]) ! i) = Some i"
    using inv n ok(2) by (auto simp: search_enter_def search_inv_def btree_get_insert nth_append less_Suc_eq)
  have path: "se_path ?t = se_path s @ [n]" "se_frames ?t = (n, 0) # fs" "btree_ok (se_state ?t)" "btree_ok (se_path_positions ?t)"
    using ok btree_ok_insert by (simp_all add: search_enter_def)
  have st: "search_state ?t v = (if v = n then 1 else search_state s v)" for v using search_state_enter [OF ok(1)] by simp
  have "successively (\<lambda>a b. (a, b) \<in> E) (se_path s @ [n])"
    using inv frames(3) by (auto simp: search_inv_def successively_append_iff)
  moreover have "\<forall>v. search_state ?t v \<in> {0, 1, 2}" "\<forall>v. search_state ?t v = 1 \<longleftrightarrow> v \<in> set (se_path s @ [n])"
    using inv by (auto simp: st search_inv_def)
  ultimately show ?thesis
    using inv frames(1,2) fresh(2) n pos unfolding search_inv_def b path(1,2)
    by (simp add: path(3,4))
qed

lemma top_frame:
  assumes "search_inv E V out s" "se_frames s = (n, i) # fs"
  obtains path where "se_path s = path @ [n]" "map fst fs = rev path" "search_state s n = 1" "n \<notin> set path"
proof -
  have eq: "rev (se_path s) = n # map fst fs" and d: "distinct (se_path s)" and g: "\<And>v. search_state s v = 1 \<longleftrightarrow> v \<in> set (se_path s)"
    using assms by (auto simp: search_inv_def)
  have path: "se_path s = rev (map fst fs) @ [n]" using arg_cong [OF eq, of rev] by simp
  show thesis by (rule that [OF path]) (use d g in \<open>simp_all add: path\<close>)
qed

lemma leave_inv:
  assumes inv: "search_inv E V out s" and top: "se_frames s = (n, i) # fs" and all: "length (succs out n) \<le> i"
    and succs: "set (succs out n) = {c. (n, c) \<in> E}"
  shows "search_inv E V out (search_leave n s)"
proof -
  let ?t = "search_leave n s" and ?B = "insert n (black s)"
  have ok: "btree_ok (se_state s)" "btree_ok (se_path_positions s)" and closed: "E `` black s \<subseteq> black s"
    and acyclic: "\<forall>v \<in> black s. (v, v) \<notin> E\<^sup>+" and f: "frames_ok out (black s) ((n, i) # fs) None"
    using inv top by (simp_all add: search_inv_def)
  obtain path where path: "se_path s = path @ [n]" "map fst fs = rev path" and n: "n \<notin> set path" "n \<notin> black s"
    by (rule top_frame [OF inv top]) (simp add: black_def)
  have out: "E `` {n} \<subseteq> black s" using f all succs by auto
  have t: "se_path ?t = path" "se_frames ?t = fs" "btree_ok (se_state ?t)" "btree_ok (se_path_positions ?t)"
    using ok btree_ok_insert btree_ok_remove by (simp_all add: search_leave_def path(1) top)
  have b: "black ?t = ?B" by (rule black_leave [OF ok(1)])
  have "(n, n) \<notin> E\<^sup>+"
  proof
    assume "(n, n) \<in> E\<^sup>+"
    then obtain m where "(n, m) \<in> E" "(m, n) \<in> E\<^sup>*" by (meson tranclD)
    moreover have "y \<in> black s" if "(x, y) \<in> E\<^sup>*" "x \<in> black s" for x y
      using that by (induction rule: rtrancl_induct) (use closed in auto)
    ultimately show False using out n(2) by blast
  qed
  moreover have "frames_ok out ?B fs None"
  proof -
    have mono: "frames_ok out (black s) gs child \<Longrightarrow> frames_ok out ?B gs child" for gs child
      by (induction gs arbitrary: child) (auto split: option.splits)
    show ?thesis
    proof (cases fs)
      case (Cons g gs)
      obtain m k where g: "g = (m, k)" by (cases g)
      have k: "k \<le> length (succs out m)" "0 < k" "succs out m ! (k - 1) = n" "set (take (k - 1) (succs out m)) \<subseteq> black s"
        "frames_ok out (black s) gs (Some m)" using f Cons g by auto
      have "take k (succs out m) = take (k - 1) (succs out m) @ [n]"
        using take_Suc_conv_app_nth [of "k - 1" "succs out m"] k(1-3) by simp
      then show ?thesis using k Cons g mono [OF k(5)] by auto
    qed simp
  qed
  moreover have "\<forall>j < length path. btree_get (se_path_positions ?t) (path ! j) = Some j"
  proof (intro allI impI)
    fix j assume j: "j < length path"
    then have "btree_get (se_path_positions s) ((path @ [n]) ! j) = Some j" using inv path(1) by (simp add: search_inv_def)
    moreover have "path ! j \<noteq> n" using n(1) j by auto
    ultimately show "btree_get (se_path_positions ?t) (path ! j) = Some j"
      using j by (simp add: search_leave_def btree_get_remove nth_append)
  qed
  moreover have "\<forall>v. search_state ?t v \<in> {0, 1, 2}" "\<forall>v. search_state ?t v = 1 \<longleftrightarrow> v \<in> set path"
    using inv path(1) n(1) by (auto simp: search_state_leave [OF ok(1)] search_inv_def)
  ultimately show ?thesis
    using inv path closed acyclic out unfolding search_inv_def b t(1,2)
    by (auto simp: t(3,4) successively_append_iff)
qed

lemma advance_inv:
  assumes "search_inv E V out s" "se_frames s = (n, i) # fs" "i < length (succs out n)" "search_state s (succs out n ! i) = 2"
  shows "search_inv E V out (s\<lparr>se_frames := (n, i + 1) # fs\<rparr>)"
  using assms take_Suc_conv_app_nth [OF assms(3)] by (auto simp: search_inv_def black_def)

lemma found_walk:
  assumes "search_inv E V out s" "se_frames s = (n, i) # fs" "(n, c) \<in> E" "search_state s c = 1"
  obtains k where "btree_get (se_path_positions s) c = Some k" "closed_walk E (drop k (se_path s) @ [c])"
proof -
  have c: "c \<in> set (se_path s)" using assms(1,4) by (simp add: search_inv_def)
  have last: "last (se_path s) = n" "se_path s \<noteq> []" by (rule top_frame [OF assms(1,2)], simp)+
  from c obtain k where k: "k < length (se_path s)" "se_path s ! k = c" by (auto simp: in_set_conv_nth)
  have "btree_get (se_path_positions s) c = Some k" using assms(1) k by (auto simp: search_inv_def)
  moreover have "successively (\<lambda>a b. (a, b) \<in> E) (drop k (se_path s))"
    using assms(1) successively_append_iff [of _ "take k (se_path s)" "drop k (se_path s)"] by (simp add: search_inv_def)
  then have "closed_walk E (drop k (se_path s) @ [c])"
    using k last assms(1,3) by (auto simp: closed_walk_def successively_append_iff hd_append hd_drop_conv_nth search_inv_def)
  ultimately show thesis using that by blast
qed

section \<open>The search ends\<close>

lemma search_loop_ok:
  assumes "search_inv E V out s" "finite V" "snd ` E \<subseteq> V" "\<And>p. set (succs out p) = {c. (p, c) \<in> E}"
  shows "(\<exists>w. search_loop out s = Some (Inl w) \<and> closed_walk E w) \<or>
    (\<exists>t. search_loop out s = Some (Inr t) \<and> search_inv E V out t \<and> se_frames t = [] \<and>
       (\<forall>v. search_state s v \<noteq> 0 \<longrightarrow> search_state t v \<noteq> 0))"
  using assms(1)
proof (induction "search_size V out s" arbitrary: s rule: wf_induct_rule [OF wf_lex_prod [OF wf_less_than wf_less_than]])
  case (1 s)
  note IH = 1(1) and inv = 1(2)
  have ok: "btree_ok (se_state s)" using inv by (simp add: search_inv_def)
  have go: ?case if t: "search_inv E V out t" "(search_size V out t, search_size V out s) \<in> less_than <*lex*> less_than"
      "search_loop out s = search_loop out t" "\<forall>v. search_state s v \<noteq> 0 \<longrightarrow> search_state t v \<noteq> 0" for t
    using IH [OF t(2) t(1)] t(3,4) by metis
  show ?case
  proof (cases "se_frames s")
    case Nil
    then show ?thesis using inv by (simp add: search_loop.simps)
  next
    case (Cons f fs)
    obtain n i where f: "se_frames s = (n, i) # fs" using Cons by (cases f) simp
    have path: "last (se_path s) = n" "se_path s \<noteq> []" "search_state s n = 1" by (rule top_frame [OF inv f], simp)+
    show ?thesis
    proof (cases "i < length (succs out n)")
      case True
      let ?c = "succs out n ! i" and ?s = "s\<lparr>se_frames := (n, i + 1) # fs\<rparr>"
      have c: "(n, ?c) \<in> E" using True assms(4) nth_mem by blast
      then have V: "?c \<in> V" using assms(3) by force
      have unfold: "search_loop out s = (if search_state s ?c = 0 then search_loop out (search_enter ?c (length (se_path s)) ?s)
           else if search_state s ?c = 1 then
             (case btree_get (se_path_positions s) ?c of None \<Rightarrow> None | Some start \<Rightarrow> Some (Inl (drop start (se_path s) @ [?c])))
           else search_loop out ?s)"
        by (subst search_loop.simps) (simp add: f next_neighbour_eq True Let_def split: option.splits)
      have "search_state s ?c \<in> {0, 1, 2}" using inv unfolding search_inv_def by blast
      then consider (fresh) "search_state s ?c = 0" | (found) "search_state s ?c = 1" | (left) "search_state s ?c = 2" by blast
      then show ?thesis
      proof cases
        case fresh
        let ?t = "search_enter ?c (length (se_path s)) ?s"
        have "take (Suc i) (succs out n) = take i (succs out n) @ [?c]" using True by (simp add: take_Suc_conv_app_nth)
        then have "frames_ok out (black s) ((n, i + 1) # fs) (Some ?c)" using inv f True by (simp add: search_inv_def)
        then have t: "search_inv E V out ?t"
          using inv f c V path by (intro enter_inv [OF inv fresh]) (auto simp: search_inv_def)
        have st: "search_state ?t v = (if v = ?c then 1 else search_state s v)" for v using search_state_enter [of ?s] ok by simp
        have eq: "{v \<in> V. search_state ?t v = 0} = {v \<in> V. search_state s v = 0} - {?c}" unfolding st by auto
        have "card ({v \<in> V. search_state s v = 0} - {?c}) < card {v \<in> V. search_state s v = 0}"
          by (rule card_Diff1_less) (use assms(2) fresh V in auto)
        then have "fst (search_size V out ?t) < fst (search_size V out s)" unfolding search_size_def eq by simp
        then have less: "(search_size V out ?t, search_size V out s) \<in> less_than <*lex*> less_than"
          by (cases "search_size V out ?t"; cases "search_size V out s") simp
        then show ?thesis using go [OF t less] unfold fresh unfolding st by simp
      next
        case found
        obtain k where "btree_get (se_path_positions s) ?c = Some k" "closed_walk E (drop k (se_path s) @ [?c])"
          by (rule found_walk [OF inv f c found])
        then show ?thesis using unfold found by simp
      next
        case left
        have "search_inv E V out ?s" using advance_inv [OF inv f True left] .
        then show ?thesis using go [of ?s] unfold left True f by (simp add: search_size_def)
      qed
    next
      case False
      let ?t = "search_leave n s"
      have t: "search_inv E V out ?t" using leave_inv [OF inv f _ assms(4)] False by simp
      have st: "search_state ?t v = (if v = n then 2 else search_state s v)" for v by (rule search_state_leave [OF ok])
      have "{v \<in> V. search_state ?t v = 0} = {v \<in> V. search_state s v = 0}" using path(3) by (auto simp: st)
      moreover have "i \<le> length (succs out n)" using inv f by (simp add: search_inv_def)
      moreover have "se_frames ?t = fs" by (simp add: search_leave_def f)
      ultimately have "(search_size V out ?t, search_size V out s) \<in> less_than <*lex*> less_than" by (simp add: search_size_def f)
      moreover have "search_loop out s = search_loop out ?t"
        by (subst search_loop.simps) (simp add: f next_neighbour_eq False path(2))
      ultimately show ?thesis using go [OF t] by (simp add: st)
    qed
  qed
qed

lemma empty_search_inv: "search_inv E V out \<lparr>se_state = [], se_path = [], se_path_positions = [], se_frames = []\<rparr>"
  by (simp add: search_inv_def search_state_def black_def)

lemma search_roots_ok:
  assumes "search_inv E V out s" "se_frames s = []" "finite V" "snd ` E \<subseteq> V" "\<And>p. set (succs out p) = {c. (p, c) \<in> E}"
    "set roots \<subseteq> V" "\<forall>v \<in> V - set roots. search_state s v \<noteq> 0" "v \<in> V" "(v, v) \<in> E\<^sup>+"
  shows "\<exists>w. search_roots out roots s = Some w \<and> closed_walk E w"
  using assms(1,2,6,7)
proof (induction roots arbitrary: s)
  case Nil
  have "se_path s = []" using Nil by (simp add: search_inv_def)
  then have "search_state s v = 2" using Nil assms(8) by (auto simp: search_inv_def)
  then show ?case using Nil(1) assms(9) by (auto simp: search_inv_def black_def)
next
  case (Cons root roots)
  show ?case
  proof (cases "search_state s root = 0")
    case False
    then show ?thesis using Cons.IH [OF Cons.prems(1,2)] Cons.prems by auto
  next
    case True
    have path: "se_path s = []" using Cons.prems(1,2) by (simp add: search_inv_def)
    have "s\<lparr>se_frames := []\<rparr> = s" using Cons.prems(2) by (cases s) simp
    then have "search_inv E V out (search_enter root 0 s)"
      using enter_inv [OF Cons.prems(1) True, of "[]"] Cons.prems(3) path by simp
    from search_loop_ok [OF this assms(3-5)] show ?thesis
    proof (elim disjE exE conjE)
      fix w assume "search_loop out (search_enter root 0 s) = Some (Inl w)" "closed_walk E w"
      then show ?thesis using True by simp
    next
      fix t assume t: "search_loop out (search_enter root 0 s) = Some (Inr t)" "search_inv E V out t" "se_frames t = []"
        "\<forall>v. search_state (search_enter root 0 s) v \<noteq> 0 \<longrightarrow> search_state t v \<noteq> 0"
      have st: "search_state (search_enter root 0 s) v = (if v = root then 1 else search_state s v)" for v
        using search_state_enter Cons.prems(1) by (simp add: search_inv_def)
      then have "\<forall>v \<in> V - set roots. search_state t v \<noteq> 0" using t(4) Cons.prems(4) by auto
      then show ?thesis using Cons.IH [OF t(2,3)] Cons.prems(3) t(1) True by simp
    qed
  qed
qed

section \<open>An order or a cycle\<close>

lemma stuck_means_cycle:
  assumes "startup_inv E V [] ind S" "finite E" "E \<subseteq> V \<times> V" "set S \<noteq> V"
  shows "\<exists>v \<in> V. (v, v) \<in> E\<^sup>+"
proof (rule ccontr)
  assume none: "\<not> (\<exists>v \<in> V. (v, v) \<in> E\<^sup>+)"
  have "(v, v) \<notin> E\<^sup>+" for v
  proof
    assume v: "(v, v) \<in> E\<^sup>+"
    then obtain w where "(v, w) \<in> E" by (meson tranclD)
    then show False using none v assms(3) by blast
  qed
  then have wf: "wf E" using finite_acyclic_wf [OF assms(2)] by (simp add: acyclic_def)
  have S: "set S = {v \<in> V. pending E (set S) v = {}}" using assms(1) by (simp add: startup_inv_def)
  then obtain u where "u \<in> V - set S" using assms(4) by blast
  then obtain z where z: "z \<in> V - set S" "\<And>y. (y, z) \<in> E \<Longrightarrow> y \<notin> V - set S"
    using wfE_min [OF wf, of u "V - set S"] by blast
  then have "pending E (set S) z \<noteq> {}" using S by blast
  then show False using z(2) assms(3) by (auto simp: pending_def)
qed

definition endpoints :: "ServiceDependency list \<Rightarrow> ServiceRef set" where
  "endpoints ds = sd_provider ` set ds \<union> sd_consumer ` set ds"

lemma length_dependency_nodes: "length (dependency_nodes ds) = card (endpoints ds)"
  using dependency_nodes [of ds] by (metis distinct_card endpoints_def strict_sorted_iff)

lemma topo_before:
  assumes "topo E S" "(p, c) \<in> E" "c \<in> set S"
  shows "\<exists>xs ys zs. S = xs @ p # ys @ c # zs"
proof -
  obtain i where i: "i < length S" "S ! i = c" using assms(3) by (auto simp: in_set_conv_nth)
  then have "p \<in> set (take i S)" using assms(1,2) by (auto simp: topo_def)
  then obtain xs ys where "take i S = xs @ p # ys" by (meson split_list)
  then have "S = xs @ p # ys @ c # drop (Suc i) S" using id_take_nth_drop [OF i(1)] i(2) by simp
  then show ?thesis by blast
qed

lemma service_result:
  assumes small: "length ds \<le> 1024" "card (endpoints ds) \<le> 256" and d: "distinct ds"
  defines "E \<equiv> edge_of ` set ds"
  shows "(\<exists>S. validate_service_dependencies ds = Some (Inr \<lparr>so_startup = S, so_shutdown = rev S\<rparr>) \<and>
       distinct S \<and> set S = endpoints ds \<and> topo E S) \<or>
    (\<exists>w. validate_service_dependencies ds = Some (Inl (Cycle w)) \<and> closed_walk E w)"
proof -
  let ?nodes = "dependency_nodes ds" and ?edges = "dependency_edges ds" and ?V = "endpoints ds"
  have V: "set ?nodes = ?V" "finite ?V" and E: "set ?edges = E" "finite E"
    using dependency_nodes(2) dependency_edges(3) by (simp_all add: endpoints_def E_def)
  have EV: "E \<subseteq> ?V \<times> ?V" "snd ` E \<subseteq> ?V" by (auto simp: E_def edge_of_def endpoints_def)
  have within: "\<forall>(p, c) \<in> set ?edges. p \<in> set ?nodes \<and> c \<in> set ?nodes" using EV(1) V(1) E(1) by auto
  obtain out ind where g: "link_edges ?edges [] (fold (\<lambda>node. btree_insert node 0) ?nodes []) = Some (out, ind)" "btree_ok ind"
    "\<And>p. distinct (succs out p)" "\<And>p. set (succs out p) = {c. (p, c) \<in> E}"
    "\<And>v. btree_get ind v = (if v \<in> ?V then Some (card (pending E {} v)) else None)"
    by (rule graph_ok [OF dependency_edges(2) within]) (simp add: V(1) E(1))
  let ?ready = "map fst (filter (\<lambda>(node, degree). degree = 0) ind)"
  have dk: "distinct (map fst ind)" using btree_ok_distinct [OF g(2)] .
  then have dr: "distinct ?ready" by (rule distinct_map_filter)
  have fin: "finite (pending E {} v)" for v
    by (rule finite_subset [of _ "fst ` E"]) (use E(2) in \<open>force simp: pending_def\<close>)+
  have mem: "v \<in> set ?ready \<longleftrightarrow> btree_get ind v = Some 0" for v
    using dk by (force simp: btree_get_def map_of_eq_Some_iff)
  have "v \<in> set ?ready \<longleftrightarrow> v \<in> {v \<in> ?V. pending E {} v = {}}" for v unfolding mem g(5) using fin [of v] by simp
  then have "set ?ready = {v \<in> ?V. pending E {} v = {}}" by blast
  then have "startup_inv E ?V ?ready ind []" using g(2,5) dr by (simp add: startup_inv_def topo_def)
  then obtain S ind' where S: "startup_loop out ?ready ind [] = Some S" "startup_inv E ?V [] ind' S"
    using startup_loop_ok [OF _ E(2) V(2) _ g(3,4)] EV(1) by blast
  have sub: "set S \<subseteq> ?V" "distinct S" "topo E S" using S(2) by (auto simp: startup_inv_def)
  have run: "validate_service_dependencies ds =
      (if length S \<noteq> length ?nodes then map_option (\<lambda>w. Inl (Cycle w)) (stable_cycle_witness ?nodes out)
       else Some (Inr \<lparr>so_startup = S, so_shutdown = rev S\<rparr>))"
    using small d g(1) S(1)
    by (simp add: validate_service_dependencies_def MAX_SERVICE_DEPENDENCY_EDGES_def MAX_SERVICE_DEPENDENCY_VERTICES_def
        length_dependency_nodes length_dependency_edges distinct_card Let_def)
  show ?thesis
  proof (cases "set S = ?V")
    case True
    then have "length S = length ?nodes" using distinct_card [OF sub(2)] by (simp add: length_dependency_nodes)
    then show ?thesis using run True sub by simp
  next
    case False
    have "set S \<subset> ?V" using sub(1) False by blast
    then have "length S \<noteq> length ?nodes"
      using psubset_card_mono [OF V(2), of "set S"] distinct_card [OF sub(2)] by (simp add: length_dependency_nodes)
    moreover obtain v where v: "v \<in> ?V" "(v, v) \<in> E\<^sup>+" using stuck_means_cycle [OF S(2) E(2) EV(1) False] by blast
    have "\<exists>w. stable_cycle_witness ?nodes out = Some w \<and> closed_walk E w"
      unfolding stable_cycle_witness_def
      by (rule search_roots_ok [OF empty_search_inv _ V(2) EV(2) g(4) _ _ v]) (simp_all add: V(1))
    ultimately show ?thesis using run by auto
  qed
qed

lemma services_return: "validate_service_dependencies ds \<noteq> None"
proof (cases "length ds \<le> 1024 \<and> card (endpoints ds) \<le> 256 \<and> distinct ds")
  case True
  then show ?thesis using service_result [of ds] by auto
next
  case False
  then have "length ds \<le> 1024 \<longrightarrow> card (endpoints ds) \<le> 256 \<longrightarrow> card (set ds) \<noteq> length ds" by (auto dest: card_distinct)
  then show ?thesis
    by (simp add: validate_service_dependencies_def MAX_SERVICE_DEPENDENCY_EDGES_def MAX_SERVICE_DEPENDENCY_VERTICES_def
        length_dependency_nodes length_dependency_edges Let_def)
qed

text \<open>C3. Starting services: from any dependencies within the limits and without duplicates, validation
gives either an order of exactly the services named, each once, in which every provider comes before
its consumers and which shutdown reverses, or a closed walk of dependencies that shows why there is
none. The other errors are given exactly when a limit is exceeded or a dependency is repeated. The
code neither loops forever nor panics, and the answer does not depend on the order of the input.\<close>

theorem services_get_an_order_or_a_cycle:
  "(case validate_service_dependencies ds of
      Some (Inr order) \<Rightarrow> length ds \<le> 1024 \<and> card (endpoints ds) \<le> 256 \<and> distinct ds \<and>
        distinct (so_startup order) \<and> set (so_startup order) = endpoints ds \<and> so_shutdown order = rev (so_startup order) \<and>
        (\<forall>d \<in> set ds. \<exists>xs ys zs. so_startup order = xs @ sd_provider d # ys @ sd_consumer d # zs)
    | Some (Inl (Cycle w)) \<Rightarrow> length ds \<le> 1024 \<and> card (endpoints ds) \<le> 256 \<and> distinct ds \<and>
        2 \<le> length w \<and> hd w = last w \<and> distinct (butlast w) \<and>
        successively (\<lambda>p c. \<lparr>sd_provider = p, sd_consumer = c\<rparr> \<in> set ds) w
    | Some (Inl TooManyEdges) \<Rightarrow> 1024 < length ds
    | Some (Inl TooManyVertices) \<Rightarrow> length ds \<le> 1024 \<and> 256 < card (endpoints ds)
    | Some (Inl DuplicateDependency) \<Rightarrow> length ds \<le> 1024 \<and> card (endpoints ds) \<le> 256 \<and> \<not> distinct ds
    | None \<Rightarrow> False) \<and>
   (mset ds' = mset ds \<longrightarrow> validate_service_dependencies ds' = validate_service_dependencies ds)"
proof (intro conjI impI)
  show "validate_service_dependencies ds' = validate_service_dependencies ds" if eq: "mset ds' = mset ds"
  proof -
    have "set ds' = set ds" "length ds' = length ds" using eq mset_eq_setD mset_eq_length by blast+
    moreover have "dependency_nodes ds' = dependency_nodes ds"
      using \<open>set ds' = set ds\<close> dependency_nodes [of ds'] dependency_nodes [of ds] by (auto intro: strict_sorted_equal)
    moreover have "map edge_rank (dependency_edges ds') = map edge_rank (dependency_edges ds)"
      using \<open>set ds' = set ds\<close> dependency_edges [of ds'] dependency_edges [of ds] inj_on_subset [OF inj_edge_rank]
      by (intro sorted_distinct_set_unique) (auto simp: distinct_map)
    then have "dependency_edges ds' = dependency_edges ds" by (rule map_injective [OF _ inj_edge_rank])
    ultimately show ?thesis by (simp add: validate_service_dependencies_def Let_def)
  qed
next
  have edge: "(p, c) \<in> edge_of ` set ds \<longleftrightarrow> \<lparr>sd_provider = p, sd_consumer = c\<rparr> \<in> set ds" for p c
  proof -
    have "(p, c) = edge_of d \<longleftrightarrow> d = \<lparr>sd_provider = p, sd_consumer = c\<rparr>" for d by (cases d) (auto simp: edge_of_def)
    then show ?thesis by (simp add: image_iff)
  qed
  consider (edges) "1024 < length ds" | (nodes) "length ds \<le> 1024" "256 < card (endpoints ds)"
    | (dup) "length ds \<le> 1024" "card (endpoints ds) \<le> 256" "\<not> distinct ds"
    | (ok) "length ds \<le> 1024" "card (endpoints ds) \<le> 256" "distinct ds" by linarith
  then show "case validate_service_dependencies ds of
      Some (Inr order) \<Rightarrow> length ds \<le> 1024 \<and> card (endpoints ds) \<le> 256 \<and> distinct ds \<and>
        distinct (so_startup order) \<and> set (so_startup order) = endpoints ds \<and> so_shutdown order = rev (so_startup order) \<and>
        (\<forall>d \<in> set ds. \<exists>xs ys zs. so_startup order = xs @ sd_provider d # ys @ sd_consumer d # zs)
    | Some (Inl (Cycle w)) \<Rightarrow> length ds \<le> 1024 \<and> card (endpoints ds) \<le> 256 \<and> distinct ds \<and>
        2 \<le> length w \<and> hd w = last w \<and> distinct (butlast w) \<and>
        successively (\<lambda>p c. \<lparr>sd_provider = p, sd_consumer = c\<rparr> \<in> set ds) w
    | Some (Inl TooManyEdges) \<Rightarrow> 1024 < length ds
    | Some (Inl TooManyVertices) \<Rightarrow> length ds \<le> 1024 \<and> 256 < card (endpoints ds)
    | Some (Inl DuplicateDependency) \<Rightarrow> length ds \<le> 1024 \<and> card (endpoints ds) \<le> 256 \<and> \<not> distinct ds
    | None \<Rightarrow> False"
  proof cases
    case dup
    then have "card (set ds) \<noteq> length ds" by (auto dest: card_distinct)
    with dup show ?thesis
      by (simp add: validate_service_dependencies_def MAX_SERVICE_DEPENDENCY_EDGES_def MAX_SERVICE_DEPENDENCY_VERTICES_def
          length_dependency_nodes length_dependency_edges Let_def)
  next
    case ok
    from service_result [OF ok] show ?thesis
    proof (elim disjE exE conjE)
      fix S assume S: "validate_service_dependencies ds = Some (Inr \<lparr>so_startup = S, so_shutdown = rev S\<rparr>)"
        "distinct S" "set S = endpoints ds" "topo (edge_of ` set ds) S"
      have "\<exists>xs ys zs. S = xs @ sd_provider d # ys @ sd_consumer d # zs" if "d \<in> set ds" for d
        using that S(3) by (intro topo_before [OF S(4)]) (auto simp: edge_of_def endpoints_def)
      then show ?thesis using S ok by simp
    qed (use ok edge in \<open>simp add: closed_walk_def\<close>)
  qed (simp_all add: validate_service_dependencies_def MAX_SERVICE_DEPENDENCY_EDGES_def MAX_SERVICE_DEPENDENCY_VERTICES_def
      length_dependency_nodes Let_def)
qed

theorem services_get_an_order_or_a_cycle_witness:
  "validate_service_dependencies [\<lparr>sd_provider = 2, sd_consumer = 3\<rparr>, \<lparr>sd_provider = 1, sd_consumer = 2\<rparr>] =
     Some (Inr \<lparr>so_startup = [1, 2, 3], so_shutdown = [3, 2, 1]\<rparr>) \<and>
   validate_service_dependencies [\<lparr>sd_provider = 1, sd_consumer = 2\<rparr>, \<lparr>sd_provider = 2, sd_consumer = 3\<rparr>] =
     Some (Inr \<lparr>so_startup = [1, 2, 3], so_shutdown = [3, 2, 1]\<rparr>)"
proof -
  have "validate_service_dependencies [\<lparr>sd_provider = 2, sd_consumer = 3\<rparr>, \<lparr>sd_provider = 1, sd_consumer = 2\<rparr>] =
     Some (Inr \<lparr>so_startup = [1, 2, 3], so_shutdown = [3, 2, 1]\<rparr>)"
    by (simp add: validate_service_dependencies_def MAX_SERVICE_DEPENDENCY_EDGES_def MAX_SERVICE_DEPENDENCY_VERTICES_def
        dependency_nodes_def dependency_edges_def insort_insert_key_def edge_rank_def startup_loop.simps btree_get_def Let_def)
  then show ?thesis
    using services_get_an_order_or_a_cycle [of "[\<lparr>sd_provider = 2, sd_consumer = 3\<rparr>, \<lparr>sd_provider = 1, sd_consumer = 2\<rparr>]"
      "[\<lparr>sd_provider = 1, sd_consumer = 2\<rparr>, \<lparr>sd_provider = 2, sd_consumer = 3\<rparr>]"]
    by simp
qed

end
