(* ===== verification/Planner_Properties.thy ===== *)
theory Planner_Properties
  imports Planner_Facts Allocation_Properties Service_Search
begin

text \<open>
  The properties of planning: plans are made or refused, never anything else; their changes apply to the
  snapshot they were made for; and what was planned live can always be taken down again.
\<close>

section \<open>Plans\<close>

lemma bind_ok_Inr: "bind_ok m f = Some (Inr b) \<longleftrightarrow> (\<exists>a. m = Some (Inr a) \<and> f a = Some (Inr b))"
  by (cases "(m, f)" rule: bind_ok.cases) auto

lemma bind_ok_None: "bind_ok m f = None \<longleftrightarrow> m = None \<or> (\<exists>a. m = Some (Inr a) \<and> f a = None)"
  by (cases "(m, f)" rule: bind_ok.cases) auto

lemma build_content_loop: "build_content t OneSourceLoop (Some lock) manifest (Some x) (Some y) \<noteq> None"
  by (cases x; cases y) (auto simp: build_content_def bind_ok_None content_loop_fields_def Let_def split: prod.splits)

lemma build_content_empty: "build_content t EmptyTarget None manifest None None \<noteq> None"
  by (auto simp: build_content_def bind_ok_None content_loop_fields_def Let_def)

lemma eligible_expected: "validate_transition previous desired = Inr () \<Longrightarrow> expected_active_count previous \<noteq> None"
  by (cases previous) (auto simp: validate_transition_def)

lemma plan_loop_returns: "plan_loop sha256 input manifest lock lifecycle config \<noteq> None"
  by (auto simp: plan_loop_def bind_ok_None simp del: not_None_eq dest: build_content_loop [THEN notE] split: prod.splits)

lemma plan_empty_returns: "plan_empty sha256 input manifest \<noteq> None"
  by (auto simp: plan_empty_def bind_ok_None Let_def simp del: not_None_eq dest: build_content_empty [THEN notE])

lemma plan_returns: "plan sha256 input \<noteq> None"
proof
  assume "plan sha256 input = None"
  then have some: "\<exists>d. pi_desired input = d \<and> d \<noteq> DesiredOmitted \<and> (\<exists>manifest.
      (case d of DesiredLoop a b c \<Rightarrow> plan_loop sha256 input manifest a b c
       | DesiredEmpty \<Rightarrow> plan_empty sha256 input manifest | DesiredOmitted \<Rightarrow> None) = None)"
    using services_return [of "pi_service_dependencies input"] eligible_expected [of "pi_previous input" "pi_desired input"]
    by (auto simp: plan_def bind_ok_None validate_previous_allocation_def split: if_splits)
  then show False using plan_loop_returns plan_empty_returns by (cases "pi_desired input") auto
qed

lemma build_digest_fits:
  "build_digest sha256 domain [field_bytes b] = Inr d \<Longrightarrow> length b' \<le> length b \<Longrightarrow>
     \<exists>d'. build_digest sha256 domain [field_bytes b'] = Inr d'"
proof -
  assume d: "build_digest sha256 domain [field_bytes b] = Inr d" and le: "length b' \<le> length b"
  have "is_ok (build_digest sha256 domain (map field_bytes [b]))" using d by simp
  then have "digestible domain [b']" using le unfolding build_digest_limits by (auto simp: digestible_def)
  from build_digest_within [OF this] show ?thesis by auto
qed

section \<open>A sample\<close>

definition sample_row :: RuntimeArtifactCompatibilityTargetRowV1 where
  "sample_row = \<lparr>rw_target = 1,
     rw_build_identity = \<lparr>bi_build_instance_id = 1, bi_build_descriptor_digest = 2, bi_runtime_artifact_sha256 = 3,
       bi_compiled_reference_compatibility_digest = 4\<rparr>,
     rw_fixture = \<lparr>fx_definition = 2, fx_implementation = 3, fx_export = 4, fx_definition_digest = 5,
       fx_fixture_artifact_digest = 6\<rparr>\<rparr>"

definition sample_ingress :: InstalledManifestProjectionIngress where
  "sample_ingress = \<lparr>mi_manifest = \<lparr>mf_row = sample_row, mf_canonical_wire = [], mf_manifest_digest = 9\<rparr>,
     mi_projection = \<lparr>mp_manifest_digest = 9, mp_row = sample_row, mp_canonical_wire = []\<rparr>,
     mi_profile_fingerprint = 0, mi_canonical_empty_config_digest = 0\<rparr>"

definition sample_lock :: DeckLock where
  "sample_lock = \<lparr>dx_deck_key = 1, dx_topology = \<lparr>tp_card_keys = [7], tp_links = [], tp_requirements = []\<rparr>,
     dx_resolved_closure = \<lparr>rz_cards = [\<lparr>cu_key = 7, cu_definition = 2,
         cu_requested_version = \<lparr>vr_minimum = 1, vr_maximum_inclusive = 1\<rparr>, cu_definition_version = 1,
         cu_definition_digest = 5, cu_implementation = 3, cu_export = 4, cu_artifact_digest = 6, cu_role = ReferenceSubject,
         cu_refinement = None, cu_config = CanonicalEmpty, cu_ports = []\<rparr>],
       rz_delivery_profiles = [], rz_requirements = []\<rparr>,
     dx_canonical_wire = [], dx_digest = 0\<rparr>"

definition sample_input :: PlannerInput where
  "sample_input = \<lparr>pi_target = 1,
     pi_desired = DesiredLoop sample_lock \<lparr>vb_start = 1, vb_drain = 1, vb_cleanup = 1\<rparr> 0,
     pi_previous = UninitializedNoneExactZero, pi_manifest = Some sample_ingress, pi_allocation = no_allocations,
     pi_service_dependencies = []\<rparr>"

lemma no_services: "validate_service_dependencies [] = Some (Inr \<lparr>so_startup = [], so_shutdown = []\<rparr>)"
  by (simp add: validate_service_dependencies_def dependency_nodes_def dependency_edges_def startup_loop.simps Let_def)

lemma sample_allocation:
  "allocate_active (\<lambda>_. 0) 1 7 no_allocations = Inr (one_allocation Active,
     \<lparr>de_base_generation = 0, de_next_generation = 1, de_resulting_high_water = 1, de_records = [one_allocation Active]\<rparr>,
     [FreshStableAllocation])"
  by (simp add: allocate_active_def no_allocations_def one_allocation_def MAX_STABLE_ALLOCATION_RECORDS_def constant_id zero_id
      checked_add_def advance_live_generation_def advance_generation_def Let_def)

lemma short_content_digest: "length b < 2 ^ 64 \<Longrightarrow> build_digest sha256 PLAN_CONTENT_DIGEST_DOMAIN [field_bytes b] =
    Inr (sha256 (digest_stream PLAN_CONTENT_DIGEST_DOMAIN [b]))"
  using build_digest_within [of PLAN_CONTENT_DIGEST_DOMAIN "[b]"] by (simp add: digestible_def PLAN_CONTENT_DIGEST_DOMAIN_def)

lemma sample_plan:
  "\<exists>c. plan (\<lambda>_. 0) sample_input = Some (Inr (Candidate c)) \<and> pc_stable_allocation_subject (ca_content c) = Some (7, 0, 0)"
proof -
  have "check_loop_deck sample_ingress sample_lock = Inr (hd (rz_cards (dx_resolved_closure sample_lock)))"
    by (simp add: check_loop_deck_def sample_ingress_def sample_lock_def sample_row_def Let_def)
  moreover have "cu_key (hd (rz_cards (dx_resolved_closure sample_lock))) = 7" by (simp add: sample_lock_def)
  ultimately show ?thesis
    by (simp add: plan_def plan_loop_def sample_input_def no_services validate_transition_def validate_previous_allocation_def
        sample_allocation [unfolded no_allocations_def] candidate_def build_content_def lifecycle_budgets_try_new_def loop_domain_try_new_def valid_lifecycle_budget_def
        MAX_REFERENCE_LIFECYCLE_BUDGET_NANOS_def content_loop_fields_def budget_values_def content_digest_try_for_content_def
        one_allocation_def short_content_digest content_layout_def manifest_digest_try_new_def Let_def
        active_records_def no_allocations_def sample_ingress_def sample_row_def PLAN_CONTENT_MAGIC_def
        fixture_entry_bytes_def loop_fields_bytes_def)
qed

section \<open>The two kinds of candidate\<close>

definition loop_candidate ::
  "(bytes \<Rightarrow> Digest32) \<Rightarrow> PlannerInput \<Rightarrow> InstalledManifestProjectionIngress \<Rightarrow> DeploymentPlanCandidate \<Rightarrow> StableAllocationRecord \<Rightarrow> bool" where
  "loop_candidate sha256 input manifest c a \<longleftrightarrow> (\<exists>lock lifecycle config diagnostics.
     pi_desired input = DesiredLoop lock lifecycle config \<and>
     allocate_active sha256 (pi_target input) (al_key a) (pi_allocation input) = Inr (a, ca_allocation_delta c, diagnostics) \<and>
     build_content (pi_target input) OneSourceLoop (Some lock) manifest
       (Some (al_key a, al_instance a, al_domain a)) (Some (lifecycle, config)) = Some (Inr (ca_content c)))"

definition empty_candidate ::
  "PlannerInput \<Rightarrow> InstalledManifestProjectionIngress \<Rightarrow> DeploymentPlanCandidate \<Rightarrow> bool" where
  "empty_candidate input manifest c \<longleftrightarrow> pi_desired input = DesiredEmpty \<and>
     (\<exists>g. advance_generation (an_generation (pi_allocation input)) (map retire (active_records (pi_allocation input)) \<noteq> []) = Inr g \<and>
       ca_allocation_delta c = \<lparr>de_base_generation = an_generation (pi_allocation input), de_next_generation = g,
         de_resulting_high_water = an_high_water (pi_allocation input), de_records = map retire (active_records (pi_allocation input))\<rparr>) \<and>
     build_content (pi_target input) EmptyTarget None manifest None None = Some (Inr (ca_content c))"

lemma allocated_key:
  assumes "allocate_active sha256 t key s = Inr (a, d, diagnostics)"
  shows "al_key a = key"
  using assms by (cases rule: allocate_active_cases) (auto dest: find_key)

lemma plan_loop_candidate:
  assumes "plan_loop sha256 input manifest lock lifecycle config = Some (Inr (Candidate c))" "pi_desired input = DesiredLoop lock lifecycle config"
  shows "\<exists>a. loop_candidate sha256 input manifest c a \<and> content_digest_try_for_content sha256 (ca_content c) = Inr (ca_content_digest c)"
proof -
  obtain u :: ResolvedCardUse and a :: StableAllocationRecord and diagnostics where p: "allocate_active sha256 (pi_target input) (cu_key u) (pi_allocation input) = Inr (a, ca_allocation_delta c, diagnostics)"
    "build_content (pi_target input) OneSourceLoop (Some lock) manifest (Some (cu_key u, al_instance a, al_domain a)) (Some (lifecycle, config)) = Some (Inr (ca_content c))"
    "content_digest_try_for_content sha256 (ca_content c) = Inr (ca_content_digest c)"
    using assms(1) by (auto simp: plan_loop_def candidate_def bind_ok_Inr res_simps split: if_splits prod.splits)
  then show ?thesis unfolding loop_candidate_def assms(2) allocated_key [OF p(1), symmetric] by blast
qed

lemma plan_empty_candidate:
  assumes "plan_empty sha256 input manifest = Some (Inr (Candidate c))" "pi_desired input = DesiredEmpty"
  shows "empty_candidate input manifest c \<and> content_digest_try_for_content sha256 (ca_content c) = Inr (ca_content_digest c)"
  using assms by (auto simp: plan_empty_def empty_candidate_def candidate_def bind_ok_Inr res_simps Let_def)

lemma plan_candidate:
  assumes "plan sha256 input = Some (Inr (Candidate c))"
  obtains manifest where "pi_manifest input = Some manifest" "rw_target (ingress_row manifest) = pi_target input"
    "an_target (pi_allocation input) = pi_target input" "\<exists>order. validate_service_dependencies (pi_service_dependencies input) = Some (Inr order) \<and> so_startup order = []"
    "(\<exists>a. loop_candidate sha256 input manifest c a) \<or> empty_candidate input manifest c"
    "content_digest_try_for_content sha256 (ca_content c) = Inr (ca_content_digest c)"
  using assms
  by (auto simp: plan_def bind_ok_Inr res_simps split: if_splits PlannerDesired.splits option.splits dest!: plan_loop_candidate plan_empty_candidate)

lemma built_subject:
  "build_content t shape lock manifest subject facts = Some (Inr content) \<Longrightarrow> pc_stable_allocation_subject content = subject"
  by (auto simp: build_content_def bind_ok_Inr res_simps bind_eq_Some_conv Let_def)

definition subject_of :: "StableAllocationRecord \<Rightarrow> AllocationSubject" where
  "subject_of r = (al_key r, al_instance r, al_domain r)"

text \<open>
  C20. What the planner decides can be carried out. When it makes a candidate for a target, the candidate's change
  of the stable allocations applies to the snapshot it was planned on, recovery accepts the result as a
  successor, and exactly the planned card is active in it: the subject of a source loop, or nothing for an empty target. The
  one exception is a card whose new identity is that of an existing record by a collision of the hash.
\<close>

theorem planned_changes_apply:
  assumes "snapshot_try_new sha256 t g h rs = Inr (pi_allocation input)"
    and "plan sha256 input = Some (Inr (Candidate c))"
  shows "(\<exists>s'. apply_delta sha256 (pi_allocation input) (ca_allocation_delta c) = Inr s' \<and>
        validate_successor_of sha256 s' (pi_allocation input) = Inr () \<and>
        map subject_of (active_records s') = (case pc_stable_allocation_subject (ca_content c) of None \<Rightarrow> [] | Some x \<Rightarrow> [x])) \<or>
     (\<exists>key i d. pc_stable_allocation_subject (ca_content c) = Some (key, i, d) \<and> colliding_identity sha256 (pi_allocation input) key)"
proof -
  let ?s = "pi_allocation input"
  have ok: "allocation_ok sha256 ?s" using assms(1) unfolding snapshot_try_new_iff by (rule conjunct2)
  have accepted: "validate_successor_of sha256 s' ?s = Inr ()" if "apply_delta sha256 ?s (ca_allocation_delta c) = Inr s'" for s'
    using applied_is_successor [OF ok that] successor_validated [OF ok] by (simp add: successor_def)
  from assms(2) obtain manifest where m: "an_target ?s = pi_target input"
    "(\<exists>a. loop_candidate sha256 input manifest c a) \<or> empty_candidate input manifest c" by (rule plan_candidate)
  from m(2) show ?thesis
  proof (elim disjE exE)
    fix a assume l: "loop_candidate sha256 input manifest c a"
    obtain diagnostics where al: "allocate_active sha256 (an_target ?s) (al_key a) ?s = Inr (a, ca_allocation_delta c, diagnostics)"
      using l unfolding loop_candidate_def m(1) by blast
    have sub: "pc_stable_allocation_subject (ca_content c) = Some (subject_of a)"
      using l unfolding loop_candidate_def subject_of_def by (blast dest: built_subject)
    show ?thesis
    proof (cases "colliding_identity sha256 ?s (al_key a)")
      case True
      then show ?thesis using sub unfolding subject_of_def by blast
    next
      case False
      then obtain s' where "apply_delta sha256 ?s (ca_allocation_delta c) = Inr s'" "active_records s' = [a]"
        using allocate_active_applies [OF ok al] by blast
      then show ?thesis using accepted sub by auto
    qed
  next
    assume e: "empty_candidate input manifest c"
    then obtain g where g: "advance_generation (an_generation ?s) (map retire (active_records ?s) \<noteq> []) = Inr g"
      "ca_allocation_delta c = \<lparr>de_base_generation = an_generation ?s, de_next_generation = g,
         de_resulting_high_water = an_high_water ?s, de_records = map retire (active_records ?s)\<rparr>"
      unfolding empty_candidate_def by blast
    have sub: "pc_stable_allocation_subject (ca_content c) = None"
      using e unfolding empty_candidate_def by (blast dest: built_subject)
    obtain s' where "apply_delta sha256 ?s (ca_allocation_delta c) = Inr s'" "active_records s' = []"
      using empty_change_applies [OF ok g(1)] unfolding g(2) by blast
    then show ?thesis using accepted sub by auto
  qed
qed

theorem planned_changes_apply_witness:
  "\<exists>c s'. plan (\<lambda>_. 0) sample_input = Some (Inr (Candidate c)) \<and>
     apply_delta (\<lambda>_. 0) no_allocations (ca_allocation_delta c) = Inr s' \<and> map subject_of (active_records s') = [(7, 0, 0)]"
proof -
  have s: "snapshot_try_new (\<lambda>_. 0) 1 0 0 [] = Inr (pi_allocation sample_input)"
    using sample_snapshots(1) by (simp add: sample_input_def)
  obtain c where c: "plan (\<lambda>_. 0) sample_input = Some (Inr (Candidate c))" "pc_stable_allocation_subject (ca_content c) = Some (7, 0, 0)"
    using sample_plan by blast
  from planned_changes_apply [OF s c(1)] c show ?thesis
    by (auto simp: colliding_identity_def sample_input_def no_allocations_def)
qed

section \<open>Taking a live target down\<close>

lemma loop_content_covers_empty:
  assumes "build_content t OneSourceLoop (Some lock) manifest (Some x) (Some y) = Some (Inr content)"
  obtains content' where "build_content t EmptyTarget None manifest None None = Some (Inr content')"
    "length (pc_canonical_bytes content') \<le> length (pc_canonical_bytes content)"
  using assms
  by (cases x; cases y)
    (auto simp: build_content_def bind_ok_Inr res_simps content_loop_fields_def content_layout_def Let_def split: if_splits)

lemma empty_plan_made:
  assumes "content_digest_try_for_content sha256 content = Inr d" "length (pc_canonical_bytes content') \<le> length (pc_canonical_bytes content)"
    and "build_content (pi_target input) EmptyTarget None manifest None None = Some (Inr content')"
    and "advance_generation (an_generation (pi_allocation input)) (map retire (active_records (pi_allocation input)) \<noteq> []) = Inr g"
  shows "\<exists>c. plan_empty sha256 input manifest = Some (Inr (Candidate c)) \<and> ca_allocation_delta c =
     \<lparr>de_base_generation = an_generation (pi_allocation input), de_next_generation = g,
      de_resulting_high_water = an_high_water (pi_allocation input), de_records = map retire (active_records (pi_allocation input))\<rparr>"
proof -
  obtain d' where "content_digest_try_for_content sha256 content' = Inr d'"
    using assms(1) build_digest_fits [OF _ assms(2)] unfolding content_digest_try_for_content_def by (fastforce simp: res_simps)
  then show ?thesis using assms(3,4) by (auto simp: plan_empty_def candidate_def Let_def)
qed

text \<open>
  C25. A live target can always be taken down. When a source loop was planned for a target and its change was
  applied, planning the empty target next, whether the loop went live or its recovery failed, gives a
  candidate, and the candidate's change applies and leaves nothing active: the planner refuses to bring up a
  loop whose removal would exhaust the generation counter. The exception is the collision of identities.
\<close>

theorem planned_loop_can_be_retired:
  assumes "snapshot_try_new sha256 t g h rs = Inr (pi_allocation input)"
    and "pi_desired input = DesiredLoop lock lifecycle config" and "plan sha256 input = Some (Inr (Candidate c))"
    and "\<not> (\<exists>key i d. pc_stable_allocation_subject (ca_content c) = Some (key, i, d) \<and> colliding_identity sha256 (pi_allocation input) key)"
    and "previous = OneSourceLoopLiveReady \<or> previous = OneSourceLoopRecoveryFailedExactZero"
  shows "\<exists>s' c' s''. apply_delta sha256 (pi_allocation input) (ca_allocation_delta c) = Inr s' \<and>
     plan sha256 (input\<lparr>pi_desired := DesiredEmpty, pi_previous := previous, pi_allocation := s'\<rparr>) = Some (Inr (Candidate c')) \<and>
     apply_delta sha256 s' (ca_allocation_delta c') = Inr s'' \<and> active_records s'' = []"
proof -
  let ?s = "pi_allocation input"
  have ok: "allocation_ok sha256 ?s" using assms(1) unfolding snapshot_try_new_iff by (rule conjunct2)
  from assms(3) obtain manifest where m: "pi_manifest input = Some manifest" "rw_target (ingress_row manifest) = pi_target input"
    "an_target ?s = pi_target input" "\<exists>order. validate_service_dependencies (pi_service_dependencies input) = Some (Inr order) \<and> so_startup order = []"
    "(\<exists>a. loop_candidate sha256 input manifest c a) \<or> empty_candidate input manifest c"
    "content_digest_try_for_content sha256 (ca_content c) = Inr (ca_content_digest c)" by (rule plan_candidate)
  then obtain a where "loop_candidate sha256 input manifest c a" using assms(2) unfolding empty_candidate_def by auto
  then obtain diagnostics where al: "allocate_active sha256 (an_target ?s) (al_key a) ?s = Inr (a, ca_allocation_delta c, diagnostics)"
    and built: "build_content (pi_target input) OneSourceLoop (Some lock) manifest
       (Some (al_key a, al_instance a, al_domain a)) (Some (lifecycle, config)) = Some (Inr (ca_content c))"
    unfolding loop_candidate_def m(3) assms(2) by blast
  have "\<not> colliding_identity sha256 ?s (al_key a)" using assms(4) built_subject [OF built] by blast
  then obtain s' where s': "apply_delta sha256 ?s (ca_allocation_delta c) = Inr s'" "active_records s' = [a]" "an_generation s' \<noteq> - 1"
    using allocate_active_applies [OF ok al] by blast
  have sc: "successor sha256 ?s s'" by (rule applied_is_successor [OF ok s'(1)])
  have ok': "allocation_ok sha256 s'" and target: "an_target s' = pi_target input" using sc m(3) by (simp_all add: successor_def)
  define input' where "input' = input\<lparr>pi_desired := DesiredEmpty, pi_previous := previous, pi_allocation := s'\<rparr>"
  have input': "pi_allocation input' = s'" "pi_target input' = pi_target input" "pi_desired input' = DesiredEmpty" "pi_previous input' = previous"
    "pi_manifest input' = Some manifest" "pi_service_dependencies input' = pi_service_dependencies input"
    using m(1) by (simp_all add: input'_def)
  obtain g' where g': "advance_generation (an_generation s') (map retire (active_records s') \<noteq> []) = Inr g'"
    using s'(2,3) by (auto simp: advance_generation_def checked_succ)
  obtain content' where content': "build_content (pi_target input) EmptyTarget None manifest None None = Some (Inr content')"
    "length (pc_canonical_bytes content') \<le> length (pc_canonical_bytes (ca_content c))"
    by (rule loop_content_covers_empty [OF built])
  obtain c' where c': "plan_empty sha256 input' manifest = Some (Inr (Candidate c'))" "ca_allocation_delta c' =
     \<lparr>de_base_generation = an_generation s', de_next_generation = g', de_resulting_high_water = an_high_water s',
      de_records = map retire (active_records s')\<rparr>"
    using empty_plan_made [OF m(6) content'(2), of input' manifest g'] content'(1) g' unfolding input' by blast
  have "plan sha256 input' = Some (Inr (Candidate c'))"
    using m(2,4) target c'(1) assms(5) s'(2)
    by (auto simp: plan_def input' validate_transition_def validate_previous_allocation_def)
  moreover obtain s'' where "apply_delta sha256 s' (ca_allocation_delta c') = Inr s''" "active_records s'' = []"
    using empty_change_applies [OF ok' g'] unfolding c'(2) by blast
  ultimately show ?thesis using s'(1) unfolding input'_def by blast
qed

theorem planned_loop_can_be_retired_witness:
  "\<exists>c s' c' s''. plan (\<lambda>_. 0) sample_input = Some (Inr (Candidate c)) \<and>
     apply_delta (\<lambda>_. 0) no_allocations (ca_allocation_delta c) = Inr s' \<and>
     plan (\<lambda>_. 0) (sample_input\<lparr>pi_desired := DesiredEmpty, pi_previous := OneSourceLoopLiveReady, pi_allocation := s'\<rparr>) =
       Some (Inr (Candidate c')) \<and>
     apply_delta (\<lambda>_. 0) s' (ca_allocation_delta c') = Inr s'' \<and> active_records s'' = []"
proof -
  have s: "snapshot_try_new (\<lambda>_. 0) 1 0 0 [] = Inr (pi_allocation sample_input)"
    using sample_snapshots(1) by (simp add: sample_input_def)
  obtain c where c: "plan (\<lambda>_. 0) sample_input = Some (Inr (Candidate c))" using sample_plan by blast
  have d: "pi_desired sample_input = DesiredLoop sample_lock \<lparr>vb_start = 1, vb_drain = 1, vb_cleanup = 1\<rparr> 0"
    by (simp add: sample_input_def)
  have n: "\<not> (\<exists>key i d. pc_stable_allocation_subject (ca_content c) = Some (key, i, d) \<and>
      colliding_identity (\<lambda>_. 0) (pi_allocation sample_input) key)"
    by (simp add: colliding_identity_def sample_input_def no_allocations_def)
  have a: "pi_allocation sample_input = no_allocations" by (simp add: sample_input_def)
  from planned_loop_can_be_retired [OF s d c n, of OneSourceLoopLiveReady] c show ?thesis unfolding a by blast
qed

end
