(* ===== verification/Tenure_Protocol.thy ===== *)
theory Tenure_Protocol
  imports Tlv_Value Contracts_Apply
begin

text \<open>
  The local protocol by which a controller acquires writer tenure,
  \<open>crates/paraegox-deployment/src/tenure_protocol.rs\<close>: intents, authenticated requests,
  responses that carry a writer-tenure proof, their canonical bytes and strict decoders, and
  the transport frame. SHA-256 is the parameter \<open>sha256\<close>; signatures are opaque bytes here.
\<close>

section \<open>Constants\<close>

definition ACQUIRE_REQUEST_MAGIC :: bytes where "ACQUIRE_REQUEST_MAGIC = ascii ''PXATREQ'' @ [0]"
definition ACQUIRE_RESPONSE_MAGIC :: bytes where "ACQUIRE_RESPONSE_MAGIC = ascii ''PXATRSP'' @ [0]"
definition ACQUIRE_FRAME_MAGIC :: bytes where "ACQUIRE_FRAME_MAGIC = ascii ''PXATFRM'' @ [0]"

definition REQUEST_AUTH_TRANSCRIPT_MAGIC :: bytes where
  "REQUEST_AUTH_TRANSCRIPT_MAGIC = ascii ''ParaEGOX'' @ [0] @ ascii ''acquire-tenure-request-auth''"

definition REQUEST_AUTH_TRANSCRIPT_DOMAIN :: bytes where
  "REQUEST_AUTH_TRANSCRIPT_DOMAIN = ascii ''paraegox.deployment.acquire-tenure.request-auth.ed25519.v1''"

definition INTENT_DIGEST_DOMAIN :: bytes where
  "INTENT_DIGEST_DOMAIN = ascii ''paraegox.deployment.acquire-tenure.intent.sha256.v1''"

definition REQUEST_DIGEST_DOMAIN :: bytes where
  "REQUEST_DIGEST_DOMAIN = ascii ''paraegox.deployment.acquire-tenure.request.sha256.v1''"

definition RESPONSE_DIGEST_DOMAIN :: bytes where
  "RESPONSE_DIGEST_DOMAIN = ascii ''paraegox.deployment.acquire-tenure.response.sha256.v1''"

definition CONTROLLER_KEY_FINGERPRINT_DOMAIN :: bytes where
  "CONTROLLER_KEY_FINGERPRINT_DOMAIN = ascii ''paraegox.deployment.acquire-tenure.controller-key.sha256.v1''"

definition ACQUIRE_TENURE_PROTOCOL_VERSION :: u16 where "ACQUIRE_TENURE_PROTOCOL_VERSION = 1"
definition ACQUIRE_TENURE_FRAME_VERSION :: u16 where "ACQUIRE_TENURE_FRAME_VERSION = 1"

definition ACQUIRE_TENURE_REQUEST_AUTH_TRANSCRIPT_VERSION :: u16 where
  "ACQUIRE_TENURE_REQUEST_AUTH_TRANSCRIPT_VERSION = 1"

definition ACQUIRE_TENURE_ED25519_ALGORITHM :: u16 where "ACQUIRE_TENURE_ED25519_ALGORITHM = 1"

definition ACQUIRE_TENURE_ED25519_ALGORITHM_VERSION :: u16 where
  "ACQUIRE_TENURE_ED25519_ALGORITHM_VERSION = 1"

definition ACQUIRE_TENURE_ED25519_SIGNATURE_BYTES :: nat where
  "ACQUIRE_TENURE_ED25519_SIGNATURE_BYTES = 64"

definition MAX_ACQUIRE_TENURE_CLIENT_NONCE_BYTES :: nat where
  "MAX_ACQUIRE_TENURE_CLIENT_NONCE_BYTES = 64"

definition REQUEST_FIELD_COUNT :: u16 where "REQUEST_FIELD_COUNT = 12"
definition REQUEST_UNSIGNED_FIELD_COUNT :: u16 where "REQUEST_UNSIGNED_FIELD_COUNT = REQUEST_FIELD_COUNT - 1"
definition RESPONSE_FIELD_COUNT :: u16 where "RESPONSE_FIELD_COUNT = 15"
definition RESPONSE_UNSIGNED_FIELD_COUNT :: u16 where "RESPONSE_UNSIGNED_FIELD_COUNT = RESPONSE_FIELD_COUNT - 1"

definition REQUEST_FIXED_VALUE_BYTES :: nat where
  "REQUEST_FIXED_VALUE_BYTES = 5 * 16 + 32 + 2 + 2 + 4 + 32 + ACQUIRE_TENURE_ED25519_SIGNATURE_BYTES"

definition MAX_ACQUIRE_TENURE_REQUEST_PAYLOAD_BYTES :: nat where
  "MAX_ACQUIRE_TENURE_REQUEST_PAYLOAD_BYTES =
     VALUE_HEADER_BYTES + unat REQUEST_FIELD_COUNT * TLV_HEADER_BYTES + REQUEST_FIXED_VALUE_BYTES
     + MAX_ACQUIRE_TENURE_CLIENT_NONCE_BYTES"

definition RESPONSE_FIXED_VALUE_BYTES :: nat where
  "RESPONSE_FIXED_VALUE_BYTES = 5 * 16 + 2 * 32 + 2 * 2 + 2 * 8 + 32"

definition MIN_ACQUIRE_TENURE_RESPONSE_PAYLOAD_BYTES :: nat where
  "MIN_ACQUIRE_TENURE_RESPONSE_PAYLOAD_BYTES =
     VALUE_HEADER_BYTES + unat RESPONSE_FIELD_COUNT * TLV_HEADER_BYTES + RESPONSE_FIXED_VALUE_BYTES
     + 1 + 1 + 1"

definition MAX_ACQUIRE_TENURE_RESPONSE_PAYLOAD_BYTES :: nat where
  "MAX_ACQUIRE_TENURE_RESPONSE_PAYLOAD_BYTES =
     VALUE_HEADER_BYTES + unat RESPONSE_FIELD_COUNT * TLV_HEADER_BYTES + RESPONSE_FIXED_VALUE_BYTES
     + MAX_ACQUIRE_TENURE_CLIENT_NONCE_BYTES + MAX_TENURE_NONCE_BYTES + MAX_TENURE_SIGNATURE_BYTES"

definition ACQUIRE_TENURE_FRAME_HEADER_BYTES :: nat where "ACQUIRE_TENURE_FRAME_HEADER_BYTES = 16"

definition MAX_ACQUIRE_TENURE_FRAME_BYTES :: nat where
  "MAX_ACQUIRE_TENURE_FRAME_BYTES =
     ACQUIRE_TENURE_FRAME_HEADER_BYTES + MAX_ACQUIRE_TENURE_RESPONSE_PAYLOAD_BYTES"

section \<open>Data\<close>

type_synonym PrincipalRef = bytes16
type_synonym DeploymentScopeId = bytes16
type_synonym DeploymentWriterRef = bytes16
type_synonym AcquireTenureOperationId = bytes16
type_synonym ControllerAcquireKeyRef = bytes16
type_synonym ControllerPublicKeyFingerprint = Digest32
type_synonym AcquireTenureIntentDigest = Digest32
type_synonym AcquireTenureRequestDigest = Digest32
type_synonym AcquireTenureResponseDigest = Digest32

record AcquireTenureIntentV1 =
  ti_scope :: DeploymentScopeId
  ti_writer :: DeploymentWriterRef
  ti_operation_id :: AcquireTenureOperationId

record AcquireTenureRequestDraftV1 =
  td_intent :: AcquireTenureIntentV1
  td_controller_principal :: PrincipalRef
  td_controller_key :: ControllerAcquireKeyRef
  td_controller_public_key_fingerprint :: ControllerPublicKeyFingerprint
  td_client_nonce :: bytes
  td_max_response_payload_bytes :: u32
  td_intent_digest :: AcquireTenureIntentDigest

record AcquireTenureRequestV1 =
  rq_draft :: AcquireTenureRequestDraftV1
  rq_auth_signature :: bytes
  rq_canonical_bytes :: bytes
  rq_request_digest :: AcquireTenureRequestDigest

record AcquireTenureResponseV1 =
  rs_operation_id :: AcquireTenureOperationId
  rs_request_digest :: AcquireTenureRequestDigest
  rs_client_nonce :: bytes
  rs_proof :: WriterTenureProof
  rs_proof_digest :: Digest32
  rs_response_digest :: AcquireTenureResponseDigest
  rs_canonical_bytes :: bytes

datatype AcquireTenureFrameKind = FrameRequest | FrameResponse

record AcquireTenureFrameHeaderV1 =
  fh_kind :: AcquireTenureFrameKind
  fh_payload_bytes :: u32

abbreviation rq_intent :: "AcquireTenureRequestV1 \<Rightarrow> AcquireTenureIntentV1" where
  "rq_intent request \<equiv> td_intent (rq_draft request)"

section \<open>Field checks\<close>

definition validate_nonzero :: "bytes \<Rightarrow> u16 \<Rightarrow> AcquireTenureProtocolError + unit" where
  "validate_nonzero bs tag =
     (if list_all (\<lambda>b. b = 0) bs then Inl (protocol_error_at InvalidFieldValue tag) else Inr ())"

definition validate_client_nonce :: "bytes \<Rightarrow> u16 \<Rightarrow> AcquireTenureProtocolError + unit" where
  "validate_client_nonce nonce tag =
     (if \<not> (1 \<le> length nonce \<and> length nonce \<le> MAX_ACQUIRE_TENURE_CLIENT_NONCE_BYTES)
      then Inl (protocol_error_at InvalidFieldLength tag) else Inr ())"

definition validate_response_bound :: "u32 \<Rightarrow> u16 \<Rightarrow> AcquireTenureProtocolError + unit" where
  "validate_response_bound bound tag =
     (if \<not> (MIN_ACQUIRE_TENURE_RESPONSE_PAYLOAD_BYTES \<le> unat bound
             \<and> unat bound \<le> MAX_ACQUIRE_TENURE_RESPONSE_PAYLOAD_BYTES)
      then Inl (protocol_error_at InvalidFieldValue tag) else Inr ())"

definition validate_ed25519_signature :: "bytes \<Rightarrow> u16 \<Rightarrow> AcquireTenureProtocolError + unit" where
  "validate_ed25519_signature signature tag =
     (if length signature \<noteq> ACQUIRE_TENURE_ED25519_SIGNATURE_BYTES
      then Inl (protocol_error_at InvalidFieldLength tag) else Inr ())"

definition read_array :: "nat \<Rightarrow> bytes \<Rightarrow> u16 \<Rightarrow> AcquireTenureProtocolError + 'w::len word" where
  "read_array n bs tag =
     (if length bs = n then Inr (from_be bs) else Inl (protocol_error_at InvalidFieldLength tag))"

definition valid_request_field_length :: "u16 \<Rightarrow> nat \<Rightarrow> bool" where
  "valid_request_field_length tag len =
     (if 1 \<le> tag \<and> tag \<le> 5 then len = 16
      else if tag = 6 \<or> tag = 11 then len = 32
      else if tag = 7 \<or> tag = 8 then len = 2
      else if tag = 9 then 1 \<le> len \<and> len \<le> MAX_ACQUIRE_TENURE_CLIENT_NONCE_BYTES
      else if tag = 10 then len = 4
      else if tag = 12 then len = ACQUIRE_TENURE_ED25519_SIGNATURE_BYTES
      else False)"

definition valid_response_field_length :: "u16 \<Rightarrow> nat \<Rightarrow> bool" where
  "valid_response_field_length tag len =
     (if tag \<in> {1, 4, 5, 8, 9} then len = 16
      else if tag \<in> {2, 14, 15} then len = 32
      else if tag = 3 then 1 \<le> len \<and> len \<le> MAX_ACQUIRE_TENURE_CLIENT_NONCE_BYTES
      else if tag = 6 \<or> tag = 7 then len = 2
      else if tag = 10 \<or> tag = 11 then len = 8
      else if tag = 12 then 1 \<le> len \<and> len \<le> MAX_TENURE_NONCE_BYTES
      else if tag = 13 then 1 \<le> len \<and> len \<le> MAX_TENURE_SIGNATURE_BYTES
      else False)"

definition map_digest_error :: "DigestBuildError \<Rightarrow> AcquireTenureProtocolError" where
  "map_digest_error e = protocol_error_new DigestFailure"

section \<open>Intents and requests\<close>

definition for_ed25519_key ::
  "(bytes \<Rightarrow> Digest32) \<Rightarrow> bytes32 \<Rightarrow> AcquireTenureProtocolError + ControllerPublicKeyFingerprint" where
  "for_ed25519_key sha256 public_key =
     and_then (map_err map_digest_error (build_digest sha256 CONTROLLER_KEY_FINGERPRINT_DOMAIN
                 [field_u16 ACQUIRE_TENURE_ED25519_ALGORITHM,
                  field_u16 ACQUIRE_TENURE_ED25519_ALGORITHM_VERSION,
                  field_bytes (arr32 public_key)])) (\<lambda>value.
     and_then (validate_nonzero (arr32 value) 6) (\<lambda>_. Inr value))"

definition intent_digest ::
  "(bytes \<Rightarrow> Digest32) \<Rightarrow> AcquireTenureIntentV1 \<Rightarrow> AcquireTenureProtocolError + AcquireTenureIntentDigest" where
  "intent_digest sha256 self =
     map_err map_digest_error (build_digest sha256 INTENT_DIGEST_DOMAIN
       [field_bytes (arr16 (ti_scope self)), field_bytes (arr16 (ti_writer self)),
        field_bytes (arr16 (ti_operation_id self))])"

definition draft_try_new ::
  "(bytes \<Rightarrow> Digest32) \<Rightarrow> AcquireTenureIntentV1 \<Rightarrow> PrincipalRef \<Rightarrow> ControllerAcquireKeyRef \<Rightarrow>
   ControllerPublicKeyFingerprint \<Rightarrow> bytes \<Rightarrow> u32 \<Rightarrow>
   AcquireTenureProtocolError + AcquireTenureRequestDraftV1" where
  "draft_try_new sha256 intent controller_principal key fingerprint nonce bound =
     and_then (validate_nonzero (arr16 (ti_scope intent)) 1) (\<lambda>_.
     and_then (validate_nonzero (arr16 (ti_writer intent)) 2) (\<lambda>_.
     and_then (validate_nonzero (arr16 (ti_operation_id intent)) 3) (\<lambda>_.
     and_then (validate_nonzero (arr16 controller_principal) 4) (\<lambda>_.
     and_then (validate_nonzero (arr16 key) 5) (\<lambda>_.
     and_then (validate_nonzero (arr32 fingerprint) 6) (\<lambda>_.
     and_then (validate_client_nonce nonce 9) (\<lambda>_.
     and_then (validate_response_bound bound 10) (\<lambda>_.
     and_then (intent_digest sha256 intent) (\<lambda>digest.
       Inr \<lparr>td_intent = intent, td_controller_principal = controller_principal, td_controller_key = key,
            td_controller_public_key_fingerprint = fingerprint, td_client_nonce = nonce,
            td_max_response_payload_bytes = bound, td_intent_digest = digest\<rparr>)))))))))"

definition append_request_unsigned_fields :: "bytes \<Rightarrow> AcquireTenureRequestDraftV1 \<Rightarrow> bytes" where
  "append_request_unsigned_fields bs draft =
     (let bs = append_tlv bs 1 (arr16 (ti_scope (td_intent draft)));
          bs = append_tlv bs 2 (arr16 (ti_writer (td_intent draft)));
          bs = append_tlv bs 3 (arr16 (ti_operation_id (td_intent draft)));
          bs = append_tlv bs 4 (arr16 (td_controller_principal draft));
          bs = append_tlv bs 5 (arr16 (td_controller_key draft));
          bs = append_tlv bs 6 (arr32 (td_controller_public_key_fingerprint draft));
          bs = append_tlv bs 7 (be_u16 ACQUIRE_TENURE_ED25519_ALGORITHM);
          bs = append_tlv bs 8 (be_u16 ACQUIRE_TENURE_ED25519_ALGORITHM_VERSION);
          bs = append_tlv bs 9 (td_client_nonce draft);
          bs = append_tlv bs 10 (be_u32 (td_max_response_payload_bytes draft))
      in append_tlv bs 11 (arr32 (td_intent_digest draft)))"

definition build_request_signing_transcript ::
  "AcquireTenureRequestDraftV1 \<Rightarrow> AcquireTenureProtocolError + bytes" where
  "build_request_signing_transcript draft =
     and_then (ok_or (try_of_nat (length REQUEST_AUTH_TRANSCRIPT_DOMAIN) :: u16 option)
                 (protocol_error_new InvalidFieldLength)) (\<lambda>domain_length.
       Inr (append_request_unsigned_fields
              (REQUEST_AUTH_TRANSCRIPT_MAGIC @ be_u16 ACQUIRE_TENURE_REQUEST_AUTH_TRANSCRIPT_VERSION
                 @ be_u16 domain_length @ REQUEST_AUTH_TRANSCRIPT_DOMAIN
                 @ be_u16 REQUEST_UNSIGNED_FIELD_COUNT) draft))"

definition request_signing_transcript :: "AcquireTenureRequestV1 \<Rightarrow> AcquireTenureProtocolError + bytes" where
  "request_signing_transcript self = build_request_signing_transcript (rq_draft self)"

definition build_request_bytes :: "AcquireTenureRequestDraftV1 \<Rightarrow> bytes \<Rightarrow> bytes" where
  "build_request_bytes draft signature =
     append_tlv
       (append_request_unsigned_fields
          (append_value_header [] ACQUIRE_REQUEST_MAGIC ACQUIRE_TENURE_PROTOCOL_VERSION REQUEST_FIELD_COUNT)
          draft) 12 signature"

definition digest_complete_request ::
  "(bytes \<Rightarrow> Digest32) \<Rightarrow> bytes \<Rightarrow> AcquireTenureProtocolError + AcquireTenureRequestDigest" where
  "digest_complete_request sha256 canonical_bytes =
     map_err map_digest_error (build_digest sha256 REQUEST_DIGEST_DOMAIN [field_bytes canonical_bytes])"

definition from_draft ::
  "(bytes \<Rightarrow> Digest32) \<Rightarrow> AcquireTenureRequestDraftV1 \<Rightarrow> bytes \<Rightarrow>
   AcquireTenureProtocolError + AcquireTenureRequestV1" where
  "from_draft sha256 draft auth_signature =
     (let canonical_bytes = build_request_bytes draft auth_signature in
      if length canonical_bytes > MAX_ACQUIRE_TENURE_REQUEST_PAYLOAD_BYTES
      then Inl (protocol_error_new MessageTooLarge)
      else and_then (digest_complete_request sha256 canonical_bytes) (\<lambda>request_digest.
        Inr \<lparr>rq_draft = draft, rq_auth_signature = auth_signature,
             rq_canonical_bytes = canonical_bytes, rq_request_digest = request_digest\<rparr>))"

definition finalize_ed25519 ::
  "(bytes \<Rightarrow> Digest32) \<Rightarrow> AcquireTenureRequestDraftV1 \<Rightarrow> bytes \<Rightarrow>
   AcquireTenureProtocolError + AcquireTenureRequestV1" where
  "finalize_ed25519 sha256 self signature =
     and_then (validate_ed25519_signature signature 12) (\<lambda>_. from_draft sha256 self signature)"

definition decode_request ::
  "(bytes \<Rightarrow> Digest32) \<Rightarrow> bytes \<Rightarrow> AcquireTenureProtocolError + AcquireTenureRequestV1" where
  "decode_request sha256 bs =
     and_then (parse_value bs ACQUIRE_REQUEST_MAGIC ACQUIRE_TENURE_PROTOCOL_VERSION REQUEST_FIELD_COUNT
                 MAX_ACQUIRE_TENURE_REQUEST_PAYLOAD_BYTES valid_request_field_length) (\<lambda>fields.
     and_then (read_array 16 (field_get fields 1) 1) (\<lambda>scope.
     and_then (read_array 16 (field_get fields 2) 2) (\<lambda>writer.
     and_then (read_array 16 (field_get fields 3) 3) (\<lambda>operation_id.
     and_then (read_array 16 (field_get fields 4) 4) (\<lambda>controller_principal.
     and_then (read_array 16 (field_get fields 5) 5) (\<lambda>key.
     and_then (read_array 32 (field_get fields 6) 6) (\<lambda>fingerprint.
     and_then (validate_nonzero (arr16 scope) 1) (\<lambda>_.
     and_then (validate_nonzero (arr16 writer) 2) (\<lambda>_.
     and_then (validate_nonzero (arr16 operation_id) 3) (\<lambda>_.
     and_then (validate_nonzero (arr16 controller_principal) 4) (\<lambda>_.
     and_then (validate_nonzero (arr16 key) 5) (\<lambda>_.
     and_then (validate_nonzero (arr32 fingerprint) 6) (\<lambda>_.
     if from_be (field_get fields 7) \<noteq> ACQUIRE_TENURE_ED25519_ALGORITHM
     then Inl (protocol_error_at InvalidFieldValue 7)
     else if from_be (field_get fields 8) \<noteq> ACQUIRE_TENURE_ED25519_ALGORITHM_VERSION
     then Inl (protocol_error_at InvalidFieldValue 8)
     else
     and_then (draft_try_new sha256 \<lparr>ti_scope = scope, ti_writer = writer, ti_operation_id = operation_id\<rparr>
                 controller_principal key fingerprint (field_get fields 9) (from_be (field_get fields 10))) (\<lambda>draft.
     and_then (read_array 32 (field_get fields 11) 11) (\<lambda>carried_intent_digest.
     if carried_intent_digest \<noteq> td_intent_digest draft
     then Inl (protocol_error_at DerivedDigestMismatch 11)
     else
     and_then (finalize_ed25519 sha256 draft (field_get fields 12)) (\<lambda>request.
     if rq_canonical_bytes request \<noteq> bs then Inl (protocol_error_new NonCanonicalMessage)
     else Inr request))))))))))))))))"

section \<open>Responses\<close>

definition append_response_unsigned_fields ::
  "bytes \<Rightarrow> AcquireTenureOperationId \<Rightarrow> AcquireTenureRequestDigest \<Rightarrow> bytes \<Rightarrow> WriterTenureProof \<Rightarrow>
   Digest32 \<Rightarrow> bytes" where
  "append_response_unsigned_fields bs operation_id request_digest client_nonce tenure_proof proof_digest =
     (let authority = tp_authority tenure_proof; claim = tp_claim tenure_proof;
          bs = append_tlv bs 1 (arr16 operation_id);
          bs = append_tlv bs 2 (arr32 request_digest);
          bs = append_tlv bs 3 client_nonce;
          bs = append_tlv bs 4 (arr16 (pa_authority authority));
          bs = append_tlv bs 5 (arr16 (pa_key authority));
          bs = append_tlv bs 6 (be_u16 (pa_algorithm authority));
          bs = append_tlv bs 7 (be_u16 (pa_algorithm_version authority));
          bs = append_tlv bs 8 (arr16 (wt_source_scope claim));
          bs = append_tlv bs 9 (arr16 (wt_writer claim));
          bs = append_tlv bs 10 (be_u64 (wt_epoch claim));
          bs = append_tlv bs 11 (be_u64 (wt_supersedes_through_epoch claim));
          bs = append_tlv bs 12 (tp_nonce tenure_proof);
          bs = append_tlv bs 13 (tp_signature tenure_proof)
      in append_tlv bs 14 (arr32 proof_digest))"

definition build_response_unsigned_bytes ::
  "AcquireTenureOperationId \<Rightarrow> AcquireTenureRequestDigest \<Rightarrow> bytes \<Rightarrow> WriterTenureProof \<Rightarrow> Digest32 \<Rightarrow> bytes" where
  "build_response_unsigned_bytes operation_id request_digest client_nonce tenure_proof proof_digest =
     append_response_unsigned_fields
       (append_value_header [] ACQUIRE_RESPONSE_MAGIC ACQUIRE_TENURE_PROTOCOL_VERSION
          RESPONSE_UNSIGNED_FIELD_COUNT)
       operation_id request_digest client_nonce tenure_proof proof_digest"

definition build_response_digest ::
  "(bytes \<Rightarrow> Digest32) \<Rightarrow> AcquireTenureOperationId \<Rightarrow> AcquireTenureRequestDigest \<Rightarrow> bytes \<Rightarrow>
   WriterTenureProof \<Rightarrow> Digest32 \<Rightarrow> AcquireTenureProtocolError + AcquireTenureResponseDigest" where
  "build_response_digest sha256 operation_id request_digest client_nonce tenure_proof proof_digest =
     map_err map_digest_error (build_digest sha256 RESPONSE_DIGEST_DOMAIN
       [field_bytes (build_response_unsigned_bytes operation_id request_digest client_nonce
                       tenure_proof proof_digest)])"

definition build_response_bytes ::
  "AcquireTenureOperationId \<Rightarrow> AcquireTenureRequestDigest \<Rightarrow> bytes \<Rightarrow> WriterTenureProof \<Rightarrow> Digest32 \<Rightarrow>
   AcquireTenureResponseDigest \<Rightarrow> bytes" where
  "build_response_bytes operation_id request_digest client_nonce tenure_proof proof_digest response_digest =
     append_tlv
       (append_response_unsigned_fields
          (append_value_header [] ACQUIRE_RESPONSE_MAGIC ACQUIRE_TENURE_PROTOCOL_VERSION RESPONSE_FIELD_COUNT)
          operation_id request_digest client_nonce tenure_proof proof_digest) 15 (arr32 response_digest)"

definition validate_proof_binding ::
  "AcquireTenureRequestV1 \<Rightarrow> WriterTenureProof \<Rightarrow> AcquireTenureProtocolError + unit" where
  "validate_proof_binding request tenure_proof =
     (let claim = tp_claim tenure_proof in
      if wt_source_scope claim \<noteq> ti_scope (rq_intent request)
         \<or> wt_writer claim \<noteq> ti_writer (rq_intent request)
         \<or> tp_nonce tenure_proof \<noteq> td_client_nonce (rq_draft request)
      then Inl (protocol_error_new RequestBindingMismatch) else Inr ())"

definition response_try_new ::
  "(bytes \<Rightarrow> Digest32) \<Rightarrow> AcquireTenureRequestV1 \<Rightarrow> WriterTenureProof \<Rightarrow>
   AcquireTenureProtocolError + AcquireTenureResponseV1" where
  "response_try_new sha256 request tenure_proof =
     and_then (validate_proof_binding request tenure_proof) (\<lambda>_.
     and_then (map_err map_digest_error (envelope_digest sha256 tenure_proof)) (\<lambda>proof_digest.
     let operation_id = ti_operation_id (rq_intent request);
         request_digest = rq_request_digest request;
         client_nonce = td_client_nonce (rq_draft request) in
     and_then (build_response_digest sha256 operation_id request_digest client_nonce tenure_proof
                 proof_digest) (\<lambda>response_digest.
     let canonical_bytes = build_response_bytes operation_id request_digest client_nonce tenure_proof
                             proof_digest response_digest in
     if length canonical_bytes > unat (td_max_response_payload_bytes (rq_draft request))
     then Inl (protocol_error_new ResponseBoundExceeded)
     else if length canonical_bytes > MAX_ACQUIRE_TENURE_RESPONSE_PAYLOAD_BYTES
     then Inl (protocol_error_new MessageTooLarge)
     else Inr \<lparr>rs_operation_id = operation_id, rs_request_digest = request_digest,
               rs_client_nonce = client_nonce, rs_proof = tenure_proof, rs_proof_digest = proof_digest,
               rs_response_digest = response_digest, rs_canonical_bytes = canonical_bytes\<rparr>)))"

definition decode_response ::
  "(bytes \<Rightarrow> Digest32) \<Rightarrow> bytes \<Rightarrow> AcquireTenureProtocolError + AcquireTenureResponseV1" where
  "decode_response sha256 bs =
     and_then (parse_value bs ACQUIRE_RESPONSE_MAGIC ACQUIRE_TENURE_PROTOCOL_VERSION RESPONSE_FIELD_COUNT
                 MAX_ACQUIRE_TENURE_RESPONSE_PAYLOAD_BYTES valid_response_field_length) (\<lambda>fields.
     and_then (read_array 16 (field_get fields 1) 1) (\<lambda>operation_id.
     and_then (read_array 32 (field_get fields 2) 2) (\<lambda>request_digest.
     and_then (read_array 16 (field_get fields 4) 4) (\<lambda>authority_ref.
     and_then (read_array 16 (field_get fields 5) 5) (\<lambda>key_ref.
     and_then (map_err (\<lambda>_. protocol_error_at ProofContract 6)
                 (tenure_algorithm_try_new (from_be (field_get fields 6)))) (\<lambda>algorithm.
     and_then (map_err (\<lambda>_. protocol_error_at ProofContract 7)
                 (tenure_authority_try_new authority_ref key_ref algorithm (from_be (field_get fields 7))))
       (\<lambda>authority.
     and_then (read_array 16 (field_get fields 8) 8) (\<lambda>source_scope.
     and_then (read_array 16 (field_get fields 9) 9) (\<lambda>writer.
     and_then (map_err (\<lambda>_. protocol_error_at ProofContract 10)
                 (tenure_claim_try_new source_scope writer (from_be (field_get fields 10))
                    (from_be (field_get fields 11)))) (\<lambda>claim.
     and_then (map_err (\<lambda>_. protocol_error_at ProofContract 13)
                 (tenure_proof_try_new authority claim (field_get fields 12) (field_get fields 13)))
       (\<lambda>tenure_proof.
     if field_get fields 3 \<noteq> tp_nonce tenure_proof
     then Inl (protocol_error_at RequestBindingMismatch 3)
     else
     and_then (map_err map_digest_error (envelope_digest sha256 tenure_proof)) (\<lambda>proof_digest.
     and_then (read_array 32 (field_get fields 14) 14) (\<lambda>carried_proof_digest.
     if proof_digest \<noteq> carried_proof_digest then Inl (protocol_error_at DerivedDigestMismatch 14)
     else
     and_then (build_response_digest sha256 operation_id request_digest (field_get fields 3)
                 tenure_proof proof_digest) (\<lambda>response_digest.
     and_then (read_array 32 (field_get fields 15) 15) (\<lambda>carried_response_digest.
     if response_digest \<noteq> carried_response_digest then Inl (protocol_error_at DerivedDigestMismatch 15)
     else
     let canonical_bytes = build_response_bytes operation_id request_digest (field_get fields 3)
                             tenure_proof proof_digest response_digest in
     if canonical_bytes \<noteq> bs then Inl (protocol_error_new NonCanonicalMessage)
     else Inr \<lparr>rs_operation_id = operation_id, rs_request_digest = request_digest,
               rs_client_nonce = field_get fields 3, rs_proof = tenure_proof,
               rs_proof_digest = proof_digest, rs_response_digest = response_digest,
               rs_canonical_bytes = canonical_bytes\<rparr>)))))))))))))))"

definition validate_request_binding ::
  "AcquireTenureResponseV1 \<Rightarrow> AcquireTenureRequestV1 \<Rightarrow> AcquireTenureProtocolError + unit" where
  "validate_request_binding self request =
     (if rs_operation_id self \<noteq> ti_operation_id (rq_intent request)
         \<or> rs_request_digest self \<noteq> rq_request_digest request
         \<or> rs_client_nonce self \<noteq> td_client_nonce (rq_draft request)
      then Inl (protocol_error_new RequestBindingMismatch)
      else if length (rs_canonical_bytes self) > unat (td_max_response_payload_bytes (rq_draft request))
      then Inl (protocol_error_new ResponseBoundExceeded)
      else validate_proof_binding request (rs_proof self))"

definition decode_for_request ::
  "(bytes \<Rightarrow> Digest32) \<Rightarrow> bytes \<Rightarrow> AcquireTenureRequestV1 \<Rightarrow>
   AcquireTenureProtocolError + AcquireTenureResponseV1" where
  "decode_for_request sha256 bs request =
     and_then (decode_response sha256 bs) (\<lambda>response.
     and_then (validate_request_binding response request) (\<lambda>_. Inr response))"

section \<open>Frames\<close>

fun frame_kind_u16 :: "AcquireTenureFrameKind \<Rightarrow> u16" where
  "frame_kind_u16 FrameRequest = 1"
| "frame_kind_u16 FrameResponse = 2"

definition frame_kind_try_from_wire :: "u16 \<Rightarrow> AcquireTenureProtocolError + AcquireTenureFrameKind" where
  "frame_kind_try_from_wire value =
     (if value = 1 then Inr FrameRequest
      else if value = 2 then Inr FrameResponse
      else Inl (protocol_error_new InvalidFrameKind))"

fun maximum_payload_bytes :: "AcquireTenureFrameKind \<Rightarrow> nat" where
  "maximum_payload_bytes FrameRequest = MAX_ACQUIRE_TENURE_REQUEST_PAYLOAD_BYTES"
| "maximum_payload_bytes FrameResponse = MAX_ACQUIRE_TENURE_RESPONSE_PAYLOAD_BYTES"

definition decode_prefix :: "bytes \<Rightarrow> AcquireTenureProtocolError + AcquireTenureFrameHeaderV1" where
  "decode_prefix bs =
     (if length bs < ACQUIRE_TENURE_FRAME_HEADER_BYTES then Inl (protocol_error_new Truncated)
      else if take (length ACQUIRE_FRAME_MAGIC) bs \<noteq> ACQUIRE_FRAME_MAGIC
      then Inl (protocol_error_new InvalidMagic)
      else if (from_be (take 2 (drop 8 bs)) :: u16) \<noteq> ACQUIRE_TENURE_FRAME_VERSION
      then Inl (protocol_error_new UnsupportedVersion)
      else and_then (frame_kind_try_from_wire (from_be (take 2 (drop 10 bs)))) (\<lambda>kind.
        let payload_bytes = (from_be (take 4 (drop 12 bs)) :: u32) in
        if unat payload_bytes > maximum_payload_bytes kind then Inl (protocol_error_new InvalidFieldLength)
        else Inr \<lparr>fh_kind = kind, fh_payload_bytes = payload_bytes\<rparr>))"

definition frame_bytes :: "AcquireTenureFrameHeaderV1 \<Rightarrow> AcquireTenureProtocolError + usize" where
  "frame_bytes self =
     ok_or (checked_add (of_nat ACQUIRE_TENURE_FRAME_HEADER_BYTES) (ucast (fh_payload_bytes self)))
       (protocol_error_new InvalidFieldLength)"

definition build_frame :: "AcquireTenureFrameKind \<Rightarrow> bytes \<Rightarrow> bytes" where
  "build_frame kind payload =
     ACQUIRE_FRAME_MAGIC @ be_u16 ACQUIRE_TENURE_FRAME_VERSION @ be_u16 (frame_kind_u16 kind)
       @ be_u32 (of_nat (length payload)) @ payload"

definition decode_frame :: "bytes \<Rightarrow> AcquireTenureFrameKind \<Rightarrow> AcquireTenureProtocolError + bytes" where
  "decode_frame frame expected_kind =
     (if length frame > MAX_ACQUIRE_TENURE_FRAME_BYTES then Inl (protocol_error_new MessageTooLarge)
      else and_then (decode_prefix frame) (\<lambda>header.
        if fh_kind header \<noteq> expected_kind then Inl (protocol_error_new InvalidFrameKind)
        else and_then (frame_bytes header) (\<lambda>expected_frame_bytes.
          if length frame < unat expected_frame_bytes then Inl (protocol_error_new Truncated)
          else if length frame > unat expected_frame_bytes then Inl (protocol_error_new TrailingBytes)
          else Inr (drop ACQUIRE_TENURE_FRAME_HEADER_BYTES frame))))"

definition encode_acquire_tenure_request_frame :: "AcquireTenureRequestV1 \<Rightarrow> bytes" where
  "encode_acquire_tenure_request_frame request = build_frame FrameRequest (rq_canonical_bytes request)"

definition decode_acquire_tenure_request_frame ::
  "(bytes \<Rightarrow> Digest32) \<Rightarrow> bytes \<Rightarrow> AcquireTenureProtocolError + AcquireTenureRequestV1" where
  "decode_acquire_tenure_request_frame sha256 frame =
     and_then (decode_frame frame FrameRequest) (decode_request sha256)"

definition encode_acquire_tenure_response_frame :: "AcquireTenureResponseV1 \<Rightarrow> bytes" where
  "encode_acquire_tenure_response_frame response = build_frame FrameResponse (rs_canonical_bytes response)"

definition decode_acquire_tenure_response_frame_for_request ::
  "(bytes \<Rightarrow> Digest32) \<Rightarrow> bytes \<Rightarrow> AcquireTenureRequestV1 \<Rightarrow>
   AcquireTenureProtocolError + AcquireTenureResponseV1" where
  "decode_acquire_tenure_response_frame_for_request sha256 frame request =
     and_then (decode_frame frame FrameResponse) (\<lambda>payload. decode_for_request sha256 payload request)"

end
