(* ===== verification/Tenure_Codec.thy ===== *)
theory Tenure_Codec
  imports Tenure_Protocol
begin

text \<open>
  The decoders of the acquire-tenure protocol are strict: they accept exactly the canonical
  bytes of well-formed requests and responses and return the message that was encoded. The two
  message types are instances of \<open>value_format\<close>.
\<close>

section \<open>The formats\<close>

lemmas protocol_limits =
  MAX_ACQUIRE_TENURE_REQUEST_PAYLOAD_BYTES_def REQUEST_FIXED_VALUE_BYTES_def REQUEST_FIELD_COUNT_def
  MAX_ACQUIRE_TENURE_RESPONSE_PAYLOAD_BYTES_def MIN_ACQUIRE_TENURE_RESPONSE_PAYLOAD_BYTES_def
  RESPONSE_FIXED_VALUE_BYTES_def RESPONSE_FIELD_COUNT_def
  ACQUIRE_TENURE_ED25519_SIGNATURE_BYTES_def MAX_ACQUIRE_TENURE_CLIENT_NONCE_BYTES_def
  VALUE_HEADER_BYTES_def TLV_HEADER_BYTES_def tenure_limits

lemma sum_list_twelve:
  "length vs = 12 \<Longrightarrow> (\<Sum>v \<leftarrow> vs. f v) = f (vs ! 0) + f (vs ! 1) + f (vs ! 2) + f (vs ! 3) + f (vs ! 4) +
     f (vs ! 5) + f (vs ! 6) + f (vs ! 7) + f (vs ! 8) + f (vs ! 9) + f (vs ! 10) + (f (vs ! 11) :: nat)"
  by (simp add: sum_list_sum_nth numeral_eq_Suc)

lemma sum_list_fifteen:
  "length vs = 15 \<Longrightarrow> (\<Sum>v \<leftarrow> vs. f v) = f (vs ! 0) + f (vs ! 1) + f (vs ! 2) + f (vs ! 3) + f (vs ! 4) +
     f (vs ! 5) + f (vs ! 6) + f (vs ! 7) + f (vs ! 8) + f (vs ! 9) + f (vs ! 10) + f (vs ! 11) +
     f (vs ! 12) + f (vs ! 13) + (f (vs ! 14) :: nat)"
  by (simp add: sum_list_sum_nth numeral_eq_Suc)

lemma all_less_twelve: "(\<forall>i < (12::nat). P i) \<longleftrightarrow> P 0 \<and> P 1 \<and> P 2 \<and> P 3 \<and> P 4 \<and> P 5 \<and> P 6 \<and>
    P 7 \<and> P 8 \<and> P 9 \<and> P 10 \<and> P 11"
  by (simp add: numeral_eq_Suc All_less_Suc) blast

lemma all_less_fifteen: "(\<forall>i < (15::nat). P i) \<longleftrightarrow> P 0 \<and> P 1 \<and> P 2 \<and> P 3 \<and> P 4 \<and> P 5 \<and> P 6 \<and>
    P 7 \<and> P 8 \<and> P 9 \<and> P 10 \<and> P 11 \<and> P 12 \<and> P 13 \<and> P 14"
  by (simp add: numeral_eq_Suc All_less_Suc) blast

interpretation request_format: value_format ACQUIRE_REQUEST_MAGIC ACQUIRE_TENURE_PROTOCOL_VERSION
  REQUEST_FIELD_COUNT MAX_ACQUIRE_TENURE_REQUEST_PAYLOAD_BYTES valid_request_field_length
proof unfold_locales
  fix vs :: "bytes list"
  assume "length vs = unat REQUEST_FIELD_COUNT"
    and "\<And>i. i < length vs \<Longrightarrow> valid_request_field_length (of_nat (i + 1)) (length (vs ! i))"
  then have len: "length vs = 12"
    and valid: "\<And>i. i < 12 \<Longrightarrow> valid_request_field_length (of_nat (i + 1)) (length (vs ! i))"
    by (simp_all add: REQUEST_FIELD_COUNT_def)
  from valid [of 0] valid [of 1] valid [of 2] valid [of 3] valid [of 4] valid [of 5] valid [of 6]
    valid [of 7] valid [of 8] valid [of 9] valid [of 10] valid [of 11]
  show "length (append_value_header [] ACQUIRE_REQUEST_MAGIC ACQUIRE_TENURE_PROTOCOL_VERSION
      REQUEST_FIELD_COUNT @ tlv_fields 0 vs) \<le> MAX_ACQUIRE_TENURE_REQUEST_PAYLOAD_BYTES"
    by (simp add: length_tlv_fields sum_list_twelve [OF len] append_value_header_def
        ACQUIRE_REQUEST_MAGIC_def valid_request_field_length_def protocol_limits)
qed (simp add: protocol_limits)

interpretation response_format: value_format ACQUIRE_RESPONSE_MAGIC ACQUIRE_TENURE_PROTOCOL_VERSION
  RESPONSE_FIELD_COUNT MAX_ACQUIRE_TENURE_RESPONSE_PAYLOAD_BYTES valid_response_field_length
proof unfold_locales
  fix vs :: "bytes list"
  assume "length vs = unat RESPONSE_FIELD_COUNT"
    and "\<And>i. i < length vs \<Longrightarrow> valid_response_field_length (of_nat (i + 1)) (length (vs ! i))"
  then have len: "length vs = 15"
    and valid: "\<And>i. i < 15 \<Longrightarrow> valid_response_field_length (of_nat (i + 1)) (length (vs ! i))"
    by (simp_all add: RESPONSE_FIELD_COUNT_def)
  from valid [of 0] valid [of 1] valid [of 2] valid [of 3] valid [of 4] valid [of 5] valid [of 6]
    valid [of 7] valid [of 8] valid [of 9] valid [of 10] valid [of 11] valid [of 12] valid [of 13]
    valid [of 14]
  show "length (append_value_header [] ACQUIRE_RESPONSE_MAGIC ACQUIRE_TENURE_PROTOCOL_VERSION
      RESPONSE_FIELD_COUNT @ tlv_fields 0 vs) \<le> MAX_ACQUIRE_TENURE_RESPONSE_PAYLOAD_BYTES"
    by (simp add: length_tlv_fields sum_list_fifteen [OF len] append_value_header_def
        ACQUIRE_RESPONSE_MAGIC_def valid_response_field_length_def protocol_limits)
qed (simp add: protocol_limits)

section \<open>Requests\<close>

definition request_fields :: "AcquireTenureRequestDraftV1 \<Rightarrow> bytes \<Rightarrow> bytes list" where
  "request_fields d signature =
     [arr16 (ti_scope (td_intent d)), arr16 (ti_writer (td_intent d)),
      arr16 (ti_operation_id (td_intent d)), arr16 (td_controller_principal d),
      arr16 (td_controller_key d), arr32 (td_controller_public_key_fingerprint d),
      be_u16 ACQUIRE_TENURE_ED25519_ALGORITHM, be_u16 ACQUIRE_TENURE_ED25519_ALGORITHM_VERSION,
      td_client_nonce d, be_u32 (td_max_response_payload_bytes d), arr32 (td_intent_digest d), signature]"

lemma build_request_encoding: "build_request_bytes d signature = request_format.encoding (request_fields d signature)"
  by (simp add: build_request_bytes_def request_format.encoding_def request_fields_def
      append_request_unsigned_fields_def append_tlv_def)

definition draft_ok :: "(bytes \<Rightarrow> Digest32) \<Rightarrow> AcquireTenureRequestDraftV1 \<Rightarrow> bool" where
  "draft_ok sha256 d \<longleftrightarrow> draft_try_new sha256 (td_intent d) (td_controller_principal d) (td_controller_key d)
     (td_controller_public_key_fingerprint d) (td_client_nonce d) (td_max_response_payload_bytes d) = Inr d"

lemma draft_try_new_ok: "draft_try_new sha256 i p k f n b = Inr d \<Longrightarrow> draft_ok sha256 d"
  by (auto simp: draft_ok_def draft_try_new_def and_then_eq_Inr)

lemma draft_ok_fields:
  assumes "draft_ok sha256 d"
  shows "ti_scope (td_intent d) \<noteq> 0" "ti_writer (td_intent d) \<noteq> 0" "ti_operation_id (td_intent d) \<noteq> 0"
    "td_controller_principal d \<noteq> 0" "td_controller_key d \<noteq> 0" "td_controller_public_key_fingerprint d \<noteq> 0"
    "1 \<le> length (td_client_nonce d)" "length (td_client_nonce d) \<le> MAX_ACQUIRE_TENURE_CLIENT_NONCE_BYTES"
    "MIN_ACQUIRE_TENURE_RESPONSE_PAYLOAD_BYTES \<le> unat (td_max_response_payload_bytes d)"
    "unat (td_max_response_payload_bytes d) \<le> MAX_ACQUIRE_TENURE_RESPONSE_PAYLOAD_BYTES"
  using assms
  by (auto simp: draft_ok_def draft_try_new_def and_then_eq_Inr validate_nonzero_def validate_client_nonce_def
      validate_response_bound_def split: if_splits)


definition request_ok :: "(bytes \<Rightarrow> Digest32) \<Rightarrow> AcquireTenureRequestV1 \<Rightarrow> bool" where
  "request_ok sha256 rq \<longleftrightarrow>
     draft_ok sha256 (rq_draft rq) \<and> finalize_ed25519 sha256 (rq_draft rq) (rq_auth_signature rq) = Inr rq"

lemma finalize_parts:
  assumes "finalize_ed25519 sha256 d signature = Inr rq"
  shows "rq_draft rq = d" "rq_auth_signature rq = signature"
    "rq_canonical_bytes rq = build_request_bytes d signature"
    "length signature = ACQUIRE_TENURE_ED25519_SIGNATURE_BYTES"
  using assms
  by (auto simp: finalize_ed25519_def from_draft_def validate_ed25519_signature_def Let_def and_then_eq_Inr
      split: if_splits)

lemma request_admissible:
  assumes "draft_ok sha256 d" and "length signature = ACQUIRE_TENURE_ED25519_SIGNATURE_BYTES"
  shows "request_format.admissible (request_fields d signature)"
proof -
  have len: "length (request_fields d signature) = 12" by (simp add: request_fields_def)
  show ?thesis
    using draft_ok_fields [OF assms(1)] assms(2)
    unfolding request_format.admissible_def len all_less_twelve
    by (simp add: REQUEST_FIELD_COUNT_def request_fields_def valid_request_field_length_def)
qed

lemma request_field_get:
  "field_get (request_fields d signature) 1 = arr16 (ti_scope (td_intent d))"
  "field_get (request_fields d signature) 2 = arr16 (ti_writer (td_intent d))"
  "field_get (request_fields d signature) 3 = arr16 (ti_operation_id (td_intent d))"
  "field_get (request_fields d signature) 4 = arr16 (td_controller_principal d)"
  "field_get (request_fields d signature) 5 = arr16 (td_controller_key d)"
  "field_get (request_fields d signature) 6 = arr32 (td_controller_public_key_fingerprint d)"
  "field_get (request_fields d signature) 7 = be_u16 ACQUIRE_TENURE_ED25519_ALGORITHM"
  "field_get (request_fields d signature) 8 = be_u16 ACQUIRE_TENURE_ED25519_ALGORITHM_VERSION"
  "field_get (request_fields d signature) 9 = td_client_nonce d"
  "field_get (request_fields d signature) 10 = be_u32 (td_max_response_payload_bytes d)"
  "field_get (request_fields d signature) 11 = arr32 (td_intent_digest d)"
  "field_get (request_fields d signature) 12 = signature"
  by (simp_all add: field_get_def request_fields_def)

lemma read_array_reads [simp]:
  "read_array 16 (arr16 a) tag = Inr a" "read_array 32 (arr32 b) tag = Inr b"
  by (simp_all add: read_array_def)

lemma validate_nonzero_ok [simp]:
  "a \<noteq> 0 \<Longrightarrow> validate_nonzero (arr16 a) tag = Inr ()" "b \<noteq> 0 \<Longrightarrow> validate_nonzero (arr32 b) tag = Inr ()"
  by (simp_all add: validate_nonzero_def)

lemma decode_request_complete:
  assumes "request_ok sha256 rq"
  shows "decode_request sha256 (rq_canonical_bytes rq) = Inr rq"
proof -
  let ?d = "rq_draft rq" and ?s = "rq_auth_signature rq"
  have d: "draft_ok sha256 ?d" and fin: "finalize_ed25519 sha256 ?d ?s = Inr rq"
    using assms by (simp_all add: request_ok_def)
  note parts = finalize_parts [OF fin]
  have parse: "parse_value (rq_canonical_bytes rq) ACQUIRE_REQUEST_MAGIC ACQUIRE_TENURE_PROTOCOL_VERSION
      REQUEST_FIELD_COUNT MAX_ACQUIRE_TENURE_REQUEST_PAYLOAD_BYTES valid_request_field_length =
      Inr (request_fields ?d ?s)"
    unfolding parts(3) build_request_encoding
    by (rule request_format.parse_encoding [OF request_admissible [OF d parts(4)]])
  have new: "draft_try_new sha256 \<lparr>ti_scope = ti_scope (td_intent ?d), ti_writer = ti_writer (td_intent ?d),
        ti_operation_id = ti_operation_id (td_intent ?d)\<rparr> (td_controller_principal ?d) (td_controller_key ?d)
        (td_controller_public_key_fingerprint ?d) (td_client_nonce ?d) (td_max_response_payload_bytes ?d) = Inr ?d"
    using d unfolding draft_ok_def by (cases "td_intent ?d") simp
  show ?thesis
    unfolding decode_request_def parse and_then.simps request_field_get
    by (simp add: draft_ok_fields [OF d] new fin)
qed

lemma decode_request_sound:
  assumes "decode_request sha256 bs = Inr rq"
  shows "request_ok sha256 rq" and "rq_canonical_bytes rq = bs"
proof -
  from assms obtain i p k f n b d s where d: "draft_try_new sha256 i p k f n b = Inr d"
    and fin: "finalize_ed25519 sha256 d s = Inr rq" and bs: "rq_canonical_bytes rq = bs"
    unfolding decode_request_def and_then_eq_Inr guard_eq_Inr by blast
  from draft_try_new_ok [OF d] fin finalize_parts [OF fin] show "request_ok sha256 rq"
    by (simp add: request_ok_def)
  show "rq_canonical_bytes rq = bs" by (rule bs)
qed

section \<open>Responses\<close>

definition response_fields :: "AcquireTenureResponseV1 \<Rightarrow> bytes list" where
  "response_fields r = (let a = tp_authority (rs_proof r); c = tp_claim (rs_proof r) in
     [arr16 (rs_operation_id r), arr32 (rs_request_digest r), rs_client_nonce r,
      arr16 (pa_authority a), arr16 (pa_key a), be_u16 (pa_algorithm a), be_u16 (pa_algorithm_version a),
      arr16 (wt_source_scope c), arr16 (wt_writer c), be_u64 (wt_epoch c),
      be_u64 (wt_supersedes_through_epoch c), tp_nonce (rs_proof r), tp_signature (rs_proof r),
      arr32 (rs_proof_digest r), arr32 (rs_response_digest r)])"

lemma build_response_encoding:
  "build_response_bytes (rs_operation_id r) (rs_request_digest r) (rs_client_nonce r) (rs_proof r)
     (rs_proof_digest r) (rs_response_digest r) = response_format.encoding (response_fields r)"
  by (simp add: build_response_bytes_def response_format.encoding_def response_fields_def
      append_response_unsigned_fields_def append_tlv_def Let_def)

text \<open>A proof as its constructors build it.\<close>

definition response_ok :: "(bytes \<Rightarrow> Digest32) \<Rightarrow> AcquireTenureResponseV1 \<Rightarrow> bool" where
  "response_ok sha256 r \<longleftrightarrow> proof_ok (rs_proof r) \<and> rs_client_nonce r = tp_nonce (rs_proof r) \<and>
     envelope_digest sha256 (rs_proof r) = Inr (rs_proof_digest r) \<and>
     build_response_digest sha256 (rs_operation_id r) (rs_request_digest r) (rs_client_nonce r)
       (rs_proof r) (rs_proof_digest r) = Inr (rs_response_digest r) \<and>
     rs_canonical_bytes r = build_response_bytes (rs_operation_id r) (rs_request_digest r) (rs_client_nonce r)
       (rs_proof r) (rs_proof_digest r) (rs_response_digest r)"

lemma response_field_get:
  "field_get (response_fields r) 1 = arr16 (rs_operation_id r)"
  "field_get (response_fields r) 2 = arr32 (rs_request_digest r)"
  "field_get (response_fields r) 3 = rs_client_nonce r"
  "field_get (response_fields r) 4 = arr16 (pa_authority (tp_authority (rs_proof r)))"
  "field_get (response_fields r) 5 = arr16 (pa_key (tp_authority (rs_proof r)))"
  "field_get (response_fields r) 6 = be_u16 (pa_algorithm (tp_authority (rs_proof r)))"
  "field_get (response_fields r) 7 = be_u16 (pa_algorithm_version (tp_authority (rs_proof r)))"
  "field_get (response_fields r) 8 = arr16 (wt_source_scope (tp_claim (rs_proof r)))"
  "field_get (response_fields r) 9 = arr16 (wt_writer (tp_claim (rs_proof r)))"
  "field_get (response_fields r) 10 = be_u64 (wt_epoch (tp_claim (rs_proof r)))"
  "field_get (response_fields r) 11 = be_u64 (wt_supersedes_through_epoch (tp_claim (rs_proof r)))"
  "field_get (response_fields r) 12 = tp_nonce (rs_proof r)"
  "field_get (response_fields r) 13 = tp_signature (rs_proof r)"
  "field_get (response_fields r) 14 = arr32 (rs_proof_digest r)"
  "field_get (response_fields r) 15 = arr32 (rs_response_digest r)"
  by (simp_all add: field_get_def response_fields_def Let_def)

lemma nonempty_length: "xs \<noteq> [] \<longleftrightarrow> 1 \<le> length xs"
  by (cases xs) simp_all

lemma response_admissible:
  assumes "tenure_proof_wf (rs_proof r)" and "rs_client_nonce r = tp_nonce (rs_proof r)"
  shows "response_format.admissible (response_fields r)"
proof -
  have len: "length (response_fields r) = 15" by (simp add: response_fields_def Let_def)
  show ?thesis
    using assms
    unfolding response_format.admissible_def len all_less_fifteen
    by (simp add: RESPONSE_FIELD_COUNT_def response_fields_def Let_def valid_response_field_length_def
        tenure_proof_wf_def protocol_limits nonempty_length)
qed

lemma proof_rebuild:
  assumes "proof_ok p"
  shows "tenure_algorithm_try_new (pa_algorithm (tp_authority p)) = Inr (pa_algorithm (tp_authority p))"
    "tenure_authority_try_new (pa_authority (tp_authority p)) (pa_key (tp_authority p))
       (pa_algorithm (tp_authority p)) (pa_algorithm_version (tp_authority p)) = Inr (tp_authority p)"
    "tenure_claim_try_new (wt_source_scope (tp_claim p)) (wt_writer (tp_claim p)) (wt_epoch (tp_claim p))
       (wt_supersedes_through_epoch (tp_claim p)) = Inr (tp_claim p)"
    "tenure_proof_try_new (tp_authority p) (tp_claim p) (tp_nonce p) (tp_signature p) = Inr p"
  using assms
  by (simp_all add: proof_ok_def tenure_algorithm_try_new_def tenure_authority_try_new_def
      tenure_claim_try_new_def tenure_proof_try_new_wf not_le)

lemma decode_response_complete:
  assumes "response_ok sha256 r"
  shows "decode_response sha256 (rs_canonical_bytes r) = Inr r"
proof -
  have ok: "proof_ok (rs_proof r)" "rs_client_nonce r = tp_nonce (rs_proof r)"
    "envelope_digest sha256 (rs_proof r) = Inr (rs_proof_digest r)"
    "build_response_digest sha256 (rs_operation_id r) (rs_request_digest r) (rs_client_nonce r)
       (rs_proof r) (rs_proof_digest r) = Inr (rs_response_digest r)"
    "rs_canonical_bytes r = build_response_bytes (rs_operation_id r) (rs_request_digest r) (rs_client_nonce r)
       (rs_proof r) (rs_proof_digest r) (rs_response_digest r)"
    using assms unfolding response_ok_def by blast+
  have parse: "parse_value (rs_canonical_bytes r) ACQUIRE_RESPONSE_MAGIC ACQUIRE_TENURE_PROTOCOL_VERSION
      RESPONSE_FIELD_COUNT MAX_ACQUIRE_TENURE_RESPONSE_PAYLOAD_BYTES valid_response_field_length =
      Inr (response_fields r)"
    unfolding ok(5) build_response_encoding using ok(1,2)
    by (intro response_format.parse_encoding response_admissible) (simp_all add: proof_ok_def)
  note rebuild = proof_rebuild [OF ok(1)]
  show ?thesis
    unfolding decode_response_def parse and_then.simps response_field_get
    using ok(2-5) by (simp add: rebuild Let_def)
qed

lemma proof_constructed:
  assumes "tenure_algorithm_try_new v = Inr alg" "tenure_authority_try_new a k alg w = Inr auth"
    "tenure_claim_try_new s wr e e' = Inr claim" "tenure_proof_try_new auth claim n sg = Inr p"
  shows "proof_ok p \<and> tp_nonce p = n"
  using assms
  by (auto simp: proof_ok_def tenure_algorithm_try_new_def tenure_authority_try_new_def
      tenure_claim_try_new_def tenure_proof_try_new_wf not_le split: if_splits)

lemma decode_response_sound:
  assumes "decode_response sha256 bs = Inr r"
  shows "response_ok sha256 r" and "rs_canonical_bytes r = bs"
proof -
  from assms obtain o' rd fields v alg a k w auth s wr e e' claim n sg p pd rsd where
    pr: "tenure_algorithm_try_new v = Inr alg" "tenure_authority_try_new a k alg w = Inr auth"
      "tenure_claim_try_new s wr e e' = Inr claim" "tenure_proof_try_new auth claim n sg = Inr p" and
    nonce: "\<not> field_get fields 3 \<noteq> tp_nonce p" and pd: "envelope_digest sha256 p = Inr pd" and
    rsd: "build_response_digest sha256 o' rd (field_get fields 3) p pd = Inr rsd" and
    bs: "\<not> build_response_bytes o' rd (field_get fields 3) p pd rsd \<noteq> bs" and
    r: "Inr \<lparr>rs_operation_id = o', rs_request_digest = rd, rs_client_nonce = field_get fields 3,
       rs_proof = p, rs_proof_digest = pd, rs_response_digest = rsd,
       rs_canonical_bytes = build_response_bytes o' rd (field_get fields 3) p pd rsd\<rparr>
       = (Inr r :: AcquireTenureProtocolError + AcquireTenureResponseV1)"
    unfolding decode_response_def and_then_eq_Inr guard_eq_Inr map_err_eq_Inr Let_def by blast
  from r [symmetric] proof_constructed [OF pr] nonce pd rsd bs show "response_ok sha256 r" "rs_canonical_bytes r = bs"
    by (simp_all add: response_ok_def)
qed


section \<open>Frames\<close>

lemma payload_bound: "maximum_payload_bytes kind \<le> 938"
  by (cases kind) (simp_all add: protocol_limits)

lemma frame_kind_wire: "frame_kind_try_from_wire v = Inr kind \<longleftrightarrow> v = frame_kind_u16 kind"
  by (cases kind) (auto simp: frame_kind_try_from_wire_def)

lemma frame_bytes_ok:
  assumes "unat (fh_payload_bytes h) \<le> 938"
  shows "\<exists>n. frame_bytes h = Inr n \<and> unat n = 16 + unat (fh_payload_bytes h)"
proof -
  have "unat (ucast (fh_payload_bytes h) :: usize) = unat (fh_payload_bytes h)"
    by (simp add: unsigned_ucast_eq take_bit_nat_eq_self order_less_trans [OF unat_u32_bound])
  then have add: "checked_add (16 :: usize) (ucast (fh_payload_bytes h)) = Some (16 + ucast (fh_payload_bytes h))"
    and "unat (16 :: usize) + unat (ucast (fh_payload_bytes h) :: usize) = 16 + unat (fh_payload_bytes h)"
    using assms by (simp_all add: checked_add_fits)
  with add [unfolded checked_add_eq_Some]
  show ?thesis by (auto simp: frame_bytes_def ACQUIRE_TENURE_FRAME_HEADER_BYTES_def)
qed

lemma length_magics [simp]: "length ACQUIRE_FRAME_MAGIC = 8"
  by (simp add: ACQUIRE_FRAME_MAGIC_def)

lemma decode_build_frame:
  assumes "length payload \<le> maximum_payload_bytes kind"
  shows "decode_frame (build_frame kind payload) kind = Inr payload"
proof -
  have small: "length payload \<le> 938" using assms payload_bound [of kind] by simp
  then have len: "unat (of_nat (length payload) :: u32) = length payload" by (simp add: unat_of_nat)
  let ?h = "\<lparr>fh_kind = kind, fh_payload_bytes = of_nat (length payload)\<rparr>"
  have "decode_prefix (build_frame kind payload) = Inr ?h"
    using assms frame_kind_wire [of "frame_kind_u16 kind" kind]
    by (simp add: decode_prefix_def build_frame_def ACQUIRE_TENURE_FRAME_HEADER_BYTES_def len Let_def)
  moreover obtain n where "frame_bytes ?h = Inr n" "unat n = 16 + length payload"
    using frame_bytes_ok [of ?h] small len by auto
  moreover have "length (build_frame kind payload) = 16 + length payload" by (simp add: build_frame_def)
  ultimately show ?thesis
    using small by (simp add: decode_frame_def MAX_ACQUIRE_TENURE_FRAME_BYTES_def build_frame_def
        ACQUIRE_TENURE_FRAME_HEADER_BYTES_def protocol_limits)
qed

lemma take_drop_split:
  assumes "16 \<le> length frame"
  shows "frame = take 8 frame @ take 2 (drop 8 frame) @ take 2 (drop 10 frame) @ take 4 (drop 12 frame) @ drop 16 frame"
proof -
  have "take 4 (drop 12 frame) @ drop 16 frame = drop 12 frame"
    using append_take_drop_id [of 4 "drop 12 frame"] by simp
  moreover have "take 2 (drop 10 frame) @ drop 12 frame = drop 10 frame"
    using append_take_drop_id [of 2 "drop 10 frame"] by simp
  moreover have "take 2 (drop 8 frame) @ drop 10 frame = drop 8 frame"
    using append_take_drop_id [of 2 "drop 8 frame"] by simp
  ultimately show ?thesis by simp
qed

lemma decode_frame_sound:
  assumes "decode_frame frame kind = Inr payload"
  shows "frame = build_frame kind payload" and "length payload \<le> maximum_payload_bytes kind"
proof -
  from assms obtain h n where h: "decode_prefix frame = Inr h" "fh_kind h = kind"
    and n: "frame_bytes h = Inr n" "\<not> length frame < unat n" "\<not> unat n < length frame"
    and payload: "payload = drop 16 frame"
    by (auto simp: decode_frame_def and_then_eq_Inr ACQUIRE_TENURE_FRAME_HEADER_BYTES_def split: if_splits)
  from h have len: "16 \<le> length frame" and magic: "take 8 frame = ACQUIRE_FRAME_MAGIC"
    and version: "from_be (take 2 (drop 8 frame)) = ACQUIRE_TENURE_FRAME_VERSION"
    and k: "from_be (take 2 (drop 10 frame)) = frame_kind_u16 kind"
    and pb: "from_be (take 4 (drop 12 frame)) = fh_payload_bytes h"
    and bound: "unat (fh_payload_bytes h) \<le> maximum_payload_bytes kind"
    by (auto simp: decode_prefix_def and_then_eq_Inr frame_kind_wire Let_def
        ACQUIRE_TENURE_FRAME_HEADER_BYTES_def not_less split: if_splits)
  have "unat n = 16 + unat (fh_payload_bytes h)"
    using frame_bytes_ok [of h] n(1) bound payload_bound [of kind] by auto
  with n len payload have plen: "length payload = unat (fh_payload_bytes h)" by simp
  with bound show "length payload \<le> maximum_payload_bytes kind" by simp
  have "frame = take 8 frame @ take 2 (drop 8 frame) @ take 2 (drop 10 frame) @ take 4 (drop 12 frame) @ payload"
    using take_drop_split [OF len] payload by simp
  moreover have "take 2 (drop 8 frame) = be_u16 ACQUIRE_TENURE_FRAME_VERSION"
    "take 2 (drop 10 frame) = be_u16 (frame_kind_u16 kind)"
    "take 4 (drop 12 frame) = be_u32 (of_nat (length payload))"
    using version k pb len plen from_be_iff [of "take 2 (drop 8 frame)"] from_be_iff [of "take 2 (drop 10 frame)"]
      from_be_iff(2) [of "take 4 (drop 12 frame)"] by simp_all
  ultimately show "frame = build_frame kind payload" using magic by (simp add: build_frame_def)
qed

lemma decode_frame_iff:
  "decode_frame frame kind = Inr payload \<longleftrightarrow>
     frame = build_frame kind payload \<and> length payload \<le> maximum_payload_bytes kind"
  using decode_build_frame decode_frame_sound by blast

lemma request_length:
  assumes "request_ok sha256 rq"
  shows "length (rq_canonical_bytes rq) \<le> maximum_payload_bytes FrameRequest"
proof -
  have d: "draft_ok sha256 (rq_draft rq)" and fin: "finalize_ed25519 sha256 (rq_draft rq) (rq_auth_signature rq) = Inr rq"
    using assms by (simp_all add: request_ok_def)
  from request_format.admissible_bounded [OF request_admissible [OF d finalize_parts(4) [OF fin]]] show ?thesis
    by (simp add: finalize_parts(3) [OF fin] build_request_encoding)
qed

lemma response_length:
  assumes "response_ok sha256 r"
  shows "length (rs_canonical_bytes r) \<le> maximum_payload_bytes FrameResponse"
proof -
  have "response_format.admissible (response_fields r)"
    using assms by (intro response_admissible) (simp_all add: response_ok_def proof_ok_def)
  from response_format.admissible_bounded [OF this] assms show ?thesis
    unfolding response_ok_def build_response_encoding by simp
qed

section \<open>Properties\<close>

text \<open>C29. The acquire-request codec is strict and lossless: a frame decodes to a request exactly
when the request is well formed (its draft and signature pass every check of their
constructors) and the frame is the canonical encoding of that request. In particular every
request that was sent is read back unchanged, and no other frame is accepted.\<close>

theorem acquire_request_codec_strict:
  "decode_acquire_tenure_request_frame sha256 frame = Inr rq \<longleftrightarrow>
     request_ok sha256 rq \<and> frame = encode_acquire_tenure_request_frame rq"
proof
  assume "decode_acquire_tenure_request_frame sha256 frame = Inr rq"
  then obtain payload where "frame = build_frame FrameRequest payload" "decode_request sha256 payload = Inr rq"
    by (auto simp: decode_acquire_tenure_request_frame_def and_then_eq_Inr decode_frame_iff)
  with decode_request_sound show "request_ok sha256 rq \<and> frame = encode_acquire_tenure_request_frame rq"
    by (simp add: encode_acquire_tenure_request_frame_def)
next
  assume rq: "request_ok sha256 rq \<and> frame = encode_acquire_tenure_request_frame rq"
  then show "decode_acquire_tenure_request_frame sha256 frame = Inr rq"
    using decode_build_frame [OF request_length] decode_request_complete
    by (auto simp: decode_acquire_tenure_request_frame_def encode_acquire_tenure_request_frame_def)
qed

text \<open>C30. The acquire-response codec is strict, and a response is accepted only for its own
request: a frame decodes for a request exactly when it is the canonical encoding of a
well-formed response whose proof passes the contract checks and whose digests are the derived
ones, whose operation, request digest and nonce are those of the request, which fits the bound
the request declared, and whose proof claims the request's scope and writer under its nonce.\<close>

theorem acquire_response_codec_strict:
  "decode_acquire_tenure_response_frame_for_request sha256 frame rq = Inr r \<longleftrightarrow>
     response_ok sha256 r \<and> frame = encode_acquire_tenure_response_frame r \<and>
     rs_operation_id r = ti_operation_id (rq_intent rq) \<and> rs_request_digest r = rq_request_digest rq \<and>
     rs_client_nonce r = td_client_nonce (rq_draft rq) \<and>
     length (rs_canonical_bytes r) \<le> unat (td_max_response_payload_bytes (rq_draft rq)) \<and>
     wt_source_scope (tp_claim (rs_proof r)) = ti_scope (rq_intent rq) \<and>
     wt_writer (tp_claim (rs_proof r)) = ti_writer (rq_intent rq)"
    (is "?decode \<longleftrightarrow> ?ok \<and> ?frame \<and> ?bound")
proof
  assume ?decode
  then obtain payload where "frame = build_frame FrameResponse payload" "decode_response sha256 payload = Inr r"
    "validate_request_binding r rq = Inr ()"
    by (auto simp: decode_acquire_tenure_response_frame_for_request_def decode_for_request_def
        and_then_eq_Inr decode_frame_iff)
  with decode_response_sound show "?ok \<and> ?frame \<and> ?bound"
    by (auto simp: encode_acquire_tenure_response_frame_def validate_request_binding_def
        validate_proof_binding_def Let_def split: if_splits)
next
  assume r: "?ok \<and> ?frame \<and> ?bound"
  then have "validate_request_binding r rq = Inr ()"
    by (auto simp: validate_request_binding_def validate_proof_binding_def response_ok_def Let_def)
  with r decode_build_frame [OF response_length] decode_response_complete show ?decode
    by (auto simp: decode_acquire_tenure_response_frame_for_request_def decode_for_request_def
        encode_acquire_tenure_response_frame_def)
qed

end
