(* ===== verification/Tenure_Model.thy ===== *)
theory Tenure_Model
  imports Tenure_Codec Binary_Search Crypto
begin

text \<open>
  The state of the tenure authority, \<open>crates/paraegox-deployment/src/tenure_authority/model.rs\<close>:
  its provisioning, the intent of an acquire request, the retained issuance records and the
  snapshot with its validation, preflight and issuance.

  Code outside the repository is the record \<open>Externals\<close> of theory \<open>Crypto\<close>.
\<close>

section \<open>Data\<close>

type_synonym StoreInstanceId = bytes32
type_synonym AcquireOperationId = bytes16

definition AUTHORITY_SNAPSHOT_MAX_BYTES :: nat where "AUTHORITY_SNAPSHOT_MAX_BYTES = 1024 * 1024"
definition MAX_RETAINED_ACQUIRE_RECORDS :: nat where "MAX_RETAINED_ACQUIRE_RECORDS = 64"
definition MAX_ACQUIRE_REQUEST_BYTES :: nat where "MAX_ACQUIRE_REQUEST_BYTES = 64 * 1024"
definition MAX_ACQUIRE_RESPONSE_BYTES :: nat where "MAX_ACQUIRE_RESPONSE_BYTES = 64 * 1024"
definition ED25519_ALGORITHM :: u16 where "ED25519_ALGORITHM = 1"
definition ED25519_ALGORITHM_VERSION :: u16 where "ED25519_ALGORITHM_VERSION = 1"
definition ED25519_SIGNATURE_BYTES :: nat where "ED25519_SIGNATURE_BYTES = 64"

definition AUTHORITY_KEY_FINGERPRINT_DOMAIN :: bytes where
  "AUTHORITY_KEY_FINGERPRINT_DOMAIN =
     ascii ''paraegox.deployment.tenure-authority.key-fingerprint.sha256.v1''"

record AcquireAuthorization =
  aa_controller_principal :: PrincipalRef
  aa_controller_key :: ControllerAcquireKeyRef
  aa_controller_verification_key :: bytes32
  aa_controller_public_key_fingerprint :: bytes32

record AuthorityFingerprints =
  af_signing_key :: Digest32
  af_policy :: Digest32
  af_service_principal :: Digest32
  af_owner_identity :: Digest32

record AuthorityProvisioning =
  ap_source_scope :: DeploymentScopeId
  ap_authorized_writer :: DeploymentWriterRef
  ap_proof_authority :: TenureProofAuthority
  ap_verification_key :: bytes32
  ap_authorization :: AcquireAuthorization
  ap_fingerprints :: AuthorityFingerprints

record AcquireIntent =
  ai_operation_id :: AcquireOperationId
  ai_request_digest :: Digest32
  ai_exact_request_bytes :: bytes
  ai_writer :: DeploymentWriterRef
  ai_nonce :: bytes
  ai_response_bound :: u32

record EncodedAcquireResponse =
  er_exact_bytes :: bytes
  er_response_digest :: Digest32
  er_proof_envelope_digest :: Digest32

datatype IssuanceStatus = StatusIssued

record AcquireRecord =
  ar_operation_id :: AcquireOperationId
  ar_request_digest :: Digest32
  ar_exact_request_bytes :: bytes
  ar_writer :: DeploymentWriterRef
  ar_epoch :: u64
  ar_supersedes_through_epoch :: u64
  ar_nonce :: bytes
  ar_response_bound :: u32
  ar_signature :: bytes64
  ar_proof_envelope_digest :: Digest32
  ar_exact_response_bytes :: bytes
  ar_response_digest :: Digest32
  ar_status :: IssuanceStatus

record AuthoritySnapshot =
  as_store_instance_id :: StoreInstanceId
  as_owner_identity_fingerprint :: Digest32
  as_snapshot_sequence :: u64
  as_provisioning :: AuthorityProvisioning
  as_epoch_high_water :: u64
  as_acquire_records :: "AcquireRecord list"

datatype Preflight =
    Replay (rp_exact_response_bytes: bytes) (rp_response_digest: Digest32) (rp_proof_digest: Digest32)
  | Issue (is_next_epoch: u64) (is_next_snapshot_sequence: u64)

datatype ModelError =
    ZeroStoreInstanceId
  | ZeroOperationId
  | ZeroSourceScope
  | ZeroTenureAuthorityReference
  | ZeroTenureKeyReference
  | ZeroWriterReference
  | UnauthorizedWriter
  | ZeroControllerPrincipal
  | ZeroControllerKeyReference
  | ZeroControllerKeyFingerprint
  | InvalidControllerVerificationKey
  | WeakControllerVerificationKey
  | InvalidControllerKeyFingerprint
  | ControllerKeyFingerprintMismatch
  | ZeroSigningKeyFingerprint
  | ZeroPolicyFingerprint
  | ZeroServicePrincipalFingerprint
  | ZeroOwnerIdentityFingerprint
  | ZeroRequestDigest
  | ZeroResponseDigest
  | ZeroProofEnvelopeDigest
  | InvalidVerificationKey
  | WeakVerificationKey
  | SigningKeyFingerprintMismatch
  | UnsupportedSignatureProfile
  | EmptyRequest
  | RequestTooLarge
  | EmptyNonce
  | NonceTooLarge
  | ZeroResponseBound
  | ResponseBoundTooLarge
  | EmptyResponse
  | ResponseTooLarge
  | ZeroSnapshotSequence
  | SnapshotSequenceOverflow
  | SnapshotSequenceHistoryMismatch
  | OwnerIdentityFingerprintMismatch
  | AcquireCapacityExceeded
  | EpochHistoryMismatch
  | NonCanonicalOperationOrdering
  | DuplicateEpoch
  | InvalidEpoch
  | InvalidSupersedesEpoch
  | InvalidIssuanceStatus
  | InvalidStoredRequest
  | StoredRequestBindingMismatch
  | InvalidStoredRequestSignature
  | InvalidStoredResponse
  | StoredResponseBindingMismatch
  | ProofEnvelopeDigestMismatch
  | InvalidProofSignature
  | ValidationWorkerPanicked
  | OperationDigestConflict
  | EpochOverflow
  | OperationAlreadyIssued
  | EpochTransitionMismatch
  | SnapshotSequenceTransitionMismatch
  | ResponseProofBindingMismatch
  | ModelDigest DigestBuildError
  | ModelProof TenureProofError

section \<open>Provisioning and intents\<close>

definition ensure_nonzero :: "bytes \<Rightarrow> ModelError \<Rightarrow> ModelError + unit" where
  "ensure_nonzero bs e = (if list_all (\<lambda>b. b = 0) bs then Inl e else Inr ())"

definition ensure_nonzero_digest :: "Digest32 \<Rightarrow> ModelError \<Rightarrow> ModelError + unit" where
  "ensure_nonzero_digest digest e = ensure_nonzero (arr32 digest) e"

definition store_instance_id_try_from_bytes :: "bytes32 \<Rightarrow> ModelError + StoreInstanceId" where
  "store_instance_id_try_from_bytes bs =
     (if list_all (\<lambda>b. b = 0) (arr32 bs) then Inl ZeroStoreInstanceId else Inr bs)"

definition operation_id_try_from_bytes :: "bytes16 \<Rightarrow> ModelError + AcquireOperationId" where
  "operation_id_try_from_bytes bs =
     (if list_all (\<lambda>b. b = 0) (arr16 bs) then Inl ZeroOperationId else Inr bs)"

definition signing_key_fingerprint_for :: "Externals \<Rightarrow> bytes32 \<Rightarrow> ModelError + Digest32" where
  "signing_key_fingerprint_for X key =
     map_err ModelDigest (build_digest (ex_sha256 X) AUTHORITY_KEY_FINGERPRINT_DOMAIN [field_bytes (arr32 key)])"

definition provisioning_try_new ::
  "Externals \<Rightarrow> DeploymentScopeId \<Rightarrow> DeploymentWriterRef \<Rightarrow> TenureProofAuthority \<Rightarrow> bytes32 \<Rightarrow>
   AcquireAuthorization \<Rightarrow> AuthorityFingerprints \<Rightarrow> ModelError + AuthorityProvisioning" where
  "provisioning_try_new X source_scope authorized_writer proof_authority verification_key authorization
       fingerprints =
     and_then (ensure_nonzero (arr16 source_scope) ZeroSourceScope) (\<lambda>_.
     and_then (ensure_nonzero (arr16 authorized_writer) ZeroWriterReference) (\<lambda>_.
     and_then (ensure_nonzero (arr16 (pa_authority proof_authority)) ZeroTenureAuthorityReference) (\<lambda>_.
     and_then (ensure_nonzero (arr16 (pa_key proof_authority)) ZeroTenureKeyReference) (\<lambda>_.
     and_then (ensure_nonzero (arr16 (aa_controller_principal authorization)) ZeroControllerPrincipal) (\<lambda>_.
     and_then (ensure_nonzero (arr16 (aa_controller_key authorization)) ZeroControllerKeyReference) (\<lambda>_.
     if \<not> ex_key_valid X (aa_controller_verification_key authorization)
     then Inl InvalidControllerVerificationKey
     else if ex_key_weak X (aa_controller_verification_key authorization)
     then Inl WeakControllerVerificationKey
     else
     and_then (map_err (\<lambda>_. InvalidControllerKeyFingerprint)
                 (for_ed25519_key (ex_sha256 X) (aa_controller_verification_key authorization)))
       (\<lambda>controller_fingerprint.
     if controller_fingerprint \<noteq> aa_controller_public_key_fingerprint authorization
     then Inl ControllerKeyFingerprintMismatch
     else
     and_then (ensure_nonzero (arr32 (aa_controller_public_key_fingerprint authorization))
                 ZeroControllerKeyFingerprint) (\<lambda>_.
     and_then (ensure_nonzero_digest (af_signing_key fingerprints) ZeroSigningKeyFingerprint) (\<lambda>_.
     and_then (ensure_nonzero_digest (af_policy fingerprints) ZeroPolicyFingerprint) (\<lambda>_.
     and_then (ensure_nonzero_digest (af_service_principal fingerprints) ZeroServicePrincipalFingerprint) (\<lambda>_.
     and_then (ensure_nonzero_digest (af_owner_identity fingerprints) ZeroOwnerIdentityFingerprint) (\<lambda>_.
     if \<not> ex_key_valid X verification_key then Inl InvalidVerificationKey
     else if ex_key_weak X verification_key then Inl WeakVerificationKey
     else
     and_then (signing_key_fingerprint_for X verification_key) (\<lambda>actual_fingerprint.
     if actual_fingerprint \<noteq> af_signing_key fingerprints then Inl SigningKeyFingerprintMismatch
     else if pa_algorithm proof_authority \<noteq> ED25519_ALGORITHM
             \<or> pa_algorithm_version proof_authority \<noteq> ED25519_ALGORITHM_VERSION
     then Inl UnsupportedSignatureProfile
     else Inr \<lparr>ap_source_scope = source_scope, ap_authorized_writer = authorized_writer,
               ap_proof_authority = proof_authority, ap_verification_key = verification_key,
               ap_authorization = authorization, ap_fingerprints = fingerprints\<rparr>)))))))))))))"

definition provisioning_validate :: "Externals \<Rightarrow> AuthorityProvisioning \<Rightarrow> ModelError + unit" where
  "provisioning_validate X self =
     and_then (provisioning_try_new X (ap_source_scope self) (ap_authorized_writer self)
                 (ap_proof_authority self) (ap_verification_key self) (ap_authorization self)
                 (ap_fingerprints self)) (\<lambda>_. Inr ())"

definition intent_try_new ::
  "AcquireOperationId \<Rightarrow> Digest32 \<Rightarrow> bytes \<Rightarrow> DeploymentWriterRef \<Rightarrow> bytes \<Rightarrow> u32 \<Rightarrow>
   ModelError + AcquireIntent" where
  "intent_try_new operation_id request_digest exact_request_bytes writer nonce response_bound =
     and_then (ensure_nonzero_digest request_digest ZeroRequestDigest) (\<lambda>_.
     if exact_request_bytes = [] then Inl EmptyRequest
     else if length exact_request_bytes > MAX_ACQUIRE_REQUEST_BYTES then Inl RequestTooLarge
     else
     and_then (ensure_nonzero (arr16 writer) ZeroWriterReference) (\<lambda>_.
     if nonce = [] then Inl EmptyNonce
     else if length nonce > MAX_TENURE_NONCE_BYTES then Inl NonceTooLarge
     else if unat response_bound = 0 then Inl ZeroResponseBound
     else if unat response_bound > MAX_ACQUIRE_RESPONSE_BYTES then Inl ResponseBoundTooLarge
     else Inr \<lparr>ai_operation_id = operation_id, ai_request_digest = request_digest,
               ai_exact_request_bytes = exact_request_bytes, ai_writer = writer, ai_nonce = nonce,
               ai_response_bound = response_bound\<rparr>))"

definition encoded_response_try_new ::
  "bytes \<Rightarrow> Digest32 \<Rightarrow> Digest32 \<Rightarrow> ModelError + EncodedAcquireResponse" where
  "encoded_response_try_new exact_bytes response_digest proof_envelope_digest =
     (if exact_bytes = [] then Inl EmptyResponse
      else if length exact_bytes > MAX_ACQUIRE_RESPONSE_BYTES then Inl ResponseTooLarge
      else
      and_then (ensure_nonzero_digest response_digest ZeroResponseDigest) (\<lambda>_.
      and_then (ensure_nonzero_digest proof_envelope_digest ZeroProofEnvelopeDigest) (\<lambda>_.
        Inr \<lparr>er_exact_bytes = exact_bytes, er_response_digest = response_digest,
             er_proof_envelope_digest = proof_envelope_digest\<rparr>)))"

section \<open>Validation\<close>

definition validate_record_structure :: "AuthoritySnapshot \<Rightarrow> AcquireRecord \<Rightarrow> ModelError + unit" where
  "validate_record_structure self record =
     and_then (operation_id_try_from_bytes (ar_operation_id record)) (\<lambda>_.
     and_then (ensure_nonzero_digest (ar_request_digest record) ZeroRequestDigest) (\<lambda>_.
     if ar_exact_request_bytes record = [] then Inl EmptyRequest
     else if length (ar_exact_request_bytes record) > MAX_ACQUIRE_REQUEST_BYTES then Inl RequestTooLarge
     else
     and_then (ensure_nonzero (arr16 (ar_writer record)) ZeroWriterReference) (\<lambda>_.
     if ar_writer record \<noteq> ap_authorized_writer (as_provisioning self) then Inl UnauthorizedWriter
     else if ar_epoch record = 0 \<or> ar_epoch record > as_epoch_high_water self then Inl InvalidEpoch
     else if ar_supersedes_through_epoch record \<noteq> ar_epoch record - 1 then Inl InvalidSupersedesEpoch
     else if ar_nonce record = [] then Inl EmptyNonce
     else if length (ar_nonce record) > MAX_TENURE_NONCE_BYTES then Inl NonceTooLarge
     else if unat (ar_response_bound record) = 0
             \<or> unat (ar_response_bound record) > MAX_ACQUIRE_RESPONSE_BYTES
     then Inl ResponseBoundTooLarge
     else if ar_exact_response_bytes record = [] then Inl EmptyResponse
     else if length (ar_exact_response_bytes record) > unat (ar_response_bound record)
             \<or> length (ar_exact_response_bytes record) > MAX_ACQUIRE_RESPONSE_BYTES
     then Inl ResponseTooLarge
     else
     and_then (ensure_nonzero_digest (ar_response_digest record) ZeroResponseDigest) (\<lambda>_.
     and_then (ensure_nonzero_digest (ar_proof_envelope_digest record) ZeroProofEnvelopeDigest) (\<lambda>_.
     if ar_status record \<noteq> StatusIssued then Inl InvalidIssuanceStatus else Inr ())))))"

definition request_bound_to ::
  "AuthoritySnapshot \<Rightarrow> AcquireRecord \<Rightarrow> AcquireTenureRequestV1 \<Rightarrow> bool" where
  "request_bound_to self record request \<longleftrightarrow>
     \<not> (ti_operation_id (rq_intent request) \<noteq> ar_operation_id record
        \<or> rq_request_digest request \<noteq> ar_request_digest record
        \<or> ti_scope (rq_intent request) \<noteq> ap_source_scope (as_provisioning self)
        \<or> ti_writer (rq_intent request) \<noteq> ar_writer record
        \<or> td_client_nonce (rq_draft request) \<noteq> ar_nonce record
        \<or> td_max_response_payload_bytes (rq_draft request) \<noteq> ar_response_bound record
        \<or> td_controller_principal (rq_draft request) \<noteq>
            aa_controller_principal (ap_authorization (as_provisioning self))
        \<or> td_controller_key (rq_draft request) \<noteq>
            aa_controller_key (ap_authorization (as_provisioning self))
        \<or> td_controller_public_key_fingerprint (rq_draft request) \<noteq>
            aa_controller_public_key_fingerprint (ap_authorization (as_provisioning self)))"

text \<open>\<open>try_into\<close> of a slice into \<open>[u8; 64]\<close>.\<close>

definition signature_array :: "bytes \<Rightarrow> bytes64 option" where
  "signature_array bs = (if length bs = ED25519_SIGNATURE_BYTES then Some (from_be bs) else None)"

definition validate_record_protocol ::
  "Externals \<Rightarrow> AuthoritySnapshot \<Rightarrow> AcquireRecord \<Rightarrow> ModelError + unit" where
  "validate_record_protocol X self record =
     and_then (map_err (\<lambda>_. InvalidStoredRequest)
                 (decode_request (ex_sha256 X) (ar_exact_request_bytes record))) (\<lambda>request.
     if \<not> request_bound_to self record request then Inl StoredRequestBindingMismatch
     else
     and_then (ok_or (signature_array (rq_auth_signature request)) InvalidStoredRequestSignature)
       (\<lambda>request_signature.
     and_then (map_err (\<lambda>_. InvalidStoredRequestSignature) (request_signing_transcript request))
       (\<lambda>request_transcript.
     let authorization = ap_authorization (as_provisioning self) in
     if \<not> ex_key_valid X (aa_controller_verification_key authorization)
     then Inl InvalidControllerVerificationKey
     else if \<not> ex_verify_strict X (aa_controller_verification_key authorization) request_transcript
               request_signature
     then Inl InvalidStoredRequestSignature
     else
     and_then (map_err ModelProof
                 (tenure_claim_try_new (ap_source_scope (as_provisioning self)) (ar_writer record)
                    (ar_epoch record) (ar_supersedes_through_epoch record))) (\<lambda>claim.
     and_then (map_err ModelProof
                 (tenure_proof_try_new (ap_proof_authority (as_provisioning self)) claim (ar_nonce record)
                    (arr64 (ar_signature record)))) (\<lambda>tenure_proof.
     and_then (map_err ModelDigest (envelope_digest (ex_sha256 X) tenure_proof)) (\<lambda>digest.
     if digest \<noteq> ar_proof_envelope_digest record then Inl ProofEnvelopeDigestMismatch
     else
     and_then (map_err ModelProof (signing_transcript tenure_proof)) (\<lambda>transcript.
     if \<not> ex_key_valid X (ap_verification_key (as_provisioning self)) then Inl InvalidVerificationKey
     else if \<not> ex_verify_strict X (ap_verification_key (as_provisioning self)) transcript
               (ar_signature record)
     then Inl InvalidProofSignature
     else
     and_then (map_err (\<lambda>_. InvalidStoredResponse)
                 (decode_for_request (ex_sha256 X) (ar_exact_response_bytes record) request))
       (\<lambda>response.
     if rs_response_digest response \<noteq> ar_response_digest record
        \<or> rs_proof_digest response \<noteq> ar_proof_envelope_digest record
        \<or> rs_proof response \<noteq> tenure_proof
     then Inl StoredResponseBindingMismatch
     else Inr ()))))))))"

fun try_for_each :: "('a \<Rightarrow> 'e + unit) \<Rightarrow> 'a list \<Rightarrow> 'e + unit" where
  "try_for_each f [] = Inr ()"
| "try_for_each f (x # xs) = and_then (f x) (\<lambda>_. try_for_each f xs)"

definition div_ceil :: "nat \<Rightarrow> nat \<Rightarrow> nat" where
  "div_ceil a b = (a + b - 1) div b"

text \<open>\<open>slice::chunks\<close>: consecutive pieces, the last one possibly shorter.\<close>

function chunks :: "nat \<Rightarrow> 'a list \<Rightarrow> 'a list list" where
  "chunks n xs = (if n = 0 \<or> xs = [] then [] else take n xs # chunks n (drop n xs))"
  by pat_completeness auto
termination
  by (relation "measure (\<lambda>(n, xs). length xs)") (auto simp: length_greater_0_conv)

declare chunks.simps [simp del]

definition validate_record_protocols :: "Externals \<Rightarrow> AuthoritySnapshot \<Rightarrow> ModelError + unit" where
  "validate_record_protocols X self =
     (let records = as_acquire_records self;
          worker_count = min (min (ex_parallelism X) 8) (length records) in
      if worker_count \<le> 1 then try_for_each (validate_record_protocol X self) records
      else
        let chunk_size = div_ceil (length records) worker_count;
            workers = map (try_for_each (validate_record_protocol X self)) (chunks chunk_size records) in
        try_for_each (\<lambda>joined. joined) workers)"

fun validate_history ::
  "AuthoritySnapshot \<Rightarrow> AcquireOperationId option \<Rightarrow> bool list \<Rightarrow> AcquireRecord list \<Rightarrow>
   ModelError + bool list" where
  "validate_history self previous observed [] = Inr observed"
| "validate_history self previous observed (record # records) =
     (if (case previous of Some p \<Rightarrow> p \<ge> ar_operation_id record | None \<Rightarrow> False)
      then Inl NonCanonicalOperationOrdering
      else and_then (validate_record_structure self record) (\<lambda>_.
        let epoch_index = unat (saturating_sub (ar_epoch record) 1) in
        if epoch_index \<ge> length observed then Inl EpochHistoryMismatch
        else if observed ! epoch_index then Inl DuplicateEpoch
        else validate_history self (Some (ar_operation_id record)) (observed[epoch_index := True]) records))"

definition snapshot_validate :: "Externals \<Rightarrow> AuthoritySnapshot \<Rightarrow> ModelError + unit" where
  "snapshot_validate X self =
     and_then (provisioning_validate X (as_provisioning self)) (\<lambda>_.
     if as_snapshot_sequence self = 0 then Inl ZeroSnapshotSequence
     else if as_owner_identity_fingerprint self \<noteq> af_owner_identity (ap_fingerprints (as_provisioning self))
     then Inl OwnerIdentityFingerprintMismatch
     else if length (as_acquire_records self) > MAX_RETAINED_ACQUIRE_RECORDS then Inl AcquireCapacityExceeded
     else
     and_then (ok_or (try_of_nat (length (as_acquire_records self))) AcquireCapacityExceeded)
       (\<lambda>record_count.
     if as_epoch_high_water self \<noteq> record_count then Inl EpochHistoryMismatch
     else
     and_then (ok_or (checked_add (as_epoch_high_water self) 1) SnapshotSequenceOverflow)
       (\<lambda>expected_sequence.
     if as_snapshot_sequence self \<noteq> expected_sequence then Inl SnapshotSequenceHistoryMismatch
     else
     and_then (validate_history self None (replicate MAX_RETAINED_ACQUIRE_RECORDS False)
                 (as_acquire_records self)) (\<lambda>observed.
     if list_ex (\<lambda>o'. \<not> o') (take (length (as_acquire_records self)) observed)
     then Inl EpochHistoryMismatch
     else validate_record_protocols X self))))"

section \<open>Issuance\<close>

definition snapshot_initial ::
  "Externals \<Rightarrow> StoreInstanceId \<Rightarrow> AuthorityProvisioning \<Rightarrow> ModelError + AuthoritySnapshot" where
  "snapshot_initial X store_instance_id provisioning =
     (let snapshot = \<lparr>as_store_instance_id = store_instance_id,
                      as_owner_identity_fingerprint = af_owner_identity (ap_fingerprints provisioning),
                      as_snapshot_sequence = 1, as_provisioning = provisioning,
                      as_epoch_high_water = 0, as_acquire_records = []\<rparr> in
      and_then (snapshot_validate X snapshot) (\<lambda>_. Inr snapshot))"

definition preflight :: "AuthoritySnapshot \<Rightarrow> AcquireIntent \<Rightarrow> ModelError + Preflight" where
  "preflight self intent =
     (case binary_search_by_key ar_operation_id (ai_operation_id intent) (as_acquire_records self) of
        Inr index \<Rightarrow>
          let record = as_acquire_records self ! index in
          if ar_request_digest record \<noteq> ai_request_digest intent then Inl OperationDigestConflict
          else Inr (Replay (ar_exact_response_bytes record) (ar_response_digest record)
                      (ar_proof_envelope_digest record))
      | Inl _ \<Rightarrow>
          if length (as_acquire_records self) = MAX_RETAINED_ACQUIRE_RECORDS
          then Inl AcquireCapacityExceeded
          else
          and_then (ok_or (checked_add (as_epoch_high_water self) 1) EpochOverflow) (\<lambda>next_epoch.
          and_then (ok_or (checked_add (as_snapshot_sequence self) 1) SnapshotSequenceOverflow)
            (\<lambda>next_snapshot_sequence. Inr (Issue next_epoch next_snapshot_sequence))))"

definition with_issued_record ::
  "Externals \<Rightarrow> AuthoritySnapshot \<Rightarrow> AcquireIntent \<Rightarrow> u64 \<Rightarrow> u64 \<Rightarrow> bytes64 \<Rightarrow> Digest32 \<Rightarrow>
   EncodedAcquireResponse \<Rightarrow> ModelError + AuthoritySnapshot" where
  "with_issued_record X self intent next_epoch next_snapshot_sequence signature proof_envelope_digest
       response =
     and_then (preflight self intent) (\<lambda>flight.
     case flight of
       Replay _ _ _ \<Rightarrow> Inl OperationAlreadyIssued
     | Issue expected_epoch expected_sequence \<Rightarrow>
         if next_epoch \<noteq> expected_epoch then Inl EpochTransitionMismatch
         else if next_snapshot_sequence \<noteq> expected_sequence then Inl SnapshotSequenceTransitionMismatch
         else if er_proof_envelope_digest response \<noteq> proof_envelope_digest
         then Inl ResponseProofBindingMismatch
         else if length (er_exact_bytes response) > unat (ai_response_bound intent)
         then Inl ResponseTooLarge
         else
           let record = \<lparr>ar_operation_id = ai_operation_id intent,
                 ar_request_digest = ai_request_digest intent,
                 ar_exact_request_bytes = ai_exact_request_bytes intent, ar_writer = ai_writer intent,
                 ar_epoch = next_epoch, ar_supersedes_through_epoch = as_epoch_high_water self,
                 ar_nonce = ai_nonce intent, ar_response_bound = ai_response_bound intent,
                 ar_signature = signature, ar_proof_envelope_digest = proof_envelope_digest,
                 ar_exact_response_bytes = er_exact_bytes response,
                 ar_response_digest = er_response_digest response, ar_status = StatusIssued\<rparr>;
               insertion = (case binary_search_by_key ar_operation_id (ai_operation_id intent)
                                   (as_acquire_records self) of Inr index \<Rightarrow> index | Inl index \<Rightarrow> index);
               next = self\<lparr>as_acquire_records := vec_insert insertion record (as_acquire_records self),
                           as_epoch_high_water := next_epoch,
                           as_snapshot_sequence := next_snapshot_sequence\<rparr> in
           and_then (snapshot_validate X next) (\<lambda>_. Inr next))"

end
