(* ===== verification/Tenure_History.thy ===== *)
theory Tenure_History
  imports Tenure_Model
begin

text \<open>
  What the validation of a tenure-authority snapshot establishes, and what an issuance does to
  it: the parallel check of the records has the verdict of the sequential one, a snapshot
  validates exactly when its history is well formed, and issuing appends one epoch.
\<close>

section \<open>The validation workers\<close>

lemma try_for_each_append:
  "try_for_each f (xs @ ys) = and_then (try_for_each f xs) (\<lambda>_. try_for_each f ys)"
proof (induction xs)
  case (Cons x xs)
  then show ?case by (cases "f x") simp_all
qed simp

lemma try_for_each_ok [res_simps]:
  "try_for_each f xs = Inr () \<longleftrightarrow> (\<forall>x \<in> set xs. f x = Inr ())"
  by (induction xs) (auto simp: res_simps)

lemma join_workers:
  "0 < n \<Longrightarrow> try_for_each (\<lambda>joined. joined) (map (try_for_each f) (chunks n xs)) = try_for_each f xs"
proof (induction n xs rule: chunks.induct)
  case (1 n xs)
  show ?case
  proof (cases "xs = []")
    case True
    then show ?thesis by (simp add: chunks.simps)
  next
    case False
    then have "try_for_each (\<lambda>joined. joined) (map (try_for_each f) (chunks n xs)) =
        and_then (try_for_each f (take n xs)) (\<lambda>_. try_for_each f (drop n xs))"
      using 1 by (subst chunks.simps) simp
    then show ?thesis by (simp flip: try_for_each_append)
  qed
qed

lemma chunk_size_positive: "xs \<noteq> [] \<Longrightarrow> 1 < w \<Longrightarrow> 0 < div_ceil (length xs) w"
  by (cases xs) (simp_all add: div_ceil_def div_greater_zero_iff)

lemma sequential_protocols:
  "validate_record_protocols X s = try_for_each (validate_record_protocol X s) (as_acquire_records s)"
proof -
  let ?w = "min (min (ex_parallelism X) 8) (length (as_acquire_records s))"
  show ?thesis
  proof (cases "?w \<le> 1")
    case True
    then show ?thesis by (simp only: validate_record_protocols_def Let_def if_True)
  next
    case False
    then have "0 < div_ceil (length (as_acquire_records s)) ?w"
      by (intro chunk_size_positive) auto
    then show ?thesis using False join_workers
      by (simp only: validate_record_protocols_def Let_def if_False)
  qed
qed

section \<open>Well-formed histories\<close>

abbreviation epoch_index :: "AcquireRecord \<Rightarrow> nat" where
  "epoch_index r \<equiv> unat (ar_epoch r) - 1"

definition operations_ascend :: "AcquireRecord list \<Rightarrow> bool" where
  "operations_ascend rs \<longleftrightarrow> sorted_wrt (<) (map ar_operation_id rs)"

definition structure_ok :: "AuthoritySnapshot \<Rightarrow> bool" where
  "structure_ok s \<longleftrightarrow> (\<forall>r \<in> set (as_acquire_records s). validate_record_structure s r = Inr ())"

text \<open>The abstract contract of a snapshot: one record per epoch from 1 to the high water mark.\<close>

definition snapshot_wf :: "Externals \<Rightarrow> AuthoritySnapshot \<Rightarrow> bool" where
  "snapshot_wf X s \<longleftrightarrow>
     provisioning_validate X (as_provisioning s) = Inr ()
     \<and> as_owner_identity_fingerprint s = af_owner_identity (ap_fingerprints (as_provisioning s))
     \<and> length (as_acquire_records s) \<le> MAX_RETAINED_ACQUIRE_RECORDS
     \<and> unat (as_epoch_high_water s) = length (as_acquire_records s)
     \<and> unat (as_snapshot_sequence s) = length (as_acquire_records s) + 1
     \<and> operations_ascend (as_acquire_records s)
     \<and> distinct (map ar_epoch (as_acquire_records s))
     \<and> structure_ok s
     \<and> (\<forall>r \<in> set (as_acquire_records s). validate_record_protocol X s r = Inr ())"

lemma structure_epoch:
  assumes "validate_record_structure s r = Inr ()"
  shows "0 < unat (ar_epoch r)" "unat (ar_epoch r) \<le> unat (as_epoch_high_water s)"
    "ar_supersedes_through_epoch r = ar_epoch r - 1" "ar_writer r = ap_authorized_writer (as_provisioning s)"
    "length (ar_exact_response_bytes r) \<le> unat (ar_response_bound r)"
proof -
  have a: "\<not> (ar_epoch r = 0 \<or> ar_epoch r > as_epoch_high_water s)"
    and b: "\<not> (ar_supersedes_through_epoch r \<noteq> ar_epoch r - 1)"
    and c: "\<not> (ar_writer r \<noteq> ap_authorized_writer (as_provisioning s))"
    and d: "\<not> (length (ar_exact_response_bytes r) > unat (ar_response_bound r)
              \<or> length (ar_exact_response_bytes r) > MAX_ACQUIRE_RESPONSE_BYTES)"
    using assms unfolding validate_record_structure_def and_then_eq_Inr guard_eq_Inr by blast+
  show "0 < unat (ar_epoch r)" "unat (ar_epoch r) \<le> unat (as_epoch_high_water s)"
    using a by (auto simp: word_le_nat_alt unat_gt_0 not_less)
  show "ar_supersedes_through_epoch r = ar_epoch r - 1"
    "ar_writer r = ap_authorized_writer (as_provisioning s)"
    "length (ar_exact_response_bytes r) \<le> unat (ar_response_bound r)"
    using b c d by auto
qed

text \<open>The loop of \<open>validate\<close>, from any observed set.\<close>

lemma validate_history_ok:
  "validate_history s previous observed rs = Inr observed' \<longleftrightarrow>
     operations_ascend rs
     \<and> (\<forall>p. previous = Some p \<longrightarrow> rs \<noteq> [] \<longrightarrow> p < ar_operation_id (hd rs))
     \<and> (\<forall>r \<in> set rs. validate_record_structure s r = Inr () \<and> epoch_index r < length observed
                     \<and> \<not> observed ! epoch_index r)
     \<and> distinct (map epoch_index rs)
     \<and> observed' = foldl (\<lambda>obs r. obs[epoch_index r := True]) observed rs"
proof (induction rs arbitrary: previous observed)
  case Nil
  then show ?case by (auto simp: operations_ascend_def)
next
  case (Cons r rs)
  let ?o = "observed[epoch_index r := True]"
  have asc: "operations_ascend (r # rs) \<longleftrightarrow>
      operations_ascend rs \<and> (rs \<noteq> [] \<longrightarrow> ar_operation_id r < ar_operation_id (hd rs))"
    by (cases rs) (auto simp: operations_ascend_def)
  have prev: "(case previous of Some p \<Rightarrow> p \<ge> ar_operation_id r | None \<Rightarrow> False) \<longleftrightarrow>
      \<not> (\<forall>p. previous = Some p \<longrightarrow> p < ar_operation_id r)"
    by (cases previous) (auto simp: not_less)
  have step: "(\<forall>q \<in> set rs. validate_record_structure s q = Inr () \<and> epoch_index q < length ?o \<and> \<not> ?o ! epoch_index q)
      \<and> distinct (map epoch_index rs) \<longleftrightarrow>
      (\<forall>q \<in> set rs. validate_record_structure s q = Inr () \<and> epoch_index q < length observed \<and> \<not> observed ! epoch_index q)
      \<and> distinct (map epoch_index (r # rs))" if "epoch_index r < length observed"
    using that by (auto simp: nth_list_update split: if_splits)
  show ?case
    using step unfolding validate_history.simps prev asc
    by (auto simp: Let_def Cons.IH res_simps unat_saturating_sub)
qed

lemma mark_observed: "i < length obs \<Longrightarrow> obs[k := True] ! i \<longleftrightarrow> obs ! i \<or> i = k"
  by (cases "i = k") auto

lemma foldl_observed_length:
  "length (foldl (\<lambda>obs r. obs[epoch_index r := True]) observed rs) = length observed"
  by (induction rs arbitrary: observed) auto

lemma foldl_observed:
  "i < length observed \<Longrightarrow>
     foldl (\<lambda>obs r. obs[epoch_index r := True]) observed rs ! i \<longleftrightarrow>
       observed ! i \<or> i \<in> epoch_index ` set rs"
  by (induction rs arbitrary: observed) (auto simp: mark_observed)

lemma epoch_index_inj:
  assumes "\<forall>r \<in> set rs. 0 < unat (ar_epoch r)"
  shows "distinct (map epoch_index rs) \<longleftrightarrow> distinct (map ar_epoch rs)"
proof -
  have "inj_on epoch_index (set rs) \<longleftrightarrow> inj_on ar_epoch (set rs)"
    unfolding inj_on_def using assms by (metis Suc_pred' unat_eq_iff diff_Suc_1 Suc_diff_1)
  then show ?thesis by (simp add: distinct_map)
qed

text \<open>A one-to-one numbering of as many records as there are epochs leaves no gap.\<close>

lemma no_gap:
  assumes "distinct (map epoch_index rs)" "\<forall>r \<in> set rs. epoch_index r < length rs"
  shows "epoch_index ` set rs = {0..<length rs}"
proof (rule card_subset_eq)
  show "epoch_index ` set rs \<subseteq> {0..<length rs}" using assms(2) by auto
  show "card (epoch_index ` set rs) = card {0..<length rs}"
    using assms(1) by (metis card_atLeastLessThan diff_zero distinct_card length_map set_map)
qed simp

lemma history_complete:
  assumes "validate_history s None (replicate MAX_RETAINED_ACQUIRE_RECORDS False) rs = Inr observed"
    and len: "length rs \<le> MAX_RETAINED_ACQUIRE_RECORDS" "unat (as_epoch_high_water s) = length rs"
  shows "\<not> list_ex (\<lambda>o'. \<not> o') (take (length rs) observed)"
proof -
  note ok = assms(1) [unfolded validate_history_ok]
  have "epoch_index r < length rs" if "r \<in> set rs" for r
    using structure_epoch(1,2) [of s r] ok that len(2) by fastforce
  then have all: "epoch_index ` set rs = {0..<length rs}" using ok by (intro no_gap) auto
  have "observed ! i" if "i < length rs" for i
  proof -
    have "i \<in> epoch_index ` set rs" using all that by simp
    then show ?thesis
      using foldl_observed [of i "replicate MAX_RETAINED_ACQUIRE_RECORDS False" rs] ok that len(1) by simp
  qed
  moreover have "length observed = MAX_RETAINED_ACQUIRE_RECORDS" 
    using ok foldl_observed_length [of "replicate MAX_RETAINED_ACQUIRE_RECORDS False" rs] by simp
  ultimately show ?thesis using len(1) by (auto simp: list_ex_iff in_set_conv_nth)
qed

lemma validate_history_wf:
  assumes "length (as_acquire_records s) \<le> MAX_RETAINED_ACQUIRE_RECORDS"
    and "unat (as_epoch_high_water s) = length (as_acquire_records s)"
  shows "(\<exists>observed. validate_history s None (replicate MAX_RETAINED_ACQUIRE_RECORDS False)
             (as_acquire_records s) = Inr observed) \<longleftrightarrow>
         operations_ascend (as_acquire_records s) \<and> distinct (map ar_epoch (as_acquire_records s))
         \<and> structure_ok s"
proof -
  have idx: "epoch_index r < MAX_RETAINED_ACQUIRE_RECORDS \<and> 0 < unat (ar_epoch r)"
    if "validate_record_structure s r = Inr ()" for r
    using structure_epoch(1,2) [OF that] assms by linarith
  show ?thesis
    using idx epoch_index_inj [of "as_acquire_records s"]
    by (auto simp: validate_history_ok structure_ok_def)
qed

lemma snapshot_validate_iff: "snapshot_validate X s = Inr () \<longleftrightarrow> snapshot_wf X s"
proof (cases "length (as_acquire_records s) \<le> MAX_RETAINED_ACQUIRE_RECORDS
              \<and> unat (as_epoch_high_water s) = length (as_acquire_records s)
              \<and> unat (as_snapshot_sequence s) = length (as_acquire_records s) + 1")
  case True
  then have few: "length (as_acquire_records s) \<le> 64" by (simp add: MAX_RETAINED_ACQUIRE_RECORDS_def)
  have a: "try_of_nat (length (as_acquire_records s)) = Some (as_epoch_high_water s)"
    using True by (simp add: checked)
  have b: "checked_add (as_epoch_high_water s) 1 = Some (as_snapshot_sequence s)"
    using True by (simp add: checked)
  have c: "as_snapshot_sequence s \<noteq> 0" using True by auto
  let ?h = "validate_history s None (replicate MAX_RETAINED_ACQUIRE_RECORDS False) (as_acquire_records s)"
  have "snapshot_validate X s = Inr () \<longleftrightarrow>
      provisioning_validate X (as_provisioning s) = Inr ()
      \<and> as_owner_identity_fingerprint s = af_owner_identity (ap_fingerprints (as_provisioning s))
      \<and> (\<exists>observed. ?h = Inr observed) \<and> validate_record_protocols X s = Inr ()"
    using a b c True history_complete [of s "as_acquire_records s"]
    by (auto simp: snapshot_validate_def res_simps)
  then show ?thesis
    using True validate_history_wf [of s]
    by (auto simp: snapshot_wf_def sequential_protocols res_simps)
next
  case False
  have "snapshot_validate X s \<noteq> Inr ()"
  proof
    assume "snapshot_validate X s = Inr ()"
    then obtain n m where "\<not> length (as_acquire_records s) > MAX_RETAINED_ACQUIRE_RECORDS"
      "try_of_nat (length (as_acquire_records s)) = Some n" "\<not> as_epoch_high_water s \<noteq> n"
      "checked_add (as_epoch_high_water s) 1 = Some m" "\<not> as_snapshot_sequence s \<noteq> m"
      unfolding snapshot_validate_def and_then_eq_Inr guard_eq_Inr ok_or_eq_Inr by blast
    then show False using False by (auto simp: checked)
  qed
  then show ?thesis using False by (auto simp: snapshot_wf_def)
qed

section \<open>Issuance\<close>

lemma wf_epochs:
  assumes "snapshot_wf X s"
  shows "(unat \<circ> ar_epoch) ` set (as_acquire_records s) = {1..length (as_acquire_records s)}"
proof -
  let ?rs = "as_acquire_records s"
  have pos: "0 < unat (ar_epoch r) \<and> unat (ar_epoch r) \<le> length ?rs" if "r \<in> set ?rs" for r
    using structure_epoch(1,2) [of s r] assms that by (auto simp: snapshot_wf_def structure_ok_def)
  then have idx: "epoch_index ` set ?rs = {0..<length ?rs}"
    using assms epoch_index_inj [of ?rs] by (intro no_gap) (force simp: snapshot_wf_def)+
  have "(unat \<circ> ar_epoch) ` set ?rs = Suc ` epoch_index ` set ?rs"
    using pos by (force simp: image_image intro: image_cong)
  then show ?thesis using idx by (simp add: atLeastLessThanSuc_atLeastAtMost)
qed

text \<open>Looking an operation up: the record that has it, or none does.\<close>

lemma preflight_replay:
  assumes "snapshot_wf X s" "r \<in> set (as_acquire_records s)" "ar_operation_id r = ai_operation_id i"
  shows "preflight s i =
    (if ar_request_digest r \<noteq> ai_request_digest i then Inl OperationDigestConflict
     else Inr (Replay (ar_exact_response_bytes r) (ar_response_digest r) (ar_proof_envelope_digest r)))"
proof -
  have "sorted_wrt (<) (map ar_operation_id (as_acquire_records s))"
    using assms(1) by (simp add: snapshot_wf_def operations_ascend_def)
  from binary_search_finds [OF this assms(2,3)] obtain n
    where "binary_search_by_key ar_operation_id (ai_operation_id i) (as_acquire_records s) = Inr n"
      "as_acquire_records s ! n = r" by metis
  then show ?thesis by (simp add: preflight_def)
qed

lemma preflight_issue:
  assumes "snapshot_wf X s" "preflight s i = Inr (Issue e q)"
  shows "ai_operation_id i \<notin> ar_operation_id ` set (as_acquire_records s)"
    "unat e = length (as_acquire_records s) + 1" "unat q = length (as_acquire_records s) + 2"
    "length (as_acquire_records s) < MAX_RETAINED_ACQUIRE_RECORDS"
proof -
  have srt: "sorted_wrt (<) (map ar_operation_id (as_acquire_records s))"
    using assms(1) by (simp add: snapshot_wf_def operations_ascend_def)
  obtain n where n: "binary_search_by_key ar_operation_id (ai_operation_id i) (as_acquire_records s) = Inl n"
    using assms(2) by (auto simp: preflight_def Let_def split: sum.splits if_splits)
  then show "ai_operation_id i \<notin> ar_operation_id ` set (as_acquire_records s)"
    using binary_search_absent_key [OF srt n] by fastforce
  show "unat e = length (as_acquire_records s) + 1" "unat q = length (as_acquire_records s) + 2"
    "length (as_acquire_records s) < MAX_RETAINED_ACQUIRE_RECORDS"
    using assms n by (auto simp: preflight_def snapshot_wf_def res_simps checked split: if_splits)
qed

definition issued_record ::
  "AuthoritySnapshot \<Rightarrow> AcquireIntent \<Rightarrow> u64 \<Rightarrow> bytes64 \<Rightarrow> Digest32 \<Rightarrow> EncodedAcquireResponse \<Rightarrow> AcquireRecord" where
  "issued_record s intent next_epoch signature digest response =
     \<lparr>ar_operation_id = ai_operation_id intent, ar_request_digest = ai_request_digest intent,
      ar_exact_request_bytes = ai_exact_request_bytes intent, ar_writer = ai_writer intent,
      ar_epoch = next_epoch, ar_supersedes_through_epoch = as_epoch_high_water s,
      ar_nonce = ai_nonce intent, ar_response_bound = ai_response_bound intent,
      ar_signature = signature, ar_proof_envelope_digest = digest,
      ar_exact_response_bytes = er_exact_bytes response,
      ar_response_digest = er_response_digest response, ar_status = StatusIssued\<rparr>"

lemma with_issued_record_parts:
  assumes "with_issued_record X s i e q sig d response = Inr t"
  obtains n where "preflight s i = Inr (Issue e q)" "snapshot_validate X t = Inr ()"
    "t = s\<lparr>as_acquire_records := vec_insert n (issued_record s i e sig d response) (as_acquire_records s),
           as_epoch_high_water := e, as_snapshot_sequence := q\<rparr>"
    "er_proof_envelope_digest response = d"
proof -
  let ?n = "case binary_search_by_key ar_operation_id (ai_operation_id i) (as_acquire_records s) of
              Inr index \<Rightarrow> index | Inl index \<Rightarrow> index"
  let ?t = "s\<lparr>as_acquire_records := vec_insert ?n (issued_record s i e sig d response) (as_acquire_records s),
              as_epoch_high_water := e, as_snapshot_sequence := q\<rparr>"
  from assms obtain e' q' where flight: "preflight s i = Inr (Issue e' q')"
  proof (cases "preflight s i")
    case (Inr f)
    then show thesis using assms that by (cases f) (simp_all add: with_issued_record_def)
  qed (simp add: with_issued_record_def)
  from assms [unfolded with_issued_record_def flight and_then.simps Preflight.case Let_def guard_eq_Inr
      and_then_eq_Inr]
  have "e = e'" "q = q'" "er_proof_envelope_digest response = d" "snapshot_validate X ?t = Inr ()" "?t = t"
    unfolding issued_record_def by auto
  then show thesis using that flight by metis
qed

lemma with_issued_record_wf: "with_issued_record X s i e q sig d response = Inr t \<Longrightarrow> snapshot_wf X t"
  by (metis with_issued_record_parts snapshot_validate_iff)

lemma snapshot_initial_wf:
  "snapshot_initial X store p = Inr s \<Longrightarrow> snapshot_wf X s \<and> as_acquire_records s = [] \<and> as_provisioning s = p"
  by (auto simp: snapshot_initial_def Let_def res_simps snapshot_validate_iff)

end
