(* ===== verification/Tenure_Journal.thy ===== *)
theory Tenure_Journal
  imports Tenure_History
begin

text \<open>
  The journal file of the tenure authority,
  \<open>crates/paraegox-deployment/src/tenure_authority/codec.rs\<close>: the envelope with its checksum, the
  payload, the cursor that reads them back, and the proof that reading accepts exactly what
  writing produces.
\<close>

section \<open>Format\<close>

definition JOURNAL_MAGIC :: bytes where "JOURNAL_MAGIC = ascii ''PXJR''"
definition JOURNAL_ENVELOPE_VERSION :: u16 where "JOURNAL_ENVELOPE_VERSION = 1"
definition AUTHORITY_OWNER_KIND :: u8 where "AUTHORITY_OWNER_KIND = 2"
definition AUTHORITY_PAYLOAD_VERSION :: u16 where "AUTHORITY_PAYLOAD_VERSION = 1"
definition CHECKSUM_ALGORITHM_SHA256 :: u8 where "CHECKSUM_ALGORITHM_SHA256 = 1"
definition CHECKSUM_ALGORITHM_VERSION :: u8 where "CHECKSUM_ALGORITHM_VERSION = 1"
definition ENVELOPE_HEADER_WITHOUT_CHECKSUM_BYTES :: nat where "ENVELOPE_HEADER_WITHOUT_CHECKSUM_BYTES = 91"
definition ENVELOPE_HEADER_BYTES :: nat where "ENVELOPE_HEADER_BYTES = 123"

definition AUTHORITY_ENVELOPE_CHECKSUM_DOMAIN :: bytes where
  "AUTHORITY_ENVELOPE_CHECKSUM_DOMAIN =
     ascii ''paraegox.deployment.tenure-authority.journal-envelope.sha256.v1''"

datatype CodecError =
    EnvelopeTooLarge
  | TruncatedEnvelopeHeader
  | InvalidMagic
  | UnknownEnvelopeVersion
  | OwnerKindMismatch
  | UnknownPayloadVersion
  | UnknownChecksumAlgorithm
  | UnknownChecksumVersion
  | DeclaredPayloadTooLarge
  | TruncatedPayload
  | TrailingBytes
  | ChecksumMismatch
  | TruncatedPayloadField
  | TrailingPayloadBytes
  | FieldTooLarge
  | RecordCountTooLarge
  | InvalidSignatureLength
  | UnknownIssuanceStatus
  | NonCanonicalEncoding
  | LengthOverflow
  | InternalHeaderLayout
  | CodecDigest DigestBuildError
  | CodecModel ModelError
  | CodecProof TenureProofError

section \<open>Writing\<close>

definition append_u16_bytes :: "bytes \<Rightarrow> bytes \<Rightarrow> CodecError + bytes" where
  "append_u16_bytes encoded bs =
     and_then (ok_or (try_of_nat (length bs)) LengthOverflow) (\<lambda>n :: u16.
       Inr (encoded @ be_u16 n @ bs))"

definition append_u32_bytes :: "bytes \<Rightarrow> bytes \<Rightarrow> CodecError + bytes" where
  "append_u32_bytes encoded bs =
     and_then (ok_or (try_of_nat (length bs)) LengthOverflow) (\<lambda>n :: u32.
       Inr (encoded @ be_u32 n @ bs))"

fun status_u8 :: "IssuanceStatus \<Rightarrow> u8" where
  "status_u8 StatusIssued = 1"

definition encode_record :: "bytes \<Rightarrow> AcquireRecord \<Rightarrow> CodecError + bytes" where
  "encode_record encoded record =
     and_then (append_u32_bytes (encoded @ arr16 (ar_operation_id record) @ arr32 (ar_request_digest record))
                 (ar_exact_request_bytes record)) (\<lambda>encoded.
     and_then (append_u16_bytes
                 (encoded @ arr16 (ar_writer record) @ be_u64 (ar_epoch record)
                    @ be_u64 (ar_supersedes_through_epoch record))
                 (ar_nonce record)) (\<lambda>encoded.
     and_then (append_u16_bytes (encoded @ be_u32 (ar_response_bound record)) (arr64 (ar_signature record)))
       (\<lambda>encoded.
     and_then (append_u32_bytes (encoded @ arr32 (ar_proof_envelope_digest record))
                 (ar_exact_response_bytes record)) (\<lambda>encoded.
       Inr (encoded @ arr32 (ar_response_digest record) @ [status_u8 (ar_status record)])))))"

fun encode_records :: "bytes \<Rightarrow> AcquireRecord list \<Rightarrow> CodecError + bytes" where
  "encode_records encoded [] = Inr encoded"
| "encode_records encoded (record # records) =
     and_then (encode_record encoded record) (\<lambda>encoded. encode_records encoded records)"

definition encode_payload :: "AuthoritySnapshot \<Rightarrow> CodecError + bytes" where
  "encode_payload snapshot =
     (let provisioning = as_provisioning snapshot;
          proof_authority = ap_proof_authority provisioning;
          authorization = ap_authorization provisioning in
      and_then (ok_or (try_of_nat (length (as_acquire_records snapshot))) RecordCountTooLarge)
        (\<lambda>record_count :: u16.
      encode_records
        (arr16 (ap_source_scope provisioning) @ arr16 (ap_authorized_writer provisioning)
           @ arr16 (pa_authority proof_authority) @ arr16 (pa_key proof_authority)
           @ be_u16 (pa_algorithm proof_authority) @ be_u16 (pa_algorithm_version proof_authority)
           @ arr32 (ap_verification_key provisioning)
           @ arr16 (aa_controller_principal authorization) @ arr16 (aa_controller_key authorization)
           @ arr32 (aa_controller_verification_key authorization)
           @ arr32 (aa_controller_public_key_fingerprint authorization)
           @ arr32 (af_signing_key (ap_fingerprints provisioning))
           @ arr32 (af_policy (ap_fingerprints provisioning))
           @ arr32 (af_service_principal (ap_fingerprints provisioning))
           @ be_u64 (as_epoch_high_water snapshot) @ be_u16 record_count)
        (as_acquire_records snapshot)))"

definition envelope_checksum :: "Externals \<Rightarrow> bytes \<Rightarrow> bytes \<Rightarrow> CodecError + Digest32" where
  "envelope_checksum X header payload =
     map_err CodecDigest
       (build_digest (ex_sha256 X) AUTHORITY_ENVELOPE_CHECKSUM_DOMAIN [field_bytes header, field_bytes payload])"

definition encode_snapshot :: "Externals \<Rightarrow> AuthoritySnapshot \<Rightarrow> CodecError + bytes" where
  "encode_snapshot X snapshot =
     and_then (map_err CodecModel (snapshot_validate X snapshot)) (\<lambda>_.
     and_then (encode_payload snapshot) (\<lambda>payload.
     and_then (ok_or (try_of_nat (length payload)) LengthOverflow) (\<lambda>payload_length :: u64.
     let header = JOURNAL_MAGIC @ be_u16 JOURNAL_ENVELOPE_VERSION @ [AUTHORITY_OWNER_KIND]
           @ be_u16 AUTHORITY_PAYLOAD_VERSION @ [CHECKSUM_ALGORITHM_SHA256] @ [CHECKSUM_ALGORITHM_VERSION]
           @ arr32 (as_store_instance_id snapshot) @ arr32 (as_owner_identity_fingerprint snapshot)
           @ be_u64 (as_snapshot_sequence snapshot) @ be_u64 payload_length in
     if length header \<noteq> ENVELOPE_HEADER_WITHOUT_CHECKSUM_BYTES then Inl InternalHeaderLayout
     else
     and_then (envelope_checksum X header payload) (\<lambda>checksum.
     if ENVELOPE_HEADER_BYTES + length payload \<ge> 2 ^ 64 then Inl LengthOverflow
     else if ENVELOPE_HEADER_BYTES + length payload > AUTHORITY_SNAPSHOT_MAX_BYTES then Inl EnvelopeTooLarge
     else Inr (header @ arr32 checksum @ payload)))))"

section \<open>Reading\<close>

text \<open>The cursor: every read returns the value and the remaining bytes.\<close>

definition read_then ::
  "CodecError + ('a \<times> bytes) \<Rightarrow> ('a \<Rightarrow> bytes \<Rightarrow> CodecError + 'b) \<Rightarrow> CodecError + 'b" where
  "read_then m f = and_then m (\<lambda>(value, rest). f value rest)"

definition cursor_take :: "nat \<Rightarrow> bytes \<Rightarrow> CodecError + (bytes \<times> bytes)" where
  "cursor_take n remaining =
     (if length remaining < n then Inl TruncatedPayloadField else Inr (take n remaining, drop n remaining))"

definition cursor_array :: "nat \<Rightarrow> bytes \<Rightarrow> CodecError + ('w::len word \<times> bytes)" where
  "cursor_array n remaining = read_then (cursor_take n remaining) (\<lambda>value rest. Inr (from_be value, rest))"

definition cursor_u8 :: "bytes \<Rightarrow> CodecError + (u8 \<times> bytes)" where
  "cursor_u8 remaining = cursor_array 1 remaining"

definition cursor_u16 :: "bytes \<Rightarrow> CodecError + (u16 \<times> bytes)" where
  "cursor_u16 remaining = cursor_array 2 remaining"

definition cursor_u32 :: "bytes \<Rightarrow> CodecError + (u32 \<times> bytes)" where
  "cursor_u32 remaining = cursor_array 4 remaining"

definition cursor_u64 :: "bytes \<Rightarrow> CodecError + (u64 \<times> bytes)" where
  "cursor_u64 remaining = cursor_array 8 remaining"

definition cursor_bytes :: "nat \<Rightarrow> nat \<Rightarrow> bytes \<Rightarrow> CodecError + (bytes \<times> bytes)" where
  "cursor_bytes n maximum remaining =
     (if n > maximum then Inl FieldTooLarge else cursor_take n remaining)"

definition cursor_u16_bytes :: "nat \<Rightarrow> bytes \<Rightarrow> CodecError + (bytes \<times> bytes)" where
  "cursor_u16_bytes maximum remaining =
     read_then (cursor_u16 remaining) (\<lambda>n rest. cursor_bytes (unat n) maximum rest)"

definition cursor_u32_bytes :: "nat \<Rightarrow> bytes \<Rightarrow> CodecError + (bytes \<times> bytes)" where
  "cursor_u32_bytes maximum remaining =
     read_then (cursor_u32 remaining) (\<lambda>n rest. cursor_bytes (unat n) maximum rest)"

definition decode_record :: "bytes \<Rightarrow> CodecError + (AcquireRecord \<times> bytes)" where
  "decode_record remaining =
     read_then (cursor_array 16 remaining) (\<lambda>operation fields.
     and_then (map_err CodecModel (operation_id_try_from_bytes operation)) (\<lambda>operation_id.
     read_then (cursor_array 32 fields) (\<lambda>request_digest fields.
     read_then (cursor_u32_bytes MAX_ACQUIRE_REQUEST_BYTES fields) (\<lambda>exact_request_bytes fields.
     read_then (cursor_array 16 fields) (\<lambda>writer fields.
     read_then (cursor_u64 fields) (\<lambda>epoch fields.
     read_then (cursor_u64 fields) (\<lambda>supersedes_through_epoch fields.
     read_then (cursor_u16_bytes MAX_TENURE_NONCE_BYTES fields) (\<lambda>nonce fields.
     read_then (cursor_u32 fields) (\<lambda>response_bound fields.
     read_then (cursor_u16_bytes ED25519_SIGNATURE_BYTES fields) (\<lambda>signature_bytes fields.
     and_then (ok_or (signature_array signature_bytes) InvalidSignatureLength) (\<lambda>signature.
     read_then (cursor_array 32 fields) (\<lambda>proof_envelope_digest fields.
     read_then (cursor_u32_bytes MAX_ACQUIRE_RESPONSE_BYTES fields) (\<lambda>exact_response_bytes fields.
     read_then (cursor_array 32 fields) (\<lambda>response_digest fields.
     read_then (cursor_u8 fields) (\<lambda>status fields.
     if status = 1
     then Inr (\<lparr>ar_operation_id = operation_id, ar_request_digest = request_digest,
                ar_exact_request_bytes = exact_request_bytes, ar_writer = writer, ar_epoch = epoch,
                ar_supersedes_through_epoch = supersedes_through_epoch, ar_nonce = nonce,
                ar_response_bound = response_bound, ar_signature = signature,
                ar_proof_envelope_digest = proof_envelope_digest,
                ar_exact_response_bytes = exact_response_bytes, ar_response_digest = response_digest,
                ar_status = StatusIssued\<rparr>, fields)
     else Inl UnknownIssuanceStatus)))))))))))))))"

fun decode_records :: "nat \<Rightarrow> bytes \<Rightarrow> CodecError + (AcquireRecord list \<times> bytes)" where
  "decode_records 0 remaining = Inr ([], remaining)"
| "decode_records (Suc n) remaining =
     read_then (decode_record remaining) (\<lambda>record fields.
     read_then (decode_records n fields) (\<lambda>records fields. Inr (record # records, fields)))"

definition decode_payload ::
  "Externals \<Rightarrow> bytes \<Rightarrow> StoreInstanceId \<Rightarrow> Digest32 \<Rightarrow> u64 \<Rightarrow> CodecError + AuthoritySnapshot" where
  "decode_payload X payload store_instance_id owner_identity_fingerprint snapshot_sequence =
     read_then (cursor_array 16 payload) (\<lambda>source_scope fields.
     read_then (cursor_array 16 fields) (\<lambda>authorized_writer fields.
     read_then (cursor_array 16 fields) (\<lambda>authority fields.
     read_then (cursor_array 16 fields) (\<lambda>key fields.
     read_then (cursor_u16 fields) (\<lambda>algorithm fields.
     and_then (map_err CodecProof (tenure_algorithm_try_new algorithm)) (\<lambda>algorithm.
     read_then (cursor_u16 fields) (\<lambda>algorithm_version fields.
     and_then (map_err CodecProof (tenure_authority_try_new authority key algorithm algorithm_version))
       (\<lambda>proof_authority.
     read_then (cursor_array 32 fields) (\<lambda>verification_key fields.
     read_then (cursor_array 16 fields) (\<lambda>controller_principal fields.
     read_then (cursor_array 16 fields) (\<lambda>controller_key fields.
     read_then (cursor_array 32 fields) (\<lambda>controller_verification_key fields.
     read_then (cursor_array 32 fields) (\<lambda>controller_public_key_fingerprint fields.
     read_then (cursor_array 32 fields) (\<lambda>signing_key_fingerprint fields.
     read_then (cursor_array 32 fields) (\<lambda>policy_fingerprint fields.
     read_then (cursor_array 32 fields) (\<lambda>service_principal_fingerprint fields.
     read_then (cursor_u64 fields) (\<lambda>epoch_high_water fields.
     read_then (cursor_u16 fields) (\<lambda>record_count fields.
     if unat record_count > MAX_RETAINED_ACQUIRE_RECORDS then Inl RecordCountTooLarge
     else
     and_then (map_err CodecModel
                 (provisioning_try_new X source_scope authorized_writer proof_authority verification_key
                    \<lparr>aa_controller_principal = controller_principal, aa_controller_key = controller_key,
                     aa_controller_verification_key = controller_verification_key,
                     aa_controller_public_key_fingerprint = controller_public_key_fingerprint\<rparr>
                    \<lparr>af_signing_key = signing_key_fingerprint, af_policy = policy_fingerprint,
                     af_service_principal = service_principal_fingerprint,
                     af_owner_identity = owner_identity_fingerprint\<rparr>)) (\<lambda>provisioning.
     read_then (decode_records (unat record_count) fields) (\<lambda>acquire_records fields.
     if fields \<noteq> [] then Inl TrailingPayloadBytes
     else Inr \<lparr>as_store_instance_id = store_instance_id,
               as_owner_identity_fingerprint = owner_identity_fingerprint,
               as_snapshot_sequence = snapshot_sequence, as_provisioning = provisioning,
               as_epoch_high_water = epoch_high_water, as_acquire_records = acquire_records\<rparr>))))))))))))))))))))"

definition decode_header ::
  "bytes \<Rightarrow> CodecError + (StoreInstanceId \<times> Digest32 \<times> u64 \<times> u64)" where
  "decode_header header =
     read_then (cursor_take 4 header) (\<lambda>magic header.
     if magic \<noteq> JOURNAL_MAGIC then Inl InvalidMagic
     else
     read_then (cursor_u16 header) (\<lambda>version header.
     if version \<noteq> JOURNAL_ENVELOPE_VERSION then Inl UnknownEnvelopeVersion
     else
     read_then (cursor_u8 header) (\<lambda>owner header.
     if owner \<noteq> AUTHORITY_OWNER_KIND then Inl OwnerKindMismatch
     else
     read_then (cursor_u16 header) (\<lambda>payload_version header.
     if payload_version \<noteq> AUTHORITY_PAYLOAD_VERSION then Inl UnknownPayloadVersion
     else
     read_then (cursor_u8 header) (\<lambda>algorithm header.
     if algorithm \<noteq> CHECKSUM_ALGORITHM_SHA256 then Inl UnknownChecksumAlgorithm
     else
     read_then (cursor_u8 header) (\<lambda>algorithm_version header.
     if algorithm_version \<noteq> CHECKSUM_ALGORITHM_VERSION then Inl UnknownChecksumVersion
     else
     read_then (cursor_array 32 header) (\<lambda>store header.
     and_then (map_err CodecModel (store_instance_id_try_from_bytes store)) (\<lambda>store_instance_id.
     read_then (cursor_array 32 header) (\<lambda>owner_identity_fingerprint header.
     read_then (cursor_u64 header) (\<lambda>snapshot_sequence header.
     read_then (cursor_u64 header) (\<lambda>declared_payload_length header.
     if header \<noteq> [] then Inl InternalHeaderLayout
     else Inr (store_instance_id, owner_identity_fingerprint, snapshot_sequence,
               declared_payload_length))))))))))))"

definition decode_snapshot :: "Externals \<Rightarrow> bytes \<Rightarrow> CodecError + AuthoritySnapshot" where
  "decode_snapshot X encoded =
     (if length encoded > AUTHORITY_SNAPSHOT_MAX_BYTES then Inl EnvelopeTooLarge
      else if length encoded < ENVELOPE_HEADER_BYTES then Inl TruncatedEnvelopeHeader
      else
      and_then (decode_header (take ENVELOPE_HEADER_WITHOUT_CHECKSUM_BYTES encoded))
        (\<lambda>(store_instance_id, owner_identity_fingerprint, snapshot_sequence, declared_payload_length).
      if ENVELOPE_HEADER_BYTES + unat declared_payload_length \<ge> 2 ^ 64 then Inl DeclaredPayloadTooLarge
      else if ENVELOPE_HEADER_BYTES + unat declared_payload_length > AUTHORITY_SNAPSHOT_MAX_BYTES
      then Inl DeclaredPayloadTooLarge
      else if length encoded < ENVELOPE_HEADER_BYTES + unat declared_payload_length then Inl TruncatedPayload
      else if length encoded > ENVELOPE_HEADER_BYTES + unat declared_payload_length then Inl TrailingBytes
      else
        let expected_checksum = from_be (drop ENVELOPE_HEADER_WITHOUT_CHECKSUM_BYTES
                                           (take ENVELOPE_HEADER_BYTES encoded));
            payload = drop ENVELOPE_HEADER_BYTES encoded in
        and_then (envelope_checksum X (take ENVELOPE_HEADER_WITHOUT_CHECKSUM_BYTES encoded) payload)
          (\<lambda>actual_checksum.
        if actual_checksum \<noteq> expected_checksum then Inl ChecksumMismatch
        else
        and_then (decode_payload X payload store_instance_id owner_identity_fingerprint snapshot_sequence)
          (\<lambda>snapshot.
        and_then (map_err CodecModel (snapshot_validate X snapshot)) (\<lambda>_.
        and_then (encode_snapshot X snapshot) (\<lambda>again.
        if again \<noteq> encoded then Inl NonCanonicalEncoding else Inr snapshot))))))"

section \<open>Reading back what was written\<close>

lemma read_then_Inr [simp]: "read_then (Inr (v, rest)) f = f v rest"
  by (simp add: read_then_def)

lemma cursor_take_append [simp]: "length a = n \<Longrightarrow> cursor_take n (a @ rest) = Inr (a, rest)"
  by (simp add: cursor_take_def)

lemma cursor_array_append:
  "LENGTH('w) \<le> 8 * n \<Longrightarrow> cursor_array n (be_bytes n (w :: 'w::len word) @ rest) = Inr (w, rest)"
  by (simp add: cursor_array_def from_be_be_bytes)

lemma cursor_arrays [simp]:
  "cursor_array 16 (arr16 a @ rest) = Inr (a, rest)"
  "cursor_array 32 (arr32 d @ rest) = Inr (d, rest)"
  "cursor_u16 (be_u16 h @ rest) = Inr (h, rest)"
  "cursor_u32 (be_u32 w @ rest) = Inr (w, rest)"
  "cursor_u64 (be_u64 g @ rest) = Inr (g, rest)"
  by (simp_all add: cursor_u16_def cursor_u32_def cursor_u64_def cursor_array_append)

lemma cursor_u8_Cons [simp]: "cursor_u8 (b # rest) = Inr (b, rest)"
  by (simp add: cursor_u8_def cursor_array_def cursor_take_def from_be_def be_nat_def)

lemma cursor_u16_bytes_append [simp]:
  "length bs \<le> maximum \<Longrightarrow> length bs < 2 ^ 16 \<Longrightarrow>
     cursor_u16_bytes maximum (be_u16 (of_nat (length bs)) @ bs @ rest) = Inr (bs, rest)"
  by (simp add: cursor_u16_bytes_def cursor_bytes_def unat_of_nat)

lemma cursor_u32_bytes_append [simp]:
  "length bs \<le> maximum \<Longrightarrow> length bs < 2 ^ 32 \<Longrightarrow>
     cursor_u32_bytes maximum (be_u32 (of_nat (length bs)) @ bs @ rest) = Inr (bs, rest)"
  by (simp add: cursor_u32_bytes_def cursor_bytes_def unat_of_nat)

text \<open>The bytes of a record, of the payload, and of the header, as one concatenation each.\<close>

definition record_bytes :: "AcquireRecord \<Rightarrow> bytes" where
  "record_bytes r =
     arr16 (ar_operation_id r) @ arr32 (ar_request_digest r)
     @ be_u32 (of_nat (length (ar_exact_request_bytes r))) @ ar_exact_request_bytes r
     @ arr16 (ar_writer r) @ be_u64 (ar_epoch r) @ be_u64 (ar_supersedes_through_epoch r)
     @ be_u16 (of_nat (length (ar_nonce r))) @ ar_nonce r @ be_u32 (ar_response_bound r)
     @ be_u16 (of_nat (length (arr64 (ar_signature r)))) @ arr64 (ar_signature r)
     @ arr32 (ar_proof_envelope_digest r)
     @ be_u32 (of_nat (length (ar_exact_response_bytes r))) @ ar_exact_response_bytes r
     @ arr32 (ar_response_digest r) @ [1]"

definition record_fits :: "AcquireRecord \<Rightarrow> bool" where
  "record_fits r \<longleftrightarrow> ar_operation_id r \<noteq> 0
     \<and> length (ar_exact_request_bytes r) \<le> MAX_ACQUIRE_REQUEST_BYTES
     \<and> length (ar_nonce r) \<le> MAX_TENURE_NONCE_BYTES
     \<and> length (ar_exact_response_bytes r) \<le> MAX_ACQUIRE_RESPONSE_BYTES"

lemmas record_limits =
  MAX_ACQUIRE_REQUEST_BYTES_def MAX_ACQUIRE_RESPONSE_BYTES_def MAX_TENURE_NONCE_BYTES_def
  ED25519_SIGNATURE_BYTES_def

lemma status_u8_one [simp]: "status_u8 st = 1"
  by (cases st) simp

lemma issued_only: "ar_status r = StatusIssued"
  by (cases "ar_status r") simp

lemma encode_record_eq:
  assumes "record_fits r"
  shows "encode_record encoded r = Inr (encoded @ record_bytes r)"
proof -
  have "length (ar_exact_request_bytes r) < 4294967296" "length (ar_nonce r) < 65536"
    "length (ar_exact_response_bytes r) < 4294967296"
    using assms by (simp_all add: record_fits_def record_limits)
  then show ?thesis
    by (simp add: encode_record_def append_u16_bytes_def append_u32_bytes_def try_of_nat_def record_bytes_def)
qed

lemma encode_records_eq:
  "list_all record_fits rs \<Longrightarrow> encode_records encoded rs = Inr (encoded @ concat (map record_bytes rs))"
  by (induction rs arbitrary: encoded) (simp_all add: encode_record_eq)

lemma signature_array_arr64 [simp]: "signature_array (arr64 w) = Some w"
  by (simp add: signature_array_def ED25519_SIGNATURE_BYTES_def from_be_be_bytes)

lemma operation_id_ok [simp]: "w \<noteq> 0 \<Longrightarrow> operation_id_try_from_bytes w = Inr w"
  by (simp add: operation_id_try_from_bytes_def)

lemma decode_record_bytes:
  assumes "record_fits r"
  shows "decode_record (record_bytes r @ rest) = Inr (r, rest)"
proof -
  have *: "ar_operation_id r \<noteq> 0"
    "length (ar_exact_request_bytes r) \<le> MAX_ACQUIRE_REQUEST_BYTES" "length (ar_exact_request_bytes r) < 2 ^ 32"
    "length (ar_nonce r) \<le> MAX_TENURE_NONCE_BYTES" "length (ar_nonce r) < 2 ^ 16"
    "length (ar_exact_response_bytes r) \<le> MAX_ACQUIRE_RESPONSE_BYTES"
    "length (ar_exact_response_bytes r) < 2 ^ 32"
    "length (arr64 (ar_signature r)) \<le> ED25519_SIGNATURE_BYTES" "length (arr64 (ar_signature r)) < 2 ^ 16"
    using assms by (simp_all add: record_fits_def record_limits)
  note read = cursor_u32_bytes_append [OF *(2,3)] cursor_u16_bytes_append [OF *(4,5)]
    cursor_u32_bytes_append [OF *(6,7)] cursor_u16_bytes_append [OF *(8,9)]
  show ?thesis
    unfolding decode_record_def record_bytes_def append_assoc cursor_arrays read_then_Inr
      operation_id_ok [OF *(1)] map_err.simps and_then.simps read signature_array_arr64 ok_or.simps
    using issued_only [of r] by (cases r) simp
qed

lemma decode_records_bytes:
  "list_all record_fits rs \<Longrightarrow>
     decode_records (length rs) (concat (map record_bytes rs) @ rest) = Inr (rs, rest)"
  by (induction rs) (simp_all add: decode_record_bytes)

lemma structure_fits:
  assumes "validate_record_structure s r = Inr ()"
  shows "record_fits r"
proof -
  have "is_ok (operation_id_try_from_bytes (ar_operation_id r))"
    and "\<not> length (ar_exact_request_bytes r) > MAX_ACQUIRE_REQUEST_BYTES"
    and "\<not> length (ar_nonce r) > MAX_TENURE_NONCE_BYTES"
    and "\<not> (length (ar_exact_response_bytes r) > unat (ar_response_bound r)
              \<or> length (ar_exact_response_bytes r) > MAX_ACQUIRE_RESPONSE_BYTES)"
    using assms unfolding validate_record_structure_def and_then_eq_Inr guard_eq_Inr is_ok_iff by blast+
  then show ?thesis
    by (auto simp: record_fits_def operation_id_try_from_bytes_def split: if_splits)
qed

lemma wf_records_fit: "snapshot_wf X s \<Longrightarrow> list_all record_fits (as_acquire_records s)"
  by (auto simp: snapshot_wf_def structure_ok_def list_all_iff intro: structure_fits)

definition provisioning_bytes :: "AuthorityProvisioning \<Rightarrow> bytes" where
  "provisioning_bytes p =
     arr16 (ap_source_scope p) @ arr16 (ap_authorized_writer p)
     @ arr16 (pa_authority (ap_proof_authority p)) @ arr16 (pa_key (ap_proof_authority p))
     @ be_u16 (pa_algorithm (ap_proof_authority p)) @ be_u16 (pa_algorithm_version (ap_proof_authority p))
     @ arr32 (ap_verification_key p)
     @ arr16 (aa_controller_principal (ap_authorization p)) @ arr16 (aa_controller_key (ap_authorization p))
     @ arr32 (aa_controller_verification_key (ap_authorization p))
     @ arr32 (aa_controller_public_key_fingerprint (ap_authorization p))
     @ arr32 (af_signing_key (ap_fingerprints p)) @ arr32 (af_policy (ap_fingerprints p))
     @ arr32 (af_service_principal (ap_fingerprints p))"

definition payload_bytes :: "AuthoritySnapshot \<Rightarrow> bytes" where
  "payload_bytes s = provisioning_bytes (as_provisioning s)
     @ be_u64 (as_epoch_high_water s) @ be_u16 (of_nat (length (as_acquire_records s)))
     @ concat (map record_bytes (as_acquire_records s))"

definition header_bytes :: "AuthoritySnapshot \<Rightarrow> bytes" where
  "header_bytes s = JOURNAL_MAGIC @ be_u16 JOURNAL_ENVELOPE_VERSION @ [AUTHORITY_OWNER_KIND]
     @ be_u16 AUTHORITY_PAYLOAD_VERSION @ [CHECKSUM_ALGORITHM_SHA256] @ [CHECKSUM_ALGORITHM_VERSION]
     @ arr32 (as_store_instance_id s) @ arr32 (as_owner_identity_fingerprint s)
     @ be_u64 (as_snapshot_sequence s) @ be_u64 (of_nat (length (payload_bytes s)))"

definition checksum_of :: "Externals \<Rightarrow> AuthoritySnapshot \<Rightarrow> Digest32" where
  "checksum_of X s =
     ex_sha256 X (digest_stream AUTHORITY_ENVELOPE_CHECKSUM_DOMAIN [header_bytes s, payload_bytes s])"

definition snapshot_bytes :: "Externals \<Rightarrow> AuthoritySnapshot \<Rightarrow> bytes" where
  "snapshot_bytes X s = header_bytes s @ arr32 (checksum_of X s) @ payload_bytes s"

lemma length_journal_magic [simp]: "length JOURNAL_MAGIC = 4"
  by (simp add: JOURNAL_MAGIC_def ascii_def)

lemma length_header_bytes [simp]: "length (header_bytes s) = 91"
  by (simp add: header_bytes_def)

lemma encode_payload_eq:
  assumes "snapshot_wf X s"
  shows "encode_payload s = Inr (payload_bytes s)"
proof -
  have "length (as_acquire_records s) < 65536"
    using assms by (simp add: snapshot_wf_def MAX_RETAINED_ACQUIRE_RECORDS_def)
  then show ?thesis
    by (simp add: encode_payload_def try_of_nat_def payload_bytes_def provisioning_bytes_def Let_def
        encode_records_eq [OF wf_records_fit [OF assms]])
qed

text \<open>A provisioning that validates is the one its own parts construct.\<close>

lemma provisioning_rebuilt:
  assumes "provisioning_validate X p = Inr ()"
  shows "provisioning_try_new X (ap_source_scope p) (ap_authorized_writer p) (ap_proof_authority p)
           (ap_verification_key p) (ap_authorization p) (ap_fingerprints p) = Inr p"
    and "pa_algorithm (ap_proof_authority p) = 1" "pa_algorithm_version (ap_proof_authority p) = 1"
proof -
  from assms obtain q where q: "provisioning_try_new X (ap_source_scope p) (ap_authorized_writer p)
      (ap_proof_authority p) (ap_verification_key p) (ap_authorization p) (ap_fingerprints p) = Inr q"
    by (auto simp: provisioning_validate_def and_then_eq_Inr)
  then have "Inr \<lparr>ap_source_scope = ap_source_scope p, ap_authorized_writer = ap_authorized_writer p,
      ap_proof_authority = ap_proof_authority p, ap_verification_key = ap_verification_key p,
      ap_authorization = ap_authorization p, ap_fingerprints = ap_fingerprints p\<rparr>
      = (Inr q :: ModelError + AuthorityProvisioning)"
    and "\<not> (pa_algorithm (ap_proof_authority p) \<noteq> ED25519_ALGORITHM
            \<or> pa_algorithm_version (ap_proof_authority p) \<noteq> ED25519_ALGORITHM_VERSION)"
    unfolding provisioning_try_new_def and_then_eq_Inr guard_eq_Inr by blast+
  then show "pa_algorithm (ap_proof_authority p) = 1" "pa_algorithm_version (ap_proof_authority p) = 1"
    and "provisioning_try_new X (ap_source_scope p) (ap_authorized_writer p) (ap_proof_authority p)
           (ap_verification_key p) (ap_authorization p) (ap_fingerprints p) = Inr p"
    using q by (simp_all add: ED25519_ALGORITHM_def ED25519_ALGORITHM_VERSION_def) (cases p; simp)
qed

lemma decode_payload_bytes:
  assumes wf: "snapshot_wf X s"
  shows "decode_payload X (payload_bytes s) (as_store_instance_id s) (as_owner_identity_fingerprint s)
           (as_snapshot_sequence s) = Inr s"
proof -
  let ?p = "as_provisioning s"
  have val: "provisioning_validate X ?p = Inr ()"
    and own: "as_owner_identity_fingerprint s = af_owner_identity (ap_fingerprints ?p)"
    and few: "length (as_acquire_records s) \<le> 64"
    using wf by (simp_all add: snapshot_wf_def MAX_RETAINED_ACQUIRE_RECORDS_def)
  have n: "unat (of_nat (length (as_acquire_records s)) :: u16) = length (as_acquire_records s)"
    using few by (simp add: unat_of_nat)
  have records: "decode_records (length (as_acquire_records s)) (concat (map record_bytes (as_acquire_records s)))
      = Inr (as_acquire_records s, [])"
    using decode_records_bytes [OF wf_records_fit [OF wf], of "[]"] by simp
  have auth: "\<lparr>aa_controller_principal = aa_controller_principal (ap_authorization ?p),
      aa_controller_key = aa_controller_key (ap_authorization ?p),
      aa_controller_verification_key = aa_controller_verification_key (ap_authorization ?p),
      aa_controller_public_key_fingerprint = aa_controller_public_key_fingerprint (ap_authorization ?p)\<rparr>
      = ap_authorization ?p" by simp
  have fp: "\<lparr>af_signing_key = af_signing_key (ap_fingerprints ?p), af_policy = af_policy (ap_fingerprints ?p),
      af_service_principal = af_service_principal (ap_fingerprints ?p),
      af_owner_identity = as_owner_identity_fingerprint s\<rparr> = ap_fingerprints ?p" by (simp add: own)
  have pa: "tenure_algorithm_try_new (pa_algorithm (ap_proof_authority ?p)) = Inr (pa_algorithm (ap_proof_authority ?p))"
    "tenure_authority_try_new (pa_authority (ap_proof_authority ?p)) (pa_key (ap_proof_authority ?p))
       (pa_algorithm (ap_proof_authority ?p)) (pa_algorithm_version (ap_proof_authority ?p))
       = Inr (ap_proof_authority ?p)"
    using provisioning_rebuilt(2,3) [OF val]
    by (simp_all add: tenure_algorithm_try_new_def tenure_authority_try_new_def)
  show ?thesis
    unfolding decode_payload_def payload_bytes_def provisioning_bytes_def append_assoc cursor_arrays read_then_Inr
      pa map_err.simps and_then.simps auth fp n provisioning_rebuilt(1) [OF val] records
    using few by (simp add: MAX_RETAINED_ACQUIRE_RECORDS_def)
qed

lemma decode_header_bytes:
  assumes "as_store_instance_id s \<noteq> 0"
  shows "decode_header (header_bytes s) = Inr (as_store_instance_id s, as_owner_identity_fingerprint s,
           as_snapshot_sequence s, of_nat (length (payload_bytes s)))"
proof -
  have last: "cursor_u64 (be_u64 w) = Inr (w, [])" for w using cursor_arrays(5) [of w "[]"] by simp
  have magic: "cursor_take 4 (JOURNAL_MAGIC @ rest) = Inr (JOURNAL_MAGIC, rest)" for rest by simp
  have id: "store_instance_id_try_from_bytes (as_store_instance_id s) = Inr (as_store_instance_id s)"
    using assms by (simp add: store_instance_id_try_from_bytes_def)
  show ?thesis
    unfolding decode_header_def header_bytes_def append_assoc magic cursor_arrays read_then_Inr append_Cons
      append_Nil cursor_u8_Cons id last map_err.simps and_then.simps
    by simp
qed

lemma envelope_checksum_eq:
  "length (payload_bytes s) < 2 ^ 64 \<Longrightarrow> envelope_checksum X (header_bytes s) (payload_bytes s) = Inr (checksum_of X s)"
  using build_digest_within [of AUTHORITY_ENVELOPE_CHECKSUM_DOMAIN "[header_bytes s, payload_bytes s]" "ex_sha256 X"]
  by (simp add: envelope_checksum_def checksum_of_def digestible_def AUTHORITY_ENVELOPE_CHECKSUM_DOMAIN_def ascii_def)

section \<open>The size of the journal\<close>

lemma sum_list_bounded: "\<forall>r \<in> set rs. f r \<le> (c :: nat) \<Longrightarrow> (\<Sum>r \<leftarrow> rs. f r) \<le> c * length rs"
  by (induction rs) auto

text \<open>A validated record holds a request and a response of the wire protocol, so it is small.\<close>

lemma record_bytes_bounded:
  assumes "validate_record_structure s r = Inr ()" "validate_record_protocol X s r = Inr ()"
  shows "length (record_bytes r) \<le> 1600"
proof -
  from assms(2) obtain rq rs where rq: "decode_request (ex_sha256 X) (ar_exact_request_bytes r) = Inr rq"
    and rs: "decode_for_request (ex_sha256 X) (ar_exact_response_bytes r) rq = Inr rs"
    unfolding validate_record_protocol_def and_then_eq_Inr guard_eq_Inr map_err_eq_Inr Let_def by blast
  from rs have rs': "decode_response (ex_sha256 X) (ar_exact_response_bytes r) = Inr rs"
    by (auto simp: decode_for_request_def and_then_eq_Inr)
  have "length (ar_exact_request_bytes r) \<le> maximum_payload_bytes FrameRequest"
    using request_length decode_request_sound [OF rq] by fastforce
  moreover have "length (ar_exact_response_bytes r) \<le> maximum_payload_bytes FrameResponse"
    using response_length decode_response_sound [OF rs'] by fastforce
  moreover have "length (ar_nonce r) \<le> MAX_TENURE_NONCE_BYTES"
    using structure_fits [OF assms(1)] by (simp add: record_fits_def)
  ultimately show ?thesis
    by (simp add: record_bytes_def protocol_limits MAX_TENURE_NONCE_BYTES_def)
qed

lemma payload_bounded:
  assumes "snapshot_wf X s"
  shows "length (payload_bytes s) \<le> 104000"
proof -
  have "(\<Sum>r \<leftarrow> as_acquire_records s. length (record_bytes r)) \<le> 1600 * length (as_acquire_records s)"
    using assms by (intro sum_list_bounded) (auto simp: snapshot_wf_def structure_ok_def intro: record_bytes_bounded)
  moreover have "length (as_acquire_records s) \<le> 64"
    using assms by (simp add: snapshot_wf_def MAX_RETAINED_ACQUIRE_RECORDS_def)
  moreover have "length (concat (map record_bytes (as_acquire_records s))) =
      (\<Sum>r \<leftarrow> as_acquire_records s. length (record_bytes r))"
    by (simp add: length_concat comp_def)
  ultimately show ?thesis by (simp add: payload_bytes_def provisioning_bytes_def)
qed

lemma encode_snapshot_wf:
  assumes wf: "snapshot_wf X s"
  shows "encode_snapshot X s = Inr (snapshot_bytes X s)"
proof -
  have len: "length (payload_bytes s) \<le> 104000" by (rule payload_bounded [OF wf])
  then have n: "try_of_nat (length (payload_bytes s)) = Some (of_nat (length (payload_bytes s)) :: u64)"
    by (simp add: try_of_nat_def)
  have sum: "envelope_checksum X (header_bytes s) (payload_bytes s) = Inr (checksum_of X s)"
    using len by (intro envelope_checksum_eq) simp
  have val: "snapshot_validate X s = Inr ()" using wf by (simp add: snapshot_validate_iff)
  show ?thesis
    unfolding encode_snapshot_def val encode_payload_eq [OF wf] map_err.simps and_then.simps n ok_or.simps Let_def
      header_bytes_def [symmetric] sum
    using len by (simp add: snapshot_bytes_def ENVELOPE_HEADER_WITHOUT_CHECKSUM_BYTES_def ENVELOPE_HEADER_BYTES_def
        AUTHORITY_SNAPSHOT_MAX_BYTES_def)
qed

lemma encode_snapshot_iff: "encode_snapshot X s = Inr bs \<longleftrightarrow> snapshot_wf X s \<and> bs = snapshot_bytes X s"
proof
  assume enc: "encode_snapshot X s = Inr bs"
  then have "snapshot_validate X s = Inr ()"
    by (auto simp: encode_snapshot_def and_then_eq_Inr map_err_eq_Inr)
  then have "snapshot_wf X s" by (simp add: snapshot_validate_iff)
  with enc encode_snapshot_wf show "snapshot_wf X s \<and> bs = snapshot_bytes X s" by simp
qed (simp add: encode_snapshot_wf)

lemma decode_snapshot_bytes:
  assumes wf: "snapshot_wf X s" and id: "as_store_instance_id s \<noteq> 0"
  shows "decode_snapshot X (snapshot_bytes X s) = Inr s"
proof -
  let ?bs = "snapshot_bytes X s"
  have len: "length (payload_bytes s) \<le> 104000" by (rule payload_bounded [OF wf])
  have parts: "take ENVELOPE_HEADER_WITHOUT_CHECKSUM_BYTES ?bs = header_bytes s"
    "drop ENVELOPE_HEADER_WITHOUT_CHECKSUM_BYTES (take ENVELOPE_HEADER_BYTES ?bs) = arr32 (checksum_of X s)"
    "drop ENVELOPE_HEADER_BYTES ?bs = payload_bytes s"
    "length ?bs = 123 + length (payload_bytes s)"
    by (simp_all add: snapshot_bytes_def ENVELOPE_HEADER_WITHOUT_CHECKSUM_BYTES_def ENVELOPE_HEADER_BYTES_def)
  have n: "unat (of_nat (length (payload_bytes s)) :: u64) = length (payload_bytes s)"
    using len by (simp add: unat_of_nat)
  have sum: "envelope_checksum X (header_bytes s) (payload_bytes s) = Inr (checksum_of X s)"
    using len by (intro envelope_checksum_eq) simp
  have val: "snapshot_validate X s = Inr ()" using wf by (simp add: snapshot_validate_iff)
  show ?thesis
    unfolding decode_snapshot_def parts decode_header_bytes [OF id] and_then.simps prod.case n Let_def
      from_be_read sum decode_payload_bytes [OF wf] val map_err.simps encode_snapshot_wf [OF wf]
    using len by (simp add: ENVELOPE_HEADER_BYTES_def AUTHORITY_SNAPSHOT_MAX_BYTES_def)
qed

lemma decode_snapshot_iff:
  "decode_snapshot X bs = Inr s \<longleftrightarrow> encode_snapshot X s = Inr bs \<and> as_store_instance_id s \<noteq> 0"
proof
  assume dec: "decode_snapshot X bs = Inr s"
  from dec obtain h store fp sq n again where h: "decode_header h = Inr (store, fp, sq, n)"
    and payload: "decode_payload X (drop ENVELOPE_HEADER_BYTES bs) store fp sq = Inr s"
    and again: "encode_snapshot X s = Inr again" "\<not> again \<noteq> bs"
    unfolding decode_snapshot_def guard_eq_Inr and_then_eq_Inr Let_def by (auto simp: and_then_eq_Inr split: if_splits)
  from h obtain store' where "store_instance_id_try_from_bytes store' = Inr store"
    by (auto simp: decode_header_def read_then_def res_simps split: if_splits prod.splits)
  then have "store \<noteq> 0" by (auto simp: store_instance_id_try_from_bytes_def split: if_splits)
  moreover have "as_store_instance_id s = store"
    using payload by (auto simp: decode_payload_def read_then_def res_simps split: if_splits prod.splits)
  ultimately show "encode_snapshot X s = Inr bs \<and> as_store_instance_id s \<noteq> 0" using again by simp
next
  assume "encode_snapshot X s = Inr bs \<and> as_store_instance_id s \<noteq> 0"
  then show "decode_snapshot X bs = Inr s" by (auto simp: encode_snapshot_iff decode_snapshot_bytes)
qed

end
