(* ===== verification/Tenure_Store.thy ===== *)
theory Tenure_Store
  imports Tenure_Journal
begin

text \<open>
  The store of the tenure authority, \<open>crates/paraegox-deployment/src/tenure_authority/store.rs\<close>:
  the directory with its active snapshot and temporary files, the atomic publication, the
  cleanup of orphans at startup and the store's own state.

  The directory is what the system calls of the source act on. A rename is visible at once and
  becomes durable when the directory has been synchronised: \<open>dir_unsynced\<close> lists the contents the
  active file may fall back to when power is lost before that. The data of a file is durable when the
  file has been synchronised: every temporary file carries that mark, a rename passes it on, and when the
  data of the active file (\<open>dir_torn\<close>) or of one it may fall back to (\<open>dir_unsynced_torn\<close>) was not synchronised, a
  power loss may leave anything under its name (\<open>candidates\<close>). Whether a system call fails is an
  argument: \<open>flt_call k\<close> is the error of the k-th call of a publication (9 is the check of the
  created file's metadata), and the checks on paths, locks, owners and modes enter as the
  error they report, if any. A process that dies
  inside a publication leaves the directory a failure at that call leaves.
\<close>

section \<open>Data\<close>

datatype ErrorKind = NotFound | AlreadyExists | Other | AnotherKind nat

datatype FileStage =
    InspectDirectory
  | OpenDirectory
  | InspectFilesystem
  | ScanDirectory
  | CreateLock
  | OpenLock
  | AcquireLock
  | OpenActive
  | ReadActive
  | InspectOrphanTemp
  | RemoveOrphanTemp
  | SyncOrphanCleanup
  | GenerateTempName
  | ValidateEncodedSnapshot
  | RequireMissingActive
  | CreateTemp
  | InspectTemp
  | WriteTemp
  | SyncTemp
  | Rename
  | SyncDirectory
  | ReturnDurableCommit

record IoFailure =
  io_stage :: FileStage
  io_kind :: ErrorKind

record PublishFault =
  pf_stage :: FileStage
  pf_kind :: "ErrorKind option"

datatype PublishFailure =
    RejectedBeforePublish PublishFault
  | UncertainAfterPublish PublishFault

datatype StoreOpenError =
    PathMustBeAbsolute
  | UnsafeDirectoryPath
  | SymlinkInDirectoryPath
  | UnsafeDirectoryType
  | UnsafeDirectoryMode
  | DirectoryIdentityChanged
  | UnsupportedFilesystem
  | DirectoryNotFresh
  | UnsafeFileType
  | UnsafeFileMode
  | FileOwnerMismatch
  | UnknownDirectoryEntry
  | TooManyOrphanTemps
  | LockContended
  | ActiveEmpty
  | ActiveTooLarge
  | ActiveAllocationFailed
  | ActiveChangedDuringRead
  | StoreInstanceMismatch
  | ProvisioningMismatch
  | OpenIo IoFailure
  | OpenCodec CodecError

datatype StoreError =
    StoreStopped
  | ActiveSnapshotChanged
  | ImmutableIdentityChanged
  | SequenceOverflow
  | SequenceTransitionMismatch
  | StoreOpen StoreOpenError
  | StoreCodec CodecError
  | StorePublish PublishFailure

datatype StoreState = Operational | Stopped

datatype PublishMode = RequireMissing | ReplaceExisting

datatype CommitFailpoint =
    NoFailpoint
  | BeforeTempCreate
  | AfterTempCreate
  | AfterPartialWrite
  | BeforeFileSync
  | AfterFileSync
  | BeforeRename
  | AfterRename
  | BeforeDirectorySync
  | AfterDirectorySyncBeforeReturn

record AuthorityStore =
  st_snapshot :: AuthoritySnapshot
  st_state :: StoreState

text \<open>
  The files of the directory: whether the lock exists, the active snapshot, and the other names
  with their contents and whether these have been synchronised.
\<close>

record Directory =
  dir_lock :: bool
  dir_active :: "bytes option"
  dir_torn :: bool
  dir_unsynced :: "bytes option list"
  dir_unsynced_torn :: bool
  dir_others :: "(bytes \<times> bytes \<times> bool) list"

record Faults =
  flt_open :: "StoreOpenError option"
  flt_call :: "nat \<Rightarrow> ErrorKind option"
  flt_written :: nat

definition TEMP_FILE_PREFIX :: bytes where "TEMP_FILE_PREFIX = ascii ''.authority.snapshot.tmp-''"
definition TEMP_TOKEN_BYTES :: nat where "TEMP_TOKEN_BYTES = 16"
definition TEMP_HEX_BYTES :: nat where "TEMP_HEX_BYTES = TEMP_TOKEN_BYTES * 2"
definition MAX_ORPHAN_TEMP_FILES :: nat where "MAX_ORPHAN_TEMP_FILES = 32"

section \<open>Names of temporary files\<close>

definition hex_digits :: bytes where "hex_digits = ascii ''0123456789abcdef''"

definition temp_name :: "bytes16 \<Rightarrow> bytes" where
  "temp_name token = TEMP_FILE_PREFIX @
     concat (map (\<lambda>byte. [hex_digits ! unat (drop_bit 4 byte), hex_digits ! unat (and byte 15)]) (arr16 token))"

definition is_hex_byte :: "u8 \<Rightarrow> bool" where
  "is_hex_byte byte \<longleftrightarrow> (48 \<le> byte \<and> byte \<le> 57) \<or> (97 \<le> byte \<and> byte \<le> 102)"

definition valid_temp_name :: "bytes \<Rightarrow> bool" where
  "valid_temp_name name \<longleftrightarrow>
     take (length TEMP_FILE_PREFIX) name = TEMP_FILE_PREFIX
     \<and> length (drop (length TEMP_FILE_PREFIX) name) = TEMP_HEX_BYTES
     \<and> list_all is_hex_byte (drop (length TEMP_FILE_PREFIX) name)"

text \<open>The token read from the system's random source, which must not be all zero.\<close>

definition system_random_token :: "ErrorKind + bytes16 \<Rightarrow> ErrorKind + bytes16" where
  "system_random_token random =
     and_then random (\<lambda>token. if list_all (\<lambda>b. b = 0) (arr16 token) then Inl Other else Inr token)"

section \<open>Faults\<close>

definition fault_injected :: "FileStage \<Rightarrow> PublishFault" where
  "fault_injected stage = \<lparr>pf_stage = stage, pf_kind = None\<rparr>"

definition fault_io :: "FileStage \<Rightarrow> ErrorKind \<Rightarrow> PublishFault" where
  "fault_io stage kind = \<lparr>pf_stage = stage, pf_kind = Some kind\<rparr>"

definition rejected_injected :: "FileStage \<Rightarrow> PublishFailure" where
  "rejected_injected stage = RejectedBeforePublish (fault_injected stage)"

definition uncertain_injected :: "FileStage \<Rightarrow> PublishFailure" where
  "uncertain_injected stage = UncertainAfterPublish (fault_injected stage)"

definition rejected_open_error :: "FileStage \<Rightarrow> StoreOpenError \<Rightarrow> PublishFailure" where
  "rejected_open_error stage e =
     (case e of
        OpenIo failure \<Rightarrow> RejectedBeforePublish (fault_io (io_stage failure) (io_kind failure))
      | _ \<Rightarrow> RejectedBeforePublish (fault_injected stage))"

text \<open>\<open>File::create\<close>, \<open>write_all\<close>, \<open>sync_all\<close> and the like: the k-th call of a publication.\<close>

definition os_call :: "Faults \<Rightarrow> nat \<Rightarrow> FileStage \<Rightarrow> PublishFailure + unit" where
  "os_call flt k stage =
     (case flt_call flt k of None \<Rightarrow> Inr () | Some kind \<Rightarrow> Inl (RejectedBeforePublish (fault_io stage kind)))"

section \<open>The active snapshot\<close>

definition open_existing_active :: "Faults \<Rightarrow> Directory \<Rightarrow> StoreOpenError + bytes" where
  "open_existing_active flt directory =
     (case dir_active directory of
        None \<Rightarrow> Inl (OpenIo \<lparr>io_stage = OpenActive, io_kind = NotFound\<rparr>)
      | Some content \<Rightarrow> (case flt_open flt of Some e \<Rightarrow> Inl e | None \<Rightarrow> Inr content))"

definition read_active_snapshot ::
  "Externals \<Rightarrow> Faults \<Rightarrow> Directory \<Rightarrow> StoreOpenError + AuthoritySnapshot" where
  "read_active_snapshot X flt directory =
     and_then (open_existing_active flt directory) (\<lambda>encoded.
     if length encoded = 0 then Inl ActiveEmpty
     else if length encoded > AUTHORITY_SNAPSHOT_MAX_BYTES then Inl ActiveTooLarge
     else map_err OpenCodec (decode_snapshot X encoded))"

definition ensure_active_missing :: "Faults \<Rightarrow> nat \<Rightarrow> Directory \<Rightarrow> PublishFailure + unit" where
  "ensure_active_missing flt k directory =
     (case dir_active directory of
        Some _ \<Rightarrow> Inl (RejectedBeforePublish (fault_injected RequireMissingActive))
      | None \<Rightarrow> os_call flt k RequireMissingActive)"

text \<open>What the system calls of a publication do to the directory.\<close>

definition create_temp :: "bytes \<Rightarrow> bytes \<Rightarrow> Directory \<Rightarrow> Directory" where
  "create_temp name content directory =
     directory\<lparr>dir_others := dir_others directory @ [(name, content, False)]\<rparr>"

definition sync_temp :: "bytes \<Rightarrow> Directory \<Rightarrow> Directory" where
  "sync_temp name directory =
     directory\<lparr>dir_others := map (\<lambda>(n, content, synced). (n, content, synced \<or> n = name)) (dir_others directory)\<rparr>"

definition rename_temp :: "bytes \<Rightarrow> Directory \<Rightarrow> Directory" where
  "rename_temp name directory =
     (case map_of (dir_others directory) name of
        None \<Rightarrow> directory
      | Some (content, synced) \<Rightarrow>
          directory\<lparr>dir_active := Some content, dir_torn := \<not> synced,
                    dir_unsynced := dir_unsynced directory @ [dir_active directory],
                    dir_unsynced_torn := dir_unsynced_torn directory \<or> dir_torn directory,
                    dir_others := filter (\<lambda>f. fst f \<noteq> name) (dir_others directory)\<rparr>)"

definition sync_directory :: "Directory \<Rightarrow> Directory" where
  "sync_directory directory = directory\<lparr>dir_unsynced := [], dir_unsynced_torn := False\<rparr>"

text \<open>What a power loss may leave under the name of the active file.\<close>

definition candidates :: "Directory \<Rightarrow> bytes option set" where
  "candidates d = (if dir_torn d \<or> dir_unsynced_torn d then UNIV else insert (dir_active d) (set (dir_unsynced d)))"

definition publish_atomic ::
  "Faults \<Rightarrow> Directory \<Rightarrow> bytes \<Rightarrow> bytes16 \<Rightarrow> PublishMode \<Rightarrow> CommitFailpoint \<Rightarrow>
   (PublishFailure + unit) \<times> Directory" where
  "publish_atomic flt directory encoded token mode failpoint =
     (if encoded = [] \<or> length encoded > AUTHORITY_SNAPSHOT_MAX_BYTES
      then (Inl (rejected_injected ValidateEncodedSnapshot), directory)
      else if failpoint = BeforeTempCreate then (Inl (rejected_injected CreateTemp), directory)
      else
      and_then_st (case mode of
          RequireMissing \<Rightarrow> ensure_active_missing flt 0 directory
        | ReplaceExisting \<Rightarrow> map_err (rejected_open_error OpenActive)
            (and_then (open_existing_active flt directory) (\<lambda>_. Inr ()))) directory (\<lambda>_.
      let name = temp_name token in
      and_then_st (if name \<in> fst ` set (dir_others directory)
          then Inl (RejectedBeforePublish (fault_io CreateTemp AlreadyExists))
          else os_call flt 1 CreateTemp) directory (\<lambda>_.
      let created = create_temp name [] directory in
      and_then_st (os_call flt 2 InspectTemp) created (\<lambda>_.
      and_then_st (os_call flt 3 InspectTemp) created (\<lambda>_.
      and_then_st (case flt_call flt 9 of None \<Rightarrow> Inr () | Some _ \<Rightarrow> Inl (rejected_injected InspectTemp))
        created (\<lambda>_.
      if failpoint = AfterTempCreate then (Inl (rejected_injected CreateTemp), created)
      else if failpoint = AfterPartialWrite
      then
        and_then_st (os_call flt 4 WriteTemp) (create_temp name (take (flt_written flt) encoded) directory) (\<lambda>_.
          (Inl (rejected_injected WriteTemp),
           create_temp name (take (max (length encoded - 1) 1) encoded) directory))
      else
      and_then_st (os_call flt 4 WriteTemp) (create_temp name (take (flt_written flt) encoded) directory) (\<lambda>_.
      let written = create_temp name encoded directory in
      if failpoint = BeforeFileSync then (Inl (rejected_injected SyncTemp), written)
      else
      and_then_st (os_call flt 5 SyncTemp) written (\<lambda>_.
      let synced = sync_temp name written in
      if failpoint = AfterFileSync \<or> failpoint = BeforeRename
      then (Inl (rejected_injected Rename), synced)
      else
      and_then_st (if mode = RequireMissing then ensure_active_missing flt 6 synced else Inr ()) synced (\<lambda>_.
      and_then_st (os_call flt 7 Rename) synced (\<lambda>_.
      let renamed = rename_temp name synced in
      if failpoint = AfterRename \<or> failpoint = BeforeDirectorySync
      then (Inl (uncertain_injected SyncDirectory), renamed)
      else
      case flt_call flt 8 of
        Some kind \<Rightarrow> (Inl (UncertainAfterPublish (fault_io SyncDirectory kind)), renamed)
      | None \<Rightarrow>
          let durable = sync_directory renamed in
          if failpoint = AfterDirectorySyncBeforeReturn
          then (Inl (uncertain_injected ReturnDurableCommit), durable)
          else (Inr (), durable)))))))))))"

section \<open>Orphans\<close>

definition is_dot_entry :: "bytes \<Rightarrow> bool" where
  "is_dot_entry name \<longleftrightarrow> name = ascii ''.'' \<or> name = ascii ''..''"

text \<open>
  The scan sees the names besides the lock and the active file. A name that is not UTF-8 is not
  a valid temporary name either, and both give the same error.
\<close>

fun scan_orphans :: "bytes list \<Rightarrow> bytes list \<Rightarrow> StoreOpenError + bytes list" where
  "scan_orphans orphan_names [] = Inr orphan_names"
| "scan_orphans orphan_names (name # names) =
     (if is_dot_entry name then scan_orphans orphan_names names
      else if \<not> valid_temp_name name then Inl UnknownDirectoryEntry
      else if length (orphan_names @ [name]) > MAX_ORPHAN_TEMP_FILES then Inl TooManyOrphanTemps
      else scan_orphans (orphan_names @ [name]) names)"

text \<open>Inspecting and unlinking orphan \<open>k\<close> may each fail.\<close>

fun remove_orphans ::
  "(nat \<Rightarrow> StoreOpenError option) \<Rightarrow> nat \<Rightarrow> bytes list \<Rightarrow> Directory \<Rightarrow> (StoreOpenError + unit) \<times> Directory" where
  "remove_orphans flt k [] directory = (Inr (), directory)"
| "remove_orphans flt k (name # names) directory =
     (case flt k of
        Some e \<Rightarrow> (Inl e, directory)
      | None \<Rightarrow> remove_orphans flt (k + 1) names
                  (directory\<lparr>dir_others := filter (\<lambda>f. fst f \<noteq> name) (dir_others directory)\<rparr>))"

definition clean_valid_orphan_temps ::
  "(nat \<Rightarrow> StoreOpenError option) \<Rightarrow> Directory \<Rightarrow> (StoreOpenError + unit) \<times> Directory" where
  "clean_valid_orphan_temps flt directory =
     and_then_st (case flt 0 of Some e \<Rightarrow> Inl e | None \<Rightarrow> Inr ()) directory (\<lambda>_.
     and_then_st (scan_orphans [] (map fst (dir_others directory))) directory (\<lambda>orphan_names.
     if orphan_names = [] then (Inr (), directory)
     else case remove_orphans flt 2 orphan_names directory of
         (Inl e, removed) \<Rightarrow> (Inl e, removed)
       | (Inr _, removed) \<Rightarrow>
           (case flt 1 of Some e \<Rightarrow> (Inl e, removed) | None \<Rightarrow> (Inr (), sync_directory removed))))"

section \<open>Operations of the store\<close>

text \<open>
  \<open>checks\<close> is the first error of the directory and lock checks, \<open>read\<close> the faults of reading the
  active file and \<open>clean\<close> those of the cleanup.
\<close>

record OpenFaults =
  of_checks :: "StoreOpenError option"
  of_read :: Faults
  of_clean :: "nat \<Rightarrow> StoreOpenError option"

definition open_lock :: "OpenFaults \<Rightarrow> Directory \<Rightarrow> StoreOpenError + unit" where
  "open_lock flt directory =
     (case of_checks flt of
        Some e \<Rightarrow> Inl e
      | None \<Rightarrow> if dir_lock directory then Inr () else Inl (OpenIo \<lparr>io_stage = OpenLock, io_kind = NotFound\<rparr>))"

definition open_validated ::
  "Externals \<Rightarrow> OpenFaults \<Rightarrow> Directory \<Rightarrow> AuthorityProvisioning \<Rightarrow> (StoreOpenError + AuthorityStore) \<times> Directory" where
  "open_validated X flt directory expected_provisioning =
     and_then_st (open_lock flt directory) directory (\<lambda>_.
     and_then_st (read_active_snapshot X (of_read flt) directory) directory (\<lambda>snapshot.
     if as_provisioning snapshot \<noteq> expected_provisioning
        \<or> as_owner_identity_fingerprint snapshot \<noteq> af_owner_identity (ap_fingerprints expected_provisioning)
     then (Inl ProvisioningMismatch, directory)
     else case clean_valid_orphan_temps (of_clean flt) directory of
         (Inl e, cleaned) \<Rightarrow> (Inl e, cleaned)
       | (Inr _, cleaned) \<Rightarrow> (Inr \<lparr>st_snapshot = snapshot, st_state = Operational\<rparr>, cleaned)))"

definition store_open ::
  "Externals \<Rightarrow> OpenFaults \<Rightarrow> Directory \<Rightarrow> StoreInstanceId \<Rightarrow> AuthorityProvisioning \<Rightarrow>
   (StoreOpenError + AuthorityStore) \<times> Directory" where
  "store_open X flt directory expected_store_instance_id expected_provisioning =
     (case open_validated X flt directory expected_provisioning of
        (Inl e, directory') \<Rightarrow> (Inl e, directory')
      | (Inr store, directory') \<Rightarrow>
          if as_store_instance_id (st_snapshot store) \<noteq> expected_store_instance_id
          then (Inl StoreInstanceMismatch, directory')
          else (Inr store, directory'))"

text \<open>The checks of the initialiser: an empty directory, and its own new lock file.\<close>

definition ensure_fresh_directory :: "StoreOpenError option \<Rightarrow> Directory \<Rightarrow> StoreOpenError + unit" where
  "ensure_fresh_directory scan directory =
     (case scan of
        Some e \<Rightarrow> Inl e
      | None \<Rightarrow>
          if dir_lock directory \<or> dir_active directory \<noteq> None
             \<or> list_ex (\<lambda>f. \<not> is_dot_entry (fst f)) (dir_others directory)
          then Inl DirectoryNotFresh else Inr ())"

definition create_and_lock_initializer_lock ::
  "ErrorKind option \<Rightarrow> StoreOpenError option \<Rightarrow> Directory \<Rightarrow> (StoreOpenError + unit) \<times> Directory" where
  "create_and_lock_initializer_lock create checks directory =
     (if dir_lock directory then (Inl (OpenIo \<lparr>io_stage = CreateLock, io_kind = AlreadyExists\<rparr>), directory)
      else case create of
        Some kind \<Rightarrow> (Inl (OpenIo \<lparr>io_stage = CreateLock, io_kind = kind\<rparr>), directory)
      | None \<Rightarrow>
          let locked = directory\<lparr>dir_lock := True\<rparr> in
          (case checks of Some e \<Rightarrow> (Inl e, locked) | None \<Rightarrow> (Inr (), locked)))"

definition ensure_operational :: "AuthorityStore \<Rightarrow> StoreError + unit" where
  "ensure_operational self = (if st_state self = Stopped then Inl StoreStopped else Inr ())"

abbreviation stop :: "AuthorityStore \<Rightarrow> AuthorityStore" where
  "stop self \<equiv> self\<lparr>st_state := Stopped\<rparr>"

definition store_snapshot :: "AuthorityStore \<Rightarrow> StoreError + AuthoritySnapshot" where
  "store_snapshot self = and_then (ensure_operational self) (\<lambda>_. Inr (st_snapshot self))"

definition revalidate_current ::
  "Externals \<Rightarrow> Faults \<Rightarrow> Directory \<Rightarrow> AuthorityStore \<Rightarrow> (StoreError + AuthoritySnapshot) \<times> AuthorityStore" where
  "revalidate_current X flt directory self =
     and_then_st (ensure_operational self) self (\<lambda>_.
     case read_active_snapshot X flt directory of
       Inl e \<Rightarrow> (Inl (StoreOpen e), stop self)
     | Inr disk \<Rightarrow>
         if disk \<noteq> st_snapshot self then (Inl ActiveSnapshotChanged, stop self)
         else (Inr (st_snapshot self), self))"

text \<open>\<open>read\<close> is the second reading of the active file, \<open>token\<close> what the random source gives.\<close>

record CommitFaults =
  cf_read :: Faults
  cf_token :: "ErrorKind + bytes16"
  cf_publish :: Faults

definition commit ::
  "Externals \<Rightarrow> CommitFaults \<Rightarrow> AuthoritySnapshot \<Rightarrow> CommitFailpoint \<Rightarrow> AuthorityStore \<Rightarrow> Directory \<Rightarrow>
   (StoreError + unit) \<times> AuthorityStore \<times> Directory" where
  "commit X flt next failpoint self directory =
     and_then_st (ensure_operational self) (self, directory) (\<lambda>_.
     if as_store_instance_id next \<noteq> as_store_instance_id (st_snapshot self)
        \<or> as_provisioning next \<noteq> as_provisioning (st_snapshot self)
        \<or> as_owner_identity_fingerprint next \<noteq> as_owner_identity_fingerprint (st_snapshot self)
     then (Inl ImmutableIdentityChanged, stop self, directory)
     else
     and_then_st (ok_or (checked_add (as_snapshot_sequence (st_snapshot self)) 1) SequenceOverflow)
       (stop self, directory) (\<lambda>expected_sequence.
     if as_snapshot_sequence next \<noteq> expected_sequence
     then (Inl SequenceTransitionMismatch, stop self, directory)
     else
     and_then_st (map_err (\<lambda>e. StoreCodec (CodecModel e)) (snapshot_validate X next)) (stop self, directory) (\<lambda>_.
     case revalidate_current X (cf_read flt) directory self of
       (Inl e, self) \<Rightarrow> (Inl e, self, directory)
     | (Inr _, self) \<Rightarrow>
         and_then_st (map_err StoreCodec (encode_snapshot X next)) (stop self, directory) (\<lambda>encoded.
         and_then_st (map_err (\<lambda>kind. StorePublish (RejectedBeforePublish (fault_io GenerateTempName kind)))
                        (system_random_token (cf_token flt))) (stop self, directory) (\<lambda>token.
         case publish_atomic (cf_publish flt) directory encoded token ReplaceExisting failpoint of
           (Inr _, directory) \<Rightarrow> (Inr (), self\<lparr>st_snapshot := next\<rparr>, directory)
         | (Inl e, directory) \<Rightarrow> (Inl (StorePublish e), stop self, directory))))))"

end
