(* ===== verification/Tenure_Authority.thy ===== *)
theory Tenure_Authority
  imports Tenure_Store
begin

text \<open>
  The tenure authority, \<open>crates/paraegox-deployment/src/tenure_authority/\<close>: the signer
  (\<open>signer.rs\<close>), the stable diagnostics and error mappings, the policy check, opening and the
  acquire operation (\<open>mod.rs\<close>), and the initialisation of a store with its receipt
  (\<open>initializer.rs\<close>). The acquire operation runs with the failpoint the source passes in
  production, or with any injected one.
\<close>

section \<open>The signer\<close>

record Ed25519TenureSigner =
  sg_proof_authority :: TenureProofAuthority
  sg_signing_key_fingerprint :: Digest32
  sg_signing_key :: bytes32

record SignedTenureProof =
  sp_proof :: WriterTenureProof
  sp_signature :: bytes64
  sp_envelope_digest :: Digest32

datatype SignerError =
    AllZeroSeed
  | UnsupportedSignerProfile
  | SignerKeyFingerprintMismatch
  | ProofAuthorityMismatch
  | VerificationKeyMismatch
  | SignerModel ModelError
  | SignerProof TenureProofError
  | SignerDigest DigestBuildError

definition signer_try_from_seed ::
  "Externals \<Rightarrow> TenureProofAuthority \<Rightarrow> bytes32 \<Rightarrow> Digest32 \<Rightarrow> SignerError + Ed25519TenureSigner" where
  "signer_try_from_seed X proof_authority seed expected_signing_key_fingerprint =
     (if list_all (\<lambda>b. b = 0) (arr32 seed) then Inl AllZeroSeed
      else if pa_algorithm proof_authority \<noteq> ED25519_ALGORITHM
              \<or> pa_algorithm_version proof_authority \<noteq> ED25519_ALGORITHM_VERSION
      then Inl UnsupportedSignerProfile
      else
      and_then (map_err SignerModel (signing_key_fingerprint_for X (ex_verifying_key X seed)))
        (\<lambda>signing_key_fingerprint.
      if signing_key_fingerprint \<noteq> expected_signing_key_fingerprint then Inl SignerKeyFingerprintMismatch
      else Inr \<lparr>sg_proof_authority = proof_authority,
                sg_signing_key_fingerprint = signing_key_fingerprint, sg_signing_key = seed\<rparr>))"

definition validate_provisioning ::
  "Externals \<Rightarrow> Ed25519TenureSigner \<Rightarrow> AuthorityProvisioning \<Rightarrow> SignerError + unit" where
  "validate_provisioning X self provisioning =
     (if sg_proof_authority self \<noteq> ap_proof_authority provisioning then Inl ProofAuthorityMismatch
      else if sg_signing_key_fingerprint self \<noteq> af_signing_key (ap_fingerprints provisioning)
      then Inl SignerKeyFingerprintMismatch
      else if ex_verifying_key X (sg_signing_key self) \<noteq> ap_verification_key provisioning
      then Inl VerificationKeyMismatch
      else Inr ())"

definition signer_sign ::
  "Externals \<Rightarrow> Ed25519TenureSigner \<Rightarrow> DeploymentScopeId \<Rightarrow> DeploymentWriterRef \<Rightarrow> u64 \<Rightarrow> u64 \<Rightarrow> bytes \<Rightarrow>
   SignerError + SignedTenureProof" where
  "signer_sign X self source_scope writer epoch supersedes_through_epoch nonce =
     and_then (map_err SignerProof (tenure_claim_try_new source_scope writer epoch supersedes_through_epoch))
       (\<lambda>claim.
     and_then (map_err SignerProof (signing_transcript_try_new (sg_proof_authority self) claim nonce))
       (\<lambda>transcript.
     let signature = ex_sign X (sg_signing_key self) transcript in
     and_then (map_err SignerProof
                 (tenure_proof_try_new (sg_proof_authority self) claim nonce (arr64 signature)))
       (\<lambda>tenure_proof.
     and_then (map_err SignerDigest (envelope_digest (ex_sha256 X) tenure_proof)) (\<lambda>digest.
       Inr \<lparr>sp_proof = tenure_proof, sp_signature = signature, sp_envelope_digest = digest\<rparr>))))"

section \<open>Diagnostics\<close>

record TenureAuthorityFailureDiagnostic =
  fd_code :: string
  fd_stage :: string
  fd_path_role :: string
  fd_fact :: string

definition diagnostic_new :: "string \<Rightarrow> string \<Rightarrow> string \<Rightarrow> string \<Rightarrow> TenureAuthorityFailureDiagnostic" where
  "diagnostic_new code stage path_role fact' =
     \<lparr>fd_code = code, fd_stage = stage, fd_path_role = path_role, fd_fact = fact'\<rparr>"

fun file_stage_name :: "FileStage \<Rightarrow> string" where
  "file_stage_name InspectDirectory = ''inspect_directory''"
| "file_stage_name OpenDirectory = ''open_directory''"
| "file_stage_name InspectFilesystem = ''inspect_filesystem''"
| "file_stage_name ScanDirectory = ''scan_directory''"
| "file_stage_name CreateLock = ''create_lock''"
| "file_stage_name OpenLock = ''open_lock''"
| "file_stage_name AcquireLock = ''acquire_lock''"
| "file_stage_name OpenActive = ''open_active''"
| "file_stage_name ReadActive = ''read_active''"
| "file_stage_name InspectOrphanTemp = ''inspect_orphan_temp''"
| "file_stage_name RemoveOrphanTemp = ''remove_orphan_temp''"
| "file_stage_name SyncOrphanCleanup = ''sync_orphan_cleanup''"
| "file_stage_name GenerateTempName = ''generate_temp_name''"
| "file_stage_name ValidateEncodedSnapshot = ''validate_encoded_snapshot''"
| "file_stage_name RequireMissingActive = ''require_missing_active''"
| "file_stage_name CreateTemp = ''create_temp''"
| "file_stage_name InspectTemp = ''inspect_temp''"
| "file_stage_name WriteTemp = ''write_temp''"
| "file_stage_name SyncTemp = ''sync_temp''"
| "file_stage_name Rename = ''rename_snapshot''"
| "file_stage_name SyncDirectory = ''sync_directory''"
| "file_stage_name ReturnDurableCommit = ''return_durable_commit''"

fun file_stage_path_role :: "FileStage \<Rightarrow> string" where
  "file_stage_path_role InspectDirectory = ''state_dir''"
| "file_stage_path_role OpenDirectory = ''state_dir''"
| "file_stage_path_role InspectFilesystem = ''state_dir''"
| "file_stage_path_role ScanDirectory = ''state_dir''"
| "file_stage_path_role SyncOrphanCleanup = ''state_dir''"
| "file_stage_path_role SyncDirectory = ''state_dir''"
| "file_stage_path_role ReturnDurableCommit = ''state_dir''"
| "file_stage_path_role CreateLock = ''lock''"
| "file_stage_path_role OpenLock = ''lock''"
| "file_stage_path_role AcquireLock = ''lock''"
| "file_stage_path_role OpenActive = ''active_snapshot''"
| "file_stage_path_role ReadActive = ''active_snapshot''"
| "file_stage_path_role RequireMissingActive = ''active_snapshot''"
| "file_stage_path_role InspectOrphanTemp = ''temp_snapshot''"
| "file_stage_path_role RemoveOrphanTemp = ''temp_snapshot''"
| "file_stage_path_role GenerateTempName = ''temp_snapshot''"
| "file_stage_path_role ValidateEncodedSnapshot = ''temp_snapshot''"
| "file_stage_path_role CreateTemp = ''temp_snapshot''"
| "file_stage_path_role InspectTemp = ''temp_snapshot''"
| "file_stage_path_role WriteTemp = ''temp_snapshot''"
| "file_stage_path_role SyncTemp = ''temp_snapshot''"
| "file_stage_path_role Rename = ''temp_snapshot''"

fun store_open_diagnostic :: "StoreOpenError \<Rightarrow> TenureAuthorityFailureDiagnostic" where
  "store_open_diagnostic LockContended =
     diagnostic_new ''PXTA-STORE-LOCK-CONTENDED'' ''acquire_lock'' ''lock'' ''contended''"
| "store_open_diagnostic StoreInstanceMismatch =
     diagnostic_new ''PXTA-STORE-IDENTITY-MISMATCH'' ''validate_store_identity'' ''active_snapshot''
       ''store_identity_mismatch''"
| "store_open_diagnostic ProvisioningMismatch =
     diagnostic_new ''PXTA-STORE-PROVISIONING-MISMATCH'' ''validate_owner_provisioning'' ''active_snapshot''
       ''owner_or_provisioning_mismatch''"
| "store_open_diagnostic UnsupportedFilesystem =
     diagnostic_new ''PXTA-FILESYSTEM-ATOMICITY-UNSUPPORTED'' ''inspect_filesystem'' ''state_dir'' ''unsupported''"
| "store_open_diagnostic (OpenIo failure) =
     (if io_stage failure = OpenActive \<and> io_kind failure = NotFound
      then diagnostic_new ''PXTA-SNAPSHOT-MISSING'' ''open_active'' ''active_snapshot'' ''missing''
      else if io_stage failure = OpenLock \<and> io_kind failure = NotFound
      then diagnostic_new ''PXTA-STORE-LOCK-MISSING'' ''open_lock'' ''lock'' ''missing''
      else diagnostic_new ''PXTA-STORE-IO'' (file_stage_name (io_stage failure))
             (file_stage_path_role (io_stage failure)) ''io_failure'')"
| "store_open_diagnostic (OpenCodec e) =
     (if e = ChecksumMismatch
      then diagnostic_new ''PXTA-SNAPSHOT-CHECKSUM-MISMATCH'' ''decode_snapshot'' ''active_snapshot''
             ''checksum_mismatch''
      else diagnostic_new ''PXTA-SNAPSHOT-CORRUPT'' ''decode_snapshot'' ''active_snapshot'' ''invalid'')"
| "store_open_diagnostic DirectoryNotFresh =
     diagnostic_new ''PXTA-STORE-NOT-FRESH'' ''scan_directory'' ''state_dir'' ''not_fresh''"
| "store_open_diagnostic e =
     (if e \<in> {ActiveEmpty, ActiveTooLarge, ActiveAllocationFailed, ActiveChangedDuringRead}
      then diagnostic_new ''PXTA-SNAPSHOT-INVALID'' ''read_active'' ''active_snapshot'' ''invalid''
      else if e \<in> {PathMustBeAbsolute, UnsafeDirectoryPath, SymlinkInDirectoryPath, UnsafeDirectoryType,
                   UnsafeDirectoryMode, DirectoryIdentityChanged}
      then diagnostic_new ''PXTA-STATE-DIRECTORY-UNSAFE'' ''validate_directory'' ''state_dir'' ''unsafe''
      else if e \<in> {UnsafeFileType, UnsafeFileMode, FileOwnerMismatch}
      then diagnostic_new ''PXTA-STORE-FILE-UNSAFE'' ''validate_file'' ''store_file'' ''unsafe''
      else diagnostic_new ''PXTA-STORE-DIRECTORY-CONTAMINATED'' ''scan_directory'' ''state_dir''
             ''unexpected_entry'')"

definition publish_fault_diagnostic ::
  "string \<Rightarrow> PublishFault \<Rightarrow> string \<Rightarrow> TenureAuthorityFailureDiagnostic" where
  "publish_fault_diagnostic code fault fact' =
     diagnostic_new code (file_stage_name (pf_stage fault)) (file_stage_path_role (pf_stage fault)) fact'"

fun publish_diagnostic :: "PublishFailure \<Rightarrow> TenureAuthorityFailureDiagnostic" where
  "publish_diagnostic (RejectedBeforePublish fault) =
     publish_fault_diagnostic ''PXTA-PUBLISH-REJECTED'' fault
       (if pf_kind fault \<noteq> None then ''io_failure_not_published'' else ''not_published'')"
| "publish_diagnostic (UncertainAfterPublish fault) =
     publish_fault_diagnostic ''PXTA-PUBLISH-UNCERTAIN'' fault
       (if pf_kind fault \<noteq> None then ''io_failure_publication_uncertain'' else ''publication_uncertain'')"

section \<open>Errors of the authority\<close>

datatype TenureAcquireError =
    UnauthorizedScope
  | UnauthorizedWriter
  | UnauthorizedControllerPrincipal
  | UnauthorizedControllerKey
  | UnsupportedRequestSignatureProfile
  | InvalidProvisionedControllerKey
  | InvalidRequestSignature
  | OperationDigestConflict
  | CapacityExceeded
  | EpochOverflow
  | SnapshotSequenceOverflow
  | InvalidStoredResponse
  | SigningFailed
  | ResponseBoundExceeded
  | ResponseEncodingFailed
  | StoreStopped
  | RejectedBeforePublish TenureAuthorityFailureDiagnostic
  | UncertainAfterPublish TenureAuthorityFailureDiagnostic
  | StoreUnavailableOrInvalid TenureAuthorityFailureDiagnostic

datatype TenureAuthorityOpenError =
    InvalidExpectedStoreIdentity
  | SigningKeyMismatch
  | OpenStore TenureAuthorityFailureDiagnostic

definition map_acquire_model_error :: "ModelError \<Rightarrow> TenureAcquireError" where
  "map_acquire_model_error e =
     (case e of
        ModelError.OperationDigestConflict \<Rightarrow> OperationDigestConflict
      | ModelError.AcquireCapacityExceeded \<Rightarrow> CapacityExceeded
      | ModelError.EpochOverflow \<Rightarrow> EpochOverflow
      | ModelError.SnapshotSequenceOverflow \<Rightarrow> SnapshotSequenceOverflow
      | _ \<Rightarrow> StoreUnavailableOrInvalid
               (diagnostic_new ''PXTA-STORE-MODEL-INVALID'' ''validate_snapshot'' ''active_snapshot'' ''invalid''))"

fun map_acquire_store_error :: "StoreError \<Rightarrow> TenureAcquireError" where
  "map_acquire_store_error StoreError.StoreStopped = StoreStopped"
| "map_acquire_store_error (StorePublish (PublishFailure.RejectedBeforePublish fault)) =
     RejectedBeforePublish (publish_diagnostic (PublishFailure.RejectedBeforePublish fault))"
| "map_acquire_store_error (StorePublish (PublishFailure.UncertainAfterPublish fault)) =
     UncertainAfterPublish (publish_diagnostic (PublishFailure.UncertainAfterPublish fault))"
| "map_acquire_store_error SequenceOverflow = SnapshotSequenceOverflow"
| "map_acquire_store_error (StoreOpen e) = StoreUnavailableOrInvalid (store_open_diagnostic e)"
| "map_acquire_store_error ActiveSnapshotChanged =
     StoreUnavailableOrInvalid
       (diagnostic_new ''PXTA-SNAPSHOT-CHANGED'' ''revalidate_snapshot'' ''active_snapshot'' ''identity_changed'')"
| "map_acquire_store_error _ =
     StoreUnavailableOrInvalid
       (diagnostic_new ''PXTA-STORE-STATE-INVALID'' ''validate_transition'' ''active_snapshot'' ''invalid'')"

fun store_diagnostic :: "TenureAcquireError \<Rightarrow> TenureAuthorityFailureDiagnostic option" where
  "store_diagnostic (RejectedBeforePublish d) = Some d"
| "store_diagnostic (UncertainAfterPublish d) = Some d"
| "store_diagnostic (StoreUnavailableOrInvalid d) = Some d"
| "store_diagnostic _ = None"

section \<open>Acquiring a tenure\<close>

record DeploymentTenureAuthority =
  au_store :: AuthorityStore
  au_signer :: Ed25519TenureSigner

datatype AcquireDisposition = Issued | Replayed

record CommittedAcquireTenure =
  ct_response :: AcquireTenureResponseV1
  ct_disposition :: AcquireDisposition

definition validate_request_policy ::
  "Externals \<Rightarrow> AuthorityProvisioning \<Rightarrow> AcquireTenureRequestV1 \<Rightarrow> TenureAcquireError + unit" where
  "validate_request_policy X provisioning request =
     (let authorization = ap_authorization provisioning in
      if ACQUIRE_TENURE_ED25519_ALGORITHM \<noteq> 1 \<or> ACQUIRE_TENURE_ED25519_ALGORITHM_VERSION \<noteq> 1
      then Inl UnsupportedRequestSignatureProfile
      else if \<not> ex_key_valid X (aa_controller_verification_key authorization)
      then Inl InvalidProvisionedControllerKey
      else
      and_then (ok_or (signature_array (rq_auth_signature request)) InvalidRequestSignature) (\<lambda>signature.
      and_then (map_err (\<lambda>_. InvalidRequestSignature) (request_signing_transcript request)) (\<lambda>transcript.
      if \<not> ex_verify_strict X (aa_controller_verification_key authorization) transcript signature
      then Inl InvalidRequestSignature
      else if ti_scope (rq_intent request) \<noteq> ap_source_scope provisioning then Inl UnauthorizedScope
      else if ti_writer (rq_intent request) \<noteq> ap_authorized_writer provisioning then Inl UnauthorizedWriter
      else if td_controller_principal (rq_draft request) \<noteq> aa_controller_principal authorization
      then Inl UnauthorizedControllerPrincipal
      else if td_controller_key (rq_draft request) \<noteq> aa_controller_key authorization
              \<or> td_controller_public_key_fingerprint (rq_draft request)
                  \<noteq> aa_controller_public_key_fingerprint authorization
      then Inl UnauthorizedControllerKey
      else Inr ())))"

definition request_intent :: "AcquireTenureRequestV1 \<Rightarrow> TenureAcquireError + AcquireIntent" where
  "request_intent request =
     and_then (map_err map_acquire_model_error (operation_id_try_from_bytes (ti_operation_id (rq_intent request))))
       (\<lambda>operation_id.
     map_err map_acquire_model_error
       (intent_try_new operation_id (rq_request_digest request) (rq_canonical_bytes request)
          (ti_writer (rq_intent request)) (td_client_nonce (rq_draft request))
          (td_max_response_payload_bytes (rq_draft request))))"

text \<open>The replay of a stored response, and the construction of the next snapshot.\<close>

definition replay_response ::
  "Externals \<Rightarrow> AcquireTenureRequestV1 \<Rightarrow> bytes \<Rightarrow> Digest32 \<Rightarrow> Digest32 \<Rightarrow>
   TenureAcquireError + CommittedAcquireTenure" where
  "replay_response X request exact_response_bytes response_digest proof_envelope_digest =
     and_then (map_err (\<lambda>_. InvalidStoredResponse)
                 (decode_for_request (ex_sha256 X) exact_response_bytes request)) (\<lambda>response.
     if rs_response_digest response \<noteq> response_digest \<or> rs_proof_digest response \<noteq> proof_envelope_digest
     then Inl InvalidStoredResponse
     else Inr \<lparr>ct_response = response, ct_disposition = Replayed\<rparr>)"

definition issue_response ::
  "Externals \<Rightarrow> Ed25519TenureSigner \<Rightarrow> AuthoritySnapshot \<Rightarrow> AcquireTenureRequestV1 \<Rightarrow> AcquireIntent \<Rightarrow> u64 \<Rightarrow> u64 \<Rightarrow>
   TenureAcquireError + (AcquireTenureResponseV1 \<times> AuthoritySnapshot)" where
  "issue_response X signer snapshot request intent next_epoch next_snapshot_sequence =
     and_then (map_err (\<lambda>_. SigningFailed)
                 (signer_sign X signer (ap_source_scope (as_provisioning snapshot)) (ai_writer intent) next_epoch
                    (as_epoch_high_water snapshot) (ai_nonce intent))) (\<lambda>signed.
     and_then (map_err (\<lambda>e. if pe_code e = AcquireTenureProtocolErrorCode.ResponseBoundExceeded
                             then ResponseBoundExceeded else ResponseEncodingFailed)
                 (response_try_new (ex_sha256 X) request (sp_proof signed))) (\<lambda>response.
     if rs_proof_digest response \<noteq> sp_envelope_digest signed then Inl ResponseEncodingFailed
     else
     and_then (map_err map_acquire_model_error
                 (encoded_response_try_new (rs_canonical_bytes response) (rs_response_digest response)
                    (sp_envelope_digest signed))) (\<lambda>encoded_response.
     and_then (map_err map_acquire_model_error
                 (with_issued_record X snapshot intent next_epoch next_snapshot_sequence (sp_signature signed)
                    (sp_envelope_digest signed) encoded_response)) (\<lambda>next. Inr (response, next)))))"

record AcquireFaults =
  af_read :: Faults
  af_commit :: CommitFaults

definition acquire_with_failpoint ::
  "Externals \<Rightarrow> AcquireFaults \<Rightarrow> AcquireTenureRequestV1 \<Rightarrow> CommitFailpoint \<Rightarrow>
   DeploymentTenureAuthority \<Rightarrow> Directory \<Rightarrow>
   (TenureAcquireError + CommittedAcquireTenure) \<times> DeploymentTenureAuthority \<times> Directory" where
  "acquire_with_failpoint X flt request failpoint self directory =
     (case revalidate_current X (af_read flt) directory (au_store self) of
        (Inl e, store) \<Rightarrow> (Inl (map_acquire_store_error e), self\<lparr>au_store := store\<rparr>, directory)
      | (Inr snapshot, store) \<Rightarrow>
          let self = self\<lparr>au_store := store\<rparr> in
          and_then_st (validate_request_policy X (as_provisioning snapshot) request) (self, directory) (\<lambda>_.
          and_then_st (request_intent request) (self, directory) (\<lambda>intent.
          and_then_st (map_err map_acquire_model_error (preflight snapshot intent)) (self, directory) (\<lambda>flight.
          case flight of
            Replay exact_response_bytes response_digest proof_envelope_digest \<Rightarrow>
              (replay_response X request exact_response_bytes response_digest proof_envelope_digest,
               self, directory)
          | Issue next_epoch next_snapshot_sequence \<Rightarrow>
              and_then_st (issue_response X (au_signer self) snapshot request intent next_epoch
                             next_snapshot_sequence) (self, directory) (\<lambda>(response, next).
              case commit X (af_commit flt) next failpoint (au_store self) directory of
                (Inl e, store, directory) \<Rightarrow>
                  (Inl (map_acquire_store_error e), self\<lparr>au_store := store\<rparr>, directory)
              | (Inr _, store, directory) \<Rightarrow>
                  (Inr \<lparr>ct_response = response, ct_disposition = Issued\<rparr>, self\<lparr>au_store := store\<rparr>, directory))))))"

definition acquire_authorized_request ::
  "Externals \<Rightarrow> AcquireFaults \<Rightarrow> AcquireTenureRequestV1 \<Rightarrow> DeploymentTenureAuthority \<Rightarrow> Directory \<Rightarrow>
   (TenureAcquireError + CommittedAcquireTenure) \<times> DeploymentTenureAuthority \<times> Directory" where
  "acquire_authorized_request X flt request self directory =
     acquire_with_failpoint X flt request NoFailpoint self directory"

definition authority_snapshot_sequence :: "DeploymentTenureAuthority \<Rightarrow> TenureAcquireError + u64" where
  "authority_snapshot_sequence self =
     map_err map_acquire_store_error (and_then (store_snapshot (au_store self)) (\<lambda>s. Inr (as_snapshot_sequence s)))"

definition authority_epoch_high_water :: "DeploymentTenureAuthority \<Rightarrow> TenureAcquireError + u64" where
  "authority_epoch_high_water self =
     map_err map_acquire_store_error (and_then (store_snapshot (au_store self)) (\<lambda>s. Inr (as_epoch_high_water s)))"

section \<open>Opening\<close>

definition authority_open ::
  "Externals \<Rightarrow> OpenFaults \<Rightarrow> bytes32 \<Rightarrow> AuthorityProvisioning \<Rightarrow> bytes32 \<Rightarrow> Directory \<Rightarrow>
   (TenureAuthorityOpenError + DeploymentTenureAuthority) \<times> Directory" where
  "authority_open X flt expected_store_instance_id provisioning private_seed directory =
     and_then_st (map_err (\<lambda>_. InvalidExpectedStoreIdentity)
                    (store_instance_id_try_from_bytes expected_store_instance_id)) directory (\<lambda>store_id.
     and_then_st (map_err (\<lambda>_. SigningKeyMismatch)
                    (signer_try_from_seed X (ap_proof_authority provisioning) private_seed
                       (af_signing_key (ap_fingerprints provisioning)))) directory (\<lambda>signer.
     and_then_st (map_err (\<lambda>_. SigningKeyMismatch) (validate_provisioning X signer provisioning)) directory (\<lambda>_.
     case store_open X flt directory store_id provisioning of
       (Inl e, directory) \<Rightarrow> (Inl (OpenStore (store_open_diagnostic e)), directory)
     | (Inr store, directory) \<Rightarrow> (Inr \<lparr>au_store = store, au_signer = signer\<rparr>, directory))))"

section \<open>Initialisation\<close>

definition STORE_INSTANCE_ID_BYTES :: nat where "STORE_INSTANCE_ID_BYTES = 32"
definition INITIALIZATION_RECEIPT_MAGIC :: bytes where "INITIALIZATION_RECEIPT_MAGIC = ascii ''PXTAINIT'' @ [0]"
definition INITIALIZATION_RECEIPT_VERSION :: u16 where "INITIALIZATION_RECEIPT_VERSION = 1"

definition INITIALIZATION_RECEIPT_DIGEST_DOMAIN :: bytes where
  "INITIALIZATION_RECEIPT_DIGEST_DOMAIN =
     ascii ''paraegox.deployment.tenure-authority.initialization-receipt.sha256.v1''"

datatype InitializationEntropyError = EntropyIo ErrorKind | Unavailable

datatype InitializationError =
    Entropy InitializationEntropyError
  | InvalidStoreIdentityWidth
  | InvalidTempTokenWidth
  | AllZeroTempToken
  | InvalidEncodedSnapshot
  | ReadBackMismatch
  | InitModel ModelError
  | InitCodec CodecError
  | InitStore StoreOpenError
  | InitPublish PublishFailure
  | InitDigest DigestBuildError

record InitializationReceipt =
  ir_store_instance_id :: StoreInstanceId
  ir_owner_identity_fingerprint :: Digest32
  ir_source_scope :: DeploymentScopeId
  ir_authority :: TenureAuthorityRef
  ir_key :: TenureKeyRef
  ir_signing_key_fingerprint :: Digest32
  ir_policy_fingerprint :: Digest32
  ir_service_principal_fingerprint :: Digest32
  ir_snapshot_sequence :: u64
  ir_epoch_high_water :: u64
  ir_snapshot_checksum :: Digest32
  ir_canonical_bytes :: bytes
  ir_receipt_digest :: Digest32

definition receipt_canonical :: "AuthoritySnapshot \<Rightarrow> Digest32 \<Rightarrow> bytes" where
  "receipt_canonical snapshot snapshot_checksum =
     (let provisioning = as_provisioning snapshot in
      INITIALIZATION_RECEIPT_MAGIC @ be_u16 INITIALIZATION_RECEIPT_VERSION
      @ arr32 (as_store_instance_id snapshot) @ arr32 (as_owner_identity_fingerprint snapshot)
      @ arr16 (ap_source_scope provisioning) @ arr16 (ap_authorized_writer provisioning)
      @ arr16 (pa_authority (ap_proof_authority provisioning)) @ arr16 (pa_key (ap_proof_authority provisioning))
      @ arr16 (aa_controller_principal (ap_authorization provisioning))
      @ arr16 (aa_controller_key (ap_authorization provisioning))
      @ arr32 (aa_controller_verification_key (ap_authorization provisioning))
      @ arr32 (aa_controller_public_key_fingerprint (ap_authorization provisioning))
      @ arr32 (af_signing_key (ap_fingerprints provisioning)) @ arr32 (af_policy (ap_fingerprints provisioning))
      @ arr32 (af_service_principal (ap_fingerprints provisioning))
      @ be_u64 (as_snapshot_sequence snapshot) @ be_u64 (as_epoch_high_water snapshot) @ arr32 snapshot_checksum)"

definition receipt_from_snapshot ::
  "Externals \<Rightarrow> AuthoritySnapshot \<Rightarrow> bytes \<Rightarrow> InitializationError + InitializationReceipt" where
  "receipt_from_snapshot X snapshot encoded_snapshot =
     (if length encoded_snapshot < ENVELOPE_HEADER_BYTES then Inl InvalidEncodedSnapshot
      else
        let snapshot_checksum = from_be (drop ENVELOPE_HEADER_WITHOUT_CHECKSUM_BYTES
                                           (take ENVELOPE_HEADER_BYTES encoded_snapshot));
            provisioning = as_provisioning snapshot;
            canonical = receipt_canonical snapshot snapshot_checksum in
        and_then (map_err InitDigest
                    (build_digest (ex_sha256 X) INITIALIZATION_RECEIPT_DIGEST_DOMAIN [field_bytes canonical]))
          (\<lambda>receipt_digest.
        Inr \<lparr>ir_store_instance_id = as_store_instance_id snapshot,
             ir_owner_identity_fingerprint = as_owner_identity_fingerprint snapshot,
             ir_source_scope = ap_source_scope provisioning,
             ir_authority = pa_authority (ap_proof_authority provisioning),
             ir_key = pa_key (ap_proof_authority provisioning),
             ir_signing_key_fingerprint = af_signing_key (ap_fingerprints provisioning),
             ir_policy_fingerprint = af_policy (ap_fingerprints provisioning),
             ir_service_principal_fingerprint = af_service_principal (ap_fingerprints provisioning),
             ir_snapshot_sequence = as_snapshot_sequence snapshot,
             ir_epoch_high_water = as_epoch_high_water snapshot,
             ir_snapshot_checksum = snapshot_checksum, ir_canonical_bytes = canonical,
             ir_receipt_digest = receipt_digest\<rparr>))"

text \<open>
  The directory checks, the freshness scan, the creation and the checks of the lock and the reading
  of the published file report \<open>if_open\<close>, \<open>if_fresh\<close>, \<open>if_create\<close>, \<open>if_lock\<close> and \<open>if_read\<close>; the
  entropy is an argument.
\<close>

record InitFaults =
  if_open :: "StoreOpenError option"
  if_fresh :: "StoreOpenError option"
  if_create :: "ErrorKind option"
  if_lock :: "StoreOpenError option"
  if_store_id :: "InitializationEntropyError + bytes"
  if_token :: "InitializationEntropyError + bytes"
  if_publish :: Faults
  if_read :: Faults

definition store_check :: "StoreOpenError option \<Rightarrow> InitializationError + unit" where
  "store_check e = (case e of Some e \<Rightarrow> Inl (InitStore e) | None \<Rightarrow> Inr ())"

definition initialize_with ::
  "Externals \<Rightarrow> InitFaults \<Rightarrow> AuthorityProvisioning \<Rightarrow> CommitFailpoint \<Rightarrow> Directory \<Rightarrow>
   (InitializationError + InitializationReceipt) \<times> Directory" where
  "initialize_with X flt provisioning failpoint directory =
     and_then_st (map_err InitModel (provisioning_validate X provisioning)) directory (\<lambda>_.
     and_then_st (store_check (if_open flt)) directory (\<lambda>_.
     and_then_st (map_err InitStore (ensure_fresh_directory (if_fresh flt) directory)) directory (\<lambda>_.
     and_then_st (map_err Entropy (if_store_id flt)) directory (\<lambda>store_bytes.
     if length store_bytes \<noteq> STORE_INSTANCE_ID_BYTES then (Inl InvalidStoreIdentityWidth, directory)
     else
     and_then_st (map_err InitModel (store_instance_id_try_from_bytes (from_be store_bytes))) directory
       (\<lambda>store_instance_id.
     and_then_st (map_err Entropy (if_token flt)) directory (\<lambda>temp_bytes.
     if length temp_bytes \<noteq> TEMP_TOKEN_BYTES then (Inl InvalidTempTokenWidth, directory)
     else if list_all (\<lambda>b. b = 0) temp_bytes then (Inl AllZeroTempToken, directory)
     else
     and_then_st (map_err InitModel (snapshot_initial X store_instance_id provisioning)) directory (\<lambda>snapshot.
     and_then_st (map_err InitCodec (encode_snapshot X snapshot)) directory (\<lambda>encoded.
     and_then_st (receipt_from_snapshot X snapshot encoded) directory (\<lambda>receipt.
     case create_and_lock_initializer_lock (if_create flt) (if_lock flt) directory of
       (Inl e, directory) \<Rightarrow> (Inl (InitStore e), directory)
     | (Inr _, directory) \<Rightarrow>
     case publish_atomic (if_publish flt) directory encoded (from_be temp_bytes) RequireMissing failpoint of
       (Inl e, directory) \<Rightarrow> (Inl (InitPublish e), directory)
     | (Inr _, directory) \<Rightarrow>
         and_then_st (map_err InitStore (read_active_snapshot X (if_read flt) directory)) directory (\<lambda>read_back.
         if read_back \<noteq> snapshot then (Inl ReadBackMismatch, directory) else (Inr receipt, directory)))))))))))"

end
