(* ===== verification/Tenure_Machine.thy ===== *)
theory Tenure_Machine
  imports Tenure_Authority State_Machine
begin

text \<open>
  The tenure authority over its whole life: processes that open the store, answer requests, stop
  or die at any system call, and machines that lose power. The step relation composes the
  operations of \<open>Tenure_Authority\<close>; the invariant says that every snapshot the active file may
  hold is valid and contains every tenure that was issued.
\<close>

section \<open>Publication\<close>

definition same_content :: "Directory \<Rightarrow> Directory \<Rightarrow> bool" where
  "same_content d d' \<longleftrightarrow> dir_active d' = dir_active d \<and> dir_torn d' = dir_torn d \<and> dir_unsynced d' = dir_unsynced d
     \<and> dir_unsynced_torn d' = dir_unsynced_torn d \<and> dir_lock d' = dir_lock d"

lemma same_candidates: "same_content d d' \<Longrightarrow> candidates d' = candidates d"
  by (simp add: same_content_def candidates_def)

text \<open>The contract of an atomic publication.\<close>

fun publish_outcome :: "Directory \<Rightarrow> bytes \<Rightarrow> (PublishFailure + unit) \<times> Directory \<Rightarrow> bool" where
  "publish_outcome d encoded (Inr _, d') \<longleftrightarrow>
     dir_active d' = Some encoded \<and> dir_unsynced d' = [] \<and> candidates d' = {Some encoded} \<and> dir_lock d' = dir_lock d"
| "publish_outcome d encoded (Inl (PublishFailure.RejectedBeforePublish _), d') \<longleftrightarrow> same_content d d'"
| "publish_outcome d encoded (Inl (PublishFailure.UncertainAfterPublish _), d') \<longleftrightarrow>
     dir_active d' = Some encoded \<and> dir_lock d' = dir_lock d
     \<and> (dir_unsynced d' = [] \<or> dir_unsynced d' = dir_unsynced d @ [dir_active d])
     \<and> candidates d' \<subseteq> insert (Some encoded) (candidates d)"

text \<open>Every call before the rename can only reject.\<close>

definition rejects :: "PublishFailure + unit \<Rightarrow> bool" where
  "rejects m \<longleftrightarrow> (\<forall>e. m = Inl e \<longrightarrow> (\<exists>f. e = PublishFailure.RejectedBeforePublish f))"

lemma open_error_rejects: "\<exists>f. rejected_open_error stage e = PublishFailure.RejectedBeforePublish f"
  by (cases e) (simp_all add: rejected_open_error_def)

lemma rejects_simps [simp]:
  "rejects (Inr ())" "rejects (Inl (rejected_injected stage))"
  "rejects (Inl (PublishFailure.RejectedBeforePublish f))" "rejects (os_call flt k stage)"
  "rejects (ensure_active_missing flt k d)" "rejects (map_err (rejected_open_error stage) m)"
  by (auto simp: rejects_def rejected_injected_def os_call_def ensure_active_missing_def open_error_rejects
      map_err_eq_Inl split: option.splits)

lemma publish_step:
  assumes "rejects m" "same_content d s" "\<And>a. publish_outcome d encoded (f a)"
  shows "publish_outcome d encoded (and_then_st m s f)"
  using assms by (cases m) (auto simp: rejects_def)

lemma publish_branch:
  assumes "c \<Longrightarrow> publish_outcome d encoded a" "\<not> c \<Longrightarrow> publish_outcome d encoded b"
  shows "publish_outcome d encoded (if c then a else b)"
  using assms by auto

lemma same_content_temp [simp]:
  "same_content d d" "same_content d (create_temp name content d)" "same_content d (sync_temp name (create_temp name content d))"
  by (simp_all add: same_content_def create_temp_def sync_temp_def)

text \<open>Renaming a file that was written and synchronised.\<close>

lemma rename_synced:
  assumes "name \<notin> fst ` set (dir_others d)"
  shows "rename_temp name (sync_temp name (create_temp name content d)) =
     d\<lparr>dir_active := Some content, dir_torn := False, dir_unsynced := dir_unsynced d @ [dir_active d],
       dir_unsynced_torn := dir_unsynced_torn d \<or> dir_torn d\<rparr>"
proof -
  let ?mark = "\<lambda>(n, content, synced). (n, content, synced \<or> n = name)"
  have old: "map ?mark (dir_others d) = dir_others d"
    using assms by (intro map_idI) force
  have "map_of (dir_others d @ [(name, content, True)]) name = Some (content, True)"
    using assms by (simp add: map_add_def map_of_eq_None_iff [THEN iffD2])
  moreover have "filter (\<lambda>f. fst f \<noteq> name) (dir_others d) = dir_others d"
    using assms by (force simp: filter_id_conv)
  ultimately show ?thesis by (simp add: rename_temp_def sync_temp_def create_temp_def old)
qed

lemma publish_atomic_outcome:
  "publish_outcome d encoded (publish_atomic flt d encoded token mode failpoint)"
proof (cases "temp_name token \<in> fst ` set (dir_others d)")
  case True
  then show ?thesis
    unfolding publish_atomic_def Let_def if_P [OF True] and_then_st.simps
    by (intro publish_step publish_branch) (simp_all add: rejected_injected_def split: PublishMode.splits)
next
  case False
  show ?thesis
    unfolding publish_atomic_def Let_def rename_synced [OF False]
    by (intro publish_step publish_branch)
      (auto simp: rejected_injected_def uncertain_injected_def sync_directory_def candidates_def
        split: option.splits PublishMode.splits)
qed

section \<open>What the store reads and writes\<close>

lemma read_active_bytes:
  assumes "read_active_snapshot X flt d = Inr s"
  shows "dir_active d = Some (snapshot_bytes X s)" "snapshot_wf X s" "as_store_instance_id s \<noteq> 0"
proof -
  from assms obtain bs where "dir_active d = Some bs" "decode_snapshot X bs = Inr s"
    by (auto simp: read_active_snapshot_def open_existing_active_def res_simps split: option.splits if_splits)
  then show "dir_active d = Some (snapshot_bytes X s)" "snapshot_wf X s" "as_store_instance_id s \<noteq> 0"
    by (auto simp: decode_snapshot_iff encode_snapshot_iff)
qed

lemma snapshot_bytes_inject:
  assumes "snapshot_bytes X s = snapshot_bytes X t" "snapshot_wf X s" "snapshot_wf X t"
    "as_store_instance_id s \<noteq> 0" "as_store_instance_id t \<noteq> 0"
  shows "s = t"
proof -
  have "Inr s = decode_snapshot X (snapshot_bytes X t)"
    by (simp only: decode_snapshot_bytes [OF assms(2,4), symmetric] assms(1))
  then show ?thesis by (simp only: decode_snapshot_bytes [OF assms(3,5)] sum.inject)
qed

lemma revalidate_ok:
  assumes "revalidate_current X flt d store = (Inr s, store')"
  shows "store' = store" "s = st_snapshot store" "dir_active d = Some (snapshot_bytes X s)" "snapshot_wf X s"
    "as_store_instance_id s \<noteq> 0"
  using assms read_active_bytes [of X flt d s]
  by (auto simp: revalidate_current_def ensure_operational_def split: sum.splits if_splits)

text \<open>A commit publishes the next snapshot, or leaves the active file as it was.\<close>

definition commit_result ::
  "Externals \<Rightarrow> AuthoritySnapshot \<Rightarrow> Directory \<Rightarrow> (StoreError + unit) \<times> AuthorityStore \<times> Directory \<Rightarrow> bool" where
  "commit_result X t d res \<longleftrightarrow>
     (let r = fst res; d' = snd (snd res) in
      (same_content d d' \<and> r \<noteq> Inr ())
      \<or> (snapshot_wf X t \<and> dir_lock d' = dir_lock d \<and> dir_active d' = Some (snapshot_bytes X t)
          \<and> (dir_unsynced d' = [] \<or> r \<noteq> Inr () \<and> dir_unsynced d' = dir_unsynced d @ [dir_active d])
          \<and> candidates d' \<subseteq> insert (dir_active d') (if r = Inr () then {} else candidates d)))"

lemma commit_step:
  "(\<And>a. m = Inr a \<Longrightarrow> commit_result X t d (f a)) \<Longrightarrow> commit_result X t d (and_then_st m (s, d) f)"
  by (cases m) (auto simp: commit_result_def Let_def)

lemma commit_branch:
  "commit_result X t d b \<Longrightarrow> commit_result X t d (if c then (Inl e, s, d) else b)"
  by (simp add: commit_result_def Let_def)

lemma commit_failed: "commit_result X t d (Inl e, s, d)"
  by (simp add: commit_result_def Let_def)

lemma commit_reread:
  "(\<And>a self. commit_result X t d (f a self)) \<Longrightarrow>
     commit_result X t d (case m of (Inl e, self) \<Rightarrow> (Inl e, self, d) | (Inr a, self) \<Rightarrow> f a self)"
  by (auto simp: commit_failed split: prod.splits sum.splits)

lemma commit_publish:
  assumes "map_err StoreCodec (encode_snapshot X t) = Inr bs"
  shows "commit_result X t d
    (case publish_atomic flt d bs token ReplaceExisting fp of
       (Inr _, d') \<Rightarrow> (Inr (), self\<lparr>st_snapshot := t\<rparr>, d')
     | (Inl e, d') \<Rightarrow> (Inl (StorePublish e), stop self, d'))"
proof (cases "publish_atomic flt d bs token ReplaceExisting fp")
  case (Pair r d')
  have bs: "snapshot_wf X t" "bs = snapshot_bytes X t"
    using assms by (simp_all add: map_err_eq_Inr encode_snapshot_iff)
  have "publish_outcome d bs (r, d')"
    using publish_atomic_outcome [of d bs flt token ReplaceExisting fp] Pair by simp
  then show ?thesis using bs Pair
    by (cases r; cases "projl r") (auto simp: commit_result_def)
qed

lemma commit_outcome: "commit_result X t d (commit X flt t fp store d)"
  unfolding commit_def by (intro commit_step commit_branch commit_reread commit_publish)

section \<open>Responses and records\<close>

definition holds_response :: "Externals \<Rightarrow> AuthoritySnapshot \<Rightarrow> AcquireTenureResponseV1 \<Rightarrow> bool" where
  "holds_response X s r \<longleftrightarrow>
     (\<exists>rec \<in> set (as_acquire_records s). decode_response (ex_sha256 X) (ar_exact_response_bytes rec) = Inr r)"

definition answers :: "Externals \<Rightarrow> AuthoritySnapshot \<Rightarrow> bytes \<Rightarrow> AcquireTenureResponseV1 \<Rightarrow> bool" where
  "answers X s request_bytes r \<longleftrightarrow>
     (\<exists>rec \<in> set (as_acquire_records s). ar_exact_request_bytes rec = request_bytes
        \<and> decode_response (ex_sha256 X) (ar_exact_response_bytes rec) = Inr r)"

abbreviation response_epoch :: "AcquireTenureResponseV1 \<Rightarrow> u64" where
  "response_epoch r \<equiv> wt_epoch (tp_claim (rs_proof r))"

lemma tenure_claim_parts:
  "tenure_claim_try_new scope writer e h = Inr claim \<longleftrightarrow>
     claim = \<lparr>wt_source_scope = scope, wt_writer = writer, wt_epoch = e, wt_supersedes_through_epoch = h\<rparr>
     \<and> e \<noteq> 0 \<and> h < e"
  by (auto simp: tenure_claim_try_new_def)

lemma record_response:
  assumes "snapshot_wf X s" "rec \<in> set (as_acquire_records s)"
    and dec: "decode_response (ex_sha256 X) (ar_exact_response_bytes rec) = Inr r"
  shows "response_epoch r = ar_epoch rec" "rs_operation_id r = ar_operation_id rec"
    "wt_supersedes_through_epoch (tp_claim (rs_proof r)) = ar_epoch rec - 1"
    "wt_source_scope (tp_claim (rs_proof r)) = ap_source_scope (as_provisioning s)" "ar_epoch rec \<noteq> 0"
    "length (tp_signature (rs_proof r)) = 64"
proof -
  have "validate_record_protocol X s rec = Inr ()" using assms by (simp add: snapshot_wf_def)
  then obtain rq claim p r' where
    claim: "tenure_claim_try_new (ap_source_scope (as_provisioning s)) (ar_writer rec) (ar_epoch rec)
      (ar_supersedes_through_epoch rec) = Inr claim"
    and p: "tenure_proof_try_new (ap_proof_authority (as_provisioning s)) claim (ar_nonce rec)
      (arr64 (ar_signature rec)) = Inr p"
    and rq: "\<not> \<not> request_bound_to s rec rq"
    and r': "decode_for_request (ex_sha256 X) (ar_exact_response_bytes rec) rq = Inr r'"
    and bound: "\<not> (rs_response_digest r' \<noteq> ar_response_digest rec
        \<or> rs_proof_digest r' \<noteq> ar_proof_envelope_digest rec \<or> rs_proof r' \<noteq> p)"
    unfolding validate_record_protocol_def and_then_eq_Inr guard_eq_Inr map_err_eq_Inr Let_def by blast
  from r' dec have "r' = r" by (auto simp: decode_for_request_def and_then_eq_Inr)
  moreover have "claim = \<lparr>wt_source_scope = ap_source_scope (as_provisioning s), wt_writer = ar_writer rec,
      wt_epoch = ar_epoch rec, wt_supersedes_through_epoch = ar_supersedes_through_epoch rec\<rparr>" "ar_epoch rec \<noteq> 0"
    using claim by (auto simp: tenure_claim_parts)
  moreover have "tp_claim p = claim" "length (tp_signature p) = 64" using p by (auto simp: tenure_proof_try_new_wf)
  moreover have "ar_supersedes_through_epoch rec = ar_epoch rec - 1"
    using structure_epoch(3) [of s rec] assms(1,2) by (simp add: snapshot_wf_def structure_ok_def)
  ultimately show "response_epoch r = ar_epoch rec" "ar_epoch rec \<noteq> 0" "length (tp_signature (rs_proof r)) = 64"
    "wt_supersedes_through_epoch (tp_claim (rs_proof r)) = ar_epoch rec - 1"
    "wt_source_scope (tp_claim (rs_proof r)) = ap_source_scope (as_provisioning s)" using bound by auto
  have "rs_operation_id r' = ti_operation_id (rq_intent rq)"
    using r' by (auto simp: decode_for_request_def validate_request_binding_def and_then_eq_Inr split: if_splits)
  then show "rs_operation_id r = ar_operation_id rec" using rq \<open>r' = r\<close> by (simp add: request_bound_to_def)
qed

lemma one_response_per_epoch:
  assumes wf: "snapshot_wf X s" and "holds_response X s r" "holds_response X s r'"
    and eq: "response_epoch r = response_epoch r' \<or> rs_operation_id r = rs_operation_id r'"
  shows "r = r'"
proof -
  obtain a b where a: "a \<in> set (as_acquire_records s)" "decode_response (ex_sha256 X) (ar_exact_response_bytes a) = Inr r"
    and b: "b \<in> set (as_acquire_records s)" "decode_response (ex_sha256 X) (ar_exact_response_bytes b) = Inr r'"
    using assms(2,3) by (auto simp: holds_response_def)
  have "ar_epoch a = ar_epoch b \<or> ar_operation_id a = ar_operation_id b"
    using record_response [OF wf a] record_response [OF wf b] eq by simp
  moreover have "inj_on ar_epoch (set (as_acquire_records s))" "inj_on ar_operation_id (set (as_acquire_records s))"
    using wf by (simp_all add: snapshot_wf_def operations_ascend_def strict_sorted_iff distinct_map)
  ultimately have "a = b" using a(1) b(1) by (auto dest: inj_onD)
  then show ?thesis using a(2) b(2) by simp
qed

lemma signer_sign_parts:
  assumes "signer_sign X sg scope writer e h nonce = Inr sp"
  obtains claim transcript where
    "tenure_claim_try_new scope writer e h = Inr claim"
    "signing_transcript_try_new (sg_proof_authority sg) claim nonce = Inr transcript"
    "sp_signature sp = ex_sign X (sg_signing_key sg) transcript"
    "tenure_proof_try_new (sg_proof_authority sg) claim nonce (arr64 (sp_signature sp)) = Inr (sp_proof sp)"
    "envelope_digest (ex_sha256 X) (sp_proof sp) = Inr (sp_envelope_digest sp)"
  using assms unfolding signer_sign_def and_then_eq_Inr map_err_eq_Inr Let_def by auto

lemma response_try_new_ok:
  assumes "response_try_new sha256 rq p = Inr r" "proof_ok p"
  shows "response_ok sha256 r" "rs_proof r = p" "rs_request_digest r = rq_request_digest rq"
    "rs_operation_id r = ti_operation_id (rq_intent rq)"
  using assms
  by (auto simp: response_try_new_def response_ok_def validate_proof_binding_def res_simps Let_def split: if_splits)

text \<open>The signer of a running process belongs to the provisioning of its store.\<close>

lemma issue_response_facts:
  assumes issue: "issue_response X sg s rq i e q = Inr (r, t)" and wf: "snapshot_wf X s"
    and signer: "validate_provisioning X sg (as_provisioning s) = Inr ()"
  shows "snapshot_wf X t" "set (as_acquire_records s) \<subseteq> set (as_acquire_records t)" "holds_response X t r"
    "as_provisioning t = as_provisioning s" "as_store_instance_id t = as_store_instance_id s"
    "preflight s i = Inr (Issue e q)" "response_epoch r = e" "answers X t (ai_exact_request_bytes i) r"
    "rs_operation_id r = ti_operation_id (rq_intent rq)"
proof -
  let ?p = "as_provisioning s"
  from issue obtain sp enc where
    sp: "signer_sign X sg (ap_source_scope ?p) (ai_writer i) e (as_epoch_high_water s) (ai_nonce i) = Inr sp"
    and r: "response_try_new (ex_sha256 X) rq (sp_proof sp) = Inr r"
    and enc: "encoded_response_try_new (rs_canonical_bytes r) (rs_response_digest r) (sp_envelope_digest sp) = Inr enc"
    and t: "with_issued_record X s i e q (sp_signature sp) (sp_envelope_digest sp) enc = Inr t"
    by (auto simp: issue_response_def and_then_eq_Inr guard_eq_Inr map_err_eq_Inr)
  have auth: "pa_algorithm (sg_proof_authority sg) = 1" "pa_algorithm_version (sg_proof_authority sg) = 1"
    using signer wf provisioning_rebuilt(2,3) [of X ?p]
    by (auto simp: validate_provisioning_def snapshot_wf_def split: if_splits)
  from sp obtain claim transcript where claim: "tenure_claim_try_new (ap_source_scope ?p) (ai_writer i) e
      (as_epoch_high_water s) = Inr claim"
    and proof': "tenure_proof_try_new (sg_proof_authority sg) claim (ai_nonce i) (arr64 (sp_signature sp)) = Inr (sp_proof sp)"
    by (rule signer_sign_parts) blast
  have "proof_ok (sp_proof sp)"
    using proof_constructed [of "pa_algorithm (sg_proof_authority sg)" "pa_algorithm (sg_proof_authority sg)"
        "pa_authority (sg_proof_authority sg)" "pa_key (sg_proof_authority sg)"
        "pa_algorithm_version (sg_proof_authority sg)" "sg_proof_authority sg", OF _ _ claim proof'] auth
    by (simp add: tenure_algorithm_try_new_def tenure_authority_try_new_def)
  note rok = response_try_new_ok [OF r this]
  have bytes: "er_exact_bytes enc = rs_canonical_bytes r"
    using enc by (auto simp: encoded_response_try_new_def res_simps split: if_splits)
  from with_issued_record_parts [OF t] obtain n where pre: "preflight s i = Inr (Issue e q)"
    and t': "t = s\<lparr>as_acquire_records := vec_insert n (issued_record s i e (sp_signature sp) (sp_envelope_digest sp) enc)
        (as_acquire_records s), as_epoch_high_water := e, as_snapshot_sequence := q\<rparr>" by blast
  show "snapshot_wf X t" by (rule with_issued_record_wf [OF t])
  show "preflight s i = Inr (Issue e q)" by (rule pre)
  show "set (as_acquire_records s) \<subseteq> set (as_acquire_records t)" "as_provisioning t = ?p"
    "as_store_instance_id t = as_store_instance_id s" by (auto simp: t')
  have "ar_exact_response_bytes (issued_record s i e (sp_signature sp) (sp_envelope_digest sp) enc) = rs_canonical_bytes r"
    by (simp add: issued_record_def bytes)
  then show "holds_response X t r" "answers X t (ai_exact_request_bytes i) r"
    using decode_response_complete [OF rok(1)] by (auto simp: holds_response_def answers_def t' issued_record_def)
  show "rs_operation_id r = ti_operation_id (rq_intent rq)" by (rule rok(4))
  have "tp_claim (sp_proof sp) = claim" using proof' by (simp add: tenure_proof_try_new_wf)
  then show "response_epoch r = e" using claim rok(2) by (simp add: tenure_claim_parts)
qed

section \<open>The machine\<close>

record World =
  w_directory :: Directory
  w_authority :: "DeploymentTenureAuthority option"
  w_issued :: "AcquireTenureResponseV1 list"
  w_returned :: "AcquireTenureResponseV1 list"

fun record_answer :: "TenureAcquireError + CommittedAcquireTenure \<Rightarrow> World \<Rightarrow> World" where
  "record_answer (Inl e) w = w"
| "record_answer (Inr c) w =
     w\<lparr>w_issued := (if ct_disposition c = Issued then ct_response c # w_issued w else w_issued w),
       w_returned := ct_response c # w_returned w\<rparr>"

text \<open>
  The steps of a deployment: a process opens the store; it answers a request, with any failpoint
  and any faults; it exits or is killed; power is lost, and the active file falls back to any
  content that was not yet durable, or to anything when its data was not synchronised. With \<open>reverts = False\<close> power is lost only when the directory
  is synchronised.
\<close>

inductive authority_step ::
  "Externals \<Rightarrow> AuthorityProvisioning \<Rightarrow> bytes32 \<Rightarrow> StoreInstanceId \<Rightarrow> bool \<Rightarrow> World \<Rightarrow> World \<Rightarrow> bool"
  for X p seed store_id reverts where
  open_store: "w_authority w = None \<Longrightarrow> authority_open X flt store_id p seed (w_directory w) = (r, d) \<Longrightarrow>
     authority_step X p seed store_id reverts w
       (w\<lparr>w_directory := d, w_authority := (case r of Inl _ \<Rightarrow> None | Inr a \<Rightarrow> Some a)\<rparr>)"
| acquire: "w_authority w = Some a \<Longrightarrow> request_ok (ex_sha256 X) rq \<Longrightarrow>
     acquire_with_failpoint X flt rq failpoint a (w_directory w) = (r, a', d) \<Longrightarrow>
     authority_step X p seed store_id reverts w
       (record_answer r (w\<lparr>w_directory := d, w_authority := Some a'\<rparr>))"
| exit: "authority_step X p seed store_id reverts w (w\<lparr>w_authority := None\<rparr>)"
| power_loss: "content \<in> candidates (w_directory w) \<Longrightarrow> reverts \<or> dir_unsynced (w_directory w) = [] \<Longrightarrow>
     fst ` set others \<subseteq> fst ` set (dir_others (w_directory w)) \<Longrightarrow>
     authority_step X p seed store_id reverts w
       (w\<lparr>w_directory := (w_directory w)\<lparr>dir_active := content, dir_torn := False, dir_unsynced := [],
            dir_unsynced_torn := False, dir_others := others\<rparr>,
          w_authority := None\<rparr>)"

definition authority_init ::
  "Externals \<Rightarrow> AuthorityProvisioning \<Rightarrow> StoreInstanceId \<Rightarrow> World \<Rightarrow> bool" where
  "authority_init X p store_id w \<longleftrightarrow>
     (\<exists>flt failpoint d receipt. initialize_with X flt p failpoint d = (Inr receipt, w_directory w)
        \<and> ir_store_instance_id receipt = store_id)
     \<and> w_authority w = None \<and> w_issued w = [] \<and> w_returned w = []"

text \<open>A content of the active file that restarts can rely on.\<close>

definition sound_content ::
  "Externals \<Rightarrow> AuthorityProvisioning \<Rightarrow> StoreInstanceId \<Rightarrow> AcquireTenureResponseV1 set \<Rightarrow> bytes option \<Rightarrow> bool" where
  "sound_content X p store_id rs content \<longleftrightarrow>
     (\<exists>s. content = Some (snapshot_bytes X s) \<and> snapshot_wf X s \<and> as_store_instance_id s = store_id
        \<and> store_id \<noteq> 0 \<and> as_provisioning s = p \<and> (\<forall>r \<in> rs. holds_response X s r))"

definition authority_inv ::
  "Externals \<Rightarrow> AuthorityProvisioning \<Rightarrow> StoreInstanceId \<Rightarrow> bool \<Rightarrow> World \<Rightarrow> bool" where
  "authority_inv X p store_id reverts w \<longleftrightarrow>
     (\<forall>c \<in> candidates (w_directory w). sound_content X p store_id (set (w_issued w)) c)
     \<and> (\<not> reverts \<longrightarrow> sound_content X p store_id (set (w_returned w)) (dir_active (w_directory w)))
     \<and> dir_lock (w_directory w)
     \<and> (\<forall>a. w_authority w = Some a \<longrightarrow> validate_provisioning X (au_signer a) p = Inr ())"

lemma sound_content_active:
  assumes "sound_content X p store_id rs (Some (snapshot_bytes X s))" "snapshot_wf X s" "as_store_instance_id s \<noteq> 0"
  shows "as_provisioning s = p" "as_store_instance_id s = store_id" "\<forall>r \<in> rs. holds_response X s r"
proof -
  obtain t where "snapshot_bytes X s = snapshot_bytes X t" and t: "snapshot_wf X t" "as_store_instance_id t = store_id"
      "store_id \<noteq> 0" "as_provisioning t = p" "\<forall>r \<in> rs. holds_response X t r"
    using assms(1) by (auto simp: sound_content_def)
  then have "s = t" using snapshot_bytes_inject [of X s t] assms(2,3) by simp
  then show "as_provisioning s = p" "as_store_instance_id s = store_id" "\<forall>r \<in> rs. holds_response X s r"
    using t by simp_all
qed

lemma holds_response_mono:
  "set (as_acquire_records s) \<subseteq> set (as_acquire_records t) \<Longrightarrow> holds_response X s r \<Longrightarrow> holds_response X t r"
  by (auto simp: holds_response_def)

section \<open>Steps\<close>

text \<open>The disk as an operation of a running process finds it.\<close>

definition active_is :: "Externals \<Rightarrow> Directory \<Rightarrow> AuthoritySnapshot \<Rightarrow> bool" where
  "active_is X d s \<longleftrightarrow> dir_active d = Some (snapshot_bytes X s) \<and> snapshot_wf X s \<and> as_store_instance_id s \<noteq> 0"

definition extends :: "Externals \<Rightarrow> AuthoritySnapshot \<Rightarrow> AuthoritySnapshot \<Rightarrow> AcquireTenureResponseV1 \<Rightarrow> bool" where
  "extends X s t r \<longleftrightarrow> snapshot_wf X t \<and> set (as_acquire_records s) \<subseteq> set (as_acquire_records t)
     \<and> as_provisioning t = as_provisioning s \<and> as_store_instance_id t = as_store_instance_id s
     \<and> holds_response X t r"

definition acquire_result ::
  "Externals \<Rightarrow> DeploymentTenureAuthority \<Rightarrow> Directory \<Rightarrow>
   (TenureAcquireError + CommittedAcquireTenure) \<times> DeploymentTenureAuthority \<times> Directory \<Rightarrow> bool" where
  "acquire_result X a d res \<longleftrightarrow>
     (let r = fst res; a' = fst (snd res); d' = snd (snd res) in
      au_signer a' = au_signer a \<and>
      ((\<exists>e. r = Inl e) \<and> same_content d d'
       \<or> (\<exists>s resp. r = Inr \<lparr>ct_response = resp, ct_disposition = Replayed\<rparr> \<and> d' = d \<and> active_is X d s
            \<and> holds_response X s resp)
       \<or> (\<exists>s t resp. active_is X d s \<and> extends X s t resp \<and> active_is X d' t \<and> dir_lock d' = dir_lock d
            \<and> candidates d' \<subseteq> insert (dir_active d') (if \<exists>e. r = Inl e then candidates d else {})
            \<and> (r = Inr \<lparr>ct_response = resp, ct_disposition = Issued\<rparr> \<and> dir_unsynced d' = []
               \<or> (\<exists>e. r = Inl e) \<and> (dir_unsynced d' = [] \<or> dir_unsynced d' = dir_unsynced d @ [dir_active d])))))"

lemma acquire_failed: "au_signer a' = au_signer a \<Longrightarrow> same_content d d' \<Longrightarrow> acquire_result X a d (Inl e, a', d')"
  by (simp add: acquire_result_def)

lemma acquire_bind:
  "au_signer b = au_signer a \<Longrightarrow> (\<And>v. m = Inr v \<Longrightarrow> acquire_result X a d (f v)) \<Longrightarrow>
     acquire_result X a d (and_then_st m (b, d) f)"
  by (cases m) (simp_all add: acquire_failed)

lemma replay_result:
  assumes pre: "map_err map_acquire_model_error (preflight s i) = Inr (Replay bs rd pd)"
    and act: "active_is X d s" and b: "au_signer b = au_signer a"
  shows "acquire_result X a d (replay_response X rq bs rd pd, b, d)"
proof (cases "replay_response X rq bs rd pd")
  case (Inl e)
  then show ?thesis using b by (simp add: acquire_failed)
next
  case (Inr c)
  then obtain resp where c: "c = \<lparr>ct_response = resp, ct_disposition = Replayed\<rparr>"
    and dec: "decode_for_request (ex_sha256 X) bs rq = Inr resp"
    by (auto simp: replay_response_def res_simps split: if_splits)
  have ord: "sorted_wrt (<) (map ar_operation_id (as_acquire_records s))"
    using act by (simp add: active_is_def snapshot_wf_def operations_ascend_def)
  obtain n where n: "binary_search_by_key ar_operation_id (ai_operation_id i) (as_acquire_records s) = Inr n"
      "bs = ar_exact_response_bytes (as_acquire_records s ! n)"
    using pre by (auto simp: preflight_def map_err_eq_Inr Let_def res_simps split: sum.splits if_splits)
  have "decode_response (ex_sha256 X) bs = Inr resp"
    using dec by (auto simp: decode_for_request_def and_then_eq_Inr)
  then have "holds_response X s resp"
    using n binary_search_found(1) [OF ord n(1)] by (auto simp: holds_response_def)
  then show ?thesis using Inr c act b by (auto simp: acquire_result_def)
qed

lemma issue_result:
  assumes issue: "issue_response X (au_signer b) s rq i e q = Inr (resp, t)" and act: "active_is X d s"
    and signer: "validate_provisioning X (au_signer b) (as_provisioning s) = Inr ()" and b: "au_signer b = au_signer a"
  shows "acquire_result X a d
    (case commit X flt t fp (au_store b) d of
       (Inl e, store, d') \<Rightarrow> (Inl (map_acquire_store_error e), b\<lparr>au_store := store\<rparr>, d')
     | (Inr _, store, d') \<Rightarrow>
         (Inr \<lparr>ct_response = resp, ct_disposition = Issued\<rparr>, b\<lparr>au_store := store\<rparr>, d'))"
proof -
  have wf: "snapshot_wf X s" using act by (simp add: active_is_def)
  note f = issue_response_facts [OF issue wf signer]
  have ext: "extends X s t resp" using f by (simp add: extends_def)
  obtain r store d' where res: "commit X flt t fp (au_store b) d = (r, store, d')" by (metis prod_cases3)
  have out: "commit_result X t d (r, store, d')" using commit_outcome [of X t d flt fp "au_store b"] res by simp
  have new: "active_is X d' t" if "dir_active d' = Some (snapshot_bytes X t)"
    using that f act by (simp add: active_is_def)
  show ?thesis
  proof (cases r)
    case (Inl e)
    then show ?thesis using out res act ext new b
      by (auto simp: acquire_result_def commit_result_def)
  next
    case (Inr u)
    then show ?thesis using out res act ext new b
      by (auto simp: acquire_result_def commit_result_def)
  qed
qed

lemma acquire_outcome:
  assumes signer: "\<And>s. active_is X d s \<Longrightarrow> validate_provisioning X (au_signer a) (as_provisioning s) = Inr ()"
  shows "acquire_result X a d (acquire_with_failpoint X flt rq fp a d)"
proof (cases "revalidate_current X (af_read flt) d (au_store a)")
  case (Pair v store)
  show ?thesis
  proof (cases v)
    case (Inl e)
    then show ?thesis using Pair by (simp add: acquire_with_failpoint_def acquire_failed)
  next
    case (Inr s)
    note ok = revalidate_ok [OF Pair [unfolded Inr]]
    have act: "active_is X d s" using ok by (simp add: active_is_def)
    have same: "a\<lparr>au_store := store\<rparr> = a" using ok(1) by simp
    show ?thesis
      unfolding acquire_with_failpoint_def Pair Inr prod.case sum.case Let_def same
      by (intro acquire_bind; (split Preflight.split, intro conjI allI impI acquire_bind)?)
        (auto intro!: replay_result [OF _ act] issue_result [OF _ act] simp: signer [OF act])
  qed
qed

text \<open>Cleaning orphans may synchronise the directory; it never touches the active file.\<close>

definition kept_active :: "Directory \<Rightarrow> Directory \<Rightarrow> bool" where
  "kept_active d d' \<longleftrightarrow> dir_active d' = dir_active d \<and> dir_lock d' = dir_lock d
     \<and> (dir_unsynced d' = dir_unsynced d \<or> dir_unsynced d' = []) \<and> candidates d' \<subseteq> candidates d"

lemma kept_active_refl [simp]: "kept_active d d"
  by (simp add: kept_active_def)

lemma remove_orphans_same: "same_content d (snd (remove_orphans flt k names d))"
proof (induction names arbitrary: k d)
  case (Cons name names)
  show ?case
    using Cons [of "d\<lparr>dir_others := filter (\<lambda>f. fst f \<noteq> name) (dir_others d)\<rparr>" "k + 1"]
    by (auto simp: same_content_def split: option.splits)
qed simp

lemma clean_keeps: "kept_active d (snd (clean_valid_orphan_temps flt d))"
proof -
  have "kept_active d (snd (case remove_orphans flt 2 names d of (Inl e, removed) \<Rightarrow> (Inl e, removed)
      | (Inr _, removed) \<Rightarrow>
           (case flt 1 of Some e \<Rightarrow> (Inl e, removed) | None \<Rightarrow> (Inr (), sync_directory removed))))" for names
    using remove_orphans_same [of d flt 2 names]
    by (auto simp: kept_active_def same_content_def sync_directory_def candidates_def split: prod.splits sum.splits option.splits)
  then show ?thesis
    by (cases "flt 0"; cases "scan_orphans [] (map fst (dir_others d))") (simp_all add: clean_valid_orphan_temps_def)
qed

lemma open_validated_keeps: "kept_active d (snd (open_validated X flt d p))"
proof -
  have "kept_active d (snd (case clean_valid_orphan_temps (of_clean flt) d of (Inl e, cleaned) \<Rightarrow> (Inl e, cleaned)
      | (Inr _, cleaned) \<Rightarrow> (Inr \<lparr>st_snapshot = s, st_state = Operational\<rparr>, cleaned)))" for s
    using clean_keeps [of d "of_clean flt"] by (auto split: prod.splits sum.splits)
  then show ?thesis
    by (cases "open_lock flt d"; cases "read_active_snapshot X (of_read flt) d") (simp_all add: open_validated_def)
qed

lemma staged_eq_Inr:
  "(case m of (Inl e, d) \<Rightarrow> (Inl (g e), d) | (Inr a, d) \<Rightarrow> f a d) = (Inr b, t) \<longleftrightarrow>
     (\<exists>a d. m = (Inr a, d) \<and> f a d = (Inr b, t))"
  by (auto split: prod.splits sum.splits)

lemma authority_open_keeps:
  assumes "authority_open X flt store_id p seed d = (r, d')"
  shows "kept_active d d'" "r = Inr a \<Longrightarrow> validate_provisioning X (au_signer a) p = Inr ()"
proof -
  have keep: "kept_active d d1" if "store_open X flt d i p = (v, d1)" for i v d1
    using open_validated_keeps [of d X flt p] that
    by (auto simp: store_open_def split: prod.splits sum.splits if_splits)
  have "kept_active d (snd (authority_open X flt store_id p seed d))"
    by (cases "store_instance_id_try_from_bytes store_id";
        cases "signer_try_from_seed X (ap_proof_authority p) seed (af_signing_key (ap_fingerprints p))";
        cases "validate_provisioning X (projr (signer_try_from_seed X (ap_proof_authority p) seed
                 (af_signing_key (ap_fingerprints p)))) p")
      (auto simp: authority_open_def keep split: prod.splits sum.splits)
  with assms show "kept_active d d'" by simp
  show "validate_provisioning X (au_signer a) p = Inr ()" if "r = Inr a"
    using assms that unfolding authority_open_def and_then_st_eq_Inr map_err_eq_Inr staged_eq_Inr
    by (auto simp: and_then_st_eq_Inr map_err_eq_Inr staged_eq_Inr)
qed

lemma initialize_ok:
  assumes "initialize_with X flt p fp d = (Inr receipt, d')"
  shows "\<exists>s. snapshot_initial X (ir_store_instance_id receipt) p = Inr s \<and> ir_store_instance_id receipt \<noteq> 0
           \<and> as_store_instance_id s = ir_store_instance_id receipt
           \<and> dir_active d' = Some (snapshot_bytes X s) \<and> candidates d' = {dir_active d'} \<and> dir_lock d'"
proof -
  from assms obtain bs id s enc tok d1 u where
    id: "store_instance_id_try_from_bytes (from_be bs) = Inr id" and s: "snapshot_initial X id p = Inr s"
    and enc: "encode_snapshot X s = Inr enc" and receipt: "receipt_from_snapshot X s enc = Inr receipt"
    and lock: "create_and_lock_initializer_lock (if_create flt) (if_lock flt) d = (Inr (), d1)"
    and pub: "publish_atomic (if_publish flt) d1 enc (from_be tok) RequireMissing fp = (Inr u, d')"
    unfolding initialize_with_def and_then_st_eq_Inr map_err_eq_Inr staged_eq_Inr
    by (auto simp: and_then_st_eq_Inr map_err_eq_Inr staged_eq_Inr split: if_splits)
  have "publish_outcome d1 enc (Inr u, d')"
    using publish_atomic_outcome [of d1 enc "if_publish flt" "from_be tok" RequireMissing fp] pub by simp
  moreover have "dir_lock d1"
    using lock by (auto simp: create_and_lock_initializer_lock_def Let_def split: if_splits option.splits)
  moreover have "as_store_instance_id s = id"
    using s by (auto simp: snapshot_initial_def Let_def and_then_eq_Inr)
  moreover have "ir_store_instance_id receipt = as_store_instance_id s"
    using receipt by (auto simp: receipt_from_snapshot_def Let_def and_then_eq_Inr map_err_eq_Inr split: if_splits)
  moreover have "id \<noteq> 0" using id by (auto simp: store_instance_id_try_from_bytes_def split: if_splits)
  ultimately show ?thesis using s enc by (auto simp: encode_snapshot_iff)
qed

lemma authority_init_inv:
  assumes "authority_init X p store_id w"
  shows "authority_inv X p store_id reverts w"
proof -
  from assms obtain flt fp d receipt where "initialize_with X flt p fp d = (Inr receipt, w_directory w)"
    "ir_store_instance_id receipt = store_id" and fresh: "w_authority w = None" "w_issued w = []" "w_returned w = []"
    by (auto simp: authority_init_def)
  from initialize_ok [OF this(1)] this(2) obtain s where s: "snapshot_initial X store_id p = Inr s" "store_id \<noteq> 0"
    "as_store_instance_id s = store_id"
    "dir_active (w_directory w) = Some (snapshot_bytes X s)" "candidates (w_directory w) = {dir_active (w_directory w)}"
    "dir_lock (w_directory w)" by auto
  then show ?thesis using snapshot_initial_wf [OF s(1)] fresh
    by (auto simp: authority_inv_def sound_content_def)
qed

lemma sound_content_subset: "sound_content X p i rs c \<Longrightarrow> rs' \<subseteq> rs \<Longrightarrow> sound_content X p i rs' c"
  by (auto simp: sound_content_def)

text \<open>What an acquire does to a sound directory.\<close>

lemma acquire_keeps_inv:
  assumes inv: "authority_inv X p i reverts w" and run: "w_authority w = Some a"
    and acq: "acquire_with_failpoint X flt rq fp a (w_directory w) = (r, a', d')"
  shows "authority_inv X p i reverts (record_answer r (w\<lparr>w_directory := d', w_authority := Some a'\<rparr>))"
proof -
  let ?d = "w_directory w"
  have sound: "sound_content X p i (set (w_issued w)) c" if "c \<in> candidates ?d" for c
    using inv that by (simp add: authority_inv_def)
  have ret: "\<not> reverts \<Longrightarrow> sound_content X p i (set (w_returned w)) (dir_active ?d)"
    and lock: "dir_lock ?d" and sg: "validate_provisioning X (au_signer a) p = Inr ()"
    using inv run by (simp_all add: authority_inv_def)
  have act: "as_provisioning s = p" "as_store_instance_id s = i" "\<forall>r \<in> set (w_issued w). holds_response X s r"
    "\<not> reverts \<Longrightarrow> \<forall>r \<in> set (w_returned w). holds_response X s r" if "active_is X ?d s" for s
    using sound_content_active [of X p i "set (w_issued w)" s] sound_content_active [of X p i "set (w_returned w)" s]
      sound [of "dir_active ?d"] ret that by (auto simp: active_is_def candidates_def)
  have out: "acquire_result X a ?d (r, a', d')"
    using acquire_outcome [of X ?d a flt rq fp] act(1) sg acq by simp
  then have sg': "validate_provisioning X (au_signer a') p = Inr ()" using sg by (simp add: acquire_result_def)
  consider (failed) e where "r = Inl e" "same_content ?d d'"
    | (replay) s resp where "r = Inr \<lparr>ct_response = resp, ct_disposition = Replayed\<rparr>" "d' = ?d" "active_is X ?d s"
        "holds_response X s resp"
    | (publish) s t resp where "active_is X ?d s" "extends X s t resp" "active_is X d' t" "dir_lock d' = dir_lock ?d"
        "candidates d' \<subseteq> insert (dir_active d') (if \<exists>e. r = Inl e then candidates ?d else {})"
        "r = Inr \<lparr>ct_response = resp, ct_disposition = Issued\<rparr> \<and> dir_unsynced d' = []
         \<or> (\<exists>e. r = Inl e) \<and> (dir_unsynced d' = [] \<or> dir_unsynced d' = dir_unsynced ?d @ [dir_active ?d])"
    using out by (auto simp: acquire_result_def)
  then show ?thesis
  proof cases
    case failed
    then show ?thesis using inv sg' same_candidates [OF failed(2)] by (auto simp: authority_inv_def same_content_def)
  next
    case replay
    have "\<not> reverts \<Longrightarrow> sound_content X p i (insert resp (set (w_returned w))) (dir_active ?d)"
      using replay(3,4) act [OF replay(3)] by (auto simp: sound_content_def active_is_def)
    then show ?thesis using inv sg' replay(1,2) by (simp add: authority_inv_def)
  next
    case publish
    have new: "sound_content X p i (insert resp (set (w_issued w))) (dir_active d')"
      "\<not> reverts \<Longrightarrow> sound_content X p i (insert resp (set (w_returned w))) (dir_active d')"
      using publish(1-3) act [OF publish(1)]
      by (auto simp: sound_content_def active_is_def extends_def intro: holds_response_mono)
    show ?thesis using publish(4-6) new sound sg' lock
      by (auto simp: authority_inv_def split: if_splits intro: sound_content_subset)
  qed
qed

lemma sound_not_torn:
  "authority_inv X p i reverts w \<Longrightarrow> \<not> dir_torn (w_directory w) \<and> \<not> dir_unsynced_torn (w_directory w)"
  by (auto simp: authority_inv_def candidates_def sound_content_def split: if_splits)

lemma authority_step_inv:
  assumes "authority_inv X p i reverts w" "authority_step X p seed i reverts w w'"
  shows "authority_inv X p i reverts w'"
  using assms(2,1)
proof cases
  case (open_store flt r d)
  have "kept_active (w_directory w) d" "\<And>a. r = Inr a \<Longrightarrow> validate_provisioning X (au_signer a) p = Inr ()"
    using authority_open_keeps [OF open_store(3)] by blast+
  then show ?thesis using assms(1) open_store(1)
    by (auto simp: authority_inv_def kept_active_def split: sum.splits)
next
  case (acquire a rq flt fp r a' d)
  then show ?thesis using acquire_keeps_inv [OF assms(1) acquire(2) acquire(4)] by simp
next
  case exit
  then show ?thesis using assms(1) by (simp add: authority_inv_def)
next
  case (power_loss content others)
  then show ?thesis using assms(1) sound_not_torn [OF assms(1)]
    by (auto simp: authority_inv_def candidates_def)
qed

interpretation authority: state_machine "authority_init X p store_id" "authority_step X p seed store_id reverts"
  "authority_inv X p store_id reverts" for X p seed store_id reverts
  by unfold_locales (auto intro: authority_init_inv authority_step_inv)

end
