(* ===== verification/Tenure_Progress.thy ===== *)
theory Tenure_Progress
  imports Tenure_Machine
begin

text \<open>
  The authority answers: a request that passes the policy, with room in the history and a
  sufficient response bound, is issued the next epoch, and the authority's own validation of the
  new snapshot never stands in the way. The documented behaviour of the cryptography this rests
  on is \<open>honest\<close>: a signature verifies under the key of its seed. The code refuses a digest that is
  all zero, so the facts below name the three digests of an answer, \<open>answer_digests\<close>, and ask that none of
  them is zero; nothing is assumed of the other values of SHA-256.
\<close>

definition honest :: "Externals \<Rightarrow> bytes32 \<Rightarrow> bool" where
  "honest X seed \<longleftrightarrow> (\<forall>m. ex_verify_strict X (ex_verifying_key X seed) m (ex_sign X seed m))"

text \<open>The digests an answer to a request has: of the request, of the signed proof and of the response.\<close>

definition answer_digests ::
  "Externals \<Rightarrow> Ed25519TenureSigner \<Rightarrow> AuthoritySnapshot \<Rightarrow> AcquireTenureRequestV1 \<Rightarrow> Digest32 list" where
  "answer_digests X sg s rq =
     rq_request_digest rq #
     (case signer_sign X sg (ap_source_scope (as_provisioning s)) (ti_writer (rq_intent rq)) (as_epoch_high_water s + 1)
             (as_epoch_high_water s) (td_client_nonce (rq_draft rq)) of
        Inl _ \<Rightarrow> []
      | Inr sp \<Rightarrow> sp_envelope_digest sp #
          (case response_try_new (ex_sha256 X) rq (sp_proof sp) of Inl _ \<Rightarrow> [] | Inr r \<Rightarrow> [rs_response_digest r]))"

lemma build_digest_value: "build_digest sha256 domain fs = Inr dg \<Longrightarrow> \<exists>bs. dg = sha256 bs"
  by (auto simp: build_digest_def finish_def res_simps)

definition response_size :: "AcquireTenureRequestV1 \<Rightarrow> nat" where
  "response_size rq = 362 + 2 * length (td_client_nonce (rq_draft rq))"

section \<open>Requests\<close>

lemma request_facts:
  assumes "request_ok sha256 rq"
  shows "rq_canonical_bytes rq \<noteq> []" "length (rq_canonical_bytes rq) \<le> 364"
    "\<exists>bs. rq_request_digest rq = sha256 bs" "decode_request sha256 (rq_canonical_bytes rq) = Inr rq"
    "length (rq_auth_signature rq) = 64"
proof -
  have fin: "finalize_ed25519 sha256 (rq_draft rq) (rq_auth_signature rq) = Inr rq"
    using assms by (simp add: request_ok_def)
  note parts = finalize_parts [OF fin]
  show "rq_canonical_bytes rq \<noteq> []"
    using parts(4) by (auto simp: parts(3) build_request_bytes_def append_tlv_def ACQUIRE_TENURE_ED25519_SIGNATURE_BYTES_def)
  show len: "length (rq_canonical_bytes rq) \<le> 364"
    using request_length [OF assms] by (simp add: protocol_limits)
  from fin obtain dg where dg: "digest_complete_request sha256 (rq_canonical_bytes rq) = Inr dg"
      and rq: "\<lparr>rq_draft = rq_draft rq, rq_auth_signature = rq_auth_signature rq,
        rq_canonical_bytes = rq_canonical_bytes rq, rq_request_digest = dg\<rparr> = rq"
    unfolding parts(3) by (auto simp: finalize_ed25519_def from_draft_def Let_def and_then_eq_Inr split: if_splits)
  have "rq_request_digest rq = dg" using arg_cong [OF rq, of rq_request_digest] by simp
  with dg show "\<exists>bs. rq_request_digest rq = sha256 bs"
    using build_digest_within [of REQUEST_DIGEST_DOMAIN "[rq_canonical_bytes rq]" sha256] len
    by (auto simp: digest_complete_request_def digestible_def REQUEST_DIGEST_DOMAIN_def ascii_def)
  show "decode_request sha256 (rq_canonical_bytes rq) = Inr rq" by (rule decode_request_complete [OF assms])
  show "length (rq_auth_signature rq) = 64"
    using parts(4) by (simp add: ACQUIRE_TENURE_ED25519_SIGNATURE_BYTES_def)
qed

text \<open>The digests of an answer are values of SHA-256.\<close>

lemma answer_digests_hashed:
  assumes "request_ok (ex_sha256 X) rq" "dg \<in> set (answer_digests X sg s rq)"
  shows "\<exists>bs. dg = ex_sha256 X bs"
proof -
  have "\<exists>bs. rq_request_digest rq = ex_sha256 X bs" by (rule request_facts(3) [OF assms(1)])
  moreover have "\<exists>bs. sp_envelope_digest sp = ex_sha256 X bs"
    if "signer_sign X sg scope writer e h nonce = Inr sp" for scope writer e h nonce sp
    using that by (auto simp: signer_sign_def envelope_digest_def Let_def and_then_eq_Inr map_err_eq_Inr
        dest!: build_digest_value)
  moreover have "\<exists>bs. rs_response_digest r = ex_sha256 X bs" if "response_try_new (ex_sha256 X) rq p = Inr r" for p r
    using that by (auto simp: response_try_new_def build_response_digest_def Let_def and_then_eq_Inr map_err_eq_Inr
        split: if_splits dest!: build_digest_value)
  ultimately show ?thesis using assms(2) by (auto simp: answer_digests_def split: sum.splits)
qed

definition intent_of :: "AcquireTenureRequestV1 \<Rightarrow> AcquireIntent" where
  "intent_of rq =
     \<lparr>ai_operation_id = ti_operation_id (rq_intent rq), ai_request_digest = rq_request_digest rq,
      ai_exact_request_bytes = rq_canonical_bytes rq, ai_writer = ti_writer (rq_intent rq),
      ai_nonce = td_client_nonce (rq_draft rq), ai_response_bound = td_max_response_payload_bytes (rq_draft rq)\<rparr>"

lemma ensure_nonzero_simps [simp]:
  "a \<noteq> 0 \<Longrightarrow> ensure_nonzero (arr16 a) e = Inr ()" "b \<noteq> 0 \<Longrightarrow> ensure_nonzero (arr32 b) e = Inr ()"
  "b \<noteq> 0 \<Longrightarrow> ensure_nonzero_digest b e = Inr ()"
  by (simp_all add: ensure_nonzero_def ensure_nonzero_digest_def)

lemma request_intent_ok:
  assumes rq: "request_ok (ex_sha256 X) rq" and nz: "rq_request_digest rq \<noteq> 0"
  shows "request_intent rq = Inr (intent_of rq)"
proof -
  have d: "draft_ok (ex_sha256 X) (rq_draft rq)" using rq by (simp add: request_ok_def)
  note f = draft_ok_fields [OF d] request_facts [OF rq]
  have "td_client_nonce (rq_draft rq) \<noteq> []" using f(7) by auto
  moreover have "unat (td_max_response_payload_bytes (rq_draft rq)) \<noteq> 0"
    "unat (td_max_response_payload_bytes (rq_draft rq)) \<le> 64 * 1024"
    using f(9,10) by (simp_all add: protocol_limits)
  ultimately show ?thesis
    using f nz by (simp add: request_intent_def intent_try_new_def intent_of_def MAX_ACQUIRE_REQUEST_BYTES_def
        MAX_ACQUIRE_RESPONSE_BYTES_def protocol_limits)
qed

section \<open>Proofs and responses\<close>

lemma signing_transcript_exists:
  "n \<noteq> [] \<Longrightarrow> length n \<le> MAX_TENURE_NONCE_BYTES \<Longrightarrow> \<exists>tr. signing_transcript_try_new a c n = Inr tr"
  by (simp add: signing_transcript_try_new_def validate_tenure_nonce_def Let_def)

definition claim_for :: "AcquireTenureRequestV1 \<Rightarrow> u64 \<Rightarrow> u64 \<Rightarrow> WriterTenureClaim" where
  "claim_for rq e h = \<lparr>wt_source_scope = ti_scope (rq_intent rq), wt_writer = ti_writer (rq_intent rq),
     wt_epoch = e, wt_supersedes_through_epoch = h\<rparr>"

lemma sign_succeeds:
  assumes "n \<noteq> []" "length n \<le> MAX_TENURE_NONCE_BYTES" "e \<noteq> 0" "h < e"
  obtains sp tr where
    "signer_sign X sg scope writer e h n = Inr sp"
    "sp_proof sp = \<lparr>tp_authority = sg_proof_authority sg,
       tp_claim = \<lparr>wt_source_scope = scope, wt_writer = writer, wt_epoch = e, wt_supersedes_through_epoch = h\<rparr>,
       tp_nonce = n, tp_signature = arr64 (sp_signature sp)\<rparr>"
    "tenure_proof_wf (sp_proof sp)" "signing_transcript (sp_proof sp) = Inr tr"
    "sp_signature sp = ex_sign X (sg_signing_key sg) tr"
    "sp_envelope_digest sp = ex_sha256 X (envelope_stream (sp_proof sp))"
proof -
  let ?c = "\<lparr>wt_source_scope = scope, wt_writer = writer, wt_epoch = e, wt_supersedes_through_epoch = h\<rparr>"
  obtain tr where tr: "signing_transcript_try_new (sg_proof_authority sg) ?c n = Inr tr"
    using signing_transcript_exists assms(1,2) by blast
  let ?s = "ex_sign X (sg_signing_key sg) tr"
  let ?p = "\<lparr>tp_authority = sg_proof_authority sg, tp_claim = ?c, tp_nonce = n, tp_signature = arr64 ?s\<rparr>"
  have "arr64 ?s \<noteq> []" by (metis length_be_bytes list.size(3) zero_neq_numeral)
  then have wf: "tenure_proof_wf ?p" using assms(1,2) by (simp add: tenure_proof_wf_def MAX_TENURE_SIGNATURE_BYTES_def)
  have signed: "signer_sign X sg scope writer e h n =
      Inr \<lparr>sp_proof = ?p, sp_signature = ?s, sp_envelope_digest = ex_sha256 X (envelope_stream ?p)\<rparr>"
    using assms(3,4) tr wf
    by (simp add: signer_sign_def tenure_claim_try_new_def tenure_proof_try_new_wf [THEN iffD2] envelope_digest_eq Let_def)
  show thesis by (rule that [OF signed, of tr]) (use wf tr in \<open>simp_all add: signing_transcript_def\<close>)
qed

lemma response_bytes_length:
  assumes "length (tp_nonce p) = n" "length (tp_signature p) = 64"
  shows "length (build_response_bytes op rd (tp_nonce p) p pd rsd) = 362 + 2 * n"
  using assms
  by (simp add: build_response_bytes_def append_response_unsigned_fields_def append_tlv_def append_value_header_def
      ACQUIRE_RESPONSE_MAGIC_def ascii_def Let_def)

lemma response_digest_exists:
  assumes "tenure_proof_wf p" "length nonce \<le> 64"
  shows "\<exists>bs. build_response_digest sha256 op rd nonce p pd = Inr (sha256 bs)"
proof -
  let ?u = "build_response_unsigned_bytes op rd nonce p pd"
  have "length ?u < 2 ^ 64"
    using assms
    by (simp add: build_response_unsigned_bytes_def append_response_unsigned_fields_def append_tlv_def
        append_value_header_def ACQUIRE_RESPONSE_MAGIC_def ascii_def Let_def tenure_proof_wf_def tenure_limits)
  then show ?thesis
    using build_digest_within [of RESPONSE_DIGEST_DOMAIN "[?u]" sha256]
    by (auto simp: build_response_digest_def digestible_def RESPONSE_DIGEST_DOMAIN_def ascii_def)
qed

lemma response_succeeds:
  assumes rq: "request_ok sha256 rq" and p: "tenure_proof_wf p" "length (tp_signature p) = 64"
    and bind: "wt_source_scope (tp_claim p) = ti_scope (rq_intent rq)" "wt_writer (tp_claim p) = ti_writer (rq_intent rq)"
      "tp_nonce p = td_client_nonce (rq_draft rq)"
    and room: "response_size rq \<le> unat (td_max_response_payload_bytes (rq_draft rq))"
  obtains r bs where "response_try_new sha256 rq p = Inr r" "rs_proof r = p"
    "rs_proof_digest r = sha256 (envelope_stream p)" "rs_response_digest r = sha256 bs"
    "length (rs_canonical_bytes r) = response_size rq"
proof -
  have d: "draft_ok sha256 (rq_draft rq)" using rq by (simp add: request_ok_def)
  have n: "length (td_client_nonce (rq_draft rq)) \<le> 64"
    using draft_ok_fields(8) [OF d] by (simp add: protocol_limits)
  obtain bs where rd: "build_response_digest sha256 (ti_operation_id (rq_intent rq)) (rq_request_digest rq)
      (td_client_nonce (rq_draft rq)) p (sha256 (envelope_stream p)) = Inr (sha256 bs)"
    using response_digest_exists [OF p(1) n] by blast
  have len: "length (build_response_bytes op rd' (td_client_nonce (rq_draft rq)) p pd rsd) = response_size rq"
    for op rd' pd rsd
    using response_bytes_length [of p _ op rd' pd rsd] p(2) bind(3) by (simp add: response_size_def)
  have "response_size rq \<le> MAX_ACQUIRE_TENURE_RESPONSE_PAYLOAD_BYTES"
    using n by (simp add: response_size_def protocol_limits)
  then show thesis using that room rd len
    by (simp add: response_try_new_def validate_proof_binding_def bind envelope_digest_eq [OF p(1)] Let_def)
qed

section \<open>The next snapshot\<close>

text \<open>The record of an issued response validates.\<close>

lemma policy_facts:
  assumes "validate_request_policy X p rq = Inr ()"
  shows "ti_scope (rq_intent rq) = ap_source_scope p" "ti_writer (rq_intent rq) = ap_authorized_writer p"
    "td_controller_principal (rq_draft rq) = aa_controller_principal (ap_authorization p)"
    "td_controller_key (rq_draft rq) = aa_controller_key (ap_authorization p)"
    "td_controller_public_key_fingerprint (rq_draft rq) = aa_controller_public_key_fingerprint (ap_authorization p)"
    "ex_key_valid X (aa_controller_verification_key (ap_authorization p))"
    "\<exists>sig tr. signature_array (rq_auth_signature rq) = Some sig \<and> request_signing_transcript rq = Inr tr
       \<and> ex_verify_strict X (aa_controller_verification_key (ap_authorization p)) tr sig"
  using assms
  by (auto simp: validate_request_policy_def Let_def res_simps split: if_splits)

lemma new_record_protocol:
  assumes rq: "request_ok (ex_sha256 X) rq" and policy: "validate_request_policy X (as_provisioning s) rq = Inr ()"
    and prov: "provisioning_validate X (as_provisioning s) = Inr ()"
    and sg: "validate_provisioning X sg (as_provisioning s) = Inr ()" and honest: "honest X (sg_signing_key sg)"
    and sign: "signer_sign X sg (ap_source_scope (as_provisioning s)) (ti_writer (rq_intent rq)) e h
                 (td_client_nonce (rq_draft rq)) = Inr sp"
    and r: "response_try_new (ex_sha256 X) rq (sp_proof sp) = Inr r"
    and enc: "er_exact_bytes enc = rs_canonical_bytes r" "er_response_digest enc = rs_response_digest r"
    and rec: "rec = issued_record s (intent_of rq) e (sp_signature sp) (sp_envelope_digest sp) enc"
    and h: "h = as_epoch_high_water s"
  shows "validate_record_protocol X s rec = Inr ()"
proof -
  let ?p = "as_provisioning s"
  note pol = policy_facts [OF policy]
  obtain sig tr where auth: "signature_array (rq_auth_signature rq) = Some sig" "request_signing_transcript rq = Inr tr"
    "ex_verify_strict X (aa_controller_verification_key (ap_authorization ?p)) tr sig" using pol(7) by blast
  from sign obtain claim transcript where c: "tenure_claim_try_new (ap_source_scope ?p) (ti_writer (rq_intent rq)) e h = Inr claim"
    and t: "signing_transcript_try_new (sg_proof_authority sg) claim (td_client_nonce (rq_draft rq)) = Inr transcript"
    and sgn: "sp_signature sp = ex_sign X (sg_signing_key sg) transcript"
    and p: "tenure_proof_try_new (sg_proof_authority sg) claim (td_client_nonce (rq_draft rq))
              (arr64 (sp_signature sp)) = Inr (sp_proof sp)"
    and dig: "envelope_digest (ex_sha256 X) (sp_proof sp) = Inr (sp_envelope_digest sp)"
    by (rule signer_sign_parts) blast
  have sga: "sg_proof_authority sg = ap_proof_authority ?p" "ex_verifying_key X (sg_signing_key sg) = ap_verification_key ?p"
    using sg by (auto simp: validate_provisioning_def split: if_splits)
  have alg: "pa_algorithm (ap_proof_authority ?p) = 1" "pa_algorithm_version (ap_proof_authority ?p) = 1"
    using provisioning_rebuilt(2,3) [OF prov] .
  have "proof_ok (sp_proof sp)"
    using proof_constructed [of "pa_algorithm (sg_proof_authority sg)" "pa_algorithm (sg_proof_authority sg)"
        "pa_authority (sg_proof_authority sg)" "pa_key (sg_proof_authority sg)"
        "pa_algorithm_version (sg_proof_authority sg)" "sg_proof_authority sg", OF _ _ c p] alg sga(1)
    by (simp add: tenure_algorithm_try_new_def tenure_authority_try_new_def)
  note rok = response_try_new_ok [OF r this]
  have bind: "validate_request_binding r rq = Inr ()" "rs_proof_digest r = sp_envelope_digest sp"
    using r dig by (auto simp: response_try_new_def validate_request_binding_def res_simps Let_def split: if_splits)
  have key: "ex_key_valid X (ap_verification_key ?p)"
    using provisioning_rebuilt(1) [OF prov] unfolding provisioning_try_new_def and_then_eq_Inr guard_eq_Inr by blast
  have dec: "decode_for_request (ex_sha256 X) (rs_canonical_bytes r) rq = Inr r"
    using decode_response_complete [OF rok(1)] bind(1) by (simp add: decode_for_request_def)
  have st: "signing_transcript (sp_proof sp) = Inr transcript"
    using p t by (simp add: signing_transcript_def tenure_proof_try_new_wf)
  have ver: "ex_verify_strict X (ap_verification_key ?p) transcript (sp_signature sp)"
    using honest sga(2) sgn by (auto simp: honest_def)
  have fields: "ar_exact_request_bytes rec = rq_canonical_bytes rq" "ar_operation_id rec = ti_operation_id (rq_intent rq)"
    "ar_request_digest rec = rq_request_digest rq" "ar_writer rec = ti_writer (rq_intent rq)" "ar_epoch rec = e"
    "ar_supersedes_through_epoch rec = h" "ar_nonce rec = td_client_nonce (rq_draft rq)"
    "ar_response_bound rec = td_max_response_payload_bytes (rq_draft rq)" "ar_signature rec = sp_signature sp"
    "ar_proof_envelope_digest rec = sp_envelope_digest sp" "ar_exact_response_bytes rec = rs_canonical_bytes r"
    "ar_response_digest rec = rs_response_digest r"
    unfolding rec by (simp_all add: issued_record_def intent_of_def enc h)
  show ?thesis
    unfolding validate_record_protocol_def fields request_facts(4) [OF rq] map_err.simps and_then.simps auth ok_or.simps
      c p [unfolded sga(1)] dig st dec Let_def
    using pol auth(3) key ver rok bind(2) by (simp add: request_bound_to_def fields)
qed

lemma protocol_of_provisioning:
  assumes "as_provisioning t = as_provisioning s"
  shows "validate_record_protocol X t r = validate_record_protocol X s r"
  unfolding validate_record_protocol_def request_bound_to_def assms by (rule refl)

text \<open>Raising the high water mark keeps the structure of the old records.\<close>

lemma structure_raised:
  assumes "validate_record_structure s r = Inr ()" "as_provisioning t = as_provisioning s"
    "as_epoch_high_water s \<le> as_epoch_high_water t"
  shows "validate_record_structure t r = Inr ()"
proof -
  have "\<not> (ar_epoch r = 0 \<or> ar_epoch r > as_epoch_high_water s)"
    using assms(1) unfolding validate_record_structure_def and_then_eq_Inr guard_eq_Inr by blast
  then have eq: "(ar_epoch r = 0 \<or> ar_epoch r > as_epoch_high_water t) = (ar_epoch r = 0 \<or> ar_epoch r > as_epoch_high_water s)"
    using assms(3) by auto
  show ?thesis using assms(1) unfolding validate_record_structure_def assms(2) eq .
qed

lemma new_record_structure:
  assumes rq: "request_ok (ex_sha256 X) rq" and nz: "rq_request_digest rq \<noteq> 0"
    and writer: "ti_writer (rq_intent rq) = ap_authorized_writer (as_provisioning t)"
    and e: "e \<noteq> 0" "e \<le> as_epoch_high_water t" "as_epoch_high_water s = e - 1"
    and enc: "er_exact_bytes enc \<noteq> []" "length (er_exact_bytes enc) \<le> unat (td_max_response_payload_bytes (rq_draft rq))"
      "er_response_digest enc \<noteq> 0" "dig \<noteq> 0"
  shows "validate_record_structure t (issued_record s (intent_of rq) e sig dig enc) = Inr ()"
proof -
  have d: "draft_ok (ex_sha256 X) (rq_draft rq)" using rq by (simp add: request_ok_def)
  note f = draft_ok_fields [OF d] request_facts [OF rq]
  have 2: "td_client_nonce (rq_draft rq) \<noteq> []" using f(7) by auto
  have 3: "unat (td_max_response_payload_bytes (rq_draft rq)) \<noteq> 0"
    "unat (td_max_response_payload_bytes (rq_draft rq)) \<le> MAX_ACQUIRE_RESPONSE_BYTES"
    "length (td_client_nonce (rq_draft rq)) \<le> MAX_TENURE_NONCE_BYTES"
    using f(8,9,10) by (simp_all add: protocol_limits MAX_ACQUIRE_RESPONSE_BYTES_def)
  show ?thesis
    using nz 2 3 f(2,3,11,12) e enc writer
    by (simp add: validate_record_structure_def issued_record_def intent_of_def MAX_ACQUIRE_REQUEST_BYTES_def not_less)
qed

text \<open>Inserting at the place the search reports keeps the order.\<close>

lemma insert_ascends:
  assumes ord: "operations_ascend rs" and n: "binary_search_by_key ar_operation_id (ar_operation_id r) rs = Inl n"
  shows "operations_ascend (vec_insert n r rs)"
proof -
  have srt: "sorted_wrt (<) (map ar_operation_id rs)" using ord by (simp add: operations_ascend_def)
  note b = binary_search_absent [OF srt n]
  have "x < ar_operation_id r" if "x \<in> ar_operation_id ` set (take n rs)" for x
    using that b(1,2) by (auto simp: in_set_conv_nth)
  moreover have "ar_operation_id r < x" if "x \<in> ar_operation_id ` set (drop n rs)" for x
    using that b(1,3) by (auto simp: in_set_conv_nth)
  moreover have "sorted_wrt (<) (map ar_operation_id (take n rs @ drop n rs))" using srt by simp
  ultimately show ?thesis
    unfolding operations_ascend_def vec_insert_def map_append list.map sorted_wrt_append
    by (auto dest: order.strict_trans)
qed

lemma issued_snapshot_wf:
  assumes wf: "snapshot_wf X s" and rq: "request_ok (ex_sha256 X) rq" and nz: "rq_request_digest rq \<noteq> 0"
    and few: "length (as_acquire_records s) < MAX_RETAINED_ACQUIRE_RECORDS"
    and e: "unat e = length (as_acquire_records s) + 1" and q: "unat q = length (as_acquire_records s) + 2"
    and rec: "rec = issued_record s (intent_of rq) e sig dig enc"
    and search: "binary_search_by_key ar_operation_id (ar_operation_id rec) (as_acquire_records s) = Inl n"
    and writer: "ti_writer (rq_intent rq) = ap_authorized_writer (as_provisioning s)"
    and enc: "er_exact_bytes enc \<noteq> []" "length (er_exact_bytes enc) \<le> unat (td_max_response_payload_bytes (rq_draft rq))"
      "er_response_digest enc \<noteq> 0" "dig \<noteq> 0"
    and protocol: "validate_record_protocol X s rec = Inr ()"
    and t: "t = s\<lparr>as_acquire_records := vec_insert n rec (as_acquire_records s), as_epoch_high_water := e,
                 as_snapshot_sequence := q\<rparr>"
  shows "snapshot_wf X t"
proof -
  let ?rs = "as_acquire_records s"
  have h: "unat (as_epoch_high_water s) = length ?rs" using wf by (simp add: snapshot_wf_def)
  have "checked_add (as_epoch_high_water s) 1 = Some e" using e h by (simp add: checked_add_eq_Some)
  then have prev: "as_epoch_high_water s = e - 1" by (auto simp: checked_succ split: if_splits)
  have e0: "e \<noteq> 0" using e by auto
  have le: "as_epoch_high_water s \<le> as_epoch_high_water t" using e h by (simp add: t word_le_nat_alt)
  have epochs: "ar_epoch r \<noteq> e" if "r \<in> set ?rs" for r
    using structure_epoch(2) [of s r] wf that e h by (auto simp: snapshot_wf_def structure_ok_def)
  have epoch: "ar_epoch rec = e" by (simp add: rec issued_record_def)
  have dist: "distinct (map ar_epoch (vec_insert n rec ?rs))"
  proof -
    have "distinct (map ar_epoch ?rs)" using wf by (simp add: snapshot_wf_def)
    then have "distinct (map ar_epoch (take n ?rs) @ map ar_epoch (drop n ?rs))"
      by (metis append_take_drop_id map_append)
    moreover have "e \<notin> ar_epoch ` set (take n ?rs)" "e \<notin> ar_epoch ` set (drop n ?rs)"
      using epochs in_set_takeD in_set_dropD by fastforce+
    ultimately show ?thesis by (simp add: vec_insert_def epoch)
  qed
  have asc: "operations_ascend (vec_insert n rec ?rs)"
    using wf search by (intro insert_ascends) (simp_all add: snapshot_wf_def)
  have str: "structure_ok t"
  proof -
    have "validate_record_structure t rec = Inr ()"
      unfolding rec using rq nz writer e0 prev enc
      by (intro new_record_structure) (simp_all add: t)
    moreover have "validate_record_structure t r = Inr ()" if "r \<in> set ?rs" for r
    proof -
      have "validate_record_structure s r = Inr ()" using wf that by (simp add: snapshot_wf_def structure_ok_def)
      then show ?thesis by (rule structure_raised [OF _ _ le]) (simp add: t)
    qed
    ultimately show ?thesis by (auto simp: structure_ok_def t)
  qed
  have prot: "validate_record_protocol X t r = Inr ()" if "r \<in> set (as_acquire_records t)" for r
    using protocol_of_provisioning [of t s X r] that wf protocol by (auto simp: t snapshot_wf_def)
  have recs: "as_acquire_records t = vec_insert n rec ?rs" "as_epoch_high_water t = e" "as_snapshot_sequence t = q"
    "as_provisioning t = as_provisioning s" "as_owner_identity_fingerprint t = as_owner_identity_fingerprint s"
    by (simp_all add: t)
  show ?thesis
    unfolding snapshot_wf_def recs
    using wf few e q dist asc str prot [unfolded recs]
    by (intro conjI ballI) (simp_all add: snapshot_wf_def)
qed

section \<open>The acquire operation\<close>

definition new_operation :: "AuthoritySnapshot \<Rightarrow> AcquireTenureRequestV1 \<Rightarrow> bool" where
  "new_operation s rq \<longleftrightarrow> ti_operation_id (rq_intent rq) \<notin> ar_operation_id ` set (as_acquire_records s)"

lemma fresh_search:
  assumes "snapshot_wf X s" "new_operation s rq"
  obtains n where "binary_search_by_key ar_operation_id (ti_operation_id (rq_intent rq)) (as_acquire_records s) = Inl n"
proof (cases "binary_search_by_key ar_operation_id (ti_operation_id (rq_intent rq)) (as_acquire_records s)")
  case (Inr n)
  have "sorted_wrt (<) (map ar_operation_id (as_acquire_records s))"
    using assms(1) by (simp add: snapshot_wf_def operations_ascend_def)
  from binary_search_found [OF this Inr] show thesis
    using assms(2) by (metis image_eqI new_operation_def nth_mem)
qed (rule that)

lemma issue_succeeds:
  assumes wf: "snapshot_wf X s" and rq: "request_ok (ex_sha256 X) rq"
    and policy: "validate_request_policy X (as_provisioning s) rq = Inr ()"
    and sg: "validate_provisioning X sg (as_provisioning s) = Inr ()" and honest: "honest X (sg_signing_key sg)"
    and fresh: "new_operation s rq" and few: "length (as_acquire_records s) < MAX_RETAINED_ACQUIRE_RECORDS"
    and room: "response_size rq \<le> unat (td_max_response_payload_bytes (rq_draft rq))"
    and digests: "0 \<notin> set (answer_digests X sg s rq)"
  obtains e q r t where "preflight s (intent_of rq) = Inr (Issue e q)"
    "issue_response X sg s rq (intent_of rq) e q = Inr (r, t)" "unat e = length (as_acquire_records s) + 1"
    "unat q = length (as_acquire_records s) + 2"
proof -
  let ?rs = "as_acquire_records s"
  have hs: "unat (as_epoch_high_water s) = length ?rs" "unat (as_snapshot_sequence s) = length ?rs + 1"
    and prov: "provisioning_validate X (as_provisioning s) = Inr ()"
    using wf by (simp_all add: snapshot_wf_def)
  have small: "length ?rs < 64" using few by (simp add: MAX_RETAINED_ACQUIRE_RECORDS_def)
  define e where "e = as_epoch_high_water s + 1"
  define q where "q = as_snapshot_sequence s + 1"
  have ce: "checked_add (as_epoch_high_water s) 1 = Some e" and cq: "checked_add (as_snapshot_sequence s) 1 = Some q"
    using hs small by (simp_all add: e_def q_def checked_add_def)
  have eq: "unat e = length ?rs + 1" "unat q = length ?rs + 2"
    using ce cq hs by (simp_all add: checked_add_eq_Some)
  obtain n where n: "binary_search_by_key ar_operation_id (ti_operation_id (rq_intent rq)) ?rs = Inl n"
    by (rule fresh_search [OF wf fresh])
  have pre: "preflight s (intent_of rq) = Inr (Issue e q)"
    using n few ce cq by (simp add: preflight_def intent_of_def)
  have d: "draft_ok (ex_sha256 X) (rq_draft rq)" using rq by (simp add: request_ok_def)
  have nonce: "td_client_nonce (rq_draft rq) \<noteq> []" "length (td_client_nonce (rq_draft rq)) \<le> MAX_TENURE_NONCE_BYTES"
    using draft_ok_fields(7,8) [OF d] by (auto simp: protocol_limits)
  have e': "e \<noteq> 0" "as_epoch_high_water s < e" using eq(1) hs by (auto simp: word_less_nat_alt)
  note pol = policy_facts [OF policy]
  obtain sp tr where sp: "signer_sign X sg (ap_source_scope (as_provisioning s)) (ti_writer (rq_intent rq)) e
      (as_epoch_high_water s) (td_client_nonce (rq_draft rq)) = Inr sp"
    and p: "sp_proof sp = \<lparr>tp_authority = sg_proof_authority sg, tp_claim = \<lparr>wt_source_scope =
       ap_source_scope (as_provisioning s), wt_writer = ti_writer (rq_intent rq), wt_epoch = e,
       wt_supersedes_through_epoch = as_epoch_high_water s\<rparr>, tp_nonce = td_client_nonce (rq_draft rq),
       tp_signature = arr64 (sp_signature sp)\<rparr>" "tenure_proof_wf (sp_proof sp)"
    and dig: "sp_envelope_digest sp = ex_sha256 X (envelope_stream (sp_proof sp))"
    by (rule sign_succeeds [OF nonce e']) blast
  obtain r bs where r: "response_try_new (ex_sha256 X) rq (sp_proof sp) = Inr r" "rs_proof r = sp_proof sp"
    "rs_proof_digest r = ex_sha256 X (envelope_stream (sp_proof sp))" "rs_response_digest r = ex_sha256 X bs"
    "length (rs_canonical_bytes r) = response_size rq"
    by (rule response_succeeds [OF rq p(2), of thesis]) (use p room pol(1) in \<open>auto\<close>)
  have big: "rs_canonical_bytes r \<noteq> []" "length (rs_canonical_bytes r) \<le> MAX_ACQUIRE_RESPONSE_BYTES"
    using r(5) nonce(2) by (auto simp: response_size_def MAX_ACQUIRE_RESPONSE_BYTES_def MAX_TENURE_NONCE_BYTES_def)
  have nz: "rs_response_digest r \<noteq> 0" "sp_envelope_digest sp \<noteq> 0" "rq_request_digest rq \<noteq> 0"
    using digests sp r(1) by (auto simp: answer_digests_def e_def)
  let ?enc = "\<lparr>er_exact_bytes = rs_canonical_bytes r, er_response_digest = rs_response_digest r,
      er_proof_envelope_digest = sp_envelope_digest sp\<rparr>"
  have enc: "encoded_response_try_new (rs_canonical_bytes r) (rs_response_digest r) (sp_envelope_digest sp) = Inr ?enc"
    using big nz by (simp add: encoded_response_try_new_def)
  let ?rec = "issued_record s (intent_of rq) e (sp_signature sp) (sp_envelope_digest sp) ?enc"
  let ?t = "s\<lparr>as_acquire_records := vec_insert n ?rec ?rs, as_epoch_high_water := e, as_snapshot_sequence := q\<rparr>"
  have op: "ar_operation_id ?rec = ti_operation_id (rq_intent rq)" by (simp add: issued_record_def intent_of_def)
  have protocol: "validate_record_protocol X s ?rec = Inr ()"
    by (rule new_record_protocol [OF rq policy prov sg honest sp r(1) _ _ refl refl]) simp_all
  have wf': "snapshot_wf X ?t"
    by (rule issued_snapshot_wf [OF wf rq nz(3) few eq refl _ pol(2) _ _ _ _ protocol refl])
      (use n op big r(5) room nz in simp_all)
  have val: "snapshot_validate X ?t = Inr ()" using wf' by (simp add: snapshot_validate_iff)
  have ids: "ai_operation_id (intent_of rq) = ti_operation_id (rq_intent rq)"
    "ai_response_bound (intent_of rq) = td_max_response_payload_bytes (rq_draft rq)" by (simp_all add: intent_of_def)
  have "with_issued_record X s (intent_of rq) e q (sp_signature sp) (sp_envelope_digest sp) ?enc = Inr ?t"
    unfolding with_issued_record_def pre and_then.simps Preflight.case Let_def ids n sum.case
    using r(5) room val by (simp add: issued_record_def intent_of_def)
  then have "issue_response X sg s rq (intent_of rq) e q = Inr (r, ?t)"
    using sp r dig enc by (simp add: issue_response_def) (simp add: intent_of_def)
  then show thesis using that pre eq by blast
qed

text \<open>A publication whose calls succeed up to the rename, and then synchronises or does not.\<close>

definition healthy :: "Faults \<Rightarrow> bool" where
  "healthy flt \<longleftrightarrow> flt_open flt = None \<and> (\<forall>k. k \<noteq> 8 \<longrightarrow> flt_call flt k = None)"

definition published :: "bytes \<Rightarrow> Directory \<Rightarrow> Directory" where
  "published encoded d = d\<lparr>dir_active := Some encoded, dir_torn := False, dir_unsynced := dir_unsynced d @ [dir_active d],
     dir_unsynced_torn := dir_unsynced_torn d \<or> dir_torn d\<rparr>"

lemma published_simps [simp]:
  "dir_active (published encoded d) = Some encoded" "dir_lock (published encoded d) = dir_lock d"
  "dir_others (published encoded d) = dir_others d" "candidates (sync_directory (published encoded d)) = {Some encoded}"
  "dir_active (sync_directory d) = dir_active d" "dir_lock (sync_directory d) = dir_lock d"
  "dir_others (sync_directory d) = dir_others d"
  by (simp_all add: published_def candidates_def sync_directory_def)

lemma publish_healthy:
  assumes "healthy flt" "dir_active d = Some old" "temp_name token \<notin> fst ` set (dir_others d)" "encoded \<noteq> []"
    "length encoded \<le> AUTHORITY_SNAPSHOT_MAX_BYTES"
  shows "publish_atomic flt d encoded token ReplaceExisting NoFailpoint =
    (case flt_call flt 8 of
       Some kind \<Rightarrow> (Inl (PublishFailure.UncertainAfterPublish (fault_io SyncDirectory kind)), published encoded d)
     | None \<Rightarrow> (Inr (), sync_directory (published encoded d)))"
  using assms rename_synced [OF assms(3), of encoded]
  by (simp add: publish_atomic_def healthy_def open_existing_active_def os_call_def published_def Let_def not_less
      split: option.split)

lemma snapshot_bytes_fits:
  assumes "snapshot_wf X s"
  shows "snapshot_bytes X s \<noteq> []" "length (snapshot_bytes X s) \<le> AUTHORITY_SNAPSHOT_MAX_BYTES"
proof -
  have len: "length (snapshot_bytes X s) = 123 + length (payload_bytes s)" by (simp add: snapshot_bytes_def)
  then show "snapshot_bytes X s \<noteq> []" by auto
  show "length (snapshot_bytes X s) \<le> AUTHORITY_SNAPSHOT_MAX_BYTES"
    using payload_bounded [OF assms] len by (simp add: AUTHORITY_SNAPSHOT_MAX_BYTES_def)
qed

lemma read_active_ok:
  "active_is X d s \<Longrightarrow> flt_open flt = None \<Longrightarrow> read_active_snapshot X flt d = Inr s"
  using decode_snapshot_bytes [of X s] snapshot_bytes_fits [of X s]
  by (simp add: read_active_snapshot_def open_existing_active_def active_is_def)

lemma revalidate_current_ok:
  assumes "active_is X d s" "flt_open flt = None" "st_state store = Operational" "st_snapshot store = s"
  shows "revalidate_current X flt d store = (Inr s, store)"
  using assms read_active_ok [OF assms(1,2)] by (simp add: revalidate_current_def ensure_operational_def)

definition ready :: "Externals \<Rightarrow> Directory \<Rightarrow> AuthoritySnapshot \<Rightarrow> DeploymentTenureAuthority \<Rightarrow> bool" where
  "ready X d s a \<longleftrightarrow> active_is X d s \<and> au_store a = \<lparr>st_snapshot = s, st_state = Operational\<rparr>
     \<and> validate_provisioning X (au_signer a) (as_provisioning s) = Inr () \<and> honest X (sg_signing_key (au_signer a))"

definition grantable :: "Externals \<Rightarrow> AuthoritySnapshot \<Rightarrow> AcquireTenureRequestV1 \<Rightarrow> bool" where
  "grantable X s rq \<longleftrightarrow> request_ok (ex_sha256 X) rq \<and> validate_request_policy X (as_provisioning s) rq = Inr ()
     \<and> new_operation s rq \<and> length (as_acquire_records s) < MAX_RETAINED_ACQUIRE_RECORDS
     \<and> response_size rq \<le> unat (td_max_response_payload_bytes (rq_draft rq))"

definition acquire_healthy :: "AcquireFaults \<Rightarrow> Directory \<Rightarrow> bool" where
  "acquire_healthy flt d \<longleftrightarrow> flt_open (af_read flt) = None \<and> flt_open (cf_read (af_commit flt)) = None
     \<and> healthy (cf_publish (af_commit flt))
     \<and> (\<exists>token. cf_token (af_commit flt) = Inr token \<and> token \<noteq> 0 \<and> temp_name token \<notin> fst ` set (dir_others d))"

lemma acquire_publishes:
  assumes ready: "ready X d s a" and grant: "grantable X s rq" and flt: "acquire_healthy flt d"
    and digests: "0 \<notin> set (answer_digests X (au_signer a) s rq)"
  obtains r t where "extends X s t r" "unat (response_epoch r) = length (as_acquire_records s) + 1"
    "answers X t (rq_canonical_bytes rq) r" "rs_operation_id r = ti_operation_id (rq_intent rq)"
    "acquire_authorized_request X flt rq a d =
      (case flt_call (cf_publish (af_commit flt)) 8 of
         Some kind \<Rightarrow> (Inl (map_acquire_store_error (StorePublish (PublishFailure.UncertainAfterPublish
                             (fault_io SyncDirectory kind)))), a\<lparr>au_store := stop (au_store a)\<rparr>, published (snapshot_bytes X t) d)
       | None \<Rightarrow> (Inr \<lparr>ct_response = r, ct_disposition = Issued\<rparr>,
                  a\<lparr>au_store := \<lparr>st_snapshot = t, st_state = Operational\<rparr>\<rparr>, sync_directory (published (snapshot_bytes X t) d)))"
proof -
  have act: "active_is X d s" and st: "au_store a = \<lparr>st_snapshot = s, st_state = Operational\<rparr>"
    and sg: "validate_provisioning X (au_signer a) (as_provisioning s) = Inr ()"
    and honest: "honest X (sg_signing_key (au_signer a))" using ready by (simp_all add: ready_def)
  have wf: "snapshot_wf X s" using act by (simp add: active_is_def)
  have rq: "request_ok (ex_sha256 X) rq" and policy: "validate_request_policy X (as_provisioning s) rq = Inr ()"
    and fresh: "new_operation s rq" and few: "length (as_acquire_records s) < MAX_RETAINED_ACQUIRE_RECORDS"
    and room: "response_size rq \<le> unat (td_max_response_payload_bytes (rq_draft rq))"
    using grant by (simp_all add: grantable_def)
  obtain e q r t where pre: "preflight s (intent_of rq) = Inr (Issue e q)"
    and issue: "issue_response X (au_signer a) s rq (intent_of rq) e q = Inr (r, t)"
    and eq: "unat e = length (as_acquire_records s) + 1" "unat q = length (as_acquire_records s) + 2"
    by (rule issue_succeeds [OF wf rq policy sg honest fresh few room digests])
  note f = issue_response_facts [OF issue wf sg]
  have ext: "extends X s t r" using f by (simp add: extends_def)
  obtain token where tok: "cf_token (af_commit flt) = Inr token" "token \<noteq> 0" "temp_name token \<notin> fst ` set (dir_others d)"
    and io: "flt_open (af_read flt) = None" "flt_open (cf_read (af_commit flt)) = None"
      "healthy (cf_publish (af_commit flt))" using flt by (auto simp: acquire_healthy_def)
  note len = snapshot_bytes_fits [OF f(1)]
  have tq: "as_snapshot_sequence t = q" using issue
    by (auto simp: issue_response_def and_then_eq_Inr map_err_eq_Inr elim!: with_issued_record_parts split: if_splits)
  have sq: "checked_add (as_snapshot_sequence s) 1 = Some q"
    using wf eq(2) by (simp add: snapshot_wf_def checked_add_eq_Some)
  have owner: "as_owner_identity_fingerprint t = as_owner_identity_fingerprint s"
    using wf f(1,4) by (simp add: snapshot_wf_def)
  have val: "snapshot_validate X t = Inr ()" using f(1) by (simp add: snapshot_validate_iff)
  have commit': "commit X (af_commit flt) t NoFailpoint (au_store a) d =
      (case flt_call (cf_publish (af_commit flt)) 8 of
         Some kind \<Rightarrow> (Inl (StorePublish (PublishFailure.UncertainAfterPublish (fault_io SyncDirectory kind))),
                        stop (au_store a), published (snapshot_bytes X t) d)
       | None \<Rightarrow> (Inr (), \<lparr>st_snapshot = t, st_state = Operational\<rparr>, sync_directory (published (snapshot_bytes X t) d)))"
    using publish_healthy [OF io(3) _ tok(3) len] act
      revalidate_current_ok [OF act io(2), of "au_store a"] encode_snapshot_wf [OF f(1)] f tq sq owner tok
    by (cases "flt_call (cf_publish (af_commit flt)) 8")
      (simp_all add: commit_def st ensure_operational_def val system_random_token_def active_is_def Let_def)
  have "acquire_authorized_request X flt rq a d =
      (case flt_call (cf_publish (af_commit flt)) 8 of
         Some kind \<Rightarrow> (Inl (map_acquire_store_error (StorePublish (PublishFailure.UncertainAfterPublish
                             (fault_io SyncDirectory kind)))), a\<lparr>au_store := stop (au_store a)\<rparr>, published (snapshot_bytes X t) d)
       | None \<Rightarrow> (Inr \<lparr>ct_response = r, ct_disposition = Issued\<rparr>,
                  a\<lparr>au_store := \<lparr>st_snapshot = t, st_state = Operational\<rparr>\<rparr>, sync_directory (published (snapshot_bytes X t) d)))"
    using revalidate_current_ok [OF act io(1), of "au_store a"] st policy request_intent_ok [OF rq] digests pre issue commit'
    by (cases "flt_call (cf_publish (af_commit flt)) 8")
      (simp_all add: acquire_authorized_request_def acquire_with_failpoint_def answer_digests_def Let_def)
  moreover have "answers X t (rq_canonical_bytes rq) r" using f(8) by (simp add: intent_of_def)
  ultimately show thesis using that ext eq(1) f(7,9) by simp
qed

text \<open>The same request again gets the stored response.\<close>

lemma acquire_replays:
  assumes ready: "ready X d s a" and rq: "request_ok (ex_sha256 X) rq"
    and policy: "validate_request_policy X (as_provisioning s) rq = Inr ()"
    and nz: "rq_request_digest rq \<noteq> 0" and ans: "answers X s (rq_canonical_bytes rq) r" and io: "flt_open (af_read flt) = None"
  shows "acquire_with_failpoint X flt rq failpoint a d = (Inr \<lparr>ct_response = r, ct_disposition = Replayed\<rparr>, a, d)"
proof -
  have act: "active_is X d s" and st: "au_store a = \<lparr>st_snapshot = s, st_state = Operational\<rparr>"
    using ready by (simp_all add: ready_def)
  have wf: "snapshot_wf X s" using act by (simp add: active_is_def)
  obtain rec where rec: "rec \<in> set (as_acquire_records s)" "ar_exact_request_bytes rec = rq_canonical_bytes rq"
    "decode_response (ex_sha256 X) (ar_exact_response_bytes rec) = Inr r" using ans by (auto simp: answers_def)
  have "validate_record_protocol X s rec = Inr ()" using wf rec(1) by (simp add: snapshot_wf_def)
  then obtain rq' p' r' where rq': "decode_request (ex_sha256 X) (ar_exact_request_bytes rec) = Inr rq'"
    and bound: "\<not> \<not> request_bound_to s rec rq'"
    and r': "decode_for_request (ex_sha256 X) (ar_exact_response_bytes rec) rq' = Inr r'"
    and dig: "\<not> (rs_response_digest r' \<noteq> ar_response_digest rec
        \<or> rs_proof_digest r' \<noteq> ar_proof_envelope_digest rec \<or> rs_proof r' \<noteq> p')"
    unfolding validate_record_protocol_def and_then_eq_Inr guard_eq_Inr map_err_eq_Inr Let_def by blast
  have "rq' = rq" using rq' rec(2) request_facts(4) [OF rq] by simp
  moreover have "r' = r" using r' rec(3) by (auto simp: decode_for_request_def and_then_eq_Inr)
  ultimately have dec: "decode_for_request (ex_sha256 X) (ar_exact_response_bytes rec) rq = Inr r"
    and op: "ar_operation_id rec = ti_operation_id (rq_intent rq)" "ar_request_digest rec = rq_request_digest rq"
    and digs: "rs_response_digest r = ar_response_digest rec" "rs_proof_digest r = ar_proof_envelope_digest rec"
    using r' bound dig by (auto simp: request_bound_to_def)
  have pre: "preflight s (intent_of rq) =
      Inr (Replay (ar_exact_response_bytes rec) (ar_response_digest rec) (ar_proof_envelope_digest rec))"
    using preflight_replay [OF wf rec(1), of "intent_of rq"] op by (simp add: intent_of_def)
  have "a\<lparr>au_store := au_store a\<rparr> = a" by simp
  then show ?thesis
    using revalidate_current_ok [OF act io, of "au_store a"] st policy request_intent_ok [OF rq nz] pre dec digs
    by (simp add: acquire_with_failpoint_def replay_response_def Let_def)
qed

text \<open>Opening a store whose file and directory are in order.\<close>

definition no_faults :: Faults where
  "no_faults = \<lparr>flt_open = None, flt_call = (\<lambda>_. None), flt_written = 0\<rparr>"

definition no_open_faults :: OpenFaults where
  "no_open_faults = \<lparr>of_checks = None, of_read = no_faults, of_clean = (\<lambda>_. None)\<rparr>"

definition signer_of :: "Externals \<Rightarrow> AuthorityProvisioning \<Rightarrow> bytes32 \<Rightarrow> Ed25519TenureSigner" where
  "signer_of X p seed = \<lparr>sg_proof_authority = ap_proof_authority p,
     sg_signing_key_fingerprint = af_signing_key (ap_fingerprints p), sg_signing_key = seed\<rparr>"

lemma open_succeeds:
  assumes act: "active_is X d s" and id: "as_store_instance_id s = i" and p: "as_provisioning s = p"
    and seed: "seed \<noteq> 0" "ex_verifying_key X seed = ap_verification_key p" and honest: "honest X seed"
    and dir: "dir_lock d" "dir_others d = []"
  shows "authority_open X no_open_faults i p seed d =
           (Inr \<lparr>au_store = \<lparr>st_snapshot = s, st_state = Operational\<rparr>, au_signer = signer_of X p seed\<rparr>, d)"
    "ready X d s \<lparr>au_store = \<lparr>st_snapshot = s, st_state = Operational\<rparr>, au_signer = signer_of X p seed\<rparr>"
proof -
  have wf: "snapshot_wf X s" and i: "i \<noteq> 0" using act id by (auto simp: active_is_def)
  have prov: "provisioning_validate X p = Inr ()" and owner: "as_owner_identity_fingerprint s =
      af_owner_identity (ap_fingerprints p)" using wf p by (simp_all add: snapshot_wf_def)
  note alg = provisioning_rebuilt(2,3) [OF prov]
  obtain fp where "signing_key_fingerprint_for X (ap_verification_key p) = Inr fp"
    "\<not> fp \<noteq> af_signing_key (ap_fingerprints p)"
    using provisioning_rebuilt(1) [OF prov] unfolding provisioning_try_new_def and_then_eq_Inr guard_eq_Inr by blast
  then have fp: "signing_key_fingerprint_for X (ap_verification_key p) = Inr (af_signing_key (ap_fingerprints p))" by simp
  have signer: "signer_try_from_seed X (ap_proof_authority p) seed (af_signing_key (ap_fingerprints p)) =
      Inr (signer_of X p seed)"
    using seed fp alg
    by (simp add: signer_try_from_seed_def signer_of_def ED25519_ALGORITHM_def ED25519_ALGORITHM_VERSION_def)
  have vp: "validate_provisioning X (signer_of X p seed) p = Inr ()"
    using seed by (simp add: validate_provisioning_def signer_of_def)
  have read: "read_active_snapshot X no_faults d = Inr s" using act by (rule read_active_ok) (simp add: no_faults_def)
  show "authority_open X no_open_faults i p seed d =
      (Inr \<lparr>au_store = \<lparr>st_snapshot = s, st_state = Operational\<rparr>, au_signer = signer_of X p seed\<rparr>, d)"
    using i signer vp read p owner id dir
    by (simp add: authority_open_def store_open_def open_validated_def open_lock_def no_open_faults_def
        clean_valid_orphan_temps_def store_instance_id_try_from_bytes_def)
  show "ready X d s \<lparr>au_store = \<lparr>st_snapshot = s, st_state = Operational\<rparr>, au_signer = signer_of X p seed\<rparr>"
    using act vp p honest by (simp add: ready_def signer_of_def)
qed

end
