(* ===== verification/Tenure_Properties.thy ===== *)
theory Tenure_Properties
  imports Tenure_Progress
begin

text \<open>
  The properties of the tenure authority: its validation, its journal, its publication, its
  whole-life guarantees across crashes, and the gap the recovery path leaves.
\<close>

section \<open>Initialisation of a store\<close>

definition empty_directory :: Directory where
  "empty_directory = \<lparr>dir_lock = False, dir_active = None, dir_torn = False, dir_unsynced = [], dir_unsynced_torn = False,
     dir_others = []\<rparr>"

definition init_io :: InitFaults where
  "init_io = \<lparr>if_open = None, if_fresh = None, if_create = None, if_lock = None,
     if_store_id = Inr (arr32 8), if_token = Inr (arr16 1), if_publish = no_faults, if_read = no_faults\<rparr>"

definition initial_directory :: "Externals \<Rightarrow> AuthoritySnapshot \<Rightarrow> Directory" where
  "initial_directory X s = \<lparr>dir_lock = True, dir_active = Some (snapshot_bytes X s), dir_torn = False, dir_unsynced = [],
     dir_unsynced_torn = False, dir_others = []\<rparr>"

lemma initialize_succeeds:
  assumes prov: "provisioning_validate X p = Inr ()"
  obtains s where "snapshot_initial X 8 p = Inr s" "active_is X (initial_directory X s) s"
    "as_store_instance_id s = 8" "as_provisioning s = p" "as_acquire_records s = []"
    "authority_init X p 8 \<lparr>w_directory = initial_directory X s, w_authority = None, w_issued = [], w_returned = []\<rparr>"
proof -
  define s where "s = \<lparr>as_store_instance_id = 8, as_owner_identity_fingerprint = af_owner_identity (ap_fingerprints p),
    as_snapshot_sequence = 1, as_provisioning = p, as_epoch_high_water = 0, as_acquire_records = []\<rparr>"
  have wf: "snapshot_wf X s" using prov by (simp add: snapshot_wf_def s_def operations_ascend_def structure_ok_def)
  then have "snapshot_validate X s = Inr ()" by (simp add: snapshot_validate_iff)
  then have init: "snapshot_initial X 8 p = Inr s"
    by (simp add: snapshot_initial_def Let_def flip: s_def)
  let ?d = "initial_directory X s"
  have act: "active_is X ?d s" using wf by (simp add: active_is_def initial_directory_def s_def)
  note fits = snapshot_bytes_fits [OF wf]
  have pub: "publish_atomic no_faults (empty_directory\<lparr>dir_lock := True\<rparr>) (snapshot_bytes X s) 1 RequireMissing NoFailpoint
      = (Inr (), ?d)"
    using fits by (simp add: publish_atomic_def no_faults_def ensure_active_missing_def empty_directory_def os_call_def
        create_temp_def sync_temp_def rename_temp_def sync_directory_def initial_directory_def Let_def not_less)
  have "length (snapshot_bytes X s) \<ge> 123" by (simp add: snapshot_bytes_def)
  then have "\<exists>receipt. receipt_from_snapshot X s (snapshot_bytes X s) = Inr receipt
      \<and> ir_store_instance_id receipt = as_store_instance_id s"
    using build_digest_within [of INITIALIZATION_RECEIPT_DIGEST_DOMAIN "[receipt_canonical s c]" "ex_sha256 X" for c]
    by (auto simp: receipt_from_snapshot_def Let_def ENVELOPE_HEADER_BYTES_def digestible_def receipt_canonical_def
        INITIALIZATION_RECEIPT_DIGEST_DOMAIN_def INITIALIZATION_RECEIPT_MAGIC_def ascii_def)
  then obtain receipt where rc: "receipt_from_snapshot X s (snapshot_bytes X s) = Inr receipt"
    "ir_store_instance_id receipt = 8" by (auto simp: s_def)
  have read: "read_active_snapshot X no_faults ?d = Inr s" using act by (rule read_active_ok) (simp add: no_faults_def)
  have nz: "\<not> list_all (\<lambda>b. b = 0) (arr16 1)" "\<not> list_all (\<lambda>b. b = 0) (arr32 (8 :: bytes32))" by simp_all
  have "initialize_with X init_io p NoFailpoint empty_directory = (Inr receipt, ?d)"
    using prov init encode_snapshot_wf [OF wf] rc(1) pub read nz
    by (simp add: initialize_with_def init_io_def store_check_def ensure_fresh_directory_def
        create_and_lock_initializer_lock_def store_instance_id_try_from_bytes_def STORE_INSTANCE_ID_BYTES_def
        TEMP_TOKEN_BYTES_def empty_directory_def Let_def)
  then have "authority_init X p 8 \<lparr>w_directory = ?d, w_authority = None, w_issued = [], w_returned = []\<rparr>"
    using rc(2) by (auto simp: authority_init_def)
  then show thesis using that init act by (simp add: s_def)
qed

section \<open>A concrete authority\<close>

definition demo_externals :: Externals where
  "demo_externals = \<lparr>ex_sha256 = (\<lambda>_. 1), ex_key_valid = (\<lambda>_. True), ex_key_weak = (\<lambda>_. False),
     ex_verify_strict = (\<lambda>_ _ _. True), ex_verifying_key = (\<lambda>seed. seed), ex_sign = (\<lambda>_ _. 7), ex_parallelism = 4\<rparr>"

definition demo_provisioning :: AuthorityProvisioning where
  "demo_provisioning =
     \<lparr>ap_source_scope = 1, ap_authorized_writer = 2,
      ap_proof_authority = \<lparr>pa_authority = 1, pa_key = 1, pa_algorithm = 1, pa_algorithm_version = 1\<rparr>,
      ap_verification_key = 5,
      ap_authorization = \<lparr>aa_controller_principal = 3, aa_controller_key = 4, aa_controller_verification_key = 6,
        aa_controller_public_key_fingerprint = 1\<rparr>,
      ap_fingerprints = \<lparr>af_signing_key = 1, af_policy = 1, af_service_principal = 1, af_owner_identity = 1\<rparr>\<rparr>"

definition demo_draft :: "bytes16 \<Rightarrow> AcquireTenureRequestDraftV1" where
  "demo_draft op = \<lparr>td_intent = \<lparr>ti_scope = 1, ti_writer = 2, ti_operation_id = op\<rparr>, td_controller_principal = 3,
     td_controller_key = 4, td_controller_public_key_fingerprint = 1, td_client_nonce = [9],
     td_max_response_payload_bytes = 900, td_intent_digest = 1\<rparr>"

definition demo_acquire :: "bytes16 \<Rightarrow> AcquireTenureRequestV1" where
  "demo_acquire op = \<lparr>rq_draft = demo_draft op, rq_auth_signature = replicate 64 0,
     rq_canonical_bytes = build_request_bytes (demo_draft op) (replicate 64 0), rq_request_digest = 1\<rparr>"

lemma demo_honest: "honest demo_externals seed"
  by (simp add: honest_def demo_externals_def)

lemma demo_sha [simp]: "ex_sha256 demo_externals = (\<lambda>_. 1)"
  by (simp add: demo_externals_def)

lemma demo_digests:
  assumes "request_ok (ex_sha256 demo_externals) rq"
  shows "0 \<notin> set (answer_digests demo_externals sg s rq)"
  using answer_digests_hashed [OF assms, of 0 sg s] by auto

lemma digest_of_constant:
  "digestible domain fs \<Longrightarrow> build_digest (\<lambda>_. c) domain (map field_bytes fs) = Inr c"
  by (simp add: build_digest_within)

lemma demo_provisioning_valid: "provisioning_validate demo_externals demo_provisioning = Inr ()"
proof -
  have a: "for_ed25519_key (\<lambda>_. 1) key = Inr 1" for key
    using digest_of_constant [of CONTROLLER_KEY_FINGERPRINT_DOMAIN
        "[be_u16 ACQUIRE_TENURE_ED25519_ALGORITHM, be_u16 ACQUIRE_TENURE_ED25519_ALGORITHM_VERSION, arr32 key]" 1]
    by (simp add: for_ed25519_key_def digestible_def CONTROLLER_KEY_FINGERPRINT_DOMAIN_def ascii_def field_u16_def)
  have b: "signing_key_fingerprint_for demo_externals key = Inr 1" for key
    using digest_of_constant [of AUTHORITY_KEY_FINGERPRINT_DOMAIN "[arr32 key]" 1]
    by (simp add: signing_key_fingerprint_for_def digestible_def AUTHORITY_KEY_FINGERPRINT_DOMAIN_def ascii_def)
  have k: "ex_key_valid demo_externals key" "\<not> ex_key_weak demo_externals key" for key
    by (simp_all add: demo_externals_def)
  show ?thesis
    by (simp add: provisioning_validate_def provisioning_try_new_def demo_provisioning_def a b k
        ED25519_ALGORITHM_def ED25519_ALGORITHM_VERSION_def)
qed

lemma demo_acquire_ok:
  assumes "op \<noteq> 0"
  shows "request_ok (\<lambda>_. 1) (demo_acquire op)"
proof -
  let ?s = "replicate 64 0 :: bytes" and ?d = "demo_draft op"
  have i: "intent_digest (\<lambda>_. 1) (td_intent ?d) = Inr 1"
    using digest_of_constant [of INTENT_DIGEST_DOMAIN "[arr16 1, arr16 2, arr16 op]" 1]
    by (simp add: intent_digest_def demo_draft_def digestible_def INTENT_DIGEST_DOMAIN_def ascii_def)
  have draft: "draft_ok (\<lambda>_. 1) ?d"
    unfolding draft_ok_def draft_try_new_def i using assms
    by (simp add: demo_draft_def validate_client_nonce_def validate_response_bound_def protocol_limits)
  have len: "length (build_request_bytes ?d ?s) \<le> MAX_ACQUIRE_TENURE_REQUEST_PAYLOAD_BYTES"
    using request_format.admissible_bounded [OF request_admissible [OF draft, of ?s]]
    by (simp add: build_request_encoding ACQUIRE_TENURE_ED25519_SIGNATURE_BYTES_def)
  have "digest_complete_request (\<lambda>_. 1) (build_request_bytes ?d ?s) = Inr 1"
    using digest_of_constant [of REQUEST_DIGEST_DOMAIN "[build_request_bytes ?d ?s]" 1] len
    by (simp add: digest_complete_request_def digestible_def REQUEST_DIGEST_DOMAIN_def ascii_def protocol_limits)
  with draft len show ?thesis
    by (simp add: request_ok_def demo_acquire_def finalize_ed25519_def from_draft_def validate_ed25519_signature_def
        ACQUIRE_TENURE_ED25519_SIGNATURE_BYTES_def Let_def)
qed

lemma demo_policy: "validate_request_policy demo_externals demo_provisioning (demo_acquire op) = Inr ()"
proof -
  have "\<exists>tr. request_signing_transcript rq = Inr tr" for rq
    by (simp add: request_signing_transcript_def build_request_signing_transcript_def try_of_nat_def
        REQUEST_AUTH_TRANSCRIPT_DOMAIN_def ascii_def)
  then obtain tr where "request_signing_transcript (demo_acquire op) = Inr tr" by blast
  then show ?thesis
    by (simp add: validate_request_policy_def demo_externals_def demo_provisioning_def demo_acquire_def demo_draft_def
        signature_array_def ED25519_SIGNATURE_BYTES_def ACQUIRE_TENURE_ED25519_ALGORITHM_def
        ACQUIRE_TENURE_ED25519_ALGORITHM_VERSION_def Let_def)
qed

lemma demo_grantable:
  assumes "op \<noteq> 0" "as_provisioning s = demo_provisioning" "as_acquire_records s = []"
  shows "grantable demo_externals s (demo_acquire op)"
  using assms demo_acquire_ok [OF assms(1)] demo_policy [of op]
  by (simp add: grantable_def new_operation_def response_size_def MAX_RETAINED_ACQUIRE_RECORDS_def)
    (simp add: demo_acquire_def demo_draft_def)

section \<open>A replay that power loss undoes\<close>

definition sync_fails :: Faults where
  "sync_fails = \<lparr>flt_open = None, flt_call = (\<lambda>k. if k = 8 then Some Other else None), flt_written = 0\<rparr>"

definition acquire_io :: "Faults \<Rightarrow> AcquireFaults" where
  "acquire_io publish = \<lparr>af_read = no_faults,
     af_commit = \<lparr>cf_read = no_faults, cf_token = Inr 1, cf_publish = publish\<rparr>\<rparr>"

lemma acquire_io_healthy:
  "dir_others d = [] \<Longrightarrow> acquire_healthy (acquire_io no_faults) d" "dir_others d = [] \<Longrightarrow> acquire_healthy (acquire_io sync_fails) d"
  by (simp_all add: acquire_healthy_def acquire_io_def healthy_def no_faults_def sync_fails_def)

lemma two_steps: "R a b \<Longrightarrow> R b c \<Longrightarrow> R\<^sup>*\<^sup>* a c"
  by (meson converse_rtranclp_into_rtranclp rtranclp.rtrancl_refl)

lemma eight_steps:
  assumes "R a b" "R b c" "R c d" "R d e" "R e f" "R f g" "R g h" "R h i"
  shows "R\<^sup>*\<^sup>* a i"
  using assms by (meson converse_rtranclp_into_rtranclp rtranclp.rtrancl_refl)

lemma lost_replay:
  assumes act: "active_is X d s" and id: "as_store_instance_id s = i" and p: "as_provisioning s = p"
    and seed: "seed \<noteq> 0" "ex_verifying_key X seed = ap_verification_key p" and honest: "honest X seed"
    and dir: "dir_lock d" "dir_others d = []" "dir_unsynced d = []" "\<not> dir_torn d" "\<not> dir_unsynced_torn d"
    and grant: "grantable X s rq" "grantable X s rq'"
    and digests: "\<forall>sg. 0 \<notin> set (answer_digests X sg s rq) \<and> 0 \<notin> set (answer_digests X sg s rq')"
    and w: "w = \<lparr>w_directory = d, w_authority = None, w_issued = [], w_returned = []\<rparr>"
  obtains w' r r' where "(authority_step X p seed i True)\<^sup>*\<^sup>* w w'" "w_returned w' = [r', r]"
    "response_epoch r = response_epoch r'" "rs_operation_id r = ti_operation_id (rq_intent rq)"
    "rs_operation_id r' = ti_operation_id (rq_intent rq')"
proof -
  let ?step = "authority_step X p seed i True"
  let ?a = "\<lambda>s. \<lparr>au_store = \<lparr>st_snapshot = s, st_state = Operational\<rparr>, au_signer = signer_of X p seed\<rparr>"
  have rqs: "request_ok (ex_sha256 X) rq" "request_ok (ex_sha256 X) rq'" "validate_request_policy X p rq = Inr ()"
    using grant p by (simp_all add: grantable_def)
  note open1 = open_succeeds [OF act id p seed honest dir(1,2)]
  obtain t r where t: "extends X s t r" "unat (response_epoch r) = length (as_acquire_records s) + 1"
      "answers X t (rq_canonical_bytes rq) r" "rs_operation_id r = ti_operation_id (rq_intent rq)"
    and acq1: "acquire_authorized_request X (acquire_io sync_fails) rq (?a s) d = (Inl (map_acquire_store_error
        (StorePublish (PublishFailure.UncertainAfterPublish (fault_io SyncDirectory Other)))),
        (?a s)\<lparr>au_store := stop (au_store (?a s))\<rparr>, published (snapshot_bytes X t) d)" (is "_ = (Inl ?e, ?stopped, ?d1)")
    by (rule acquire_publishes [OF open1(2) grant(1) acquire_io_healthy(2) [OF dir(2)]])
      (use digests in \<open>simp_all add: acquire_io_def sync_fails_def\<close>)
  have act1: "active_is X ?d1 t" "as_store_instance_id t = i" "as_provisioning t = p"
    using t(1) act id p by (simp_all add: extends_def active_is_def)
  note open2 = open_succeeds [OF act1 seed honest, simplified, OF dir(1,2)]
  have "active_is X ?d1 t" "flt_open (af_read (acquire_io no_faults)) = None"
    using act1 by (simp_all add: acquire_io_def no_faults_def)
  have replay: "acquire_with_failpoint X (acquire_io no_faults) rq NoFailpoint (?a t) ?d1 =
      (Inr \<lparr>ct_response = r, ct_disposition = Replayed\<rparr>, ?a t, ?d1)"
    using open2(2) rqs act1(3) t(3) digests [unfolded answer_digests_def]
    by (intro acquire_replays) (simp_all add: acquire_io_def no_faults_def)
  obtain t' r' where t': "unat (response_epoch r') = length (as_acquire_records s) + 1"
      "rs_operation_id r' = ti_operation_id (rq_intent rq')"
    and acq2: "acquire_authorized_request X (acquire_io no_faults) rq' (?a s) d = (Inr \<lparr>ct_response = r',
        ct_disposition = Issued\<rparr>, ?a t', sync_directory (published (snapshot_bytes X t') d))" (is "_ = (_, _, ?d2)")
    by (rule acquire_publishes [OF open1(2) grant(2) acquire_io_healthy(1) [OF dir(2)]])
      (use digests in \<open>simp_all add: acquire_io_def no_faults_def\<close>)
  have restored: "?d1\<lparr>dir_active := dir_active d, dir_torn := False, dir_unsynced := [], dir_unsynced_torn := False,
      dir_others := []\<rparr> = d"
    using dir by (simp add: published_def)
  have reverts: "dir_active d \<in> candidates ?d1" using dir by (simp add: candidates_def published_def)
  have 1: "?step w (w\<lparr>w_authority := Some (?a s)\<rparr>)"
    using authority_step.open_store [of w X no_open_faults i p seed "Inr (?a s)" d True] open1(1) by (simp add: w)
  have 2: "?step (w\<lparr>w_authority := Some (?a s)\<rparr>) (w\<lparr>w_authority := Some ?stopped, w_directory := ?d1\<rparr>)"
    using authority_step.acquire [of "w\<lparr>w_authority := Some (?a s)\<rparr>" "?a s" X rq "acquire_io sync_fails" NoFailpoint
        "Inl ?e" ?stopped ?d1 p seed i True] rqs(1) acq1 by (simp add: w acquire_authorized_request_def)
  have 3: "?step (w\<lparr>w_authority := Some ?stopped, w_directory := ?d1\<rparr>) (w\<lparr>w_directory := ?d1\<rparr>)"
    using authority_step.exit [of X p seed i True "w\<lparr>w_authority := Some ?stopped, w_directory := ?d1\<rparr>"] by (simp add: w)
  have 4: "?step (w\<lparr>w_directory := ?d1\<rparr>) (w\<lparr>w_directory := ?d1, w_authority := Some (?a t)\<rparr>)"
    using authority_step.open_store [of "w\<lparr>w_directory := ?d1\<rparr>" X no_open_faults i p seed "Inr (?a t)" ?d1 True] open2(1)
    by (simp add: w)
  have 5: "?step (w\<lparr>w_directory := ?d1, w_authority := Some (?a t)\<rparr>)
      (w\<lparr>w_directory := ?d1, w_authority := Some (?a t), w_returned := [r]\<rparr>)"
    using authority_step.acquire [of "w\<lparr>w_directory := ?d1, w_authority := Some (?a t)\<rparr>" "?a t" X rq
        "acquire_io no_faults" NoFailpoint _ _ _ p seed i True, OF _ rqs(1)] replay by (simp add: w)
  have 6: "?step (w\<lparr>w_directory := ?d1, w_authority := Some (?a t), w_returned := [r]\<rparr>)
      (w\<lparr>w_returned := [r]\<rparr>)"
    using authority_step.power_loss [of "dir_active d" "w\<lparr>w_directory := ?d1, w_authority := Some (?a t), w_returned := [r]\<rparr>"
        True "[]" X p seed i] restored reverts by (simp add: w)
  have 7: "?step (w\<lparr>w_returned := [r]\<rparr>) (w\<lparr>w_returned := [r], w_authority := Some (?a s)\<rparr>)"
    using authority_step.open_store [of "w\<lparr>w_returned := [r]\<rparr>" X no_open_faults i p seed "Inr (?a s)" d True] open1(1)
    by (simp add: w)
  have 8: "?step (w\<lparr>w_returned := [r], w_authority := Some (?a s)\<rparr>)
      (w\<lparr>w_directory := ?d2, w_authority := Some (?a t'), w_issued := [r'], w_returned := [r', r]\<rparr>)"
    using authority_step.acquire [of "w\<lparr>w_returned := [r], w_authority := Some (?a s)\<rparr>" "?a s" X rq'
        "acquire_io no_faults" NoFailpoint _ _ _ p seed i True, OF _ rqs(2)] acq2
    by (simp add: w acquire_authorized_request_def)
  have run: "?step\<^sup>*\<^sup>* w (w\<lparr>w_directory := ?d2, w_authority := Some (?a t'), w_issued := [r'], w_returned := [r', r]\<rparr>)"
    by (rule eight_steps [of ?step, OF 1 2 3 4 5 6 7 8])
  have "response_epoch r = response_epoch r'" using t(2) t'(1) by (simp add: unat_eq_iff)
  then show thesis using that [OF run] t(4) t'(2) by simp
qed

section \<open>Properties\<close>

text \<open>C31. The validation of the stored records by several workers gives exactly the verdict of a
sequential pass, including which error is reported first, whatever number of hardware threads the
machine has.\<close>

theorem parallel_validation_is_sequential:
  "validate_record_protocols (X\<lparr>ex_parallelism := n\<rparr>) s =
     try_for_each (validate_record_protocol (X\<lparr>ex_parallelism := n\<rparr>) s) (as_acquire_records s)"
  by (rule sequential_protocols)

text \<open>C32. A snapshot validates exactly when it is a complete tenure history: the provisioning is
valid and owns the snapshot, there are at most 64 records, their operations ascend strictly,
their epochs are the numbers from 1 to the number of records, each used once, the high water
mark is that number and the sequence the next one, and every record is structurally and
cryptographically valid on its own.\<close>

theorem snapshot_valid_iff_complete_history:
  "snapshot_validate X s = Inr () \<longleftrightarrow>
     provisioning_validate X (as_provisioning s) = Inr ()
     \<and> as_owner_identity_fingerprint s = af_owner_identity (ap_fingerprints (as_provisioning s))
     \<and> length (as_acquire_records s) \<le> 64
     \<and> sorted_wrt (<) (map ar_operation_id (as_acquire_records s))
     \<and> mset (map (unat \<circ> ar_epoch) (as_acquire_records s)) = mset [1..<Suc (length (as_acquire_records s))]
     \<and> unat (as_epoch_high_water s) = length (as_acquire_records s)
     \<and> unat (as_snapshot_sequence s) = length (as_acquire_records s) + 1
     \<and> list_all (\<lambda>r. validate_record_structure s r = Inr ()) (as_acquire_records s)
     \<and> list_all (\<lambda>r. validate_record_protocol X s r = Inr ()) (as_acquire_records s)"
    (is "_ \<longleftrightarrow> ?rhs")
proof -
  let ?rs = "as_acquire_records s" and ?f = "unat \<circ> ar_epoch"
  have inj: "distinct (map ?f ?rs) \<longleftrightarrow> distinct (map ar_epoch ?rs)"
    by (auto simp: distinct_map inj_on_def unat_eq_iff)
  have "mset (map ?f ?rs) = mset [1..<Suc (length ?rs)]" if "snapshot_wf X s"
  proof -
    have "distinct (map ?f ?rs)" using that inj by (simp add: snapshot_wf_def)
    moreover have "set (map ?f ?rs) = set [1..<Suc (length ?rs)]"
      using wf_epochs [OF that] by (simp add: atLeastLessThanSuc_atLeastAtMost del: upt_Suc)
    ultimately show ?thesis by (metis set_eq_iff_mset_eq_distinct distinct_upt)
  qed
  moreover have "distinct (map ar_epoch ?rs)" if "mset (map ?f ?rs) = mset [1..<Suc (length ?rs)]"
    using mset_eq_imp_distinct_iff [OF that] inj by simp
  ultimately have "snapshot_wf X s \<longleftrightarrow> ?rhs"
    unfolding snapshot_wf_def operations_ascend_def structure_ok_def list_all_iff MAX_RETAINED_ACQUIRE_RECORDS_def by blast
  then show ?thesis by (simp only: snapshot_validate_iff)
qed

text \<open>C33. The journal is strict and lossless: a file decodes to a snapshot exactly when the
snapshot has a nonzero store identity and the file is what writing that snapshot produces. Every
published journal is read back unchanged after a restart, and no other file is accepted.\<close>

theorem journal_codec_strict:
  "decode_snapshot X bs = Inr s \<longleftrightarrow> encode_snapshot X s = Inr bs \<and> as_store_instance_id s \<noteq> 0"
  by (rule decode_snapshot_iff)

text \<open>C34. The journal never outgrows its file: writing a snapshot succeeds exactly when the
snapshot validates, so none of the size, length and layout errors of the writer can occur, and the
file then has at most 104,123 bytes, a tenth of its limit.\<close>

theorem journal_always_fits:
  "(case encode_snapshot X s of Inr bs \<Rightarrow> snapshot_validate X s = Inr () \<and> length bs \<le> 104123
    | Inl e \<Rightarrow> (\<exists>m. snapshot_validate X s = Inl m \<and> e = CodecModel m))"
proof (cases "snapshot_validate X s")
  case (Inl m)
  then show ?thesis by (simp add: encode_snapshot_def)
next
  case (Inr u)
  then have wf: "snapshot_wf X s" by (simp add: snapshot_validate_iff [symmetric])
  then show ?thesis
    using encode_snapshot_wf [OF wf] payload_bounded [OF wf] Inr by (simp add: snapshot_bytes_def)
qed

text \<open>C35. Publishing a snapshot is atomic, also under power loss. When it reports success the active file
holds the new bytes and a power loss can leave nothing else. When it reports a rejection the active file
is the old one, and what a power loss may leave is unchanged. When it reports uncertainty the active
file holds the complete new bytes, and a power loss may leave these or what it could leave before. The
data of the new file is synchronised before it takes the active name, so a torn file is never among
these contents; no failure of any system call and no failpoint gives another outcome.\<close>

theorem publication_is_atomic:
  "(case publish_atomic flt d encoded token mode failpoint of
      (Inr _, d') \<Rightarrow> dir_active d' = Some encoded \<and> dir_unsynced d' = [] \<and> candidates d' = {Some encoded}
    | (Inl (PublishFailure.RejectedBeforePublish _), d') \<Rightarrow>
        dir_active d' = dir_active d \<and> dir_unsynced d' = dir_unsynced d \<and> candidates d' = candidates d
    | (Inl (PublishFailure.UncertainAfterPublish _), d') \<Rightarrow>
        dir_active d' = Some encoded
        \<and> (dir_unsynced d' = [] \<or> dir_unsynced d' = dir_unsynced d @ [dir_active d])
        \<and> candidates d' \<subseteq> insert (Some encoded) (candidates d))"
proof (cases "publish_atomic flt d encoded token mode failpoint")
  case (Pair r d')
  have out: "publish_outcome d encoded (r, d')"
    using publish_atomic_outcome [of d encoded flt token mode failpoint] unfolding Pair .
  show ?thesis
  proof (cases r)
    case (Inl e)
    show ?thesis
    proof (cases e)
      case (RejectedBeforePublish f)
      then have "same_content d d'" using out Inl by simp
      from same_candidates [OF this] this show ?thesis
        by (simp add: Pair Inl RejectedBeforePublish same_content_def)
    qed (use out Inl in \<open>simp add: Pair\<close>)
  qed (use out in \<open>simp add: Pair\<close>)
qed

text \<open>C36. One tenure per epoch and per operation, for the whole life of a store. In every state
reachable from an initialised store, through any sequence of processes that open it, answer
requests with any faults at any system call, exit or die, and through power losses that revert
what was not yet durable and tear files whose data was not, two issued tenures with the same epoch or the same operation are the
same response, and every content the active file may fall back to decodes to a valid snapshot
that still holds it. When no power is lost between a rename and its synchronisation, the same
holds of every answer, the replayed ones included.\<close>

theorem tenure_issued_once:
  assumes "authority_init X p store_id w0" "(authority_step X p seed store_id reverts)\<^sup>*\<^sup>* w0 w"
    and "r \<in> set (if reverts then w_issued w else w_returned w)"
      "r' \<in> set (if reverts then w_issued w else w_returned w)"
    and "content \<in> (if reverts then candidates (w_directory w) else {dir_active (w_directory w)})"
  shows "(response_epoch r = response_epoch r' \<or> rs_operation_id r = rs_operation_id r' \<longrightarrow> r = r')
    \<and> (\<exists>bs s. content = Some bs \<and> decode_snapshot X bs = Inr s \<and> holds_response X s r \<and> holds_response X s r')"
proof -
  have "authority_inv X p store_id reverts w" by (rule authority.reachable_inv [OF assms(1,2)])
  then have "sound_content X p store_id (set (if reverts then w_issued w else w_returned w)) content"
    using assms(5) by (cases reverts) (auto simp: authority_inv_def)
  then obtain s where s: "content = Some (snapshot_bytes X s)" "snapshot_wf X s" "as_store_instance_id s \<noteq> 0"
    "holds_response X s r" "holds_response X s r'"
    using assms(3,4) by (auto simp: sound_content_def)
  then show ?thesis
    using one_response_per_epoch [OF s(2,4,5)] decode_snapshot_bytes [OF s(2,3)] by blast
qed

lemma mset_vec_insert: "mset (vec_insert n x xs) = add_mset x (mset xs)"
proof -
  have "mset (take n xs) + mset (drop n xs) = mset xs" by (metis append_take_drop_id mset_append)
  then show ?thesis by (simp add: vec_insert_def)
qed

text \<open>The demo store, opened and granted one tenure.\<close>

lemma demo_granted:
  obtains w0 w r where "authority_init demo_externals demo_provisioning 8 w0"
    "(authority_step demo_externals demo_provisioning 5 8 True)\<^sup>*\<^sup>* w0 w" "w_issued w = [r]" "unat (response_epoch r) = 1"
proof -
  let ?X = demo_externals and ?p = demo_provisioning
  obtain s where s: "snapshot_initial ?X 8 ?p = Inr s" "active_is ?X (initial_directory ?X s) s"
    "as_store_instance_id s = 8" "as_provisioning s = ?p" "as_acquire_records s = []"
    "authority_init ?X ?p 8 \<lparr>w_directory = initial_directory ?X s, w_authority = None, w_issued = [], w_returned = []\<rparr>"
    (is "authority_init _ _ _ ?w")
    by (rule initialize_succeeds [OF demo_provisioning_valid])
  let ?d = "initial_directory ?X s"
  let ?a = "\<lparr>au_store = \<lparr>st_snapshot = s, st_state = Operational\<rparr>, au_signer = signer_of ?X ?p 5\<rparr>"
  have key: "ex_verifying_key ?X 5 = ap_verification_key ?p" by (simp add: demo_externals_def demo_provisioning_def)
  have dir: "dir_lock ?d" "dir_others ?d = []" by (simp_all add: initial_directory_def)
  note opened = open_succeeds [OF s(2-4) _ key demo_honest dir, simplified]
  have rq: "request_ok (ex_sha256 ?X) (demo_acquire 1)" using demo_acquire_ok [of 1] by simp
  have gr: "grantable ?X s (demo_acquire 1)" using s(4,5) by (intro demo_grantable) simp_all
  obtain r t where r: "unat (response_epoch r) = length (as_acquire_records s) + 1"
    and acq: "acquire_authorized_request ?X (acquire_io no_faults) (demo_acquire 1) ?a ?d =
      (case flt_call (cf_publish (af_commit (acquire_io no_faults))) 8 of
         Some kind \<Rightarrow> (Inl (map_acquire_store_error (StorePublish (PublishFailure.UncertainAfterPublish
                             (fault_io SyncDirectory kind)))), ?a\<lparr>au_store := stop (au_store ?a)\<rparr>, published (snapshot_bytes ?X t) ?d)
       | None \<Rightarrow> (Inr \<lparr>ct_response = r, ct_disposition = Issued\<rparr>,
                  ?a\<lparr>au_store := \<lparr>st_snapshot = t, st_state = Operational\<rparr>\<rparr>, sync_directory (published (snapshot_bytes ?X t) ?d)))"
    by (rule acquire_publishes [OF opened(2) gr acquire_io_healthy(1) [OF dir(2)] demo_digests [OF rq]])
  let ?d' = "sync_directory (published (snapshot_bytes ?X t) ?d)"
  have 1: "authority_step ?X ?p 5 8 True ?w (?w\<lparr>w_authority := Some ?a\<rparr>)"
    using authority_step.open_store [of ?w ?X no_open_faults 8 ?p 5 "Inr ?a" ?d True] opened(1) by simp
  have 2: "authority_step ?X ?p 5 8 True (?w\<lparr>w_authority := Some ?a\<rparr>)
      \<lparr>w_directory = ?d', w_authority = Some (?a\<lparr>au_store := \<lparr>st_snapshot = t, st_state = Operational\<rparr>\<rparr>),
       w_issued = [r], w_returned = [r]\<rparr>"
    using authority_step.acquire [of "?w\<lparr>w_authority := Some ?a\<rparr>" ?a ?X "demo_acquire 1" "acquire_io no_faults" NoFailpoint
        _ _ _ ?p 5 8 True, OF _ rq] acq
    by (simp add: acquire_authorized_request_def acquire_io_def no_faults_def)
  show thesis
    by (rule that [OF s(6) two_steps [of "authority_step ?X ?p 5 8 True", OF 1 2]]) (use r s(5) in simp_all)
qed

theorem tenure_issued_once_witness:
  "\<exists>w0 w r content. authority_init demo_externals demo_provisioning 8 w0
     \<and> (authority_step demo_externals demo_provisioning 5 8 True)\<^sup>*\<^sup>* w0 w
     \<and> w_issued w = [r] \<and> unat (response_epoch r) = 1 \<and> content \<in> candidates (w_directory w)
     \<and> (\<exists>bs s. content = Some bs \<and> decode_snapshot demo_externals bs = Inr s \<and> holds_response demo_externals s r)"
proof -
  obtain w0 w r where w: "authority_init demo_externals demo_provisioning 8 w0"
    "(authority_step demo_externals demo_provisioning 5 8 True)\<^sup>*\<^sup>* w0 w" "w_issued w = [r]" "unat (response_epoch r) = 1"
    by (rule demo_granted)
  have "\<exists>bs s. dir_active (w_directory w) = Some bs \<and> decode_snapshot demo_externals bs = Inr s
      \<and> holds_response demo_externals s r"
    using tenure_issued_once [OF w(1,2), of r r "dir_active (w_directory w)"] w(3) by (auto simp: candidates_def)
  moreover have "dir_active (w_directory w) \<in> candidates (w_directory w)" by (simp add: candidates_def)
  ultimately show ?thesis using w by blast
qed

definition ledger :: "AuthoritySnapshot \<Rightarrow> AcquireRecord list" where
  "ledger s = sort_key (unat \<circ> ar_epoch) (as_acquire_records s)"

text \<open>C37. The snapshot, kept sorted by operation, implements an append-only ledger ordered by
epoch: issuing a record appends exactly that record to the ledger, with the next epoch, keeps the
provisioning and identity, and leaves a snapshot that validates.\<close>

theorem issuance_appends_to_ledger:
  assumes "snapshot_validate X s = Inr ()"
    and "with_issued_record X s intent next_epoch next_sequence signature digest response = Inr t"
  shows "ledger t = ledger s @ [issued_record s intent next_epoch signature digest response]
    \<and> unat next_epoch = length (ledger s) + 1 \<and> snapshot_validate X t = Inr ()
    \<and> as_provisioning t = as_provisioning s \<and> as_store_instance_id t = as_store_instance_id s"
proof -
  let ?rec = "issued_record s intent next_epoch signature digest response"
  let ?f = "unat \<circ> ar_epoch"
  have wf: "snapshot_wf X s" using assms(1) by (simp add: snapshot_validate_iff)
  from with_issued_record_parts [OF assms(2)] obtain n where pre: "preflight s intent = Inr (Issue next_epoch next_sequence)"
    and val: "snapshot_validate X t = Inr ()"
    and t: "t = s\<lparr>as_acquire_records := vec_insert n ?rec (as_acquire_records s), as_epoch_high_water := next_epoch,
        as_snapshot_sequence := next_sequence\<rparr>" by blast
  have e: "unat next_epoch = length (as_acquire_records s) + 1" by (rule preflight_issue(2) [OF wf pre])
  have below: "?f r < ?f ?rec" if "r \<in> set (as_acquire_records s)" for r
  proof -
    have "?f r \<in> {1..length (as_acquire_records s)}"
      unfolding wf_epochs [OF wf, symmetric] using that by (rule imageI)
    then show ?thesis using e by (simp add: issued_record_def)
  qed
  have "inj_on ar_epoch (set (as_acquire_records t))" using val by (simp add: snapshot_validate_iff snapshot_wf_def distinct_map)
  then have inj: "inj_on ?f (set (vec_insert n ?rec (as_acquire_records s)))" by (auto simp: inj_on_def unat_eq_iff t)
  have mset: "mset (vec_insert n ?rec (as_acquire_records s)) = mset (ledger s @ [?rec])"
    by (simp add: mset_vec_insert ledger_def)
  have sorted: "sorted (map ?f (ledger s @ [?rec]))"
    using below by (auto simp: ledger_def sorted_append less_imp_le)
  have "sort_key ?f (vec_insert n ?rec (as_acquire_records s)) = ledger s @ [?rec]"
    by (rule sort_key_inj_key_eq [OF mset inj sorted])
  then show ?thesis using val e by (simp add: ledger_def t)
qed

theorem issuance_appends_to_ledger_witness:
  "\<exists>s i e q sig d response t. snapshot_validate demo_externals s = Inr ()
     \<and> with_issued_record demo_externals s i e q sig d response = Inr t
     \<and> ledger t = ledger s @ [issued_record s i e sig d response] \<and> unat e = length (ledger s) + 1"
proof -
  let ?X = demo_externals and ?p = demo_provisioning
  obtain s where s: "active_is ?X (initial_directory ?X s) s" "as_provisioning s = ?p" "as_acquire_records s = []"
    by (rule initialize_succeeds [OF demo_provisioning_valid])
  have gr: "grantable ?X s (demo_acquire 1)" using s(2,3) by (intro demo_grantable) simp_all
  have wf: "snapshot_wf ?X s" using s(1) by (simp add: active_is_def)
  have sg: "validate_provisioning ?X (signer_of ?X ?p 5) (as_provisioning s) = Inr ()"
    unfolding s(2) by (simp add: validate_provisioning_def signer_of_def demo_externals_def demo_provisioning_def)
  obtain e q r t where "issue_response ?X (signer_of ?X ?p 5) s (demo_acquire 1) (intent_of (demo_acquire 1)) e q = Inr (r, t)"
    using gr by (auto simp: grantable_def intro: issue_succeeds [OF wf _ _ sg demo_honest _ _ _ demo_digests])
  then obtain i sig d response where t: "with_issued_record ?X s i e q sig d response = Inr t"
    by (auto simp: issue_response_def and_then_eq_Inr guard_eq_Inr map_err_eq_Inr)
  have val: "snapshot_validate ?X s = Inr ()" using wf by (simp add: snapshot_validate_iff)
  show ?thesis using issuance_appends_to_ledger [OF val t] val t by blast
qed

text \<open>C38. The authority makes progress. Let a running process and its store agree and let signatures of its
key verify. A request that passes the policy, names a new operation, finds fewer than 64 records in the
history and allows a response of the size this authority produces is granted when no system call
fails and none of the three digests of its answer is zero, which the code refuses. It receives the
next epoch, the tenure is durable before the answer is given, the authority's own validation never
refuses it, and asking again with the same request returns the identical response.\<close>

theorem acquire_grants_next_epoch:
  assumes "ready X d s a" "grantable X s rq" "acquire_healthy flt d" "flt_call (cf_publish (af_commit flt)) 8 = None"
    and "0 \<notin> set (answer_digests X (au_signer a) s rq)"
  shows "\<exists>r a' d'. acquire_authorized_request X flt rq a d = (Inr \<lparr>ct_response = r, ct_disposition = Issued\<rparr>, a', d')
    \<and> unat (response_epoch r) = length (as_acquire_records s) + 1
    \<and> rs_operation_id r = ti_operation_id (rq_intent rq) \<and> dir_unsynced d' = [] \<and> candidates d' = {dir_active d'}
    \<and> acquire_authorized_request X flt rq a' d' = (Inr \<lparr>ct_response = r, ct_disposition = Replayed\<rparr>, a', d')"
proof -
  let ?d = "\<lambda>t. sync_directory (published (snapshot_bytes X t) d)"
  let ?a = "\<lambda>t. a\<lparr>au_store := \<lparr>st_snapshot = t, st_state = Operational\<rparr>\<rparr>"
  obtain r t where t: "extends X s t r" "unat (response_epoch r) = length (as_acquire_records s) + 1"
      "answers X t (rq_canonical_bytes rq) r" "rs_operation_id r = ti_operation_id (rq_intent rq)"
    and acq: "acquire_authorized_request X flt rq a d = (Inr \<lparr>ct_response = r, ct_disposition = Issued\<rparr>, ?a t, ?d t)"
    by (rule acquire_publishes [OF assms(1-3,5)]) (simp add: assms(4))
  have "ready X (?d t) t (?a t)"
    using t(1) assms(1) by (auto simp: ready_def active_is_def extends_def)
  moreover have "request_ok (ex_sha256 X) rq" "validate_request_policy X (as_provisioning t) rq = Inr ()"
    "rq_request_digest rq \<noteq> 0"
    using assms(2,5) t(1) by (auto simp: grantable_def extends_def answer_digests_def)
  ultimately have "acquire_authorized_request X flt rq (?a t) (?d t) =
      (Inr \<lparr>ct_response = r, ct_disposition = Replayed\<rparr>, ?a t, ?d t)"
    unfolding acquire_authorized_request_def using t(3) assms(3) by (intro acquire_replays) (simp_all add: acquire_healthy_def)
  moreover have "dir_unsynced (?d t) = []" by (simp add: sync_directory_def)
  ultimately show ?thesis using acq t(2,4) by auto
qed

theorem acquire_grants_next_epoch_witness:
  "\<exists>s a d r a' d'. ready demo_externals d s a \<and> grantable demo_externals s (demo_acquire 1)
     \<and> acquire_authorized_request demo_externals (acquire_io no_faults) (demo_acquire 1) a d =
         (Inr \<lparr>ct_response = r, ct_disposition = Issued\<rparr>, a', d')
     \<and> acquire_authorized_request demo_externals (acquire_io no_faults) (demo_acquire 1) a' d' =
         (Inr \<lparr>ct_response = r, ct_disposition = Replayed\<rparr>, a', d')"
proof -
  let ?X = demo_externals and ?p = demo_provisioning
  obtain s where s: "active_is ?X (initial_directory ?X s) s" "as_store_instance_id s = 8" "as_provisioning s = ?p"
    "as_acquire_records s = []" by (rule initialize_succeeds [OF demo_provisioning_valid])
  let ?d = "initial_directory ?X s"
  have key: "ex_verifying_key ?X 5 = ap_verification_key ?p" by (simp add: demo_externals_def demo_provisioning_def)
  have dir: "dir_lock ?d" "dir_others ?d = []" by (simp_all add: initial_directory_def)
  note opened = open_succeeds [OF s(1-3) _ key demo_honest dir, simplified]
  have gr: "grantable ?X s (demo_acquire 1)" using s(3,4) by (intro demo_grantable) simp_all
  have sync: "flt_call (cf_publish (af_commit (acquire_io no_faults))) 8 = None"
    by (simp add: acquire_io_def no_faults_def)
  have digests: "0 \<notin> set (answer_digests ?X sg s (demo_acquire 1))" for sg
    using gr by (intro demo_digests) (simp add: grantable_def)
  show ?thesis
    using acquire_grants_next_epoch [OF opened(2) gr acquire_io_healthy(1) [OF dir(2)] sync digests] opened(2) gr by blast
qed

text \<open>C39. Recovery has a gap: opening a store does not synchronise its directory unless orphans were
removed. After a rename whose synchronisation failed, a restarted process therefore replays a
tenure that is not yet durable; a power loss then reverts the file, and the next process issues
the same epoch to another operation. There is a run from an initialised store in which two
answers carry the same epoch and different operations.\<close>

theorem replay_before_sync_can_be_lost:
  "\<exists>w0 w r r'. authority_init demo_externals demo_provisioning 8 w0
     \<and> (authority_step demo_externals demo_provisioning 5 8 True)\<^sup>*\<^sup>* w0 w \<and> w_returned w = [r', r]
     \<and> response_epoch r = response_epoch r' \<and> rs_operation_id r \<noteq> rs_operation_id r'"
proof -
  let ?X = demo_externals and ?p = demo_provisioning
  obtain s where s: "active_is ?X (initial_directory ?X s) s" "as_store_instance_id s = 8" "as_provisioning s = ?p"
    "as_acquire_records s = []"
    "authority_init ?X ?p 8 \<lparr>w_directory = initial_directory ?X s, w_authority = None, w_issued = [], w_returned = []\<rparr>"
    (is "authority_init _ _ _ ?w") by (rule initialize_succeeds [OF demo_provisioning_valid])
  have key: "(5 :: bytes32) \<noteq> 0" "ex_verifying_key ?X 5 = ap_verification_key ?p"
    by (simp_all add: demo_externals_def demo_provisioning_def)
  have dir: "dir_lock (initial_directory ?X s)" "dir_others (initial_directory ?X s) = []"
    "dir_unsynced (initial_directory ?X s) = []" "\<not> dir_torn (initial_directory ?X s)"
    "\<not> dir_unsynced_torn (initial_directory ?X s)" by (simp_all add: initial_directory_def)
  have gr: "grantable ?X s (demo_acquire 1)" "grantable ?X s (demo_acquire 2)"
    using s(3,4) by (simp_all add: demo_grantable)
  obtain w r r' where w: "(authority_step ?X ?p 5 8 True)\<^sup>*\<^sup>* ?w w" "w_returned w = [r', r]"
    "response_epoch r = response_epoch r'" "rs_operation_id r = ti_operation_id (rq_intent (demo_acquire 1))"
    "rs_operation_id r' = ti_operation_id (rq_intent (demo_acquire 2))"
    by (rule lost_replay [OF s(1-3) key demo_honest dir gr _ refl]) (use gr in \<open>simp add: demo_digests grantable_def\<close>)
  have "rs_operation_id r \<noteq> rs_operation_id r'" by (simp add: w(4,5) demo_acquire_def demo_draft_def)
  then show ?thesis using s(5) w(1-3) by blast
qed

end
