(* ===== verification/Tenure_Entry.thy ===== *)
theory Tenure_Entry
  imports Tenure_Progress
begin

text \<open>
  The entry points of the tenure authority around its core, \<open>tenure_authority/mod.rs\<close>: building
  the provisioning, initialising a store, and reconstructing a lost initialisation receipt, with
  their error mappings and diagnostics.
\<close>

section \<open>Provisioning\<close>

datatype TenureAuthorityProvisioningError =
    InvalidIdentity
  | InvalidAuthorityKey
  | InvalidControllerPolicy
  | UnsupportedSignatureProfile

record TenureAuthorityFingerprints =
  tf_signing_key :: Digest32
  tf_policy :: Digest32
  tf_service_principal :: Digest32
  tf_owner_identity :: Digest32

record ControllerAcquireAuthorization =
  cz_principal :: PrincipalRef
  cz_key :: ControllerAcquireKeyRef
  cz_verification_key :: bytes32
  cz_public_key_fingerprint :: bytes32

definition controller_authorization_try_new ::
  "PrincipalRef \<Rightarrow> ControllerAcquireKeyRef \<Rightarrow> bytes32 \<Rightarrow> ControllerPublicKeyFingerprint \<Rightarrow>
   TenureAuthorityProvisioningError + ControllerAcquireAuthorization" where
  "controller_authorization_try_new principal_ref key verification_key public_key_fingerprint =
     Inr \<lparr>cz_principal = principal_ref, cz_key = key, cz_verification_key = verification_key,
          cz_public_key_fingerprint = public_key_fingerprint\<rparr>"

definition into_model :: "ControllerAcquireAuthorization \<Rightarrow> AcquireAuthorization" where
  "into_model self =
     \<lparr>aa_controller_principal = cz_principal self, aa_controller_key = cz_key self,
      aa_controller_verification_key = cz_verification_key self,
      aa_controller_public_key_fingerprint = cz_public_key_fingerprint self\<rparr>"

definition map_provisioning_error :: "ModelError \<Rightarrow> TenureAuthorityProvisioningError" where
  "map_provisioning_error e =
     (if e \<in> {InvalidVerificationKey, WeakVerificationKey, SigningKeyFingerprintMismatch} then InvalidAuthorityKey
      else if e \<in> {InvalidControllerVerificationKey, WeakControllerVerificationKey, InvalidControllerKeyFingerprint,
                   ControllerKeyFingerprintMismatch, ZeroControllerPrincipal, ZeroControllerKeyReference,
                   ZeroControllerKeyFingerprint}
      then InvalidControllerPolicy
      else if e = ModelError.UnsupportedSignatureProfile then UnsupportedSignatureProfile
      else InvalidIdentity)"

definition tenure_provisioning_try_new ::
  "Externals \<Rightarrow> DeploymentScopeId \<Rightarrow> DeploymentWriterRef \<Rightarrow> TenureProofAuthority \<Rightarrow> bytes32 \<Rightarrow>
   ControllerAcquireAuthorization \<Rightarrow> TenureAuthorityFingerprints \<Rightarrow>
   TenureAuthorityProvisioningError + AuthorityProvisioning" where
  "tenure_provisioning_try_new X source_scope authorized_writer proof_authority authority_verification_key
       controller_authorization fingerprints =
     map_err map_provisioning_error
       (provisioning_try_new X source_scope authorized_writer proof_authority authority_verification_key
          (into_model controller_authorization)
          \<lparr>af_signing_key = tf_signing_key fingerprints, af_policy = tf_policy fingerprints,
           af_service_principal = tf_service_principal fingerprints,
           af_owner_identity = tf_owner_identity fingerprints\<rparr>)"

definition ed25519_authority_key_fingerprint ::
  "Externals \<Rightarrow> bytes32 \<Rightarrow> TenureAuthorityProvisioningError + Digest32" where
  "ed25519_authority_key_fingerprint X verification_key =
     map_err map_provisioning_error (signing_key_fingerprint_for X verification_key)"

section \<open>Initialisation\<close>

datatype TenureAuthorityInitializationError =
    EntropyUnavailableOrInvalid
  | InvalidProvisioning
  | ReadBackFailed
  | InitializationStore TenureAuthorityFailureDiagnostic

fun map_initialization_error :: "InitializationError \<Rightarrow> TenureAuthorityInitializationError" where
  "map_initialization_error (Entropy _) = EntropyUnavailableOrInvalid"
| "map_initialization_error InvalidStoreIdentityWidth = EntropyUnavailableOrInvalid"
| "map_initialization_error InvalidTempTokenWidth = EntropyUnavailableOrInvalid"
| "map_initialization_error AllZeroTempToken = EntropyUnavailableOrInvalid"
| "map_initialization_error (InitModel _) = InvalidProvisioning"
| "map_initialization_error (InitPublish e) = InitializationStore (publish_diagnostic e)"
| "map_initialization_error ReadBackMismatch = ReadBackFailed"
| "map_initialization_error (InitStore e) = InitializationStore (store_open_diagnostic e)"
| "map_initialization_error InvalidEncodedSnapshot =
     InitializationStore (diagnostic_new ''PXTA-SNAPSHOT-ENCODE-INVALID'' ''encode_snapshot'' ''active_snapshot'' ''invalid'')"
| "map_initialization_error (InitCodec _) =
     InitializationStore (diagnostic_new ''PXTA-SNAPSHOT-ENCODE-INVALID'' ''encode_snapshot'' ''active_snapshot'' ''invalid'')"
| "map_initialization_error (InitDigest _) =
     InitializationStore (diagnostic_new ''PXTA-SNAPSHOT-DIGEST-FAILED'' ''encode_snapshot'' ''active_snapshot'' ''digest_failed'')"

definition initialize_tenure_authority_store ::
  "Externals \<Rightarrow> InitFaults \<Rightarrow> AuthorityProvisioning \<Rightarrow> Directory \<Rightarrow>
   (TenureAuthorityInitializationError + InitializationReceipt) \<times> Directory" where
  "initialize_tenure_authority_store X flt provisioning directory =
     (case initialize_with X flt provisioning NoFailpoint directory of
        (r, directory) \<Rightarrow> (map_err map_initialization_error r, directory))"

fun initialization_diagnostic :: "TenureAuthorityInitializationError \<Rightarrow> TenureAuthorityFailureDiagnostic" where
  "initialization_diagnostic EntropyUnavailableOrInvalid =
     diagnostic_new ''PXTA-INITIALIZATION-ENTROPY'' ''generate_identity'' ''state_dir'' ''entropy_invalid''"
| "initialization_diagnostic InvalidProvisioning =
     diagnostic_new ''PXTA-PROVISIONING-INVALID'' ''validate_provisioning'' ''provisioning'' ''invalid''"
| "initialization_diagnostic ReadBackFailed =
     diagnostic_new ''PXTA-SNAPSHOT-READBACK-MISMATCH'' ''read_back'' ''active_snapshot'' ''mismatch''"
| "initialization_diagnostic (InitializationStore diagnostic) = diagnostic"

section \<open>Receipt recovery\<close>

datatype TenureAuthorityReceiptRecoveryError =
    RecoveryStore TenureAuthorityFailureDiagnostic
  | NotSequenceOne
  | InvalidSnapshot

definition map_receipt_store_state_error :: "StoreError \<Rightarrow> TenureAuthorityReceiptRecoveryError" where
  "map_receipt_store_state_error e =
     RecoveryStore
       (if e = StoreError.StoreStopped
        then diagnostic_new ''PXTA-STORE-STOPPED'' ''read_snapshot'' ''active_snapshot'' ''stopped''
        else diagnostic_new ''PXTA-STORE-STATE-INVALID'' ''read_snapshot'' ''active_snapshot'' ''invalid'')"

definition reconstruct_sequence_one_initialization_receipt ::
  "Externals \<Rightarrow> OpenFaults \<Rightarrow> AuthorityProvisioning \<Rightarrow> Directory \<Rightarrow>
   (TenureAuthorityReceiptRecoveryError + InitializationReceipt) \<times> Directory" where
  "reconstruct_sequence_one_initialization_receipt X flt provisioning directory =
     (case open_validated X flt directory provisioning of
        (Inl e, directory) \<Rightarrow> (Inl (RecoveryStore (store_open_diagnostic e)), directory)
      | (Inr store, directory) \<Rightarrow>
          and_then_st (map_err map_receipt_store_state_error (store_snapshot store)) directory (\<lambda>snapshot.
          if as_snapshot_sequence snapshot \<noteq> 1 \<or> as_epoch_high_water snapshot \<noteq> 0 \<or> as_acquire_records snapshot \<noteq> []
          then (Inl NotSequenceOne, directory)
          else
          and_then_st (map_err (\<lambda>_. InvalidSnapshot) (encode_snapshot X snapshot)) directory (\<lambda>encoded.
            (map_err (\<lambda>_. InvalidSnapshot) (receipt_from_snapshot X snapshot encoded), directory))))"

fun recovery_diagnostic :: "TenureAuthorityReceiptRecoveryError \<Rightarrow> TenureAuthorityFailureDiagnostic" where
  "recovery_diagnostic (RecoveryStore diagnostic) = diagnostic"
| "recovery_diagnostic NotSequenceOne =
     diagnostic_new ''PXTA-RECEIPT-NOT-SEQUENCE-ONE'' ''validate_receipt_state'' ''active_snapshot'' ''not_sequence_one''"
| "recovery_diagnostic InvalidSnapshot =
     diagnostic_new ''PXTA-RECEIPT-SNAPSHOT-INVALID'' ''reconstruct_receipt'' ''active_snapshot'' ''invalid''"

fun open_diagnostic :: "TenureAuthorityOpenError \<Rightarrow> TenureAuthorityFailureDiagnostic" where
  "open_diagnostic InvalidExpectedStoreIdentity =
     diagnostic_new ''PXTA-EXPECTED-STORE-IDENTITY-INVALID'' ''validate_expected_store_identity'' ''active_snapshot'' ''invalid''"
| "open_diagnostic SigningKeyMismatch =
     diagnostic_new ''PXTA-AUTHORITY-KEY-MISMATCH'' ''validate_signing_key'' ''private_seed'' ''key_mismatch''"
| "open_diagnostic (OpenStore diagnostic) = diagnostic"

end
