(* ===== verification/Spec2Isabelle.thy ===== *)
theory Spec2Isabelle
  imports Admission_Properties Dispatch_Properties Executor_Budget Mailbox_Properties Planner_Properties
    Tenure_Properties Tenure_Entry
begin

text \<open>
  A verification development for ParaEGOX, the control and data plane of a component runtime.

  \<^bold>\<open>The program.\<close> A deployment controller turns plans into slices for target runtimes. To write to a
  runtime it first acquires a writer tenure from the tenure authority, a process of its own with a
  durable journal, and then sends apply requests that carry the tenure proof. The runtime admits
  a request, moves its writer fence, prepares the slice and activates it. An active slice runs
  components whose messages pass through bounded mailboxes, on worker threads whose number is
  bounded by a budget of the whole host. Everything that is signed or compared is a canonical
  byte string under a domain-separated digest.

  \<^bold>\<open>Theories and sources\<close> (paths below \<open>src/crates\<close>; \<open>kernel\<close>, \<open>contracts\<close>, \<open>runtime\<close> and \<open>deployment\<close>
  stand for \<open>paraegox-kernel/src\<close>, \<open>paraegox-runtime-contracts/src\<close>, \<open>paraegox-runtime/src\<close> and
  \<open>paraegox-deployment/src\<close>).

  \<^item> \<open>Prelude\<close>: machine words, big-endian bytes, \<open>Result\<close> as a sum with \<open>and_then\<close>, checked
    arithmetic. \<open>State_Machine\<close>: the locales that give every component its facts about whole runs.
    \<open>Binary_Search\<close>: the loop of \<open>slice::binary_search_by_key\<close> and its contract.
  \<^item> \<open>Kernel_Time\<close> (\<open>kernel/time.rs\<close>), \<open>Kernel_Digest\<close> (\<open>kernel/digest.rs\<close>).
  \<^item> \<open>Contracts_Temporal\<close>, \<open>Contracts_Provenance\<close>, \<open>Contracts_Apply\<close>, \<open>Contracts_Assignment\<close>
    (\<open>contracts/temporal.rs\<close>, \<open>provenance.rs\<close>, \<open>apply.rs\<close>, \<open>assignment.rs\<close>).
  \<^item> \<open>Apply_Envelope\<close>, \<open>Envelope_Codec\<close> (\<open>contracts/wire.rs\<close>) and \<open>Apply_Request\<close>
    (\<open>contracts/assignment.rs\<close>): the signed apply envelope, the request that carries it with the
    slice, and the strictness of both decoders. \<open>Crypto\<close>: the interface of the signature library.
  \<^item> \<open>Admission\<close> (\<open>runtime/admission.rs\<close>, \<open>request.rs\<close>): the trust policy, the replay and temporal ledgers
    and the admission of envelopes; \<open>Admission_Ledger\<close> relates the ledgers to the admitted requests
    along every run, \<open>Admission_Properties\<close> holds the properties.
  \<^item> \<open>Apply_State\<close> (\<open>runtime/apply_state.rs\<close>): \<open>evaluate_writer_fence\<close>, \<open>evaluate_prepare\<close>,
    \<open>evaluate_activate\<close> and the journal rows each transition writes.
  \<^item> \<open>Executor_Budget\<close> (\<open>runtime/executor_budget.rs\<close>): reservations of worker threads.
  \<^item> \<open>Mailbox_Data\<close>, \<open>Mailbox_Ops\<close> (\<open>runtime/mailbox.rs\<close>), with \<open>Mailbox_Inv\<close>, \<open>Mailbox\<close>,
    \<open>Mailbox_Offer\<close>, \<open>Mailbox_Machine\<close> and \<open>Mailbox_Properties\<close> for the invariant, the operations,
    the pressure policies, whole runs and the properties.
  \<^item> \<open>Dispatch_Permits\<close>, \<open>Dispatcher\<close> (\<open>runtime/dispatcher.rs\<close>): the permits of a loop domain and the choice of
    the mailbox it serves next. \<open>Dispatch_Select\<close>, \<open>Dispatch_Pass\<close>, \<open>Dispatch_Rounds\<close> and \<open>Dispatch_Turn\<close> follow
    the code from the choice within a class over a pass and the skipped rounds to the whole turn;
    \<open>Dispatch_Properties\<close> holds the properties of runs.
  \<^item> \<open>Tlv_Value\<close>, \<open>Tenure_Protocol\<close> (\<open>deployment/tenure_protocol.rs\<close>) and \<open>Tenure_Codec\<close>: the
    messages of acquiring a tenure and the strictness of their decoders, through the locale
    \<open>value_format\<close> that both message types interpret.
  \<^item> \<open>Tenure_Model\<close>, \<open>Tenure_Journal\<close>, \<open>Tenure_Store\<close>, \<open>Tenure_Authority\<close>, \<open>Tenure_Entry\<close>
    (\<open>deployment/tenure_authority/model.rs\<close>, \<open>codec.rs\<close>, \<open>store.rs\<close>, \<open>signer.rs\<close>, \<open>initializer.rs\<close>,
    \<open>mod.rs\<close>). \<open>Tenure_History\<close> shows what validation establishes, \<open>Tenure_Machine\<close> the invariant of
    a store's whole life, \<open>Tenure_Progress\<close> that requests are granted, \<open>Tenure_Properties\<close> the
    properties of the authority.
  \<^item> \<open>Service_Order\<close> (\<open>deployment/planner.rs\<close>): the startup order of services or a cycle of them, with
    \<open>Service_Startup\<close> and \<open>Service_Search\<close> for its two loops.
  \<^item> \<open>Deck_Cycle\<close>, \<open>Deck\<close> (\<open>deployment/deck.rs\<close>): a deck of cards and links, its resolution, the search for a cycle
    and the canonical lock.
  \<^item> \<open>Reference_Wire\<close>, \<open>Reference_Execution\<close> (\<open>contracts/reference_assembly.rs\<close>): build descriptors, compatibility
    manifests, projections and execution plans of the reference profile. \<open>Installation\<close>
    (\<open>contracts/installation.rs\<close>, \<open>deployment/manifest_ingress.rs\<close>): how they are generated and verified.
  \<^item> \<open>Stable_Allocation\<close>, \<open>Planner\<close> (\<open>deployment/planner.rs\<close>): the identities the controller gives to cards with the
    checks of their changes, and the planner. \<open>Allocation_Facts\<close> describes the successors of a snapshot,
    \<open>Allocation_Properties\<close> runs of changes, \<open>Planner_Facts\<close> and \<open>Planner_Properties\<close> what plans do.
  \<^item> This theory: what the authority and the runtime guarantee together.

  \<^bold>\<open>How code becomes definitions.\<close> A struct is a record, an enum a datatype, \<open>u8\<close> to \<open>u64\<close> and
  \<open>usize\<close> are words of their width, byte arrays of fixed length are words read big-endian, byte
  slices are lists of bytes. A function that returns \<open>Result\<close> returns a sum with the error on the
  left; a method with \<open>&mut self\<close> returns the result and the new state, also when it fails. Early
  returns, guards and checked arithmetic are the branches of the definition in the order of the
  code. Loops are recursive functions that terminate, except those of \<open>Service_Order\<close>, which are partial functions
  that C3 shows to return, and the visits of \<open>Deck_Cycle\<close>; no definition of the program needs fuel. Definitions
  compute, and the witnesses evaluate them.

  \<^bold>\<open>What is a parameter.\<close> SHA-256 is an argument \<open>sha256\<close>; no property assumes that it has no
  collisions: where equal digests should mean equal contents, the property concludes that the
  contents are equal or names two different byte strings with the same SHA-256 value. \<open>Externals\<close> holds, for the
  authority and for admission, SHA-256, the Ed25519 operations of \<open>ed25519_dalek\<close> and the number of hardware threads;
  \<open>honest\<close> states the documented behaviour of signing that the progress property needs, which also asks that
  the three digests of an answer are not zero, since the code refuses zero digests. \<open>Faults\<close>
  and its companions say which operating-system call fails; every property holds for every choice.

  \<^bold>\<open>What is shown.\<close>
  \<^item> Digests and contracts (C4, C8): canonical encodings are injective, commitments pin what they
    commit to, the codec of the apply envelope is strict. The theories of the contracts also show
    that deadlines never wrap and that forwarding only shrinks a budget.
  \<^item> Service dependencies (C3): validation ends and gives a startup order of all services or a cycle.
  \<^item> Stable allocations and planner (C13, C14, C20, C25): recovery accepts exactly the snapshots that changes
    produce, identities never return, every plan can be carried out, and what was brought up can be taken down.
  \<^item> Dispatcher (C1, C5, C6, C26): a turn serves whenever something can be served, skipping rounds is
    the same as passing them one by one, permits are never oversold, no slot starves its neighbours.
  \<^item> Admission (C2, C7, C15, C18): exact replays are always answered and change nothing, nonces name
    one request, deadlines of a lineage never grow, and whatever is admitted was signed.
  \<^item> Apply state (C9 to C12): prepare and activate are guarded compare-and-swap steps, the state
    invariant holds along every run, there is one writer per epoch, revisions never regress.
  \<^item> Thread budget (C16, C17), complete requests (C19), mailbox (C21 to C24, C27, C28): capacities are never
    exceeded, codecs are strict, messages are neither lost nor counted twice, shutdown completes.
  \<^item> Tenure protocol and authority (C29 to C39): strict codecs, equivalence of the parallel
    validation with the sequential one, validity as completeness of the history, a journal that
    always fits its file, atomic publication under every failure, one tenure per epoch and per
    operation through crashes and power losses, refinement of an append-only ledger, progress, and
    the gap that recovery leaves: opening a store does not make a renamed file durable before
    replaying from it.
  \<^item> Composition (C40): tenures issued by the authority, presented in admitted requests, are totally
    ordered by the runtime's fence.

  \<^bold>\<open>Bounds.\<close> \<open>usize\<close> has 64 bits. The number of records of a tenure journal is at most 64 by the
  code's own limit, from which the bound of its file follows. The reference that repeats single passes
  of the dispatcher takes a number of passes, and 1,000,001 are shown to be enough: a slot costs at most a
  million tokens and every pass adds at least one. The model of a directory keeps the
  contents that an unsynchronised rename may still revert to, and whether the data of each file was
  synchronised; a power loss picks any of these contents, and leaves anything for data that was not.

  \<^bold>\<open>Not modelled.\<close> Sockets, child processes, threads, signals and the checks of paths, modes,
  owners and mounts are operating-system behaviour; of these the store keeps that they may fail.
  Formatting of errors for display and abort points compiled only for tests are left out. The
  runtime and controller journals and stores, the request versions with execution plans and their
  admission, the bootstrap, query and receipt messages of the reference contracts, the card executor and the
  projection of plans are not modelled.

  \<^bold>\<open>Plan.\<close> In this order: the messages of the reference contracts; the card instances on the mailbox; the
  runtime journal and its recovery, on the cursor lemmas of \<open>Tenure_Journal\<close> and the directory of
  \<open>Tenure_Store\<close>; the controller journal; the projection of plans.
\<close>

section \<open>Tenures order the writers of a runtime\<close>

lemma issued_claim:
  assumes "authority_inv X p store_id reverts w" "r \<in> set (w_issued w)"
  shows "wt_source_scope (tp_claim (rs_proof r)) = ap_source_scope p" "response_epoch r \<noteq> 0"
    "wt_supersedes_through_epoch (tp_claim (rs_proof r)) = response_epoch r - 1" "presentable (rs_proof r)"
proof -
  have "sound_content X p store_id (set (w_issued w)) (dir_active (w_directory w))"
    using assms(1) by (auto simp: authority_inv_def candidates_def)
  then obtain s rec where "snapshot_wf X s" "as_provisioning s = p" "rec \<in> set (as_acquire_records s)"
    "decode_response (ex_sha256 X) (ar_exact_response_bytes rec) = Inr r"
    using assms(2) by (auto simp: sound_content_def holds_response_def)
  note rec = record_response [OF this(1,3,4)] and prov = this(2) and dec = this(4)
  have "proof_ok (rs_proof r)" using decode_response_sound(1) [OF dec] by (simp add: response_ok_def)
  with rec(6) show "presentable (rs_proof r)" by (simp add: presentable_def)
  from rec prov show "wt_source_scope (tp_claim (rs_proof r)) = ap_source_scope p"
    "response_epoch r \<noteq> 0" "wt_supersedes_through_epoch (tp_claim (rs_proof r)) = response_epoch r - 1"
    by simp_all
qed

lemma below_pred:
  assumes "(a :: u64) < b"
  shows "a \<le> b - 1"
proof -
  have "1 \<le> b" "unat a < unat b" using assms by (auto simp: word_le_nat_alt word_less_nat_alt)
  then have "unat (b - 1) = unat b - 1" by (simp add: unat_sub)
  with \<open>unat a < unat b\<close> show ?thesis by (simp add: word_le_nat_alt)
qed

text \<open>The tenure that admission derives from a request is the one its proof claims.\<close>

lemma admitted_tenure:
  assumes "admission_init y0" "(admission_step Y policy)\<^sup>*\<^sup>* y0 y" "(e, t) \<in> set (ay_log y)"
  shows "ad_tenure (xt_admitted t) =
     \<lparr>vt_source_scope = wt_source_scope (tp_claim (envelope_tenure e)), vt_writer = wt_writer (tp_claim (envelope_tenure e)),
      vt_epoch = wt_epoch (tp_claim (envelope_tenure e)),
      vt_supersedes_through_epoch = wt_supersedes_through_epoch (tp_claim (envelope_tenure e)),
      vt_proof_envelope_digest = proof_digest_of Y e, vt_principal = rc_principal (ra_claim (en_authentication e))\<rparr>"
  using reachable_admission(2) [OF assms]
  by (simp add: admissible_under_def verified_tenure_def Let_def envelope_ok_def)

text \<open>C40. The authority, admission and the runtime agree on who may write. Take two tenures a store
has issued, at any point of its life, and two requests of one principal that present them and that the runtime has
admitted, under any policy and in any order. Let the runtime's writer fence be the one of the first
request. The second request is refused as stale when its epoch is the smaller one, is accepted with the fence kept
when it presents the same tenure, and otherwise takes the fence over. The runtime never reports a fence
conflict or a tenure that fails to supersede: of two issued tenures one always fences out the
other.\<close>

theorem issued_tenures_order_writers:
  assumes "authority_init X p store_id w0" "(authority_step X p seed store_id True)\<^sup>*\<^sup>* w0 w"
    and "r \<in> set (w_issued w)" "r' \<in> set (w_issued w)"
    and "admission_init y0" "(admission_step Y policy)\<^sup>*\<^sup>* y0 y"
    and "(e, t) \<in> set (ay_log y)" "(e', t') \<in> set (ay_log y)"
    and "envelope_tenure e = rs_proof r" "envelope_tenure e' = rs_proof r'"
    and "rc_principal (ra_claim (en_authentication e)) = rc_principal (ra_claim (en_authentication e'))"
    and "st_source_scope state = ap_source_scope p"
    and "st_writer_fence state = Some (fence_of (ad_tenure (xt_admitted t)))"
    and "ensure_control_state_consistent sha256 state = Inr ()"
    and "ensure_deadline_live (ad_deadline (xt_admitted t')) reading = Inr ()"
  shows "case evaluate_writer_fence sha256 state (xt_admitted t') reading of
      Inl err \<Rightarrow> err = StaleWriterEpoch \<and> response_epoch r' < response_epoch r
    | Inr f \<Rightarrow>
        (r' = r \<and> ft_disposition f = Kept \<and> ft_next_state f = state)
        \<or> (response_epoch r < response_epoch r' \<and> ft_disposition f = Advanced
           \<and> st_writer_fence (ft_next_state f) = Some (fence_of (ad_tenure (xt_admitted t'))))"
proof -
  have inv: "authority_inv X p store_id True w" by (rule authority.reachable_inv [OF assms(1,2)])
  note c = issued_claim(1-3) [OF inv assms(3)] issued_claim(1-3) [OF inv assms(4)]
  have "sound_content X p store_id (set (w_issued w)) (dir_active (w_directory w))"
    using inv by (auto simp: authority_inv_def candidates_def)
  then obtain s where s: "snapshot_wf X s" "holds_response X s r" "holds_response X s r'"
    using assms(3,4) by (auto simp: sound_content_def)
  have same: "r' = r" if "response_epoch r' = response_epoch r"
    using one_response_per_epoch [OF s] that by simp
  note v = admitted_tenure [OF assms(5-7), unfolded assms(9)] admitted_tenure [OF assms(5,6,8), unfolded assms(10)]
  consider (older) "response_epoch r' < response_epoch r" | (equal) "r' = r" | (newer) "response_epoch r < response_epoch r'"
    using same by (metis linorder_neqE)
  then show ?thesis
  proof cases
    case older
    then show ?thesis using assms(12-15) c v by (simp add: evaluate_writer_fence_def fence_of_def Let_def)
  next
    case equal
    then show ?thesis using assms(11-15) c v by (simp add: evaluate_writer_fence_def fence_of_def Let_def)
  next
    case newer
    then have "\<not> response_epoch r' < response_epoch r" "response_epoch r' \<noteq> response_epoch r"
      "\<not> response_epoch r' - 1 < response_epoch r" using below_pred [OF newer] by (auto simp: not_less)
    with newer show ?thesis using assms(12-15) c v by (simp add: evaluate_writer_fence_def fence_of_def Let_def)
  qed
qed

theorem issued_tenures_order_writers_witness:
  "\<exists>w0 w r state f. authority_init demo_externals demo_provisioning 8 w0
     \<and> (authority_step demo_externals demo_provisioning 5 8 True)\<^sup>*\<^sup>* w0 w \<and> w_issued w = [r]
     \<and> evaluate_writer_fence (\<lambda>_. 0) state (xt_admitted (demo_transition (rs_proof r))) (demo_ingress 20) = Inr f
     \<and> ft_disposition f = Kept \<and> ft_next_state f = state"
proof -
  obtain w0 w r where w: "authority_init demo_externals demo_provisioning 8 w0"
    "(authority_step demo_externals demo_provisioning 5 8 True)\<^sup>*\<^sup>* w0 w" "w_issued w = [r]" "unat (response_epoch r) = 1"
    by (rule demo_granted)
  have p: "presentable (rs_proof r)"
    using issued_claim(4) [OF authority.reachable_inv [OF w(1,2)], of r] w(3) by simp
  let ?t = "demo_transition (rs_proof r)"
  let ?state = "\<lparr>st_source_scope = ap_source_scope demo_provisioning, st_target = 1,
      st_writer_fence = Some (fence_of (ad_tenure (xt_admitted ?t))), st_prepared = None, st_active = None\<rparr>"
  have ok: "ensure_control_state_consistent (\<lambda>_. 0) ?state = Inr ()"
    by (simp add: ensure_control_state_consistent_def ensure_active_consistent_def ensure_prepared_consistent_def)
  have live: "ensure_deadline_live (ad_deadline (xt_admitted ?t)) (demo_ingress 20) = Inr ()"
    by (simp add: demo_transition_def admission_outcome_def TemporalLedgerEntry.defs demo_ingress_def
        ensure_deadline_live_def is_expired_at_def ensure_compatible_def)
  have log: "(demo_envelope (rs_proof r), ?t) \<in> set (ay_log (demo_admitted_sys (rs_proof r)))"
    by (simp add: demo_admitted_sys_def)
  have tenure: "envelope_tenure (demo_envelope (rs_proof r)) = rs_proof r" by simp
  have "r \<in> set (w_issued w)" by (simp add: w(3))
  from issued_tenures_order_writers [OF w(1,2) this this demo_boundary_init demo_admission_run [OF p] log log tenure tenure refl _ _ ok live]
  have res: "case evaluate_writer_fence (\<lambda>_. 0) ?state (xt_admitted ?t) (demo_ingress 20) of
      Inl err \<Rightarrow> err = StaleWriterEpoch \<and> response_epoch r < response_epoch r
    | Inr f \<Rightarrow> (r = r \<and> ft_disposition f = Kept \<and> ft_next_state f = ?state)
        \<or> (response_epoch r < response_epoch r \<and> ft_disposition f = Advanced
           \<and> st_writer_fence (ft_next_state f) = Some (fence_of (ad_tenure (xt_admitted ?t))))"
    by simp
  then obtain f where "evaluate_writer_fence (\<lambda>_. 0) ?state (xt_admitted ?t) (demo_ingress 20) = Inr f" "ft_disposition f = Kept"
    "ft_next_state f = ?state"
    by (cases "evaluate_writer_fence (\<lambda>_. 0) ?state (xt_admitted ?t) (demo_ingress 20)") auto
  then show ?thesis using w(1-3) by blast
qed

end
